(* ===== verification/Prose_Prelude.thy ===== *)
theory Prose_Prelude
  imports Complex_Main "HOL-Library.Sublist"
begin

text \<open>
  Shared ground of the development: the exceptions the modelled Python code raises, the
  result type of fallible functions, the check lists that validators are written as, and
  the generic facts on lists, association lists and sequencing that the component
  theories use.

  A validator of the source returns nothing and raises on refusal; it is modelled by a
  value of type \<open>exn option\<close>: \<open>None\<close> when it returns and \<open>Some e\<close> when
  it raises \<open>e\<close>. Its body is a list of checks in the order of the code, and the
  first failing check decides which exception is raised. A function that returns a value or
  raises is modelled in \<open>exn + 'a\<close>.
\<close>

section \<open>Exceptions and results\<close>

datatype exn =
    ProtocolViolation string
  | CapabilityRefusal string string
  | BundleError string
  | ResolutionError string
  | PromotionError string
  | ValueErr string
  | KeyErr
  | TypeErr
  | AttributeErr
  | IndexErr
  | UnicodeErr
  | OSErr string
  | OtherExn string

type_synonym 'a res = "exn + 'a"
type_synonym check = "exn option"

named_theorems res_simps \<open>rewrite rules for results and check lists\<close>

definition ebind :: "'a res \<Rightarrow> ('a \<Rightarrow> 'b res) \<Rightarrow> 'b res" where
  "ebind m f = (case m of Inl e \<Rightarrow> Inl e | Inr x \<Rightarrow> f x)"

definition guard :: "bool \<Rightarrow> exn \<Rightarrow> check" where
  "guard ok e = (if ok then None else Some e)"

fun first_failure :: "check list \<Rightarrow> check" where
  "first_failure [] = None"
| "first_failure (c # cs) = (case c of None \<Rightarrow> first_failure cs | Some e \<Rightarrow> Some e)"

text \<open>Run a validator, then continue with a value.\<close>

definition checked :: "check \<Rightarrow> 'a res \<Rightarrow> 'a res" where
  "checked c m = (case c of None \<Rightarrow> m | Some e \<Rightarrow> Inl e)"

definition check_of :: "'a res \<Rightarrow> check" where
  "check_of m = (case m of Inl e \<Rightarrow> Some e | Inr _ \<Rightarrow> None)"

fun traverse_res :: "('a \<Rightarrow> 'b res) \<Rightarrow> 'a list \<Rightarrow> 'b list res" where
  "traverse_res f [] = Inr []"
| "traverse_res f (x # xs) = ebind (f x) (\<lambda>y. ebind (traverse_res f xs) (\<lambda>ys. Inr (y # ys)))"

lemma ebind_Inl [simp, res_simps]: "ebind (Inl e) f = Inl e"
  by (simp add: ebind_def)

lemma ebind_Inr [simp, res_simps]: "ebind (Inr x) f = f x"
  by (simp add: ebind_def)

lemma ebind_eq_Inr [res_simps]: "ebind m f = Inr y \<longleftrightarrow> (\<exists>x. m = Inr x \<and> f x = Inr y)"
  by (cases m) auto

lemma ebind_eq_Inl [res_simps]:
  "ebind m f = Inl e \<longleftrightarrow> m = Inl e \<or> (\<exists>x. m = Inr x \<and> f x = Inl e)"
  by (cases m) auto

lemma ebind_assoc: "ebind (ebind m f) g = ebind m (\<lambda>x. ebind (f x) g)"
  by (cases m) auto

lemma guard_eq_None [simp, res_simps]: "guard ok e = None \<longleftrightarrow> ok"
  by (simp add: guard_def)

lemma guard_eq_Some [simp, res_simps]: "guard ok e = Some e' \<longleftrightarrow> \<not> ok \<and> e' = e"
  by (auto simp: guard_def)

lemma guard_True [simp]: "guard True e = None"
  by (simp add: guard_def)

lemma guard_False [simp]: "guard False e = Some e"
  by (simp add: guard_def)

lemma first_failure_steps [simp]:
  "first_failure (None # cs) = first_failure cs"
  "first_failure (Some e # cs) = Some e"
  by simp_all

declare first_failure.simps(2) [simp del]

lemma first_failure_eq_None [res_simps]: "first_failure cs = None \<longleftrightarrow> (\<forall>c \<in> set cs. c = None)"
  by (induction cs) (auto simp: first_failure.simps split: option.splits)

lemma first_failure_Cons_None [simp]:
  "first_failure (c # cs) = None \<longleftrightarrow> c = None \<and> first_failure cs = None"
  by (cases c) auto

lemma first_failure_append_None [simp]:
  "first_failure (cs @ ds) = None \<longleftrightarrow> first_failure cs = None \<and> first_failure ds = None"
  by (induction cs) (auto split: option.splits)

lemma checked_None [simp, res_simps]: "checked None m = m"
  by (simp add: checked_def)

lemma checked_Some [simp, res_simps]: "checked (Some e) m = Inl e"
  by (simp add: checked_def)

lemma checked_eq_Inr [res_simps]: "checked c m = Inr y \<longleftrightarrow> c = None \<and> m = Inr y"
  by (cases c) auto

lemma check_of_simps [simp, res_simps]: "check_of (Inl e) = Some e" "check_of (Inr x) = None"
  by (simp_all add: check_of_def)

lemma check_of_eq_None: "check_of m = None \<longleftrightarrow> (\<exists>x. m = Inr x)"
  by (cases m) auto

lemma traverse_res_length: "traverse_res f xs = Inr ys \<Longrightarrow> length ys = length xs"
  by (induction xs arbitrary: ys) (auto simp: ebind_eq_Inr)

lemma traverse_res_all:
  "traverse_res f xs = Inr ys \<longleftrightarrow> list_all2 (\<lambda>x y. f x = Inr y) xs ys"
proof (induction xs arbitrary: ys)
  case Nil
  then show ?case by auto
next
  case (Cons x xs)
  then show ?case by (cases ys) (auto simp: ebind_eq_Inr)
qed

section \<open>Association lists as Python dictionaries\<close>

text \<open>
  A dictionary keeps the insertion order of its keys: storing under a present key keeps
  its position, and a new key goes to the end.
\<close>

fun dict_set :: "'k \<Rightarrow> 'v \<Rightarrow> ('k \<times> 'v) list \<Rightarrow> ('k \<times> 'v) list" where
  "dict_set k v [] = [(k, v)]"
| "dict_set k v ((k', v') # d) = (if k' = k then (k, v) # d else (k', v') # dict_set k v d)"

lemma map_of_dict_set [simp]: "map_of (dict_set k v d) = (map_of d)(k \<mapsto> v)"
  by (induction k v d rule: dict_set.induct) (auto simp: fun_eq_iff)

lemma keys_dict_set: "fst ` set (dict_set k v d) = insert k (fst ` set d)"
  by (induction k v d rule: dict_set.induct) auto

lemma distinct_dict_set: "distinct (map fst d) \<Longrightarrow> distinct (map fst (dict_set k v d))"
proof (induction k v d rule: dict_set.induct)
  case (2 k v k' v' d)
  have "fst ` set (dict_set k v d) = insert k (fst ` set d)" by (rule keys_dict_set)
  with 2 show ?case by auto
qed simp

lemma dict_set_absent: "k \<notin> fst ` set d \<Longrightarrow> dict_set k v d = d @ [(k, v)]"
  by (induction k v d rule: dict_set.induct) auto

section \<open>Lists\<close>

lemma map_of_eq_Some_distinct:
  "distinct (map fst d) \<Longrightarrow> map_of d k = Some v \<longleftrightarrow> (k, v) \<in> set d"
  by (rule map_of_eq_Some_iff)

lemma sorted_wrt_snoc: "sorted_wrt P (xs @ [x]) \<longleftrightarrow> sorted_wrt P xs \<and> (\<forall>y \<in> set xs. P y x)"
  by (auto simp: sorted_wrt_append)

lemma split_last: "xs \<noteq> [] \<Longrightarrow> \<exists>ys y. xs = ys @ [y]"
  by (metis rev_exhaust)

end
