(* ===== verification/Py_Value.thy ===== *)
theory Py_Value
  imports Prose_Prelude
begin

text \<open>
  The dynamically typed values the modelled Python code handles: what \<open>json.loads\<close>
  returns and what the code builds to be serialised. A \<open>str\<close> is modelled by the bytes
  of its UTF-8 encoding (lone surrogates, which JSON escapes can produce, by their
  three-byte form), so equality, prefix tests, ASCII searches and the ordering by code
  points are those of the byte lists, and lengths are counted in code points by
  \<open>py_len\<close>. A \<open>dict\<close> is an association list in insertion order.

  Equality follows Python: \<open>True == 1\<close> and \<open>1.0 == 1\<close> hold, a NaN equals nothing.
\<close>

section \<open>Values\<close>

datatype pyfloat = FFin rat | FNegZero | FPosInf | FNegInf | FNaN

datatype pyval =
    PNone
  | PBool bool
  | PInt int
  | PFloat pyfloat
  | PStr string
  | PList "pyval list"
  | PDict "(string \<times> pyval) list"

type_synonym pydict = "(string \<times> pyval) list"

named_theorems py_simps \<open>evaluation of Python primitives on values\<close>

fun is_str :: "pyval \<Rightarrow> bool" where
  "is_str (PStr _) = True" | "is_str _ = False"

fun is_dict :: "pyval \<Rightarrow> bool" where
  "is_dict (PDict _) = True" | "is_dict _ = False"

fun is_list :: "pyval \<Rightarrow> bool" where
  "is_list (PList _) = True" | "is_list _ = False"

fun is_bool :: "pyval \<Rightarrow> bool" where
  "is_bool (PBool _) = True" | "is_bool _ = False"

text \<open>\<open>type(v) is int\<close>, which is also \<open>isinstance(v, int) and not isinstance(v, bool)\<close>.\<close>

fun is_int :: "pyval \<Rightarrow> bool" where
  "is_int (PInt _) = True" | "is_int _ = False"

text \<open>\<open>isinstance(v, int)\<close>: a bool is an int.\<close>

definition is_int_or_bool :: "pyval \<Rightarrow> bool" where
  "is_int_or_bool v \<longleftrightarrow> is_int v \<or> is_bool v"

text \<open>Lists and dictionaries cannot be members of a set or keys: \<open>TypeError\<close>.\<close>

definition hashable :: "pyval \<Rightarrow> bool" where
  "hashable v \<longleftrightarrow> \<not> is_list v \<and> \<not> is_dict v"

fun int_of :: "pyval \<Rightarrow> int" where
  "int_of (PInt n) = n"
| "int_of (PBool b) = (if b then 1 else 0)"
| "int_of _ = 0"

fun str_of :: "pyval \<Rightarrow> string" where
  "str_of (PStr s) = s" | "str_of _ = []"

fun list_of :: "pyval \<Rightarrow> pyval list" where
  "list_of (PList xs) = xs" | "list_of _ = []"

fun dict_of :: "pyval \<Rightarrow> pydict" where
  "dict_of (PDict d) = d" | "dict_of _ = []"

fun float_num :: "pyfloat \<Rightarrow> rat option" where
  "float_num (FFin r) = Some r"
| "float_num FNegZero = Some 0"
| "float_num _ = None"

text \<open>Truth value of a value used as a condition.\<close>

fun py_truth :: "pyval \<Rightarrow> bool" where
  "py_truth PNone = False"
| "py_truth (PBool b) = b"
| "py_truth (PInt n) = (n \<noteq> 0)"
| "py_truth (PFloat f) = (float_num f \<noteq> Some 0)"
| "py_truth (PStr s) = (s \<noteq> [])"
| "py_truth (PList xs) = (xs \<noteq> [])"
| "py_truth (PDict d) = (d \<noteq> [])"

section \<open>Equality\<close>

text \<open>A number as Python compares it: a finite value, an infinity or NaN.\<close>

fun num_of :: "pyval \<Rightarrow> pyfloat option" where
  "num_of (PBool b) = Some (FFin (if b then 1 else 0))"
| "num_of (PInt n) = Some (FFin (of_int n))"
| "num_of (PFloat FNegZero) = Some (FFin 0)"
| "num_of (PFloat f) = Some f"
| "num_of _ = None"

definition num_eq :: "pyfloat \<Rightarrow> pyfloat \<Rightarrow> bool" where
  "num_eq a b \<longleftrightarrow> a = b \<and> a \<noteq> FNaN"

fun py_eq :: "pyval \<Rightarrow> pyval \<Rightarrow> bool"
  and py_eq_list :: "pyval list \<Rightarrow> pyval list \<Rightarrow> bool"
  and py_eq_items :: "pydict \<Rightarrow> pydict \<Rightarrow> bool" where
  "py_eq PNone w = (w = PNone)"
| "py_eq (PStr s) w = (w = PStr s)"
| "py_eq (PList xs) w = (case w of PList ys \<Rightarrow> py_eq_list xs ys | _ \<Rightarrow> False)"
| "py_eq (PDict d) w = (case w of PDict d' \<Rightarrow> length d = length d' \<and> py_eq_items d d' | _ \<Rightarrow> False)"
| "py_eq v w = (case (num_of v, num_of w) of (Some a, Some b) \<Rightarrow> num_eq a b | _ \<Rightarrow> False)"
| "py_eq_list [] ys = (ys = [])"
| "py_eq_list (x # xs) ys = (case ys of [] \<Rightarrow> False | y # ys' \<Rightarrow> py_eq x y \<and> py_eq_list xs ys')"
| "py_eq_items [] d' = True"
| "py_eq_items ((k, v) # d) d' =
     ((case map_of d' k of None \<Rightarrow> False | Some w \<Rightarrow> py_eq v w) \<and> py_eq_items d d')"

text \<open>\<open>v == n\<close> for an integer \<open>n\<close>.\<close>

definition eq_int :: "pyval \<Rightarrow> int \<Rightarrow> bool" where
  "eq_int v n = py_eq v (PInt n)"

lemma eq_int_simps [simp, py_simps]:
  "eq_int (PInt m) n \<longleftrightarrow> m = n"
  "eq_int (PBool b) n \<longleftrightarrow> (if b then 1 else 0) = n"
  "eq_int (PStr s) n \<longleftrightarrow> False"
  "eq_int PNone n \<longleftrightarrow> False"
  "eq_int (PList xs) n \<longleftrightarrow> False"
  "eq_int (PDict d) n \<longleftrightarrow> False"
  "eq_int (PFloat (FFin r)) n \<longleftrightarrow> r = of_int n"
  by (auto simp: eq_int_def num_eq_def)

lemma py_eq_str [simp, py_simps]: "py_eq v (PStr s) \<longleftrightarrow> v = PStr s"
  by (cases v) (auto split: option.splits)

text \<open>Values without floats: on them \<open>py_eq\<close> is reflexive when keys are distinct.\<close>

fun py_wf :: "pyval \<Rightarrow> bool" and py_wf_list :: "pyval list \<Rightarrow> bool"
  and py_wf_items :: "pydict \<Rightarrow> bool" where
  "py_wf (PList xs) = py_wf_list xs"
| "py_wf (PDict d) = (distinct (map fst d) \<and> py_wf_items d)"
| "py_wf (PFloat f) = (f \<noteq> FNaN)"
| "py_wf _ = True"
| "py_wf_list [] = True"
| "py_wf_list (x # xs) = (py_wf x \<and> py_wf_list xs)"
| "py_wf_items [] = True"
| "py_wf_items ((k, v) # d) = (py_wf v \<and> py_wf_items d)"

lemma py_eq_items_subset:
  assumes "\<forall>(k, v) \<in> set d. map_of d' k = Some v \<and> py_eq v v"
  shows "py_eq_items d d'"
  using assms by (induction d) auto

lemma py_eq_refl: "py_wf v \<Longrightarrow> py_eq v v"
  and py_eq_list_refl: "py_wf_list xs \<Longrightarrow> py_eq_list xs xs"
  and py_eq_items_refl: "py_wf_items d \<Longrightarrow> \<forall>(k, w) \<in> set d. py_eq w w"
proof (induction v and xs and d rule: py_wf_py_wf_list_py_wf_items.induct)
  case (2 d)
  then have "\<forall>(k, w) \<in> set d. map_of d k = Some w \<and> py_eq w w" by auto
  then show ?case by (simp add: py_eq_items_subset)
next
  case (3 f)
  then show ?case by (cases f) (auto simp: num_eq_def)
qed (auto simp: num_eq_def)

section \<open>Dictionaries\<close>

text \<open>\<open>d.get(k)\<close>; also \<open>d[k]\<close> where the code has checked that \<open>k\<close> is a key.\<close>

definition dget :: "pydict \<Rightarrow> string \<Rightarrow> pyval" where
  "dget d k = (case map_of d k of None \<Rightarrow> PNone | Some v \<Rightarrow> v)"

definition has_key :: "pydict \<Rightarrow> string \<Rightarrow> bool" where
  "has_key d k \<longleftrightarrow> map_of d k \<noteq> None"

text \<open>\<open>set(d) == {k1, ..., kn}\<close>\<close>

definition keys_are :: "pydict \<Rightarrow> string list \<Rightarrow> bool" where
  "keys_are d ks \<longleftrightarrow> list_all (\<lambda>(k, v). k \<in> set ks) d \<and> list_all (has_key d) ks"

definition keys_within :: "pydict \<Rightarrow> string list \<Rightarrow> bool" where
  "keys_within d ks \<longleftrightarrow> list_all (\<lambda>(k, v). k \<in> set ks) d"

text \<open>\<open>v in {s1, ..., sn}\<close> for a hashable \<open>v\<close> and a set of strings.\<close>

fun str_in :: "pyval \<Rightarrow> string list \<Rightarrow> bool" where
  "str_in (PStr s) ss = (s \<in> set ss)"
| "str_in _ ss = False"

lemma str_in_iff: "str_in v ss \<longleftrightarrow> (\<exists>s \<in> set ss. v = PStr s)"
  by (cases v) auto

lemma has_key_iff: "has_key d k \<longleftrightarrow> k \<in> fst ` set d"
  by (auto simp: has_key_def map_of_eq_None_iff)

lemma keys_within_iff: "keys_within d ks \<longleftrightarrow> fst ` set d \<subseteq> set ks"
  by (auto simp: keys_within_def list_all_iff)

lemma keys_are_iff: "keys_are d ks \<longleftrightarrow> fst ` set d = set ks"
proof -
  have "list_all (has_key d) ks \<longleftrightarrow> set ks \<subseteq> fst ` set d"
    by (auto simp: list_all_iff has_key_iff)
  then show ?thesis
    using keys_within_iff [of d ks] by (auto simp: keys_are_def keys_within_def)
qed

lemma dget_Cons [simp, py_simps]: "dget ((k, v) # d) k' = (if k = k' then v else dget d k')"
  by (simp add: dget_def)

lemma dget_Nil [simp, py_simps]: "dget [] k = PNone"
  by (simp add: dget_def)

lemma has_key_Cons [simp, py_simps]: "has_key ((k, v) # d) k' \<longleftrightarrow> k = k' \<or> has_key d k'"
  by (auto simp: has_key_def)

lemma has_key_Nil [simp, py_simps]: "\<not> has_key [] k"
  by (simp add: has_key_def)

lemma dget_dict_set [simp]: "dget (dict_set k v d) k' = (if k = k' then v else dget d k')"
  by (simp add: dget_def)

section \<open>Text\<close>

abbreviation byte :: "char \<Rightarrow> nat" where "byte c \<equiv> of_char c"

definition in_range :: "char \<Rightarrow> nat \<Rightarrow> nat \<Rightarrow> bool" where
  "in_range c lo hi \<longleftrightarrow> lo \<le> byte c \<and> byte c \<le> hi"

definition is_cont :: "char \<Rightarrow> bool" where
  "is_cont c \<longleftrightarrow> in_range c 128 191"

text \<open>\<open>len(s)\<close> of a string counts code points: the bytes that start one.\<close>

definition py_len :: "string \<Rightarrow> nat" where
  "py_len s = length (filter (\<lambda>c. \<not> is_cont c) s)"

text \<open>The well-formed UTF-8 byte sequences: what strict decoding accepts and encoding yields.\<close>

fun utf8_valid :: "string \<Rightarrow> bool" where
  "utf8_valid [] = True"
| "utf8_valid (a # s) =
     (if byte a < 128 then utf8_valid s
      else if in_range a 194 223 then
        (case s of b # t \<Rightarrow> is_cont b \<and> utf8_valid t | _ \<Rightarrow> False)
      else if in_range a 224 239 then
        (case s of b # c # t \<Rightarrow>
           (if byte a = 224 then in_range b 160 191
            else if byte a = 237 then in_range b 128 159 else is_cont b) \<and>
           is_cont c \<and> utf8_valid t | _ \<Rightarrow> False)
      else if in_range a 240 244 then
        (case s of b # c # d # t \<Rightarrow>
           (if byte a = 240 then in_range b 144 191
            else if byte a = 244 then in_range b 128 143 else is_cont b) \<and>
           is_cont c \<and> is_cont d \<and> utf8_valid t | _ \<Rightarrow> False)
      else False)"

text \<open>The code points of a string.\<close>

fun code_points :: "string \<Rightarrow> nat list" where
  "code_points [] = []"
| "code_points (a # s) =
     (if byte a < 192 then byte a # code_points s
      else if byte a < 224 then
        (case s of b # t \<Rightarrow> ((byte a - 192) * 64 + (byte b - 128)) # code_points t | _ \<Rightarrow> [])
      else if byte a < 240 then
        (case s of b # c # t \<Rightarrow>
           ((byte a - 224) * 4096 + (byte b - 128) * 64 + (byte c - 128)) # code_points t | _ \<Rightarrow> [])
      else
        (case s of b # c # d # t \<Rightarrow>
           ((byte a - 240) * 262144 + (byte b - 128) * 4096 + (byte c - 128) * 64 +
            (byte d - 128)) # code_points t | _ \<Rightarrow> []))"

text \<open>\<open>s.encode("utf-8")\<close> refuses lone surrogates; \<open>b.decode("utf-8")\<close> refuses malformed bytes.\<close>

definition utf8_encode :: "string \<Rightarrow> string res" where
  "utf8_encode s = (if utf8_valid s then Inr s else Inl UnicodeErr)"

definition utf8_decode :: "string \<Rightarrow> string option" where
  "utf8_decode b = (if utf8_valid b then Some b else None)"

definition is_space_cp :: "nat \<Rightarrow> bool" where
  "is_space_cp n \<longleftrightarrow> 9 \<le> n \<and> n \<le> 13 \<or> 28 \<le> n \<and> n \<le> 32 \<or>
     n \<in> {133, 160, 5760, 8232, 8233, 8239, 8287, 12288} \<or> 8192 \<le> n \<and> n \<le> 8202"

text \<open>\<open>not s.strip()\<close>\<close>

definition is_blank :: "string \<Rightarrow> bool" where
  "is_blank s \<longleftrightarrow> list_all is_space_cp (code_points s)"

definition is_digit :: "char \<Rightarrow> bool" where "is_digit c \<longleftrightarrow> in_range c 48 57"
definition is_upper :: "char \<Rightarrow> bool" where "is_upper c \<longleftrightarrow> in_range c 65 90"
definition is_lower :: "char \<Rightarrow> bool" where "is_lower c \<longleftrightarrow> in_range c 97 122"

definition is_alnum :: "char \<Rightarrow> bool" where
  "is_alnum c \<longleftrightarrow> is_digit c \<or> is_upper c \<or> is_lower c"

definition is_lower_hex :: "char \<Rightarrow> bool" where
  "is_lower_hex c \<longleftrightarrow> is_digit c \<or> in_range c 97 102"

text \<open>\<open>re.fullmatch("[0-9a-f]{n}", s)\<close>\<close>

definition hex_string :: "nat \<Rightarrow> string \<Rightarrow> bool" where
  "hex_string n s \<longleftrightarrow> length s = n \<and> list_all is_lower_hex s"

definition lower_char :: "char \<Rightarrow> char" where
  "lower_char c = (if is_upper c then char_of (byte c + 32) else c)"

text \<open>
  \<open>s.lower()\<close> as far as ASCII results go: the only non-ASCII character whose lower case
  is a single ASCII one is the Kelvin sign U+212A. Other non-ASCII characters are kept, so a
  comparison of the result with an ASCII string is exact.
\<close>

fun py_lower :: "string \<Rightarrow> string" where
  "py_lower [] = []"
| "py_lower (c # s) =
     (if take 3 (c # s) = [CHR 0xE2, CHR 0x84, CHR 0xAA] then CHR ''k'' # py_lower (drop 2 s)
      else lower_char c # py_lower s)"

text \<open>\<open>s.split("/")\<close> and its inverse.\<close>

fun split_on :: "char \<Rightarrow> string \<Rightarrow> string list" where
  "split_on c [] = [[]]"
| "split_on c (x # s) =
     (if x = c then [] # split_on c s
      else (case split_on c s of [] \<Rightarrow> [[x]] | p # ps \<Rightarrow> (x # p) # ps))"

fun join_with :: "char \<Rightarrow> string list \<Rightarrow> string" where
  "join_with c [] = []"
| "join_with c [p] = p"
| "join_with c (p # q # ps) = p @ c # join_with c (q # ps)"

lemma split_on_ne [simp]: "split_on c s \<noteq> []"
  by (induction c s rule: split_on.induct) (auto split: list.splits)

lemma split_on_Cons_obtain: obtains p ps where "split_on c s = p # ps"
  by (meson list.exhaust split_on_ne)

lemma join_split [simp]: "join_with c (split_on c s) = s"
proof (induction s)
  case (Cons x s)
  obtain p ps where "split_on c s = p # ps" by (rule split_on_Cons_obtain)
  with Cons show ?case by (cases ps) auto
qed simp

lemma split_on_no_sep: "c \<notin> set s \<Longrightarrow> split_on c s = [s]"
  by (induction s) auto

lemma split_on_parts: "p \<in> set (split_on c s) \<Longrightarrow> c \<notin> set p"
proof (induction s arbitrary: p)
  case (Cons x s)
  then show ?case by (cases "x = c"; cases "split_on c s") auto
qed simp

lemma split_on_append: "split_on c (p @ c # s) = split_on c p @ split_on c s"
proof (induction p)
  case (Cons x p)
  then show ?case by (cases "split_on c p") auto
qed simp

lemma split_join: "ps \<noteq> [] \<Longrightarrow> \<forall>p \<in> set ps. c \<notin> set p \<Longrightarrow> split_on c (join_with c ps) = ps"
  by (induction c ps rule: join_with.induct) (auto simp: split_on_no_sep split_on_append)

section \<open>Decimal rendering\<close>

fun dec_digits :: "nat \<Rightarrow> string" where
  "dec_digits n = (if n < 10 then [char_of (48 + n)] else dec_digits (n div 10) @ [char_of (48 + n mod 10)])"

declare dec_digits.simps [simp del]

fun dec_value :: "string \<Rightarrow> nat" where
  "dec_value s = foldl (\<lambda>a c. 10 * a + (byte c - 48)) 0 s"

lemma of_char_char_of_small: "n < 256 \<Longrightarrow> (of_char (char_of n) :: nat) = n"
  by simp

lemma dec_value_digits: "dec_value (dec_digits n) = n"
proof (induction n rule: dec_digits.induct)
  case (1 n)
  show ?case
  proof (cases "n < 10")
    case True
    then show ?thesis by (simp add: dec_digits.simps [of n])
  next
    case False
    have "n mod 10 < 10" by simp
    then have "48 + n mod 10 < 256" by simp
    with False 1 show ?thesis by (simp add: dec_digits.simps [of n])
  qed
qed

lemma dec_digits_inject: "dec_digits m = dec_digits n \<longleftrightarrow> m = n"
  by (metis dec_value_digits)

lemma dec_digits_all: "list_all is_digit (dec_digits n)"
proof (induction n rule: dec_digits.induct)
  case (1 n)
  show ?case
  proof (cases "n < 10")
    case False
    have "n mod 10 < 10" by simp
    with 1 False show ?thesis
      by (simp add: dec_digits.simps [of n] is_digit_def in_range_def)
  qed (simp add: dec_digits.simps [of n] is_digit_def in_range_def)
qed

lemma dec_digits_ne [simp]: "dec_digits n \<noteq> []"
  by (subst dec_digits.simps) simp

definition dec_int :: "int \<Rightarrow> string" where
  "dec_int n = (if n < 0 then CHR ''-'' # dec_digits (nat (- n)) else dec_digits (nat n))"

text \<open>\<open>f"{n:04d}"\<close> and its kin\<close>

definition zero_pad :: "nat \<Rightarrow> string \<Rightarrow> string" where
  "zero_pad w s = replicate (w - length s) (CHR ''0'') @ s"

lemma dec_value_zeros: "dec_value (replicate k (CHR ''0'') @ s) = dec_value s"
  by (induction k) (auto)

lemma zero_pad_inject: "zero_pad w (dec_digits m) = zero_pad w (dec_digits n) \<longleftrightarrow> m = n"
  unfolding zero_pad_def by (metis dec_value_digits dec_value_zeros)

end
