(* ===== verification/Py_Codec.thy ===== *)
theory Py_Codec
  imports Py_Value "HOL-Library.Word"
begin

text \<open>
  The encodings of Python's standard library that the modelled code relies on, as
  executable functions: big-endian integers (\<open>struct\<close>), SHA-256 (\<open>hashlib\<close>),
  base64 with \<open>validate=True\<close> and the JSON writer and reader (\<open>json\<close>). Byte
  strings are lists of characters. The reader takes the code's \<open>object_pairs_hook\<close>
  and \<open>parse_constant\<close> as arguments and calls them where Python does, so an exception
  raised by a hook is raised before the rest of the text is read. Not modelled: the
  interpreter's recursion limit and the limit on the number of digits of an integer.
\<close>

unbundle bit_operations_syntax

section \<open>Big-endian integers\<close>

fun be_bytes :: "nat \<Rightarrow> nat \<Rightarrow> string" where
  "be_bytes 0 n = []"
| "be_bytes (Suc k) n = be_bytes k (n div 256) @ [char_of (n mod 256)]"

definition be_value :: "string \<Rightarrow> nat" where
  "be_value s = foldl (\<lambda>a c. 256 * a + byte c) 0 s"

lemma length_be_bytes [simp]: "length (be_bytes k n) = k"
  by (induction k arbitrary: n) auto

lemma be_value_snoc: "be_value (s @ [c]) = 256 * be_value s + byte c"
  by (simp add: be_value_def)

lemma be_value_bytes: "n < 256 ^ k \<Longrightarrow> be_value (be_bytes k n) = n"
proof (induction k arbitrary: n)
  case 0
  then show ?case by (simp add: be_value_def)
next
  case (Suc k)
  have "n div 256 < 256 ^ k"
    using Suc.prems by (simp add: less_mult_imp_div_less mult.commute)
  then show ?case by (simp add: be_value_snoc Suc.IH)
qed

lemma byte_lt: "byte c < 256"
  by (rule nat_of_char_less_256)

lemma be_value_lt: "be_value s < 256 ^ length s"
proof (induction s rule: rev_induct)
  case (snoc c s)
  have "Suc (be_value s) \<le> 256 ^ length s" using snoc by simp
  then have "256 * Suc (be_value s) \<le> 256 * 256 ^ length s" by (rule mult_le_mono2)
  moreover have "256 * be_value s + byte c < 256 * Suc (be_value s)"
    using byte_lt [of c] by (simp del: nat_of_char_less_256)
  ultimately have "256 * be_value s + byte c < 256 * 256 ^ length s" by (rule less_le_trans [rotated])
  then show ?case by (simp add: be_value_snoc)
qed (simp add: be_value_def)

lemma be_bytes_value: "be_bytes (length s) (be_value s) = s"
proof (induction s rule: rev_induct)
  case (snoc c s)
  have c: "byte c < 256" by (rule byte_lt)
  then have "be_value (s @ [c]) div 256 = be_value s" "be_value (s @ [c]) mod 256 = byte c"
    by (simp_all add: be_value_snoc)
  with snoc show ?case by simp
qed simp

lemma be_bytes_inject:
  "m < 256 ^ k \<Longrightarrow> n < 256 ^ k \<Longrightarrow> be_bytes k m = be_bytes k n \<longleftrightarrow> m = n"
  by (metis be_value_bytes)

section \<open>SHA-256\<close>

type_synonym w32 = "32 word"

text \<open>The round constants and the initial state of the standard, written in decimal.\<close>

definition sha_k :: "w32 list" where
  "sha_k = [
    1116352408, 1899447441, 3049323471, 3921009573, 961987163, 1508970993,
    2453635748, 2870763221, 3624381080, 310598401, 607225278, 1426881987,
    1925078388, 2162078206, 2614888103, 3248222580, 3835390401, 4022224774,
    264347078, 604807628, 770255983, 1249150122, 1555081692, 1996064986,
    2554220882, 2821834349, 2952996808, 3210313671, 3336571891, 3584528711,
    113926993, 338241895, 666307205, 773529912, 1294757372, 1396182291,
    1695183700, 1986661051, 2177026350, 2456956037, 2730485921, 2820302411,
    3259730800, 3345764771, 3516065817, 3600352804, 4094571909, 275423344,
    430227734, 506948616, 659060556, 883997877, 958139571, 1322822218,
    1537002063, 1747873779, 1955562222, 2024104815, 2227730452, 2361852424,
    2428436474, 2756734187, 3204031479, 3329325298]"

definition sha_init :: "w32 list" where
  "sha_init = [1779033703, 3144134277, 1013904242, 2773480762,
               1359893119, 2600822924, 528734635, 1541459225]"

fun sha_words :: "string \<Rightarrow> w32 list" where
  "sha_words (a # b # c # d # s) = word_of_nat (be_value [a, b, c, d]) # sha_words s"
| "sha_words _ = []"

text \<open>The message schedule, newest word first.\<close>

fun sha_schedule :: "nat \<Rightarrow> w32 list \<Rightarrow> w32 list" where
  "sha_schedule 0 ws = ws"
| "sha_schedule (Suc n) ws =
     (let w2 = ws ! 1; w7 = ws ! 6; w15 = ws ! 14; w16 = ws ! 15;
          s0 = word_rotr 7 w15 XOR word_rotr 18 w15 XOR drop_bit 3 w15;
          s1 = word_rotr 17 w2 XOR word_rotr 19 w2 XOR drop_bit 10 w2
      in sha_schedule n ((w16 + s0 + w7 + s1) # ws))"

fun sha_round :: "w32 list \<Rightarrow> w32 \<times> w32 \<Rightarrow> w32 list" where
  "sha_round [a, b, c, d, e, f, g, h] (k, w) =
     (let s1 = word_rotr 6 e XOR word_rotr 11 e XOR word_rotr 25 e;
          ch = (e AND f) XOR (NOT e AND g);
          t1 = h + s1 + ch + k + w;
          s0 = word_rotr 2 a XOR word_rotr 13 a XOR word_rotr 22 a;
          maj = (a AND b) XOR (a AND c) XOR (b AND c)
      in [t1 + s0 + maj, a, b, c, d + t1, e, f, g])"
| "sha_round st _ = st"

definition sha_block :: "w32 list \<Rightarrow> string \<Rightarrow> w32 list" where
  "sha_block h b =
     map2 (+) h (foldl sha_round h (zip sha_k (rev (sha_schedule 48 (rev (sha_words b))))))"

fun chunks :: "nat \<Rightarrow> nat \<Rightarrow> 'a list \<Rightarrow> 'a list list" where
  "chunks 0 n xs = []"
| "chunks (Suc k) n xs = take n xs # chunks k n (drop n xs)"

definition sha_pad :: "string \<Rightarrow> string" where
  "sha_pad m =
     m @ CHR 0x80 # replicate ((119 - length m mod 64) mod 64) (CHR 0x00) @
     be_bytes 8 (8 * length m mod 2 ^ 64)"

definition hex_digit :: "nat \<Rightarrow> char" where
  "hex_digit n = char_of (if n < 10 then 48 + n else 87 + n)"

definition hex_of :: "string \<Rightarrow> string" where
  "hex_of s = concat (map (\<lambda>c. [hex_digit (byte c div 16), hex_digit (byte c mod 16)]) s)"

definition sha256 :: "string \<Rightarrow> string" where
  "sha256 m = (let p = sha_pad m in
     concat (map (\<lambda>w. be_bytes 4 (unat w)) (foldl sha_block sha_init (chunks (length p div 64) 64 p))))"

text \<open>\<open>hashlib.sha256(m).hexdigest()\<close>\<close>

definition sha256_hex :: "string \<Rightarrow> string" where
  "sha256_hex m = hex_of (sha256 m)"

lemma is_lower_hex_digit: "n < 16 \<Longrightarrow> is_lower_hex (hex_digit n)"
  by (auto simp: hex_digit_def is_lower_hex_def is_digit_def in_range_def)

lemma list_all_hex_of: "list_all is_lower_hex (hex_of s)"
proof (induction s)
  case (Cons c s)
  have "byte c < 256" by (rule byte_lt)
  then have "byte c div 16 < 16" "byte c mod 16 < 16" by (simp_all add: less_mult_imp_div_less)
  with Cons show ?case by (simp add: hex_of_def is_lower_hex_digit)
qed (simp add: hex_of_def)

lemma length_hex_of: "length (hex_of s) = 2 * length s"
  by (induction s) (simp_all add: hex_of_def)

lemma length_sha_round: "length st = 8 \<Longrightarrow> length (sha_round st kw) = 8"
proof -
  assume "length st = 8"
  then obtain a b c d e f g h where "st = [a, b, c, d, e, f, g, h]"
    by (auto simp: length_Suc_conv eval_nat_numeral)
  then show ?thesis by (cases kw) (simp add: Let_def)
qed

lemma length_foldl_sha_round: "length st = 8 \<Longrightarrow> length (foldl sha_round st kws) = 8"
  by (induction kws arbitrary: st) (auto simp: length_sha_round)

lemma length_foldl_sha_block: "length h = 8 \<Longrightarrow> length (foldl sha_block h bs) = 8"
  by (induction bs arbitrary: h) (auto simp: sha_block_def length_foldl_sha_round)

lemma length_sha256: "length (sha256 m) = 32"
proof -
  have "length (foldl sha_block sha_init bs) = 8" for bs
    by (rule length_foldl_sha_block) (simp add: sha_init_def)
  then show ?thesis
    by (simp add: sha256_def Let_def length_concat comp_def sum_list_triv)
qed

lemma hex_string_sha256 [simp]: "hex_string 64 (sha256_hex m)"
  by (simp add: hex_string_def sha256_hex_def length_hex_of length_sha256 list_all_hex_of)

section \<open>Base64\<close>

definition b64_char :: "nat \<Rightarrow> char" where
  "b64_char n = char_of (if n < 26 then 65 + n else if n < 52 then 71 + n
                         else if n < 62 then n - 4 else if n = 62 then 43 else 47)"

fun b64encode :: "string \<Rightarrow> string" where
  "b64encode [] = []"
| "b64encode [a] =
     [b64_char (byte a div 4), b64_char (byte a mod 4 * 16), CHR ''='', CHR ''='']"
| "b64encode [a, b] =
     [b64_char (byte a div 4), b64_char (byte a mod 4 * 16 + byte b div 16),
      b64_char (byte b mod 16 * 4), CHR ''='']"
| "b64encode (a # b # c # s) =
     b64_char (byte a div 4) # b64_char (byte a mod 4 * 16 + byte b div 16) #
     b64_char (byte b mod 16 * 4 + byte c div 64) # b64_char (byte c mod 64) # b64encode s"

definition b64_index :: "char \<Rightarrow> nat option" where
  "b64_index c =
     (if is_upper c then Some (byte c - 65)
      else if is_lower c then Some (byte c - 71)
      else if is_digit c then Some (byte c + 4)
      else if c = CHR ''+'' then Some 62
      else if c = CHR ''/'' then Some 63
      else None)"

abbreviation binascii_error :: exn where
  "binascii_error \<equiv> OtherExn ''binascii.Error''"

text \<open>
  The decoding loop of \<open>binascii.a2b_base64\<close> in strict mode: \<open>q\<close> data characters of
  the current group of four are read, \<open>left\<close> holds their unused bits, \<open>pads\<close> counts
  the pad characters since the last data character and \<open>started\<close> says whether there was one.
\<close>

fun b64_loop :: "string \<Rightarrow> nat \<Rightarrow> nat \<Rightarrow> nat \<Rightarrow> bool \<Rightarrow> string \<Rightarrow> string res" where
  "b64_loop [] q left pads started out = (if q = 0 then Inr out else Inl binascii_error)"
| "b64_loop (c # s) q left pads started out =
     (if c = CHR ''='' then
        (if 2 \<le> q \<and> 4 \<le> q + Suc pads then
           (if s \<noteq> [] then Inl binascii_error else Inr out)
         else b64_loop s q left (if 2 \<le> q then Suc pads else pads) True out)
      else (case b64_index c of
        None \<Rightarrow> Inl binascii_error
      | Some n \<Rightarrow>
          if started then Inl binascii_error
          else if q = 0 then b64_loop s 1 n 0 False out
          else if q = 1 then b64_loop s 2 (n mod 16) 0 False (out @ [char_of (left * 4 + n div 16)])
          else if q = 2 then b64_loop s 3 (n mod 4) 0 False (out @ [char_of (left * 16 + n div 4)])
          else b64_loop s 0 0 0 False (out @ [char_of (left * 64 + n)])))"

text \<open>\<open>base64.b64decode(s, validate=True)\<close> of a string.\<close>

definition b64decode :: "string \<Rightarrow> string res" where
  "b64decode s =
     (if \<not> list_all (\<lambda>c. byte c < 128) s then Inl (ValueErr ''non-ascii'')
      else if take 1 s = ''='' then Inl binascii_error
      else b64_loop s 0 0 0 False [])"

text \<open>The same function on any value: only a string (or bytes, which JSON never yields) is accepted.\<close>

fun b64decode_any :: "pyval \<Rightarrow> string res" where
  "b64decode_any (PStr s) = b64decode s"
| "b64decode_any _ = Inl TypeErr"

end
