(* ===== verification/Py_Json.thy ===== *)
theory Py_Json
  imports Py_Codec
begin

text \<open>
  The JSON writer and reader of Python's \<open>json\<close> module. Floats are binary64 values: the
  reader rounds a decimal literal to the nearest one (ties to even) and the writer prints the
  shortest decimal that reads back as the same value, in the layout of \<open>float.__repr__\<close>.
\<close>

section \<open>Binary64\<close>

definition pow2 :: "int \<Rightarrow> rat" where
  "pow2 e = (if e \<ge> 0 then 2 ^ nat e else 1 / 2 ^ nat (- e))"

definition pow10 :: "int \<Rightarrow> rat" where
  "pow10 e = (if e \<ge> 0 then 10 ^ nat e else 1 / 10 ^ nat (- e))"

fun nat_log :: "nat \<Rightarrow> nat \<Rightarrow> nat" where
  "nat_log b n = (if b < 2 \<or> n < b then 0 else Suc (nat_log b (n div b)))"

declare nat_log.simps [simp del]

text \<open>\<open>floor (log b r)\<close> for a positive rational.\<close>

definition floor_log2 :: "rat \<Rightarrow> int" where
  "floor_log2 r = (case quotient_of r of (p, q) \<Rightarrow>
     (let e = int (nat_log 2 (nat p)) - int (nat_log 2 (nat q))
      in if pow2 e \<le> r then e else e - 1))"

definition floor_log10 :: "rat \<Rightarrow> int" where
  "floor_log10 r = (case quotient_of r of (p, q) \<Rightarrow>
     (let e = int (nat_log 10 (nat p)) - int (nat_log 10 (nat q))
      in if pow10 e \<le> r then e else e - 1))"

definition round_even :: "rat \<Rightarrow> int" where
  "round_even r = (let f = \<lfloor>r\<rfloor>; d = r - of_int f in
     if d < 1 / 2 then f else if d > 1 / 2 then f + 1 else if even f then f else f + 1)"

definition round_pos64 :: "rat \<Rightarrow> rat option" where
  "round_pos64 r =
     (let q = max (floor_log2 r - 52) (- 1074); v = of_int (round_even (r / pow2 q)) * pow2 q
      in if v \<ge> pow2 1024 then None else Some v)"

definition round64 :: "rat \<Rightarrow> pyfloat" where
  "round64 r =
     (if r = 0 then FFin 0
      else if r > 0 then (case round_pos64 r of None \<Rightarrow> FPosInf | Some v \<Rightarrow> FFin v)
      else (case round_pos64 (- r) of None \<Rightarrow> FNegInf | Some v \<Rightarrow> FFin (- v)))"

text \<open>The shortest digits \<open>(m, e)\<close> with \<open>m * 10 ^ e\<close> rounding to the positive \<open>r\<close>.\<close>

fun shortest :: "nat \<Rightarrow> nat \<Rightarrow> rat \<Rightarrow> int \<times> int" where
  "shortest 0 n r = (0, 0)"
| "shortest (Suc k) n r =
     (let e = floor_log10 r + 1 - int n; lo = \<lfloor>r / pow10 e\<rfloor>; hi = lo + 1;
          oklo = round_pos64 (of_int lo * pow10 e) = Some r \<and> lo > 0;
          okhi = round_pos64 (of_int hi * pow10 e) = Some r
      in if oklo \<and> okhi then
           (if r - of_int lo * pow10 e \<le> of_int hi * pow10 e - r then (lo, e) else (hi, e))
         else if oklo then (lo, e) else if okhi then (hi, e) else shortest k (Suc n) r)"

definition strip_zeros :: "string \<Rightarrow> string" where
  "strip_zeros s = rev (dropWhile (\<lambda>c. c = CHR ''0'') (rev s))"

definition layout_float :: "string \<Rightarrow> int \<Rightarrow> string" where
  "layout_float ds pt =
     (if - 4 < pt \<and> pt \<le> 16 then
        (if pt \<le> 0 then ''0.'' @ replicate (nat (- pt)) (CHR ''0'') @ ds
         else if int (length ds) \<le> pt then ds @ replicate (nat pt - length ds) (CHR ''0'') @ ''.0''
         else take (nat pt) ds @ ''.'' @ drop (nat pt) ds)
      else
        (take 1 ds @ (if length ds \<le> 1 then [] else ''.'' @ drop 1 ds) @ ''e'' @
         (if pt - 1 < 0 then ''-'' else ''+'') @ zero_pad 2 (dec_digits (nat \<bar>pt - 1\<bar>))))"

definition pos_repr :: "rat \<Rightarrow> string" where
  "pos_repr r = (case shortest 17 1 r of (m, e) \<Rightarrow>
     (let raw = dec_digits (nat m) in layout_float (strip_zeros raw) (int (length raw) + e)))"

fun float_repr :: "pyfloat \<Rightarrow> string" where
  "float_repr (FFin r) = (if r = 0 then ''0.0'' else if r > 0 then pos_repr r else CHR ''-'' # pos_repr (- r))"
| "float_repr FNegZero = ''-0.0''"
| "float_repr FPosInf = ''Infinity''"
| "float_repr FNegInf = ''-Infinity''"
| "float_repr FNaN = ''NaN''"

section \<open>The writer\<close>

definition hex4 :: "nat \<Rightarrow> string" where
  "hex4 n = [hex_digit (n div 4096 mod 16), hex_digit (n div 256 mod 16),
             hex_digit (n div 16 mod 16), hex_digit (n mod 16)]"

abbreviation backslash :: char where "backslash \<equiv> CHR 0x5C"

definition escape_ascii :: "char \<Rightarrow> string" where
  "escape_ascii c =
     (if c = CHR 0x22 then [backslash, CHR 0x22]
      else if c = backslash then [backslash, backslash]
      else if byte c = 10 then [backslash, CHR ''n'']
      else if byte c = 13 then [backslash, CHR ''r'']
      else if byte c = 9 then [backslash, CHR ''t'']
      else if byte c = 8 then [backslash, CHR ''b'']
      else if byte c = 12 then [backslash, CHR ''f'']
      else if byte c < 32 then backslash # CHR ''u'' # hex4 (byte c)
      else [c])"

definition escape_cp :: "nat \<Rightarrow> string" where
  "escape_cp n =
     (if n < 127 then escape_ascii (char_of n)
      else if n < 65536 then backslash # CHR ''u'' # hex4 n
      else backslash # CHR ''u'' # hex4 (55296 + (n - 65536) div 1024) @
           backslash # CHR ''u'' # hex4 (56320 + (n - 65536) mod 1024))"

text \<open>\<open>ensure_ascii\<close> as the first argument. DEL is escaped by neither mode.\<close>

definition json_string :: "bool \<Rightarrow> string \<Rightarrow> string" where
  "json_string ascii s =
     CHR 0x22 # (if ascii then concat (map (\<lambda>n. if n = 127 then [CHR 0x7F] else escape_cp n) (code_points s))
                 else concat (map escape_ascii s)) @ [CHR 0x22]"

fun str_le :: "string \<Rightarrow> string \<Rightarrow> bool" where
  "str_le [] t = True"
| "str_le (a # s) t = (case t of [] \<Rightarrow> False | b # t' \<Rightarrow> byte a < byte b \<or> a = b \<and> str_le s t')"

fun insert_item :: "string \<times> 'a \<Rightarrow> (string \<times> 'a) list \<Rightarrow> (string \<times> 'a) list" where
  "insert_item x [] = [x]"
| "insert_item x (y # ys) = (if str_le (fst x) (fst y) then x # y # ys else y # insert_item x ys)"

definition sort_items :: "(string \<times> 'a) list \<Rightarrow> (string \<times> 'a) list" where
  "sort_items d = foldr insert_item d []"

record json_style =
  ensure_ascii :: bool
  sort_keys :: bool
  item_sep :: string
  key_sep :: string

fun intersperse :: "string \<Rightarrow> string list \<Rightarrow> string" where
  "intersperse sep [] = []"
| "intersperse sep [x] = x"
| "intersperse sep (x # y # xs) = x @ sep @ intersperse sep (y # xs)"

text \<open>\<open>json.dumps(v, ...)\<close>; the items of a dictionary are rendered first and then ordered.\<close>

fun json_dumps :: "json_style \<Rightarrow> pyval \<Rightarrow> string"
  and json_dumps_list :: "json_style \<Rightarrow> pyval list \<Rightarrow> string list"
  and json_dumps_items :: "json_style \<Rightarrow> pydict \<Rightarrow> (string \<times> string) list" where
  "json_dumps st PNone = ''null''"
| "json_dumps st (PBool b) = (if b then ''true'' else ''false'')"
| "json_dumps st (PInt n) = dec_int n"
| "json_dumps st (PFloat f) = float_repr f"
| "json_dumps st (PStr s) = json_string (ensure_ascii st) s"
| "json_dumps st (PList xs) = ''['' @ intersperse (item_sep st) (json_dumps_list st xs) @ '']''"
| "json_dumps st (PDict d) =
     (let items = json_dumps_items st d;
          ordered = (if sort_keys st then sort_items items else items)
      in ''{'' @ intersperse (item_sep st)
           (map (\<lambda>(k, t). json_string (ensure_ascii st) k @ key_sep st @ t) ordered) @ ''}'')"
| "json_dumps_list st [] = []"
| "json_dumps_list st (x # xs) = json_dumps st x # json_dumps_list st xs"
| "json_dumps_items st [] = []"
| "json_dumps_items st ((k, v) # d) = (k, json_dumps st v) # json_dumps_items st d"

section \<open>The reader\<close>

abbreviation json_error :: exn where
  "json_error \<equiv> OtherExn ''json.JSONDecodeError''"

definition is_ws :: "char \<Rightarrow> bool" where
  "is_ws c \<longleftrightarrow> c = CHR '' '' \<or> byte c = 9 \<or> byte c = 10 \<or> byte c = 13"

abbreviation skip_ws :: "string \<Rightarrow> string" where "skip_ws \<equiv> dropWhile is_ws"

definition hex_value :: "char \<Rightarrow> nat option" where
  "hex_value c =
     (if is_digit c then Some (byte c - 48)
      else if in_range c 97 102 then Some (byte c - 87)
      else if in_range c 65 70 then Some (byte c - 55) else None)"

fun hex4_value :: "string \<Rightarrow> (nat \<times> string) option" where
  "hex4_value (a # b # c # d # s) =
     (case (hex_value a, hex_value b, hex_value c, hex_value d) of
        (Some w, Some x, Some y, Some z) \<Rightarrow> Some (w * 4096 + x * 256 + y * 16 + z, s)
      | _ \<Rightarrow> None)"
| "hex4_value _ = None"

definition utf8_of_cp :: "nat \<Rightarrow> string" where
  "utf8_of_cp n =
     (if n < 128 then [char_of n]
      else if n < 2048 then [char_of (192 + n div 64), char_of (128 + n mod 64)]
      else if n < 65536 then
        [char_of (224 + n div 4096), char_of (128 + n div 64 mod 64), char_of (128 + n mod 64)]
      else [char_of (240 + n div 262144), char_of (128 + n div 4096 mod 64),
            char_of (128 + n div 64 mod 64), char_of (128 + n mod 64)])"

text \<open>A \<open>\\u\<close> escape, joined with a following low surrogate when it is a high one.\<close>

definition unicode_escape :: "string \<Rightarrow> (string \<times> string) option" where
  "unicode_escape s = (case hex4_value s of None \<Rightarrow> None | Some (u, t) \<Rightarrow>
     if 55296 \<le> u \<and> u \<le> 56319 \<and> take 2 t = [backslash, CHR ''u''] then
       (case hex4_value (drop 2 t) of None \<Rightarrow> None | Some (v, t') \<Rightarrow>
          if 56320 \<le> v \<and> v \<le> 57343
          then Some (utf8_of_cp (65536 + (u - 55296) * 1024 + (v - 56320)), t')
          else Some (utf8_of_cp u, t))
     else Some (utf8_of_cp u, t))"

definition simple_escape :: "char \<Rightarrow> string option" where
  "simple_escape c =
     (if c = CHR 0x22 then Some [CHR 0x22] else if c = backslash then Some [backslash]
      else if c = CHR ''/'' then Some ''/'' else if c = CHR ''b'' then Some [CHR 0x08]
      else if c = CHR ''f'' then Some [CHR 0x0C] else if c = CHR ''n'' then Some [CHR 0x0A]
      else if c = CHR ''r'' then Some [CHR 0x0D] else if c = CHR ''t'' then Some [CHR 0x09] else None)"

fun scan_string :: "nat \<Rightarrow> string \<Rightarrow> string \<Rightarrow> (string \<times> string) option" where
  "scan_string 0 s acc = None"
| "scan_string (Suc fuel) s acc = (case s of
     [] \<Rightarrow> None
   | c # t \<Rightarrow>
       if c = CHR 0x22 then Some (acc, t)
       else if byte c < 32 then None
       else if c = backslash then
         (case t of [] \<Rightarrow> None
          | e # t' \<Rightarrow>
              if e = CHR ''u'' then
                (case unicode_escape t' of None \<Rightarrow> None
                 | Some (x, r) \<Rightarrow> scan_string fuel r (acc @ x))
              else (case simple_escape e of None \<Rightarrow> None | Some x \<Rightarrow> scan_string fuel t' (acc @ x)))
       else scan_string fuel t (acc @ [c]))"

definition int_part :: "string \<Rightarrow> (string \<times> string) option" where
  "int_part s = (case s of [] \<Rightarrow> None
     | c # t \<Rightarrow> if c = CHR ''0'' then Some (''0'', t)
       else if is_digit c then Some (takeWhile is_digit s, dropWhile is_digit s) else None)"

definition frac_part :: "string \<Rightarrow> string \<times> string" where
  "frac_part s = (case s of c # d # t \<Rightarrow>
       if c = CHR ''.'' \<and> is_digit d then (takeWhile is_digit (d # t), dropWhile is_digit (d # t))
       else ([], s)
     | _ \<Rightarrow> ([], s))"

definition exp_part :: "string \<Rightarrow> int option \<times> string" where
  "exp_part s = (case s of [] \<Rightarrow> (None, s)
     | e # t \<Rightarrow>
       if e = CHR ''e'' \<or> e = CHR ''E'' then
         (let neg = take 1 t = ''-''; u = (if take 1 t = ''-'' \<or> take 1 t = ''+'' then drop 1 t else t)
          in if takeWhile is_digit u = [] then (None, s)
             else (Some ((if neg then - 1 else 1) * int (dec_value (takeWhile is_digit u))),
                   dropWhile is_digit u))
       else (None, s))"

definition scan_number :: "string \<Rightarrow> (pyval \<times> string) option" where
  "scan_number s =
     (let neg = take 1 s = ''-''; u = (if take 1 s = ''-'' then drop 1 s else s) in
      case int_part u of None \<Rightarrow> None
      | Some (ip, r) \<Rightarrow>
          (let (fp, r') = frac_part r; (ex, r'') = exp_part r';
               sign = (if neg then - 1 else 1 :: int)
           in if fp = [] \<and> ex = None then Some (PInt (sign * int (dec_value ip)), r)
              else (let e = (case ex of None \<Rightarrow> 0 | Some e \<Rightarrow> e) - int (length fp);
                        m = int (dec_value (ip @ fp));
                        f = (if m = 0 \<and> neg then FNegZero else round64 (of_int (sign * m) * pow10 e))
                    in Some (PFloat f, r''))))"

record json_hooks =
  pairs_hook :: "pydict \<Rightarrow> pyval res"
  constant_hook :: "string \<Rightarrow> pyval res"

fun scan_value :: "json_hooks \<Rightarrow> nat \<Rightarrow> string \<Rightarrow> (pyval \<times> string) res"
  and scan_items :: "json_hooks \<Rightarrow> nat \<Rightarrow> string \<Rightarrow> pyval list \<Rightarrow> (pyval \<times> string) res"
  and scan_pairs :: "json_hooks \<Rightarrow> nat \<Rightarrow> string \<Rightarrow> pydict \<Rightarrow> (pyval \<times> string) res" where
  "scan_value h 0 s = Inl json_error"
| "scan_value h (Suc fuel) s = (case s of
     [] \<Rightarrow> Inl json_error
   | c # t \<Rightarrow>
       if c = CHR 0x22 then
         (case scan_string (Suc (length t)) t [] of
            None \<Rightarrow> Inl json_error | Some (x, r) \<Rightarrow> Inr (PStr x, r))
       else if c = CHR ''{'' then
         (if take 1 (skip_ws t) = ''}''
          then ebind (pairs_hook h []) (\<lambda>v. Inr (v, drop 1 (skip_ws t)))
          else scan_pairs h fuel (skip_ws t) [])
       else if c = CHR ''['' then
         (if take 1 (skip_ws t) = '']'' then Inr (PList [], drop 1 (skip_ws t))
          else scan_items h fuel (skip_ws t) [])
       else if take 4 s = ''null'' then Inr (PNone, drop 4 s)
       else if take 4 s = ''true'' then Inr (PBool True, drop 4 s)
       else if take 5 s = ''false'' then Inr (PBool False, drop 5 s)
       else if take 3 s = ''NaN'' then ebind (constant_hook h ''NaN'') (\<lambda>v. Inr (v, drop 3 s))
       else if take 8 s = ''Infinity'' then ebind (constant_hook h ''Infinity'') (\<lambda>v. Inr (v, drop 8 s))
       else if take 9 s = ''-Infinity'' then ebind (constant_hook h ''-Infinity'') (\<lambda>v. Inr (v, drop 9 s))
       else (case scan_number s of None \<Rightarrow> Inl json_error | Some x \<Rightarrow> Inr x))"
| "scan_items h 0 s acc = Inl json_error"
| "scan_items h (Suc fuel) s acc =
     ebind (scan_value h fuel s) (\<lambda>(v, r).
       case skip_ws r of
         c # t \<Rightarrow> if c = CHR '']'' then Inr (PList (acc @ [v]), t)
                  else if c = CHR '','' then scan_items h fuel (skip_ws t) (acc @ [v])
                  else Inl json_error
       | [] \<Rightarrow> Inl json_error)"
| "scan_pairs h 0 s acc = Inl json_error"
| "scan_pairs h (Suc fuel) s acc = (case s of
     [] \<Rightarrow> Inl json_error
   | q # t \<Rightarrow>
       if q \<noteq> CHR 0x22 then Inl json_error
       else (case scan_string (Suc (length t)) t [] of
         None \<Rightarrow> Inl json_error
       | Some (k, r) \<Rightarrow>
           (case skip_ws r of
              [] \<Rightarrow> Inl json_error
            | c # r' \<Rightarrow>
                if c \<noteq> CHR '':'' then Inl json_error
                else ebind (scan_value h fuel (skip_ws r')) (\<lambda>(v, u).
                  case skip_ws u of
                    e # w \<Rightarrow>
                      if e = CHR ''}'' then ebind (pairs_hook h (acc @ [(k, v)])) (\<lambda>x. Inr (x, w))
                      else if e = CHR '','' then scan_pairs h fuel (skip_ws w) (acc @ [(k, v)])
                      else Inl json_error
                  | [] \<Rightarrow> Inl json_error))))"

text \<open>\<open>json.loads(s, object_pairs_hook=..., parse_constant=...)\<close> of a string.\<close>

definition json_loads :: "json_hooks \<Rightarrow> string \<Rightarrow> pyval res" where
  "json_loads h s =
     ebind (scan_value h (Suc (2 * length s)) (skip_ws s)) (\<lambda>(v, r).
       if skip_ws r = [] then Inr v else Inl json_error)"

text \<open>The default hooks: the last of several values of a key wins, constants are floats.\<close>

fun dict_of_pairs :: "pydict \<Rightarrow> pydict \<Rightarrow> pydict" where
  "dict_of_pairs acc [] = acc"
| "dict_of_pairs acc ((k, v) # ps) = dict_of_pairs (dict_set k v acc) ps"

definition default_hooks :: json_hooks where
  "default_hooks = \<lparr>
     pairs_hook = (\<lambda>ps. Inr (PDict (dict_of_pairs [] ps))),
     constant_hook = (\<lambda>c. Inr (PFloat (if c = ''NaN'' then FNaN
                                         else if c = ''Infinity'' then FPosInf else FNegInf)))\<rparr>"

end
