(* ===== verification/Hosted_Protocol.thy ===== *)
theory Hosted_Protocol
  imports Py_Json
begin

text \<open>
  The wire protocol of the scripted hosted service,
  \<^verbatim>\<open>cli/conformance/fake-hosted-service/protocol.py\<close>: canonical frames, the two
  content channels of a start record and the validation of every record a client may send.
  Each validator is the list of its checks in the order of the code. A value that Python
  cannot hash is refused by \<open>TypeError\<close> where the code tests membership in a set, and
  a record that is not an object by \<open>AttributeError\<close>; both are kept as branches.
\<close>

section \<open>Constants\<close>

definition WIRE_SCHEMA :: string where
  "WIRE_SCHEMA = ''openprose.hosted-wire/1''"

definition MAX_CONTENT_BYTES :: nat where
  "MAX_CONTENT_BYTES = 1024 * 1024"

definition START_KEYS :: "string list" where
  "START_KEYS = [
    ''schema'', ''type'', ''requestId'', ''invocationId'', ''idempotencyKey'',
    ''placementCandidate'', ''auth'', ''billing'', ''runtimeImage'', ''taskEnvelope'',
    ''stream'']"

definition CAPABILITY_ERROR_CODES :: "string list" where
  "CAPABILITY_ERROR_CODES = [
    ''CAPABILITY_PATH_REJECTED'', ''CAPABILITY_SYMLINK_REJECTED'',
    ''CAPABILITY_NOT_FOUND'', ''CAPABILITY_NOT_FILE'', ''CAPABILITY_INPUT_LIMIT'',
    ''CAPABILITY_OUTPUT_LIMIT'', ''CAPABILITY_SHELL_REJECTED'',
    ''CAPABILITY_EXECUTABLE_REJECTED'', ''CAPABILITY_ENV_REJECTED'',
    ''CAPABILITY_OPERATION_REJECTED'', ''CAPABILITY_EXECUTION_FAILED'']"

section \<open>Frames\<close>

definition canonical_style :: json_style where
  "canonical_style =
     \<lparr>ensure_ascii = False, sort_keys = True, item_sep = '','', key_sep = '':''\<rparr>"

definition canonical_json_bytes :: "pyval \<Rightarrow> string res" where
  "canonical_json_bytes v = utf8_encode (json_dumps canonical_style v)"

definition encode_frame :: "pyval \<Rightarrow> int \<Rightarrow> string res" where
  "encode_frame v max_bytes =
     ebind (canonical_json_bytes v) (\<lambda>b.
       let encoded = b @ [CHR 0x0A] in
       if int (length encoded) > max_bytes
       then Inl (ProtocolViolation
              (''encoded frame is '' @ dec_digits (length encoded) @
               '' bytes, exceeding limit '' @ dec_int max_bytes))
       else Inr encoded)"

section \<open>Content channels\<close>

text \<open>\<open>try: base64.b64decode(...) except (binascii.Error, TypeError)\<close>\<close>

definition decode_or :: "string \<Rightarrow> pyval \<Rightarrow> string res" where
  "decode_or message v = (case b64decode_any v of
     Inr b \<Rightarrow> Inr b
   | Inl e \<Rightarrow> if e = binascii_error \<or> e = TypeErr then Inl (ProtocolViolation message) else Inl e)"

definition decode_content :: "pydict \<Rightarrow> bool \<Rightarrow> string res" where
  "decode_content value require_utf8 =
     checked (guard (keys_are value [''encoding'', ''byteLength'', ''sha256'', ''bytesBase64''])
       (ProtocolViolation ''content object has unknown or missing fields''))
     (ebind (decode_or ''content bytesBase64 is invalid'' (dget value ''bytesBase64'')) (\<lambda>decoded.
        checked (first_failure [
          guard (length decoded \<le> MAX_CONTENT_BYTES)
            (ProtocolViolation ''content exceeds fixture limit''),
          guard (eq_int (dget value ''byteLength'') (int (length decoded)))
            (ProtocolViolation ''content byteLength does not match decoded bytes''),
          guard (dget value ''sha256'' = PStr (sha256_hex decoded))
            (ProtocolViolation ''content sha256 does not match decoded bytes''),
          guard (require_utf8 \<longrightarrow> utf8_valid decoded)
            (ProtocolViolation ''content is not valid UTF-8'')])
        (Inr decoded)))"

section \<open>Record validation\<close>

definition bounded_int :: "pyval \<Rightarrow> int \<Rightarrow> int \<Rightarrow> bool" where
  "bounded_int value minimum maximum \<longleftrightarrow>
     is_int value \<and> minimum \<le> int_of value \<and> int_of value \<le> maximum"

text \<open>\<open>not isinstance(value, str) or not value or len(value) > 128\<close>, negated\<close>

definition valid_id :: "pyval \<Rightarrow> bool" where
  "valid_id v \<longleftrightarrow> is_str v \<and> str_of v \<noteq> [] \<and> py_len (str_of v) \<le> 128"

definition validate_correlation_ids :: "pydict \<Rightarrow> bool \<Rightarrow> check" where
  "validate_correlation_ids record include_capability =
     first_failure (map
       (\<lambda>name. guard (valid_id (dget record name)) (ProtocolViolation (name @ '' is invalid'')))
       ([''requestId'', ''runId''] @ (if include_capability then [''correlationId''] else [])))"

definition validate_start :: "pydict \<Rightarrow> check" where
  "validate_start record =
    (let auth = dget record ''auth''; billing = dget record ''billing'';
         image = dget record ''runtimeImage''; task = dget record ''taskEnvelope'';
         stream = dget record ''stream'' in
     first_failure [
       guard (keys_are record START_KEYS)
         (ProtocolViolation ''run.start has unknown or missing fields''),
       guard (valid_id (dget record ''requestId'')) (ProtocolViolation ''requestId is invalid''),
       guard (valid_id (dget record ''invocationId'')) (ProtocolViolation ''invocationId is invalid''),
       guard (valid_id (dget record ''idempotencyKey''))
         (ProtocolViolation ''idempotencyKey is invalid''),
       guard (hashable (dget record ''placementCandidate'')) TypeErr,
       guard (str_in (dget record ''placementCandidate'')
           [''local-loop-gateway'', ''hosted-agent-local-capability-bridge''])
         (ProtocolViolation ''placementCandidate is invalid''),
       guard (is_dict auth \<and> keys_are (dict_of auth) [''category'', ''credentialTransport''])
         (ProtocolViolation ''auth must be closed and secret-free''),
       guard (py_eq auth (PDict [(''category'', PStr ''none-test-only''),
                                 (''credentialTransport'', PStr ''none'')]))
         (ProtocolViolation ''only secret-free fixture auth is accepted''),
       guard (is_dict billing \<and> keys_are (dict_of billing) [''owner'', ''usageAuthority''])
         (ProtocolViolation ''billing fields are invalid''),
       guard (dget (dict_of billing) ''owner'' = PStr ''openprose'')
         (ProtocolViolation ''billing values are invalid''),
       guard (hashable (dget (dict_of billing) ''usageAuthority'')) TypeErr,
       guard (str_in (dget (dict_of billing) ''usageAuthority'')
           [''fixture-authoritative'', ''unavailable''])
         (ProtocolViolation ''billing values are invalid''),
       guard (is_dict image \<and> is_dict task)
         (ProtocolViolation ''runtimeImage and taskEnvelope must be separate objects''),
       guard (dget (dict_of image) ''encoding'' = PStr ''utf-8'' \<and>
              dget (dict_of task) ''encoding'' = PStr ''json-utf-8'')
         (ProtocolViolation ''content encoding is invalid''),
       check_of (decode_content (dict_of image) True),
       check_of (decode_content (dict_of task) True),
       guard (is_dict stream \<and> keys_are (dict_of stream)
           [''initialCredit'', ''maxInFlight'', ''maxFrameBytes'', ''maxQueuedFrames''])
         (ProtocolViolation ''stream fields are invalid''),
       guard (bounded_int (dget (dict_of stream) ''initialCredit'') 0 16)
         (ProtocolViolation ''initialCredit is invalid''),
       guard (bounded_int (dget (dict_of stream) ''maxInFlight'') 1 16)
         (ProtocolViolation ''maxInFlight is invalid''),
       guard (bounded_int (dget (dict_of stream) ''maxQueuedFrames'') 1 16)
         (ProtocolViolation ''maxQueuedFrames is invalid''),
       guard (bounded_int (dget (dict_of stream) ''maxFrameBytes'') 256 65536)
         (ProtocolViolation ''maxFrameBytes is invalid'')])"

definition validate_stream_credit :: "pydict \<Rightarrow> check" where
  "validate_stream_credit record =
     first_failure [
       guard (keys_are record
           [''schema'', ''type'', ''requestId'', ''runId'', ''acknowledgeThrough'', ''grant''])
         (ProtocolViolation ''stream.credit has unknown or missing fields''),
       guard (bounded_int (dget record ''acknowledgeThrough'') 0 (2 ^ 63 - 1))
         (ProtocolViolation ''stream.credit acknowledgeThrough is invalid''),
       guard (bounded_int (dget record ''grant'') 1 16)
         (ProtocolViolation ''stream.credit grant is invalid''),
       validate_correlation_ids record False]"

definition validate_lifecycle_signal :: "pydict \<Rightarrow> check" where
  "validate_lifecycle_signal record =
    (let reason = dget record ''reason'' in
     first_failure [
       guard (list_all (has_key record) [''schema'', ''type'', ''requestId'', ''runId''] \<and>
              keys_within record [''schema'', ''type'', ''requestId'', ''runId'', ''reason''])
         (ProtocolViolation ''lifecycle signal has unknown or missing fields''),
       guard (reason = PNone \<or>
              is_str reason \<and> py_len (str_of reason) \<le> 256 \<and> CHR 0x00 \<notin> set (str_of reason))
         (ProtocolViolation ''lifecycle reason is invalid''),
       validate_correlation_ids record False])"

text \<open>The payload of a \<open>capability.error\<close> record.\<close>

definition validate_capability_error :: "pydict \<Rightarrow> check" where
  "validate_capability_error payload =
     first_failure [
       guard (keys_are payload [''code'', ''message''])
         (ProtocolViolation ''capability error has unknown or missing fields''),
       guard (hashable (dget payload ''code'')) TypeErr,
       guard (str_in (dget payload ''code'') CAPABILITY_ERROR_CODES)
         (ProtocolViolation ''capability error code is invalid''),
       guard (is_str (dget payload ''message'') \<and> 1 \<le> py_len (str_of (dget payload ''message'')) \<and>
              py_len (str_of (dget payload ''message'')) \<le> 256)
         (ProtocolViolation ''capability error message is invalid'')]"

text \<open>The payload of a \<open>capability.result\<close> record: one of three closed shapes.\<close>

definition validate_capability_result :: "pydict \<Rightarrow> check" where
  "validate_capability_result payload =
    (let invalid = (\<lambda>name. ''capability result '' @ name @ '' is invalid'') in
     first_failure (
       [guard (keys_are payload [''bytesBase64'', ''byteLength''] \<or>
               keys_are payload [''bytesWritten''] \<or>
               keys_are payload [''exitCode'', ''stdoutBase64'', ''stderrBase64''])
          (ProtocolViolation ''capability result has unknown or missing fields'')] @
       map (\<lambda>name. if has_key payload name
                   then check_of (decode_or (invalid name) (dget payload name)) else None)
         [''bytesBase64'', ''stdoutBase64'', ''stderrBase64''] @
       map (\<lambda>name. guard (has_key payload name \<longrightarrow>
                          bounded_int (dget payload name) 0 (int MAX_CONTENT_BYTES))
                     (ProtocolViolation (invalid name)))
         [''byteLength'', ''bytesWritten''] @
       [(if has_key payload ''bytesBase64'' then
           (case b64decode_any (dget payload ''bytesBase64'') of
              Inl e \<Rightarrow> Some e
            | Inr b \<Rightarrow> guard (eq_int (dget payload ''byteLength'') (int (length b)))
                (ProtocolViolation ''capability result byteLength does not match decoded bytes''))
         else None),
        guard (has_key payload ''exitCode'' \<longrightarrow> bounded_int (dget payload ''exitCode'') 0 255)
          (ProtocolViolation ''capability result exitCode is invalid'')]))"

definition validate_capability_response :: "pydict \<Rightarrow> check" where
  "validate_capability_response record =
    (let payload_name = (if dget record ''type'' = PStr ''capability.result''
                         then ''result'' else ''error'');
         payload = dget record payload_name in
     first_failure [
       guard (keys_are record
           [''schema'', ''type'', ''requestId'', ''runId'', ''correlationId'', payload_name])
         (ProtocolViolation ''capability response has unknown or missing fields''),
       validate_correlation_ids record True,
       guard (is_dict payload)
         (ProtocolViolation ''capability response payload must be an object''),
       (if payload_name = ''error'' then validate_capability_error (dict_of payload)
        else validate_capability_result (dict_of payload))])"

definition validate_record :: "pyval \<Rightarrow> check" where
  "validate_record value =
    (let record = dict_of value; record_type = dget record ''type'' in
     if \<not> is_dict value then Some AttributeErr
     else if dget record ''schema'' \<noteq> PStr WIRE_SCHEMA
       then Some (ProtocolViolation ''unsupported hosted wire schema'')
     else if record_type = PStr ''run.start'' then validate_start record
     else if record_type = PStr ''stream.credit'' then validate_stream_credit record
     else if \<not> hashable record_type then Some TypeErr
     else if str_in record_type [''run.cancel'', ''run.timeout'', ''run.disconnect'']
       then validate_lifecycle_signal record
     else if str_in record_type [''capability.result'', ''capability.error'']
       then validate_capability_response record
     else if \<not> is_str record_type then Some (ProtocolViolation ''record type is required'')
     else (case canonical_json_bytes value of
             Inl e \<Rightarrow> Some e
           | Inr encoded \<Rightarrow> guard (length encoded + 1 \<le> 65536)
               (ProtocolViolation ''record exceeds absolute fixture frame limit'')))"

section \<open>Idempotency fingerprint\<close>

definition without_key :: "string \<Rightarrow> pydict \<Rightarrow> pydict" where
  "without_key k d = filter (\<lambda>(k', v). k' \<noteq> k) d"

definition start_fingerprint :: "pydict \<Rightarrow> string res" where
  "start_fingerprint record =
     (if dget record ''type'' \<noteq> PStr ''run.start''
      then Inl (ProtocolViolation ''only run.start records have idempotency fingerprints'')
      else ebind (canonical_json_bytes (PDict (without_key ''requestId'' record)))
             (\<lambda>b. Inr (sha256_hex b)))"

end
