(* ===== verification/Hosted_Service.thy ===== *)
theory Hosted_Service
  imports Hosted_Protocol
begin

text \<open>
  The scripted hosted service, \<^verbatim>\<open>cli/conformance/fake-hosted-service/fake_hosted_service.py\<close>.
  A \<open>_Run\<close> object is the record \<open>run\<close>; the service keeps its runs by identifier and an
  idempotency table whose entries name a run, so that both tables share one mutable object as in
  the code. An operation returns its result (or the exception it raises) and the state it leaves,
  also when it raises: Python keeps the assignments made before the exception.
\<close>

section \<open>Constants\<close>

definition SCENARIOS :: "string list" where
  "SCENARIOS = [
    ''local-loop-gateway'', ''hosted-agent-local-capability-bridge'', ''usage-unavailable'',
    ''auth-required'', ''quota-exceeded'', ''unavailable'', ''backpressure'', ''no-terminal'',
    ''capability-traversal'', ''capability-symlink'', ''capability-nul'', ''capability-shell'']"

definition RUN_ID :: string where "RUN_ID = ''fixture-run-0001''"

definition CAPABILITY_ID :: string where "CAPABILITY_ID = ''fixture-capability-0001''"

definition REJECTION_ERRORS :: "string \<rightharpoonup> string \<times> int \<times> bool" where
  "REJECTION_ERRORS = map_of [
    (''auth-required'', (''HOSTED_AUTH_REQUIRED'', 10, False)),
    (''quota-exceeded'', (''HOSTED_QUOTA_EXCEEDED'', 10, False)),
    (''unavailable'', (''HOSTED_UNAVAILABLE'', 10, False))]"

definition LIFECYCLE :: "string \<rightharpoonup> string \<times> int \<times> bool \<times> string" where
  "LIFECYCLE = map_of [
    (''cancel'', (''CANCELLED'', 24, True, ''cancelled'')),
    (''timeout'', (''STARTUP_TIMEOUT'', 21, True, ''timeout'')),
    (''disconnect'', (''PROTOCOL_TRUNCATED'', 22, True, ''runner-error''))]"

definition RACE_PRIORITY :: "string \<rightharpoonup> int" where
  "RACE_PRIORITY = map_of [(''cancel'', 0), (''timeout'', 1), (''disconnect'', 2)]"

section \<open>Lifecycle races\<close>

text \<open>A checked signal: its cause and its time.\<close>

definition lifecycle_candidate :: "pydict \<Rightarrow> (string \<times> int) res" where
  "lifecycle_candidate signal =
    (let cause = dget signal ''cause''; at_ms = dget signal ''atMs'' in
     checked (first_failure [
       guard (keys_are signal [''cause'', ''atMs''])
         (ProtocolViolation ''lifecycle signal has unknown or missing fields''),
       guard (hashable cause) TypeErr,
       guard (is_str cause \<and> RACE_PRIORITY (str_of cause) \<noteq> None \<and> is_int at_ms \<and> 0 \<le> int_of at_ms)
         (ProtocolViolation ''lifecycle signal is invalid'')])
     (Inr (str_of cause, int_of at_ms)))"

definition race_key :: "string \<times> int \<Rightarrow> int \<times> int" where
  "race_key c = (snd c, case RACE_PRIORITY (fst c) of None \<Rightarrow> 0 | Some p \<Rightarrow> p)"

definition key_less :: "int \<times> int \<Rightarrow> int \<times> int \<Rightarrow> bool" where
  "key_less a b \<longleftrightarrow> fst a < fst b \<or> fst a = fst b \<and> snd a < snd b"

text \<open>\<open>min(xs, key=...)\<close>: the first of the minimal elements.\<close>

fun min_first :: "string \<times> int \<Rightarrow> (string \<times> int) list \<Rightarrow> string \<times> int" where
  "min_first m [] = m"
| "min_first m (c # cs) = min_first (if key_less (race_key c) (race_key m) then c else m) cs"

definition choose_lifecycle_winner :: "pydict list \<Rightarrow> (string \<times> int) res" where
  "choose_lifecycle_winner signals =
     ebind (traverse_res lifecycle_candidate signals) (\<lambda>candidates.
       case candidates of
         [] \<Rightarrow> Inl (ProtocolViolation ''lifecycle race requires at least one signal'')
       | c # cs \<Rightarrow> Inr (min_first c cs))"

section \<open>Runs\<close>

record run =
  scenario :: string
  start_billing :: pydict
  run_id :: string
  request_id :: string
  invocation_id :: string
  idempotency_key :: string
  fingerprint :: string
  placement :: string
  seqno :: int
  pending_deltas :: "string list"
  outstanding :: "int list"
  credit :: int
  max_in_flight :: int
  max_in_flight_observed :: int
  max_frame_bytes :: int
  max_queued_frames :: int
  max_queued_frames_observed :: int
  replays :: int
  side_effect_executions :: int
  capability_requested :: int
  capability_completed :: int
  capability_rejected :: int
  capability_correlation_failures :: int
  expected_capability_id :: "string option"
  terminal_record :: "pydict option"
  lifecycle_winner :: string
  usage :: pydict
  usage_emitted :: bool
  image_sha :: pyval
  task_sha :: pyval
  exact_image :: bool
  exact_task :: bool

definition new_run :: "string \<Rightarrow> pydict \<Rightarrow> string \<Rightarrow> run res" where
  "new_run scen start rid =
    (let stream = dict_of (dget start ''stream'');
         image = dict_of (dget start ''runtimeImage'');
         task = dict_of (dget start ''taskEnvelope'');
         billing = dict_of (dget start ''billing'') in
     ebind (start_fingerprint start) (\<lambda>fp.
     ebind (decode_content image True) (\<lambda>image_bytes.
     ebind (decode_content task True) (\<lambda>task_bytes.
       Inr \<lparr>
         scenario = scen, start_billing = billing, run_id = rid,
         request_id = str_of (dget start ''requestId''),
         invocation_id = str_of (dget start ''invocationId''),
         idempotency_key = str_of (dget start ''idempotencyKey''),
         fingerprint = fp,
         placement = str_of (dget start ''placementCandidate''),
         seqno = 0, pending_deltas = [], outstanding = [],
         credit = min (int_of (dget stream ''initialCredit'')) (int_of (dget stream ''maxInFlight'')),
         max_in_flight = int_of (dget stream ''maxInFlight''),
         max_in_flight_observed = 0,
         max_frame_bytes = int_of (dget stream ''maxFrameBytes''),
         max_queued_frames = int_of (dget stream ''maxQueuedFrames''),
         max_queued_frames_observed = (if scen = ''backpressure'' then 1 else 0),
         replays = 0, side_effect_executions = 1,
         capability_requested = 0, capability_completed = 0, capability_rejected = 0,
         capability_correlation_failures = 0, expected_capability_id = None,
         terminal_record = None, lifecycle_winner = ''none'',
         usage = [(''authority'', dget billing ''usageAuthority'')], usage_emitted = False,
         image_sha = dget image ''sha256'', task_sha = dget task ''sha256'',
         exact_image = eq_int (dget image ''byteLength'') (int (length image_bytes)),
         exact_task = eq_int (dget task ''byteLength'') (int (length task_bytes))\<rparr>))))"

text \<open>
  \<open>_Run.record\<close>: the fields of the record may be replaced by the caller's values, the sequence
  number is used up even when the frame is then refused.
\<close>

definition run_record :: "string \<Rightarrow> pydict \<Rightarrow> run \<Rightarrow> pydict res \<times> run" where
  "run_record record_type values r =
    (let base = [(''schema'', PStr WIRE_SCHEMA), (''type'', PStr record_type),
                 (''requestId'', PStr (request_id r)), (''runId'', PStr (run_id r)),
                 (''sequence'', PInt (seqno r))];
         rec = dict_of_pairs base values;
         r' = r\<lparr>seqno := seqno r + 1\<rparr> in
     case encode_frame (PDict rec) (max_frame_bytes r) of
       Inl e \<Rightarrow> (Inl e, r')
     | Inr _ \<Rightarrow> (Inr rec, r'))"

definition semantic_unknown :: "string \<Rightarrow> pyval" where
  "semantic_unknown reason =
     PDict [(''status'', PStr ''unknown''), (''reason'', PStr reason),
            (''externalSchemaAvailable'', PBool False)]"

definition error_value :: "string \<Rightarrow> int \<Rightarrow> bool \<Rightarrow> pyval" where
  "error_value code exit_code retryable =
     PDict [(''code'', PStr code), (''exitCode'', PInt exit_code), (''retryable'', PBool retryable)]"

definition run_terminal ::
  "string \<Rightarrow> int \<Rightarrow> bool \<Rightarrow> string \<Rightarrow> string \<Rightarrow> (string \<times> int) option \<Rightarrow> run \<Rightarrow> pydict res \<times> run" where
  "run_terminal code exit_code retryable classification semantic_reason lifecycle r =
     (case terminal_record r of
        Some t \<Rightarrow> (Inr t, r)
      | None \<Rightarrow>
          (let values =
             [(''terminal'', PBool True), (''classification'', PStr classification),
              (''semantic'', semantic_unknown semantic_reason),
              (''error'', error_value code exit_code retryable),
              (''fallbackSelected'', PBool False)] @
             (case lifecycle of None \<Rightarrow> []
              | Some (w, t) \<Rightarrow> [(''lifecycle'', PDict [(''winner'', PStr w), (''atMs'', PInt t)])]) in
           case run_record ''run.terminal'' values r of
             (Inl e, r') \<Rightarrow> (Inl e, r')
           | (Inr rec, r') \<Rightarrow> (Inr rec, r'\<lparr>terminal_record := Some rec\<rparr>)))"

definition semantic_unknown_terminal :: "run \<Rightarrow> pydict res \<times> run" where
  "semantic_unknown_terminal =
     run_terminal ''SEMANTIC_STATUS_UNKNOWN'' 23 False ''runner-error''
       ''external-terminal-schema-unavailable'' None"

definition run_rejected :: "string \<Rightarrow> run \<Rightarrow> pydict res \<times> run" where
  "run_rejected scen r =
     (case REJECTION_ERRORS scen of
        None \<Rightarrow> (Inl KeyErr, r)
      | Some (code, exit_code, retryable) \<Rightarrow>
          (case run_record ''run.rejected''
             [(''terminal'', PBool True), (''classification'', PStr ''runner-error''),
              (''semantic'', semantic_unknown ''transport-did-not-complete''),
              (''error'', error_value code exit_code retryable),
              (''fallbackSelected'', PBool False)] r of
             (Inl e, r') \<Rightarrow> (Inl e, r')
           | (Inr rec, r') \<Rightarrow> (Inr rec, r'\<lparr>terminal_record := Some rec\<rparr>)))"

definition lifecycle_terminal :: "string \<times> int \<Rightarrow> run \<Rightarrow> pydict res \<times> run" where
  "lifecycle_terminal winner r =
     (case LIFECYCLE (fst winner) of
        None \<Rightarrow> (Inl KeyErr, r)
      | Some (code, exit_code, retryable, classification) \<Rightarrow>
          run_terminal code exit_code retryable classification ''transport-did-not-complete''
            (Some winner) (r\<lparr>lifecycle_winner := fst winner\<rparr>))"

definition run_usage :: "run \<Rightarrow> pydict res \<times> run" where
  "run_usage r =
     (if usage_emitted r
      then (Inl (ProtocolViolation ''usage evidence was emitted more than once''), r)
      else if dget (start_billing r) ''usageAuthority'' = PStr ''unavailable''
              \<or> scenario r = ''usage-unavailable''
      then run_record ''usage.report''
             [(''authority'', PStr ''unavailable''), (''reason'', PStr ''fixture-usage-disabled'')]
             (r\<lparr>usage_emitted := True, usage := [(''authority'', PStr ''unavailable'')]\<rparr>)
      else run_record ''usage.report''
             [(''authority'', PStr ''fixture-authoritative''),
              (''usage'', PDict [(''inputTokens'', PInt 7), (''outputTokens'', PInt 3)]),
              (''cost'', PDict [(''currency'', PStr ''USD''), (''amountMicros'', PInt 11)])]
             (r\<lparr>usage_emitted := True, usage := [(''authority'', PStr ''fixture-authoritative'')]\<rparr>))"

text \<open>Sequence two record-producing steps of a run; the second one does not run after an exception.\<close>

definition then_record ::
  "pydict list res \<times> run \<Rightarrow> (run \<Rightarrow> pydict res \<times> run) \<Rightarrow> pydict list res \<times> run" where
  "then_record m f = (case m of
     (Inl e, r) \<Rightarrow> (Inl e, r)
   | (Inr recs, r) \<Rightarrow> (case f r of
        (Inl e, r') \<Rightarrow> (Inl e, r')
      | (Inr rec, r') \<Rightarrow> (Inr (recs @ [rec]), r')))"

text \<open>
  The loop of \<open>_drain\<close>; its first argument is the list of pending deltas, whose head the
  body removes before it builds the record.
\<close>

fun drain_loop :: "string list \<Rightarrow> run \<Rightarrow> pydict list \<Rightarrow> pydict list res \<times> run" where
  "drain_loop [] r records = (Inr records, r)"
| "drain_loop (text # rest) r records =
     (if credit r > 0 \<and> int (length (outstanding r)) < max_in_flight r then
        (let part = (if scenario r = ''backpressure'' then 6 - int (length (text # rest)) else 0) in
         case run_record ''assistant.delta'' [(''part'', PInt part), (''text'', PStr text)]
                (r\<lparr>pending_deltas := rest\<rparr>) of
           (Inl e, r') \<Rightarrow> (Inl e, r')
         | (Inr rec, r') \<Rightarrow>
             (let out = outstanding r' @ [int_of (dget rec ''sequence'')] in
              drain_loop rest
                (r'\<lparr>outstanding := out,
                    max_in_flight_observed := max (max_in_flight_observed r') (int (length out)),
                    credit := credit r' - 1\<rparr>)
                (records @ [rec])))
      else (Inr records, r))"

definition drain :: "run \<Rightarrow> pydict list res \<times> run" where
  "drain r =
     (case drain_loop (pending_deltas r) r [] of
        (Inl e, r') \<Rightarrow> (Inl e, r')
      | (Inr records, r') \<Rightarrow>
          if pending_deltas r' \<noteq> [] then (Inr records, r')
          else if scenario r' = ''no-terminal'' then
            (if usage_emitted r' then (Inr records, r')
             else then_record (Inr records, r') run_usage)
          else then_record (then_record (Inr records, r') run_usage) semantic_unknown_terminal)"

definition credit_check :: "pydict \<Rightarrow> run \<Rightarrow> check" where
  "credit_check record r =
    (let acknowledge = dget record ''acknowledgeThrough''; grant = dget record ''grant'' in
     first_failure [
       guard (keys_are record
           [''schema'', ''type'', ''requestId'', ''runId'', ''acknowledgeThrough'', ''grant''])
         (ProtocolViolation ''stream.credit has unknown or missing fields''),
       guard (is_int acknowledge \<and> 0 \<le> int_of acknowledge)
         (ProtocolViolation ''stream.credit acknowledgement is invalid''),
       guard (is_int grant \<and> 1 \<le> int_of grant \<and> int_of grant \<le> 16)
         (ProtocolViolation ''stream.credit grant is invalid''),
       guard (filter (\<lambda>value. value \<le> int_of acknowledge) (outstanding r) \<noteq> [])
         (ProtocolViolation ''stream.credit does not acknowledge an outstanding data record'')])"

definition run_credit :: "pydict \<Rightarrow> run \<Rightarrow> pydict list res \<times> run" where
  "run_credit record r =
     (case credit_check record r of
        Some e \<Rightarrow> (Inl e, r)
      | None \<Rightarrow>
          (let acknowledge = int_of (dget record ''acknowledgeThrough'');
               grant = int_of (dget record ''grant'');
               out = filter (\<lambda>value. value > acknowledge) (outstanding r);
               available_slots = max_in_flight r - int (length out) in
           drain (r\<lparr>outstanding := out, credit := credit r + min grant available_slots\<rparr>)))"

definition is_capability_scenario :: "string \<Rightarrow> bool" where
  "is_capability_scenario s \<longleftrightarrow> s \<in> set [
     ''hosted-agent-local-capability-bridge'', ''capability-traversal'', ''capability-symlink'',
     ''capability-nul'', ''capability-shell'']"

definition capability_operation :: "string \<Rightarrow> string \<times> pydict" where
  "capability_operation s =
     (if s = ''capability-traversal'' then
        (''workspace.read'', [(''path'', PStr ''../outside''), (''maxBytes'', PInt 64)])
      else if s = ''capability-symlink'' then
        (''workspace.read'', [(''path'', PStr ''link/outside.txt''), (''maxBytes'', PInt 64)])
      else if s = ''capability-nul'' then
        (''workspace.read'', [(''path'', PStr (''bad'' @ [CHR 0x00] @ ''path'')), (''maxBytes'', PInt 64)])
      else if s = ''capability-shell'' then
        (''process.exec'',
         [(''argv'', PList [PStr ''sh'', PStr ''-c'', PStr ''touch escaped'']), (''cwd'', PStr ''.''),
          (''env'', PDict []), (''timeoutMs'', PInt 50), (''maxOutputBytes'', PInt 128)])
      else (''workspace.read'', [(''path'', PStr ''input.txt''), (''maxBytes'', PInt 64)]))"

definition capability_request :: "run \<Rightarrow> pydict res \<times> run" where
  "capability_request r =
     (case capability_operation (scenario r) of (operation, arguments) \<Rightarrow>
        run_record ''capability.request''
          [(''correlationId'', PStr CAPABILITY_ID), (''operation'', PStr operation),
           (''arguments'', PDict arguments)]
          (r\<lparr>capability_requested := capability_requested r + 1,
             expected_capability_id := Some CAPABILITY_ID\<rparr>))"

text \<open>\<open>value == expected\<close> where the expected identifier may be \<open>None\<close>.\<close>

definition opt_str_eq :: "pyval \<Rightarrow> string option \<Rightarrow> bool" where
  "opt_str_eq v e \<longleftrightarrow> (case e of None \<Rightarrow> v = PNone | Some s \<Rightarrow> v = PStr s)"

definition capability_response :: "pydict \<Rightarrow> run \<Rightarrow> pydict list res \<times> run" where
  "capability_response record r =
     (if dget record ''requestId'' \<noteq> PStr (request_id r)
         \<or> \<not> opt_str_eq (dget record ''correlationId'') (expected_capability_id r)
      then (Inl (ProtocolViolation
              ''capability response correlation does not match the pending request''),
            r\<lparr>capability_correlation_failures := capability_correlation_failures r + 1\<rparr>)
      else if dget record ''type'' = PStr ''capability.error'' then
        then_record
          (Inr [], r\<lparr>expected_capability_id := None, capability_rejected := capability_rejected r + 1\<rparr>)
          (run_terminal ''LOCAL_CAPABILITY_REJECTED'' 22 False ''runner-error''
             ''transport-did-not-complete'' None)
      else
        then_record (then_record
          (Inr [], r\<lparr>expected_capability_id := None, capability_completed := capability_completed r + 1\<rparr>)
          run_usage) semantic_unknown_terminal)"

section \<open>The service\<close>

record service =
  svc_scenario :: string
  runs :: "string \<rightharpoonup> run"
  idempotency :: "string \<rightharpoonup> string"
  next_run :: nat

definition new_service :: "string \<Rightarrow> service res" where
  "new_service scen =
     (if scen \<notin> set SCENARIOS then Inl (ValueErr (''unknown fake hosted scenario: '' @ scen))
      else Inr \<lparr>svc_scenario = scen, runs = Map.empty, idempotency = Map.empty, next_run = 1\<rparr>)"

text \<open>Run an operation of the run stored under \<open>rid\<close> and store the run it leaves.\<close>

definition on_run ::
  "string \<Rightarrow> run \<Rightarrow> (run \<Rightarrow> 'a res \<times> run) \<Rightarrow> service \<Rightarrow> 'a res \<times> service" where
  "on_run rid r f s = (case f r of (v, r') \<Rightarrow> (v, s\<lparr>runs := (runs s)(rid \<mapsto> r')\<rparr>))"

definition validate_placement :: "string \<Rightarrow> run \<Rightarrow> check" where
  "validate_placement scen r =
    (let expected = (if is_capability_scenario scen then ''hosted-agent-local-capability-bridge''
                     else ''local-loop-gateway'') in
     guard (placement r = expected)
       (ProtocolViolation (''scenario '' @ scen @ '' requires placementCandidate '' @ expected)))"

definition backpressure_parts :: "string list" where
  "backpressure_parts = map (\<lambda>i. ''fixture-part-'' @ dec_digits i) [0..<6]"

text \<open>The records a fresh, placed run answers its start with.\<close>

definition start_run :: "string \<Rightarrow> run \<Rightarrow> pydict list res \<times> run" where
  "start_run scen r =
     (if REJECTION_ERRORS scen \<noteq> None then then_record (Inr [], r) (run_rejected scen)
      else
        (case then_record (Inr [], r) (run_record ''run.accepted''
            [(''invocationId'', PStr (invocation_id r)), (''placementCandidate'', PStr (placement r)),
             (''billingOwner'', PStr ''openprose''), (''authCategory'', PStr ''none-test-only'')]) of
           (Inl e, r') \<Rightarrow> (Inl e, r')
         | (Inr accepted, r') \<Rightarrow>
             if is_capability_scenario scen then then_record (Inr accepted, r') capability_request
             else
               (case drain (r'\<lparr>pending_deltas :=
                    (if scen = ''backpressure'' then backpressure_parts
                     else [''fixture-local-loop-complete''])\<rparr>) of
                  (Inl e, r'') \<Rightarrow> (Inl e, r'')
                | (Inr records, r'') \<Rightarrow> (Inr (accepted @ records), r''))))"

definition replay_run :: "pydict \<Rightarrow> run \<Rightarrow> pydict list res \<times> run" where
  "replay_run record existing =
    (let r = existing\<lparr>replays := replays existing + 1\<rparr>;
         values =
           [(''requestId'', dget record ''requestId''),
            (''originalRequestId'', PStr (request_id r)),
            (''idempotencyKey'', dget record ''idempotencyKey''),
            (''sideEffectsReexecuted'', PBool False),
            (''state'', PStr (if terminal_record r \<noteq> None then ''terminal'' else ''in-progress''))] @
           (case terminal_record r of None \<Rightarrow> []
            | Some t \<Rightarrow> [(''terminalSnapshot'', PDict
                [(''classification'', dget t ''classification''), (''semantic'', dget t ''semantic''),
                 (''error'', dget t ''error''), (''fallbackSelected'', PBool False)])]) in
     then_record (Inr [], r) (run_record ''run.replayed'' values))"

definition fresh_run_id :: "nat \<Rightarrow> string" where
  "fresh_run_id n = (if n = 1 then RUN_ID else ''fixture-run-'' @ zero_pad 4 (dec_digits n))"

definition svc_start :: "pydict \<Rightarrow> service \<Rightarrow> pydict list res \<times> service" where
  "svc_start record s =
    (let key = str_of (dget record ''idempotencyKey'') in
     case idempotency s key of
       Some rid \<Rightarrow>
         (case runs s rid of
            None \<Rightarrow> (Inl KeyErr, s)
          | Some existing \<Rightarrow>
              (case start_fingerprint record of
                 Inl e \<Rightarrow> (Inl e, s)
               | Inr fp \<Rightarrow>
                   if fingerprint existing \<noteq> fp then
                     (Inl (ProtocolViolation ''idempotency key was reused with a different payload''), s)
                   else on_run rid existing (replay_run record) s))
     | None \<Rightarrow>
         (let rid = fresh_run_id (next_run s); s1 = s\<lparr>next_run := next_run s + 1\<rparr> in
          case new_run (svc_scenario s) record rid of
            Inl e \<Rightarrow> (Inl e, s1)
          | Inr r \<Rightarrow>
              (let s2 = s1\<lparr>runs := (runs s1)(rid \<mapsto> r), idempotency := (idempotency s1)(key \<mapsto> rid)\<rparr> in
               case validate_placement (svc_scenario s) r of
                 Some e \<Rightarrow> (Inl e, s2)
               | None \<Rightarrow> on_run rid r (start_run (svc_scenario s)) s2)))"

definition find_run :: "pydict \<Rightarrow> service \<Rightarrow> (string \<times> run) res" where
  "find_run record s =
     (case dget record ''runId'' of
        PStr rid \<Rightarrow>
          (case runs s rid of
             None \<Rightarrow> Inl (ProtocolViolation ''unknown runId'')
           | Some r \<Rightarrow>
               if dget record ''requestId'' \<noteq> PStr (request_id r)
               then Inl (ProtocolViolation ''requestId does not correlate to runId'')
               else Inr (rid, r))
      | _ \<Rightarrow> Inl (ProtocolViolation ''unknown runId''))"

text \<open>What a live run does with a client record that is not a start.\<close>

definition run_receive :: "pydict \<Rightarrow> run \<Rightarrow> pydict list res \<times> run" where
  "run_receive record r =
    (let record_type = dget record ''type'' in
     case terminal_record r of
       Some t \<Rightarrow> (Inr [t], r)
     | None \<Rightarrow>
         if record_type = PStr ''stream.credit'' then run_credit record r
         else if str_in record_type [''capability.result'', ''capability.error'']
           then capability_response record r
         else if record_type = PStr ''run.cancel''
           then then_record (Inr [], r) (lifecycle_terminal (''cancel'', 0))
         else if record_type = PStr ''run.timeout''
           then then_record (Inr [], r) (lifecycle_terminal (''timeout'', 0))
         else if record_type = PStr ''run.disconnect''
           then then_record (Inr [], r) (lifecycle_terminal (''disconnect'', 0))
         else (Inl (ProtocolViolation
                 (''record type is not accepted from the client: '' @ str_of record_type)), r))"

definition svc_receive :: "pyval \<Rightarrow> service \<Rightarrow> pydict list res \<times> service" where
  "svc_receive value s =
    (let record = dict_of value in
     case validate_record value of
       Some e \<Rightarrow> (Inl e, s)
     | None \<Rightarrow>
         if dget record ''type'' = PStr ''run.start'' then svc_start record s
         else (case find_run record s of
                 Inl e \<Rightarrow> (Inl e, s)
               | Inr (rid, r) \<Rightarrow> on_run rid r (run_receive record) s))"

definition svc_poll :: "string \<Rightarrow> service \<Rightarrow> pydict list res \<times> service" where
  "svc_poll rid s =
     (case runs s rid of
        None \<Rightarrow> (Inl (ProtocolViolation ''unknown runId''), s)
      | Some r \<Rightarrow>
          if terminal_record r \<noteq> None then (Inr [], s) else on_run rid r drain s)"

definition svc_settle_lifecycle_race ::
  "string \<Rightarrow> pydict list \<Rightarrow> service \<Rightarrow> pydict res \<times> service" where
  "svc_settle_lifecycle_race rid signals s =
     (case runs s rid of
        None \<Rightarrow> (Inl (ProtocolViolation ''unknown runId''), s)
      | Some r \<Rightarrow>
          (case terminal_record r of
             Some t \<Rightarrow> (Inr t, s)
           | None \<Rightarrow>
               (case choose_lifecycle_winner signals of
                  Inl e \<Rightarrow> (Inl e, s)
                | Inr w \<Rightarrow> on_run rid r (lifecycle_terminal w) s)))"

definition svc_finalize :: "string \<Rightarrow> service \<Rightarrow> pydict res" where
  "svc_finalize rid s =
     (case runs s rid of
        None \<Rightarrow> Inl (ProtocolViolation ''unknown runId'')
      | Some r \<Rightarrow>
          (case terminal_record r of
             None \<Rightarrow> Inl (ProtocolViolation ''hosted stream ended without a required terminal record'')
           | Some t \<Rightarrow> Inr t))"

section \<open>Evidence\<close>

definition run_evidence_usage :: "run \<Rightarrow> pydict" where
  "run_evidence_usage r =
     (if dget (usage r) ''authority'' = PStr ''fixture-authoritative''
      then dict_of_pairs (usage r) [(''inputTokens'', PInt 7), (''outputTokens'', PInt 3),
             (''currency'', PStr ''USD''), (''amountMicros'', PInt 11)]
      else dict_of_pairs (usage r) [(''reason'', PStr ''fixture-usage-disabled'')])"

definition run_evidence :: "run \<Rightarrow> pydict" where
  "run_evidence r = [
     (''schema'', PStr ''openprose.hosted-evidence/1''),
     (''scenario'', PStr (scenario r)),
     (''placementCandidate'', PStr (placement r)),
     (''requestId'', PStr (request_id r)),
     (''invocationId'', PStr (invocation_id r)),
     (''runId'', PStr (run_id r)),
     (''delivery'', PDict [
        (''channelsSeparated'', PBool True), (''exactImageBytes'', PBool (exact_image r)),
        (''exactTaskBytes'', PBool (exact_task r)), (''imageSha256'', image_sha r),
        (''taskSha256'', task_sha r)]),
     (''auth'', PDict [
        (''category'', PStr ''none-test-only''), (''credentialTransport'', PStr ''none''),
        (''secretObserved'', PBool False)]),
     (''billing'', PDict [(''owner'', PStr ''openprose''), (''authority'', PStr ''test-fixture-only'')]),
     (''usage'', PDict (run_evidence_usage r)),
     (''correlation'', PDict [
        (''allRecordsCorrelated'', PBool (capability_correlation_failures r = 0)),
        (''failures'', PInt (capability_correlation_failures r))]),
     (''stream'', PDict [
        (''maxInFlightConfigured'', PInt (max_in_flight r)),
        (''maxInFlightObserved'', PInt (max_in_flight_observed r)),
        (''maxFrameBytes'', PInt (max_frame_bytes r)),
        (''maxQueuedFramesConfigured'', PInt (max_queued_frames r)),
        (''maxQueuedFramesObserved'', PInt (max_queued_frames_observed r)),
        (''recordsDropped'', PInt 0)]),
     (''idempotency'', PDict [
        (''key'', PStr (idempotency_key r)), (''replays'', PInt (replays r)),
        (''sideEffectExecutions'', PInt (side_effect_executions r))]),
     (''capabilities'', PDict [
        (''requested'', PInt (capability_requested r)), (''completed'', PInt (capability_completed r)),
        (''rejected'', PInt (capability_rejected r)),
        (''correlationFailures'', PInt (capability_correlation_failures r)),
        (''localEvidenceAuthority'', PStr
           (if placement r = ''hosted-agent-local-capability-bridge''
            then ''external-bridge-required'' else ''not-applicable''))]),
     (''lifecycle'', PDict [
        (''settledOnce'', PBool (terminal_record r \<noteq> None)),
        (''winner'', PStr (lifecycle_winner r))]),
     (''terminal'', PDict [
        (''present'', PBool (terminal_record r \<noteq> None)), (''semanticStatus'', PStr ''unknown''),
        (''externalSchemaAvailable'', PBool False)]),
     (''fallbackSelected'', PBool False)]"

definition svc_evidence :: "string \<Rightarrow> service \<Rightarrow> pydict res" where
  "svc_evidence rid s =
     (case runs s rid of
        None \<Rightarrow> Inl (ProtocolViolation ''unknown runId'')
      | Some r \<Rightarrow> Inr (run_evidence r))"

end
