(* ===== verification/Hosted_Flow.thy ===== *)
theory Hosted_Flow
  imports Hosted_Service
begin

text \<open>
  Properties of one hosted run. The locale \<open>run_relation\<close> is the contract shared by all
  operations of a run: a reflexive and transitive relation kept by every assignment the code makes
  relates the run before and after every operation. It is interpreted twice, for the fields no
  operation writes and for the history of a run (sequence numbers grow, a settled terminal record
  is never replaced). The flow lemmas bound the records in flight and account for every delta.
\<close>

section \<open>A contract for all run operations\<close>

locale run_relation =
  fixes R :: "run \<Rightarrow> run \<Rightarrow> bool"
  assumes R_refl: "R r r"
    and R_trans: "R a b \<Longrightarrow> R b c \<Longrightarrow> R a c"
    and R_seqno: "R r (r\<lparr>seqno := seqno r + 1\<rparr>)"
    and R_pending: "R r (r\<lparr>pending_deltas := p\<rparr>)"
    and R_delivered: "R r (r\<lparr>outstanding := out, max_in_flight_observed := obs, credit := cr\<rparr>)"
    and R_acknowledged: "R r (r\<lparr>outstanding := out, credit := cr\<rparr>)"
    and R_terminal: "terminal_record r = None \<Longrightarrow> R r (r\<lparr>terminal_record := Some t\<rparr>)"
    and R_winner: "terminal_record r = None \<Longrightarrow> R r (r\<lparr>lifecycle_winner := w\<rparr>)"
    and R_usage: "\<not> usage_emitted r \<Longrightarrow> R r (r\<lparr>usage_emitted := True, usage := u\<rparr>)"
    and R_requested: "R r (r\<lparr>capability_requested := n, expected_capability_id := e\<rparr>)"
    and R_rejected: "R r (r\<lparr>expected_capability_id := e, capability_rejected := n\<rparr>)"
    and R_completed: "R r (r\<lparr>expected_capability_id := e, capability_completed := n\<rparr>)"
    and R_failures: "R r (r\<lparr>capability_correlation_failures := n\<rparr>)"
    and R_replays: "R r (r\<lparr>replays := n\<rparr>)"
begin

lemma record_R: "R r (snd (run_record t v r))"
  by (auto simp: run_record_def Let_def R_seqno split: sum.splits)

lemma record_R_after: "R r0 r \<Longrightarrow> R r0 (snd (run_record t v r))"
  using R_trans record_R by blast

lemma record_R_eq: "run_record t v r = (x, r') \<Longrightarrow> R r r'"
  using record_R [of r t v] by simp

lemma record_terminal: "run_record t v r = (x, r') \<Longrightarrow> terminal_record r' = terminal_record r"
  by (auto simp: run_record_def Let_def split: sum.splits)

lemma terminal_R: "R r (snd (run_terminal c e b cl sr lc r))"
proof (cases "terminal_record r")
  case None
  obtain x r' where eq: "run_record ''run.terminal''
      ([(''terminal'', PBool True), (''classification'', PStr cl), (''semantic'', semantic_unknown sr),
        (''error'', error_value c e b), (''fallbackSelected'', PBool False)] @
       (case lc of None \<Rightarrow> [] | Some (w, t) \<Rightarrow> [(''lifecycle'', PDict [(''winner'', PStr w), (''atMs'', PInt t)])]))
      r = (x, r')" by fastforce
  then have r': "R r r'" "terminal_record r' = None"
    using None record_R_eq record_terminal by auto
  with None eq show ?thesis
    by (cases x) (auto simp: run_terminal_def Let_def intro: R_trans R_terminal)
qed (simp add: run_terminal_def R_refl)

lemma unknown_terminal_R: "R r (snd (semantic_unknown_terminal r))"
  by (simp add: semantic_unknown_terminal_def terminal_R)

lemma rejected_R: "terminal_record r = None \<Longrightarrow> R r (snd (run_rejected s r))"
proof -
  assume none: "terminal_record r = None"
  have step: "R r (r'\<lparr>terminal_record := Some t\<rparr>)" if "run_record k v r = (x, r')" for k v x r' t
  proof -
    have "terminal_record r' = None" using none record_terminal [OF that] by simp
    then show ?thesis by (rule R_trans [OF record_R_eq [OF that] R_terminal])
  qed
  from none show ?thesis
    by (auto simp: run_rejected_def R_refl step split: option.splits prod.splits sum.splits
        intro: record_R_eq)
qed

lemma lifecycle_R: "terminal_record r = None \<Longrightarrow> R r (snd (lifecycle_terminal w r))"
  by (auto simp: lifecycle_terminal_def R_refl split: option.splits
      intro: R_trans [OF R_winner terminal_R])

lemma usage_R: "R r (snd (run_usage r))"
  by (auto simp: run_usage_def R_refl intro: R_trans [OF R_usage record_R])

lemma then_record_R:
  assumes "R r0 (snd m)" and "\<And>r. R r (snd (f r))"
  shows "R r0 (snd (then_record m f))"
proof -
  obtain x r where m: "m = (x, r)" by fastforce
  obtain y r' where f: "f r = (y, r')" by fastforce
  have "R r r'" using assms(2) [of r] f by simp
  with assms(1) m f show ?thesis
    by (cases x; cases y) (auto simp: then_record_def intro: R_trans)
qed

lemma drain_loop_R: "R r (snd (drain_loop ps r recs))"
proof (induction ps arbitrary: r recs)
  case (Cons delta rest)
  show ?case
  proof (cases "credit r > 0 \<and> int (length (outstanding r)) < max_in_flight r")
    case True
    have step: "R r (snd (drain_loop rest (r'\<lparr>outstanding := out, max_in_flight_observed := obs, credit := cr\<rparr>) recs'))"
      if "run_record k v (r\<lparr>pending_deltas := rest\<rparr>) = (x, r')" for k v x r' out obs cr recs'
      using R_trans [OF R_trans [OF R_pending record_R_eq [OF that]] R_trans [OF R_delivered Cons.IH]] .
    have "R r r'" if "run_record k v (r\<lparr>pending_deltas := rest\<rparr>) = (x, r')" for k v x r'
      using R_trans [OF R_pending record_R_eq [OF that]] .
    with True step show ?thesis by (auto simp: Let_def split: prod.splits sum.splits)
  qed (auto simp: R_refl)
qed (simp add: R_refl)

lemma drain_R: "R r (snd (drain r))"
proof -
  obtain x r' where eq: "drain_loop (pending_deltas r) r [] = (x, r')" by fastforce
  then have r': "R r r'" using drain_loop_R [of r "pending_deltas r" "[]"] by simp
  show ?thesis
  proof (cases x)
    case (Inl e)
    with eq r' show ?thesis by (simp add: drain_def)
  next
    case (Inr recs)
    have "R r (snd (then_record (Inr recs, r') run_usage))"
      by (rule then_record_R) (simp_all add: r' usage_R)
    moreover from this have
      "R r (snd (then_record (then_record (Inr recs, r') run_usage) semantic_unknown_terminal))"
      by (rule then_record_R) (rule unknown_terminal_R)
    ultimately show ?thesis using eq Inr r' by (simp add: drain_def)
  qed
qed

lemma credit_R: "R r (snd (run_credit record r))"
  by (auto simp: run_credit_def Let_def R_refl split: option.splits
      intro: R_trans [OF R_acknowledged drain_R])

lemma capability_request_R: "R r (snd (capability_request r))"
  by (auto simp: capability_request_def split: prod.splits intro: R_trans [OF R_requested record_R])

lemma capability_response_R: "R r (snd (capability_response record r))"
  unfolding capability_response_def
  by (auto intro!: then_record_R usage_R unknown_terminal_R terminal_R
      simp: R_failures R_rejected R_completed)

lemma receive_R: "R r (snd (run_receive record r))"
proof (cases "terminal_record r")
  case None
  have lc: "R r (snd (then_record (Inr [], r) (lifecycle_terminal w)))" for w
    using lifecycle_R [OF None, of w]
    by (cases "lifecycle_terminal w r"; cases "fst (lifecycle_terminal w r)")
      (auto simp: then_record_def)
  from None show ?thesis
    by (auto simp: run_receive_def Let_def credit_R capability_response_R lc R_refl)
qed (simp add: run_receive_def R_refl)

lemma replay_R: "R r (snd (replay_run record r))"
  unfolding replay_run_def Let_def
  by (rule then_record_R) (simp_all add: R_replays record_R)

lemma start_run_R: "terminal_record r = None \<Longrightarrow> R r (snd (start_run s r))"
proof -
  assume none: "terminal_record r = None"
  have rej: "R r (snd (then_record (Inr [], r) (run_rejected s)))"
    using rejected_R [OF none, of s]
    by (cases "run_rejected s r"; cases "fst (run_rejected s r)") (auto simp: then_record_def)
  define m where "m = then_record (Inr [], r) (run_record ''run.accepted''
            [(''invocationId'', PStr (invocation_id r)), (''placementCandidate'', PStr (placement r)),
             (''billingOwner'', PStr ''openprose''), (''authCategory'', PStr ''none-test-only'')])"
  have m: "R r (snd m)"
    unfolding m_def by (rule then_record_R) (simp_all add: R_refl record_R)
  obtain x r' where mx: "m = (x, r')" by fastforce
  have "R r (snd (then_record (Inr y, r') capability_request))" for y
    using m mx by (intro then_record_R) (simp_all add: capability_request_R)
  moreover have "R r r''" if "drain (r'\<lparr>pending_deltas := p\<rparr>) = (y, r'')" for p y r''
    using m mx that drain_R [of "r'\<lparr>pending_deltas := p\<rparr>"] R_pending R_trans by (metis snd_conv)
  ultimately show ?thesis
    using rej m mx
    by (auto simp: start_run_def m_def [symmetric] split: sum.splits prod.splits)
qed

end

section \<open>The fields of a run no operation writes\<close>

definition same_identity :: "run \<Rightarrow> run \<Rightarrow> bool" where
  "same_identity r r' \<longleftrightarrow>
     scenario r' = scenario r \<and> start_billing r' = start_billing r \<and> run_id r' = run_id r \<and>
     request_id r' = request_id r \<and> invocation_id r' = invocation_id r \<and>
     idempotency_key r' = idempotency_key r \<and> fingerprint r' = fingerprint r \<and>
     placement r' = placement r \<and> max_in_flight r' = max_in_flight r \<and>
     max_frame_bytes r' = max_frame_bytes r \<and> max_queued_frames r' = max_queued_frames r \<and>
     side_effect_executions r' = side_effect_executions r \<and>
     image_sha r' = image_sha r \<and> task_sha r' = task_sha r \<and>
     exact_image r' = exact_image r \<and> exact_task r' = exact_task r"

interpretation identity: run_relation same_identity
  by unfold_locales (auto simp: same_identity_def)

section \<open>The history of a run\<close>

definition extends_history :: "run \<Rightarrow> run \<Rightarrow> bool" where
  "extends_history r r' \<longleftrightarrow>
     seqno r \<le> seqno r' \<and> (usage_emitted r \<longrightarrow> usage_emitted r') \<and>
     (terminal_record r \<noteq> None \<longrightarrow>
        terminal_record r' = terminal_record r \<and> lifecycle_winner r' = lifecycle_winner r)"

interpretation history: run_relation extends_history
  by unfold_locales (auto simp: extends_history_def)

section \<open>Flow control\<close>

definition flow_ok :: "run \<Rightarrow> bool" where
  "flow_ok r \<longleftrightarrow>
     1 \<le> max_in_flight r \<and> 0 \<le> credit r \<and> 0 \<le> seqno r \<and>
     int (length (outstanding r)) \<le> max_in_flight r \<and>
     max_in_flight_observed r \<le> max_in_flight r \<and>
     sorted_wrt (<) (outstanding r) \<and> (\<forall>n \<in> set (outstanding r). 0 \<le> n \<and> n < seqno r)"

lemma run_record_cases:
  obtains e where "run_record t v r = (Inl e, r\<lparr>seqno := seqno r + 1\<rparr>)"
  | rec where "run_record t v r = (Inr rec, r\<lparr>seqno := seqno r + 1\<rparr>)"
      "rec = dict_of_pairs [(''schema'', PStr WIRE_SCHEMA), (''type'', PStr t),
                 (''requestId'', PStr (request_id r)), (''runId'', PStr (run_id r)),
                 (''sequence'', PInt (seqno r))] v"
      "\<exists>b. encode_frame (PDict rec) (max_frame_bytes r) = Inr b"
  by (cases "encode_frame (PDict (dict_of_pairs [(''schema'', PStr WIRE_SCHEMA), (''type'', PStr t),
                 (''requestId'', PStr (request_id r)), (''runId'', PStr (run_id r)),
                 (''sequence'', PInt (seqno r))] v)) (max_frame_bytes r)")
     (auto simp: run_record_def Let_def)

lemma dget_dict_of_pairs_absent:
  "k \<notin> fst ` set ps \<Longrightarrow> dget (dict_of_pairs d ps) k = dget d k"
  by (induction d ps rule: dict_of_pairs.induct) auto

lemma flow_seqno: "flow_ok r \<Longrightarrow> flow_ok (r\<lparr>seqno := seqno r + 1\<rparr>)"
  by (auto simp: flow_ok_def)

lemma flow_record: "flow_ok r \<Longrightarrow> flow_ok (snd (run_record t v r))"
  by (rule run_record_cases [of t v r]) (simp_all add: flow_seqno)

lemma flow_cong:
  "flow_ok r \<Longrightarrow> seqno r' = seqno r \<Longrightarrow> outstanding r' = outstanding r \<Longrightarrow> credit r' = credit r \<Longrightarrow>
   max_in_flight r' = max_in_flight r \<Longrightarrow> max_in_flight_observed r' = max_in_flight_observed r \<Longrightarrow>
   flow_ok r'"
  by (simp add: flow_ok_def)

lemma flow_usage: "flow_ok r \<Longrightarrow> flow_ok (snd (run_usage r))"
  by (auto simp: run_usage_def intro!: flow_record intro: flow_cong)

lemma flow_terminal: "flow_ok r \<Longrightarrow> flow_ok (snd (run_terminal c e b cl sr lc r))"
proof (cases "terminal_record r")
  case None
  assume ok: "flow_ok r"
  have "flow_ok (r'\<lparr>terminal_record := t\<rparr>)" "flow_ok r'" if "run_record k v r = (x, r')" for k v x r' t
    using flow_record [OF ok, of k v] that by (auto intro: flow_cong)
  with None show ?thesis by (simp add: run_terminal_def Let_def split: prod.splits sum.splits)
qed (simp add: run_terminal_def)

lemma flow_then_record:
  assumes "flow_ok (snd m)" and "\<And>r. flow_ok r \<Longrightarrow> flow_ok (snd (f r))"
  shows "flow_ok (snd (then_record m f))"
proof -
  obtain x r where m: "m = (x, r)" by fastforce
  obtain y r' where f: "f r = (y, r')" by fastforce
  have "flow_ok r'" using assms(2) [of r] assms(1) m f by simp
  with assms(1) m f show ?thesis by (cases x; cases y) (auto simp: then_record_def)
qed

text \<open>What a delta record says.\<close>

lemma delta_record:
  assumes "run_record ''assistant.delta'' [(''part'', PInt p), (''text'', PStr t)] r = (Inr rec, r')"
  shows "r' = r\<lparr>seqno := seqno r + 1\<rparr>" "dget rec ''text'' = PStr t"
    "dget rec ''sequence'' = PInt (seqno r)" "dget rec ''type'' = PStr ''assistant.delta''"
    "dget rec ''runId'' = PStr (run_id r)"
  using assms by (auto simp: run_record_def Let_def split: sum.splits)

lemma flow_deliver:
  assumes "flow_ok r" "credit r > 0" "int (length (outstanding r)) < max_in_flight r"
  shows "flow_ok (r\<lparr>pending_deltas := p, seqno := seqno r + 1,
                    outstanding := outstanding r @ [seqno r],
                    max_in_flight_observed := max (max_in_flight_observed r)
                       (int (length (outstanding r @ [seqno r]))),
                    credit := credit r - 1\<rparr>)"
  using assms by (auto simp: flow_ok_def sorted_wrt_snoc)

definition delta_of :: "pydict \<Rightarrow> string \<Rightarrow> bool" where
  "delta_of d t \<longleftrightarrow> dget d ''type'' = PStr ''assistant.delta'' \<and> dget d ''text'' = PStr t"

text \<open>The outcome of the drain loop: every delta is delivered in order or still pending.\<close>

definition drained :: "run \<Rightarrow> run \<Rightarrow> pydict list \<Rightarrow> bool" where
  "drained r r' ds \<longleftrightarrow>
     (\<exists>ts. pending_deltas r = ts @ pending_deltas r' \<and> list_all2 delta_of ds ts) \<and>
     outstanding r' = outstanding r @ map (\<lambda>d. int_of (dget d ''sequence'')) ds \<and>
     credit r' = credit r - int (length ds) \<and>
     (pending_deltas r' = [] \<or> credit r' \<le> 0 \<or> max_in_flight r' \<le> int (length (outstanding r')))"

lemma drained_step:
  assumes "drained r1 r' ds" and "pending_deltas r = t # pending_deltas r1"
    and "outstanding r1 = outstanding r @ [int_of (dget d ''sequence'')]" and "credit r1 = credit r - 1"
    and "delta_of d t"
  shows "drained r r' (d # ds)"
proof -
  from assms(1) obtain ts where "pending_deltas r1 = ts @ pending_deltas r'" "list_all2 delta_of ds ts"
    by (auto simp: drained_def)
  with assms have "pending_deltas r = (t # ts) @ pending_deltas r'" "list_all2 delta_of (d # ds) (t # ts)"
    by auto
  with assms show ?thesis unfolding drained_def by auto
qed

lemma drain_loop_spec:
  assumes "pending_deltas r = ps" "flow_ok r" "drain_loop ps r recs = (x, r')"
  shows "flow_ok r' \<and> (\<forall>recs'. x = Inr recs' \<longrightarrow> (\<exists>ds. recs' = recs @ ds \<and> drained r r' ds))"
  using assms
proof (induction ps arbitrary: r recs)
  case Nil
  then show ?case by (auto simp: drained_def)
next
  case (Cons t rest)
  show ?case
  proof (cases "credit r > 0 \<and> int (length (outstanding r)) < max_in_flight r")
    case False
    with Cons.prems show ?thesis by (auto simp: drained_def)
  next
    case True
    define part where "part = (if scenario r = ''backpressure'' then 6 - int (length (t # rest)) else 0)"
    obtain y r1 where eq: "run_record ''assistant.delta'' [(''part'', PInt part), (''text'', PStr t)]
        (r\<lparr>pending_deltas := rest\<rparr>) = (y, r1)" by fastforce
    show ?thesis
    proof (cases y)
      case (Inl e)
      have "flow_ok (r\<lparr>pending_deltas := rest\<rparr>)" using Cons.prems(2) by (rule flow_cong) simp_all
      then have "flow_ok r1"
        using flow_record [of "r\<lparr>pending_deltas := rest\<rparr>" "''assistant.delta''"
            "[(''part'', PInt part), (''text'', PStr t)]"] eq by simp
      with Inl eq True Cons.prems show ?thesis by (auto simp: part_def)
    next
      case (Inr d)
      note dr = delta_record [OF eq [unfolded Inr]]
      define r2 where "r2 = r1\<lparr>outstanding := outstanding r @ [seqno r],
          max_in_flight_observed := max (max_in_flight_observed r) (int (length (outstanding r @ [seqno r]))),
          credit := credit r - 1\<rparr>"
      have r2: "flow_ok r2" "pending_deltas r2 = rest" "credit r2 = credit r - 1"
          "outstanding r2 = outstanding r @ [int_of (dget d ''sequence'')]"
        using flow_deliver [OF Cons.prems(2), of rest] True by (simp_all add: r2_def dr)
      have "drain_loop rest r2 (recs @ [d]) = (x, r')"
        using Cons.prems(3) True eq Inr by (simp add: part_def [symmetric] dr r2_def)
      note IH = Cons.IH [OF r2(2,1) this]
      moreover have "delta_of d t" by (simp add: delta_of_def dr)
      ultimately show ?thesis
        using drained_step [of r2 r' _ r t d] r2 Cons.prems(1) by fastforce
    qed
  qed
qed

lemma flow_drain_loop: "flow_ok r \<Longrightarrow> flow_ok (snd (drain_loop (pending_deltas r) r recs))"
  using drain_loop_spec [of r "pending_deltas r" recs] by (metis prod.collapse)

lemma flow_unknown_terminal: "flow_ok r \<Longrightarrow> flow_ok (snd (semantic_unknown_terminal r))"
  by (simp add: semantic_unknown_terminal_def flow_terminal)

lemma flow_drain: "flow_ok r \<Longrightarrow> flow_ok (snd (drain r))"
proof -
  assume ok: "flow_ok r"
  obtain x r' where eq: "drain_loop (pending_deltas r) r [] = (x, r')" by fastforce
  with ok have ok': "flow_ok r'" using flow_drain_loop [of r "[]"] by simp
  have usage: "flow_ok (snd (then_record (Inr recs, r') run_usage))" for recs
    by (rule flow_then_record) (simp_all add: ok' flow_usage)
  have "flow_ok (snd (then_record (then_record (Inr recs, r') run_usage) semantic_unknown_terminal))" for recs
    by (rule flow_then_record) (simp_all add: usage flow_unknown_terminal)
  with usage show ?thesis using eq ok' by (cases x) (auto simp: drain_def)
qed

text \<open>Acknowledging frees slots: the filtered list is shorter, ordered and within bounds.\<close>

lemma flow_acknowledge:
  assumes "flow_ok r" "1 \<le> grant"
  shows "flow_ok (r\<lparr>outstanding := filter P (outstanding r),
           credit := credit r + min grant (max_in_flight r - int (length (filter P (outstanding r))))\<rparr>)"
proof -
  have "int (length (filter P (outstanding r))) \<le> int (length (outstanding r))"
    using length_filter_le [of P "outstanding r"] by simp
  also have "\<dots> \<le> max_in_flight r" using assms by (simp add: flow_ok_def)
  finally have le: "int (length (filter P (outstanding r))) \<le> max_in_flight r" .
  with assms have "0 \<le> min grant (max_in_flight r - int (length (filter P (outstanding r))))" by simp
  with assms le show ?thesis by (auto simp: flow_ok_def sorted_wrt_filter)
qed

lemma is_int_iff: "is_int v \<longleftrightarrow> (\<exists>n. v = PInt n)"
  by (cases v) auto

lemma run_credit_cases:
  assumes "run_credit record r = (x, r')"
  obtains e where "x = Inl e" "r' = r"
  | a g out where "dget record ''acknowledgeThrough'' = PInt a" "dget record ''grant'' = PInt g"
      "1 \<le> g" "g \<le> 16" "0 \<le> a" "out = filter (\<lambda>v. a < v) (outstanding r)"
      "\<exists>v \<in> set (outstanding r). v \<le> a"
      "drain (r\<lparr>outstanding := out,
               credit := credit r + min g (max_in_flight r - int (length out))\<rparr>) = (x, r')"
proof (cases "credit_check record r")
  case None
  then obtain a g where "dget record ''acknowledgeThrough'' = PInt a" "dget record ''grant'' = PInt g"
      "1 \<le> g" "g \<le> 16" "0 \<le> a" "\<exists>v \<in> set (outstanding r). v \<le> a"
    by (auto simp: credit_check_def Let_def is_int_iff filter_empty_conv) blast
  with None assms show thesis by (intro that(2)) (simp_all add: run_credit_def Let_def)
next
  case (Some e)
  with assms show thesis by (intro that(1) [of e]) (auto simp: run_credit_def)
qed

lemma flow_credit: "flow_ok r \<Longrightarrow> flow_ok (snd (run_credit record r))"
proof -
  assume ok: "flow_ok r"
  obtain x r' where eq: "run_credit record r = (x, r')" by fastforce
  then show ?thesis
  proof (cases rule: run_credit_cases)
    case (2 a g out)
    then have "flow_ok (r\<lparr>outstanding := out, credit := credit r + min g (max_in_flight r - int (length out))\<rparr>)"
      using flow_acknowledge [OF ok, of g "\<lambda>v. a < v"] by simp
    with 2 eq show ?thesis using flow_drain by (metis snd_conv)
  qed (use ok eq in simp)
qed

lemma flow_receive: "flow_ok r \<Longrightarrow> flow_ok (snd (run_receive record r))"
proof -
  assume ok: "flow_ok r"
  have resp: "flow_ok (snd (capability_response record r))"
    unfolding capability_response_def
    by (auto intro!: flow_then_record flow_usage flow_unknown_terminal flow_terminal intro: flow_cong [OF ok])
  have lc: "flow_ok (snd (lifecycle_terminal w r'))" if "flow_ok r'" for w r'
    by (auto simp: lifecycle_terminal_def that split: option.splits
        intro!: flow_terminal intro: flow_cong [OF that])
  have lc': "flow_ok (snd (then_record (Inr [], r) (lifecycle_terminal w)))" for w
    by (rule flow_then_record) (simp_all add: ok lc)
  from ok show ?thesis
    by (auto simp: run_receive_def Let_def flow_credit resp lc' split: option.splits)
qed

lemma flow_replay: "flow_ok r \<Longrightarrow> flow_ok (snd (replay_run record r))"
  unfolding replay_run_def Let_def
  by (rule flow_then_record) (auto simp: flow_record intro: flow_cong)

end
