(* ===== verification/Hosted_Reach.thy ===== *)
theory Hosted_Reach
  imports Hosted_Flow
begin

text \<open>
  The service as a state machine: the operations its clients call, the states they reach from a
  new service, and the invariant of those states (the two tables agree, identifiers are fresh, and
  every run is within its flow limits).
\<close>

section \<open>Operations and reachable states\<close>

datatype svc_op = Receive pyval | Poll string | Race string "pydict list"

definition svc_apply :: "svc_op \<Rightarrow> service \<Rightarrow> service" where
  "svc_apply op s = (case op of
     Receive v \<Rightarrow> snd (svc_receive v s)
   | Poll rid \<Rightarrow> snd (svc_poll rid s)
   | Race rid signals \<Rightarrow> snd (svc_settle_lifecycle_race rid signals s))"

inductive svc_reachable :: "service \<Rightarrow> bool" where
  fresh: "new_service scen = Inr s \<Longrightarrow> svc_reachable s"
| operated: "svc_reachable s \<Longrightarrow> svc_reachable (svc_apply op s)"

inductive_cases svc_reachableE: "svc_reachable s"

section \<open>The invariant\<close>

definition svc_inv :: "service \<Rightarrow> bool" where
  "svc_inv s \<longleftrightarrow>
     1 \<le> next_run s \<and>
     (\<forall>rid r. runs s rid = Some r \<longrightarrow>
        flow_ok r \<and> run_id r = rid \<and> side_effect_executions r = 1 \<and>
        idempotency s (idempotency_key r) = Some rid \<and>
        (\<exists>n. 1 \<le> n \<and> n < next_run s \<and> rid = fresh_run_id n)) \<and>
     (\<forall>k rid. idempotency s k = Some rid \<longrightarrow>
        (\<exists>r. runs s rid = Some r \<and> idempotency_key r = k))"

lemma fresh_run_id_eq: "fresh_run_id n = ''fixture-run-'' @ zero_pad 4 (dec_digits n)"
proof -
  have "dec_digits 1 = ''1''" by code_simp
  moreover have "zero_pad 4 ''1'' = ''0001''" by (simp add: zero_pad_def eval_nat_numeral)
  ultimately show ?thesis by (auto simp: fresh_run_id_def RUN_ID_def)
qed

lemma fresh_run_id_inject [simp]: "fresh_run_id m = fresh_run_id n \<longleftrightarrow> m = n"
  by (simp add: fresh_run_id_eq zero_pad_inject)

lemma svc_inv_run:
  assumes "svc_inv s" "runs s rid = Some r"
  shows "flow_ok r" "run_id r = rid" "side_effect_executions r = 1"
    "idempotency s (idempotency_key r) = Some rid"
    "\<exists>n. 1 \<le> n \<and> n < next_run s \<and> rid = fresh_run_id n"
  using assms unfolding svc_inv_def by blast+

lemma svc_inv_key:
  assumes "svc_inv s" "idempotency s k = Some rid"
  obtains r where "runs s rid = Some r" "idempotency_key r = k"
  using assms unfolding svc_inv_def by blast

lemma fresh_run_absent:
  assumes inv: "svc_inv s"
  shows "runs s (fresh_run_id (next_run s)) = None"
proof (cases "runs s (fresh_run_id (next_run s))")
  case (Some r)
  then show ?thesis using svc_inv_run(5) [OF inv] by fastforce
qed

lemma svc_inv_new: "new_service scen = Inr s \<Longrightarrow> svc_inv s"
  by (cases "scen \<in> set SCENARIOS") (auto simp: new_service_def svc_inv_def)

lemma svc_inv_bump: "svc_inv s \<Longrightarrow> svc_inv (s\<lparr>next_run := next_run s + 1\<rparr>)"
  unfolding svc_inv_def by simp (meson less_SucI)

lemma svc_inv_put:
  assumes inv: "svc_inv s" and r: "runs s rid = Some r"
    and r': "flow_ok r'" "run_id r' = run_id r" "side_effect_executions r' = side_effect_executions r"
      "idempotency_key r' = idempotency_key r"
  shows "svc_inv (s\<lparr>runs := (runs s)(rid \<mapsto> r')\<rparr>)"
  unfolding svc_inv_def
proof (simp, intro conjI allI impI)
  show "Suc 0 \<le> next_run s" using inv by (simp add: svc_inv_def)
  show "flow_ok r'" "run_id r' = rid" "side_effect_executions r' = 1"
    "idempotency s (idempotency_key r') = Some rid" "\<exists>n\<ge>Suc 0. n < next_run s \<and> rid = fresh_run_id n"
    using svc_inv_run [OF inv r] r' by simp_all
next
  fix rid' q
  assume "rid' \<noteq> rid" and q: "runs s rid' = Some q"
  show "flow_ok q" "run_id q = rid'" "side_effect_executions q = 1"
    "idempotency s (idempotency_key q) = Some rid'" "\<exists>n\<ge>Suc 0. n < next_run s \<and> rid' = fresh_run_id n"
    using svc_inv_run [OF inv q] by simp_all
next
  fix k
  assume "idempotency s k = Some rid"
  with inv obtain q where "runs s rid = Some q" "idempotency_key q = k" by (rule svc_inv_key)
  with r r' show "idempotency_key r' = k" by simp
next
  fix k rid'
  assume "idempotency s k = Some rid'" "rid' \<noteq> rid"
  with inv show "\<exists>q. runs s rid' = Some q \<and> idempotency_key q = k" by (meson svc_inv_key)
qed

lemma svc_inv_on_run:
  assumes inv: "svc_inv s" and r: "runs s rid = Some r"
    and id: "same_identity r (snd (f r))" and flow: "flow_ok (snd (f r))"
  shows "svc_inv (snd (on_run rid r f s))"
  using svc_inv_put [OF inv r flow] id
  by (cases "f r") (simp add: on_run_def same_identity_def)

lemma svc_inv_insert:
  assumes inv: "svc_inv s" and k: "idempotency s k = None"
    and r: "flow_ok r" "run_id r = fresh_run_id (next_run s)" "side_effect_executions r = 1" "idempotency_key r = k"
  shows "svc_inv (s\<lparr>next_run := next_run s + 1, runs := (runs s)(fresh_run_id (next_run s) \<mapsto> r),
                   idempotency := (idempotency s)(k \<mapsto> fresh_run_id (next_run s))\<rparr>)"
  (is "svc_inv ?s")
proof -
  have runs: "flow_ok q \<and> run_id q = rid \<and> side_effect_executions q = 1 \<and>
      idempotency ?s (idempotency_key q) = Some rid \<and>
      (\<exists>n. 1 \<le> n \<and> n < next_run ?s \<and> rid = fresh_run_id n)" if q: "runs ?s rid = Some q" for rid q
  proof (cases "rid = fresh_run_id (next_run s)")
    case True
    with q r inv show ?thesis by (auto simp: svc_inv_def)
  next
    case False
    with q have q': "runs s rid = Some q" by simp
    obtain n where "1 \<le> n" "n < next_run s" "rid = fresh_run_id n"
      using svc_inv_run(5) [OF inv q'] by blast
    with svc_inv_run(1-4) [OF inv q'] k show ?thesis by auto
  qed
  have keys: "\<exists>q. runs ?s rid = Some q \<and> idempotency_key q = k'" if "idempotency ?s k' = Some rid" for k' rid
  proof (cases "k' = k")
    case False
    with that obtain q where "runs s rid = Some q" "idempotency_key q = k'"
      using svc_inv_key [OF inv] by auto
    with fresh_run_absent [OF inv] show ?thesis by auto
  qed (use that r in auto)
  have "1 \<le> next_run ?s" by simp
  with runs keys show ?thesis unfolding svc_inv_def by blast
qed

lemma new_run_facts:
  assumes "new_run scen record rid = Inr r"
  shows "run_id r = rid" "idempotency_key r = str_of (dget record ''idempotencyKey'')"
    "side_effect_executions r = 1" "terminal_record r = None" "pending_deltas r = []" "outstanding r = []"
    "seqno r = 0" "max_in_flight_observed r = 0" "scenario r = scen"
    "max_in_flight r = int_of (dget (dict_of (dget record ''stream'')) ''maxInFlight'')"
    "credit r = min (int_of (dget (dict_of (dget record ''stream'')) ''initialCredit''))
                    (int_of (dget (dict_of (dget record ''stream'')) ''maxInFlight''))"
    "start_fingerprint record = Inr (fingerprint r)" "usage_emitted r = False" "replays r = 0"
    "placement r = str_of (dget record ''placementCandidate'')"
    "request_id r = str_of (dget record ''requestId'')"
  using assms by (auto simp: new_run_def Let_def ebind_eq_Inr)

lemma flow_new_run:
  assumes valid: "validate_record (PDict record) = None"
    and start: "dget record ''type'' = PStr ''run.start''"
    and new: "new_run scen record rid = Inr r"
  shows "flow_ok r"
proof -
  have "validate_start record = None"
    using valid start by (auto simp: validate_record_def Let_def split: if_splits)
  then show ?thesis
    using new_run_facts [OF new]
    by (simp add: flow_ok_def validate_start_def Let_def bounded_int_def)
qed

lemma flow_start_run: "flow_ok r \<Longrightarrow> flow_ok (snd (start_run scen r))"
proof -
  assume ok: "flow_ok r"
  have rej: "flow_ok (snd (run_rejected scen r'))" if "flow_ok r'" for r'
  proof -
    have "flow_ok (r2\<lparr>terminal_record := t\<rparr>)" "flow_ok r2" if "run_record k v r' = (x, r2)" for k v x r2 t
      using flow_record [OF \<open>flow_ok r'\<close>, of k v] that by (auto intro: flow_cong)
    with \<open>flow_ok r'\<close> show ?thesis by (simp add: run_rejected_def split: option.splits prod.splits sum.splits)
  qed
  define m where "m = then_record (Inr [], r) (run_record ''run.accepted''
            [(''invocationId'', PStr (invocation_id r)), (''placementCandidate'', PStr (placement r)),
             (''billingOwner'', PStr ''openprose''), (''authCategory'', PStr ''none-test-only'')])"
  have m: "flow_ok (snd m)"
    unfolding m_def by (rule flow_then_record) (simp_all add: ok flow_record)
  obtain x r' where mx: "m = (x, r')" by fastforce
  have ok': "flow_ok r'" using m mx by simp
  have cap: "flow_ok (snd (capability_request r2))" if "flow_ok r2" for r2
    by (auto simp: capability_request_def split: prod.splits intro!: flow_record intro: flow_cong [OF that])
  have cap': "flow_ok (snd (then_record (Inr y, r') capability_request))" for y
    by (rule flow_then_record) (simp_all add: ok' cap)
  have rej': "flow_ok (snd (then_record (Inr [], r) (run_rejected scen)))"
    by (rule flow_then_record) (simp_all add: ok rej)
  have dr: "flow_ok r2" if "drain (r'\<lparr>pending_deltas := p\<rparr>) = (y, r2)" for p y r2
  proof -
    have "flow_ok (r'\<lparr>pending_deltas := p\<rparr>)" using ok' by (rule flow_cong) simp_all
    with that show ?thesis using flow_drain by (metis snd_conv)
  qed
  show ?thesis
    using rej' cap' dr ok' mx
    by (auto simp: start_run_def m_def [symmetric] split: sum.splits prod.splits)
qed

lemma svc_inv_start:
  assumes inv: "svc_inv s" and valid: "validate_record (PDict record) = None"
    and start: "dget record ''type'' = PStr ''run.start''"
  shows "svc_inv (snd (svc_start record s))"
proof (cases "idempotency s (str_of (dget record ''idempotencyKey''))")
  case (Some rid)
  with inv obtain existing where ex: "runs s rid = Some existing" by (rule svc_inv_key)
  have "svc_inv (snd (on_run rid existing (replay_run record) s))"
    using inv ex identity.replay_R flow_replay [OF svc_inv_run(1) [OF inv ex]] by (rule svc_inv_on_run)
  with inv Some ex show ?thesis by (simp add: svc_start_def Let_def split: sum.split)
next
  case None
  define rid where "rid = fresh_run_id (next_run s)"
  show ?thesis
  proof (cases "new_run (svc_scenario s) record rid")
    case (Inl e)
    with None svc_inv_bump [OF inv] show ?thesis by (simp add: svc_start_def Let_def rid_def)
  next
    case (Inr r)
    define s2 where "s2 = s\<lparr>next_run := next_run s + 1, runs := (runs s)(rid \<mapsto> r),
      idempotency := (idempotency s)(str_of (dget record ''idempotencyKey'') \<mapsto> rid)\<rparr>"
    have flow: "flow_ok r" using valid start Inr by (rule flow_new_run)
    note facts = new_run_facts [OF Inr]
    have inv2: "svc_inv s2"
      using svc_inv_insert [OF inv None flow] facts by (simp add: s2_def rid_def)
    have "runs s2 rid = Some r" by (simp add: s2_def)
    then have "svc_inv (snd (on_run rid r (start_run (svc_scenario s)) s2))"
      using identity.start_run_R [OF facts(4)] flow_start_run [OF flow] by (rule svc_inv_on_run [OF inv2])
    with inv2 None Inr show ?thesis
      by (simp add: svc_start_def Let_def rid_def [symmetric] s2_def split: option.split)
  qed
qed

lemma find_run_Inr: "find_run record s = Inr (rid, r) \<Longrightarrow> runs s rid = Some r"
  by (auto simp: find_run_def split: pyval.splits option.splits if_splits)

lemma svc_inv_receive:
  assumes inv: "svc_inv s"
  shows "svc_inv (snd (svc_receive v s))"
proof (cases "validate_record v")
  case None
  then obtain d where d: "v = PDict d" by (cases v) (auto simp: validate_record_def)
  have other: "svc_inv (snd (on_run rid r (run_receive d) s))" if "find_run d s = Inr (rid, r)" for rid r
    using inv find_run_Inr [OF that] identity.receive_R
      flow_receive [OF svc_inv_run(1) [OF inv find_run_Inr [OF that]]] by (rule svc_inv_on_run)
  show ?thesis
  proof (cases "dget d ''type'' = PStr ''run.start''")
    case True
    with svc_inv_start [OF inv] None d show ?thesis by (simp add: svc_receive_def)
  next
    case False
    with other inv None d show ?thesis
      by (cases "find_run d s") (auto simp: svc_receive_def)
  qed
qed (simp add: svc_receive_def inv)

lemma flow_lifecycle: "flow_ok r \<Longrightarrow> flow_ok (snd (lifecycle_terminal w r))"
  by (auto simp: lifecycle_terminal_def split: option.splits intro!: flow_terminal intro: flow_cong)

lemma svc_inv_apply: "svc_inv s \<Longrightarrow> svc_inv (svc_apply op s)"
proof (cases op)
  case (Receive v)
  then show "svc_inv s \<Longrightarrow> ?thesis" by (simp add: svc_apply_def svc_inv_receive)
next
  case (Poll rid)
  assume inv: "svc_inv s"
  have "svc_inv (snd (on_run rid r drain s))" if "runs s rid = Some r" for r
    using inv that identity.drain_R flow_drain [OF svc_inv_run(1) [OF inv that]] by (rule svc_inv_on_run)
  with inv Poll show ?thesis by (auto simp: svc_apply_def svc_poll_def split: option.split)
next
  case (Race rid signals)
  assume inv: "svc_inv s"
  have "svc_inv (snd (on_run rid r (lifecycle_terminal w) s))"
    if "runs s rid = Some r" "terminal_record r = None" for r w
    using inv that(1) identity.lifecycle_R [OF that(2)] flow_lifecycle [OF svc_inv_run(1) [OF inv that(1)]]
    by (rule svc_inv_on_run)
  with inv Race show ?thesis
    by (auto simp: svc_apply_def svc_settle_lifecycle_race_def split: option.split sum.split)
qed

lemma svc_reachable_inv: "svc_reachable s \<Longrightarrow> svc_inv s"
  by (induction rule: svc_reachable.induct) (auto simp: svc_inv_new svc_inv_apply)

section \<open>What one service operation does to a run\<close>

context run_relation
begin

lemma on_run_R:
  assumes "runs s rid = Some r" "runs s rid' = Some r'" "R r' (snd (f r'))"
  shows "\<exists>q. runs (snd (on_run rid' r' f s)) rid = Some q \<and> R r q"
  using assms by (cases "f r'") (auto simp: on_run_def R_refl)

lemma start_R:
  assumes inv: "svc_inv s" and r: "runs s rid = Some r"
  shows "\<exists>q. runs (snd (svc_start record s)) rid = Some q \<and> R r q"
proof (cases "idempotency s (str_of (dget record ''idempotencyKey''))")
  case (Some rid')
  with inv obtain existing where ex: "runs s rid' = Some existing" by (rule svc_inv_key)
  have "\<exists>q. runs (snd (on_run rid' existing (replay_run record) s)) rid = Some q \<and> R r q"
    using r ex replay_R by (rule on_run_R)
  with Some ex r R_refl show ?thesis
    by (auto simp: svc_start_def Let_def split: sum.splits)
next
  case None
  have ne: "rid \<noteq> fresh_run_id (next_run s)" using fresh_run_absent [OF inv] r by auto
  then have "runs (snd (svc_start record s)) rid = Some r"
    using None r by (auto simp: svc_start_def Let_def on_run_def split: sum.splits option.splits prod.splits)
  with R_refl show ?thesis by blast
qed

lemma receive_keeps_R:
  assumes inv: "svc_inv s" and r: "runs s rid = Some r"
  shows "\<exists>q. runs (snd (svc_receive v s)) rid = Some q \<and> R r q"
proof -
  have "\<exists>q. runs (snd (on_run rid' r' (run_receive (dict_of v)) s)) rid = Some q \<and> R r q"
    if "find_run (dict_of v) s = Inr (rid', r')" for rid' r'
    using r find_run_Inr [OF that] receive_R by (rule on_run_R)
  with start_R [OF inv r] r R_refl show ?thesis
    by (auto simp: svc_receive_def Let_def split: option.split sum.split)
qed

lemma apply_R:
  assumes inv: "svc_inv s" and r: "runs s rid = Some r"
  shows "\<exists>q. runs (svc_apply op s) rid = Some q \<and> R r q"
proof (cases op)
  case (Receive v)
  with receive_keeps_R [OF inv r] show ?thesis by (simp add: svc_apply_def)
next
  case (Poll rid')
  have "\<exists>q. runs (snd (on_run rid' r' drain s)) rid = Some q \<and> R r q"
    if "runs s rid' = Some r'" for r'
    using r that drain_R by (rule on_run_R)
  with Poll r R_refl show ?thesis
    by (auto simp: svc_apply_def svc_poll_def split: option.split)
next
  case (Race rid' signals)
  have "\<exists>q. runs (snd (on_run rid' r' (lifecycle_terminal w) s)) rid = Some q \<and> R r q"
    if "runs s rid' = Some r'" "terminal_record r' = None" for r' w
    using r that(1) lifecycle_R [OF that(2)] by (rule on_run_R)
  with Race r R_refl show ?thesis
    by (auto simp: svc_apply_def svc_settle_lifecycle_race_def split: option.split sum.split)
qed

end

end
