(* ===== verification/Py_Encodable.thy ===== *)
theory Py_Encodable
  imports Py_Json
begin

text \<open>
  Which values can be written as UTF-8 JSON: every value whose strings carry no lone surrogate.
  The JSON writer maps such a value to well-formed UTF-8, so encoding its text never raises.
\<close>

section \<open>Well-formed text is closed under concatenation\<close>

named_theorems utf8_intros \<open>well-formedness of the text the writer produces\<close>

text \<open>
  One well-formed sequence at the head of a text: an ASCII byte, or a run of high bytes that may
  stand in front of any well-formed text.
\<close>

definition utf8_unit :: "string \<Rightarrow> bool" where
  "utf8_unit u \<longleftrightarrow> u \<noteq> [] \<and> (\<forall>t. utf8_valid (u @ t) = utf8_valid t) \<and>
     (length u = 1 \<and> byte (hd u) < 128 \<or> (\<forall>c \<in> set u. 128 \<le> byte c))"

lemma utf8_two: "in_range a 194 223 \<Longrightarrow> is_cont b \<Longrightarrow> utf8_unit [a, b]"
  by (simp add: utf8_unit_def in_range_def is_cont_def)

lemma utf8_three:
  assumes "in_range a 224 239" "is_cont c"
    and "if byte a = 224 then in_range b 160 191 else if byte a = 237 then in_range b 128 159 else is_cont b"
  shows "utf8_unit [a, b, c]"
proof -
  have "utf8_valid (a # b # c # t) = utf8_valid t" for t
    using assms by (auto simp: in_range_def split: if_splits)
  moreover have "128 \<le> byte b" using assms(3) by (auto simp: in_range_def is_cont_def split: if_splits)
  ultimately show ?thesis using assms(1,2) by (simp add: utf8_unit_def in_range_def is_cont_def)
qed

lemma utf8_four:
  assumes "in_range a 240 244" "is_cont c" "is_cont d"
    and "if byte a = 240 then in_range b 144 191 else if byte a = 244 then in_range b 128 143 else is_cont b"
  shows "utf8_unit [a, b, c, d]"
proof -
  have "utf8_valid (a # b # c # d # t) = utf8_valid t" for t
    using assms by (auto simp: in_range_def split: if_splits)
  moreover have "128 \<le> byte b" using assms(4) by (auto simp: in_range_def is_cont_def split: if_splits)
  ultimately show ?thesis using assms(1-3) by (simp add: utf8_unit_def in_range_def is_cont_def)
qed

lemma utf8_head:
  assumes v: "utf8_valid (a # s)"
  obtains u t where "a # s = u @ t" "utf8_unit u" "utf8_valid t"
proof -
  note thesis_of = that
  have one: thesis if "byte a < 128"
    by (rule thesis_of [of "[a]" s]) (use v \<open>byte a < 128\<close> in \<open>simp_all add: utf8_unit_def\<close>)
  show thesis
  proof (cases "byte a < 128")
    case False
    then consider "in_range a 194 223" | "in_range a 224 239" | "in_range a 240 244"
      using v by (auto split: if_splits)
    then show thesis
    proof cases
      case 1
      with v False obtain b t where "s = b # t" "is_cont b" "utf8_valid t" by (auto split: list.splits)
      with 1 show thesis by (intro thesis_of [of "[a, b]" t]) (simp_all add: utf8_two)
    next
      case 2
      with v False obtain b s' where s: "s = b # s'" by (cases s) (auto simp: in_range_def)
      with v 2 False obtain c t where "s' = c # t" by (cases s') (auto simp: in_range_def)
      have "\<not> in_range a 194 223" using 2 by (simp add: in_range_def)
      with v 2 False s \<open>s' = c # t\<close> show thesis
        by (intro thesis_of [of "[a, b, c]" t]) (simp_all add: utf8_three)
    next
      case 3
      with v False obtain b s' where s: "s = b # s'" by (cases s) (auto simp: in_range_def)
      with v 3 False obtain c s'' where s': "s' = c # s''" by (cases s') (auto simp: in_range_def)
      with v 3 False s obtain d t where "s'' = d # t" by (cases s'') (auto simp: in_range_def)
      have "\<not> in_range a 194 223" "\<not> in_range a 224 239" using 3 by (simp_all add: in_range_def)
      with v 3 False s s' \<open>s'' = d # t\<close> show thesis
        by (intro thesis_of [of "[a, b, c, d]" t]) (simp_all add: utf8_four)
    qed
  qed (rule one)
qed

lemma utf8_induct [consumes 1, case_names Nil Unit]:
  assumes "utf8_valid s" and "P []"
    and "\<And>u t. utf8_unit u \<Longrightarrow> utf8_valid t \<Longrightarrow> P t \<Longrightarrow> P (u @ t)"
  shows "P s"
  using assms(1)
proof (induction s rule: length_induct)
  case (1 s)
  show ?case
  proof (cases s)
    case (Cons a s')
    with 1 obtain u t where u: "s = u @ t" "utf8_unit u" "utf8_valid t" by (metis utf8_head)
    then have "length t < length s" by (simp add: utf8_unit_def)
    with 1 u assms(3) show ?thesis by blast
  qed (simp add: assms(2))
qed

lemma utf8_unit_append: "utf8_unit u \<Longrightarrow> utf8_valid (u @ t) = utf8_valid t"
  by (simp add: utf8_unit_def)

lemma utf8_append [utf8_intros]: "utf8_valid s \<Longrightarrow> utf8_valid t \<Longrightarrow> utf8_valid (s @ t)"
  by (induction s rule: utf8_induct) (simp_all add: utf8_unit_append)

abbreviation ascii :: "string \<Rightarrow> bool" where
  "ascii s \<equiv> list_all (\<lambda>c. byte c < 128) s"

lemma utf8_ascii [utf8_intros]: "ascii s \<Longrightarrow> utf8_valid s"
  by (induction s) simp_all

lemma utf8_Cons_ascii: "byte c < 128 \<Longrightarrow> utf8_valid (c # s) \<longleftrightarrow> utf8_valid s"
  by simp

lemma utf8_concat: "\<forall>s \<in> set ss. utf8_valid s \<Longrightarrow> utf8_valid (concat ss)"
  by (induction ss) (auto intro: utf8_append)

lemma utf8_intersperse:
  "utf8_valid sep \<Longrightarrow> \<forall>s \<in> set ss. utf8_valid s \<Longrightarrow> utf8_valid (intersperse sep ss)"
  by (induction sep ss rule: intersperse.induct) (auto intro!: utf8_append)

section \<open>Escaped strings\<close>

lemma escape_high: "128 \<le> byte c \<Longrightarrow> escape_ascii c = [c]"
  by (auto simp: escape_ascii_def)

lemma ascii_hex_digit: "n < 16 \<Longrightarrow> byte (hex_digit n) < 128"
  by (auto simp: hex_digit_def)

lemma ascii_hex4: "ascii (hex4 n)"
  by (simp add: hex4_def ascii_hex_digit)

lemma ascii_escape: "byte c < 128 \<Longrightarrow> ascii (escape_ascii c)"
  by (simp add: escape_ascii_def ascii_hex4)

lemma ascii_escape_cp: "n \<noteq> 127 \<Longrightarrow> ascii (escape_cp n)"
  by (simp add: escape_cp_def ascii_hex4 ascii_escape)

lemma ascii_append: "ascii (s @ t) \<longleftrightarrow> ascii s \<and> ascii t"
  by simp

lemma ascii_concat: "ascii (concat ss) \<longleftrightarrow> list_all ascii ss"
  by (induction ss) simp_all

lemma utf8_escaped: "utf8_valid s \<Longrightarrow> utf8_valid (concat (map escape_ascii s))"
proof (induction s rule: utf8_induct)
  case (Unit u t)
  show ?case
  proof (cases "\<forall>c \<in> set u. 128 \<le> byte c")
    case True
    then have "concat (map escape_ascii u) = u" by (induction u) (simp_all add: escape_high)
    with Unit show ?thesis by (simp add: utf8_unit_append)
  next
    case False
    with Unit(1) obtain c where "u = [c]" "byte c < 128"
      by (cases u) (auto simp: utf8_unit_def)
    with Unit show ?thesis by (auto intro: utf8_append utf8_ascii ascii_escape)
  qed
qed simp

lemma utf8_json_string: "utf8_valid s \<Longrightarrow> utf8_valid (json_string a s)"
proof -
  assume s: "utf8_valid s"
  have "utf8_valid (concat (map (\<lambda>n. if n = 127 then [CHR 0x7F] else escape_cp n) (code_points s)))"
    by (rule utf8_concat) (auto intro: utf8_ascii ascii_escape_cp)
  with utf8_escaped [OF s] show ?thesis
    by (auto simp: json_string_def utf8_Cons_ascii intro!: utf8_append)
qed

section \<open>Numbers\<close>

lemma ascii_dec_digits: "ascii (dec_digits n)"
  using dec_digits_all [of n] by (auto simp: list_all_iff is_digit_def in_range_def)

lemma ascii_sub: "ascii s \<Longrightarrow> set t \<subseteq> set s \<Longrightarrow> ascii t"
  by (auto simp: list_all_iff)

lemma ascii_layout: "ascii ds \<Longrightarrow> ascii (layout_float ds pt)"
  by (auto simp: layout_float_def zero_pad_def ascii_dec_digits list_all_iff
      dest: in_set_takeD in_set_dropD)
    (use ascii_dec_digits in \<open>auto simp: list_all_iff\<close>)

lemma ascii_pos_repr: "ascii (pos_repr r)"
proof -
  have "ascii (strip_zeros (dec_digits n))" for n
    using ascii_dec_digits [of n] by (auto simp: strip_zeros_def list_all_iff dest: set_dropWhileD)
  then show ?thesis by (auto simp: pos_repr_def Let_def ascii_layout split: prod.split)
qed

lemma ascii_float_repr: "ascii (float_repr f)"
  by (cases f) (auto simp: ascii_pos_repr)

section \<open>Values without lone surrogates\<close>

fun py_utf8 :: "pyval \<Rightarrow> bool" and py_utf8_list :: "pyval list \<Rightarrow> bool"
  and py_utf8_items :: "pydict \<Rightarrow> bool" where
  "py_utf8 (PStr s) = utf8_valid s"
| "py_utf8 (PList xs) = py_utf8_list xs"
| "py_utf8 (PDict d) = py_utf8_items d"
| "py_utf8 PNone = True"
| "py_utf8 (PBool b) = True"
| "py_utf8 (PInt n) = True"
| "py_utf8 (PFloat f) = True"
| "py_utf8_list [] = True"
| "py_utf8_list (x # xs) = (py_utf8 x \<and> py_utf8_list xs)"
| "py_utf8_items [] = True"
| "py_utf8_items ((k, v) # d) = (utf8_valid k \<and> py_utf8 v \<and> py_utf8_items d)"

lemma set_insert_item: "set (insert_item x d) = insert x (set d)"
  by (induction x d rule: insert_item.induct) auto

lemma set_sort_items: "set (sort_items d) = set d"
  by (induction d) (auto simp: sort_items_def set_insert_item)

lemma utf8_object:
  assumes "\<forall>(k, t) \<in> set d. utf8_valid k \<and> utf8_valid t" "utf8_valid isep" "utf8_valid ksep"
  shows "utf8_valid (''{'' @ intersperse isep (map (\<lambda>(k, t). json_string a k @ ksep @ t) d) @ ''}'')"
  using assms by (intro utf8_append utf8_intersperse) (auto intro!: utf8_append utf8_json_string)

lemma utf8_json_dumps:
  assumes "utf8_valid (item_sep st)" "utf8_valid (key_sep st)"
  shows "py_utf8 v \<Longrightarrow> utf8_valid (json_dumps st v)"
    and "py_utf8_list xs \<Longrightarrow> \<forall>s \<in> set (json_dumps_list st xs). utf8_valid s"
    and "py_utf8_items d \<Longrightarrow> \<forall>(k, t) \<in> set (json_dumps_items st d). utf8_valid k \<and> utf8_valid t"
proof (induction v and xs and d rule: py_utf8_py_utf8_list_py_utf8_items.induct)
  case (2 xs)
  then show ?case using assms by (auto simp: utf8_Cons_ascii intro!: utf8_append utf8_intersperse)
next
  case (3 d)
  then show ?case using assms
    by (simp add: Let_def) (intro conjI impI utf8_object [simplified]; auto simp: set_sort_items)
next
  case (6 n)
  then show ?case by (auto simp: dec_int_def intro!: utf8_ascii ascii_dec_digits)
next
  case (7 f)
  then show ?case by (simp add: utf8_ascii ascii_float_repr)
qed (simp_all add: utf8_json_string)

lemma ascii_hex_string: "hex_string n s \<Longrightarrow> ascii s"
  by (auto simp: hex_string_def list_all_iff is_lower_hex_def is_digit_def in_range_def)

lemma utf8_sha256_hex [simp]: "utf8_valid (sha256_hex b)"
  using ascii_hex_string [OF hex_string_sha256] by (rule utf8_ascii)

end
