(* ===== verification/Prose_Traverse.thy ===== *)
theory Prose_Traverse
  imports Prose_Prelude "HOL-Library.Multiset"
begin

text \<open>
  \<open>traverse_res\<close> and permutations: where the results come from, and that reordering the input reorders them.
\<close>

lemma traverse_res_source: "traverse_res f xs = Inr ys \<Longrightarrow> y \<in> set ys \<Longrightarrow> \<exists>x \<in> set xs. f x = Inr y"
proof (induction xs arbitrary: ys)
  case (Cons x xs)
  from Cons.prems(1) obtain z zs where "f x = Inr z" "traverse_res f xs = Inr zs" "ys = z # zs"
    by (auto simp: ebind_eq_Inr)
  with Cons.IH Cons.prems(2) show ?case by auto
qed simp

lemma traverse_res_perm:
  assumes "traverse_res f xs = Inr ys" "mset xs' = mset xs"
  obtains ys' where "traverse_res f xs' = Inr ys'" "mset ys' = mset ys"
proof -
  from assms(1) have all: "list_all2 (\<lambda>x y. f x = Inr y) xs ys" by (simp add: traverse_res_all)
  from list_all2_reorder_left_invariance [OF all assms(2)]
  obtain ys' where "list_all2 (\<lambda>x y. f x = Inr y) xs' ys'" "mset ys' = mset ys" by blast
  then show thesis using that by (simp add: traverse_res_all)
qed

end
