(* ===== verification/Hosted_Claims.thy ===== *)
theory Hosted_Claims
  imports Hosted_Reach Py_Encodable Prose_Traverse
begin

text \<open>
  What the hosted protocol and service promise, and two places where they do not: the claims on
  flow control, settlement, delivery, replay and lifecycle races, each with a witness on a concrete
  start record.
\<close>

section \<open>A concrete client\<close>

definition demo_content :: "string \<Rightarrow> string \<Rightarrow> string \<Rightarrow> pyval" where
  "demo_content enc b64 bytes = PDict [
     (''encoding'', PStr enc), (''byteLength'', PInt (int (length bytes))),
     (''sha256'', PStr (sha256_hex bytes)), (''bytesBase64'', PStr b64)]"

definition demo_start :: "string \<Rightarrow> string \<Rightarrow> pydict" where
  "demo_start request place = [
     (''schema'', PStr WIRE_SCHEMA), (''type'', PStr ''run.start''), (''requestId'', PStr request),
     (''invocationId'', PStr ''invocation''), (''idempotencyKey'', PStr ''key''),
     (''placementCandidate'', PStr place),
     (''auth'', PDict [(''category'', PStr ''none-test-only''), (''credentialTransport'', PStr ''none'')]),
     (''billing'', PDict [(''owner'', PStr ''openprose''), (''usageAuthority'', PStr ''unavailable'')]),
     (''runtimeImage'', demo_content ''utf-8'' ''aGk='' ''hi''),
     (''taskEnvelope'', demo_content ''json-utf-8'' ''e30='' ''{}''),
     (''stream'', PDict [(''initialCredit'', PInt 2), (''maxInFlight'', PInt 2),
                         (''maxFrameBytes'', PInt 4096), (''maxQueuedFrames'', PInt 4)])]"

lemma demo_b64: "b64decode ''aGk='' = Inr ''hi''" "b64decode ''e30='' = Inr ''{}''"
  by code_simp+

lemma demo_content_decode:
  "b64decode b64 = Inr bytes \<Longrightarrow> length bytes < 100 \<Longrightarrow> utf8_valid bytes \<Longrightarrow>
   decode_content (dict_of (demo_content enc b64 bytes)) True = Inr bytes"
  by (simp add: decode_content_def demo_content_def keys_are_def decode_or_def MAX_CONTENT_BYTES_def)

lemma demo_utf8: "utf8_valid ''hi''" "utf8_valid ''{}''"
  by code_simp+

lemma demo_decodes:
  "decode_content (dict_of (demo_content ''utf-8'' ''aGk='' ''hi'')) True = Inr ''hi''"
  "decode_content (dict_of (demo_content ''json-utf-8'' ''e30='' ''{}'')) True = Inr ''{}''"
  using demo_b64 demo_utf8 by (simp_all add: demo_content_decode)

lemma demo_ids: "valid_id (PStr ''first'')" "valid_id (PStr ''again'')" "valid_id (PStr ''invocation'')"
  "valid_id (PStr ''key'')" "valid_id (PStr ''fixture-run-0001'')" "valid_id (PStr ''fixture-capability-0001'')"
  by code_simp+

lemma demo_start_valid:
  assumes "valid_id (PStr request)"
    and "place \<in> {''local-loop-gateway'', ''hosted-agent-local-capability-bridge''}"
  shows "validate_record (PDict (demo_start request place)) = None"
  using assms demo_decodes demo_ids
  by (simp add: validate_record_def demo_start_def validate_start_def START_KEYS_def keys_are_def
      bounded_int_def num_eq_def str_in_iff) (auto simp: demo_content_def hashable_def)

lemma start_fingerprint_total:
  assumes "dget record ''type'' = PStr ''run.start''" "py_utf8_items record"
  shows "\<exists>fp. start_fingerprint record = Inr fp"
proof -
  have "py_utf8_items (without_key k d)" if "py_utf8_items d" for k d
    using that by (induction d) (auto simp: without_key_def)
  then have "utf8_valid (json_dumps canonical_style (PDict (without_key ''requestId'' record)))"
    using assms by (intro utf8_json_dumps(1)) (simp_all add: canonical_style_def)
  with assms show ?thesis
    by (simp add: start_fingerprint_def canonical_json_bytes_def utf8_encode_def)
qed

lemma demo_new_run:
  assumes "utf8_valid request" "utf8_valid place"
  obtains r where "new_run scen (demo_start request place) rid = Inr r"
proof -
  have "\<exists>fp. start_fingerprint (demo_start request place) = Inr fp"
    using assms by (intro start_fingerprint_total)
      (simp_all add: demo_start_def demo_content_def utf8_ascii WIRE_SCHEMA_def)
  then show thesis using demo_decodes that
    by (auto simp: new_run_def Let_def demo_start_def)
qed

definition demo_service :: "string \<Rightarrow> service" where
  "demo_service scen = \<lparr>svc_scenario = scen, runs = Map.empty, idempotency = Map.empty, next_run = 1\<rparr>"

lemma demo_service_reachable: "scen \<in> set SCENARIOS \<Longrightarrow> svc_reachable (demo_service scen)"
  by (rule svc_reachable.fresh [of scen]) (simp add: new_service_def demo_service_def)

text \<open>A start, placed or refused, leaves a run in the table.\<close>

lemma demo_started:
  assumes "scen \<in> set SCENARIOS" "place \<in> {''local-loop-gateway'', ''hosted-agent-local-capability-bridge''}"
  defines "s \<equiv> svc_apply (Receive (PDict (demo_start ''first'' place))) (demo_service scen)"
  obtains r where "svc_reachable s" "runs s RUN_ID = Some r"
proof -
  have place: "utf8_valid place" using assms(2) by auto
  have "utf8_valid ''first''" by code_simp
  from demo_new_run [OF this place] obtain r where
    r: "new_run scen (demo_start ''first'' place) RUN_ID = Inr r" by blast
  have valid: "validate_record (PDict (demo_start ''first'' place)) = None"
    using demo_ids assms(2) by (intro demo_start_valid)
  have start: "dget (demo_start ''first'' place) ''type'' = PStr ''run.start''"
    by (simp add: demo_start_def)
  have "\<exists>q. runs (snd (svc_start (demo_start ''first'' place) (demo_service scen))) RUN_ID = Some q"
    using r by (auto simp: svc_start_def Let_def demo_service_def fresh_run_id_def on_run_def
        split: option.split prod.split)
  then have "\<exists>q. runs s RUN_ID = Some q"
    using valid start by (simp add: s_def svc_apply_def svc_receive_def)
  moreover have "svc_reachable s"
    unfolding s_def by (intro svc_reachable.operated demo_service_reachable assms)
  ultimately show thesis using that by blast
qed

section \<open>Limits and settlement\<close>

text \<open>C29. In every state the service can reach, every run keeps to the limits its start negotiated:
  no more unacknowledged deltas than \<open>maxInFlight\<close>, now or ever, no negative credit, unacknowledged
  sequence numbers strictly ascending and already issued, and its side effects executed once.\<close>

theorem reachable_runs_within_limits:
  assumes "svc_reachable s" and "runs s rid = Some r"
  shows "int (length (outstanding r)) \<le> max_in_flight r \<and> max_in_flight_observed r \<le> max_in_flight r \<and>
    0 \<le> credit r \<and> sorted_wrt (<) (outstanding r) \<and> (\<forall>n \<in> set (outstanding r). 0 \<le> n \<and> n < seqno r) \<and>
    side_effect_executions r = 1 \<and> run_id r = rid \<and> idempotency s (idempotency_key r) = Some rid"
  using svc_inv_run [OF svc_reachable_inv [OF assms(1)] assms(2)] by (simp add: flow_ok_def)

theorem reachable_runs_within_limits_witness:
  "\<exists>s r. svc_reachable s \<and> runs s RUN_ID = Some r \<and> int (length (outstanding r)) \<le> max_in_flight r"
proof -
  obtain r where "svc_reachable (svc_apply (Receive (PDict (demo_start ''first'' ''local-loop-gateway'')))
      (demo_service ''backpressure''))"
    "runs (svc_apply (Receive (PDict (demo_start ''first'' ''local-loop-gateway'')))
      (demo_service ''backpressure'')) RUN_ID = Some r"
    by (rule demo_started [of "''backpressure''" "''local-loop-gateway''"]) (simp_all add: SCENARIOS_def)
  with reachable_runs_within_limits [OF this] show ?thesis by blast
qed

text \<open>C37. A settled run stays settled: whatever operations follow, in any order and with any
  arguments, the run keeps its terminal record and the lifecycle cause that won, and none of the
  fields its start fixed changes.\<close>

theorem settled_run_is_final:
  assumes "svc_reachable s" and "runs s rid = Some r" and "terminal_record r = Some t"
  shows "\<exists>q. runs (foldl (\<lambda>s op. svc_apply op s) s ops) rid = Some q \<and> terminal_record q = Some t \<and>
    lifecycle_winner q = lifecycle_winner r \<and> same_identity r q"
  using assms
proof (induction ops arbitrary: s r)
  case Nil
  then show ?case by (simp add: same_identity_def)
next
  case (Cons op ops)
  note inv = svc_reachable_inv [OF Cons.prems(1)]
  obtain q where q: "runs (svc_apply op s) rid = Some q" "extends_history r q" "same_identity r q"
    using history.apply_R [OF inv Cons.prems(2), of op] identity.apply_R [OF inv Cons.prems(2), of op]
    by auto
  then have "terminal_record q = Some t" "lifecycle_winner q = lifecycle_winner r"
    using Cons.prems(3) by (auto simp: extends_history_def)
  with Cons.IH [OF svc_reachable.operated [OF Cons.prems(1)] q(1)] q(3) show ?case
    using identity.R_trans by (metis foldl_Cons)
qed

lemma demo_rejected_frame:
  "check_of (encode_frame (PDict (dict_of_pairs
      [(''schema'', PStr WIRE_SCHEMA), (''type'', PStr ''run.rejected''), (''requestId'', PStr ''first''),
       (''runId'', PStr RUN_ID), (''sequence'', PInt 0)]
      [(''terminal'', PBool True), (''classification'', PStr ''runner-error''),
       (''semantic'', semantic_unknown ''transport-did-not-complete''),
       (''error'', error_value ''HOSTED_UNAVAILABLE'' 10 False),
       (''fallbackSelected'', PBool False)])) 4096) = None"
  by code_simp

lemma demo_settled:
  defines "s \<equiv> svc_apply (Receive (PDict (demo_start ''first'' ''local-loop-gateway''))) (demo_service ''unavailable'')"
  obtains q t where "svc_reachable s" "runs s RUN_ID = Some q" "terminal_record q = Some t"
proof -
  let ?rec = "demo_start ''first'' ''local-loop-gateway''"
  have utf: "utf8_valid ''first''" "utf8_valid ''local-loop-gateway''" by code_simp+
  from demo_new_run [OF utf] obtain r where r: "new_run ''unavailable'' ?rec RUN_ID = Inr r" by blast
  have facts: "request_id r = ''first''" "run_id r = RUN_ID" "seqno r = 0" "max_frame_bytes r = 4096"
      "placement r = ''local-loop-gateway''"
    using r by (auto simp: new_run_def Let_def ebind_eq_Inr demo_start_def)
  obtain q t where q: "run_rejected ''unavailable'' r = (Inr t, q)" "terminal_record q = Some t"
    using demo_rejected_frame facts
    by (auto simp: run_rejected_def REJECTION_ERRORS_def run_record_def Let_def check_of_eq_None)
  have valid: "validate_record (PDict ?rec) = None"
    by (rule demo_start_valid) (simp_all add: demo_ids)
  have start: "dget ?rec ''type'' = PStr ''run.start''" by (simp add: demo_start_def)
  have "validate_placement ''unavailable'' r = None"
    by (simp add: validate_placement_def is_capability_scenario_def facts)
  moreover have "REJECTION_ERRORS ''unavailable'' \<noteq> None" by (simp add: REJECTION_ERRORS_def)
  ultimately have "runs (snd (svc_start ?rec (demo_service ''unavailable''))) RUN_ID = Some q"
    using r q by (auto simp: svc_start_def Let_def demo_service_def fresh_run_id_def on_run_def
        start_run_def then_record_def)
  then have "runs s RUN_ID = Some q"
    using valid start by (simp add: s_def svc_apply_def svc_receive_def)
  moreover have "svc_reachable s"
    unfolding s_def by (intro svc_reachable.operated demo_service_reachable) (simp add: SCENARIOS_def)
  ultimately show thesis using that q by blast
qed

theorem settled_run_is_final_witness:
  "\<exists>s q t. runs s RUN_ID = Some q \<and> terminal_record q = Some t \<and>
     (\<exists>q'. runs (svc_apply (Poll RUN_ID) s) RUN_ID = Some q' \<and> terminal_record q' = Some t)"
proof -
  obtain q t where q: "svc_reachable (svc_apply (Receive (PDict (demo_start ''first'' ''local-loop-gateway'')))
        (demo_service ''unavailable''))"
    "runs (svc_apply (Receive (PDict (demo_start ''first'' ''local-loop-gateway'')))
        (demo_service ''unavailable'')) RUN_ID = Some q" "terminal_record q = Some t"
    by (rule demo_settled)
  from settled_run_is_final [OF this, of "[Poll RUN_ID]"] q show ?thesis by auto
qed

section \<open>Delivery\<close>

lemma drain_loop_sequence:
  assumes "drain_loop ps r recs = (Inr recs', r')"
  shows "\<exists>ds. recs' = recs @ ds \<and> seqno r' = seqno r + int (length ds) \<and>
    map (\<lambda>d. dget d ''sequence'') ds = map (\<lambda>i. PInt (seqno r + int i)) [0..<length ds]"
  using assms
proof (induction ps arbitrary: r recs)
  case (Cons t rest)
  show ?case
  proof (cases "credit r > 0 \<and> int (length (outstanding r)) < max_in_flight r")
    case True
    define part where "part = (if scenario r = ''backpressure'' then 6 - int (length (t # rest)) else 0)"
    obtain y r1 where eq: "run_record ''assistant.delta'' [(''part'', PInt part), (''text'', PStr t)]
        (r\<lparr>pending_deltas := rest\<rparr>) = (y, r1)" by fastforce
    with True Cons.prems obtain d where y: "y = Inr d" by (cases y) (auto simp: part_def)
    note dr = delta_record [OF eq [unfolded y]]
    from Cons.prems True eq y Cons.IH obtain ds where ds: "recs' = (recs @ [d]) @ ds"
      "seqno r' = seqno r + 1 + int (length ds)"
      "map (\<lambda>d. dget d ''sequence'') ds = map (\<lambda>i. PInt (seqno r + 1 + int i)) [0..<length ds]"
      by (fastforce simp: part_def [symmetric] dr)
    have "map (\<lambda>i. PInt (seqno r + int i)) [0..<Suc (length ds)] =
        PInt (seqno r) # map (\<lambda>i. PInt (seqno r + 1 + int i)) [0..<length ds]"
      by (simp add: map_upt_Suc algebra_simps del: upt_Suc)
    with ds dr show ?thesis by (intro exI [of _ "d # ds"]) simp
  qed (use Cons.prems in auto)
qed simp

text \<open>C38. Draining delivers every pending delta at most once and in order: the records sent carry
  a prefix of the pending texts, exactly the rest stays pending, their sequence numbers are the
  consecutive next ones, and delivery stops early only when the credit or the window is used up.\<close>

theorem drain_delivers_in_order:
  assumes "flow_ok r" and "drain_loop (pending_deltas r) r [] = (Inr recs, r')"
  shows "\<exists>ts. pending_deltas r = ts @ pending_deltas r' \<and>
     map (\<lambda>d. dget d ''text'') recs = map PStr ts \<and>
     map (\<lambda>d. dget d ''sequence'') recs = map (\<lambda>i. PInt (seqno r + int i)) [0..<length recs] \<and>
     outstanding r' = outstanding r @ map (\<lambda>d. int_of (dget d ''sequence'')) recs \<and>
     credit r' = credit r - int (length recs) \<and>
     (pending_deltas r' \<noteq> [] \<longrightarrow>
        credit r' = 0 \<or> int (length (outstanding r')) = max_in_flight r')"
proof -
  from drain_loop_spec [OF refl assms] have ok: "flow_ok r'" and d: "drained r r' recs" by auto
  from d obtain ts where ts: "pending_deltas r = ts @ pending_deltas r'" "list_all2 delta_of recs ts"
    by (auto simp: drained_def)
  have "map (\<lambda>d. dget d ''text'') recs = map PStr ts"
    using ts(2) by (induction rule: list_all2_induct) (auto simp: delta_of_def)
  with ts d ok drain_loop_sequence [OF assms(2)] show ?thesis
    by (auto simp: drained_def flow_ok_def)
qed

definition demo_run :: run where
  "demo_run = \<lparr>
     scenario = ''backpressure'', start_billing = [(''usageAuthority'', PStr ''unavailable'')],
     run_id = RUN_ID, request_id = ''first'', invocation_id = ''invocation'', idempotency_key = ''key'',
     fingerprint = ''fp'', placement = ''local-loop-gateway'', seqno = 3,
     pending_deltas = [''a'', ''b''], outstanding = [2], credit = 1, max_in_flight = 2,
     max_in_flight_observed = 1, max_frame_bytes = 4096, max_queued_frames = 4,
     max_queued_frames_observed = 1, replays = 0, side_effect_executions = 1,
     capability_requested = 0, capability_completed = 0, capability_rejected = 0,
     capability_correlation_failures = 0, expected_capability_id = None, terminal_record = None,
     lifecycle_winner = ''none'', usage = [(''authority'', PStr ''unavailable'')], usage_emitted = False,
     image_sha = PStr ''i'', task_sha = PStr ''t'', exact_image = True, exact_task = True\<rparr>"

definition demo_credit :: pydict where
  "demo_credit = [(''schema'', PStr WIRE_SCHEMA), (''type'', PStr ''stream.credit''),
     (''requestId'', PStr ''first''), (''runId'', PStr RUN_ID),
     (''acknowledgeThrough'', PInt 2), (''grant'', PInt 1)]"

lemma demo_run_flow: "flow_ok demo_run"
  by (simp add: flow_ok_def demo_run_def)

lemma demo_run_drains: "check_of (fst (drain_loop (pending_deltas demo_run) demo_run [])) = None"
  by code_simp

theorem drain_delivers_in_order_witness:
  "\<exists>recs r' ts. drain_loop (pending_deltas demo_run) demo_run [] = (Inr recs, r') \<and>
     [''a'', ''b''] = ts @ pending_deltas r' \<and> map (\<lambda>d. dget d ''text'') recs = map PStr ts"
proof -
  obtain recs r' where eq: "drain_loop (pending_deltas demo_run) demo_run [] = (Inr recs, r')"
    using demo_run_drains by (auto simp: check_of_eq_None) (metis prod.collapse)
  have "pending_deltas demo_run = [''a'', ''b'']" by (simp add: demo_run_def)
  with drain_delivers_in_order [OF demo_run_flow eq] eq show ?thesis by auto
qed

text \<open>C39. Credit makes progress: an accepted credit record sends at least one pending delta, and
  the credit that empties the queue of a run settles it, the terminal record being the last one
  sent (except in the scenario that never sends one).\<close>

lemma drain_complete:
  assumes "drain r = (Inr recs, r')" "flow_ok r"
  shows "\<exists>recs0 r0. drain_loop (pending_deltas r) r [] = (Inr recs0, r0) \<and> drained r r0 recs0 \<and>
    pending_deltas r' = pending_deltas r0 \<and>
    (pending_deltas r' = [] \<longrightarrow> scenario r \<noteq> ''no-terminal'' \<longrightarrow>
       (\<exists>t. terminal_record r' = Some t \<and> last recs = t \<and> recs \<noteq> []))"
proof -
  obtain x r0 where eq: "drain_loop (pending_deltas r) r [] = (x, r0)" by fastforce
  with assms obtain recs0 where x: "x = Inr recs0" by (cases x) (auto simp: drain_def)
  from drain_loop_spec [OF refl assms(2) eq] x have d: "drained r r0 recs0" by auto
  have sc: "scenario r0 = scenario r"
    using identity.drain_loop_R [of r "pending_deltas r" "[]"] eq by (simp add: same_identity_def)
  have pend: "pending_deltas (snd (run_record t v q)) = pending_deltas q" for t v q
    by (auto simp: run_record_def Let_def split: sum.splits)
  have usage: "pending_deltas (snd (run_usage q)) = pending_deltas q" for q
    by (simp add: run_usage_def pend)
  have term_pend: "pending_deltas (snd (semantic_unknown_terminal q)) = pending_deltas q" for q
    using pend by (auto simp: semantic_unknown_terminal_def run_terminal_def Let_def
        split: option.splits prod.splits sum.splits) (metis snd_conv)+
  have settled: "terminal_record q' = Some t" if "semantic_unknown_terminal q = (Inr t, q')" for q q' t
    using that by (auto simp: semantic_unknown_terminal_def run_terminal_def Let_def
        split: option.splits prod.splits sum.splits)
  show ?thesis
  proof (cases "pending_deltas r0 = []")
    case True
    with assms(1) eq x d sc show ?thesis
      using usage [of r0] term_pend settled
      by (auto simp: drain_def then_record_def split: if_splits sum.splits prod.splits) 
         (metis snd_conv)+
  next
    case False
    with assms(1) eq x d show ?thesis by (auto simp: drain_def)
  qed
qed

theorem credit_makes_progress:
  assumes "flow_ok r" and "terminal_record r = None" and "run_credit record r = (Inr recs, r')"
  shows "(pending_deltas r \<noteq> [] \<longrightarrow> length (pending_deltas r') < length (pending_deltas r)) \<and>
    (pending_deltas r' = [] \<and> scenario r \<noteq> ''no-terminal'' \<longrightarrow>
       (\<exists>t. terminal_record r' = Some t \<and> last recs = t \<and> recs \<noteq> []))"
  using assms(3)
proof (cases rule: run_credit_cases)
  case (2 a g out)
  define q where "q = r\<lparr>outstanding := out, credit := credit r + min g (max_in_flight r - int (length out))\<rparr>"
  have q: "flow_ok q" using flow_acknowledge [OF assms(1) 2(3), of "\<lambda>v. a < v"] 2(6) by (simp add: q_def)
  from 2(7) have less: "length out < length (outstanding r)"
    unfolding 2(6) by (metis length_filter_less linorder_not_less)
  with assms(1) have room: "int (length out) < max_in_flight r" by (simp add: flow_ok_def)
  with 2(3) assms(1) have cr: "0 < credit q" by (auto simp: q_def flow_ok_def min_def)
  from drain_complete [OF 2(8) [folded q_def] q] obtain recs0 r0 where
    d: "drained q r0 recs0" "pending_deltas r' = pending_deltas r0"
      "drain_loop (pending_deltas q) q [] = (Inr recs0, r0)"
      "pending_deltas r' = [] \<longrightarrow> scenario q \<noteq> ''no-terminal'' \<longrightarrow>
       (\<exists>t. terminal_record r' = Some t \<and> last recs = t \<and> recs \<noteq> [])" by blast
  from d(1) obtain ts where ts: "pending_deltas r = ts @ pending_deltas r0" "length recs0 = length ts"
    by (auto simp: drained_def q_def dest: list_all2_lengthD)
  have "ts \<noteq> [] \<or> pending_deltas r = []"
  proof (rule ccontr)
    assume "\<not> ?thesis"
    with ts d(1) cr room identity.drain_loop_R [of q "pending_deltas q" "[]"] d(3) show False
      by (auto simp: drained_def q_def same_identity_def)
  qed
  with ts d show ?thesis by (auto simp: q_def)
qed simp

theorem credit_makes_progress_witness:
  "\<exists>recs r'. run_credit demo_credit demo_run = (Inr recs, r') \<and>
     length (pending_deltas r') < length (pending_deltas demo_run)"
proof -
  have "check_of (fst (run_credit demo_credit demo_run)) = None" by code_simp
  then obtain recs r' where eq: "run_credit demo_credit demo_run = (Inr recs, r')"
    by (auto simp: check_of_eq_None) (metis prod.collapse)
  have "terminal_record demo_run = None" "pending_deltas demo_run \<noteq> []" by (simp_all add: demo_run_def)
  with credit_makes_progress [OF demo_run_flow _ eq] eq show ?thesis by blast
qed

section \<open>Retries\<close>

text \<open>The state a replayed start leaves: one more replay and one more sequence number, nothing else.\<close>

definition replayed :: "run \<Rightarrow> run" where
  "replayed r = r\<lparr>replays := replays r + 1, seqno := seqno r + 1\<rparr>"

lemma run_record_state: "snd (run_record t v r) = r\<lparr>seqno := seqno r + 1\<rparr>"
  by (rule run_record_cases [of t v r]) simp_all

lemma run_record_Inr:
  "run_record t v r = (Inr rec, q) \<Longrightarrow>
   rec = dict_of_pairs [(''schema'', PStr WIRE_SCHEMA), (''type'', PStr t), (''requestId'', PStr (request_id r)),
           (''runId'', PStr (run_id r)), (''sequence'', PInt (seqno r))] v"
  by (cases rule: run_record_cases [of t v r]) simp_all

lemma then_record_state: "snd (then_record (Inr recs, r) f) = snd (f r)"
  by (simp add: then_record_def split: prod.split sum.split)

lemma then_record_raises: "fst (then_record (Inr recs, r) f) = Inl e \<longleftrightarrow> fst (f r) = Inl e"
  by (simp add: then_record_def split: prod.split sum.split)

lemma then_record_one:
  "then_record (Inr [], r) f = (Inr recs, r') \<longleftrightarrow> (\<exists>rec. recs = [rec] \<and> f r = (Inr rec, r'))"
  by (auto simp: then_record_def split: prod.split sum.split)

lemma replay_run_state: "snd (replay_run record r) = replayed r"
  unfolding replay_run_def Let_def then_record_state run_record_state by (simp add: replayed_def)

lemma replay_run_record:
  assumes "replay_run record r = (Inr recs, r')"
  shows "\<exists>rec. recs = [rec] \<and> dget rec ''type'' = PStr ''run.replayed'' \<and> dget rec ''runId'' = PStr (run_id r) \<and>
     dget rec ''requestId'' = dget record ''requestId'' \<and>
     dget rec ''originalRequestId'' = PStr (request_id r) \<and>
     dget rec ''sideEffectsReexecuted'' = PBool False \<and>
     dget rec ''state'' = PStr (if terminal_record r \<noteq> None then ''terminal'' else ''in-progress'')"
proof -
  let ?vs = "[(''requestId'', dget record ''requestId''),
            (''originalRequestId'', PStr (request_id r)),
            (''idempotencyKey'', dget record ''idempotencyKey''),
            (''sideEffectsReexecuted'', PBool False),
            (''state'', PStr (if terminal_record r \<noteq> None then ''terminal'' else ''in-progress''))]"
  have same: "request_id (r\<lparr>replays := n\<rparr>) = request_id r" "run_id (r\<lparr>replays := n\<rparr>) = run_id r"
      "seqno (r\<lparr>replays := n\<rparr>) = seqno r" for n by simp_all
  obtain snap rec q where recs: "recs = [rec]" and snap: "fst ` set snap \<subseteq> {''terminalSnapshot''}"
    and rec: "run_record ''run.replayed'' (?vs @ snap) (r\<lparr>replays := replays r + 1\<rparr>) = (Inr rec, q)"
  proof -
    define snap where "snap = (case terminal_record r of None \<Rightarrow> []
            | Some t \<Rightarrow> [(''terminalSnapshot'', PDict
                [(''classification'', dget t ''classification''), (''semantic'', dget t ''semantic''),
                 (''error'', dget t ''error''), (''fallbackSelected'', PBool False)])])"
    have same: "request_id (r\<lparr>replays := n\<rparr>) = request_id r"
        "terminal_record (r\<lparr>replays := n\<rparr>) = terminal_record r" for n by simp_all
    have "replay_run record r = then_record (Inr [], r\<lparr>replays := replays r + 1\<rparr>)
        (run_record ''run.replayed'' (?vs @ snap))"
      unfolding replay_run_def Let_def snap_def same by (rule refl)
    then have "then_record (Inr [], r\<lparr>replays := replays r + 1\<rparr>) (run_record ''run.replayed'' (?vs @ snap)) = (Inr recs, r')"
      unfolding assms by (rule sym)
    then obtain rec where "recs = [rec]"
      "run_record ''run.replayed'' (?vs @ snap) (r\<lparr>replays := replays r + 1\<rparr>) = (Inr rec, r')"
      unfolding then_record_one by blast
    moreover have "fst ` set snap \<subseteq> {''terminalSnapshot''}"
      by (cases "terminal_record r") (simp_all add: snap_def)
    ultimately show thesis using that by blast
  qed
  let ?base = "[(''schema'', PStr WIRE_SCHEMA), (''type'', PStr ''run.replayed''),
                 (''requestId'', PStr (request_id r)), (''runId'', PStr (run_id r)),
                 (''sequence'', PInt (seqno r))]"
  have "rec = dict_of_pairs ?base (?vs @ snap)"
    using run_record_Inr [OF rec] unfolding same .
  moreover have "dict_of_pairs d (xs @ ys) = dict_of_pairs (dict_of_pairs d xs) ys" for d xs ys
    by (induction d xs rule: dict_of_pairs.induct) simp_all
  ultimately have eq: "rec = dict_of_pairs (dict_of_pairs ?base ?vs) snap" by metis
  have k: "dget rec k = dget (dict_of_pairs ?base ?vs) k" if "k \<noteq> ''terminalSnapshot''" for k
    unfolding eq using snap that by (intro dget_dict_of_pairs_absent) auto
  show ?thesis using recs by (simp add: k)
qed

text \<open>A start whose idempotency key is taken and whose payload matches apart from its request id
  runs nothing again: the only change to the whole service is one more replay and one more sequence
  number of the existing run, and the one record answered says so.\<close>

theorem retry_executes_nothing:
  assumes "validate_record (PDict record) = None" and "dget record ''type'' = PStr ''run.start''"
    and "idempotency s (str_of (dget record ''idempotencyKey'')) = Some rid" and "runs s rid = Some r"
    and "start_fingerprint (dict_set ''requestId'' original record) = Inr (fingerprint r)"
  shows "snd (svc_receive (PDict record) s) =
       s\<lparr>runs := (runs s)(rid \<mapsto> r\<lparr>replays := replays r + 1, seqno := seqno r + 1\<rparr>)\<rparr> \<and>
     (\<forall>recs. fst (svc_receive (PDict record) s) = Inr recs \<longrightarrow>
       (\<exists>rec. recs = [rec] \<and> dget rec ''type'' = PStr ''run.replayed'' \<and>
          dget rec ''requestId'' = dget record ''requestId'' \<and>
          dget rec ''originalRequestId'' = PStr (request_id r) \<and>
          dget rec ''sideEffectsReexecuted'' = PBool False))"
proof -
  have "without_key k (dict_set k v d) = without_key k d" for k v and d :: pydict
    by (induction k v d rule: dict_set.induct) (auto simp: without_key_def)
  then have "start_fingerprint record = Inr (fingerprint r)"
    using assms(2,5) by (simp add: start_fingerprint_def)
  with assms have eq: "svc_receive (PDict record) s = on_run rid r (replay_run record) s"
    by (simp add: svc_receive_def svc_start_def Let_def)
  obtain x r' where rr: "replay_run record r = (x, r')" by fastforce
  then have "r' = replayed r" using replay_run_state [of "record" r] by simp
  with rr eq replay_run_record [of "record" r] show ?thesis
    by (auto simp: on_run_def replayed_def)
qed

text \<open>Reusing an idempotency key with a different payload is refused and changes nothing.\<close>

theorem conflicting_retry_refused:
  assumes "validate_record (PDict record) = None" and "dget record ''type'' = PStr ''run.start''"
    and "idempotency s (str_of (dget record ''idempotencyKey'')) = Some rid" and "runs s rid = Some r"
    and "start_fingerprint record = Inr fp" and "fp \<noteq> fingerprint r"
  shows "svc_receive (PDict record) s =
     (Inl (ProtocolViolation ''idempotency key was reused with a different payload''), s)"
  using assms by (simp add: svc_receive_def svc_start_def Let_def)

definition demo_taken :: "string \<Rightarrow> service" where
  "demo_taken fp = \<lparr>svc_scenario = ''backpressure'', runs = [RUN_ID \<mapsto> demo_run\<lparr>fingerprint := fp\<rparr>],
     idempotency = [''key'' \<mapsto> RUN_ID], next_run = 2\<rparr>"

lemma demo_retry_valid: "validate_record (PDict (demo_start ''again'' ''local-loop-gateway'')) = None"
  by (rule demo_start_valid) (simp_all add: demo_ids)

lemma demo_retry_type: "dget (demo_start ''again'' ''local-loop-gateway'') ''type'' = PStr ''run.start''"
  and demo_retry_key: "dget (demo_start ''again'' ''local-loop-gateway'') ''idempotencyKey'' = PStr ''key''"
  by (simp_all add: demo_start_def)

lemma demo_retry_fingerprint:
  obtains fp where "start_fingerprint (demo_start ''again'' ''local-loop-gateway'') = Inr fp"
    "start_fingerprint (dict_set ''requestId'' (PStr ''first'') (demo_start ''again'' ''local-loop-gateway'')) = Inr fp"
proof -
  have "utf8_valid ''again''" "utf8_valid ''local-loop-gateway''" by code_simp+
  from demo_new_run [OF this] obtain r where "new_run ''backpressure'' (demo_start ''again'' ''local-loop-gateway'') RUN_ID = Inr r"
    by blast
  from new_run_facts(12) [OF this] show thesis
    by (intro that [of "fingerprint r"]) (simp_all add: start_fingerprint_def demo_start_def without_key_def)
qed

theorem retry_executes_nothing_witness:
  "\<exists>fp r. runs (demo_taken fp) RUN_ID = Some r \<and>
     snd (svc_receive (PDict (demo_start ''again'' ''local-loop-gateway'')) (demo_taken fp)) =
       (demo_taken fp)\<lparr>runs := (runs (demo_taken fp))(RUN_ID \<mapsto> r\<lparr>replays := replays r + 1, seqno := seqno r + 1\<rparr>)\<rparr>"
proof -
  from demo_retry_fingerprint obtain fp where
    fp: "start_fingerprint (dict_set ''requestId'' (PStr ''first'') (demo_start ''again'' ''local-loop-gateway'')) = Inr fp" .
  have key: "idempotency (demo_taken fp) (str_of (dget (demo_start ''again'' ''local-loop-gateway'') ''idempotencyKey'')) = Some RUN_ID"
    by (simp add: demo_taken_def demo_retry_key)
  have run: "runs (demo_taken fp) RUN_ID = Some (demo_run\<lparr>fingerprint := fp\<rparr>)" by (simp add: demo_taken_def)
  have fp': "start_fingerprint (dict_set ''requestId'' (PStr ''first'') (demo_start ''again'' ''local-loop-gateway''))
      = Inr (fingerprint (demo_run\<lparr>fingerprint := fp\<rparr>))"
    using fp by simp
  from retry_executes_nothing [OF demo_retry_valid demo_retry_type key run fp'] run show ?thesis by blast
qed

theorem conflicting_retry_refused_witness:
  "svc_receive (PDict (demo_start ''again'' ''local-loop-gateway'')) (demo_taken ''other'') =
     (Inl (ProtocolViolation ''idempotency key was reused with a different payload''), demo_taken ''other'')"
proof -
  from demo_retry_fingerprint obtain fp where
    fp: "start_fingerprint (demo_start ''again'' ''local-loop-gateway'') = Inr fp" .
  then have "length fp = 64"
    using hex_string_sha256 by (auto simp: start_fingerprint_def ebind_eq_Inr hex_string_def split: if_splits)
  then have ne: "fp \<noteq> fingerprint (demo_run\<lparr>fingerprint := ''other''\<rparr>)" by auto
  have key: "idempotency (demo_taken ''other'') (str_of (dget (demo_start ''again'' ''local-loop-gateway'') ''idempotencyKey'')) = Some RUN_ID"
    by (simp add: demo_taken_def demo_retry_key)
  have run: "runs (demo_taken ''other'') RUN_ID = Some (demo_run\<lparr>fingerprint := ''other''\<rparr>)"
    by (simp add: demo_taken_def)
  show ?thesis by (rule conflicting_retry_refused [OF demo_retry_valid demo_retry_type key run fp ne])
qed

section \<open>Lifecycle races\<close>

lemma key_less_trans: "key_less a b \<Longrightarrow> key_less b c \<Longrightarrow> key_less a c"
  and key_less_irrefl: "\<not> key_less a a"
  and key_less_total: "key_less a b \<or> a = b \<or> key_less b a"
  by (auto simp: key_less_def prod_eq_iff)

lemma min_first_spec:
  "min_first m cs \<in> set (m # cs) \<and> (\<forall>c \<in> set (m # cs). \<not> key_less (race_key c) (race_key (min_first m cs)))"
proof (induction cs arbitrary: m)
  case (Cons c cs)
  show ?case
  proof (cases "key_less (race_key c) (race_key m)")
    case True
    with Cons [of c] show ?thesis by (auto dest: key_less_trans)
  next
    case False
    with Cons [of m] show ?thesis
      by simp (metis key_less_total key_less_trans)
  qed
qed (simp add: key_less_irrefl)

lemma race_key_inject:
  assumes "RACE_PRIORITY (fst a) \<noteq> None" "RACE_PRIORITY (fst b) \<noteq> None" "race_key a = race_key b"
  shows "a = b"
  using assms by (auto simp: RACE_PRIORITY_def race_key_def prod_eq_iff split: if_splits)

lemma candidate_priority:
  "lifecycle_candidate signal = Inr c \<Longrightarrow> RACE_PRIORITY (fst c) \<noteq> None"
  by (auto simp: lifecycle_candidate_def Let_def checked_eq_Inr)

text \<open>C40. A lifecycle race is decided by time, then by the fixed priority of the causes: the winner is
  one of the signals, no signal precedes it, and the order the signals arrived in does not matter.\<close>

theorem lifecycle_winner_is_earliest:
  assumes "choose_lifecycle_winner signals = Inr w"
  shows "(\<exists>cs. traverse_res lifecycle_candidate signals = Inr cs \<and> w \<in> set cs \<and>
       (\<forall>c \<in> set cs. \<not> key_less (race_key c) (race_key w))) \<and>
     (\<forall>signals'. mset signals' = mset signals \<longrightarrow> choose_lifecycle_winner signals' = Inr w)"
proof -
  from assms obtain xs where xs: "traverse_res lifecycle_candidate signals = Inr xs"
      "(case xs of [] \<Rightarrow> Inl (ProtocolViolation ''lifecycle race requires at least one signal'')
        | c # cs \<Rightarrow> Inr (min_first c cs)) = Inr w"
    unfolding choose_lifecycle_winner_def ebind_eq_Inr by blast
  then obtain c cs where cs: "traverse_res lifecycle_candidate signals = Inr (c # cs)" "w = min_first c cs"
    by (cases xs) simp_all
  have least: "w \<in> set (c # cs)" "\<forall>d \<in> set (c # cs). \<not> key_less (race_key d) (race_key w)"
    using min_first_spec [of c cs] cs(2) by auto
  have prio: "RACE_PRIORITY (fst d) \<noteq> None" if "d \<in> set (c # cs)" for d
    using traverse_res_source [OF cs(1) that] candidate_priority by blast
  have "choose_lifecycle_winner signals' = Inr w" if "mset signals' = mset signals" for signals'
  proof -
    from cs(1) that obtain ys where ys: "traverse_res lifecycle_candidate signals' = Inr ys"
      "mset ys = mset (c # cs)" by (rule traverse_res_perm)
    then have set: "set ys = set (c # cs)" by (metis set_mset_mset)
    then obtain d ds where d: "ys = d # ds" by (cases ys) auto
    have "min_first d ds \<in> set (c # cs)" "\<not> key_less (race_key w) (race_key (min_first d ds))"
      using min_first_spec [of d ds] set d least(1) by auto
    with least have "race_key (min_first d ds) = race_key w" using key_less_total by blast
    then have "min_first d ds = w"
      using prio \<open>min_first d ds \<in> set (c # cs)\<close> least(1) by (blast intro: race_key_inject)
    with ys d show ?thesis by (simp add: choose_lifecycle_winner_def)
  qed
  with cs(1) least show ?thesis by blast
qed

theorem lifecycle_winner_is_earliest_witness:
  "choose_lifecycle_winner [[(''cause'', PStr ''cancel''), (''atMs'', PInt 5)],
                            [(''cause'', PStr ''timeout''), (''atMs'', PInt 5)]] = Inr (''cancel'', 5)"
proof -
  have base: "choose_lifecycle_winner [[(''cause'', PStr ''timeout''), (''atMs'', PInt 5)],
      [(''cause'', PStr ''cancel''), (''atMs'', PInt 5)]] = Inr (''cancel'', 5)" by code_simp
  show ?thesis by (rule conjunct2 [OF lifecycle_winner_is_earliest [OF base], rule_format]) simp
qed

section \<open>Two gaps\<close>

text \<open>A start refused for its placement has already taken its idempotency key: the run stays in the
  table, not settled, and the very same start sent again is no longer refused but answered as the
  replay of a run in progress.\<close>

theorem refused_start_is_registered:
  assumes "validate_record (PDict record) = None" and "dget record ''type'' = PStr ''run.start''"
    and "idempotency s (str_of (dget record ''idempotencyKey'')) = None"
    and "new_run (svc_scenario s) record (fresh_run_id (next_run s)) = Inr r"
    and "validate_placement (svc_scenario s) r = Some e"
  shows "\<exists>s'. svc_receive (PDict record) s = (Inl e, s') \<and> runs s' (run_id r) = Some r \<and>
    terminal_record r = None \<and>
    (\<forall>recs. fst (svc_receive (PDict record) s') = Inr recs \<longrightarrow>
       (\<exists>rec. recs = [rec] \<and> dget rec ''type'' = PStr ''run.replayed'' \<and>
              dget rec ''state'' = PStr ''in-progress'')) \<and>
    fst (svc_receive (PDict record) s') \<noteq> Inl e"
proof -
  define rid where "rid = fresh_run_id (next_run s)"
  define s' where "s' = s\<lparr>next_run := next_run s + 1, runs := (runs s)(rid \<mapsto> r),
      idempotency := (idempotency s)(str_of (dget record ''idempotencyKey'') \<mapsto> rid)\<rparr>"
  note facts = new_run_facts [OF assms(4) [folded rid_def]]
  have first: "svc_receive (PDict record) s = (Inl e, s')"
    using assms by (simp add: svc_receive_def svc_start_def Let_def rid_def s'_def)
  have second: "svc_receive (PDict record) s' = on_run rid r (replay_run record) s'"
    using assms(1,2) facts by (simp add: svc_receive_def svc_start_def Let_def s'_def)
  have "runs s' (run_id r) = Some r" using facts(1) by (simp add: s'_def)
  moreover have "\<exists>rec. recs = [rec] \<and> dget rec ''type'' = PStr ''run.replayed'' \<and>
      dget rec ''state'' = PStr ''in-progress''" if "replay_run record r = (Inr recs, r')" for recs r'
    using replay_run_record [OF that] facts(4) by auto
  moreover have "fst (replay_run record r) \<noteq> Inl e"
  proof
    assume "fst (replay_run record r) = Inl e"
    then obtain v where "fst (run_record ''run.replayed'' v (r\<lparr>replays := replays r + 1\<rparr>)) = Inl e"
      unfolding replay_run_def Let_def then_record_raises by blast
    then obtain b where "encode_frame b (max_frame_bytes r) = Inl e"
      by (auto simp: run_record_def Let_def split: sum.splits)
    then have "e = UnicodeErr \<or> (\<exists>m. e = ProtocolViolation (''encoded frame is '' @ m))"
      by (auto simp: encode_frame_def ebind_eq_Inl canonical_json_bytes_def utf8_encode_def Let_def split: if_splits)
    with assms(5) show False by (auto simp: validate_placement_def Let_def split: if_splits)
  qed
  ultimately show ?thesis using first second facts(4)
    by (cases "replay_run record r") (auto simp: on_run_def)
qed

theorem refused_start_is_registered_witness:
  "\<exists>e s'. svc_receive (PDict (demo_start ''first'' ''local-loop-gateway''))
       (demo_service ''hosted-agent-local-capability-bridge'') = (Inl e, s') \<and>
     fst (svc_receive (PDict (demo_start ''first'' ''local-loop-gateway'')) s') \<noteq> Inl e"
proof -
  let ?rec = "demo_start ''first'' ''local-loop-gateway''"
  let ?s = "demo_service ''hosted-agent-local-capability-bridge''"
  have utf: "utf8_valid ''first''" "utf8_valid ''local-loop-gateway''" by code_simp+
  from demo_new_run [OF utf] obtain r where
    r: "new_run (svc_scenario ?s) ?rec (fresh_run_id (next_run ?s)) = Inr r" by blast
  have "placement r = ''local-loop-gateway''" using new_run_facts(15) [OF r] by (simp add: demo_start_def)
  then obtain e where e: "validate_placement (svc_scenario ?s) r = Some e"
    by (auto simp: validate_placement_def is_capability_scenario_def demo_service_def)
  have valid: "validate_record (PDict ?rec) = None" by (rule demo_start_valid) (simp_all add: demo_ids)
  have start: "dget ?rec ''type'' = PStr ''run.start''" by (simp add: demo_start_def)
  have free: "idempotency ?s (str_of (dget ?rec ''idempotencyKey'')) = None" by (simp add: demo_service_def)
  from refused_start_is_registered [OF valid start free r e] show ?thesis by blast
qed

lemma run_usage_state:
  "\<not> usage_emitted r \<Longrightarrow> \<exists>u. snd (run_usage r) = r\<lparr>usage_emitted := True, usage := u, seqno := seqno r + 1\<rparr>"
  by (auto simp: run_usage_def run_record_state)

lemma unknown_terminal_state:
  assumes "terminal_record r = None" "semantic_unknown_terminal r = (Inr t, q)"
  shows "q = r\<lparr>seqno := seqno r + 1, terminal_record := Some t\<rparr>"
proof -
  obtain x r' where rr: "run_record ''run.terminal''
      [(''terminal'', PBool True), (''classification'', PStr ''runner-error''),
       (''semantic'', semantic_unknown ''external-terminal-schema-unavailable''),
       (''error'', error_value ''SEMANTIC_STATUS_UNKNOWN'' 23 False), (''fallbackSelected'', PBool False)] r
      = (x, r')" by fastforce
  then have "r' = r\<lparr>seqno := seqno r + 1\<rparr>" using run_record_state by (metis snd_conv)
  with assms rr show ?thesis
    by (cases x) (simp_all add: semantic_unknown_terminal_def run_terminal_def Let_def)
qed

text \<open>Polling a capability run that still waits for its capability response settles it: the run
  reports usage and a terminal record while the request it made stays unanswered for ever.\<close>

theorem poll_settles_unanswered_capability:
  assumes "runs s rid = Some r" and "is_capability_scenario (scenario r)" and "terminal_record r = None"
    and "expected_capability_id r = Some CAPABILITY_ID" and "pending_deltas r = []"
    and "svc_poll rid s = (Inr recs, s')"
  shows "\<exists>q. runs s' rid = Some q \<and> terminal_record q \<noteq> None \<and> expected_capability_id q = Some CAPABILITY_ID \<and>
    capability_completed q = capability_completed r \<and> capability_rejected q = capability_rejected r \<and>
    length recs = 2"
proof -
  obtain q where q: "drain r = (Inr recs, q)" "runs s' rid = Some q"
    using assms(1,3,6) by (cases "drain r") (auto simp: svc_poll_def on_run_def)
  have other: "scenario r \<noteq> ''no-terminal''" using assms(2) by (auto simp: is_capability_scenario_def)
  have loop: "drain_loop (pending_deltas r) r [] = (Inr [], r)" using assms(5) by simp
  have final: "then_record (then_record (Inr [], r) run_usage) semantic_unknown_terminal = (Inr recs, q)"
    using q(1) loop assms(5) other by (simp add: drain_def)
  then obtain u r1 where u: "run_usage r = (Inr u, r1)"
    by (cases "run_usage r"; cases "fst (run_usage r)") (auto simp: then_record_def)
  with final obtain t where t: "semantic_unknown_terminal r1 = (Inr t, q)" "recs = [u, t]"
    by (cases "semantic_unknown_terminal r1"; cases "fst (semantic_unknown_terminal r1)")
       (auto simp: then_record_def)
  have "\<not> usage_emitted r" using u by (auto simp: run_usage_def)
  from run_usage_state [OF this] u obtain w where
    r1: "r1 = r\<lparr>usage_emitted := True, usage := w, seqno := seqno r + 1\<rparr>" by auto
  have "q = r1\<lparr>seqno := seqno r1 + 1, terminal_record := Some t\<rparr>"
    using t(1) assms(3) by (intro unknown_terminal_state) (simp_all add: r1)
  with q(2) t(2) assms(4) show ?thesis by (simp add: r1)
qed

definition demo_waiting :: run where
  "demo_waiting = demo_run\<lparr>scenario := ''hosted-agent-local-capability-bridge'', pending_deltas := [],
     capability_requested := 1, expected_capability_id := Some CAPABILITY_ID\<rparr>"

theorem poll_settles_unanswered_capability_witness:
  "\<exists>recs s' q. svc_poll RUN_ID ((demo_service ''hosted-agent-local-capability-bridge'')\<lparr>runs := [RUN_ID \<mapsto> demo_waiting]\<rparr>)
       = (Inr recs, s') \<and> runs s' RUN_ID = Some q \<and> terminal_record q \<noteq> None \<and>
     expected_capability_id q = Some CAPABILITY_ID"
proof -
  let ?s = "(demo_service ''hosted-agent-local-capability-bridge'')\<lparr>runs := [RUN_ID \<mapsto> demo_waiting]\<rparr>"
  have run: "runs ?s RUN_ID = Some demo_waiting" by simp
  have facts: "is_capability_scenario (scenario demo_waiting)" "terminal_record demo_waiting = None"
    "expected_capability_id demo_waiting = Some CAPABILITY_ID" "pending_deltas demo_waiting = []"
    by (simp_all add: demo_waiting_def demo_run_def is_capability_scenario_def)
  have "check_of (fst (drain demo_waiting)) = None" by code_simp
  then obtain recs q where "drain demo_waiting = (Inr recs, q)"
    by (auto simp: check_of_eq_None) (metis prod.collapse)
  then have "svc_poll RUN_ID ?s = (Inr recs, ?s\<lparr>runs := (runs ?s)(RUN_ID \<mapsto> q)\<rparr>)"
    using run facts(2) by (simp add: svc_poll_def on_run_def)
  from poll_settles_unanswered_capability [OF run facts this] this show ?thesis by blast
qed

end
