(* ===== verification/Image_Manifest.thy ===== *)
theory Image_Manifest
  imports Py_Encodable
begin

text \<open>
  The manifest of an embedded image bundle, \<^verbatim>\<open>cli/shared/image/bundle/image_bundle.py\<close>:
  the expectations on JSON values, image paths and text, the closed validation of a manifest and
  the paths it declares. Unicode normalisation needs the tables of \<^verbatim>\<open>unicodedata\<close>; the function
  \<open>nfc\<close> is an argument of every definition that normalises a path. A message of the code that
  interpolates the rejected value is modelled by its fixed text.
\<close>

section \<open>Constants\<close>

definition MAGIC :: string where
  "MAGIC = ''OPENPROSE-IMAGE-BUNDLE'' @ [CHR 0x00, CHR 0x01]"

definition MAX_MANIFEST_BYTES :: nat where "MAX_MANIFEST_BYTES = 1024 * 1024"
definition MAX_ENTRY_BYTES :: nat where "MAX_ENTRY_BYTES = 16 * 1024 * 1024"
definition MAX_IMAGE_BYTES :: nat where "MAX_IMAGE_BYTES = 64 * 1024 * 1024"
definition MAX_FILES :: nat where "MAX_FILES = 4096"
definition MAX_PATH_BYTES :: nat where "MAX_PATH_BYTES = 4096"

definition MAX_BUNDLE_BYTES :: nat where
  "MAX_BUNDLE_BYTES = MAX_IMAGE_BYTES + length MAGIC + 8 + MAX_FILES * (12 + MAX_PATH_BYTES)"

definition path_character :: "char \<Rightarrow> bool" where
  "path_character c \<longleftrightarrow> is_alnum c \<or> c \<in> set ''._-/''"

definition placement_first_character :: "char \<Rightarrow> bool" where
  "placement_first_character c \<longleftrightarrow> is_lower c"

definition placement_character :: "char \<Rightarrow> bool" where
  "placement_character c \<longleftrightarrow> is_lower c \<or> is_digit c \<or> c \<in> set ''._-''"

section \<open>Expectations\<close>

definition expect_object :: "pyval \<Rightarrow> string \<Rightarrow> check" where
  "expect_object value name = guard (is_dict value) (BundleError (name @ '' must be an object''))"

definition expect_keys :: "pydict \<Rightarrow> string list \<Rightarrow> string \<Rightarrow> check" where
  "expect_keys value expected name =
     guard (keys_are value expected) (BundleError (name @ '' keys are not closed''))"

definition expect_nonempty_string :: "pyval \<Rightarrow> string \<Rightarrow> check" where
  "expect_nonempty_string value name =
     guard (is_str value \<and> str_of value \<noteq> [] \<and> CHR 0x00 \<notin> set (str_of value))
       (BundleError (name @ '' must be a non-empty NUL-free string''))"

definition expect_size :: "pyval \<Rightarrow> string \<Rightarrow> nat \<Rightarrow> check" where
  "expect_size value name maximum =
     guard (is_int value \<and> 0 \<le> int_of value \<and> int_of value \<le> int maximum)
       (BundleError (name @ '' exceeds the '' @ dec_digits maximum @ ''-byte limit''))"

definition expect_digest :: "pyval \<Rightarrow> string \<Rightarrow> check" where
  "expect_digest value name =
     guard (is_str value \<and> hex_string 64 (str_of value)) (BundleError (name @ '' must be lowercase SHA-256''))"

definition validate_path :: "(string \<Rightarrow> string) \<Rightarrow> pyval \<Rightarrow> string \<Rightarrow> string res" where
  "validate_path nfc value pre =
     (let path = str_of value in
      checked (first_failure [
        expect_nonempty_string value ''image path'',
        guard (nfc path = path) (BundleError ''image path is not NFC-normalized''),
        guard (utf8_valid path) UnicodeErr,
        guard (length path \<le> MAX_PATH_BYTES) (BundleError ''image path exceeds bundle path limit''),
        guard (prefix pre path \<and> backslash \<notin> set path \<and> list_all path_character path)
          (BundleError ''unsafe image path''),
        guard (take 1 path \<noteq> ''/'' \<and>
               list_all (\<lambda>part. part \<notin> set ['''', ''.'', ''..'']) (split_on (CHR ''/'') path))
          (BundleError ''unsafe image path'')])
      (Inr path))"

definition normalize_text :: "string \<Rightarrow> string \<Rightarrow> nat \<Rightarrow> check" where
  "normalize_text value name maximum =
     first_failure [
       guard (length value \<le> maximum)
         (BundleError (name @ '' exceeds the '' @ dec_digits maximum @ ''-byte limit'')),
       guard (\<not> prefix [CHR 0xEF, CHR 0xBB, CHR 0xBF] value)
         (BundleError (name @ '' contains a forbidden byte-order mark'')),
       guard (CHR 0x00 \<notin> set value) (BundleError (name @ '' contains a forbidden NUL byte'')),
       guard (CHR 0x0D \<notin> set value) (BundleError (name @ '' does not use LF-only newlines'')),
       guard (utf8_valid value) (BundleError (name @ '' is not canonical UTF-8''))]"

section \<open>The manifest\<close>

definition manifest_keys :: "string list" where
  "manifest_keys = [
     ''schema'', ''imageFormatVersion'', ''imageVersion'', ''languageVersion'', ''skillVersion'',
     ''runtimeContractVersion'', ''semanticSourceRevision'', ''purpose'', ''releaseEligible'',
     ''normalization'', ''payload'', ''modelVisibleBytes'', ''aggregateSha256'',
     ''instructionPlacements'', ''taskEnvelope'', ''oneFieldFraming'', ''terminalEnvelope'',
     ''minimumTransportRequirements'']"

definition check_identity :: "pydict \<Rightarrow> check" where
  "check_identity m =
    (let purpose = dget m ''purpose''; normalization = dget m ''normalization'' in
     first_failure ([
       expect_keys m manifest_keys ''manifest'',
       guard (dget m ''schema'' = PStr ''openprose.skill-runtime-image-manifest/1'')
         (BundleError ''unsupported manifest schema''),
       guard (dget m ''imageFormatVersion'' = PStr ''openprose.skill-runtime-image/1'')
         (BundleError ''unsupported image format'')] @
       map (\<lambda>key. expect_nonempty_string (dget m key) key)
         [''imageVersion'', ''languageVersion'', ''skillVersion'', ''runtimeContractVersion'',
          ''semanticSourceRevision''] @ [
       guard (hashable purpose) TypeErr,
       guard (str_in purpose [''canonical-language-runtime'', ''functional-alpha-placeholder'',
           ''sentinel-transport-test'']) (BundleError ''unsupported image purpose''),
       guard (is_bool (dget m ''releaseEligible'')) (BundleError ''releaseEligible must be boolean''),
       guard (\<not> (purpose = PStr ''sentinel-transport-test'' \<and> dget m ''releaseEligible'' = PBool True))
         (BundleError ''sentinel image cannot be release eligible''),
       expect_object normalization ''normalization'',
       expect_keys (dict_of normalization)
         [''encoding'', ''newlines'', ''byteOrderMark'', ''pathSeparator''] ''normalization'',
       guard (py_eq normalization (PDict [
           (''encoding'', PStr ''utf-8''), (''newlines'', PStr ''lf''),
           (''byteOrderMark'', PStr ''forbidden''), (''pathSeparator'', PStr ''/'')]))
         (BundleError ''unsupported normalization profile'')]))"

text \<open>One entry of the payload; \<open>seen\<close> are the paths declared before it.\<close>

definition payload_entry ::
  "(string \<Rightarrow> string) \<Rightarrow> nat \<Rightarrow> pyval \<Rightarrow> string list \<Rightarrow> string res" where
  "payload_entry nfc index raw seen =
    (let name = ''payload['' @ dec_digits index @ '']''; descriptor = dict_of raw in
     checked (first_failure [
       expect_object raw name,
       expect_keys descriptor [''path'', ''mediaType'', ''byteLength'', ''sha256''] name])
     (ebind (validate_path nfc (dget descriptor ''path'') ''payload/'') (\<lambda>path.
        checked (first_failure [
          guard (path \<notin> set seen) (BundleError ''duplicate declared path''),
          guard (dget descriptor ''mediaType'' = PStr ''text/markdown; charset=utf-8'')
            (BundleError ''unsupported payload media type''),
          expect_size (dget descriptor ''byteLength'') (name @ ''.byteLength'') MAX_ENTRY_BYTES,
          guard (int_of (dget descriptor ''byteLength'') \<noteq> 0)
            (BundleError ''payload byte length must be positive''),
          expect_digest (dget descriptor ''sha256'') (name @ ''.sha256'')])
        (Inr path))))"

fun payload_loop ::
  "(string \<Rightarrow> string) \<Rightarrow> nat \<Rightarrow> pyval list \<Rightarrow> string list \<Rightarrow> string list res" where
  "payload_loop nfc index [] seen = Inr seen"
| "payload_loop nfc index (raw # raws) seen =
     ebind (payload_entry nfc index raw seen) (\<lambda>path.
       payload_loop nfc (Suc index) raws (seen @ [path]))"

definition check_payload :: "(string \<Rightarrow> string) \<Rightarrow> pyval \<Rightarrow> string list res" where
  "check_payload nfc payload =
     checked (first_failure [
       guard (is_list payload \<and> list_of payload \<noteq> [])
         (BundleError ''payload must be a non-empty array''),
       guard (length (list_of payload) \<le> MAX_FILES - 3)
         (BundleError ''payload file count exceeds bundle limit'')])
     (payload_loop nfc 0 (list_of payload) [])"

definition check_model :: "pydict \<Rightarrow> check" where
  "check_model m =
    (let model = dget m ''modelVisibleBytes''; d = dict_of model;
         aggregate = dget m ''aggregateSha256''; a = dict_of aggregate in
     first_failure [
       expect_object model ''modelVisibleBytes'',
       expect_keys d [''serialization'', ''byteLength'', ''sha256''] ''modelVisibleBytes'',
       guard (dget d ''serialization'' = PStr ''ordered-raw-concatenation-v1'')
         (BundleError ''unsupported model-visible serialization''),
       expect_size (dget d ''byteLength'') ''modelVisibleBytes.byteLength'' MAX_IMAGE_BYTES,
       guard (0 < int_of (dget d ''byteLength'') \<and> int_of (dget d ''byteLength'') \<le> int MAX_IMAGE_BYTES)
         (BundleError ''model-visible byte length exceeds image limit''),
       expect_digest (dget d ''sha256'') ''modelVisibleBytes.sha256'',
       expect_object aggregate ''aggregateSha256'',
       expect_keys a [''algorithm'', ''sha256''] ''aggregateSha256'',
       guard (dget a ''algorithm'' = PStr ''sha256-path-length-nul-v1'')
         (BundleError ''unsupported aggregate digest algorithm''),
       expect_digest (dget a ''sha256'') ''aggregateSha256.sha256''])"

definition check_placement :: "nat \<Rightarrow> pyval \<Rightarrow> check" where
  "check_placement index raw =
    (let name = ''instructionPlacements['' @ dec_digits index @ '']''; placement = dict_of raw;
         placement_id = str_of (dget placement ''id'') in
     first_failure [
       expect_object raw name,
       expect_keys placement [''id'', ''strictness'', ''preservesHarnessBasePrompt''] name,
       expect_nonempty_string (dget placement ''id'') (name @ ''.id''),
       guard (placement_first_character (hd placement_id) \<and> list_all placement_character placement_id)
         (BundleError ''instruction placement id does not match manifest authority''),
       guard (hashable (dget placement ''strictness'')) TypeErr,
       guard (str_in (dget placement ''strictness'') [''strict'', ''degraded''])
         (BundleError ''unsupported instruction placement strictness''),
       guard (is_bool (dget placement ''preservesHarnessBasePrompt''))
         (BundleError ''preservesHarnessBasePrompt must be boolean'')])"

definition check_placements :: "pyval \<Rightarrow> check" where
  "check_placements placements =
     first_failure (
       guard (is_list placements \<and> list_of placements \<noteq> [])
         (BundleError ''instructionPlacements must be a non-empty array'') #
       map (\<lambda>(index, raw). check_placement index raw)
         (zip [0..<length (list_of placements)] (list_of placements)))"

definition contract_fields :: "(string \<times> string) list" where
  "contract_fields =
     [(''taskEnvelope'', ''schemaId''), (''oneFieldFraming'', ''id''), (''terminalEnvelope'', ''schemaId'')]"

definition contract_entry ::
  "(string \<Rightarrow> string) \<Rightarrow> pydict \<Rightarrow> string \<times> string \<Rightarrow> string list \<Rightarrow> string res" where
  "contract_entry nfc m field seen = (case field of (name, identity_key) \<Rightarrow>
    (let raw = dget m name; artifact = dict_of raw in
     checked (first_failure [
       expect_object raw name,
       expect_keys artifact [identity_key, ''path'', ''sha256''] name,
       expect_nonempty_string (dget artifact identity_key) (name @ ''.'' @ identity_key)])
     (ebind (validate_path nfc (dget artifact ''path'') ''contracts/'') (\<lambda>path.
        checked (first_failure [
          guard (path \<notin> set seen) (BundleError ''duplicate declared path''),
          expect_digest (dget artifact ''sha256'') (name @ ''.sha256'')])
        (Inr path)))))"

fun contract_loop ::
  "(string \<Rightarrow> string) \<Rightarrow> pydict \<Rightarrow> (string \<times> string) list \<Rightarrow> string list \<Rightarrow> string list res" where
  "contract_loop nfc m [] seen = Inr seen"
| "contract_loop nfc m (field # rest) seen =
     ebind (contract_entry nfc m field seen) (\<lambda>path.
       contract_loop nfc m rest (seen @ [path]))"

definition requirement_keys :: "string list" where
  "requirement_keys = [''nonInteractive'', ''structuredOutput'', ''ambientIsolation'',
     ''terminalEnvelope'', ''boundedStreaming'']"

definition check_requirements :: "pydict \<Rightarrow> check" where
  "check_requirements m =
    (let requirements = dget m ''minimumTransportRequirements'' in
     first_failure [
       expect_object requirements ''minimumTransportRequirements'',
       expect_keys (dict_of requirements) requirement_keys ''minimumTransportRequirements'',
       guard (list_all (\<lambda>key. dget (dict_of requirements) key = PStr ''required'') requirement_keys)
         (BundleError ''every minimum transport requirement must be required'')])"

definition validate_manifest :: "(string \<Rightarrow> string) \<Rightarrow> pydict \<Rightarrow> check" where
  "validate_manifest nfc m =
     check_of (checked (check_identity m)
       (ebind (check_payload nfc (dget m ''payload'')) (\<lambda>seen.
          checked (first_failure [check_model m, check_placements (dget m ''instructionPlacements'')])
          (ebind (contract_loop nfc m contract_fields seen) (\<lambda>all_seen.
             checked (check_requirements m) (Inr all_seen))))))"

text \<open>The hooks of the manifest's JSON reader.\<close>

fun duplicate_rejecting_object :: "pydict \<Rightarrow> pydict \<Rightarrow> pydict res" where
  "duplicate_rejecting_object result [] = Inr result"
| "duplicate_rejecting_object result ((key, value) # ps) =
     (if has_key result key then Inl (BundleError ''manifest contains duplicate JSON key'')
      else duplicate_rejecting_object (dict_set key value result) ps)"

definition manifest_hooks :: json_hooks where
  "manifest_hooks = \<lparr>
     pairs_hook = (\<lambda>ps. ebind (duplicate_rejecting_object [] ps) (\<lambda>d. Inr (PDict d))),
     constant_hook = (\<lambda>c. Inl (BundleError (''manifest contains non-finite number '' @ c)))\<rparr>"

definition parse_manifest :: "(string \<Rightarrow> string) \<Rightarrow> string \<Rightarrow> pydict res" where
  "parse_manifest nfc b =
     checked (normalize_text b ''manifest.json'' MAX_MANIFEST_BYTES)
     (case json_loads manifest_hooks b of
        Inl e \<Rightarrow> Inl (if e = json_error then BundleError ''manifest is not valid JSON'' else e)
      | Inr v \<Rightarrow>
          if \<not> is_dict v then Inl (BundleError ''manifest root must be an object'')
          else checked (validate_manifest nfc (dict_of v)) (Inr (dict_of v)))"

definition declared_paths :: "pydict \<Rightarrow> string list" where
  "declared_paths m =
     map (\<lambda>descriptor. str_of (dget (dict_of descriptor) ''path'')) (list_of (dget m ''payload'')) @
     map (\<lambda>name. str_of (dget (dict_of (dget m name)) ''path''))
       [''taskEnvelope'', ''oneFieldFraming'', ''terminalEnvelope'']"

end
