(* ===== verification/Image_Bundle.thy ===== *)
theory Image_Bundle
  imports Image_Manifest
begin

text \<open>
  The bundle format of \<^verbatim>\<open>cli/shared/image/bundle/image_bundle.py\<close>: the content checks of an
  image against its manifest, the encoder, the reader with its offset and the parser. A failing
  \<open>struct.pack\<close> is a branch of the encoder.
\<close>

record bundle_file =
  bf_path :: string
  bf_bytes :: string

record parsed_bundle =
  manifest :: pydict
  manifest_bytes :: string
  bundle_files :: "bundle_file list"

section \<open>Content of an image\<close>

definition lookup_body :: "bundle_file list \<Rightarrow> string \<Rightarrow> string" where
  "lookup_body ordered p =
     (case map_of (rev (map (\<lambda>f. (bf_path f, bf_bytes f)) ordered)) p of None \<Rightarrow> [] | Some b \<Rightarrow> b)"

definition aggregate_entry :: "string \<Rightarrow> string \<Rightarrow> string" where
  "aggregate_entry path body =
     path @ [CHR 0x00] @ dec_digits (length body) @ [CHR 0x00] @ body @ [CHR 0x00]"

definition payload_body_check :: "bundle_file list \<Rightarrow> pyval \<Rightarrow> check" where
  "payload_body_check ordered raw =
    (let descriptor = dict_of raw; path = str_of (dget descriptor ''path''); body = lookup_body ordered path in
     first_failure [
       normalize_text body path MAX_ENTRY_BYTES,
       guard (eq_int (dget descriptor ''byteLength'') (int (length body)))
         (BundleError (''payload byte length mismatch: '' @ path)),
       guard (dget descriptor ''sha256'' = PStr (sha256_hex body))
         (BundleError (''payload digest mismatch: '' @ path))])"

definition contract_body_check :: "bundle_file list \<Rightarrow> pydict \<Rightarrow> check" where
  "contract_body_check ordered descriptor =
    (let path = str_of (dget descriptor ''path''); body = lookup_body ordered path in
     first_failure [
       normalize_text body path MAX_ENTRY_BYTES,
       guard (dget descriptor ''sha256'' = PStr (sha256_hex body))
         (BundleError (''external artifact digest mismatch: '' @ path))])"

definition validate_image_bytes :: "pydict \<Rightarrow> bundle_file list \<Rightarrow> check" where
  "validate_image_bytes m ordered =
    (let payload = list_of (dget m ''payload'');
         payload_path = (\<lambda>raw. str_of (dget (dict_of raw) ''path''));
         bodies = map (\<lambda>raw. lookup_body ordered (payload_path raw)) payload;
         model = dict_of (dget m ''modelVisibleBytes'');
         aggregate = concat (map (\<lambda>raw. aggregate_entry (payload_path raw)
                                           (lookup_body ordered (payload_path raw))) payload) in
     first_failure ([
       guard (map bf_path ordered = declared_paths m)
         (BundleError ''bundle file order does not match manifest authority''),
       guard (distinct (map bf_path ordered)) (BundleError ''bundle contains duplicate file paths'')] @
       map (payload_body_check ordered) payload @ [
       guard (eq_int (dget model ''byteLength'') (int (length (concat bodies))))
         (BundleError ''model-visible byte length mismatch''),
       guard (dget model ''sha256'' = PStr (sha256_hex (concat bodies)))
         (BundleError ''model-visible digest mismatch''),
       guard (dget (dict_of (dget m ''aggregateSha256'')) ''sha256'' = PStr (sha256_hex aggregate))
         (BundleError ''payload aggregate digest mismatch'')] @
       map (\<lambda>name. contract_body_check ordered (dict_of (dget m name)))
         [''taskEnvelope'', ''oneFieldFraming'', ''terminalEnvelope'']))"

definition eligibility_check :: "bool \<Rightarrow> pydict \<Rightarrow> check" where
  "eligibility_check require_release_eligible m =
     guard (\<not> (require_release_eligible \<and>
               (dget m ''releaseEligible'' \<noteq> PBool True \<or>
                dget m ''purpose'' = PStr ''sentinel-transport-test'')))
       (BundleError ''image is not release eligible'')"

section \<open>Encoding\<close>

definition pack_be :: "nat \<Rightarrow> nat \<Rightarrow> string res" where
  "pack_be width n =
     (if n < 256 ^ width then Inr (be_bytes width n) else Inl (OtherExn ''struct.error''))"

definition encode_file :: "bundle_file \<Rightarrow> string res" where
  "encode_file item =
     ebind (utf8_encode (bf_path item)) (\<lambda>path.
     ebind (pack_be 4 (length path)) (\<lambda>path_length.
     ebind (pack_be 8 (length (bf_bytes item))) (\<lambda>body_length.
       Inr (path_length @ path @ body_length @ bf_bytes item))))"

definition encode_bundle :: "parsed_bundle \<Rightarrow> string res" where
  "encode_bundle img =
     ebind (pack_be 4 (length (manifest_bytes img))) (\<lambda>manifest_length.
     ebind (pack_be 4 (length (bundle_files img))) (\<lambda>count.
     ebind (traverse_res encode_file (bundle_files img)) (\<lambda>items.
       Inr (MAGIC @ manifest_length @ manifest_bytes img @ count @ concat items))))"

section \<open>Reading\<close>

record reader =
  rd_value :: string
  rd_offset :: nat

definition rd_take :: "nat \<Rightarrow> string \<Rightarrow> reader \<Rightarrow> (string \<times> reader) res" where
  "rd_take len name r =
     (let finish = rd_offset r + len in
      if finish > length (rd_value r) then Inl (BundleError (''bundle is truncated at '' @ name))
      else Inr (take len (drop (rd_offset r) (rd_value r)), r\<lparr>rd_offset := finish\<rparr>))"

definition rd_u32 :: "string \<Rightarrow> reader \<Rightarrow> (nat \<times> reader) res" where
  "rd_u32 name r = ebind (rd_take 4 name r) (\<lambda>(b, r'). Inr (be_value b, r'))"

definition rd_u64 :: "string \<Rightarrow> reader \<Rightarrow> (nat \<times> reader) res" where
  "rd_u64 name r = ebind (rd_take 8 name r) (\<lambda>(b, r'). Inr (be_value b, r'))"

definition field_name :: "nat \<Rightarrow> string \<Rightarrow> string" where
  "field_name index what = ''file['' @ dec_digits index @ ''] '' @ what"

text \<open>One file of the bundle; \<open>seen\<close> are the paths and \<open>consumed\<close> the bytes read before it.\<close>

definition parse_file ::
  "(string \<Rightarrow> string) \<Rightarrow> nat \<Rightarrow> string list \<Rightarrow> nat \<Rightarrow> reader \<Rightarrow> (bundle_file \<times> reader) res" where
  "parse_file nfc index seen consumed r =
     ebind (rd_u32 (field_name index ''path length'') r) (\<lambda>(path_length, r).
     checked (guard (path_length \<noteq> 0 \<and> path_length \<le> MAX_PATH_BYTES)
       (BundleError ''bundle path length is invalid''))
     (ebind (rd_take path_length (field_name index ''path'') r) (\<lambda>(path, r).
     checked (first_failure [
       guard (CHR 0x00 \<notin> set path) (BundleError ''bundle path contains NUL''),
       guard (utf8_valid path) (BundleError ''bundle path is not UTF-8''),
       check_of (validate_path nfc (PStr path)
         (if prefix ''payload/'' path then ''payload/'' else ''contracts/'')),
       guard (path \<notin> set seen) (BundleError ''bundle contains duplicate path'')])
     (ebind (rd_u64 (field_name index ''length'') r) (\<lambda>(len, r).
     checked (guard (len \<le> MAX_ENTRY_BYTES) (BundleError ''bundle file exceeds entry size limit''))
     (ebind (rd_take len (field_name index ''bytes'') r) (\<lambda>(body, r).
     checked (first_failure [
       normalize_text body path MAX_ENTRY_BYTES,
       guard (consumed + length body \<le> MAX_IMAGE_BYTES)
         (BundleError ''bundle files exceed aggregate size limit'')])
     (Inr (\<lparr>bf_path = path, bf_bytes = body\<rparr>, r)))))))))"

fun parse_files ::
  "(string \<Rightarrow> string) \<Rightarrow> nat \<Rightarrow> nat \<Rightarrow> string list \<Rightarrow> nat \<Rightarrow> reader \<Rightarrow> (bundle_file list \<times> reader) res" where
  "parse_files nfc index 0 seen consumed r = Inr ([], r)"
| "parse_files nfc index (Suc count) seen consumed r =
     ebind (parse_file nfc index seen consumed r) (\<lambda>(f, r').
     ebind (parse_files nfc (Suc index) count (seen @ [bf_path f]) (consumed + length (bf_bytes f)) r')
       (\<lambda>(fs, r''). Inr (f # fs, r'')))"

definition parse_bundle :: "(string \<Rightarrow> string) \<Rightarrow> bool \<Rightarrow> string \<Rightarrow> parsed_bundle res" where
  "parse_bundle nfc require_release_eligible bundle_bytes =
     checked (guard (length bundle_bytes \<le> MAX_BUNDLE_BYTES) (BundleError ''bundle exceeds aggregate size limit''))
     (ebind (rd_take (length MAGIC) ''magic'' \<lparr>rd_value = bundle_bytes, rd_offset = 0\<rparr>) (\<lambda>(magic, r).
     checked (guard (magic = MAGIC) (BundleError ''bundle magic/version is unsupported''))
     (ebind (rd_u32 ''manifest length'' r) (\<lambda>(manifest_length, r).
     checked (guard (manifest_length \<le> MAX_MANIFEST_BYTES) (BundleError ''bundle manifest exceeds size limit''))
     (ebind (rd_take manifest_length ''manifest bytes'' r) (\<lambda>(mbytes, r).
     ebind (parse_manifest nfc mbytes) (\<lambda>m.
     checked (eligibility_check require_release_eligible m)
     (ebind (rd_u32 ''file count'' r) (\<lambda>(count, r).
     checked (guard (count \<le> MAX_FILES) (BundleError ''bundle file count exceeds limit''))
     (ebind (parse_files nfc 0 count [] (length mbytes) r) (\<lambda>(fs, r).
     checked (guard (rd_offset r = length bundle_bytes) (BundleError ''bundle contains trailing bytes''))
     (checked (validate_image_bytes m fs)
     (Inr \<lparr>manifest = m, manifest_bytes = mbytes, bundle_files = fs\<rparr>)))))))))))))"

definition checksum_bytes :: "string \<Rightarrow> string" where
  "checksum_bytes bundle_bytes = sha256_hex bundle_bytes @ [CHR 0x0A]"

end
