(* ===== verification/Image_Codec.thy ===== *)
theory Image_Codec
  imports Image_Bundle
begin

text \<open>
  The reader as a codec. The locale \<open>field_codec\<close> is the contract of one reading operation: it
  succeeds exactly on a valid value whose encoding stands at the offset, which it moves past. The
  contract is interpreted for the raw, the 32-bit and the 64-bit fields, for one file and for the
  file list; its consequences (what is read does not depend on the bytes behind it) are proved once.
\<close>

section \<open>Moving the offset\<close>

definition rd_rest :: "reader \<Rightarrow> string" where
  "rd_rest r = drop (rd_offset r) (rd_value r)"

definition rd_moved :: "reader \<Rightarrow> reader \<Rightarrow> string \<Rightarrow> bool" where
  "rd_moved r r' s \<longleftrightarrow> rd_value r' = rd_value r \<and> rd_offset r' = rd_offset r + length s \<and>
     rd_offset r' \<le> length (rd_value r') \<and> rd_rest r = s @ rd_rest r'"

lemma reader_eqI: "rd_value r = rd_value r' \<Longrightarrow> rd_offset r = rd_offset r' \<Longrightarrow> r = (r' :: reader)"
  by simp

lemma rd_moved_unique: "rd_moved r r1 s \<Longrightarrow> rd_moved r r2 s \<Longrightarrow> r1 = r2"
  by (auto simp: rd_moved_def intro: reader_eqI)

lemma rd_moved_same_length:
  "rd_moved r r1 s \<Longrightarrow> rd_moved r r2 t \<Longrightarrow> length s = length t \<Longrightarrow> s = t \<and> r1 = r2"
  by (auto simp: rd_moved_def intro: reader_eqI)

lemma rd_moved_take:
  "rd_moved r r' s \<longleftrightarrow>
     rd_offset r + length s \<le> length (rd_value r) \<and> s = take (length s) (drop (rd_offset r) (rd_value r)) \<and>
     r' = r\<lparr>rd_offset := rd_offset r + length s\<rparr>"
proof
  assume m: "rd_moved r r' s"
  then have "r' = r\<lparr>rd_offset := rd_offset r + length s\<rparr>"
    by (auto simp: rd_moved_def intro: reader_eqI)
  moreover have "take (length s) (rd_rest r) = s" using m by (simp add: rd_moved_def)
  ultimately show "rd_offset r + length s \<le> length (rd_value r) \<and>
      s = take (length s) (drop (rd_offset r) (rd_value r)) \<and> r' = r\<lparr>rd_offset := rd_offset r + length s\<rparr>"
    using m by (simp add: rd_moved_def rd_rest_def)
next
  assume a: "rd_offset r + length s \<le> length (rd_value r) \<and>
     s = take (length s) (drop (rd_offset r) (rd_value r)) \<and> r' = r\<lparr>rd_offset := rd_offset r + length s\<rparr>"
  have "rd_rest r = take (length s) (rd_rest r) @ drop (length s) (rd_rest r)" by simp
  moreover have "drop (length s) (rd_rest r) = rd_rest r'"
    using a by (simp add: rd_rest_def add.commute)
  moreover have "take (length s) (rd_rest r) = s" using a by (simp add: rd_rest_def)
  ultimately show "rd_moved r r' s" using a by (simp add: rd_moved_def)
qed

lemma rd_moved_append:
  "rd_moved r r2 (s @ t) \<longleftrightarrow> (\<exists>r1. rd_moved r r1 s \<and> rd_moved r1 r2 t)"
proof
  assume m: "rd_moved r r2 (s @ t)"
  let ?r1 = "r\<lparr>rd_offset := rd_offset r + length s\<rparr>"
  have "take (length s) (rd_rest r) = s" using m by (simp add: rd_moved_def)
  moreover have "rd_rest ?r1 = drop (length s) (rd_rest r)"
    by (simp add: rd_rest_def add.commute)
  ultimately have "rd_moved r ?r1 s" "rd_moved ?r1 r2 t"
    using m by (auto simp: rd_moved_def)
  then show "\<exists>r1. rd_moved r r1 s \<and> rd_moved r1 r2 t" by blast
qed (auto simp: rd_moved_def)

lemma rd_moved_Nil: "rd_moved r r' [] \<longleftrightarrow> r' = r \<and> rd_offset r \<le> length (rd_value r)"
  by (auto simp: rd_moved_take)

lemma rd_moved_all:
  "rd_moved \<lparr>rd_value = b, rd_offset = 0\<rparr> r s \<and> rd_offset r = length b \<longleftrightarrow>
     s = b \<and> r = \<lparr>rd_value = b, rd_offset = length b\<rparr>"
  by (auto simp: rd_moved_take)

definition rd_extend :: "string \<Rightarrow> reader \<Rightarrow> reader" where
  "rd_extend s r = r\<lparr>rd_value := rd_value r @ s\<rparr>"

lemma rd_moved_extend: "rd_moved r r' t \<Longrightarrow> rd_moved (rd_extend s r) (rd_extend s r') t"
  by (auto simp: rd_moved_take rd_extend_def)

section \<open>The contract of a reading operation\<close>

locale field_codec =
  fixes op :: "reader \<Rightarrow> ('a \<times> reader) res"
    and enc :: "'a \<Rightarrow> string"
    and valid :: "'a \<Rightarrow> bool"
  assumes spec: "op r = Inr (x, r') \<longleftrightarrow> valid x \<and> rd_moved r r' (enc x)"
begin

lemma reads: "op r = Inr (x, r') \<Longrightarrow> rd_rest r = enc x @ rd_rest r'"
  by (simp add: spec rd_moved_def)

text \<open>What is read does not depend on the bytes that follow it.\<close>

lemma extend: "op r = Inr (x, r') \<Longrightarrow> op (rd_extend s r) = Inr (x, rd_extend s r')"
  by (simp add: spec rd_moved_extend)

text \<open>So no two values with different encodings can be read at one place.\<close>

lemma deterministic: "valid x \<Longrightarrow> valid y \<Longrightarrow> rd_moved r r1 (enc x) \<Longrightarrow> rd_moved r r2 (enc y) \<Longrightarrow> x = y \<and> r1 = r2"
  using spec [of r x r1] spec [of r y r2] by auto

end

interpretation raw_field: field_codec "rd_take n name" "\<lambda>s. s" "\<lambda>s. length s = n" for n name
proof
  show "rd_take n name r = Inr (x, r') \<longleftrightarrow> length x = n \<and> rd_moved r r' x" for r x r'
    unfolding rd_take_def Let_def rd_moved_take by auto
qed

lemma be_value_iff: "be_value b = n \<and> length b = k \<longleftrightarrow> n < 256 ^ k \<and> b = be_bytes k n"
  using be_bytes_value [of b] be_value_lt [of b] be_value_bytes [of n k] by auto

interpretation u32_field: field_codec "rd_u32 name" "be_bytes 4" "\<lambda>n. n < 256 ^ 4" for name
proof
  show "rd_u32 name r = Inr (x, r') \<longleftrightarrow> x < 256 ^ 4 \<and> rd_moved r r' (be_bytes 4 x)" for r x r'
  proof -
    have "rd_u32 name r = Inr (x, r') \<longleftrightarrow> (\<exists>b. (be_value b = x \<and> length b = 4) \<and> rd_moved r r' b)"
      by (auto simp: rd_u32_def ebind_eq_Inr raw_field.spec)
    then show ?thesis unfolding be_value_iff by blast
  qed
qed

interpretation u64_field: field_codec "rd_u64 name" "be_bytes 8" "\<lambda>n. n < 256 ^ 8" for name
proof
  show "rd_u64 name r = Inr (x, r') \<longleftrightarrow> x < 256 ^ 8 \<and> rd_moved r r' (be_bytes 8 x)" for r x r'
  proof -
    have "rd_u64 name r = Inr (x, r') \<longleftrightarrow> (\<exists>b. (be_value b = x \<and> length b = 8) \<and> rd_moved r r' b)"
      by (auto simp: rd_u64_def ebind_eq_Inr raw_field.spec)
    then show ?thesis unfolding be_value_iff by blast
  qed
qed

section \<open>One file\<close>

definition file_bytes :: "bundle_file \<Rightarrow> string" where
  "file_bytes f = be_bytes 4 (length (bf_path f)) @ bf_path f @
     be_bytes 8 (length (bf_bytes f)) @ bf_bytes f"

definition file_ok :: "(string \<Rightarrow> string) \<Rightarrow> string list \<Rightarrow> nat \<Rightarrow> bundle_file \<Rightarrow> bool" where
  "file_ok nfc seen consumed f \<longleftrightarrow>
     bf_path f \<noteq> [] \<and> length (bf_path f) \<le> MAX_PATH_BYTES \<and> CHR 0x00 \<notin> set (bf_path f) \<and>
     utf8_valid (bf_path f) \<and>
     validate_path nfc (PStr (bf_path f))
       (if prefix ''payload/'' (bf_path f) then ''payload/'' else ''contracts/'') = Inr (bf_path f) \<and>
     bf_path f \<notin> set seen \<and> length (bf_bytes f) \<le> MAX_ENTRY_BYTES \<and>
     normalize_text (bf_bytes f) (bf_path f) MAX_ENTRY_BYTES = None \<and>
     consumed + length (bf_bytes f) \<le> MAX_IMAGE_BYTES"

lemma validate_path_result: "validate_path nfc v pre = Inr p \<Longrightarrow> v = PStr p"
  by (cases v) (auto simp: validate_path_def Let_def checked_eq_Inr expect_nonempty_string_def)

lemma check_validate_path:
  "check_of (validate_path nfc (PStr p) pre) = None \<longleftrightarrow> validate_path nfc (PStr p) pre = Inr p"
  using validate_path_result [of nfc "PStr p" pre] by (auto simp: check_of_eq_None)

lemma file_limits: "MAX_PATH_BYTES < 256 ^ 4" "MAX_ENTRY_BYTES < 256 ^ 8" "MAX_MANIFEST_BYTES < 256 ^ 4"
  "MAX_FILES < 256 ^ 4"
  by (simp_all add: MAX_PATH_BYTES_def MAX_ENTRY_BYTES_def MAX_MANIFEST_BYTES_def MAX_FILES_def)

interpretation file_field: field_codec "parse_file nfc index seen consumed" file_bytes "file_ok nfc seen consumed"
  for nfc index seen consumed
proof
  fix r f r'
  have "parse_file nfc index seen consumed r = Inr (f, r') \<longleftrightarrow>
      file_ok nfc seen consumed f \<and>
      (\<exists>r1 r2 r3. rd_moved r r1 (be_bytes 4 (length (bf_path f))) \<and> rd_moved r1 r2 (bf_path f) \<and>
         rd_moved r2 r3 (be_bytes 8 (length (bf_bytes f))) \<and> rd_moved r3 r' (bf_bytes f))"
    (is "?l \<longleftrightarrow> ?r")
  proof
    assume ?l
    then show ?r
      unfolding parse_file_def ebind_eq_Inr split_paired_Ex prod.case checked_eq_Inr
        u32_field.spec raw_field.spec u64_field.spec
      by (auto simp: file_ok_def check_validate_path; blast)
  next
    assume ?r
    then obtain r1 r2 r3 where ok: "file_ok nfc seen consumed f"
      and m: "rd_moved r r1 (be_bytes 4 (length (bf_path f)))" "rd_moved r1 r2 (bf_path f)"
        "rd_moved r2 r3 (be_bytes 8 (length (bf_bytes f)))" "rd_moved r3 r' (bf_bytes f)" by blast
    have "length (bf_path f) < 256 ^ 4" "length (bf_bytes f) < 256 ^ 8"
      using ok file_limits unfolding file_ok_def by linarith+
    with m have "rd_u32 nm r = Inr (length (bf_path f), r1)" "rd_take (length (bf_path f)) nm r1 = Inr (bf_path f, r2)"
      "rd_u64 nm r2 = Inr (length (bf_bytes f), r3)" "rd_take (length (bf_bytes f)) nm r3 = Inr (bf_bytes f, r')" for nm
      by (simp_all add: u32_field.spec raw_field.spec u64_field.spec)
    with ok show ?l by (simp add: parse_file_def file_ok_def check_validate_path)
  qed
  then show "parse_file nfc index seen consumed r = Inr (f, r') \<longleftrightarrow>
      file_ok nfc seen consumed f \<and> rd_moved r r' (file_bytes f)"
    by (auto simp: file_bytes_def rd_moved_append)
qed

section \<open>The file list\<close>

fun files_ok :: "(string \<Rightarrow> string) \<Rightarrow> string list \<Rightarrow> nat \<Rightarrow> bundle_file list \<Rightarrow> bool" where
  "files_ok nfc seen consumed [] \<longleftrightarrow> True"
| "files_ok nfc seen consumed (f # fs) \<longleftrightarrow> file_ok nfc seen consumed f \<and>
     files_ok nfc (seen @ [bf_path f]) (consumed + length (bf_bytes f)) fs"

lemma parse_files_spec:
  assumes "rd_offset r \<le> length (rd_value r)"
  shows "parse_files nfc index count seen consumed r = Inr (fs, r') \<longleftrightarrow>
    length fs = count \<and> files_ok nfc seen consumed fs \<and> rd_moved r r' (concat (map file_bytes fs))"
  using assms
proof (induction count arbitrary: index seen consumed r fs)
  case 0
  then show ?case by (auto simp: rd_moved_Nil)
next
  case (Suc count)
  have ok: "rd_offset r1 \<le> length (rd_value r1)" if "rd_moved r r1 s" for r1 s
    using that by (metis rd_moved_def)
  show ?case
  proof (cases fs)
    case Nil
    then show ?thesis by (auto simp: ebind_eq_Inr)
  next
    case (Cons f fs')
    have "parse_files nfc index (Suc count) seen consumed r = Inr (f # fs', r') \<longleftrightarrow>
        (\<exists>r1. parse_file nfc index seen consumed r = Inr (f, r1) \<and>
          parse_files nfc (Suc index) count (seen @ [bf_path f]) (consumed + length (bf_bytes f)) r1 = Inr (fs', r'))"
      by (auto simp: ebind_eq_Inr)
    also have "\<dots> \<longleftrightarrow> (\<exists>r1. file_ok nfc seen consumed f \<and> rd_moved r r1 (file_bytes f) \<and>
        length fs' = count \<and> files_ok nfc (seen @ [bf_path f]) (consumed + length (bf_bytes f)) fs' \<and>
        rd_moved r1 r' (concat (map file_bytes fs')))"
      using Suc.IH ok by (auto simp: file_field.spec)
    finally show ?thesis using Cons by (auto simp: rd_moved_append)
  qed
qed

lemma files_ok_iff:
  "files_ok nfc seen consumed fs \<longleftrightarrow>
     distinct (map bf_path fs) \<and> set (map bf_path fs) \<inter> set seen = {} \<and>
     (\<forall>f \<in> set fs. file_ok nfc [] 0 f) \<and>
     (fs \<noteq> [] \<longrightarrow> consumed + sum_list (map (\<lambda>f. length (bf_bytes f)) fs) \<le> MAX_IMAGE_BYTES)"
proof (induction fs arbitrary: seen consumed)
  case (Cons f fs)
  have "file_ok nfc seen consumed f \<longleftrightarrow>
      file_ok nfc [] 0 f \<and> bf_path f \<notin> set seen \<and> consumed + length (bf_bytes f) \<le> MAX_IMAGE_BYTES"
    by (auto simp: file_ok_def)
  then show ?case by (cases "fs = []") (auto simp: Cons.IH)
qed simp

end
