(* ===== verification/Image_Files.thy ===== *)
theory Image_Files
  imports Image_Codec
begin

text \<open>
  Images on disk, \<^verbatim>\<open>cli/shared/image/bundle/image_bundle.py\<close>: the bounded read of one file as a
  function of what the operating system reports at each call (so every race between the calls is a
  value of the trace), the walk over an image directory, loading, building, drift checks and the
  atomic write with a fault at any of its steps.
\<close>

section \<open>Bounded reads\<close>

datatype file_kind = Regular | Symbolic | Folder | Special

record file_stat =
  st_kind :: file_kind
  st_dev :: int
  st_ino :: int
  st_size :: nat

text \<open>
  What the calls of one bounded read report: \<open>lstat\<close>, \<open>open\<close> followed by \<open>fstat\<close>, the bytes
  the open file holds when it is read, and the final \<open>fstat\<close>.
\<close>

record read_trace =
  tr_lstat :: "file_stat res"
  tr_open :: "file_stat res"
  tr_content :: string
  tr_closed :: file_stat

definition read_bounded :: "read_trace \<Rightarrow> nat \<Rightarrow> string res" where
  "read_bounded tr maximum =
     ebind (tr_lstat tr) (\<lambda>metadata.
     checked (first_failure [
       guard (st_kind metadata \<noteq> Symbolic) (BundleError ''file must not be a symlink''),
       guard (st_kind metadata = Regular) (BundleError ''file must be a regular file'')])
     (ebind (tr_open tr) (\<lambda>opened.
     (let value = take (maximum + 1) (tr_content tr) in
     checked (first_failure [
       guard (st_kind opened = Regular) (BundleError ''file must be a regular file''),
       guard (st_dev opened = st_dev metadata \<and> st_ino opened = st_ino metadata)
         (BundleError ''file changed before it was opened''),
       guard (st_size opened \<le> maximum) (BundleError ''file exceeds the byte limit''),
       guard (length value \<le> maximum) (BundleError ''file exceeds the byte limit''),
       guard (st_size opened = length value \<and> st_size (tr_closed tr) = st_size opened)
         (BundleError ''file changed while it was read'')])
     (Inr value)))))"

section \<open>Image directories\<close>

datatype node = Dir "(string \<times> node) list" | DirLink | FileLink | File read_trace | Other

fun is_dir_name :: "node \<Rightarrow> bool" where
  "is_dir_name (Dir _) = True" | "is_dir_name DirLink = True" | "is_dir_name _ = False"

fun entry_check :: "node \<Rightarrow> check" where
  "entry_check DirLink = Some (BundleError ''image directory contains symlink'')"
| "entry_check FileLink = Some (BundleError ''image directory contains symlink'')"
| "entry_check Other = Some (BundleError ''image directory contains non-regular file'')"
| "entry_check _ = None"

text \<open>One level: the directories are checked before the files, as \<open>os.walk\<close> lists them.\<close>

definition level_check :: "(string \<times> node) list \<Rightarrow> check" where
  "level_check es =
     first_failure (map (\<lambda>e. entry_check (snd e))
       (filter (\<lambda>e. is_dir_name (snd e)) es @ filter (\<lambda>e. \<not> is_dir_name (snd e)) es))"

fun level_files :: "string \<Rightarrow> (string \<times> node) list \<Rightarrow> (string \<times> read_trace) list" where
  "level_files pre [] = []"
| "level_files pre ((name, File tr) # es) = (pre @ name, tr) # level_files pre es"
| "level_files pre (_ # es) = level_files pre es"

function walk_dir :: "string \<Rightarrow> (string \<times> node) list \<Rightarrow> (string \<times> read_trace) list res"
  and walk_subdirs :: "string \<Rightarrow> (string \<times> node) list \<Rightarrow> (string \<times> read_trace) list res" where
  "walk_dir pre es =
     checked (level_check es) (ebind (walk_subdirs pre es) (\<lambda>sub. Inr (level_files pre es @ sub)))"
| "walk_subdirs pre [] = Inr []"
| "walk_subdirs pre ((name, Dir es') # es) =
     ebind (walk_dir (pre @ name @ ''/'') es') (\<lambda>a.
     ebind (walk_subdirs pre es) (\<lambda>b. Inr (a @ b)))"
| "walk_subdirs pre ((name, DirLink) # es) = walk_subdirs pre es"
| "walk_subdirs pre ((name, FileLink) # es) = walk_subdirs pre es"
| "walk_subdirs pre ((name, File tr) # es) = walk_subdirs pre es"
| "walk_subdirs pre ((name, Other) # es) = walk_subdirs pre es"
  by pat_completeness auto

termination
  by (relation "measure (\<lambda>x. case x of
        Inl (pre, es) \<Rightarrow> 2 * size_list (size_prod (\<lambda>_. 0) size) es + 1
      | Inr (pre, es) \<Rightarrow> 2 * size_list (size_prod (\<lambda>_. 0) size) es)")
     auto

definition image_files :: "node option \<Rightarrow> (string \<times> read_trace) list res" where
  "image_files image_root = (case image_root of
     None \<Rightarrow> Inl (BundleError ''image root does not exist'')
   | Some DirLink \<Rightarrow> Inl (BundleError ''image root must not be a symlink'')
   | Some FileLink \<Rightarrow> Inl (BundleError ''image root must not be a symlink'')
   | Some (Dir es) \<Rightarrow> ebind (walk_dir [] es) (\<lambda>fs.
       checked (guard (distinct (map fst fs)) (BundleError ''image directory contains duplicate path''))
       (Inr fs))
   | Some _ \<Rightarrow> Inl (BundleError ''image root must be a directory''))"

definition read_declared :: "(string \<times> read_trace) list \<Rightarrow> string \<Rightarrow> bundle_file res" where
  "read_declared actual path = (case map_of actual path of
     None \<Rightarrow> Inl KeyErr
   | Some tr \<Rightarrow> ebind (read_bounded tr MAX_ENTRY_BYTES) (\<lambda>b. Inr \<lparr>bf_path = path, bf_bytes = b\<rparr>))"

definition load_image_directory ::
  "(string \<Rightarrow> string) \<Rightarrow> bool \<Rightarrow> node option \<Rightarrow> parsed_bundle res" where
  "load_image_directory nfc require_release_eligible image_root =
     ebind (image_files image_root) (\<lambda>actual.
     case map_of actual ''manifest.json'' of
       None \<Rightarrow> Inl (BundleError ''image directory is missing manifest.json'')
     | Some tr \<Rightarrow>
         ebind (read_bounded tr MAX_MANIFEST_BYTES) (\<lambda>mbytes.
         ebind (parse_manifest nfc mbytes) (\<lambda>m.
         (let paths = declared_paths m; expected = ''manifest.json'' # paths in
         checked (first_failure [
           eligibility_check require_release_eligible m,
           guard (list_all (\<lambda>p. p \<in> set (map fst actual)) expected)
             (BundleError ''image directory is missing declared files''),
           guard (list_all (\<lambda>p. p \<in> set expected) (map fst actual))
             (BundleError ''image directory contains unlisted files'')])
         (ebind (traverse_res (read_declared actual) paths) (\<lambda>fs.
         checked (first_failure [
           validate_image_bytes m fs,
           guard (length mbytes + sum_list (map (\<lambda>f. length (bf_bytes f)) fs) \<le> MAX_IMAGE_BYTES)
             (BundleError ''image directory exceeds aggregate bundle size limit'')])
         (Inr \<lparr>manifest = m, manifest_bytes = mbytes, bundle_files = fs\<rparr>)))))))"

definition build_bundle :: "(string \<Rightarrow> string) \<Rightarrow> bool \<Rightarrow> node option \<Rightarrow> string res" where
  "build_bundle nfc require_release_eligible image_root =
     ebind (load_image_directory nfc require_release_eligible image_root) encode_bundle"

definition check_bundle :: "(string \<Rightarrow> string) \<Rightarrow> bool \<Rightarrow> node option \<Rightarrow> string \<Rightarrow> check" where
  "check_bundle nfc require_release_eligible image_root bundle_bytes =
     check_of (ebind (build_bundle nfc require_release_eligible image_root) (\<lambda>expected.
       checked (guard (bundle_bytes = expected) (BundleError (''embedded bundle drift: expected '' @
           sha256_hex expected @ '', observed '' @ sha256_hex bundle_bytes)))
       (parse_bundle nfc require_release_eligible bundle_bytes)))"

definition check_checksum :: "read_trace \<Rightarrow> string \<Rightarrow> check" where
  "check_checksum tr bundle_bytes =
    (let expected = checksum_bytes bundle_bytes in
     case read_bounded tr (length expected) of
       Inl e \<Rightarrow> Some (if e = OSErr ''FileNotFoundError'' then BundleError ''bundle checksum is missing'' else e)
     | Inr observed \<Rightarrow> guard (observed = expected) (BundleError ''embedded bundle checksum drift''))"

section \<open>Atomic writes\<close>

datatype write_step = MkDir | MkTemp | WriteBytes | Flush | Fsync | Replace

text \<open>
  The directory that holds the target as a map from names to contents. \<open>fault\<close> is the step that
  raises, if any, and \<open>partial\<close> what the temporary file then holds.
\<close>

definition write_atomic ::
  "write_step option \<Rightarrow> string \<Rightarrow> string \<Rightarrow> string \<Rightarrow> string \<Rightarrow> (string \<rightharpoonup> string) \<Rightarrow> check \<times> (string \<rightharpoonup> string)" where
  "write_atomic fault temporary partial path value fs =
    (case fault of
       Some MkDir \<Rightarrow> (Some (OSErr ''mkdir''), fs)
     | Some MkTemp \<Rightarrow> (Some (OSErr ''mkstemp''), fs)
     | Some step \<Rightarrow>
         (let written = fs(temporary \<mapsto> (if step = WriteBytes then partial else value)) in
          (Some (OSErr ''write''), written(temporary := None)))
     | None \<Rightarrow>
         (let written = fs(temporary \<mapsto> value) in (None, written(temporary := None, path \<mapsto> value))))"

end
