(* ===== verification/Py_Json_Round.thy ===== *)
theory Py_Json_Round
  imports Py_Encodable
begin

text \<open>
  Reading back what the JSON writer produced: for values without floats whose dictionaries have
  distinct keys, written without key sorting and with non-ASCII text kept, the reader returns the
  value itself. The text contains no control characters.
\<close>

section \<open>Strings\<close>

lemma hex_value_digit: "n < 16 \<Longrightarrow> hex_value (hex_digit n) = Some n"
proof -
  assume "n < 16"
  then consider "n < 10" | "10 \<le> n" "n < 16" by linarith
  then show ?thesis
    by cases (auto simp: hex_value_def hex_digit_def is_digit_def in_range_def)
qed

lemma hex4_value_hex4: "n < 32 \<Longrightarrow> hex4_value (hex4 n @ r) = Some (n, r)"
proof -
  assume n: "n < 32"
  then have "n div 4096 = 0" "n div 256 = 0" "n div 16 < 16" by simp_all
  moreover from this have "n div 16 * 16 + n mod 16 = n" by simp
  ultimately show ?thesis by (simp add: hex4_def hex_value_digit)
qed

lemma unicode_escape_control: "n < 32 \<Longrightarrow> unicode_escape (hex4 n @ r) = Some ([char_of n], r)"
  by (simp add: unicode_escape_def hex4_value_hex4 utf8_of_cp_def)

lemma byte_eqI: "byte c = byte d \<Longrightarrow> c = d"
  by simp

lemma scan_escape:
  "scan_string (Suc fuel) (escape_ascii c @ r) acc = scan_string fuel r (acc @ [c])"
proof -
  consider "c = CHR 0x22" | "c = backslash" | "byte c = 10" | "byte c = 13" | "byte c = 9" | "byte c = 8"
    | "byte c = 12" | "byte c < 32" "byte c \<notin> {8, 9, 10, 12, 13}"
    | "32 \<le> byte c" "c \<noteq> CHR 0x22" "c \<noteq> backslash" by fastforce
  then show ?thesis
  proof cases
    case 8
    then have "c \<noteq> CHR 0x22" "c \<noteq> backslash" by auto
    with 8 have "escape_ascii c = backslash # CHR ''u'' # hex4 (byte c)" by (simp add: escape_ascii_def)
    with 8 show ?thesis by (simp add: unicode_escape_control)
  next
    case 9
    then have "escape_ascii c = [c]" by (auto simp: escape_ascii_def)
    with 9 show ?thesis by simp
  next
    case 3
    then have "c = CHR 0x0A" by (intro byte_eqI) simp
    then show ?thesis by (simp add: escape_ascii_def simple_escape_def)
  next
    case 4
    then have "c = CHR 0x0D" by (intro byte_eqI) simp
    then show ?thesis by (simp add: escape_ascii_def simple_escape_def)
  next
    case 5
    then have "c = CHR 0x09" by (intro byte_eqI) simp
    then show ?thesis by (simp add: escape_ascii_def simple_escape_def)
  next
    case 6
    then have "c = CHR 0x08" by (intro byte_eqI) simp
    then show ?thesis by (simp add: escape_ascii_def simple_escape_def)
  next
    case 7
    then have "c = CHR 0x0C" by (intro byte_eqI) simp
    then show ?thesis by (simp add: escape_ascii_def simple_escape_def)
  qed (simp_all add: escape_ascii_def simple_escape_def)
qed

lemma scan_escaped:
  "length s < fuel \<Longrightarrow>
   scan_string fuel (concat (map escape_ascii s) @ CHR 0x22 # r) acc = Some (acc @ s, r)"
proof (induction s arbitrary: fuel acc)
  case Nil
  then show ?case by (cases fuel) auto
next
  case (Cons c s)
  then obtain f where "fuel = Suc f" by (cases fuel) auto
  with Cons show ?case by (simp add: scan_escape del: scan_string.simps)
qed

section \<open>Numbers\<close>

definition num_stop :: "string \<Rightarrow> bool" where
  "num_stop r \<longleftrightarrow> (case r of [] \<Rightarrow> True | c # _ \<Rightarrow> \<not> is_digit c \<and> c \<notin> set ''.eE'')"

lemma dec_digits_first: "0 < n \<Longrightarrow> hd (dec_digits n) \<noteq> CHR ''0''"
proof (induction n rule: dec_digits.induct)
  case (1 n)
  show ?case
  proof (cases "n < 10")
    case True
    have "byte (CHR ''0'') = 48" "byte (char_of (48 + n)) = 48 + n" using True by simp_all
    then have "char_of (48 + n) \<noteq> CHR ''0''" using 1(2) by (metis add_cancel_left_right less_not_refl)
    with True show ?thesis by (simp add: dec_digits.simps [of n])
  next
    case False
    with 1 have "hd (dec_digits (n div 10)) \<noteq> CHR ''0''" by simp
    with False show ?thesis by (simp add: dec_digits.simps [of n] hd_append)
  qed
qed

lemma dec_digits_zero: "dec_digits 0 = ''0''"
  by code_simp

lemma take_digits:
  assumes "num_stop r"
  shows "takeWhile is_digit (dec_digits n @ r) = dec_digits n" "dropWhile is_digit (dec_digits n @ r) = r"
proof -
  have d: "\<forall>c \<in> set (dec_digits n). is_digit c" using dec_digits_all by (simp add: list_all_iff)
  have "takeWhile is_digit r = []" "dropWhile is_digit r = r"
    using assms by (cases r; simp add: num_stop_def)+
  with d show "takeWhile is_digit (dec_digits n @ r) = dec_digits n" "dropWhile is_digit (dec_digits n @ r) = r"
    by simp_all
qed

lemma int_part_digits: "num_stop r \<Longrightarrow> int_part (dec_digits n @ r) = Some (dec_digits n, r)"
proof (cases "n = 0")
  case True
  assume "num_stop r"
  with True show ?thesis by (simp add: dec_digits_zero int_part_def)
next
  case False
  assume stop: "num_stop r"
  obtain c t where ct: "dec_digits n = c # t" by (cases "dec_digits n") auto
  with False dec_digits_first [of n] have "c \<noteq> CHR ''0''" by simp
  moreover have "is_digit c" using dec_digits_all [of n] ct by simp
  ultimately show ?thesis using take_digits [OF stop, of n] ct by (simp add: int_part_def)
qed

lemma stop_parts: "num_stop r \<Longrightarrow> frac_part r = ([], r) \<and> exp_part r = (None, r)"
  by (auto simp: num_stop_def frac_part_def exp_part_def split: list.splits)

lemma digit_range: "is_digit c \<Longrightarrow> 48 \<le> byte c \<and> byte c \<le> 57"
  by (simp add: is_digit_def in_range_def)

lemma dec_digits_Cons: obtains c t where "dec_digits n = c # t" "is_digit c"
  using dec_digits_all [of n] that by (cases "dec_digits n") auto

lemma scan_number_int:
  assumes "num_stop r"
  shows "scan_number (dec_int n @ r) = Some (PInt n, r)"
proof -
  obtain c t where ct: "dec_digits (nat n) = c # t" "is_digit c" by (rule dec_digits_Cons)
  from digit_range [OF ct(2)] have "c \<noteq> CHR ''-''" by auto
  with ct have nonneg: "take 1 (dec_digits (nat n) @ r) \<noteq> ''-''" by simp
  show ?thesis
  proof (cases "n < 0")
    case True
    with assms show ?thesis
      by (simp add: scan_number_def dec_int_def int_part_digits stop_parts dec_value_digits del: dec_value.simps)
  next
    case False
    with assms nonneg show ?thesis
      by (simp add: scan_number_def dec_int_def int_part_digits stop_parts dec_value_digits del: dec_value.simps)
  qed
qed

text \<open>A number or a literal is dispatched on its first character.\<close>

lemma scan_value_int:
  assumes "num_stop r"
  shows "scan_value h (Suc f) (dec_int n @ r) = Inr (PInt n, r)"
proof -
  obtain c t where ct: "dec_digits (nat \<bar>n\<bar>) = c # t" "is_digit c" by (rule dec_digits_Cons)
  note rg = digit_range [OF ct(2)]
  have c: "c \<noteq> CHR 0x22" "c \<noteq> CHR ''{''" "c \<noteq> CHR ''[''" "c \<noteq> CHR ''n''" "c \<noteq> CHR ''t''"
    "c \<noteq> CHR ''f''" "c \<noteq> CHR ''N''" "c \<noteq> CHR ''I''" "c \<noteq> CHR ''-''" using rg by auto
  have num: "scan_number (dec_int n @ r) = Some (PInt n, r)" using assms by (rule scan_number_int)
  have shape: "dec_int n = (if n < 0 then CHR ''-'' # c # t else c # t)"
    using ct by (auto simp: dec_int_def abs_if)
  show ?thesis
  proof (cases "n < 0")
    case True
    with shape num c show ?thesis by simp
  next
    case False
    with shape num c show ?thesis by simp
  qed
qed

section \<open>Values\<close>

fun json_plain :: "pyval \<Rightarrow> bool" and json_plain_list :: "pyval list \<Rightarrow> bool"
  and json_plain_items :: "pydict \<Rightarrow> bool" where
  "json_plain (PFloat f) = False"
| "json_plain (PList xs) = json_plain_list xs"
| "json_plain (PDict d) = (distinct (map fst d) \<and> json_plain_items d)"
| "json_plain PNone = True"
| "json_plain (PBool b) = True"
| "json_plain (PInt n) = True"
| "json_plain (PStr s) = True"
| "json_plain_list [] = True"
| "json_plain_list (x # xs) = (json_plain x \<and> json_plain_list xs)"
| "json_plain_items [] = True"
| "json_plain_items ((k, v) # d) = (json_plain v \<and> json_plain_items d)"

definition style_ok :: "json_style \<Rightarrow> bool" where
  "style_ok st \<longleftrightarrow> \<not> ensure_ascii st \<and> \<not> sort_keys st \<and>
     (\<exists>w. item_sep st = CHR '','' # w \<and> list_all is_ws w) \<and>
     (\<exists>w. key_sep st = CHR '':'' # w \<and> list_all is_ws w)"

definition hooks_ok :: "json_hooks \<Rightarrow> bool" where
  "hooks_ok h \<longleftrightarrow> (\<forall>d. distinct (map fst d) \<longrightarrow> pairs_hook h d = Inr (PDict d))"

definition starts_value :: "string \<Rightarrow> bool" where
  "starts_value s \<longleftrightarrow> (\<exists>c t. s = c # t \<and> \<not> is_ws c \<and> c \<noteq> CHR '']'' \<and> c \<noteq> CHR ''}'')"

lemma ws_not: "is_ws c \<Longrightarrow> byte c < 33"
  by (auto simp: is_ws_def)

lemma dumps_starts: "json_plain v \<Longrightarrow> starts_value (json_dumps st v @ r)"
proof (cases v)
  case (PInt n)
  obtain c t where ct: "dec_digits (nat \<bar>n\<bar>) = c # t" "is_digit c" by (rule dec_digits_Cons)
  then have "\<not> is_ws c" "c \<noteq> CHR '']''" "c \<noteq> CHR ''}''" using digit_range [OF ct(2)] ws_not by fastforce+
  with ct PInt show ?thesis by (auto simp: starts_value_def dec_int_def abs_if is_ws_def split: if_splits)
qed (auto simp: starts_value_def json_string_def is_ws_def Let_def)

lemma skip_ws_starts: "list_all is_ws w \<Longrightarrow> starts_value s \<Longrightarrow> skip_ws (w @ s) = s"
proof -
  assume w: "list_all is_ws w" and "starts_value s"
  then obtain c t where "s = c # t" "\<not> is_ws c" by (auto simp: starts_value_def)
  with w show ?thesis by (induction w) simp_all
qed

lemma num_stop_delim: "c \<in> set '',]}'' \<Longrightarrow> num_stop (c # r)"
  by (auto simp: num_stop_def is_digit_def in_range_def)

lemma dumps_list_starts:
  "json_plain_list xs \<Longrightarrow> xs \<noteq> [] \<Longrightarrow> starts_value (intersperse sep (json_dumps_list st xs) @ r)"
proof (cases xs)
  case (Cons x ys)
  assume "json_plain_list xs"
  with Cons have "json_plain x" by simp
  from dumps_starts [OF this] Cons show ?thesis by (cases ys) simp_all
qed simp

abbreviation item_text :: "json_style \<Rightarrow> string \<times> string \<Rightarrow> string" where
  "item_text st \<equiv> \<lambda>(k, t). json_string (ensure_ascii st) k @ key_sep st @ t"

lemma items_start:
  "d \<noteq> [] \<Longrightarrow> \<exists>t. intersperse sep (map (item_text st) (json_dumps_items st d)) @ r = CHR 0x22 # t"
  by (cases d rule: json_plain_items.cases; cases "tl d" rule: json_plain_items.cases)
     (auto simp: json_string_def)

lemma json_round:
  assumes st: "style_ok st" and h: "hooks_ok h"
  shows "json_plain v \<Longrightarrow> 2 * length (json_dumps st v) < fuel \<Longrightarrow> num_stop r \<Longrightarrow>
      scan_value h fuel (json_dumps st v @ r) = Inr (v, r)"
    and "json_plain_list xs \<Longrightarrow> xs \<noteq> [] \<Longrightarrow>
      2 * length (intersperse (item_sep st) (json_dumps_list st xs)) + 1 < fuel \<Longrightarrow>
      scan_items h fuel (intersperse (item_sep st) (json_dumps_list st xs) @ CHR '']'' # r) acc = Inr (PList (acc @ xs), r)"
    and "json_plain_items d \<Longrightarrow> d \<noteq> [] \<Longrightarrow> distinct (map fst (acc' @ d)) \<Longrightarrow>
      2 * length (intersperse (item_sep st) (map (item_text st) (json_dumps_items st d))) + 1 < fuel \<Longrightarrow>
      scan_pairs h fuel (intersperse (item_sep st) (map (item_text st) (json_dumps_items st d)) @ CHR ''}'' # r) acc' =
        Inr (PDict (acc' @ d), r)"
proof (induction v and xs and d arbitrary: fuel r and fuel r acc and fuel r acc'
    rule: json_plain_json_plain_list_json_plain_items.induct)
  case (2 xs)
  then obtain f where f: "fuel = Suc f" by (cases fuel) auto
  show ?case
  proof (cases "xs = []")
    case False
    have w: "skip_ws (intersperse (item_sep st) (json_dumps_list st xs) @ CHR '']'' # r) =
        intersperse (item_sep st) (json_dumps_list st xs) @ CHR '']'' # r"
      using skip_ws_starts [of "[]"] dumps_list_starts 2 False by simp
    obtain c t where ct: "intersperse (item_sep st) (json_dumps_list st xs) @ CHR '']'' # r = c # t" "c \<noteq> CHR '']''"
      using dumps_list_starts [of xs "item_sep st" st "CHR '']'' # r"] 2 False by (auto simp: starts_value_def)
    have "scan_items h f (intersperse (item_sep st) (json_dumps_list st xs) @ CHR '']'' # r) [] = Inr (PList ([] @ xs), r)"
      using 2 False f by (intro "2.IH") simp_all
    with f w ct show ?thesis by simp
  qed (simp add: f is_ws_def)
next
  case (3 d)
  then obtain f where f: "fuel = Suc f" by (cases fuel) auto
  let ?T = "intersperse (item_sep st) (map (item_text st) (json_dumps_items st d))"
  have text_eq: "json_dumps st (PDict d) = ''{'' @ ?T @ ''}''"
    using st by (simp add: style_ok_def)
  show ?case
  proof (cases "d = []")
    case True
    with f h text_eq show ?thesis by (simp add: hooks_ok_def is_ws_def)
  next
    case False
    from items_start [OF this, of "item_sep st" st "CHR ''}'' # r"]
    obtain t where t: "?T @ CHR ''}'' # r = CHR 0x22 # t" by blast
    have "scan_pairs h f (?T @ CHR ''}'' # r) [] = Inr (PDict ([] @ d), r)"
      using 3 False f text_eq by (intro "3.IH") simp_all
    with t f text_eq show ?thesis by (simp add: is_ws_def)
  qed
next
  case 4
  then obtain f where "fuel = Suc f" by (cases fuel) auto
  then show ?case by simp
next
  case (5 b)
  then obtain f where "fuel = Suc f" by (cases fuel) auto
  then show ?case by simp
next
  case (6 n)
  then obtain f where "fuel = Suc f" by (cases fuel) auto
  with 6 show ?case by (simp add: scan_value_int del: scan_value.simps)
next
  case (7 s)
  then obtain f where f: "fuel = Suc f" by (cases fuel) auto
  have len: "length s \<le> length (concat (map escape_ascii s))"
    by (induction s) (auto simp: escape_ascii_def)
  have "scan_string (Suc (length (concat (map escape_ascii s) @ CHR 0x22 # r))) (concat (map escape_ascii s) @ CHR 0x22 # r) []
      = Some (s, r)"
    using len by (subst scan_escaped) simp_all
  with st f show ?case by (simp add: json_string_def style_ok_def del: scan_string.simps)
next
  case (9 x xs)
  then obtain f where f: "fuel = Suc f" by (cases fuel) auto
  show ?case
  proof (cases xs)
    case Nil
    have "scan_value h f (json_dumps st x @ CHR '']'' # r) = Inr (x, CHR '']'' # r)"
      using 9 f Nil num_stop_delim by (intro "9.IH"(1)) simp_all
    with f Nil show ?thesis by (simp add: is_ws_def)
  next
    case (Cons y ys)
    let ?T = "intersperse (item_sep st) (json_dumps_list st xs)"
    obtain w where w: "item_sep st = CHR '','' # w" "list_all is_ws w" using st by (auto simp: style_ok_def)
    have eq: "intersperse (item_sep st) (json_dumps_list st (x # xs)) = json_dumps st x @ item_sep st @ ?T"
      using Cons by simp
    have "scan_value h f (json_dumps st x @ CHR '','' # w @ ?T @ CHR '']'' # r) = Inr (x, CHR '','' # w @ ?T @ CHR '']'' # r)"
      using 9(3-) f eq w num_stop_delim by (intro "9.IH"(1)) simp_all
    moreover have "skip_ws (w @ ?T @ CHR '']'' # r) = ?T @ CHR '']'' # r"
      using w(2) by (rule skip_ws_starts) (rule dumps_list_starts; use 9(3) Cons in simp)
    moreover have "scan_items h f (?T @ CHR '']'' # r) (acc @ [x]) = Inr (PList ((acc @ [x]) @ xs), r)"
      using 9(3-) f eq w Cons by (intro "9.IH"(2)) simp_all
    ultimately show ?thesis using f w unfolding eq by (simp add: is_ws_def)
  qed
next
  case (11 k v d)
  then obtain f where f: "fuel = Suc f" by (cases fuel) auto
  obtain w where w: "item_sep st = CHR '','' # w" "list_all is_ws w" using st by (auto simp: style_ok_def)
  obtain u where u: "key_sep st = CHR '':'' # u" "list_all is_ws u" using st by (auto simp: style_ok_def)
  let ?K = "concat (map escape_ascii k)"
  have len: "length k \<le> length ?K" by (induction k) (auto simp: escape_ascii_def)
  have str: "json_string (ensure_ascii st) k = CHR 0x22 # ?K @ [CHR 0x22]"
    using st by (simp add: json_string_def style_ok_def)
  have key: "length ?K < m \<Longrightarrow> scan_string m (?K @ CHR 0x22 # q) [] = Some (k, q)" for q m
    using len by (subst scan_escaped) simp_all
  have plain: "json_plain v" using 11(3) by simp
  have colon: "skip_ws (CHR '':'' # q) = CHR '':'' # q" for q by (simp add: is_ws_def)
  have val: "skip_ws (u @ json_dumps st v @ q) = json_dumps st v @ q" for q
    using u(2) dumps_starts [OF plain] by (rule skip_ws_starts)
  show ?case
  proof (cases "d = []")
    case nil: True
    have "scan_value h f (json_dumps st v @ CHR ''}'' # r) = Inr (v, CHR ''}'' # r)"
      using 11(3-) f nil num_stop_delim by (intro "11.IH"(1)) simp_all
    with f nil h 11(5) show ?thesis
      by (simp add: str u(1) key colon val hooks_ok_def is_ws_def del: scan_string.simps)
  next
    case False
    then obtain k2 v2 d2 where 2: "d = (k2, v2) # d2" by (cases d) auto
    let ?T = "intersperse (item_sep st) (map (item_text st) (json_dumps_items st d))"
    have eq: "intersperse (item_sep st) (map (item_text st) (json_dumps_items st ((k, v) # d))) =
        item_text st (k, json_dumps st v) @ item_sep st @ ?T" using 2 by simp
    from 2 items_start [of d "item_sep st" st "CHR ''}'' # r"] obtain t where
      t: "?T @ CHR ''}'' # r = CHR 0x22 # t" by auto
    have v: "scan_value h f (json_dumps st v @ CHR '','' # w @ ?T @ CHR ''}'' # r) =
        Inr (v, CHR '','' # w @ ?T @ CHR ''}'' # r)"
      using 11(3-) f eq w num_stop_delim by (intro "11.IH"(1)) simp_all
    have "starts_value (?T @ CHR ''}'' # r)" unfolding t by (simp add: starts_value_def is_ws_def)
    with w(2) have sk: "skip_ws (w @ ?T @ CHR ''}'' # r) = ?T @ CHR ''}'' # r" by (rule skip_ws_starts)
    have rest: "scan_pairs h f (?T @ CHR ''}'' # r) (acc' @ [(k, v)]) = Inr (PDict ((acc' @ [(k, v)]) @ d), r)"
      using 11(3-) f eq w 2 by (intro "11.IH"(2)) simp_all
    show ?thesis unfolding eq f
      using v sk rest
      by (simp add: str u(1) w(1) key colon val is_ws_def del: scan_string.simps)
  qed
qed simp_all

lemma json_loads_dumps:
  assumes "style_ok st" "hooks_ok h" "json_plain v"
  shows "json_loads h (json_dumps st v) = Inr v"
proof -
  have "skip_ws (json_dumps st v) = json_dumps st v"
    using skip_ws_starts [of "[]" "json_dumps st v"] dumps_starts [OF assms(3), of st "[]"] by simp
  moreover have "scan_value h (Suc (2 * length (json_dumps st v))) (json_dumps st v @ []) = Inr (v, [])"
    by (rule json_round(1) [OF assms]) (simp_all add: num_stop_def)
  ultimately show ?thesis by (simp add: json_loads_def del: scan_value.simps)
qed

section \<open>No control characters\<close>

abbreviation printable :: "string \<Rightarrow> bool" where
  "printable s \<equiv> list_all (\<lambda>c. 32 \<le> byte c) s"

lemma printable_digits: "printable (dec_digits n)"
  using dec_digits_all [of n] by (auto simp: list_all_iff is_digit_def in_range_def)

lemma printable_hex4: "printable (hex4 n)"
  by (simp add: hex4_def hex_digit_def)

lemma printable_escaped: "printable (concat (map escape_ascii s))"
proof -
  have "printable (escape_ascii c)" for c
    using printable_hex4 by (auto simp: escape_ascii_def)
  then show ?thesis by (induction s) simp_all
qed

lemma printable_intersperse: "printable sep \<Longrightarrow> list_all printable ss \<Longrightarrow> printable (intersperse sep ss)"
  by (induction sep ss rule: intersperse.induct) simp_all

lemma printable_dumps:
  assumes "\<not> ensure_ascii st" "\<not> sort_keys st" "printable (item_sep st)" "printable (key_sep st)"
  shows "json_plain v \<Longrightarrow> printable (json_dumps st v)"
    and "json_plain_list xs \<Longrightarrow> list_all printable (json_dumps_list st xs)"
    and "json_plain_items d \<Longrightarrow> list_all printable (map (item_text st) (json_dumps_items st d))"
  using assms
  by (induction v and xs and d rule: json_plain_json_plain_list_json_plain_items.induct)
     (auto simp: json_string_def printable_escaped dec_int_def printable_digits printable_intersperse)

end
