(* ===== verification/Py_Json_Ascii.thy ===== *)
theory Py_Json_Ascii
  imports Py_Json_Round Py_Encodable
begin

text \<open>
  More of the JSON round trip: the default hooks, text with whitespace after the value, and
  \<open>ensure_ascii\<close> output of values whose strings are ASCII, on which both modes write the same.
\<close>

lemma default_hooks_ok: "hooks_ok default_hooks"
proof -
  have "dict_of_pairs acc d = acc @ d" if "distinct (map fst (acc @ d))" for acc d
    using that
  proof (induction acc d rule: dict_of_pairs.induct)
    case (2 acc k v ps)
    then have "k \<notin> fst ` set acc" by simp
    with 2 show ?case by (simp add: dict_set_absent)
  qed simp
  from this [of "[]"] show ?thesis by (simp add: hooks_ok_def default_hooks_def)
qed

lemma json_loads_dumps_ws:
  assumes "style_ok st" "hooks_ok h" "json_plain v" "list_all is_ws w" "num_stop w"
  shows "json_loads h (json_dumps st v @ w) = Inr v"
proof -
  have "skip_ws (json_dumps st v @ w) = json_dumps st v @ w"
    using skip_ws_starts [of "[]" "json_dumps st v @ w"] dumps_starts [OF assms(3)] by simp
  moreover have "skip_ws w = []" using assms(4) by (induction w) auto
  moreover have "scan_value h (Suc (2 * length (json_dumps st v @ w))) (json_dumps st v @ w) = Inr (v, w)"
    by (rule json_round(1) [OF assms(1, 2, 3) _ assms(5)]) simp
  ultimately show ?thesis by (simp add: json_loads_def del: scan_value.simps)
qed

fun ascii_strings :: "pyval \<Rightarrow> bool" and ascii_items :: "pydict \<Rightarrow> bool" and ascii_list :: "pyval list \<Rightarrow> bool" where
  "ascii_strings (PStr s) = ascii s"
| "ascii_strings (PList xs) = ascii_list xs"
| "ascii_strings (PDict d) = ascii_items d"
| "ascii_strings PNone = True"
| "ascii_strings (PBool b) = True"
| "ascii_strings (PInt n) = True"
| "ascii_strings (PFloat f) = True"
| "ascii_items [] = True"
| "ascii_items ((k, v) # d) = (ascii k \<and> ascii_strings v \<and> ascii_items d)"
| "ascii_list [] = True"
| "ascii_list (x # xs) = (ascii_strings x \<and> ascii_list xs)"

lemma ascii_py_utf8:
  shows "ascii_strings v \<Longrightarrow> py_utf8 v" and "ascii_items d \<Longrightarrow> py_utf8_items d" and "ascii_list xs \<Longrightarrow> py_utf8_list xs"
  by (induction v and d and xs rule: ascii_strings_ascii_items_ascii_list.induct) (simp_all add: utf8_ascii)

lemma json_string_ascii: "ascii s \<Longrightarrow> json_string True s = json_string False s"
proof -
  assume "ascii s"
  then have "concat (map (\<lambda>n. if n = 127 then [CHR 0x7F] else escape_cp n) (code_points s)) = concat (map escape_ascii s)"
  proof (induction s)
    case (Cons c s)
    then have c: "byte c < 128" by simp
    have "escape_ascii c = [CHR 0x7F]" if "byte c = 127"
    proof -
      from that have "c = CHR 0x7F" by (intro byte_eqI) simp
      then show ?thesis by (simp add: escape_ascii_def)
    qed
    with Cons c show ?case by (auto simp: escape_cp_def)
  qed simp
  then show ?thesis by (simp add: json_string_def)
qed

lemma json_dumps_ascii:
  defines "t st \<equiv> st\<lparr>ensure_ascii := True\<rparr>" and "f st \<equiv> st\<lparr>ensure_ascii := False\<rparr>"
  shows "ascii_strings v \<Longrightarrow> json_dumps (t st) v = json_dumps (f st) v"
    and "ascii_items d \<Longrightarrow> json_dumps_items (t st) d = json_dumps_items (f st) d \<and> list_all (ascii \<circ> fst) (json_dumps_items (f st) d)"
    and "ascii_list xs \<Longrightarrow> json_dumps_list (t st) xs = json_dumps_list (f st) xs"
proof (induction v and d and xs rule: ascii_strings_ascii_items_ascii_list.induct)
  case (3 d)
  have ins: "list_all (ascii \<circ> fst) (insert_item x ys) \<longleftrightarrow> ascii (fst x) \<and> list_all (ascii \<circ> fst) ys"
    for x :: "string \<times> string" and ys by (induction ys) auto
  have "list_all (ascii \<circ> fst) (sort_items ys)" if "list_all (ascii \<circ> fst) ys" for ys :: "(string \<times> string) list"
    using that by (induction ys) (simp_all add: sort_items_def ins)
  with 3 show ?case
    by (auto simp: t_def f_def Let_def list_all_iff json_string_ascii intro!: arg_cong [where f = "intersperse _"])
qed (simp_all add: t_def f_def json_string_ascii)

end
