(* ===== verification/Py_Json_Length.thy ===== *)
theory Py_Json_Length
  imports Py_Json_Ascii
begin

text \<open>A bound on the length of JSON text, and its bytes when the strings in it are ASCII.\<close>

section \<open>A bound on the length of JSON text\<close>

fun json_weight :: "pyval \<Rightarrow> nat" and json_weight_list :: "pyval list \<Rightarrow> nat"
  and json_weight_items :: "pydict \<Rightarrow> nat" where
  "json_weight PNone = 4"
| "json_weight (PBool b) = 5"
| "json_weight (PInt n) = length (dec_int n)"
| "json_weight (PFloat f) = length (float_repr f)"
| "json_weight (PStr s) = 2 + 6 * length s"
| "json_weight (PList xs) = 2 + json_weight_list xs"
| "json_weight (PDict d) = 2 + json_weight_items d"
| "json_weight_list [] = 0"
| "json_weight_list (x # xs) = json_weight x + 2 + json_weight_list xs"
| "json_weight_items [] = 0"
| "json_weight_items ((k, v) # d) = 2 + 6 * length k + 2 + json_weight v + 2 + json_weight_items d"

lemma length_escaped: "length (concat (map escape_ascii s)) \<le> 6 * length s"
proof (induction s)
  case (Cons c s)
  have "length (escape_ascii c) \<le> 6" by (simp add: escape_ascii_def hex4_def)
  with Cons show ?case by simp
qed simp

lemma length_intersperse:
  "length sep \<le> 2 \<Longrightarrow> length (intersperse sep ss) \<le> sum_list (map (\<lambda>s. length s + 2) ss)"
  by (induction sep ss rule: intersperse.induct) auto

lemma length_json_dumps:
  assumes "\<not> ensure_ascii st" "\<not> sort_keys st" "length (item_sep st) \<le> 2" "length (key_sep st) \<le> 2"
  shows "length (json_dumps st v) \<le> json_weight v"
    and "sum_list (map (\<lambda>s. length s + 2) (json_dumps_list st xs)) \<le> json_weight_list xs"
    and "sum_list (map (\<lambda>s. length s + 2) (map (item_text st) (json_dumps_items st d))) \<le> json_weight_items d"
  using assms
proof (induction v and xs and d rule: json_weight_json_weight_list_json_weight_items.induct)
  case (5 s)
  with length_escaped [of s] show ?case by (simp add: json_string_def)
next
  case (6 xs)
  with length_intersperse [of "item_sep st" "json_dumps_list st xs"] show ?case by simp
next
  case (7 d)
  with length_intersperse [of "item_sep st" "map (item_text st) (json_dumps_items st d)"]
  show ?case by simp
next
  case (11 k v d)
  with length_escaped [of k] show ?case by (simp add: json_string_def)
qed simp_all

section \<open>ASCII text\<close>

lemma ascii_escaped: "ascii s \<Longrightarrow> ascii (concat (map escape_ascii s))"
  by (induction s) (simp_all add: ascii_escape)

lemma ascii_intersperse: "ascii sep \<Longrightarrow> list_all ascii ss \<Longrightarrow> ascii (intersperse sep ss)"
  by (induction sep ss rule: intersperse.induct) simp_all

lemma ascii_dumps:
  assumes "\<not> ensure_ascii st" "\<not> sort_keys st" "ascii (item_sep st)" "ascii (key_sep st)"
  shows "json_plain v \<Longrightarrow> ascii_strings v \<Longrightarrow> ascii (json_dumps st v)"
    and "json_plain_list xs \<Longrightarrow> ascii_list xs \<Longrightarrow> list_all ascii (json_dumps_list st xs)"
    and "json_plain_items d \<Longrightarrow> ascii_items d \<Longrightarrow> list_all ascii (map (item_text st) (json_dumps_items st d))"
  using assms
  by (induction v and xs and d rule: json_plain_json_plain_list_json_plain_items.induct)
     (auto simp: json_string_def ascii_escaped dec_int_def ascii_dec_digits ascii_intersperse)

end
