(* ===== verification/Image_Demo.thy ===== *)
theory Image_Demo
  imports Image_Files Py_Json_Length
begin

text \<open>
  A concrete image: its manifest, the JSON text of the manifest, the directory that holds it and
  the image the loader returns. The digests stay symbolic; the reader of the manifest is evaluated
  through the round trip of the JSON codec.
\<close>

section \<open>The manifest hooks read plain objects back\<close>

lemma duplicate_rejecting_append:
  "distinct (map fst (acc @ d)) \<Longrightarrow> duplicate_rejecting_object acc d = Inr (acc @ d)"
proof (induction acc d rule: duplicate_rejecting_object.induct)
  case (2 acc k v d)
  then have "k \<notin> fst ` set acc" by simp
  with 2 show ?case by (simp add: has_key_iff dict_set_absent)
qed simp

lemma manifest_hooks_ok: "hooks_ok manifest_hooks"
  by (simp add: hooks_ok_def manifest_hooks_def duplicate_rejecting_append)

section \<open>The image\<close>

definition demo_style :: json_style where
  "demo_style = \<lparr>ensure_ascii = False, sort_keys = False, item_sep = '','', key_sep = '':''\<rparr>"

definition demo_body :: string where "demo_body = ''hi''"

text \<open>The manifest over the digests of the body and of the aggregate.\<close>

definition demo_contract :: "string \<Rightarrow> string \<Rightarrow> string \<Rightarrow> pyval" where
  "demo_contract h key path =
     PDict [(key, PStr ''v1''), (''path'', PStr path), (''sha256'', PStr h)]"

definition demo_payload_list :: "string \<Rightarrow> pyval" where
  "demo_payload_list h = PList [PDict [(''path'', PStr ''payload/a.md''),
     (''mediaType'', PStr ''text/markdown; charset=utf-8''), (''byteLength'', PInt 2), (''sha256'', PStr h)]]"

definition demo_model_value :: "string \<Rightarrow> pyval" where
  "demo_model_value h = PDict [(''serialization'', PStr ''ordered-raw-concatenation-v1''),
     (''byteLength'', PInt 2), (''sha256'', PStr h)]"

definition demo_aggregate_value :: "string \<Rightarrow> pyval" where
  "demo_aggregate_value g = PDict [(''algorithm'', PStr ''sha256-path-length-nul-v1''), (''sha256'', PStr g)]"

definition manifest_of :: "string \<Rightarrow> string \<Rightarrow> pydict" where
  "manifest_of h g = [
     (''schema'', PStr ''openprose.skill-runtime-image-manifest/1''),
     (''imageFormatVersion'', PStr ''openprose.skill-runtime-image/1''),
     (''imageVersion'', PStr ''1''), (''languageVersion'', PStr ''1''), (''skillVersion'', PStr ''1''),
     (''runtimeContractVersion'', PStr ''1''), (''semanticSourceRevision'', PStr ''1''),
     (''purpose'', PStr ''functional-alpha-placeholder''), (''releaseEligible'', PBool True),
     (''normalization'', PDict [(''encoding'', PStr ''utf-8''), (''newlines'', PStr ''lf''),
        (''byteOrderMark'', PStr ''forbidden''), (''pathSeparator'', PStr ''/'')]),
     (''payload'', demo_payload_list h),
     (''modelVisibleBytes'', demo_model_value h),
     (''aggregateSha256'', demo_aggregate_value g),
     (''instructionPlacements'', PList [PDict [(''id'', PStr ''system''), (''strictness'', PStr ''strict''),
        (''preservesHarnessBasePrompt'', PBool True)]]),
     (''taskEnvelope'', demo_contract h ''schemaId'' ''contracts/task.json''),
     (''oneFieldFraming'', demo_contract h ''id'' ''contracts/framing.json''),
     (''terminalEnvelope'', demo_contract h ''schemaId'' ''contracts/terminal.json''),
     (''minimumTransportRequirements'', PDict [(''nonInteractive'', PStr ''required''),
        (''structuredOutput'', PStr ''required''), (''ambientIsolation'', PStr ''required''),
        (''terminalEnvelope'', PStr ''required''), (''boundedStreaming'', PStr ''required'')])]"

definition no_nfc :: "string \<Rightarrow> string" where "no_nfc s = s"

lemma demo_paths:
  "validate_path no_nfc (PStr ''payload/a.md'') ''payload/'' = Inr ''payload/a.md''"
  "validate_path no_nfc (PStr ''contracts/task.json'') ''contracts/'' = Inr ''contracts/task.json''"
  "validate_path no_nfc (PStr ''contracts/framing.json'') ''contracts/'' = Inr ''contracts/framing.json''"
  "validate_path no_nfc (PStr ''contracts/terminal.json'') ''contracts/'' = Inr ''contracts/terminal.json''"
  by code_simp+

lemma demo_identity: "check_identity (manifest_of h g) = None"
  by code_simp

lemma manifest_fields:
  "dget (manifest_of h g) ''payload'' = demo_payload_list h"
  "dget (manifest_of h g) ''modelVisibleBytes'' = demo_model_value h"
  "dget (manifest_of h g) ''aggregateSha256'' = demo_aggregate_value g"
  "dget (manifest_of h g) ''taskEnvelope'' = demo_contract h ''schemaId'' ''contracts/task.json''"
  "dget (manifest_of h g) ''oneFieldFraming'' = demo_contract h ''id'' ''contracts/framing.json''"
  "dget (manifest_of h g) ''terminalEnvelope'' = demo_contract h ''schemaId'' ''contracts/terminal.json''"
  "dget (manifest_of h g) ''releaseEligible'' = PBool True"
  "dget (manifest_of h g) ''purpose'' = PStr ''functional-alpha-placeholder''"
  by code_simp+

lemma demo_payload:
  "hex_string 64 h \<Longrightarrow> check_payload no_nfc (demo_payload_list h) = Inr [''payload/a.md'']"
  by (simp add: check_payload_def demo_payload_list_def payload_entry_def Let_def expect_object_def expect_keys_def
      keys_are_def demo_paths expect_digest_def expect_size_def MAX_ENTRY_BYTES_def MAX_FILES_def)

lemma demo_model:
  "hex_string 64 h \<Longrightarrow> hex_string 64 g \<Longrightarrow> check_model (manifest_of h g) = None"
  by (simp add: check_model_def Let_def manifest_fields demo_model_value_def demo_aggregate_value_def
      expect_object_def expect_keys_def keys_are_def expect_digest_def expect_size_def MAX_IMAGE_BYTES_def)

lemma demo_placements: "check_placements (dget (manifest_of h g) ''instructionPlacements'') = None"
  by code_simp

lemma demo_contracts:
  "hex_string 64 h \<Longrightarrow> contract_loop no_nfc (manifest_of h g) contract_fields [''payload/a.md''] =
     Inr [''payload/a.md'', ''contracts/task.json'', ''contracts/framing.json'', ''contracts/terminal.json'']"
  by (simp add: contract_fields_def manifest_fields demo_contract_def contract_entry_def Let_def
      expect_object_def expect_keys_def keys_are_def expect_nonempty_string_def demo_paths expect_digest_def)

lemma demo_requirements: "check_requirements (manifest_of h g) = None"
  by code_simp

lemma demo_manifest_valid:
  "hex_string 64 h \<Longrightarrow> hex_string 64 g \<Longrightarrow> validate_manifest no_nfc (manifest_of h g) = None"
  by (simp add: validate_manifest_def demo_identity manifest_fields demo_payload demo_model demo_placements
      demo_contracts demo_requirements)

lemma manifest_of_plain: "json_plain (PDict (manifest_of h g))"
  by code_simp

lemma manifest_of_utf8: "utf8_valid h \<Longrightarrow> utf8_valid g \<Longrightarrow> py_utf8 (PDict (manifest_of h g))"
  by (simp add: manifest_of_def demo_contract_def demo_payload_list_def demo_model_value_def
      demo_aggregate_value_def utf8_ascii)

definition demo_manifest :: pydict where
  "demo_manifest = manifest_of (sha256_hex demo_body) (sha256_hex (aggregate_entry ''payload/a.md'' demo_body))"

definition demo_manifest_bytes :: string where
  "demo_manifest_bytes = json_dumps demo_style (PDict demo_manifest)"

lemma demo_length: "length demo_manifest_bytes \<le> 40000"
proof -
  have "length (sha256_hex b) = 64" for b
    using hex_string_sha256 [of b] by (simp add: hex_string_def)
  moreover have "json_weight (PDict (manifest_of h g)) \<le> 40000" if "length h = 64" "length g = 64" for h g
    using that by (simp add: manifest_of_def demo_contract_def demo_payload_list_def demo_model_value_def
        demo_aggregate_value_def dec_int_def dec_digits.simps [of 2])
  ultimately have "json_weight (PDict demo_manifest) \<le> 40000" by (simp add: demo_manifest_def)
  with length_json_dumps(1) [of demo_style "PDict demo_manifest"] show ?thesis
    by (simp add: demo_style_def demo_manifest_bytes_def)
qed

lemma demo_parses: "parse_manifest no_nfc demo_manifest_bytes = Inr demo_manifest"
proof -
  have style: "style_ok demo_style" by (simp add: style_ok_def demo_style_def)
  have pr: "printable demo_manifest_bytes"
    unfolding demo_manifest_bytes_def demo_manifest_def using manifest_of_plain
    by (intro printable_dumps(1)) (simp_all add: demo_style_def)
  then have "CHR 0x00 \<notin> set demo_manifest_bytes" "CHR 0x0D \<notin> set demo_manifest_bytes"
    by (auto simp: list_all_iff)
  moreover have "\<not> prefix [CHR 0xEF, CHR 0xBB, CHR 0xBF] demo_manifest_bytes"
    by (simp add: demo_manifest_bytes_def Let_def)
  moreover have "utf8_valid demo_manifest_bytes"
    unfolding demo_manifest_bytes_def demo_manifest_def using manifest_of_utf8
    by (intro utf8_json_dumps(1)) (simp_all add: demo_style_def)
  ultimately have "normalize_text demo_manifest_bytes ''manifest.json'' MAX_MANIFEST_BYTES = None"
    using demo_length by (simp add: normalize_text_def MAX_MANIFEST_BYTES_def)
  moreover have "json_loads manifest_hooks demo_manifest_bytes = Inr (PDict demo_manifest)"
    unfolding demo_manifest_bytes_def demo_manifest_def
    using style manifest_hooks_ok manifest_of_plain by (rule json_loads_dumps)
  moreover have "validate_manifest no_nfc demo_manifest = None"
    by (simp add: demo_manifest_def demo_manifest_valid)
  ultimately show ?thesis by (simp add: parse_manifest_def)
qed

section \<open>The directory and the loaded image\<close>

definition demo_trace :: "string \<Rightarrow> read_trace" where
  "demo_trace b = (let st = \<lparr>st_kind = Regular, st_dev = 1, st_ino = 1, st_size = length b\<rparr> in
     \<lparr>tr_lstat = Inr st, tr_open = Inr st, tr_content = b, tr_closed = st\<rparr>)"

lemma read_demo_trace: "length b \<le> n \<Longrightarrow> read_bounded (demo_trace b) n = Inr b"
  by (simp add: read_bounded_def demo_trace_def Let_def)

definition demo_root :: "node option" where
  "demo_root = Some (Dir [
     (''manifest.json'', File (demo_trace demo_manifest_bytes)),
     (''payload'', Dir [(''a.md'', File (demo_trace demo_body))]),
     (''contracts'', Dir [(''task.json'', File (demo_trace demo_body)),
        (''framing.json'', File (demo_trace demo_body)), (''terminal.json'', File (demo_trace demo_body))])])"

definition demo_paths_list :: "string list" where
  "demo_paths_list = [''payload/a.md'', ''contracts/task.json'', ''contracts/framing.json'', ''contracts/terminal.json'']"

definition demo_image :: parsed_bundle where
  "demo_image = \<lparr>manifest = demo_manifest, manifest_bytes = demo_manifest_bytes,
     bundle_files = map (\<lambda>p. \<lparr>bf_path = p, bf_bytes = demo_body\<rparr>) demo_paths_list\<rparr>"

lemma demo_files: "image_files demo_root =
  Inr ((''manifest.json'', demo_trace demo_manifest_bytes) # map (\<lambda>p. (p, demo_trace demo_body)) demo_paths_list)"
  by (simp add: image_files_def demo_root_def level_check_def demo_paths_list_def)

lemma demo_declared: "declared_paths demo_manifest = demo_paths_list"
  by (simp add: declared_paths_def demo_manifest_def manifest_fields demo_payload_list_def demo_contract_def
      demo_paths_list_def)

lemma demo_eligible: "eligibility_check elig demo_manifest = None"
  by (simp add: eligibility_check_def demo_manifest_def manifest_fields)

lemma demo_lookup:
  "p \<in> set demo_paths_list \<Longrightarrow> lookup_body (bundle_files demo_image) p = demo_body"
  by (auto simp: lookup_body_def demo_image_def demo_paths_list_def)

lemma demo_normalized: "normalize_text demo_body path MAX_ENTRY_BYTES = None"
proof -
  have "CHR 0x00 \<notin> set ''hi''" "CHR 0x0D \<notin> set ''hi''" "utf8_valid ''hi''"
    "\<not> prefix [CHR 0xEF, CHR 0xBB, CHR 0xBF] ''hi''" by code_simp+
  then show ?thesis by (simp add: normalize_text_def demo_body_def MAX_ENTRY_BYTES_def)
qed

lemma demo_bytes_valid: "validate_image_bytes demo_manifest (bundle_files demo_image) = None"
proof -
  have paths: "map bf_path (bundle_files demo_image) = demo_paths_list"
    by (simp add: demo_image_def comp_def)
  have dist: "distinct demo_paths_list" by code_simp
  have mem: "''payload/a.md'' \<in> set demo_paths_list" "''contracts/task.json'' \<in> set demo_paths_list"
    "''contracts/framing.json'' \<in> set demo_paths_list" "''contracts/terminal.json'' \<in> set demo_paths_list"
    by (simp_all add: demo_paths_list_def)
  have len: "length demo_body = 2" by (simp add: demo_body_def)
  have agg: "dget demo_manifest ''aggregateSha256'' =
      demo_aggregate_value (sha256_hex (aggregate_entry ''payload/a.md'' demo_body))"
    by (simp add: demo_manifest_def manifest_fields)
  have fields: "dget demo_manifest ''payload'' = demo_payload_list (sha256_hex demo_body)"
    "dget demo_manifest ''modelVisibleBytes'' = demo_model_value (sha256_hex demo_body)"
    "dget demo_manifest ''taskEnvelope'' = demo_contract (sha256_hex demo_body) ''schemaId'' ''contracts/task.json''"
    "dget demo_manifest ''oneFieldFraming'' = demo_contract (sha256_hex demo_body) ''id'' ''contracts/framing.json''"
    "dget demo_manifest ''terminalEnvelope'' = demo_contract (sha256_hex demo_body) ''schemaId'' ''contracts/terminal.json''"
    by (simp_all add: demo_manifest_def manifest_fields)
  show ?thesis
    unfolding validate_image_bytes_def Let_def fields agg paths demo_declared
    by (simp add: demo_payload_list_def demo_model_value_def demo_aggregate_value_def demo_contract_def
        payload_body_check_def contract_body_check_def Let_def demo_lookup mem dist demo_normalized len fields)
qed

lemma demo_loads: "load_image_directory no_nfc elig demo_root = Inr demo_image"
proof -
  have body: "length demo_body = 2" by (simp add: demo_body_def)
  have mread: "read_bounded (demo_trace demo_manifest_bytes) MAX_MANIFEST_BYTES = Inr demo_manifest_bytes"
    using demo_length by (intro read_demo_trace) (simp add: MAX_MANIFEST_BYTES_def)
  have bread: "read_bounded (demo_trace demo_body) MAX_ENTRY_BYTES = Inr demo_body"
    by (intro read_demo_trace) (simp add: MAX_ENTRY_BYTES_def body)
  let ?actual = "(''manifest.json'', demo_trace demo_manifest_bytes) # map (\<lambda>p. (p, demo_trace demo_body)) demo_paths_list"
  have lookup: "map_of (map (\<lambda>p. (p, t)) ps) p = Some t" if "p \<in> set ps" for p ps and t :: read_trace
    using that by (induction ps) auto
  have one: "read_declared ?actual p = Inr \<lparr>bf_path = p, bf_bytes = demo_body\<rparr>" if "p \<in> set demo_paths_list" for p
  proof -
    have "''manifest.json'' \<notin> set demo_paths_list" by code_simp
    with that have "p \<noteq> ''manifest.json''" by blast
    with that lookup [OF that] show ?thesis by (simp add: read_declared_def bread)
  qed
  have all: "traverse_res (read_declared ?actual) ps = Inr (map (\<lambda>p. \<lparr>bf_path = p, bf_bytes = demo_body\<rparr>) ps)"
    if "set ps \<subseteq> set demo_paths_list" for ps
    using that by (induction ps) (simp_all add: one)
  have files: "traverse_res (read_declared ?actual) demo_paths_list = Inr (bundle_files demo_image)"
    using all [of demo_paths_list] by (simp add: demo_image_def)
  have sum: "length demo_manifest_bytes + sum_list (map (\<lambda>f. length (bf_bytes f)) (bundle_files demo_image)) \<le> MAX_IMAGE_BYTES"
    using demo_length by (simp add: demo_image_def demo_paths_list_def MAX_IMAGE_BYTES_def body)
  have sets: "list_all (\<lambda>p. p \<in> set (map fst ?actual)) (''manifest.json'' # demo_paths_list)"
    "list_all (\<lambda>p. p \<in> set (''manifest.json'' # demo_paths_list)) (map fst ?actual)"
    by (auto simp: list_all_iff image_iff)
  show ?thesis
    unfolding load_image_directory_def demo_files Let_def
    using sets by (simp add: mread demo_parses demo_declared demo_eligible files demo_bytes_valid sum)
      (simp add: demo_image_def)
qed

end
