(* ===== verification/Image_Claims.thy ===== *)
theory Image_Claims
  imports Image_Demo
begin

text \<open>
  What the bundle code promises: the exact set of accepted bundles, the round trips between images
  and bundles, refusal of truncated and extended bundles, where accepted paths lead, the drift
  check, bounded reads and atomic writes.
\<close>

section \<open>Declared paths\<close>

definition payload_path :: "pyval \<Rightarrow> string" where
  "payload_path raw = str_of (dget (dict_of raw) ''path'')"

lemma payload_entry_Inr:
  assumes "payload_entry nfc i raw seen = Inr p"
  shows "p = payload_path raw" "p \<notin> set seen" "validate_path nfc (PStr p) ''payload/'' = Inr p"
proof -
  from assms have v: "validate_path nfc (dget (dict_of raw) ''path'') ''payload/'' = Inr p" "p \<notin> set seen"
    by (auto simp: payload_entry_def Let_def checked_eq_Inr ebind_eq_Inr)
  from validate_path_result [OF v(1)] v show "p = payload_path raw" "p \<notin> set seen"
      "validate_path nfc (PStr p) ''payload/'' = Inr p"
    by (auto simp: payload_path_def)
qed

lemma payload_loop_Inr:
  assumes "payload_loop nfc i raws seen = Inr out" "distinct seen"
  shows "out = seen @ map payload_path raws \<and> distinct out \<and>
    (\<forall>raw \<in> set raws. validate_path nfc (PStr (payload_path raw)) ''payload/'' = Inr (payload_path raw))"
  using assms
proof (induction raws arbitrary: i seen)
  case (Cons raw raws)
  from Cons.prems(1) obtain p where p: "payload_entry nfc i raw seen = Inr p"
    "payload_loop nfc (Suc i) raws (seen @ [p]) = Inr out" by (auto simp: ebind_eq_Inr)
  note e = payload_entry_Inr [OF p(1)]
  have "distinct (seen @ [p])" using e(2) Cons.prems(2) by simp
  note ih = Cons.IH [OF p(2) this]
  show ?case
  proof (intro conjI)
    show "out = seen @ map payload_path (raw # raws)" using ih e(1) by simp
    show "distinct out" using ih by blast
  qed (use ih e in auto)
qed simp



definition contract_path :: "pydict \<Rightarrow> string \<Rightarrow> string" where
  "contract_path m name = str_of (dget (dict_of (dget m name)) ''path'')"

lemma contract_entry_Inr:
  assumes "contract_entry nfc m (name, key) seen = Inr p"
  shows "p = contract_path m name" "p \<notin> set seen" "validate_path nfc (PStr p) ''contracts/'' = Inr p"
proof -
  from assms have v: "validate_path nfc (dget (dict_of (dget m name)) ''path'') ''contracts/'' = Inr p" "p \<notin> set seen"
    by (auto simp: contract_entry_def Let_def checked_eq_Inr ebind_eq_Inr)
  from validate_path_result [OF v(1)] v show "p = contract_path m name" "p \<notin> set seen"
      "validate_path nfc (PStr p) ''contracts/'' = Inr p"
    by (auto simp: contract_path_def)
qed

lemma contract_loop_Inr:
  assumes "contract_loop nfc m fs seen = Inr out" "distinct seen"
  shows "out = seen @ map (\<lambda>f. contract_path m (fst f)) fs \<and> distinct out \<and>
    (\<forall>f \<in> set fs. validate_path nfc (PStr (contract_path m (fst f))) ''contracts/'' = Inr (contract_path m (fst f)))"
  using assms
proof (induction fs arbitrary: seen)
  case (Cons f fs)
  obtain name key where f: "f = (name, key)" by fastforce
  from Cons.prems(1) obtain p where p: "contract_entry nfc m (name, key) seen = Inr p"
    "contract_loop nfc m fs (seen @ [p]) = Inr out" by (auto simp: ebind_eq_Inr f)
  note e = contract_entry_Inr [OF p(1)]
  have "distinct (seen @ [p])" using e(2) Cons.prems(2) by simp
  note ih = Cons.IH [OF p(2) this]
  show ?case
  proof (intro conjI)
    show "out = seen @ map (\<lambda>f. contract_path m (fst f)) (f # fs)" using ih e(1) f by simp
    show "distinct out" using ih by blast
  qed (use ih e f in auto)
qed simp

lemma declared_paths_eq:
  "declared_paths m = map payload_path (list_of (dget m ''payload'')) @
     map (\<lambda>f. contract_path m (fst f)) contract_fields"
  by (simp add: declared_paths_def payload_path_def contract_path_def contract_fields_def)

lemma valid_manifest_paths:
  assumes "validate_manifest nfc m = None"
  shows "distinct (declared_paths m)" "length (declared_paths m) \<le> MAX_FILES"
    "\<forall>p \<in> set (declared_paths m). \<exists>pre \<in> {''payload/'', ''contracts/''}. validate_path nfc (PStr p) pre = Inr p"
proof -
  from assms obtain seen out where
    p: "check_payload nfc (dget m ''payload'') = Inr seen" "contract_loop nfc m contract_fields seen = Inr out"
    by (auto simp: validate_manifest_def check_of_eq_None checked_eq_Inr ebind_eq_Inr)
  from p(1) have l: "payload_loop nfc 0 (list_of (dget m ''payload'')) [] = Inr seen"
    "length (list_of (dget m ''payload'')) \<le> MAX_FILES - 3"
    by (auto simp: check_payload_def checked_eq_Inr)
  from payload_loop_Inr [OF l(1)] have s: "seen = map payload_path (list_of (dget m ''payload''))" "distinct seen"
    "\<forall>raw \<in> set (list_of (dget m ''payload'')).
       validate_path nfc (PStr (payload_path raw)) ''payload/'' = Inr (payload_path raw)" by auto
  from contract_loop_Inr [OF p(2) s(2)] have o: "out = declared_paths m" "distinct out"
    "\<forall>f \<in> set contract_fields. validate_path nfc (PStr (contract_path m (fst f))) ''contracts/'' = Inr (contract_path m (fst f))"
    unfolding declared_paths_eq s(1) [symmetric] by blast+
  then show "distinct (declared_paths m)" by simp
  show "length (declared_paths m) \<le> MAX_FILES"
    using l(2) by (simp add: declared_paths_def MAX_FILES_def)
  show "\<forall>p \<in> set (declared_paths m). \<exists>pre \<in> {''payload/'', ''contracts/''}. validate_path nfc (PStr p) pre = Inr p"
    using s(3) o(3) by (auto simp: declared_paths_eq)
qed

lemma parse_manifest_valid: "parse_manifest nfc b = Inr m \<Longrightarrow> validate_manifest nfc m = None"
  by (auto simp: parse_manifest_def checked_eq_Inr split: sum.splits if_splits)

section \<open>Accepted bundles\<close>

definition bundle_layout :: "parsed_bundle \<Rightarrow> string" where
  "bundle_layout img = MAGIC @ be_bytes 4 (length (manifest_bytes img)) @ manifest_bytes img @
     be_bytes 4 (length (bundle_files img)) @ concat (map file_bytes (bundle_files img))"

definition bundle_ok :: "(string \<Rightarrow> string) \<Rightarrow> bool \<Rightarrow> parsed_bundle \<Rightarrow> bool" where
  "bundle_ok nfc elig img \<longleftrightarrow>
     length (bundle_layout img) \<le> MAX_BUNDLE_BYTES \<and> length (manifest_bytes img) \<le> MAX_MANIFEST_BYTES \<and>
     parse_manifest nfc (manifest_bytes img) = Inr (manifest img) \<and>
     eligibility_check elig (manifest img) = None \<and> length (bundle_files img) \<le> MAX_FILES \<and>
     files_ok nfc [] (length (manifest_bytes img)) (bundle_files img) \<and>
     validate_image_bytes (manifest img) (bundle_files img) = None"

lemma parse_bundle_steps:
  "parse_bundle nfc elig b = Inr img \<longleftrightarrow>
     length b \<le> MAX_BUNDLE_BYTES \<and>
     (\<exists>r1 r2 r3 r4 r5. rd_moved \<lparr>rd_value = b, rd_offset = 0\<rparr> r1 MAGIC \<and>
        rd_moved r1 r2 (be_bytes 4 (length (manifest_bytes img))) \<and> rd_moved r2 r3 (manifest_bytes img) \<and>
        rd_moved r3 r4 (be_bytes 4 (length (bundle_files img))) \<and>
        rd_moved r4 r5 (concat (map file_bytes (bundle_files img))) \<and> rd_offset r5 = length b) \<and>
     length (manifest_bytes img) \<le> MAX_MANIFEST_BYTES \<and>
     parse_manifest nfc (manifest_bytes img) = Inr (manifest img) \<and>
     eligibility_check elig (manifest img) = None \<and> length (bundle_files img) \<le> MAX_FILES \<and>
     files_ok nfc [] (length (manifest_bytes img)) (bundle_files img) \<and>
     validate_image_bytes (manifest img) (bundle_files img) = None" (is "?l \<longleftrightarrow> ?r")
proof
  assume ?l
  then obtain n m mb c fs r1 r2 r3 r4 r5 where
    a: "length b \<le> MAX_BUNDLE_BYTES" "rd_moved \<lparr>rd_value = b, rd_offset = 0\<rparr> r1 MAGIC"
      "n < 256 ^ 4" "rd_moved r1 r2 (be_bytes 4 n)" "n \<le> MAX_MANIFEST_BYTES" "length mb = n" "rd_moved r2 r3 mb"
      "parse_manifest nfc mb = Inr m" "eligibility_check elig m = None"
      "c < 256 ^ 4" "rd_moved r3 r4 (be_bytes 4 c)" "c \<le> MAX_FILES"
      "parse_files nfc 0 c [] (length mb) r4 = Inr (fs, r5)" "rd_offset r5 = length b"
      "validate_image_bytes m fs = None" "img = \<lparr>manifest = m, manifest_bytes = mb, bundle_files = fs\<rparr>"
    unfolding parse_bundle_def ebind_eq_Inr split_paired_Ex prod.case checked_eq_Inr guard_eq_None
      u32_field.spec raw_field.spec by blast
  from a(11) have "rd_offset r4 \<le> length (rd_value r4)" by (metis rd_moved_def)
  from a(13) parse_files_spec [OF this] have
    "length fs = c" "files_ok nfc [] (length mb) fs" "rd_moved r4 r5 (concat (map file_bytes fs))" by blast+
  with a show ?r by (simp only: parsed_bundle.simps) blast
next
  assume r: ?r
  then obtain r1 r2 r3 r4 r5 where
    m: "rd_moved \<lparr>rd_value = b, rd_offset = 0\<rparr> r1 MAGIC" "rd_moved r1 r2 (be_bytes 4 (length (manifest_bytes img)))"
      "rd_moved r2 r3 (manifest_bytes img)" "rd_moved r3 r4 (be_bytes 4 (length (bundle_files img)))"
      "rd_moved r4 r5 (concat (map file_bytes (bundle_files img)))" "rd_offset r5 = length b" by blast
  from m(4) have "rd_offset r4 \<le> length (rd_value r4)" by (metis rd_moved_def)
  from parse_files_spec [OF this] r m(5) have
    "parse_files nfc 0 (length (bundle_files img)) [] (length (manifest_bytes img)) r4 = Inr (bundle_files img, r5)"
    by blast
  moreover have "length (manifest_bytes img) < 256 ^ 4" "length (bundle_files img) < 256 ^ 4"
    using r file_limits by linarith+
  with m have "rd_u32 nm r1 = Inr (length (manifest_bytes img), r2)" "rd_take (length MAGIC) nm \<lparr>rd_value = b, rd_offset = 0\<rparr> = Inr (MAGIC, r1)"
    "rd_take (length (manifest_bytes img)) nm r2 = Inr (manifest_bytes img, r3)"
    "rd_u32 nm r3 = Inr (length (bundle_files img), r4)" for nm
    by (simp_all add: u32_field.spec raw_field.spec)
  ultimately show ?l using r m(6) by (simp add: parse_bundle_def)
qed

lemma parse_bundle_iff:
  "parse_bundle nfc elig b = Inr img \<longleftrightarrow> bundle_ok nfc elig img \<and> b = bundle_layout img"
proof -
  have "(\<exists>r1 r2 r3 r4 r5. rd_moved \<lparr>rd_value = b, rd_offset = 0\<rparr> r1 MAGIC \<and>
        rd_moved r1 r2 (be_bytes 4 (length (manifest_bytes img))) \<and> rd_moved r2 r3 (manifest_bytes img) \<and>
        rd_moved r3 r4 (be_bytes 4 (length (bundle_files img))) \<and>
        rd_moved r4 r5 (concat (map file_bytes (bundle_files img))) \<and> rd_offset r5 = length b) \<longleftrightarrow>
      (\<exists>r5. rd_moved \<lparr>rd_value = b, rd_offset = 0\<rparr> r5 (bundle_layout img) \<and> rd_offset r5 = length b)"
    unfolding bundle_layout_def rd_moved_append by blast
  also have "\<dots> \<longleftrightarrow> b = bundle_layout img"
    unfolding rd_moved_all by auto
  finally show ?thesis unfolding parse_bundle_steps bundle_ok_def by auto
qed

section \<open>Valid paths\<close>

lemma valid_path_facts:
  assumes "validate_path nfc v pre = Inr p"
  shows "v = PStr p" "p \<noteq> []" "CHR 0x00 \<notin> set p" "utf8_valid p" "length p \<le> MAX_PATH_BYTES" "prefix pre p"
    "list_all path_character p" "\<forall>part \<in> set (split_on (CHR ''/'') p). part \<notin> {'''', ''.'', ''..''}"
    "take 1 p \<noteq> ''/''" "nfc p = p"
  using assms validate_path_result [OF assms]
  by (auto simp: validate_path_def Let_def checked_eq_Inr expect_nonempty_string_def list_all_iff)

section \<open>Encoding\<close>

lemma encode_layout:
  assumes "length (manifest_bytes img) \<le> MAX_MANIFEST_BYTES" "length (bundle_files img) \<le> MAX_FILES"
    and "\<forall>f \<in> set (bundle_files img). file_ok nfc [] 0 f"
  shows "encode_bundle img = Inr (bundle_layout img)"
proof -
  have one: "encode_file f = Inr (file_bytes f)" if "file_ok nfc [] 0 f" for f
  proof -
    from that file_limits have "length (bf_path f) < 256 ^ 4" "length (bf_bytes f) < 256 ^ 8"
      unfolding file_ok_def by linarith+
    with that show ?thesis
      by (simp add: encode_file_def pack_be_def utf8_encode_def file_ok_def file_bytes_def)
  qed
  have "traverse_res encode_file fs = Inr (map file_bytes fs)" if "\<forall>f \<in> set fs. file_ok nfc [] 0 f" for fs
    using that by (induction fs) (simp_all add: one)
  moreover have "length (manifest_bytes img) < 256 ^ 4" "length (bundle_files img) < 256 ^ 4"
    using assms file_limits by linarith+
  ultimately show ?thesis
    using assms(3) by (simp add: encode_bundle_def pack_be_def bundle_layout_def)
qed

text \<open>C15. A bundle has one form: what the parser accepts is exactly what the encoder produces for the
  parsed image, byte for byte.\<close>

theorem accepted_bundle_is_canonical:
  assumes "parse_bundle nfc elig b = Inr img"
  shows "encode_bundle img = Inr b"
proof -
  from assms have ok: "bundle_ok nfc elig img" and b: "b = bundle_layout img" by (simp_all add: parse_bundle_iff)
  have "encode_bundle img = Inr (bundle_layout img)"
    using ok by (intro encode_layout [of img nfc]) (auto simp: bundle_ok_def files_ok_iff)
  with b show ?thesis by simp
qed

lemma append_same_length: "xs @ ys = us @ vs \<Longrightarrow> length xs = length us \<Longrightarrow> xs = us \<and> ys = vs"
  by simp

lemma layout_cancel:
  assumes "be_bytes k (length xs) @ xs @ ys = be_bytes k (length us) @ us @ vs"
    and "length xs < 256 ^ k" "length us < 256 ^ k"
  shows "xs = us \<and> ys = vs"
proof -
  from assms(1) have "be_bytes k (length xs) = be_bytes k (length us)" "xs @ ys = us @ vs" by simp_all
  with assms(2,3) show ?thesis by (metis append_same_length be_bytes_inject)
qed

lemma files_prefix_free:
  assumes "concat (map file_bytes fs) @ s = concat (map file_bytes gs)" "length fs = length gs"
    and "\<forall>f \<in> set fs. length (bf_path f) < 256 ^ 4 \<and> length (bf_bytes f) < 256 ^ 8"
    and "\<forall>f \<in> set gs. length (bf_path f) < 256 ^ 4 \<and> length (bf_bytes f) < 256 ^ 8"
  shows "fs = gs \<and> s = []"
  using assms
proof (induction fs arbitrary: gs)
  case (Cons f fs)
  then obtain g gs' where g: "gs = g # gs'" by (cases gs) auto
  have len: "length (bf_path f) < 256 ^ 4" "length (bf_bytes f) < 256 ^ 8"
    "length (bf_path g) < 256 ^ 4" "length (bf_bytes g) < 256 ^ 8" using Cons.prems(3,4) g by auto
  have "be_bytes 4 (length (bf_path f)) @ bf_path f @ (be_bytes 8 (length (bf_bytes f)) @ bf_bytes f @
        concat (map file_bytes fs) @ s) =
      be_bytes 4 (length (bf_path g)) @ bf_path g @ (be_bytes 8 (length (bf_bytes g)) @ bf_bytes g @
        concat (map file_bytes gs'))"
    using Cons.prems(1) g by (simp add: file_bytes_def [of f] file_bytes_def [of g])
  from layout_cancel [OF this len(1,3)] have
    p: "bf_path f = bf_path g" "be_bytes 8 (length (bf_bytes f)) @ bf_bytes f @ (concat (map file_bytes fs) @ s) =
        be_bytes 8 (length (bf_bytes g)) @ bf_bytes g @ concat (map file_bytes gs')" by blast+
  from layout_cancel [OF p(2) len(2,4)] have
    q: "bf_bytes f = bf_bytes g" "concat (map file_bytes fs) @ s = concat (map file_bytes gs')" by blast+
  from Cons.IH [OF q(2)] Cons.prems g have "fs = gs' \<and> s = []" by simp
  with p(1) q(1) g show ?case by simp
qed simp

text \<open>C23. No accepted bundle is a proper prefix of another one: a truncated bundle and a bundle with
  trailing bytes are both refused.\<close>

theorem accepted_bundles_are_prefix_free:
  assumes "parse_bundle nfc elig b = Inr img" and "parse_bundle nfc elig' (b @ s) = Inr img'"
  shows "s = [] \<and> img' = img"
proof -
  from assms have ok: "bundle_ok nfc elig img" "bundle_ok nfc elig' img'"
    and eq: "bundle_layout img @ s = bundle_layout img'" by (simp_all add: parse_bundle_iff)
  have len: "length (manifest_bytes i) < 256 ^ 4" "length (bundle_files i) < 256 ^ 4"
    "\<forall>f \<in> set (bundle_files i). length (bf_path f) < 256 ^ 4 \<and> length (bf_bytes f) < 256 ^ 8"
    if "bundle_ok nfc e i" for i e
  proof -
    show "length (manifest_bytes i) < 256 ^ 4" "length (bundle_files i) < 256 ^ 4"
      using that file_limits unfolding bundle_ok_def by linarith+
    have "\<forall>f \<in> set (bundle_files i). file_ok nfc [] 0 f" using that by (simp add: bundle_ok_def files_ok_iff)
    then show "\<forall>f \<in> set (bundle_files i). length (bf_path f) < 256 ^ 4 \<and> length (bf_bytes f) < 256 ^ 8"
      using file_limits unfolding file_ok_def by fastforce
  qed
  have m: "manifest_bytes img = manifest_bytes img' \<and>
      be_bytes 4 (length (bundle_files img)) @ concat (map file_bytes (bundle_files img)) @ s =
      be_bytes 4 (length (bundle_files img')) @ concat (map file_bytes (bundle_files img'))"
    using eq by (intro layout_cancel [of 4, OF _ len(1) [OF ok(1)] len(1) [OF ok(2)]]) (simp add: bundle_layout_def)
  then have "be_bytes 4 (length (bundle_files img)) = be_bytes 4 (length (bundle_files img'))"
      and fs: "concat (map file_bytes (bundle_files img)) @ s = concat (map file_bytes (bundle_files img'))" by simp_all
  then have "length (bundle_files img) = length (bundle_files img')"
    using len(2) [OF ok(1)] len(2) [OF ok(2)] by (simp add: be_bytes_inject)
  from files_prefix_free [OF fs this len(3) [OF ok(1)] len(3) [OF ok(2)]]
  have "bundle_files img = bundle_files img' \<and> s = []" .
  moreover have "manifest img = manifest img'" using ok m by (simp add: bundle_ok_def)
  ultimately show ?thesis using m by simp
qed

section \<open>Accepted content\<close>

lemma lookup_body_member:
  assumes "distinct (map bf_path fs)" "f \<in> set fs"
  shows "lookup_body fs (bf_path f) = bf_bytes f"
proof -
  have "map_of (rev (map (\<lambda>f. (bf_path f, bf_bytes f)) fs)) (bf_path f) = Some (bf_bytes f)"
  proof (rule map_of_is_SomeI)
    have "map fst (rev (map (\<lambda>f. (bf_path f, bf_bytes f)) fs)) = rev (map bf_path fs)"
      by (simp add: rev_map comp_def)
    with assms(1) show "distinct (map fst (rev (map (\<lambda>f. (bf_path f, bf_bytes f)) fs)))" by (metis distinct_rev)
  qed (use assms(2) in auto)
  then show ?thesis by (simp add: lookup_body_def)
qed

lemma image_bytes_facts:
  assumes "validate_image_bytes m fs = None"
  shows "map bf_path fs = declared_paths m" "distinct (map bf_path fs)"
    "\<forall>raw \<in> set (list_of (dget m ''payload'')). payload_body_check fs raw = None"
    "\<forall>name \<in> {''taskEnvelope'', ''oneFieldFraming'', ''terminalEnvelope''}.
       contract_body_check fs (dict_of (dget m name)) = None"
    "dget (dict_of (dget m ''modelVisibleBytes'')) ''sha256'' =
       PStr (sha256_hex (concat (map (\<lambda>raw. lookup_body fs (payload_path raw)) (list_of (dget m ''payload'')))))"
  using assms by (auto simp: validate_image_bytes_def Let_def first_failure_eq_None payload_path_def)

lemma image_bodies_normalized:
  assumes ok: "validate_image_bytes m fs = None" and f: "f \<in> set fs"
  shows "normalize_text (bf_bytes f) (bf_path f) MAX_ENTRY_BYTES = None"
proof -
  note facts = image_bytes_facts [OF ok]
  have body: "lookup_body fs (bf_path f) = bf_bytes f" using facts(2) f by (rule lookup_body_member)
  have "bf_path f \<in> set (declared_paths m)" using facts(1) f by (metis imageI list.set_map)
  then consider raw where "raw \<in> set (list_of (dget m ''payload''))" "bf_path f = payload_path raw"
    | name where "name \<in> {''taskEnvelope'', ''oneFieldFraming'', ''terminalEnvelope''}" "bf_path f = contract_path m name"
    by (auto simp: declared_paths_def payload_path_def contract_path_def)
  then show ?thesis
  proof cases
    case 1
    with facts(3) body show ?thesis by (auto simp: payload_body_check_def Let_def payload_path_def)
  next
    case 2
    from facts(4) 2(1) have "contract_body_check fs (dict_of (dget m name)) = None" by (rule bspec)
    with 2(2) body show ?thesis by (simp add: contract_body_check_def Let_def contract_path_def)
  qed
qed

lemma accepted_files_ok:
  assumes "validate_manifest nfc m = None" "validate_image_bytes m fs = None"
    and "\<forall>f \<in> set fs. length (bf_bytes f) \<le> MAX_ENTRY_BYTES"
  shows "\<forall>f \<in> set fs. file_ok nfc [] 0 f"
proof
  fix f assume f: "f \<in> set fs"
  have "bf_path f \<in> set (declared_paths m)" using image_bytes_facts(1) [OF assms(2)] f by (metis imageI list.set_map)
  with valid_manifest_paths(3) [OF assms(1)] obtain pre where
    pre: "pre \<in> {''payload/'', ''contracts/''}" "validate_path nfc (PStr (bf_path f)) pre = Inr (bf_path f)" by blast
  note vp = valid_path_facts [OF pre(2)]
  have "(if prefix ''payload/'' (bf_path f) then ''payload/'' else ''contracts/'') = pre"
    using pre(1) vp(6) by (auto simp: prefix_def)
  moreover have "length (bf_bytes f) \<le> MAX_IMAGE_BYTES"
    using assms(3) f by (force simp: MAX_ENTRY_BYTES_def MAX_IMAGE_BYTES_def)
  ultimately show "file_ok nfc [] 0 f"
    using vp pre(2) assms(3) f image_bodies_normalized [OF assms(2) f] by (simp add: file_ok_def)
qed

text \<open>The place a path names below a directory, the way a file system without links walks it: an absolute path starts at
  the root, empty and single-dot components stay, and a double dot goes up.\<close>

fun walk_parts :: "string list \<Rightarrow> string list \<Rightarrow> string list" where
  "walk_parts here [] = here"
| "walk_parts here (part # parts) =
     walk_parts (if part \<in> set ['''', ''.''] then here else if part = ''..'' then butlast here else here @ [part]) parts"

definition place_below :: "string list \<Rightarrow> string \<Rightarrow> string list" where
  "place_below dir p = walk_parts (if take 1 p = ''/'' then [] else dir) (split_on (CHR ''/'') p)"

lemma walk_plain: "\<forall>part \<in> set parts. part \<notin> {'''', ''.'', ''..''} \<Longrightarrow> walk_parts here parts = here @ parts"
  by (induction here parts rule: walk_parts.induct) auto

lemma valid_place:
  assumes "validate_path nfc v pre = Inr p" "pre = name @ ''/''" "CHR ''/'' \<notin> set name"
  shows "place_below dir p = dir @ split_on (CHR ''/'') p" "strict_prefix (dir @ [name]) (place_below dir p)"
proof -
  note facts = valid_path_facts [OF assms(1)]
  show here: "place_below dir p = dir @ split_on (CHR ''/'') p"
    using facts(8, 9) by (simp add: place_below_def walk_plain)
  from facts(6) assms(2) obtain rest where "p = name @ CHR ''/'' # rest" by (auto simp: prefix_def)
  then have "split_on (CHR ''/'') p = name # split_on (CHR ''/'') rest"
    using assms(3) by (simp add: split_on_append split_on_no_sep)
  with here show "strict_prefix (dir @ [name]) (place_below dir p)"
    using split_on_ne [of "CHR ''/''" rest] by (auto simp: strict_prefix_def simp del: split_on_ne)
qed

text \<open>C25. Unpacked under any directory, an accepted bundle stays in its two subdirectories: resolved from that directory
  the path of every file names a place strictly below \<^verbatim>\<open>payload\<close> or \<^verbatim>\<open>contracts\<close>, and no two files of the bundle
  name the same place.\<close>

theorem accepted_files_resolve_apart:
  assumes "parse_bundle nfc elig b = Inr img"
  shows "distinct (map (\<lambda>f. place_below dir (bf_path f)) (bundle_files img)) \<and>
    (\<forall>f \<in> set (bundle_files img). strict_prefix (dir @ [''payload'']) (place_below dir (bf_path f)) \<or>
       strict_prefix (dir @ [''contracts'']) (place_below dir (bf_path f)))"
proof -
  from assms have ok: "bundle_ok nfc elig img" by (simp add: parse_bundle_iff)
  then have v: "validate_manifest nfc (manifest img) = None" and ib: "validate_image_bytes (manifest img) (bundle_files img) = None"
    by (auto simp: bundle_ok_def dest: parse_manifest_valid)
  note paths = valid_manifest_paths [OF v] and same = image_bytes_facts(1) [OF ib]
  have place: "place_below dir p = dir @ split_on (CHR ''/'') p \<and>
      (strict_prefix (dir @ [''payload'']) (place_below dir p) \<or> strict_prefix (dir @ [''contracts'']) (place_below dir p))"
    if "p \<in> bf_path ` set (bundle_files img)" for p
  proof -
    from that same have "p \<in> set (declared_paths (manifest img))" by (metis list.set_map)
    with paths(3) obtain pre where pre: "pre \<in> {''payload/'', ''contracts/''}" "validate_path nfc (PStr p) pre = Inr p" by blast
    then show ?thesis using valid_place [OF pre(2), of "''payload''"] valid_place [OF pre(2), of "''contracts''"] by auto
  qed
  have "inj_on (place_below dir) (bf_path ` set (bundle_files img))"
    using place by (auto intro!: inj_onI) (metis image_eqI join_split same_append_eq)
  moreover have "distinct (map bf_path (bundle_files img))" using paths(1) same by simp
  ultimately have "distinct (map (place_below dir) (map bf_path (bundle_files img)))" by (simp only: distinct_map list.set_map)
  moreover have "strict_prefix (dir @ [''payload'']) (place_below dir (bf_path f)) \<or>
      strict_prefix (dir @ [''contracts'']) (place_below dir (bf_path f))" if "f \<in> set (bundle_files img)" for f
    using place [of "bf_path f"] that by blast
  ultimately show ?thesis by (simp add: comp_def)
qed


section \<open>Images on disk\<close>

text \<open>A bounded read that succeeds returned one regular file: the file opened is the one looked at, it
  is no symbolic link, and its whole content was read, unchanged in size and within the limit.\<close>

theorem bounded_read_is_whole_file:
  assumes "read_bounded tr maximum = Inr value"
  shows "\<exists>before opened. tr_lstat tr = Inr before \<and> tr_open tr = Inr opened \<and> st_kind before = Regular \<and>
    st_kind opened = Regular \<and> st_dev opened = st_dev before \<and> st_ino opened = st_ino before \<and>
    value = tr_content tr \<and> length value \<le> maximum \<and> st_size opened = length value \<and>
    st_size (tr_closed tr) = length value"
proof -
  from assms obtain before opened where
    f: "tr_lstat tr = Inr before" "tr_open tr = Inr opened" "st_kind before = Regular" "st_kind opened = Regular"
      "st_dev opened = st_dev before" "st_ino opened = st_ino before" "value = take (maximum + 1) (tr_content tr)"
      "length value \<le> maximum" "st_size opened = length value" "st_size (tr_closed tr) = st_size opened"
    by (auto simp: read_bounded_def ebind_eq_Inr checked_eq_Inr Let_def)
  from f(7,8) have "value = tr_content tr" by (cases "length (tr_content tr) \<le> maximum") auto
  with f show ?thesis by auto
qed

theorem bounded_read_is_whole_file_witness:
  "read_bounded (demo_trace ''hi'') 2 = Inr ''hi'' \<and> st_size (tr_closed (demo_trace ''hi'')) = length ''hi''"
proof -
  have "read_bounded (demo_trace ''hi'') 2 = Inr ''hi''" by (rule read_demo_trace) simp
  from bounded_read_is_whole_file [OF this] this show ?thesis by auto
qed

lemma read_declared_Inr:
  "read_declared actual p = Inr f \<Longrightarrow> bf_path f = p \<and> length (bf_bytes f) \<le> MAX_ENTRY_BYTES"
  by (auto simp: read_declared_def ebind_eq_Inr read_bounded_def checked_eq_Inr Let_def split: option.splits)

lemma loaded_image_facts:
  assumes "load_image_directory nfc elig image_root = Inr img"
  shows "parse_manifest nfc (manifest_bytes img) = Inr (manifest img)"
    "eligibility_check elig (manifest img) = None"
    "validate_image_bytes (manifest img) (bundle_files img) = None"
    "length (manifest_bytes img) + sum_list (map (\<lambda>f. length (bf_bytes f)) (bundle_files img)) \<le> MAX_IMAGE_BYTES"
    "length (manifest_bytes img) \<le> MAX_MANIFEST_BYTES"
    "\<forall>f \<in> set (bundle_files img). length (bf_bytes f) \<le> MAX_ENTRY_BYTES"
proof -
  from assms obtain actual tr mbytes m fs where
    l: "image_files image_root = Inr actual" "map_of actual ''manifest.json'' = Some tr"
      "read_bounded tr MAX_MANIFEST_BYTES = Inr mbytes" "parse_manifest nfc mbytes = Inr m"
      "eligibility_check elig m = None" "traverse_res (read_declared actual) (declared_paths m) = Inr fs"
      "validate_image_bytes m fs = None"
      "length mbytes + sum_list (map (\<lambda>f. length (bf_bytes f)) fs) \<le> MAX_IMAGE_BYTES"
      "img = \<lparr>manifest = m, manifest_bytes = mbytes, bundle_files = fs\<rparr>"
    by (auto simp: load_image_directory_def ebind_eq_Inr checked_eq_Inr Let_def split: option.splits)
  have "length mbytes \<le> MAX_MANIFEST_BYTES"
    using l(3) by (auto simp: read_bounded_def ebind_eq_Inr checked_eq_Inr Let_def)
  moreover have "\<forall>f \<in> set fs. length (bf_bytes f) \<le> MAX_ENTRY_BYTES"
    using l(6) unfolding traverse_res_all
    by (induction rule: list_all2_induct) (auto dest: read_declared_Inr)
  ultimately show "parse_manifest nfc (manifest_bytes img) = Inr (manifest img)"
    "eligibility_check elig (manifest img) = None"
    "validate_image_bytes (manifest img) (bundle_files img) = None"
    "length (manifest_bytes img) + sum_list (map (\<lambda>f. length (bf_bytes f)) (bundle_files img)) \<le> MAX_IMAGE_BYTES"
    "length (manifest_bytes img) \<le> MAX_MANIFEST_BYTES"
    "\<forall>f \<in> set (bundle_files img). length (bf_bytes f) \<le> MAX_ENTRY_BYTES"
    using l by simp_all
qed

lemma length_file_list:
  "\<forall>f \<in> set fs. length (bf_path f) \<le> MAX_PATH_BYTES \<Longrightarrow>
   length (concat (map file_bytes fs)) \<le> length fs * (12 + MAX_PATH_BYTES) + sum_list (map (\<lambda>f. length (bf_bytes f)) fs)"
  by (induction fs) (auto simp: file_bytes_def)

lemma loaded_bundle_ok:
  assumes load: "load_image_directory nfc elig image_root = Inr img"
  shows "bundle_ok nfc elig img"
proof -
  note lf = loaded_image_facts [OF load]
  have v: "validate_manifest nfc (manifest img) = None" using lf(1) by (rule parse_manifest_valid)
  note ib = image_bytes_facts [OF lf(3)]
  have ok: "\<forall>f \<in> set (bundle_files img). file_ok nfc [] 0 f"
    using v lf(3,6) by (rule accepted_files_ok)
  have count: "length (bundle_files img) \<le> MAX_FILES"
    using valid_manifest_paths(2) [OF v] ib(1) by (metis length_map)
  have files: "files_ok nfc [] (length (manifest_bytes img)) (bundle_files img)"
    unfolding files_ok_iff using ok ib(2) lf(4) by simp
  have "length (concat (map file_bytes (bundle_files img))) \<le>
      length (bundle_files img) * (12 + MAX_PATH_BYTES) + sum_list (map (\<lambda>f. length (bf_bytes f)) (bundle_files img))"
    using ok by (intro length_file_list) (simp add: file_ok_def)
  moreover have "length (bundle_files img) * (12 + MAX_PATH_BYTES) \<le> MAX_FILES * (12 + MAX_PATH_BYTES)"
    using count by (rule mult_le_mono1)
  ultimately have "length (bundle_layout img) \<le> MAX_BUNDLE_BYTES"
    using lf(4) unfolding bundle_layout_def MAX_BUNDLE_BYTES_def length_append length_be_bytes by linarith
  with lf count files show ?thesis by (simp add: bundle_ok_def)
qed

lemma built_bundle_exists:
  assumes "load_image_directory nfc elig image_root = Inr img"
  shows "\<exists>b. build_bundle nfc elig image_root = Inr b"
  using encode_layout [of img nfc] loaded_bundle_ok [OF assms] assms
  by (auto simp: build_bundle_def bundle_ok_def files_ok_iff)

text \<open>C7. Building is lossless: the bundle built from any image directory the loader accepts is accepted
  by the parser under the same eligibility, and parsing it returns the loaded image itself.\<close>

theorem built_bundle_round_trip:
  assumes "load_image_directory nfc elig image_root = Inr img"
  shows "\<exists>b. build_bundle nfc elig image_root = Inr b \<and> encode_bundle img = Inr b \<and> parse_bundle nfc elig b = Inr img"
proof -
  have ok: "bundle_ok nfc elig img" using assms by (rule loaded_bundle_ok)
  then have "encode_bundle img = Inr (bundle_layout img)"
    by (intro encode_layout [of img nfc]) (auto simp: bundle_ok_def files_ok_iff)
  moreover have "parse_bundle nfc elig (bundle_layout img) = Inr img" using ok by (simp add: parse_bundle_iff)
  ultimately show ?thesis using assms by (simp add: build_bundle_def)
qed

theorem built_bundle_round_trip_witness:
  "\<exists>b. build_bundle no_nfc True demo_root = Inr b \<and> parse_bundle no_nfc True b = Inr demo_image"
  using built_bundle_round_trip [OF demo_loads [of True]] by blast

lemma demo_parse: obtains b where "parse_bundle no_nfc True b = Inr demo_image"
  using loaded_bundle_ok [OF demo_loads [of True]] parse_bundle_iff [of no_nfc True "bundle_layout demo_image"] by blast

theorem accepted_bundle_is_canonical_witness:
  "\<exists>b. parse_bundle no_nfc True b = Inr demo_image \<and> encode_bundle demo_image = Inr b"
proof -
  obtain b where "parse_bundle no_nfc True b = Inr demo_image" by (rule demo_parse)
  with accepted_bundle_is_canonical [OF this] show ?thesis by blast
qed

theorem accepted_bundles_are_prefix_free_witness:
  "\<exists>b. parse_bundle no_nfc True b = Inr demo_image \<and> (\<forall>e img. parse_bundle no_nfc e (b @ ''x'') \<noteq> Inr img)"
proof -
  obtain b where b: "parse_bundle no_nfc True b = Inr demo_image" by (rule demo_parse)
  have "parse_bundle no_nfc e (b @ ''x'') \<noteq> Inr img" for e img
    using accepted_bundles_are_prefix_free [OF b, of e "''x''" img] by auto
  with b show ?thesis by blast
qed

theorem accepted_files_resolve_apart_witness:
  "\<exists>b. parse_bundle no_nfc True b = Inr demo_image \<and>
     distinct (map (\<lambda>f. place_below [''x''] (bf_path f)) (bundle_files demo_image))"
proof -
  obtain b where b: "parse_bundle no_nfc True b = Inr demo_image" by (rule demo_parse)
  with accepted_files_resolve_apart [OF b, of "[''x'']"] show ?thesis by blast
qed


text \<open>The drift check passes exactly on the bundle the directory builds: the second validation it
  makes never refuses that bundle, and any other bytes are refused.\<close>

theorem drift_check_is_exact:
  assumes "load_image_directory nfc elig image_root = Inr img"
  shows "check_bundle nfc elig image_root b = None \<longleftrightarrow> build_bundle nfc elig image_root = Inr b"
proof -
  have ok: "bundle_ok nfc elig img" using assms by (rule loaded_bundle_ok)
  then have "encode_bundle img = Inr (bundle_layout img)"
    by (intro encode_layout [of img nfc]) (auto simp: bundle_ok_def files_ok_iff)
  moreover have "parse_bundle nfc elig (bundle_layout img) = Inr img" using ok by (simp add: parse_bundle_iff)
  ultimately show ?thesis using assms
    by (auto simp: check_bundle_def build_bundle_def check_of_eq_None checked_eq_Inr)
qed

theorem drift_check_is_exact_witness:
  "\<exists>b. check_bundle no_nfc True demo_root b = None"
  using drift_check_is_exact [OF demo_loads [of True]] built_bundle_exists [OF demo_loads [of True]] by blast

section \<open>Atomic writes\<close>

text \<open>Whatever step of the atomic write fails, the target holds either its old content or exactly the
  new bytes, the latter precisely when no step failed; no other file changes and no temporary file stays.\<close>

theorem atomic_write_all_or_nothing:
  assumes "fs temporary = None" and "temporary \<noteq> path"
    and "write_atomic fault temporary part path value fs = (result, fs')"
  shows "(result = None \<longleftrightarrow> fault = None) \<and> fs' = (if fault = None then fs(path \<mapsto> value) else fs)"
proof -
  have keep: "(fs(temporary \<mapsto> x))(temporary := None) = fs" for x using assms(1) by (auto simp: fun_eq_iff)
  have swap: "(fs(temporary \<mapsto> value))(temporary := None, path \<mapsto> value) = fs(path \<mapsto> value)"
    using assms(1) by (auto simp: fun_eq_iff)
  show ?thesis using assms(3) unfolding write_atomic_def Let_def keep swap
    by (auto split: option.splits write_step.splits)
qed

theorem atomic_write_all_or_nothing_witness:
  "write_atomic (Some Replace) ''t'' [] ''p'' ''new'' [''p'' \<mapsto> ''old''] = (Some (OSErr ''write''), [''p'' \<mapsto> ''old''])"
proof -
  obtain r fs' where eq: "write_atomic (Some Replace) ''t'' [] ''p'' ''new'' [''p'' \<mapsto> ''old''] = (r, fs')"
    by fastforce
  then have "r = Some (OSErr ''write'')" by (auto simp: write_atomic_def)
  with atomic_write_all_or_nothing [OF _ _ eq] eq show ?thesis by simp
qed

end
