(* ===== verification/Py_Digest.thy ===== *)
theory Py_Digest
  imports Py_Json
begin

text \<open>
  The other digests of \<^verbatim>\<open>hashlib\<close> the promotion code computes, SHA-1 and SHA-512, with the shape of
  what they return, and the decoding \<^verbatim>\<open>json.loads\<close> applies to a byte string: the encoding is
  detected from a byte order mark or from the position of null bytes, and lone surrogates pass.
\<close>

section \<open>SHA-1\<close>

fun sha1_schedule :: "nat \<Rightarrow> w32 list \<Rightarrow> w32 list" where
  "sha1_schedule 0 ws = ws"
| "sha1_schedule (Suc n) ws =
     sha1_schedule n (word_rotl 1 (ws ! 2 XOR ws ! 7 XOR ws ! 13 XOR ws ! 15) # ws)"

definition sha1_mix :: "nat \<Rightarrow> w32 \<Rightarrow> w32 \<Rightarrow> w32 \<Rightarrow> w32" where
  "sha1_mix t b c d =
     (if t < 20 then (b AND c) OR (NOT b AND d) else if t < 40 then b XOR c XOR d
      else if t < 60 then (b AND c) OR (b AND d) OR (c AND d) else b XOR c XOR d)"

definition sha1_const :: "nat \<Rightarrow> w32" where
  "sha1_const t = (if t < 20 then 1518500249 else if t < 40 then 1859775393
                   else if t < 60 then 2400959708 else 3395469782)"

fun sha1_step :: "w32 list \<Rightarrow> nat \<times> w32 \<Rightarrow> w32 list" where
  "sha1_step [a, b, c, d, e] (t, w) =
     [word_rotl 5 a + sha1_mix t b c d + e + sha1_const t + w, a, word_rotl 30 b, c, d]"
| "sha1_step st _ = st"

definition sha1_block :: "w32 list \<Rightarrow> string \<Rightarrow> w32 list" where
  "sha1_block h b =
     map2 (+) h (foldl sha1_step h (zip [0..<80] (rev (sha1_schedule 64 (rev (sha_words b))))))"

definition sha1 :: "string \<Rightarrow> string" where
  "sha1 m = (let p = sha_pad m in
     concat (map (\<lambda>w. be_bytes 4 (unat w))
       (foldl sha1_block [1732584193, 4023233417, 2562383102, 271733878, 3285377520]
          (chunks (length p div 64) 64 p))))"

definition sha1_hex :: "string \<Rightarrow> string" where
  "sha1_hex m = hex_of (sha1 m)"

lemma length_sha1_step: "length st = 5 \<Longrightarrow> length (sha1_step st kw) = 5"
proof -
  assume "length st = 5"
  then obtain a b c d e where "st = [a, b, c, d, e]" by (auto simp: length_Suc_conv eval_nat_numeral)
  then show ?thesis by (cases kw) simp
qed

lemma length_foldl_sha1_step: "length st = 5 \<Longrightarrow> length (foldl sha1_step st kws) = 5"
  by (induction kws arbitrary: st) (auto simp: length_sha1_step)

lemma length_foldl_sha1_block: "length h = 5 \<Longrightarrow> length (foldl sha1_block h bs) = 5"
  by (induction bs arbitrary: h) (auto simp: sha1_block_def length_foldl_sha1_step)

lemma length_sha1: "length (sha1 m) = 20"
  by (simp add: sha1_def Let_def length_concat comp_def sum_list_triv length_foldl_sha1_block)

lemma hex_string_sha1 [simp]: "hex_string 40 (sha1_hex m)"
  by (simp add: hex_string_def sha1_hex_def length_hex_of length_sha1 list_all_hex_of)

section \<open>SHA-512\<close>

type_synonym w64 = "64 word"

definition sha512_k :: "w64 list" where
  "sha512_k = [
    4794697086780616226, 8158064640168781261, 13096744586834688815, 16840607885511220156,
    4131703408338449720, 6480981068601479193, 10538285296894168987, 12329834152419229976,
    15566598209576043074, 1334009975649890238, 2608012711638119052, 6128411473006802146,
    8268148722764581231, 9286055187155687089, 11230858885718282805, 13951009754708518548,
    16472876342353939154, 17275323862435702243, 1135362057144423861, 2597628984639134821,
    3308224258029322869, 5365058923640841347, 6679025012923562964, 8573033837759648693,
    10970295158949994411, 12119686244451234320, 12683024718118986047, 13788192230050041572,
    14330467153632333762, 15395433587784984357, 489312712824947311, 1452737877330783856,
    2861767655752347644, 3322285676063803686, 5560940570517711597, 5996557281743188959,
    7280758554555802590, 8532644243296465576, 9350256976987008742, 10552545826968843579,
    11727347734174303076, 12113106623233404929, 14000437183269869457, 14369950271660146224,
    15101387698204529176, 15463397548674623760, 17586052441742319658, 1182934255886127544,
    1847814050463011016, 2177327727835720531, 2830643537854262169, 3796741975233480872,
    4115178125766777443, 5681478168544905931, 6601373596472566643, 7507060721942968483,
    8399075790359081724, 8693463985226723168, 9568029438360202098, 10144078919501101548,
    10430055236837252648, 11840083180663258601, 13761210420658862357, 14299343276471374635,
    14566680578165727644, 15097957966210449927, 16922976911328602910, 17689382322260857208,
    500013540394364858, 748580250866718886, 1242879168328830382, 1977374033974150939,
    2944078676154940804, 3659926193048069267, 4368137639120453308, 4836135668995329356,
    5532061633213252278, 6448918945643986474, 6902733635092675308, 7801388544844847127]"

definition sha512_init :: "w64 list" where
  "sha512_init = [
    7640891576956012808, 13503953896175478587, 4354685564936845355, 11912009170470909681,
    5840696475078001361, 11170449401992604703, 2270897969802886507, 6620516959819538809]"

fun sha512_words :: "nat \<Rightarrow> string \<Rightarrow> w64 list" where
  "sha512_words 0 s = []"
| "sha512_words (Suc n) s = word_of_nat (be_value (take 8 s)) # sha512_words n (drop 8 s)"

fun sha512_schedule :: "nat \<Rightarrow> w64 list \<Rightarrow> w64 list" where
  "sha512_schedule 0 ws = ws"
| "sha512_schedule (Suc n) ws =
     (let x = ws ! 14; y = ws ! 1;
          s0 = word_rotr 1 x XOR word_rotr 8 x XOR drop_bit 7 x;
          s1 = word_rotr 19 y XOR word_rotr 61 y XOR drop_bit 6 y
      in sha512_schedule n ((s1 + ws ! 6 + s0 + ws ! 15) # ws))"

fun sha512_step :: "w64 list \<Rightarrow> w64 \<times> w64 \<Rightarrow> w64 list" where
  "sha512_step [a, b, c, d, e, f, g, h] (k, w) =
     (let t1 = h + (word_rotr 14 e XOR word_rotr 18 e XOR word_rotr 41 e) +
               ((e AND f) XOR (NOT e AND g)) + k + w;
          t2 = (word_rotr 28 a XOR word_rotr 34 a XOR word_rotr 39 a) +
               ((a AND b) XOR (a AND c) XOR (b AND c))
      in [t1 + t2, a, b, c, d + t1, e, f, g])"
| "sha512_step st _ = st"

definition sha512_block :: "w64 list \<Rightarrow> string \<Rightarrow> w64 list" where
  "sha512_block h b =
     map2 (+) h (foldl sha512_step h (zip sha512_k (rev (sha512_schedule 64 (rev (sha512_words 16 b))))))"

definition sha512_pad :: "string \<Rightarrow> string" where
  "sha512_pad m =
     m @ CHR 0x80 # replicate ((239 - length m mod 128) mod 128) (CHR 0x00) @
     be_bytes 16 (8 * length m mod 2 ^ 128)"

definition sha512 :: "string \<Rightarrow> string" where
  "sha512 m = (let p = sha512_pad m in
     concat (map (\<lambda>w. be_bytes 8 (unat w))
       (foldl sha512_block sha512_init (chunks (length p div 128) 128 p))))"

lemma length_sha512_step: "length st = 8 \<Longrightarrow> length (sha512_step st kw) = 8"
proof -
  assume "length st = 8"
  then obtain a b c d e f g h where "st = [a, b, c, d, e, f, g, h]"
    by (auto simp: length_Suc_conv eval_nat_numeral)
  then show ?thesis by (cases kw) (simp add: Let_def)
qed

lemma length_foldl_sha512_step: "length st = 8 \<Longrightarrow> length (foldl sha512_step st kws) = 8"
  by (induction kws arbitrary: st) (auto simp: length_sha512_step)

lemma length_foldl_sha512_block: "length h = 8 \<Longrightarrow> length (foldl sha512_block h bs) = 8"
  by (induction bs arbitrary: h) (auto simp: sha512_block_def length_foldl_sha512_step)

lemma length_sha512: "length (sha512 m) = 64"
proof -
  have "length (foldl sha512_block sha512_init bs) = 8" for bs
    by (rule length_foldl_sha512_block) (simp add: sha512_init_def)
  then show ?thesis by (simp add: sha512_def Let_def length_concat comp_def sum_list_triv)
qed

section \<open>The alphabet of base64\<close>

definition is_b64 :: "char \<Rightarrow> bool" where
  "is_b64 c \<longleftrightarrow> is_alnum c \<or> c = CHR ''+'' \<or> c = CHR ''/''"

lemma b64_symbols: "char_of (43 :: nat) = CHR ''+''" "char_of (47 :: nat) = CHR ''/''"
  by code_simp+

lemma is_b64_char: "n < 64 \<Longrightarrow> is_b64 (b64_char n)"
proof -
  assume "n < 64"
  then consider "n < 26" | "26 \<le> n" "n < 52" | "52 \<le> n" "n < 62" | "n = 62" | "n = 63" by linarith
  then show ?thesis
    by cases (auto simp: is_b64_def b64_char_def is_alnum_def is_digit_def is_upper_def is_lower_def in_range_def b64_symbols)
qed

lemma b64_shape:
  "s \<noteq> [] \<Longrightarrow> \<exists>body tail. b64encode s = body @ tail \<and> body \<noteq> [] \<and> list_all is_b64 body \<and>
     tail \<in> {[], ''='', ''==''}"
proof (induction s rule: b64encode.induct)
  case (2 a)
  have "byte a div 4 < 64" "byte a mod 4 * 16 < 64" using byte_lt [of a] by (simp_all add: less_mult_imp_div_less)
  then have "b64encode [a] = [b64_char (byte a div 4), b64_char (byte a mod 4 * 16)] @ ''=='' \<and>
      list_all is_b64 [b64_char (byte a div 4), b64_char (byte a mod 4 * 16)]" by (simp add: is_b64_char)
  then show ?case by blast
next
  case (3 a b)
  let ?body = "[b64_char (byte a div 4), b64_char (byte a mod 4 * 16 + byte b div 16), b64_char (byte b mod 16 * 4)]"
  have "byte a div 4 < 64" "byte b div 16 < 16" "byte a mod 4 < 4" "byte b mod 16 * 4 < 64"
    using byte_lt [of a] byte_lt [of b] by (simp_all add: less_mult_imp_div_less)
  then have "b64encode [a, b] = ?body @ ''='' \<and> list_all is_b64 ?body" by (simp add: is_b64_char)
  then show ?case by blast
next
  case (4 a b c s)
  let ?q = "[b64_char (byte a div 4), b64_char (byte a mod 4 * 16 + byte b div 16),
     b64_char (byte b mod 16 * 4 + byte c div 64), b64_char (byte c mod 64)]"
  have "byte a div 4 < 64" "byte b div 16 < 16" "byte a mod 4 < 4" "byte b mod 16 < 16" "byte c div 64 < 4"
    using byte_lt [of a] byte_lt [of b] byte_lt [of c] by (simp_all add: less_mult_imp_div_less)
  then have q: "list_all is_b64 ?q" by (simp add: is_b64_char)
  show ?case
  proof (cases "s = []")
    case True
    with q have "b64encode (a # b # c # s) = ?q @ [] \<and> list_all is_b64 ?q" by simp
    then show ?thesis by blast
  next
    case False
    with 4 obtain body tail where "b64encode s = body @ tail" "list_all is_b64 body"
      "tail \<in> {[], ''='', ''==''}" by blast
    with q have "b64encode (a # b # c # s) = (?q @ body) @ tail \<and> list_all is_b64 (?q @ body)" by simp
    with \<open>tail \<in> _\<close> show ?thesis by blast
  qed
qed simp

section \<open>The text of a byte string read as JSON\<close>

fun utf8_pass :: "string \<Rightarrow> bool" where
  "utf8_pass [] = True"
| "utf8_pass (a # s) =
     (if byte a < 128 then utf8_pass s
      else if in_range a 194 223 then
        (case s of b # t \<Rightarrow> is_cont b \<and> utf8_pass t | _ \<Rightarrow> False)
      else if in_range a 224 239 then
        (case s of b # c # t \<Rightarrow>
           (if byte a = 224 then in_range b 160 191 else is_cont b) \<and> is_cont c \<and> utf8_pass t | _ \<Rightarrow> False)
      else if in_range a 240 244 then
        (case s of b # c # d # t \<Rightarrow>
           (if byte a = 240 then in_range b 144 191
            else if byte a = 244 then in_range b 128 143 else is_cont b) \<and>
           is_cont c \<and> is_cont d \<and> utf8_pass t | _ \<Rightarrow> False)
      else False)"

text \<open>The bytes of a character of \<open>n\<close> as UTF-8, with lone surrogates in their three-byte form.\<close>

definition utf8_char :: "nat \<Rightarrow> string" where
  "utf8_char n =
     (if n < 128 then [char_of n]
      else if n < 2048 then [char_of (192 + n div 64), char_of (128 + n mod 64)]
      else if n < 65536 then
        [char_of (224 + n div 4096), char_of (128 + n div 64 mod 64), char_of (128 + n mod 64)]
      else [char_of (240 + n div 262144), char_of (128 + n div 4096 mod 64),
            char_of (128 + n div 64 mod 64), char_of (128 + n mod 64)])"

text \<open>UTF-16 in code units and UTF-32; \<open>big\<close> is the byte order.\<close>

fun utf16_units :: "bool \<Rightarrow> string \<Rightarrow> nat list option" where
  "utf16_units big [] = Some []"
| "utf16_units big [a] = None"
| "utf16_units big (a # b # s) =
     (case utf16_units big s of None \<Rightarrow> None
      | Some us \<Rightarrow> Some ((if big then 256 * byte a + byte b else 256 * byte b + byte a) # us))"

fun utf16_text :: "nat list \<Rightarrow> string" where
  "utf16_text [] = []"
| "utf16_text [u] = utf8_char u"
| "utf16_text (u # v # us) =
     (if 55296 \<le> u \<and> u \<le> 56319 \<and> 56320 \<le> v \<and> v \<le> 57343
      then utf8_char (65536 + (u - 55296) * 1024 + (v - 56320)) @ utf16_text us
      else utf8_char u @ utf16_text (v # us))"

fun utf32_text :: "bool \<Rightarrow> string \<Rightarrow> string option" where
  "utf32_text big [] = Some []"
| "utf32_text big (a # b # c # d # s) =
     (let n = be_value (if big then [a, b, c, d] else [d, c, b, a]) in
      if 1114112 \<le> n then None
      else (case utf32_text big s of None \<Rightarrow> None | Some t \<Rightarrow> Some (utf8_char n @ t)))"
| "utf32_text big _ = None"

definition utf16_decode :: "bool \<Rightarrow> string \<Rightarrow> string option" where
  "utf16_decode big s = map_option utf16_text (utf16_units big s)"

definition utf8_pass_decode :: "string \<Rightarrow> string option" where
  "utf8_pass_decode s = (if utf8_pass s then Some s else None)"

text \<open>
  \<open>json.loads\<close> of bytes decodes them first; \<open>None\<close> is the \<open>UnicodeDecodeError\<close>. The order of the
  tests is that of \<open>json.detect_encoding\<close>.
\<close>

definition json_text :: "string \<Rightarrow> string option" where
  "json_text s =
    (let b = (\<lambda>i. byte (s ! i)); from = (\<lambda>bs. take (length bs) (map byte s) = bs) in
     if from [0, 0, 254, 255] then utf32_text True (drop 4 s)
     else if from [255, 254, 0, 0] then utf32_text False (drop 4 s)
     else if from [254, 255] then utf16_decode True (drop 2 s)
     else if from [255, 254] then utf16_decode False (drop 2 s)
     else if from [239, 187, 191] then utf8_pass_decode (drop 3 s)
     else if 4 \<le> length s \<and> b 0 = 0 then
       (if b 1 \<noteq> 0 then utf16_decode True s else utf32_text True s)
     else if 4 \<le> length s \<and> b 1 = 0 then
       (if b 2 \<noteq> 0 \<or> b 3 \<noteq> 0 then utf16_decode False s else utf32_text False s)
     else if length s = 2 \<and> b 0 = 0 then utf16_decode True s
     else if length s = 2 \<and> b 1 = 0 then utf16_decode False s
     else utf8_pass_decode s)"

definition json_loads_bytes :: "json_hooks \<Rightarrow> string \<Rightarrow> pyval res" where
  "json_loads_bytes h s = (case json_text s of None \<Rightarrow> Inl UnicodeErr | Some t \<Rightarrow> json_loads h t)"

lemma utf8_pass_ascii: "\<forall>c \<in> set s. byte c < 128 \<Longrightarrow> utf8_pass s"
  by (induction s) auto

lemma json_text_ascii:
  assumes "\<forall>c \<in> set s. 0 < byte c \<and> byte c < 128"
  shows "json_text s = Some s"
proof -
  have nz: "4 \<le> length s \<or> length s = 2 \<Longrightarrow> byte (s ! 0) \<noteq> 0 \<and> byte (s ! 1) \<noteq> 0"
  proof -
    assume "4 \<le> length s \<or> length s = 2"
    then have "s ! 0 \<in> set s" "s ! 1 \<in> set s" by (auto intro!: nth_mem)
    with assms show ?thesis by force
  qed
  have no: "take (length bs) (map byte s) \<noteq> bs" if "bs \<noteq> []" "hd bs = 0 \<or> 128 \<le> hd bs" for bs
    using that assms by (cases s; cases bs) auto
  have "utf8_pass s" using assms utf8_pass_ascii [of s] by auto
  then show ?thesis
    using no [of "[0, 0, 254, 255]"] no [of "[255, 254, 0, 0]"] no [of "[254, 255]"] no [of "[255, 254]"]
      no [of "[239, 187, 191]"] nz
    by (cases "4 \<le> length s \<or> length s = 2") (simp_all add: json_text_def utf8_pass_decode_def Let_def)
qed

end
