(* ===== verification/Promotion_Base.thy ===== *)
theory Promotion_Base
  imports Image_Files Py_Digest "HOL-Library.List_Lexorder" "HOL-Library.Char_ord"
begin

text \<open>
  The ground of the release promotion, \<^verbatim>\<open>cli/ci/promote_alpha_release.py\<close>: its constants and
  patterns, the frozen data classes, the closed readers for JSON and for files, the closed asset
  inventory of a version and the canonical encoding of its records.
\<close>

section \<open>Constants\<close>

definition SCHEMA :: string where "SCHEMA = ''openprose.alpha-promotion-settlement/1''"
definition ATTESTATION_EVIDENCE_SCHEMA :: string where
  "ATTESTATION_EVIDENCE_SCHEMA = ''openprose.alpha-promotion-attestation-evidence/1''"
definition DRAFT_AUTHORITY_FILENAME :: string where
  "DRAFT_AUTHORITY_FILENAME = ''alpha-draft-authority.json''"
definition DRAFT_AUTHORITY_ARTIFACT_PREFIX :: string where
  "DRAFT_AUTHORITY_ARTIFACT_PREFIX = ''openprose-cli-alpha-draft-authority''"
definition ATTESTATION_EVIDENCE_FILENAME :: string where
  "ATTESTATION_EVIDENCE_FILENAME = ''github-attestation-evidence.json''"
definition REGISTRY :: string where "REGISTRY = ''https://registry.npmjs.org''"
definition ALPHA_TAG :: string where "ALPHA_TAG = ''alpha''"
definition OPERATIONS :: "string list" where
  "OPERATIONS = [''bootstrap'', ''stage-platforms'', ''stage-meta'', ''settle-and-promote'']"
definition PROVENANCE_PREDICATE :: string where
  "PROVENANCE_PREDICATE = ''https://slsa.dev/provenance/v1''"
definition MAX_JSON_BYTES :: nat where "MAX_JSON_BYTES = 16 * 1024 * 1024"
definition MAX_PACKAGE_BYTES :: nat where "MAX_PACKAGE_BYTES = 512 * 1024 * 1024"
definition MAX_ATTESTATION_EVIDENCE_BYTES :: nat where "MAX_ATTESTATION_EVIDENCE_BYTES = 1024 * 1024"
definition MAX_DRAFT_AUTHORITY_BYTES :: nat where "MAX_DRAFT_AUTHORITY_BYTES = 1024 * 1024"
definition MAX_GH_BYTES :: int where "MAX_GH_BYTES = 256 * 1024 * 1024"
definition SIGNER_WORKFLOW_PATH :: string where
  "SIGNER_WORKFLOW_PATH = ''.github/workflows/openprose-cli-alpha-release.yml''"
definition GH_TOOL_AUTHORITY :: string where
  "GH_TOOL_AUTHORITY = ''externally-provisioned-github-cli''"
definition NPM_VERSION :: string where "NPM_VERSION = ''11.15.0''"
definition NODE_VERSION :: string where "NODE_VERSION = ''24.20.0''"
definition NPM_TARBALL_URL :: string where
  "NPM_TARBALL_URL = ''https://registry.npmjs.org/npm/-/npm-11.15.0.tgz''"

definition PLATFORMS :: "string list" where
  "PLATFORMS = [''darwin-arm64'', ''darwin-x64'', ''linux-arm64-gnu'', ''linux-x64-gnu'']"
definition PLATFORM_PACKAGES :: "string list" where
  "PLATFORM_PACKAGES = map (\<lambda>v. ''@openprose/prose-cli-'' @ v) PLATFORMS"
definition META_PACKAGE :: string where "META_PACKAGE = ''@openprose/prose-cli''"
definition PACKAGE_ORDER :: "string list" where "PACKAGE_ORDER = PLATFORM_PACKAGES @ [META_PACKAGE]"
definition TARGETS :: "string list" where
  "TARGETS = [''linux-x64'', ''linux-arm64'', ''darwin-arm'', ''darwin-x64'']"
definition EVIDENCE_SUFFIXES :: "string list" where
  "EVIDENCE_SUFFIXES = [''release-manifest.json'', ''sbom.cdx.json'', ''provenance.json'',
     ''dependency-evidence.json'', ''SHA256SUMS'', ''alpha-admission.json'']"

text \<open>From \<^verbatim>\<open>create_draft_release.py\<close>.\<close>

definition ALPHA_DRAFT_AUTHORITY_SCHEMA :: string where
  "ALPHA_DRAFT_AUTHORITY_SCHEMA = ''openprose.alpha-draft-authority/1''"
definition ALPHA_DRAFT_WORKFLOW :: string where
  "ALPHA_DRAFT_WORKFLOW = ''.github/workflows/openprose-cli-alpha-release.yml''"
definition MAX_ALPHA_ASSET_BYTES :: int where "MAX_ALPHA_ASSET_BYTES = 512 * 1024 * 1024"
definition MAX_ALPHA_CHECKSUM_BYTES :: nat where "MAX_ALPHA_CHECKSUM_BYTES = 64 * 1024"
definition MAX_RELEASE_NOTES_BYTES :: int where "MAX_RELEASE_NOTES_BYTES = 1024 * 1024"

section \<open>Patterns\<close>

text \<open>\<open>0|[1-9][0-9]*\<close>\<close>

definition numeric_part :: "string \<Rightarrow> bool" where
  "numeric_part s \<longleftrightarrow> s \<noteq> [] \<and> list_all is_digit s \<and> (hd s = CHR ''0'' \<longrightarrow> length s = 1)"

text \<open>\<open>[1-9][0-9]*\<close>\<close>

definition positive_digits :: "string \<Rightarrow> bool" where
  "positive_digits s \<longleftrightarrow> s \<noteq> [] \<and> list_all is_digit s \<and> hd s \<noteq> CHR ''0''"

text \<open>The groups of \<open>ALPHA\<close>, when it matches.\<close>

definition ALPHA_groups :: "string \<Rightarrow> string list option" where
  "ALPHA_groups s = (case split_on (CHR ''.'') s of
     [a, b, c, d] \<Rightarrow>
       (let k = length c - 6; p = take k c in
        if 6 < length c \<and> drop k c = ''-alpha'' \<and> list_all numeric_part [a, b, p, d]
        then Some [a, b, p, d] else None)
   | _ \<Rightarrow> None)"

definition ALPHA :: "string \<Rightarrow> bool" where
  "ALPHA s \<longleftrightarrow> ALPHA_groups s \<noteq> None"

definition stable_version :: "string \<Rightarrow> bool" where
  "stable_version s \<longleftrightarrow>
     length (split_on (CHR ''.'') s) = 3 \<and> list_all numeric_part (split_on (CHR ''.'') s)"

definition FULL_SHA :: "string \<Rightarrow> bool" where "FULL_SHA s \<longleftrightarrow> hex_string 40 s"
definition SHA256 :: "string \<Rightarrow> bool" where "SHA256 s \<longleftrightarrow> hex_string 64 s"
definition SHA1 :: "string \<Rightarrow> bool" where "SHA1 s \<longleftrightarrow> hex_string 40 s"

definition repository_char :: "char \<Rightarrow> bool" where
  "repository_char c \<longleftrightarrow> is_alnum c \<or> c \<in> set ''_.-''"

definition REPOSITORY :: "string \<Rightarrow> bool" where
  "REPOSITORY s \<longleftrightarrow> length (split_on (CHR ''/'') s) = 2 \<and>
     list_all (\<lambda>p. p \<noteq> [] \<and> list_all repository_char p) (split_on (CHR ''/'') s)"

definition SAFE_ARTIFACT :: "string \<Rightarrow> bool" where
  "SAFE_ARTIFACT s \<longleftrightarrow> s \<noteq> [] \<and> length s \<le> 255 \<and> is_alnum (hd s) \<and>
     list_all (\<lambda>c. is_alnum c \<or> c \<in> set ''._+-'') s"

definition INTEGRITY :: "string \<Rightarrow> bool" where
  "INTEGRITY s \<longleftrightarrow> take 7 s = ''sha512-'' \<and> takeWhile is_b64 (drop 7 s) \<noteq> [] \<and>
     dropWhile is_b64 (drop 7 s) \<in> set [[], ''='', ''=='']"

section \<open>Data classes\<close>

record NpmArchiveAuthority =
  url :: string
  byte_length :: int
  na_sha1 :: string
  na_sha256 :: string
  na_sha512 :: string
  na_integrity :: string
  tree_sha256 :: string
  entry_sha256 :: string

definition PINNED_NPM_AUTHORITY :: NpmArchiveAuthority where
  "PINNED_NPM_AUTHORITY = \<lparr>
     url = NPM_TARBALL_URL,
     byte_length = 2901197,
     na_sha1 = ''d1a5bc920f2068774ae4d802916379fad266ba0d'',
     na_sha256 = ''c15ed81d98f5f4c45e30f71e5dcf83ae24e9af5beb5db8b1d58becea97ba38cc'',
     na_sha512 = ''fa4d2d93b9519e93143e70bb913b94ff2ad5fe69c5a0f84943be557cbb59e9fc'' @
                 ''1bcce55768fb1313f225f4f9f50c78b8f366f2332aa41effd7b10efa98d8d72f'',
     na_integrity = ''sha512-+k0tk7lRnpMUPnC7kTuU/yrV/mnFoPhJQ75VfLtZ6fwbzOVXaPsTE/'' @
                    ''Il9Pn1DHi482byMyqkHv/XsQ76mNjXLw=='',
     tree_sha256 = ''a625dc0d20bcb3c26ed2e607376b0b723dea713881e3d63a31e871526103e9f6'',
     entry_sha256 = ''8e5f6f3429f8cdbe693cdc29904e9d5a7b127a494bd15c804bd54c7403bfcbe7''\<rparr>"

record PackageArtifact =
  pa_name :: string
  pa_role :: string
  pa_artifact :: string
  pa_body :: string
  pa_sha256 :: string
  pa_shasum :: string
  pa_integrity :: string

record ReleaseAsset =
  ra_name :: string
  ra_byte_length :: int
  ra_sha256 :: string

record Candidate =
  c_repository :: string
  c_release_id :: int
  c_version :: string
  c_source_sha :: string
  c_tag :: string
  c_assembly_sha256 :: string
  c_assets :: "ReleaseAsset list"
  c_packages :: "PackageArtifact list"

record DraftAuthority =
  d_repository :: string
  d_release_id :: int
  d_version :: string
  d_source_sha :: string
  d_control_sha :: string
  d_tag :: string
  d_body_byte_length :: int
  d_body_sha256 :: string
  d_assets :: "ReleaseAsset list"
  d_asset_inventory_sha256 :: string
  d_workflow_run_id :: int
  d_workflow_run_attempt :: int
  d_outcome :: string
  d_sha256 :: string

record RegistryVersion =
  rv_name :: string
  rv_version :: string
  rv_shasum :: string
  rv_integrity :: string
  rv_tarball_url :: string
  rv_optional_dependencies :: "(string \<times> string) list option"
  rv_provenance :: "string option"

record RegistryPackage =
  rp_name :: string
  rp_owners :: "string list"
  rp_tags :: "(string \<times> string) list"
  rp_versions :: "(string \<times> RegistryVersion) list"

record Lineage =
  ln_latest :: string
  ln_owners :: "string list"

record AttestationResult =
  ar_repository :: string
  ar_source_sha :: string
  ar_source_ref :: string
  ar_predicate_type :: string
  ar_signer_workflow :: string
  ar_signer_digest :: string
  ar_subject_name :: string
  ar_subject_sha256 :: string

section \<open>Closed readers\<close>

fun is_promotion :: "exn \<Rightarrow> bool" where
  "is_promotion (PromotionError m) = True" | "is_promotion _ = False"

abbreviation draft_error :: "string \<Rightarrow> exn" where
  "draft_error m \<equiv> OtherExn (''DraftReleaseError: '' @ m)"

definition reject_duplicates :: "string \<Rightarrow> pydict \<Rightarrow> pyval res" where
  "reject_duplicates label pairs =
     (if distinct (map fst pairs) then Inr (PDict pairs)
      else Inl (PromotionError (label @ '' contains a duplicate field'')))"

definition closed_hooks :: "string \<Rightarrow> json_hooks" where
  "closed_hooks label = \<lparr>pairs_hook = reject_duplicates label, constant_hook = constant_hook default_hooks\<rparr>"

definition closed_json :: "string \<Rightarrow> string \<Rightarrow> nat \<Rightarrow> pyval res" where
  "closed_json encoded label maximum =
     checked (guard (encoded \<noteq> [] \<and> length encoded \<le> maximum)
                (PromotionError (label @ '' is empty or exceeds its byte limit'')))
     (case json_loads_bytes (closed_hooks label) encoded of
        Inr v \<Rightarrow> Inr v
      | Inl e \<Rightarrow> Inl (if is_promotion e then e else PromotionError (label @ '' is not valid JSON'')))"

definition exact_object :: "pyval \<Rightarrow> string list \<Rightarrow> string \<Rightarrow> pydict res" where
  "exact_object v ks label =
     (if is_dict v \<and> keys_are (dict_of v) ks then Inr (dict_of v)
      else Inl (PromotionError (label @ '' has unknown or missing fields'')))"

definition is_match :: "(string \<Rightarrow> bool) \<Rightarrow> pyval \<Rightarrow> bool" where
  "is_match pat v \<longleftrightarrow> is_str v \<and> pat (str_of v)"

definition int_between :: "int \<Rightarrow> int \<Rightarrow> pyval \<Rightarrow> bool" where
  "int_between lo hi v \<longleftrightarrow> is_int v \<and> lo \<le> int_of v \<and> int_of v \<le> hi"

definition positive_int :: "pyval \<Rightarrow> bool" where
  "positive_int v \<longleftrightarrow> is_int v \<and> 0 < int_of v"

definition ATTESTATION_TOOL_FIELDS :: "string list" where
  "ATTESTATION_TOOL_FIELDS = [''authority'', ''version'', ''executableByteLength'', ''executableSha256'']"

definition validate_attestation_tool :: "pyval \<Rightarrow> pydict res" where
  "validate_attestation_tool v =
     ebind (exact_object v ATTESTATION_TOOL_FIELDS ''GitHub attestation tool identity'') (\<lambda>tool.
     checked (guard
       (dget tool ''authority'' = PStr GH_TOOL_AUTHORITY \<and>
        is_match stable_version (dget tool ''version'') \<and>
        int_between 1 MAX_GH_BYTES (dget tool ''executableByteLength'') \<and>
        is_match SHA256 (dget tool ''executableSha256''))
       (PromotionError ''GitHub attestation tool identity is malformed''))
     (Inr tool))"

text \<open>
  What the operating system reports during one read: \<open>lstat\<close>, \<open>open\<close> with its \<open>fstat\<close>, the
  results of the successive \<open>read\<close> calls (the end of the list is the end of the file), and the
  final \<open>fstat\<close>.
\<close>

record file_stat_ns = file_stat + st_mtime_ns :: int

record asset_trace =
  at_lstat :: "file_stat_ns res"
  at_open :: "file_stat_ns res"
  at_reads :: "string res list"
  at_after :: file_stat_ns

fun read_chunks :: "string \<Rightarrow> nat \<Rightarrow> string res list \<Rightarrow> string \<Rightarrow> string res" where
  "read_chunks label maximum [] got = Inr got"
| "read_chunks label maximum (r # rs) got =
     ebind r (\<lambda>bytes.
       (let chunk = take (min 65536 (maximum + 1 - length got)) bytes; got' = got @ chunk in
        if chunk = [] then Inr got
        else if maximum < length got' then Inl (PromotionError (label @ '' exceeds its byte limit''))
        else read_chunks label maximum rs got'))"

definition read_unchanged :: "string \<Rightarrow> nat \<Rightarrow> nat \<Rightarrow> asset_trace \<Rightarrow> string res" where
  "read_unchanged label least maximum tr =
     (case at_lstat tr of
        Inl e \<Rightarrow> Inl (PromotionError (label @ '' is unavailable''))
      | Inr before \<Rightarrow>
          checked (guard (st_kind before = Regular \<and> least \<le> st_size before \<and> st_size before \<le> maximum)
            (PromotionError (label @ '' is not a bounded regular file'')))
          (case at_open tr of
             Inl e \<Rightarrow> Inl (PromotionError (label @ '' cannot be opened safely''))
           | Inr opened \<Rightarrow>
               checked (guard (st_dev opened = st_dev before \<and> st_ino opened = st_ino before)
                 (PromotionError (label @ '' changed before open'')))
               (ebind (read_chunks label maximum (at_reads tr) []) (\<lambda>bytes.
                checked (guard
                  (st_dev opened = st_dev (at_after tr) \<and> st_ino opened = st_ino (at_after tr) \<and>
                   st_size opened = st_size (at_after tr) \<and>
                   st_mtime_ns opened = st_mtime_ns (at_after tr) \<and> length bytes = st_size opened)
                  (PromotionError (label @ '' changed while being read'')))
                (Inr bytes)))))"

definition regular_bytes :: "nat \<Rightarrow> asset_trace \<Rightarrow> string res" where
  "regular_bytes maximum tr = read_unchanged ''candidate asset'' 1 maximum tr"

definition tool_regular_bytes :: "nat \<Rightarrow> string \<Rightarrow> asset_trace \<Rightarrow> string res" where
  "tool_regular_bytes maximum label tr = read_unchanged label 0 maximum tr"

section \<open>The closed asset inventory\<close>

definition evidence_names :: "string list" where
  "evidence_names = concat (map (\<lambda>t. map (\<lambda>s. t @ ''-'' @ s) EVIDENCE_SUFFIXES) TARGETS)"

definition platform_artifacts :: "string \<Rightarrow> string \<Rightarrow> string list" where
  "platform_artifacts version platform =
     [''openprose-prose-cli-'' @ platform @ ''-'' @ version @ ''.tgz'',
      ''openprose-prose-cli-rust-'' @ version @ ''-'' @ platform @ ''.tar.gz'',
      ''openprose-prose-cli-bun-'' @ version @ ''-'' @ platform @ ''.tar.gz'']"

definition meta_artifact :: "string \<Rightarrow> string" where
  "meta_artifact version = ''openprose-prose-cli-'' @ version @ ''.tgz''"

definition expected_asset_names :: "string \<Rightarrow> string list res" where
  "expected_asset_names version =
     (if \<not> ALPHA version then Inl (PromotionError ''version must be exact numbered alpha SemVer'')
      else Inr (sort (remdups (''SHA256SUMS'' # evidence_names @
        meta_artifact version # concat (map (platform_artifacts version) PLATFORMS)))))"

section \<open>Canonical records\<close>

definition record_style :: json_style where
  "record_style = \<lparr>ensure_ascii = True, sort_keys = True, item_sep = '','', key_sep = '':''\<rparr>"

text \<open>\<open>json.dumps(v, sort_keys=True, separators=(",", ":"))\<close>; escaping leaves only ASCII.\<close>

definition canonical_json :: "pyval \<Rightarrow> string" where
  "canonical_json v = json_dumps record_style v"

definition encode_record :: "pydict \<Rightarrow> string" where
  "encode_record d = canonical_json (PDict d) @ [CHR 0x0A]"

definition encode_draft_authority :: "pydict \<Rightarrow> string" where
  "encode_draft_authority d = encode_record d"

definition encode_attestation_evidence :: "pydict \<Rightarrow> string" where
  "encode_attestation_evidence d = encode_record d"

end
