(* ===== verification/Promotion_Evidence.thy ===== *)
theory Promotion_Evidence
  imports Promotion_Base
begin

text \<open>
  The two records a promotion is handed: the draft authority
  (\<^verbatim>\<open>create_draft_release.validate_alpha_draft_authority\<close> and \<^verbatim>\<open>load_draft_authority\<close>) and the
  attestation evidence (\<^verbatim>\<open>validate_attestation_evidence\<close>, \<^verbatim>\<open>load_attestation_evidence\<close>), both of
  \<^verbatim>\<open>cli/ci/promote_alpha_release.py\<close>.
\<close>

section \<open>The draft authority\<close>

definition draft_authority_fields :: "string list" where
  "draft_authority_fields = [''schema'', ''repository'', ''version'', ''sourceSha'', ''controlSha'', ''tag'',
     ''releaseId'', ''draft'', ''prerelease'', ''publicationAuthorized'', ''releaseBody'', ''assetCount'',
     ''assets'', ''assetInventorySha256'', ''workflowRun'', ''outcome'']"

definition draft_identity_check :: "pydict \<Rightarrow> check" where
  "draft_identity_check d =
    (let bad = draft_error ''functional-alpha draft authority identity differs'' in
     first_failure [
       guard (dget d ''schema'' = PStr ALPHA_DRAFT_AUTHORITY_SCHEMA \<and>
          is_match REPOSITORY (dget d ''repository'') \<and> is_match ALPHA (dget d ''version'') \<and>
          dget d ''tag'' = PStr (''cli-v'' @ str_of (dget d ''version'')) \<and>
          is_match FULL_SHA (dget d ''sourceSha'') \<and> is_match FULL_SHA (dget d ''controlSha'') \<and>
          positive_int (dget d ''releaseId'') \<and>
          dget d ''draft'' = PBool True \<and> dget d ''prerelease'' = PBool True \<and>
          dget d ''publicationAuthorized'' = PBool False) bad,
       guard (hashable (dget d ''outcome'')) TypeErr,
       guard (str_in (dget d ''outcome'') [''created'', ''resumed''] \<and> eq_int (dget d ''assetCount'') 38) bad])"

definition draft_body_check :: "pyval \<Rightarrow> check" where
  "draft_body_check body =
     guard (is_dict body \<and> keys_are (dict_of body) [''byteLength'', ''sha256''] \<and>
        int_between 1 MAX_RELEASE_NOTES_BYTES (dget (dict_of body) ''byteLength'') \<and>
        is_match SHA256 (dget (dict_of body) ''sha256''))
       (draft_error ''functional-alpha release-body authority is malformed'')"

definition require_positive_integer :: "pyval \<Rightarrow> string \<Rightarrow> check" where
  "require_positive_integer v label = guard (positive_int v) (draft_error (label @ '' must be a positive integer''))"

definition draft_workflow_check :: "pyval \<Rightarrow> check" where
  "draft_workflow_check workflow = first_failure [
     guard (is_dict workflow \<and> keys_are (dict_of workflow) [''path'', ''id'', ''attempt''] \<and>
        dget (dict_of workflow) ''path'' = PStr ALPHA_DRAFT_WORKFLOW)
       (draft_error ''functional-alpha workflow authority is malformed''),
     require_positive_integer (dget (dict_of workflow) ''id'') ''workflow run ID'',
     require_positive_integer (dget (dict_of workflow) ''attempt'') ''workflow run attempt'']"

definition draft_asset_check :: "pyval \<Rightarrow> check" where
  "draft_asset_check asset =
     guard (is_dict asset \<and> keys_are (dict_of asset) [''name'', ''sha256'', ''byteLength''] \<and>
        is_match SAFE_ARTIFACT (dget (dict_of asset) ''name'') \<and>
        is_match SHA256 (dget (dict_of asset) ''sha256'') \<and>
        int_between 1 MAX_ALPHA_ASSET_BYTES (dget (dict_of asset) ''byteLength''))
       (draft_error ''functional-alpha asset authority is malformed'')"

definition field_names :: "pyval list \<Rightarrow> string list" where
  "field_names items = map (\<lambda>i. str_of (dget (dict_of i) ''name'')) items"

definition draft_assets_check :: "pyval \<Rightarrow> pyval \<Rightarrow> check" where
  "draft_assets_check assets inventory =
     first_failure
       (guard (is_list assets \<and> length (list_of assets) = 38)
          (draft_error ''functional-alpha asset authority is not closed'') #
        map draft_asset_check (list_of assets) @
        [guard (sorted (field_names (list_of assets)) \<and> distinct (field_names (list_of assets)))
           (draft_error ''functional-alpha asset authority is ambiguous''),
         guard (is_match SHA256 inventory \<and> inventory = PStr (sha256_hex (canonical_json assets)))
           (draft_error ''functional-alpha asset inventory digest differs'')])"

definition validate_alpha_draft_authority :: "pyval \<Rightarrow> check" where
  "validate_alpha_draft_authority v = first_failure [
     guard (is_dict v \<and> keys_are (dict_of v) draft_authority_fields)
       (draft_error ''functional-alpha draft authority shape is not closed''),
     draft_identity_check (dict_of v),
     draft_body_check (dget (dict_of v) ''releaseBody''),
     draft_workflow_check (dget (dict_of v) ''workflowRun''),
     draft_assets_check (dget (dict_of v) ''assets'') (dget (dict_of v) ''assetInventorySha256'')]"

definition release_asset :: "pyval \<Rightarrow> ReleaseAsset" where
  "release_asset item = \<lparr>ra_name = str_of (dget (dict_of item) ''name''),
     ra_byte_length = int_of (dget (dict_of item) ''byteLength''),
     ra_sha256 = str_of (dget (dict_of item) ''sha256'')\<rparr>"

definition draft_authority_of :: "pydict \<Rightarrow> string \<Rightarrow> DraftAuthority" where
  "draft_authority_of a digest =
    (let workflow = dict_of (dget a ''workflowRun''); body = dict_of (dget a ''releaseBody'') in
     \<lparr>d_repository = str_of (dget a ''repository''), d_release_id = int_of (dget a ''releaseId''),
      d_version = str_of (dget a ''version''), d_source_sha = str_of (dget a ''sourceSha''),
      d_control_sha = str_of (dget a ''controlSha''), d_tag = str_of (dget a ''tag''),
      d_body_byte_length = int_of (dget body ''byteLength''), d_body_sha256 = str_of (dget body ''sha256''),
      d_assets = map release_asset (list_of (dget a ''assets'')),
      d_asset_inventory_sha256 = str_of (dget a ''assetInventorySha256''),
      d_workflow_run_id = int_of (dget workflow ''id''),
      d_workflow_run_attempt = int_of (dget workflow ''attempt''),
      d_outcome = str_of (dget a ''outcome''), d_sha256 = digest\<rparr>)"

definition draft_handoff_matches :: "pydict \<Rightarrow> string \<Rightarrow> int \<Rightarrow> string \<Rightarrow> string \<Rightarrow> int \<Rightarrow> int \<Rightarrow> bool" where
  "draft_handoff_matches a repository release_id version source_sha run_id run_attempt \<longleftrightarrow>
     dget a ''repository'' = PStr repository \<and> dget a ''releaseId'' = PInt release_id \<and>
     dget a ''version'' = PStr version \<and> dget a ''sourceSha'' = PStr source_sha \<and>
     dget a ''controlSha'' = PStr source_sha \<and> dget a ''tag'' = PStr (''cli-v'' @ version) \<and>
     dget (dict_of (dget a ''workflowRun'')) ''id'' = PInt run_id \<and>
     dget (dict_of (dget a ''workflowRun'')) ''attempt'' = PInt run_attempt"

text \<open>
  \<open>load_draft_authority\<close> on the file name and what reading the file reports. The release id and the
  producer run are integers here: \<open>_validate_inputs\<close> has converted them.
\<close>

definition load_draft_authority ::
  "string \<Rightarrow> asset_trace \<Rightarrow> string \<Rightarrow> string \<Rightarrow> int \<Rightarrow> string \<Rightarrow> string \<Rightarrow> int \<Rightarrow> int \<Rightarrow> DraftAuthority res" where
  "load_draft_authority name tr expected_sha256 repository release_id version source_sha run_id run_attempt =
     checked (first_failure [
       guard (name = DRAFT_AUTHORITY_FILENAME)
         (PromotionError ''draft authority must use the canonical filename''),
       guard (SHA256 expected_sha256) (PromotionError ''draft authority digest is malformed''),
       guard (0 < run_id \<and> 0 < run_attempt)
         (PromotionError ''draft authority producer run identity is malformed'')])
     (ebind (tool_regular_bytes MAX_DRAFT_AUTHORITY_BYTES ''draft authority'' tr) (\<lambda>encoded.
      checked (guard (sha256_hex encoded = expected_sha256)
        (PromotionError ''draft authority digest does not match''))
      (ebind (closed_json encoded ''draft authority'' MAX_DRAFT_AUTHORITY_BYTES) (\<lambda>v.
       checked (case validate_alpha_draft_authority v of
           None \<Rightarrow> None
         | Some e \<Rightarrow> Some (if e = TypeErr then e else PromotionError ''draft authority is invalid''))
       (checked (first_failure [
          guard (encoded = encode_draft_authority (dict_of v))
            (PromotionError ''draft authority is not canonical''),
          guard (draft_handoff_matches (dict_of v) repository release_id version source_sha run_id run_attempt)
            (PromotionError ''draft authority identity does not match this promotion'')])
       (ebind (expected_asset_names version) (\<lambda>expected_names.
        checked (guard (map ra_name (d_assets (draft_authority_of (dict_of v) expected_sha256)) = expected_names)
          (PromotionError ''draft authority asset inventory is not closed''))
        (Inr (draft_authority_of (dict_of v) expected_sha256)))))))))"

definition require_draft_authority_candidate :: "DraftAuthority \<Rightarrow> Candidate \<Rightarrow> check" where
  "require_draft_authority_candidate a c =
     guard (c_repository c = d_repository a \<and> c_release_id c = d_release_id a \<and>
        c_version c = d_version a \<and> c_source_sha c = d_source_sha a \<and> c_tag c = d_tag a \<and>
        c_assets c = d_assets a)
       (PromotionError ''candidate differs from immutable draft authority inventory'')"

definition draft_artifact :: "int \<Rightarrow> int \<Rightarrow> string" where
  "draft_artifact run attempt =
     DRAFT_AUTHORITY_ARTIFACT_PREFIX @ ''-run-'' @ dec_int run @ ''-attempt-'' @ dec_int attempt"

definition draft_authority_identity :: "DraftAuthority \<Rightarrow> pydict" where
  "draft_authority_identity a =
     [(''sha256'', PStr (d_sha256 a)),
      (''artifact'', PStr (draft_artifact (d_workflow_run_id a) (d_workflow_run_attempt a))),
      (''controlSha'', PStr (d_control_sha a)),
      (''releaseBody'', PDict [(''byteLength'', PInt (d_body_byte_length a)), (''sha256'', PStr (d_body_sha256 a))]),
      (''assetInventorySha256'', PStr (d_asset_inventory_sha256 a)),
      (''workflowRun'', PDict [(''path'', PStr ALPHA_DRAFT_WORKFLOW), (''id'', PInt (d_workflow_run_id a)),
         (''attempt'', PInt (d_workflow_run_attempt a))]),
      (''outcome'', PStr (d_outcome a))]"

section \<open>The identity of a draft authority inside another record\<close>

definition DRAFT_AUTHORITY_IDENTITY_FIELDS :: "string list" where
  "DRAFT_AUTHORITY_IDENTITY_FIELDS = [''sha256'', ''artifact'', ''controlSha'', ''releaseBody'',
     ''assetInventorySha256'', ''workflowRun'', ''outcome'']"

definition identity_fields_check :: "pydict \<Rightarrow> string \<Rightarrow> check" where
  "identity_fields_check d source_sha =
    (let body = dget d ''releaseBody''; workflow = dget d ''workflowRun'';
         bad = PromotionError ''draft authority identity is malformed'' in
     first_failure [
       guard (is_match SHA256 (dget d ''sha256'') \<and> dget d ''controlSha'' = PStr source_sha \<and>
          is_dict body \<and> keys_are (dict_of body) [''byteLength'', ''sha256''] \<and>
          int_between 1 MAX_RELEASE_NOTES_BYTES (dget (dict_of body) ''byteLength'') \<and>
          is_match SHA256 (dget (dict_of body) ''sha256'') \<and>
          is_match SHA256 (dget d ''assetInventorySha256'') \<and>
          is_dict workflow \<and> keys_are (dict_of workflow) [''path'', ''id'', ''attempt''] \<and>
          dget (dict_of workflow) ''path'' = PStr ALPHA_DRAFT_WORKFLOW \<and>
          positive_int (dget (dict_of workflow) ''id'') \<and>
          positive_int (dget (dict_of workflow) ''attempt'') \<and>
          dget d ''artifact'' = PStr (draft_artifact (int_of (dget (dict_of workflow) ''id''))
             (int_of (dget (dict_of workflow) ''attempt'')))) bad,
       guard (hashable (dget d ''outcome'')) TypeErr,
       guard (str_in (dget d ''outcome'') [''created'', ''resumed'']) bad])"

definition inventory_of :: "pyval list \<Rightarrow> pyval" where
  "inventory_of assets = PList (map (\<lambda>item. PDict
     [(''name'', dget (dict_of item) ''name''), (''sha256'', dget (dict_of item) ''sha256''),
      (''byteLength'', dget (dict_of item) ''byteLength'')]) assets)"

definition validate_draft_authority_identity :: "pyval \<Rightarrow> string \<Rightarrow> pyval list \<Rightarrow> pydict res" where
  "validate_draft_authority_identity v source_sha assets =
     ebind (exact_object v DRAFT_AUTHORITY_IDENTITY_FIELDS ''draft authority identity'') (\<lambda>d.
     checked (first_failure [
       identity_fields_check d source_sha,
       guard (dget d ''assetInventorySha256'' = PStr (sha256_hex (canonical_json (inventory_of assets))))
         (PromotionError ''draft authority asset inventory digest is inconsistent'')])
     (Inr d))"

section \<open>Attestation evidence\<close>

definition ATTESTATION_EVIDENCE_FIELDS :: "string list" where
  "ATTESTATION_EVIDENCE_FIELDS = [''schema'', ''status'', ''repository'', ''releaseId'', ''version'', ''sourceSha'',
     ''tag'', ''assemblySha256'', ''draftAuthority'', ''sourceRef'', ''predicateType'', ''signerWorkflow'',
     ''signerDigest'', ''workflowRunId'', ''workflowRunAttempt'', ''expectedAssetCount'', ''verifiedAssetCount'',
     ''bytesReauthenticated'', ''tool'', ''assets'']"

definition ATTESTATION_EVIDENCE_ASSET_FIELDS :: "string list" where
  "ATTESTATION_EVIDENCE_ASSET_FIELDS = [''name'', ''byteLength'', ''sha256'', ''outcome'']"

definition evidence_names_of :: "pyval \<Rightarrow> string list res" where
  "evidence_names_of version = (if is_str version then expected_asset_names (str_of version) else Inr [])"

definition evidence_identity_check :: "pydict \<Rightarrow> nat \<Rightarrow> check" where
  "evidence_identity_check e expected_count =
     guard (dget e ''schema'' = PStr ATTESTATION_EVIDENCE_SCHEMA \<and> dget e ''status'' = PStr ''verified'' \<and>
        is_match REPOSITORY (dget e ''repository'') \<and> positive_int (dget e ''releaseId'') \<and>
        is_match ALPHA (dget e ''version'') \<and> is_match FULL_SHA (dget e ''sourceSha'') \<and>
        dget e ''tag'' = PStr (''cli-v'' @ str_of (dget e ''version'')) \<and>
        is_match SHA256 (dget e ''assemblySha256'') \<and>
        dget e ''sourceRef'' = PStr ''refs/heads/main'' \<and>
        dget e ''predicateType'' = PStr PROVENANCE_PREDICATE \<and>
        dget e ''signerWorkflow'' = PStr (str_of (dget e ''repository'') @ ''/'' @ SIGNER_WORKFLOW_PATH) \<and>
        dget e ''signerDigest'' = dget e ''sourceSha'' \<and>
        positive_int (dget e ''workflowRunId'') \<and> positive_int (dget e ''workflowRunAttempt'') \<and>
        eq_int (dget e ''expectedAssetCount'') (int expected_count) \<and>
        eq_int (dget e ''verifiedAssetCount'') (int expected_count) \<and>
        dget e ''bytesReauthenticated'' = PBool True \<and>
        is_list (dget e ''assets'') \<and> length (list_of (dget e ''assets'')) = expected_count)
       (PromotionError ''attestation evidence identity is malformed'')"

definition evidence_asset_check :: "string \<Rightarrow> pyval \<Rightarrow> check" where
  "evidence_asset_check expected_name item =
     check_of (ebind (exact_object item ATTESTATION_EVIDENCE_ASSET_FIELDS ''attestation evidence asset'') (\<lambda>asset.
       checked (guard
         (dget asset ''name'' = PStr expected_name \<and>
          int_between 1 MAX_ALPHA_ASSET_BYTES (dget asset ''byteLength'') \<and>
          is_match SHA256 (dget asset ''sha256'') \<and> dget asset ''outcome'' = PStr ''verified'')
         (PromotionError ''attestation evidence asset is malformed''))
       (Inr asset)))"

definition evidence_assembly_check :: "pydict \<Rightarrow> check" where
  "evidence_assembly_check e =
     (case find (\<lambda>i. dget (dict_of i) ''name'' = PStr ''SHA256SUMS'') (list_of (dget e ''assets'')) of
        None \<Rightarrow> Some (OtherExn ''StopIteration'')
      | Some a \<Rightarrow> guard (dget (dict_of a) ''sha256'' = dget e ''assemblySha256'')
          (PromotionError ''attestation evidence assembly digest is inconsistent''))"

definition evidence_candidate_check :: "pydict \<Rightarrow> Candidate \<Rightarrow> check" where
  "evidence_candidate_check e c =
     guard (dget e ''repository'' = PStr (c_repository c) \<and> dget e ''releaseId'' = PInt (c_release_id c) \<and>
        dget e ''version'' = PStr (c_version c) \<and> dget e ''sourceSha'' = PStr (c_source_sha c) \<and>
        dget e ''tag'' = PStr (c_tag c) \<and> dget e ''assemblySha256'' = PStr (c_assembly_sha256 c) \<and>
        map release_asset (list_of (dget e ''assets'')) = c_assets c)
       (PromotionError ''attestation evidence does not identify the current candidate'')"

definition evidence_binding_checks ::
  "pydict \<Rightarrow> Candidate option \<Rightarrow> int option \<Rightarrow> int option \<Rightarrow> check list" where
  "evidence_binding_checks e candidate run_id run_attempt =
     [evidence_assembly_check e,
      (case run_id of None \<Rightarrow> None | Some r \<Rightarrow>
         guard (dget e ''workflowRunId'' = PInt r)
           (PromotionError ''attestation evidence belongs to another workflow run'')),
      (case run_attempt of None \<Rightarrow> None | Some r \<Rightarrow>
         guard (dget e ''workflowRunAttempt'' = PInt r)
           (PromotionError ''attestation evidence belongs to another workflow attempt'')),
      (case candidate of None \<Rightarrow> None | Some c \<Rightarrow> evidence_candidate_check e c)]"

definition validate_attestation_evidence ::
  "pyval \<Rightarrow> Candidate option \<Rightarrow> int option \<Rightarrow> int option \<Rightarrow> DraftAuthority option \<Rightarrow> pydict res" where
  "validate_attestation_evidence v candidate run_id run_attempt authority =
     ebind (exact_object v ATTESTATION_EVIDENCE_FIELDS ''attestation evidence'') (\<lambda>e.
     ebind (evidence_names_of (dget e ''version'')) (\<lambda>names.
     checked (first_failure
       (evidence_identity_check e (length names) #
        check_of (validate_attestation_tool (dget e ''tool'')) #
        map2 evidence_asset_check names (list_of (dget e ''assets''))))
     (ebind (validate_draft_authority_identity (dget e ''draftAuthority'') (str_of (dget e ''sourceSha''))
         (list_of (dget e ''assets''))) (\<lambda>identity.
      checked (first_failure
        ((case authority of None \<Rightarrow> None | Some a \<Rightarrow>
            guard (py_eq (PDict identity) (PDict (draft_authority_identity a)))
              (PromotionError ''attestation evidence binds another draft authority'')) #
         evidence_binding_checks e candidate run_id run_attempt))
      (Inr e)))))"

definition attestation_evidence_digest :: "pydict \<Rightarrow> string res" where
  "attestation_evidence_digest e =
     ebind (validate_attestation_evidence (PDict e) None None None None) (\<lambda>_.
       Inr (sha256_hex (encode_attestation_evidence e)))"

definition load_attestation_evidence ::
  "asset_trace \<Rightarrow> string \<Rightarrow> Candidate \<Rightarrow> int \<Rightarrow> int \<Rightarrow> DraftAuthority option \<Rightarrow> pydict res" where
  "load_attestation_evidence tr expected_sha256 candidate run_id run_attempt authority =
     checked (guard (SHA256 expected_sha256) (PromotionError ''attestation evidence digest is malformed''))
     (ebind (tool_regular_bytes MAX_ATTESTATION_EVIDENCE_BYTES ''attestation evidence'' tr) (\<lambda>encoded.
      checked (guard (sha256_hex encoded = expected_sha256)
        (PromotionError ''attestation evidence digest does not match''))
      (ebind (closed_json encoded ''attestation evidence'' MAX_ATTESTATION_EVIDENCE_BYTES) (\<lambda>v.
       ebind (validate_attestation_evidence v (Some candidate) (Some run_id) (Some run_attempt) authority) (\<lambda>e.
       checked (guard (encoded = encode_attestation_evidence e)
         (PromotionError ''attestation evidence is not canonical''))
       (Inr e))))))"

end
