(* ===== verification/Promotion_Settlement.thy ===== *)
theory Promotion_Settlement
  imports Promotion_Evidence
begin

text \<open>
  The closed publication settlement of \<^verbatim>\<open>cli/ci/promote_alpha_release.py\<close>: \<^verbatim>\<open>validate_settlement\<close>
  with one definition for each group of its checks, in the order of the code, and
  \<^verbatim>\<open>_validate_settlement_coherence\<close>, which binds every status to one operation-specific state.
\<close>

section \<open>Fields\<close>

definition SETTLEMENT_FIELDS :: "string list" where
  "SETTLEMENT_FIELDS = [''schema'', ''operation'', ''status'', ''version'', ''sourceSha'', ''repository'',
     ''releaseId'', ''tag'', ''registry'', ''stableLatest'', ''alphaTag'', ''assemblySha256'',
     ''draftAuthority'', ''startedAt'', ''updatedAt'', ''githubArtifactAttestations'',
     ''npmMutationToolchain'', ''packages'', ''github'']"

definition NPM_TOOLCHAIN_FIELDS :: "string list" where
  "NPM_TOOLCHAIN_FIELDS = [''npmVersion'', ''npmTarballUrl'', ''npmTarballByteLength'', ''npmTarballSha1'',
     ''npmTarballSha256'', ''npmTarballSha512'', ''npmTarballIntegrity'', ''npmTreeSha256'',
     ''npmEntrySha256'', ''nodeVersion'', ''nodeExecutableSha256'']"

definition PACKAGE_SETTLEMENT_FIELDS :: "string list" where
  "PACKAGE_SETTLEMENT_FIELDS = [''name'', ''role'', ''artifact'', ''sha256'', ''shasum'', ''integrity'',
     ''attempted'', ''action'', ''outcome'', ''registryIntegrity'', ''provenancePredicateType'']"

definition GITHUB_SETTLEMENT_FIELDS :: "string list" where
  "GITHUB_SETTLEMENT_FIELDS = [''draftVerified'', ''promotionAttempted'', ''promoted'', ''outcome'']"

definition ATTESTATION_SETTLEMENT_FIELDS :: "string list" where
  "ATTESTATION_SETTLEMENT_FIELDS = [''status'', ''repository'', ''sourceSha'', ''sourceRef'', ''predicateType'',
     ''signerWorkflow'', ''signerDigest'', ''expectedAssetCount'', ''verifiedAssetCount'',
     ''bytesReauthenticated'', ''workflowRunId'', ''workflowRunAttempt'', ''evidenceSha256'', ''tool'', ''assets'']"

definition ATTESTATION_ASSET_FIELDS :: "string list" where
  "ATTESTATION_ASSET_FIELDS = [''name'', ''byteLength'', ''sha256'', ''outcome'']"

definition settlement_statuses :: "string list" where
  "settlement_statuses = [''initialized'', ''in-progress'', ''awaiting-platform-approval'',
     ''awaiting-meta-approval'', ''npm-settled'', ''complete'', ''failed'', ''ambiguous'', ''partial-publication'']"

section \<open>Identity\<close>

definition settlement_identity_check :: "pydict \<Rightarrow> check" where
  "settlement_identity_check d =
    (let bad = PromotionError ''publication settlement identity is malformed'' in
     first_failure [
       guard (dget d ''schema'' = PStr SCHEMA \<and> str_in (dget d ''operation'') OPERATIONS) bad,
       guard (hashable (dget d ''status'')) TypeErr,
       guard (str_in (dget d ''status'') settlement_statuses \<and>
          is_match ALPHA (dget d ''version'') \<and> is_match FULL_SHA (dget d ''sourceSha'') \<and>
          is_match REPOSITORY (dget d ''repository'') \<and> positive_int (dget d ''releaseId'') \<and>
          dget d ''tag'' = PStr (''cli-v'' @ str_of (dget d ''version'')) \<and>
          dget d ''registry'' = PStr REGISTRY \<and> dget d ''alphaTag'' = PStr ALPHA_TAG \<and>
          is_str (dget d ''stableLatest'') \<and> is_match SHA256 (dget d ''assemblySha256'') \<and>
          is_str (dget d ''startedAt'') \<and> is_str (dget d ''updatedAt'')) bad])"

section \<open>GitHub attestations\<close>

definition optional_value :: "(pyval \<Rightarrow> bool) \<Rightarrow> pyval \<Rightarrow> bool" where
  "optional_value p v \<longleftrightarrow> v = PNone \<or> p v"

definition evidence_values :: "pydict \<Rightarrow> pyval list" where
  "evidence_values att = map (dget att) [''workflowRunId'', ''workflowRunAttempt'', ''evidenceSha256'']"

definition attestation_identity_check :: "pydict \<Rightarrow> pydict \<Rightarrow> nat \<Rightarrow> check" where
  "attestation_identity_check d att expected_count =
    (let bad = PromotionError ''settlement GitHub attestation identity is malformed'' in
     first_failure [
       guard (hashable (dget att ''status'')) TypeErr,
       guard (str_in (dget att ''status'') [''not-attempted'', ''verified'', ''failed''] \<and>
          dget att ''repository'' = dget d ''repository'' \<and>
          dget att ''sourceSha'' = dget d ''sourceSha'' \<and>
          dget att ''sourceRef'' = PStr ''refs/heads/main'' \<and>
          dget att ''predicateType'' = PStr PROVENANCE_PREDICATE \<and>
          dget att ''signerWorkflow'' = PStr (str_of (dget d ''repository'') @ ''/'' @ SIGNER_WORKFLOW_PATH) \<and>
          dget att ''signerDigest'' = dget d ''sourceSha'' \<and>
          eq_int (dget att ''expectedAssetCount'') (int expected_count) \<and>
          is_int (dget att ''verifiedAssetCount'') \<and> is_bool (dget att ''bytesReauthenticated'') \<and>
          optional_value positive_int (dget att ''workflowRunId'') \<and>
          optional_value positive_int (dget att ''workflowRunAttempt'') \<and>
          optional_value (is_match SHA256) (dget att ''evidenceSha256'') \<and>
          length (filter (\<lambda>v. v \<noteq> PNone) (evidence_values att)) \<in> {0, 3} \<and>
          is_list (dget att ''assets'') \<and> length (list_of (dget att ''assets'')) = expected_count) bad])"

definition attestation_asset_check :: "string \<Rightarrow> pyval \<Rightarrow> check" where
  "attestation_asset_check expected_name item =
    (let bad = PromotionError ''settlement GitHub attestation asset is malformed'' in
     check_of (ebind (exact_object item ATTESTATION_ASSET_FIELDS ''settlement GitHub attestation asset'') (\<lambda>asset.
       checked (first_failure [
         guard (dget asset ''name'' = PStr expected_name \<and>
            int_between 1 MAX_ALPHA_ASSET_BYTES (dget asset ''byteLength'') \<and>
            is_match SHA256 (dget asset ''sha256'')) bad,
         guard (hashable (dget asset ''outcome'')) TypeErr,
         guard (str_in (dget asset ''outcome'') [''not-attempted'', ''verified'', ''failed'']) bad])
       (Inr asset))))"

definition count_outcome :: "string \<Rightarrow> pyval list \<Rightarrow> nat" where
  "count_outcome out assets = length (filter (\<lambda>i. dget (dict_of i) ''outcome'' = PStr out) assets)"

definition asset_by_name :: "pyval list \<Rightarrow> string \<Rightarrow> pyval option" where
  "asset_by_name assets = map_of (rev (map (\<lambda>i. (str_of (dget (dict_of i) ''name''), i)) assets))"

definition assembly_digest_check :: "pydict \<Rightarrow> pyval list \<Rightarrow> check" where
  "assembly_digest_check d assets = (case asset_by_name assets ''SHA256SUMS'' of
     None \<Rightarrow> Some KeyErr
   | Some i \<Rightarrow> guard (dget (dict_of i) ''sha256'' = dget d ''assemblySha256'')
       (PromotionError ''settlement assembly and attestation digests differ''))"

definition attestation_tool_check :: "pyval \<Rightarrow> check" where
  "attestation_tool_check tool = (if tool = PNone then None else check_of (validate_attestation_tool tool))"

definition attestation_state_check :: "pydict \<Rightarrow> pyval list \<Rightarrow> nat \<Rightarrow> check" where
  "attestation_state_check att assets expected_count =
    (let status = dget att ''status''; tool = dget att ''tool'';
         verified = count_outcome ''verified'' assets; failed = count_outcome ''failed'' assets;
         again = (dget att ''bytesReauthenticated'' = PBool True);
         has_evidence = (PNone \<notin> set (evidence_values att)) in
     guard (\<not> (status = PStr ''not-attempted'' \<and>
               (tool \<noteq> PNone \<or> 0 < verified \<or> 0 < failed \<or> again \<or> has_evidence)) \<and>
            \<not> (status = PStr ''verified'' \<and>
               (tool = PNone \<or> \<not> has_evidence \<or> verified \<noteq> expected_count \<or> 0 < failed \<or> \<not> again)) \<and>
            \<not> (status = PStr ''failed'' \<and>
               (tool = PNone \<or> \<not> has_evidence \<or> verified \<noteq> expected_count \<or> 0 < failed \<or> again)))
       (PromotionError ''settlement GitHub attestation state is inconsistent''))"

definition attestation_checks :: "pydict \<Rightarrow> pydict \<Rightarrow> string list \<Rightarrow> check list" where
  "attestation_checks d att expected =
    (let assets = list_of (dget att ''assets'') in
     attestation_identity_check d att (length expected) #
     map2 attestation_asset_check expected assets @
     [check_of (validate_draft_authority_identity (dget d ''draftAuthority'') (str_of (dget d ''sourceSha'')) assets),
      guard (eq_int (dget att ''verifiedAssetCount'') (int (count_outcome ''verified'' assets)))
        (PromotionError ''settlement GitHub attestation count is inconsistent''),
      assembly_digest_check d assets,
      attestation_tool_check (dget att ''tool''),
      attestation_state_check att assets (length expected)])"

section \<open>Packages\<close>

definition package_role :: "string \<Rightarrow> string" where
  "package_role name = (if name = META_PACKAGE then ''meta'' else ''platform'')"

definition package_platform :: "string \<Rightarrow> string" where
  "package_platform name =
     (if take 21 name = ''@openprose/prose-cli-'' then drop 21 name else name)"

definition package_artifact :: "string \<Rightarrow> string \<Rightarrow> string" where
  "package_artifact version name =
     (if package_role name = ''meta'' then meta_artifact version
      else ''openprose-prose-cli-'' @ package_platform name @ ''-'' @ version @ ''.tgz'')"

definition package_identity_check :: "string \<Rightarrow> pydict \<Rightarrow> check" where
  "package_identity_check name item =
    (let bad = PromotionError ''publication settlement package identity is malformed'' in
     first_failure [
       guard (dget item ''name'' = PStr name \<and> dget item ''role'' = PStr (package_role name) \<and>
          is_match SAFE_ARTIFACT (dget item ''artifact'') \<and> is_match SHA256 (dget item ''sha256'') \<and>
          is_match SHA1 (dget item ''shasum'') \<and> is_match INTEGRITY (dget item ''integrity'') \<and>
          is_bool (dget item ''attempted'')) bad,
       guard (hashable (dget item ''action'')) TypeErr,
       guard (str_in (dget item ''action'') [''none'', ''publish'', ''stage'', ''verify'']) bad,
       guard (hashable (dget item ''outcome'')) TypeErr,
       guard (str_in (dget item ''outcome'') [''not-attempted'', ''published'', ''staged'', ''verified'',
            ''failed'', ''ambiguous''] \<and>
          optional_value (is_match INTEGRITY) (dget item ''registryIntegrity'')) bad,
       guard (hashable (dget item ''provenancePredicateType'')) TypeErr,
       guard (dget item ''provenancePredicateType'' = PNone \<or>
          dget item ''provenancePredicateType'' = PStr PROVENANCE_PREDICATE) bad])"

definition package_artifact_check :: "string \<Rightarrow> string \<Rightarrow> pyval list \<Rightarrow> pydict \<Rightarrow> check" where
  "package_artifact_check version name assets item = first_failure [
     guard (dget item ''artifact'' = PStr (package_artifact version name))
       (PromotionError ''publication settlement artifact identity is not exact''),
     (case asset_by_name assets (str_of (dget item ''artifact'')) of
        None \<Rightarrow> Some KeyErr
      | Some i \<Rightarrow> guard (dget (dict_of i) ''sha256'' = dget item ''sha256'')
          (PromotionError ''publication settlement package and attestation digests differ''))]"

definition package_state_check :: "pydict \<Rightarrow> check" where
  "package_state_check item =
    (let action = dget item ''action''; outcome = dget item ''outcome'';
         attempted = (dget item ''attempted'' = PBool True);
         integ = dget item ''registryIntegrity''; prov = dget item ''provenancePredicateType'';
         settled = (integ = dget item ''integrity'' \<and> prov = PStr PROVENANCE_PREDICATE);
         recorded = (integ \<noteq> PNone \<or> prov \<noteq> PNone) in
     guard (\<not> (action = PStr ''none'' \<and> (attempted \<or> outcome \<noteq> PStr ''not-attempted'' \<or> recorded)) \<and>
            \<not> (action = PStr ''verify'' \<and> (attempted \<or> outcome \<noteq> PStr ''verified'' \<or> \<not> settled)) \<and>
            \<not> (action = PStr ''publish'' \<and>
               (\<not> attempted \<or> \<not> str_in outcome [''published'', ''failed'', ''ambiguous''] \<or>
                (outcome = PStr ''published'' \<and> \<not> settled) \<or> (outcome \<noteq> PStr ''published'' \<and> recorded))) \<and>
            \<not> (action = PStr ''stage'' \<and>
               (\<not> attempted \<or> \<not> str_in outcome [''staged'', ''failed'', ''ambiguous''] \<or> recorded)))
       (PromotionError ''publication settlement package state is inconsistent''))"

definition package_check :: "string \<Rightarrow> pyval list \<Rightarrow> string \<Rightarrow> pyval \<Rightarrow> check" where
  "package_check version assets name package =
     check_of (ebind (exact_object package PACKAGE_SETTLEMENT_FIELDS ''settlement package'') (\<lambda>item.
       checked (first_failure [package_identity_check name item,
         package_artifact_check version name assets item, package_state_check item]) (Inr item)))"

section \<open>Toolchain and release\<close>

definition toolchain_check :: "pyval \<Rightarrow> check" where
  "toolchain_check v =
    (if v = PNone then None else
     check_of (ebind (exact_object v NPM_TOOLCHAIN_FIELDS ''settlement npm mutation toolchain'') (\<lambda>t.
       checked (guard
         (dget t ''npmVersion'' = PStr NPM_VERSION \<and>
          dget t ''npmTarballUrl'' = PStr (url PINNED_NPM_AUTHORITY) \<and>
          eq_int (dget t ''npmTarballByteLength'') (byte_length PINNED_NPM_AUTHORITY) \<and>
          dget t ''npmTarballSha1'' = PStr (na_sha1 PINNED_NPM_AUTHORITY) \<and>
          dget t ''npmTarballSha256'' = PStr (na_sha256 PINNED_NPM_AUTHORITY) \<and>
          dget t ''npmTarballSha512'' = PStr (na_sha512 PINNED_NPM_AUTHORITY) \<and>
          dget t ''npmTarballIntegrity'' = PStr (na_integrity PINNED_NPM_AUTHORITY) \<and>
          dget t ''npmTreeSha256'' = PStr (tree_sha256 PINNED_NPM_AUTHORITY) \<and>
          dget t ''npmEntrySha256'' = PStr (entry_sha256 PINNED_NPM_AUTHORITY) \<and>
          dget t ''nodeVersion'' = PStr NODE_VERSION \<and>
          is_match SHA256 (dget t ''nodeExecutableSha256''))
         (PromotionError ''settlement npm mutation toolchain is malformed''))
       (Inr t))))"

definition attempted_package :: "pyval \<Rightarrow> bool" where
  "attempted_package p \<longleftrightarrow> dget (dict_of p) ''attempted'' = PBool True"

definition toolchain_state_check :: "pydict \<Rightarrow> pyval list \<Rightarrow> check" where
  "toolchain_state_check d packages =
    (let toolchain = dget d ''npmMutationToolchain'' in
     guard (\<not> (dget d ''operation'' = PStr ''settle-and-promote'' \<and> toolchain \<noteq> PNone) \<and>
            \<not> (list_ex attempted_package packages \<and> toolchain = PNone))
       (PromotionError ''settlement npm mutation toolchain state is inconsistent''))"

definition github_check :: "pydict \<Rightarrow> check" where
  "github_check g =
    (let bad = PromotionError ''publication settlement GitHub state is malformed'' in
     first_failure [
       guard (is_bool (dget g ''draftVerified'') \<and> is_bool (dget g ''promoted'') \<and>
          is_bool (dget g ''promotionAttempted'')) bad,
       guard (hashable (dget g ''outcome'')) TypeErr,
       guard (str_in (dget g ''outcome'') [''not-attempted'', ''promoted'', ''ambiguous'']) bad,
       guard ((dget g ''promotionAttempted'', dget g ''promoted'') =
           (if dget g ''outcome'' = PStr ''not-attempted'' then (PBool False, PBool False)
            else if dget g ''outcome'' = PStr ''ambiguous'' then (PBool True, PBool False)
            else (PBool True, PBool True)))
         (PromotionError ''publication settlement GitHub state is inconsistent'')])"

section \<open>Coherence of the status\<close>

definition package_is :: "string \<Rightarrow> bool \<Rightarrow> string \<Rightarrow> pydict \<Rightarrow> bool" where
  "package_is action attempted outcome item \<longleftrightarrow>
     dget item ''action'' = PStr action \<and> dget item ''attempted'' = PBool attempted \<and>
     dget item ''outcome'' = PStr outcome"

definition all_packages :: "string \<Rightarrow> bool \<Rightarrow> string \<Rightarrow> pydict list \<Rightarrow> bool" where
  "all_packages action attempted outcome selected \<longleftrightarrow> list_all (package_is action attempted outcome) selected"

definition github_is :: "bool \<Rightarrow> bool \<Rightarrow> string \<Rightarrow> pydict \<Rightarrow> bool" where
  "github_is attempted promoted outcome g \<longleftrightarrow>
     dget g ''draftVerified'' = PBool True \<and> dget g ''promotionAttempted'' = PBool attempted \<and>
     dget g ''promoted'' = PBool promoted \<and> dget g ''outcome'' = PStr outcome"

definition action_in :: "string list \<Rightarrow> pydict \<Rightarrow> bool" where
  "action_in actions item \<longleftrightarrow> str_in (dget item ''action'') actions"

definition operation_exact :: "string \<Rightarrow> pydict list \<Rightarrow> pyval \<Rightarrow> pydict \<Rightarrow> bool" where
  "operation_exact operation packages toolchain g =
    (let idle = github_is False False ''not-attempted'' g in
     if operation = ''bootstrap'' then list_all (action_in [''none'', ''publish'']) packages \<and> idle
     else if operation = ''stage-platforms'' then
       list_all (action_in [''none'', ''stage'']) (butlast packages) \<and>
       action_in [''none''] (last packages) \<and> idle
     else if operation = ''stage-meta'' then
       list_all (action_in [''none'', ''verify'']) (butlast packages) \<and>
       action_in [''none'', ''stage''] (last packages) \<and> idle
     else list_all (action_in [''none'', ''verify'']) packages \<and> toolchain = PNone)"

definition ordered_progress :: "pydict list \<Rightarrow> string \<Rightarrow> bool \<Rightarrow> string \<Rightarrow> string option \<Rightarrow> bool" where
  "ordered_progress selected action attempted outcome ambiguous_action =
    (let rest = dropWhile (package_is action attempted outcome) selected;
         rest' = (case (ambiguous_action, rest) of
            (Some a, item # items) \<Rightarrow> if package_is a True ''ambiguous'' item then items else rest
          | _ \<Rightarrow> rest)
     in all_packages ''none'' False ''not-attempted'' rest')"

definition operation_progress :: "string \<Rightarrow> pydict list \<Rightarrow> bool \<Rightarrow> bool" where
  "operation_progress operation packages allow_ambiguous =
    (let meta_pending = package_is ''none'' False ''not-attempted'' (last packages);
         platforms = butlast packages in
     if operation = ''bootstrap'' then
       ordered_progress packages ''publish'' True ''published'' (if allow_ambiguous then Some ''publish'' else None)
     else if operation = ''stage-platforms'' then
       meta_pending \<and>
       ordered_progress platforms ''stage'' True ''staged'' (if allow_ambiguous then Some ''stage'' else None)
     else if operation = ''stage-meta'' then
       ordered_progress platforms ''verify'' False ''verified'' None \<and>
       (meta_pending \<or> allow_ambiguous \<and> package_is ''stage'' True ''ambiguous'' (last packages) \<and>
         all_packages ''verify'' False ''verified'' platforms)
     else ordered_progress packages ''verify'' False ''verified'' None)"

definition outcome_is :: "string \<Rightarrow> pydict \<Rightarrow> bool" where
  "outcome_is out item \<longleftrightarrow> dget item ''outcome'' = PStr out"

definition status_coherent ::
  "string \<Rightarrow> string \<Rightarrow> string \<Rightarrow> pydict list \<Rightarrow> pyval \<Rightarrow> pydict \<Rightarrow> bool" where
  "status_coherent operation status att packages toolchain g =
    (let idle = github_is False False ''not-attempted'' g;
         none_pending = all_packages ''none'' False ''not-attempted'' packages;
         platforms_verified = all_packages ''verify'' False ''verified'' (butlast packages);
         all_verified = all_packages ''verify'' False ''verified'' packages in
     if status = ''initialized'' then
       att = ''not-attempted'' \<and> toolchain = PNone \<and> none_pending \<and> idle
     else if status = ''in-progress'' then
       att = ''verified'' \<and> str_in (dget g ''outcome'') [''not-attempted'', ''ambiguous''] \<and>
       (dget g ''outcome'' \<noteq> PStr ''ambiguous'' \<or> operation = ''settle-and-promote'' \<and> all_verified) \<and>
       (toolchain = PNone \<or> att = ''verified'') \<and>
       (list_all (action_in [''none'']) packages \<or> att = ''verified'') \<and>
       operation_progress operation packages True
     else if status = ''awaiting-platform-approval'' then
       operation = ''stage-platforms'' \<and> att = ''verified'' \<and> toolchain \<noteq> PNone \<and>
       all_packages ''stage'' True ''staged'' (butlast packages) \<and>
       package_is ''none'' False ''not-attempted'' (last packages) \<and> idle
     else if status = ''awaiting-meta-approval'' then
       operation = ''stage-meta'' \<and> att = ''verified'' \<and> toolchain \<noteq> PNone \<and> platforms_verified \<and>
       package_is ''stage'' True ''staged'' (last packages) \<and> idle
     else if status = ''npm-settled'' then
       operation = ''bootstrap'' \<and> att = ''verified'' \<and> toolchain \<noteq> PNone \<and>
       all_packages ''publish'' True ''published'' packages \<and> idle
     else if status = ''complete'' then
       operation = ''settle-and-promote'' \<and> att = ''verified'' \<and> toolchain = PNone \<and> all_verified \<and>
       github_is True True ''promoted'' g
     else if status = ''failed'' then
       att \<in> {''failed'', ''verified''} \<and> idle \<and> \<not> list_ex (outcome_is ''ambiguous'') packages \<and>
       operation_progress operation packages False \<and> (operation \<noteq> ''bootstrap'' \<or> none_pending)
     else if status = ''ambiguous'' then
       (operation \<in> {''stage-platforms'', ''stage-meta''} \<and> att = ''verified'' \<and> toolchain \<noteq> PNone \<and> idle \<and>
        list_ex (outcome_is ''ambiguous'') packages \<and> operation_progress operation packages True) \<or>
       (operation = ''settle-and-promote'' \<and> att = ''verified'' \<and> toolchain = PNone \<and> all_verified \<and>
        github_is True False ''ambiguous'' g)
     else
       status = ''partial-publication'' \<and> operation = ''bootstrap'' \<and> att \<in> {''failed'', ''verified''} \<and>
       toolchain \<noteq> PNone \<and> idle \<and>
       list_ex (\<lambda>i. dget i ''attempted'' = PBool True \<and> dget i ''action'' = PStr ''publish'') packages \<and>
       operation_progress operation packages True)"

definition validate_settlement_coherence ::
  "pydict \<Rightarrow> pydict \<Rightarrow> pydict list \<Rightarrow> pyval \<Rightarrow> pydict \<Rightarrow> check" where
  "validate_settlement_coherence d att packages toolchain g = first_failure [
     guard (dget g ''draftVerified'' = PBool True)
       (PromotionError ''publication settlement status is inconsistent''),
     guard (operation_exact (str_of (dget d ''operation'')) packages toolchain g)
       (PromotionError ''publication settlement operation is inconsistent''),
     guard (status_coherent (str_of (dget d ''operation'')) (str_of (dget d ''status''))
         (str_of (dget att ''status'')) packages toolchain g)
       (PromotionError ''publication settlement status is inconsistent'')]"

section \<open>The whole settlement\<close>

definition settlement_tail_checks :: "pydict \<Rightarrow> pydict \<Rightarrow> check list" where
  "settlement_tail_checks d att =
    (let assets = list_of (dget att ''assets''); packages = list_of (dget d ''packages'') in
     guard (is_list (dget d ''packages'') \<and> length packages = length PACKAGE_ORDER)
       (PromotionError ''publication settlement package inventory is not closed'') #
     map2 (package_check (str_of (dget d ''version'')) assets) PACKAGE_ORDER packages @
     [toolchain_check (dget d ''npmMutationToolchain''),
      toolchain_state_check d packages,
      check_of (exact_object (dget d ''github'') GITHUB_SETTLEMENT_FIELDS ''settlement GitHub state''),
      github_check (dict_of (dget d ''github'')),
      validate_settlement_coherence d att (map dict_of packages) (dget d ''npmMutationToolchain'')
        (dict_of (dget d ''github''))])"

definition validate_settlement :: "pyval \<Rightarrow> pydict res" where
  "validate_settlement v =
     ebind (exact_object v SETTLEMENT_FIELDS ''publication settlement'') (\<lambda>d.
     checked (settlement_identity_check d)
     (ebind (exact_object (dget d ''githubArtifactAttestations'') ATTESTATION_SETTLEMENT_FIELDS
        ''settlement GitHub artifact attestations'') (\<lambda>att.
      ebind (expected_asset_names (str_of (dget d ''version''))) (\<lambda>expected.
      checked (first_failure (attestation_checks d att expected @ settlement_tail_checks d att))
      (Inr d)))))"

end
