(* ===== verification/Promotion_Live.thy ===== *)
theory Promotion_Live
  imports Promotion_Settlement
begin

text \<open>
  The live settlement of a promotion in \<^verbatim>\<open>cli/ci/promote_alpha_release.py\<close>: the dictionaries the
  transition updates in place as records, with \<open>settlement_dict\<close> the dictionary they stand for; what
  the outside world answers as a record of functions on a world \<open>'w\<close>; and the settlement writer. An
  action takes the state of a promotion and returns a result or an exception with the new state, so
  the changes made before an exception are kept. Every write, mutation and release promotion is
  appended to a log.
\<close>

section \<open>The live settlement\<close>

record package_entry =
  pe_name :: string
  pe_role :: string
  pe_artifact :: string
  pe_sha256 :: string
  pe_shasum :: string
  pe_integrity :: string
  pe_attempted :: bool
  pe_action :: string
  pe_outcome :: string
  pe_registry :: "string option"
  pe_provenance :: "string option"

record asset_entry =
  ae_name :: string
  ae_byte_length :: int
  ae_sha256 :: string
  ae_outcome :: string

record attestation_state =
  as_status :: string
  as_repository :: string
  as_source_sha :: string
  as_expected :: nat
  as_verified :: nat
  as_bytes :: bool
  as_run_id :: "int option"
  as_run_attempt :: "int option"
  as_evidence :: "string option"
  as_tool :: pyval
  as_assets :: "asset_entry list"

record settlement =
  s_operation :: string
  s_status :: string
  s_version :: string
  s_source_sha :: string
  s_repository :: string
  s_release_id :: int
  s_tag :: string
  s_latest :: string
  s_assembly :: string
  s_authority :: pydict
  s_started :: string
  s_updated :: string
  s_attestations :: attestation_state
  s_toolchain :: pyval
  s_packages :: "package_entry list"
  s_draft_verified :: bool
  s_promotion_attempted :: bool
  s_promoted :: bool
  s_github_outcome :: string

fun py_opt :: "('a \<Rightarrow> pyval) \<Rightarrow> 'a option \<Rightarrow> pyval" where
  "py_opt f None = PNone" | "py_opt f (Some x) = f x"

definition package_dict :: "package_entry \<Rightarrow> pydict" where
  "package_dict e =
     [(''name'', PStr (pe_name e)), (''role'', PStr (pe_role e)), (''artifact'', PStr (pe_artifact e)),
      (''sha256'', PStr (pe_sha256 e)), (''shasum'', PStr (pe_shasum e)), (''integrity'', PStr (pe_integrity e)),
      (''attempted'', PBool (pe_attempted e)), (''action'', PStr (pe_action e)), (''outcome'', PStr (pe_outcome e)),
      (''registryIntegrity'', py_opt PStr (pe_registry e)),
      (''provenancePredicateType'', py_opt PStr (pe_provenance e))]"

definition asset_dict :: "asset_entry \<Rightarrow> pydict" where
  "asset_dict a = [(''name'', PStr (ae_name a)), (''byteLength'', PInt (ae_byte_length a)),
     (''sha256'', PStr (ae_sha256 a)), (''outcome'', PStr (ae_outcome a))]"

definition attestation_dict :: "attestation_state \<Rightarrow> pydict" where
  "attestation_dict a =
     [(''status'', PStr (as_status a)), (''repository'', PStr (as_repository a)),
      (''sourceSha'', PStr (as_source_sha a)), (''sourceRef'', PStr ''refs/heads/main''),
      (''predicateType'', PStr PROVENANCE_PREDICATE),
      (''signerWorkflow'', PStr (as_repository a @ ''/'' @ SIGNER_WORKFLOW_PATH)),
      (''signerDigest'', PStr (as_source_sha a)), (''expectedAssetCount'', PInt (int (as_expected a))),
      (''verifiedAssetCount'', PInt (int (as_verified a))), (''bytesReauthenticated'', PBool (as_bytes a)),
      (''workflowRunId'', py_opt PInt (as_run_id a)), (''workflowRunAttempt'', py_opt PInt (as_run_attempt a)),
      (''evidenceSha256'', py_opt PStr (as_evidence a)), (''tool'', as_tool a),
      (''assets'', PList (map (\<lambda>x. PDict (asset_dict x)) (as_assets a)))]"

definition settlement_dict :: "settlement \<Rightarrow> pydict" where
  "settlement_dict s =
     [(''schema'', PStr SCHEMA), (''operation'', PStr (s_operation s)), (''status'', PStr (s_status s)),
      (''version'', PStr (s_version s)), (''sourceSha'', PStr (s_source_sha s)),
      (''repository'', PStr (s_repository s)), (''releaseId'', PInt (s_release_id s)), (''tag'', PStr (s_tag s)),
      (''registry'', PStr REGISTRY), (''stableLatest'', PStr (s_latest s)), (''alphaTag'', PStr ALPHA_TAG),
      (''assemblySha256'', PStr (s_assembly s)), (''draftAuthority'', PDict (s_authority s)),
      (''startedAt'', PStr (s_started s)), (''updatedAt'', PStr (s_updated s)),
      (''githubArtifactAttestations'', PDict (attestation_dict (s_attestations s))),
      (''npmMutationToolchain'', s_toolchain s),
      (''packages'', PList (map (\<lambda>e. PDict (package_dict e)) (s_packages s))),
      (''github'', PDict [(''draftVerified'', PBool (s_draft_verified s)),
         (''promotionAttempted'', PBool (s_promotion_attempted s)), (''promoted'', PBool (s_promoted s)),
         (''outcome'', PStr (s_github_outcome s))])]"

section \<open>A new settlement\<close>

definition settlement_package :: "PackageArtifact \<Rightarrow> package_entry" where
  "settlement_package p = \<lparr>pe_name = pa_name p, pe_role = pa_role p, pe_artifact = pa_artifact p,
     pe_sha256 = pa_sha256 p, pe_shasum = pa_shasum p, pe_integrity = pa_integrity p, pe_attempted = False,
     pe_action = ''none'', pe_outcome = ''not-attempted'', pe_registry = None, pe_provenance = None\<rparr>"

definition attestation_settlement :: "Candidate \<Rightarrow> attestation_state" where
  "attestation_settlement c = \<lparr>as_status = ''not-attempted'', as_repository = c_repository c,
     as_source_sha = c_source_sha c, as_expected = length (c_assets c), as_verified = 0, as_bytes = False,
     as_run_id = None, as_run_attempt = None, as_evidence = None, as_tool = PNone,
     as_assets = map (\<lambda>a. \<lparr>ae_name = ra_name a, ae_byte_length = ra_byte_length a,
        ae_sha256 = ra_sha256 a, ae_outcome = ''not-attempted''\<rparr>) (c_assets c)\<rparr>"

definition new_settlement :: "string \<Rightarrow> Candidate \<Rightarrow> Lineage \<Rightarrow> pydict \<Rightarrow> string \<Rightarrow> settlement" where
  "new_settlement operation c lineage authority timestamp = \<lparr>s_operation = operation, s_status = ''initialized'',
     s_version = c_version c, s_source_sha = c_source_sha c, s_repository = c_repository c,
     s_release_id = c_release_id c, s_tag = c_tag c, s_latest = ln_latest lineage,
     s_assembly = c_assembly_sha256 c, s_authority = authority, s_started = timestamp, s_updated = timestamp,
     s_attestations = attestation_settlement c, s_toolchain = PNone,
     s_packages = map settlement_package (c_packages c), s_draft_verified = True,
     s_promotion_attempted = False, s_promoted = False, s_github_outcome = ''not-attempted''\<rparr>"

definition bind_attestation_evidence ::
  "settlement \<Rightarrow> Candidate \<Rightarrow> pydict \<Rightarrow> string \<Rightarrow> int \<Rightarrow> int \<Rightarrow> settlement res" where
  "bind_attestation_evidence s c evidence digest run_id run_attempt =
     ebind (validate_attestation_evidence (PDict evidence) (Some c) (Some run_id) (Some run_attempt) None) (\<lambda>_.
     checked (guard (SHA256 digest) (PromotionError ''attestation evidence digest does not match''))
     (ebind (attestation_evidence_digest evidence) (\<lambda>observed.
      checked (guard (observed = digest) (PromotionError ''attestation evidence digest does not match''))
      (Inr (s\<lparr>s_attestations := (s_attestations s)\<lparr>as_status := ''verified'',
         as_verified := length (c_assets c), as_bytes := True, as_run_id := Some run_id,
         as_run_attempt := Some run_attempt, as_evidence := Some digest, as_tool := dget evidence ''tool'',
         as_assets := map (\<lambda>a. a\<lparr>ae_outcome := ''verified''\<rparr>) (as_assets (s_attestations s))\<rparr>\<rparr>)))))"

section \<open>The outside world\<close>

text \<open>A member of an npm archive as \<open>tarfile\<close> reports it.\<close>

record tar_member =
  tm_name :: string
  tm_special :: bool
  tm_isfile :: bool
  tm_size :: int
  tm_content :: string

record 'w boundary =
  registry_package :: "string \<Rightarrow> 'w \<Rightarrow> RegistryPackage option res \<times> 'w"
  registry_tarball :: "string \<Rightarrow> 'w \<Rightarrow> string res \<times> 'w"
  npm_toolchain :: "'w \<Rightarrow> pyval res \<times> 'w"
  npm_mutate :: "string \<Rightarrow> PackageArtifact \<Rightarrow> 'w \<Rightarrow> int res \<times> 'w"
  github_promote :: "Candidate \<Rightarrow> 'w \<Rightarrow> unit res \<times> 'w"
  reauthenticate_assets :: "Candidate \<Rightarrow> 'w \<Rightarrow> unit res \<times> 'w"
  now :: "'w \<Rightarrow> string \<times> 'w"
  existing_settlement :: "'w \<Rightarrow> string res option"
  store_settlement :: "string \<Rightarrow> 'w \<Rightarrow> check \<times> 'w"
  open_tar :: "string \<Rightarrow> tar_member list option"

datatype event =
    Wrote settlement
  | Refused settlement
  | WriteFailed settlement
  | Mutated string string
  | Promoted

record 'w promotion =
  world :: 'w
  live :: settlement
  events :: "event list"

type_synonym ('w, 'a) action = "'w promotion \<Rightarrow> 'a res \<times> 'w promotion"

definition act_return :: "'a \<Rightarrow> ('w, 'a) action" where
  "act_return x = (\<lambda>st. (Inr x, st))"

definition act_of :: "'a res \<Rightarrow> ('w, 'a) action" where
  "act_of r = (\<lambda>st. (r, st))"

definition act_raise :: "exn \<Rightarrow> ('w, 'a) action" where
  "act_raise e = (\<lambda>st. (Inl e, st))"

definition act_bind :: "('w, 'a) action \<Rightarrow> ('a \<Rightarrow> ('w, 'b) action) \<Rightarrow> ('w, 'b) action" where
  "act_bind m f = (\<lambda>st. case m st of (Inl e, st') \<Rightarrow> (Inl e, st') | (Inr x, st') \<Rightarrow> f x st')"

definition act_then :: "('w, unit) action \<Rightarrow> ('w, 'b) action \<Rightarrow> ('w, 'b) action" where
  "act_then m n = act_bind m (\<lambda>_. n)"

definition act_check :: "check \<Rightarrow> ('w, unit) action" where
  "act_check c = act_of (checked c (Inr ()))"

text \<open>\<open>try ... except PromotionError as error: ...\<close>\<close>

definition act_catch :: "('w, 'a) action \<Rightarrow> (exn \<Rightarrow> ('w, 'a) action) \<Rightarrow> ('w, 'a) action" where
  "act_catch m h = (\<lambda>st. case m st of
     (Inl e, st') \<Rightarrow> if is_promotion e then h e st' else (Inl e, st')
   | (Inr x, st') \<Rightarrow> (Inr x, st'))"

definition act_outside :: "('w \<Rightarrow> 'a res \<times> 'w) \<Rightarrow> ('w, 'a) action" where
  "act_outside f = (\<lambda>st. case f (world st) of (r, w) \<Rightarrow> (r, st\<lparr>world := w\<rparr>))"

definition act_update :: "(settlement \<Rightarrow> settlement) \<Rightarrow> ('w, unit) action" where
  "act_update f = (\<lambda>st. (Inr (), st\<lparr>live := f (live st)\<rparr>))"

definition act_log :: "event \<Rightarrow> ('w, unit) action" where
  "act_log e = (\<lambda>st. (Inr (), st\<lparr>events := events st @ [e]\<rparr>))"

definition act_get :: "(settlement \<Rightarrow> 'a) \<Rightarrow> ('w, 'a) action" where
  "act_get f = (\<lambda>st. (Inr (f (live st)), st))"

fun for_each :: "('a \<Rightarrow> ('w, unit) action) \<Rightarrow> 'a list \<Rightarrow> ('w, unit) action" where
  "for_each f [] = act_return ()"
| "for_each f (x # xs) = act_then (f x) (for_each f xs)"

section \<open>The settlement writer\<close>

definition write_settlement :: "'w boundary \<Rightarrow> ('w, unit) action" where
  "write_settlement b st =
     (case validate_settlement (PDict (settlement_dict (live st))) of
        Inl e \<Rightarrow> (Inl e, st\<lparr>events := events st @ [Refused (live st)]\<rparr>)
      | Inr _ \<Rightarrow>
          (case now b (world st) of (t, w) \<Rightarrow>
             (let s = (live st)\<lparr>s_updated := t\<rparr> in
              case store_settlement b (encode_record (settlement_dict s)) w of
                (None, w') \<Rightarrow> (Inr (), \<lparr>world = w', live = s, events = events st @ [Wrote s]\<rparr>)
              | (Some e, w') \<Rightarrow> (Inl e, \<lparr>world = w', live = s, events = events st @ [WriteFailed s]\<rparr>))))"

definition attempted_retry :: "pydict \<Rightarrow> bool" where
  "attempted_retry d \<longleftrightarrow>
     list_ex attempted_package (list_of (dget d ''packages'')) \<or>
     py_truth (dget (dict_of (dget d ''github'')) ''promotionAttempted'')"

text \<open>\<open>SettlementWriter.refuse_attempted_retry\<close>; \<open>None\<close> says that no settlement exists.\<close>

definition refuse_attempted_retry :: "string res option \<Rightarrow> check" where
  "refuse_attempted_retry existing = (case existing of
     None \<Rightarrow> None
   | Some r \<Rightarrow> check_of (ebind r (\<lambda>encoded.
       ebind (closed_json encoded ''publication settlement'' (1024 * 1024)) (\<lambda>v.
       ebind (validate_settlement v) (\<lambda>d.
       Inl (PromotionError (if attempted_retry d
         then ''this settlement records a prior mutation attempt; use a new alpha version''
         else ''a settlement already exists; refuse ambiguous replacement'')) :: unit res)))))"

end
