(* ===== verification/Promotion_Transition.thy ===== *)
theory Promotion_Transition
  imports Promotion_Live
begin

text \<open>
  The closed transition of \<^verbatim>\<open>cli/ci/promote_alpha_release.py\<close>: the registry checks
  (\<^verbatim>\<open>_require_owners\<close> to \<^verbatim>\<open>_require_unused\<close>), the marks on the settlement, one attempt at a mutation
  and \<^verbatim>\<open>execute_transition\<close> with its four operations and its handler.
\<close>

section \<open>Package manifests\<close>

definition MANIFEST_LIMIT :: nat where "MANIFEST_LIMIT = 128 * 1024"

definition unsafe_member :: "string list \<Rightarrow> tar_member \<Rightarrow> bool" where
  "unsafe_member names m \<longleftrightarrow>
     tm_name m \<in> set names \<or> take 1 (tm_name m) = ''/'' \<or>
     ''..'' \<in> set (split_on (CHR ''/'') (tm_name m)) \<or> take 8 (tm_name m) \<noteq> ''package/'' \<or> tm_special m"

fun scan_members :: "string list \<Rightarrow> string option \<Rightarrow> tar_member list \<Rightarrow> string option res" where
  "scan_members names found [] = Inr found"
| "scan_members names found (m # ms) =
     (if unsafe_member names m then Inl (PromotionError ''npm package archive has an unsafe member'')
      else if tm_name m = ''package/package.json'' then
        (if \<not> tm_isfile m \<or> tm_size m \<le> 0 \<or> int MANIFEST_LIMIT < tm_size m
         then Inl (PromotionError ''npm package manifest is not a bounded regular member'')
         else scan_members (tm_name m # names) (Some (take (MANIFEST_LIMIT + 1) (tm_content m))) ms)
      else scan_members (tm_name m # names) found ms)"

definition npm_package_json :: "(string \<Rightarrow> tar_member list option) \<Rightarrow> string \<Rightarrow> pydict res" where
  "npm_package_json tar encoded =
     (case tar encoded of
        None \<Rightarrow> Inl (PromotionError ''npm package archive is malformed'')
      | Some members \<Rightarrow>
          checked (guard (members \<noteq> [] \<and> length members \<le> 32)
            (PromotionError ''npm package archive membership is not closed''))
          (ebind (scan_members [] None members) (\<lambda>found.
           case found of
             None \<Rightarrow> Inl (PromotionError ''npm package archive is missing package.json'')
           | Some package_json \<Rightarrow>
               ebind (closed_json package_json ''npm package manifest'' MANIFEST_LIMIT) (\<lambda>v.
               checked (guard (is_dict v) (PromotionError ''npm package manifest must be an object''))
               (Inr (dict_of v))))))"

definition manifest_version :: "(string \<Rightarrow> tar_member list option) \<Rightarrow> PackageArtifact \<Rightarrow> string res" where
  "manifest_version tar p =
     ebind (npm_package_json tar (pa_body p)) (\<lambda>manifest.
     checked (guard (is_match ALPHA (dget manifest ''version''))
       (PromotionError ''candidate package version is malformed''))
     (Inr (str_of (dget manifest ''version''))))"

section \<open>Registry checks\<close>

definition package_map :: "Candidate \<Rightarrow> (string \<times> PackageArtifact) list res" where
  "package_map c =
     (if map pa_name (c_packages c) = PACKAGE_ORDER then Inr (map (\<lambda>p. (pa_name p, p)) (c_packages c))
      else Inl (PromotionError ''candidate npm package inventory is not closed or ordered''))"

definition require_owners :: "RegistryPackage \<Rightarrow> Lineage \<Rightarrow> check" where
  "require_owners state lineage =
     guard (set (rp_owners state) = set (ln_owners lineage) \<and>
        length (rp_owners state) = length (ln_owners lineage))
       (PromotionError ''npm registry package ownership differs from authority'')"

definition require_latest :: "'w boundary \<Rightarrow> Lineage \<Rightarrow> ('w, RegistryPackage) action" where
  "require_latest b lineage =
     act_bind (act_outside (registry_package b META_PACKAGE)) (\<lambda>found.
     case found of
       None \<Rightarrow> act_raise (PromotionError ''the stable npm meta package is missing'')
     | Some state \<Rightarrow>
         act_of (checked (first_failure [
           require_owners state lineage,
           guard (map_of (rp_tags state) ''latest'' = Some (ln_latest lineage))
             (PromotionError ''the stable npm latest tag drifted from authority'')]) (Inr state)))"

definition same_dict :: "(string \<times> string) list \<Rightarrow> (string \<times> string) list \<Rightarrow> bool" where
  "same_dict d d' \<longleftrightarrow> length d = length d' \<and> list_all (\<lambda>(k, v). map_of d' k = Some v) d"

definition public_version_check :: "PackageArtifact \<Rightarrow> string \<Rightarrow> RegistryPackage \<Rightarrow> RegistryVersion \<Rightarrow> check" where
  "public_version_check p package_version state v = first_failure [
     guard (rv_name v = pa_name p \<and> rv_version v = package_version \<and> rv_shasum v = pa_shasum p \<and>
        rv_integrity v = pa_integrity p \<and> rv_provenance v = Some PROVENANCE_PREDICATE)
       (PromotionError ''npm registry integrity or provenance differs from admitted publication''),
     guard (map_of (rp_tags state) ALPHA_TAG = Some package_version)
       (PromotionError ''the npm alpha tag does not select the exact cohort'')]"

definition public_body_check :: "PackageArtifact \<Rightarrow> string \<Rightarrow> RegistryVersion \<Rightarrow> string \<Rightarrow> check" where
  "public_body_check p package_version v body = first_failure [
     guard (body = pa_body p \<and> sha1_hex body = pa_shasum p \<and>
        ''sha512-'' @ b64encode (sha512 body) = pa_integrity p)
       (PromotionError ''downloaded npm package bytes differ from the admitted tarball''),
     guard (pa_role p \<noteq> ''meta'' \<or> (case rv_optional_dependencies v of None \<Rightarrow> False
        | Some d \<Rightarrow> same_dict d (map (\<lambda>name. (name, package_version)) PLATFORM_PACKAGES)))
       (PromotionError ''published meta dependencies differ from the exact cohort'')]"

definition verify_public_package :: "'w boundary \<Rightarrow> PackageArtifact \<Rightarrow> Lineage \<Rightarrow> ('w, string) action" where
  "verify_public_package b p lineage =
     act_bind (act_outside (registry_package b (pa_name p))) (\<lambda>found.
     case found of
       None \<Rightarrow> act_raise (PromotionError ''an expected npm package is not public'')
     | Some state \<Rightarrow>
         act_bind (act_of (checked (require_owners state lineage)
           (manifest_version (open_tar b) p))) (\<lambda>package_version.
         case map_of (rp_versions state) package_version of
           None \<Rightarrow> act_raise (PromotionError ''the expected npm package version is not public'')
         | Some v \<Rightarrow>
             act_then (act_check (public_version_check p package_version state v))
             (act_bind (act_outside (registry_tarball b (rv_tarball_url v))) (\<lambda>body.
              act_then (act_check (public_body_check p package_version v body))
              (act_return (rv_integrity v))))))"

definition require_unused :: "RegistryPackage option \<Rightarrow> string \<Rightarrow> check" where
  "require_unused state version =
     guard (case state of None \<Rightarrow> True | Some s \<Rightarrow> map_of (rp_versions s) version = None)
       (PromotionError ''the exact npm version already exists; version reuse is forbidden'')"

section \<open>Marks on the settlement\<close>

fun update_first :: "string \<Rightarrow> (package_entry \<Rightarrow> package_entry) \<Rightarrow> package_entry list \<Rightarrow> package_entry list" where
  "update_first name f [] = []"
| "update_first name f (e # es) = (if pe_name e = name then f e # es else e # update_first name f es)"

text \<open>\<open>item = _settlement_entry(settlement, name)\<close> followed by an update of \<open>item\<close>.\<close>

definition settlement_entry :: "string \<Rightarrow> (package_entry \<Rightarrow> package_entry) \<Rightarrow> ('w, unit) action" where
  "settlement_entry name f =
     act_bind (act_get (\<lambda>s. map pe_name (s_packages s))) (\<lambda>names.
       if name \<in> set names then act_update (\<lambda>s. s\<lparr>s_packages := update_first name f (s_packages s)\<rparr>)
       else act_raise (PromotionError ''settlement package inventory is incomplete''))"

definition mark_verified :: "'w boundary \<Rightarrow> string \<Rightarrow> string \<Rightarrow> ('w, unit) action" where
  "mark_verified b name integrity =
     act_then (settlement_entry name (\<lambda>e. e\<lparr>pe_action := ''verify'', pe_outcome := ''verified'',
        pe_registry := Some integrity, pe_provenance := Some PROVENANCE_PREDICATE\<rparr>))
     (write_settlement b)"

definition mark_published :: "'w boundary \<Rightarrow> string \<Rightarrow> string \<Rightarrow> ('w, unit) action" where
  "mark_published b name integrity =
     act_then (settlement_entry name (\<lambda>e. e\<lparr>pe_outcome := ''published'',
        pe_registry := Some integrity, pe_provenance := Some PROVENANCE_PREDICATE\<rparr>))
     (write_settlement b)"

definition set_status :: "string \<Rightarrow> ('w, unit) action" where
  "set_status status = act_update (\<lambda>s. s\<lparr>s_status := status\<rparr>)"

text \<open>The status of a run that stops: a publish attempt makes it a partial publication.\<close>

definition stopped_status :: "settlement \<Rightarrow> string" where
  "stopped_status s =
     (if list_ex (\<lambda>e. pe_attempted e \<and> pe_action e = ''publish'') (s_packages s)
      then ''partial-publication'' else ''failed'')"

definition reauthenticate_attested_bytes :: "'w boundary \<Rightarrow> Candidate \<Rightarrow> ('w, unit) action" where
  "reauthenticate_attested_bytes b c =
     act_bind (act_get (\<lambda>s. as_status (s_attestations s))) (\<lambda>status.
     if status \<noteq> ''verified''
     then act_raise (PromotionError ''GitHub artifact attestations are not settled'')
     else act_catch (act_outside (reauthenticate_assets b c)) (\<lambda>e.
       act_then (act_update (\<lambda>s. s\<lparr>s_attestations := (s_attestations s)\<lparr>as_status := ''failed'',
           as_bytes := False\<rparr>, s_status := stopped_status s\<rparr>))
       (act_then (write_settlement b) (act_raise e))))"

definition fail_with :: "'w boundary \<Rightarrow> string \<Rightarrow> exn \<Rightarrow> ('w, 'a) action" where
  "fail_with b status e = act_then (set_status status) (act_then (write_settlement b) (act_raise e))"

definition attempt :: "'w boundary \<Rightarrow> Candidate \<Rightarrow> string \<Rightarrow> PackageArtifact \<Rightarrow> ('w, int) action" where
  "attempt b c operation p =
     act_then (reauthenticate_attested_bytes b c)
     (act_then (settlement_entry (pa_name p) (\<lambda>e. e\<lparr>pe_attempted := True, pe_action := operation,
        pe_outcome := ''ambiguous''\<rparr>))
     (act_then (set_status ''in-progress'')
     (act_then (write_settlement b)
     (act_then (act_log (Mutated operation (pa_name p)))
     (act_catch (act_outside (npm_mutate b operation p))
       (fail_with b (if operation = ''publish'' then ''partial-publication'' else ''ambiguous'')))))))"

definition bind_npm_toolchain :: "'w boundary \<Rightarrow> ('w, unit) action" where
  "bind_npm_toolchain b =
     act_bind (act_outside (npm_toolchain b)) (\<lambda>identity.
     act_then (act_update (\<lambda>s. s\<lparr>s_toolchain := identity\<rparr>)) (write_settlement b))"

section \<open>The four operations\<close>

definition require_npm :: "bool \<Rightarrow> check" where
  "require_npm npm = guard npm (PromotionError ''npm mutation boundary is unavailable'')"

text \<open>\<open>packages[name]\<close> for the map of the candidate; its keys are the package names.\<close>

definition package_named :: "Candidate \<Rightarrow> string \<Rightarrow> PackageArtifact res" where
  "package_named c name = (case map_of (map (\<lambda>p. (pa_name p, p)) (c_packages c)) name of
     None \<Rightarrow> Inl KeyErr | Some p \<Rightarrow> Inr p)"

definition publish_one :: "'w boundary \<Rightarrow> Candidate \<Rightarrow> Lineage \<Rightarrow> string \<Rightarrow> ('w, unit) action" where
  "publish_one b c lineage name =
     act_bind (act_of (package_named c name)) (\<lambda>p.
     act_bind (attempt b c ''publish'' p) (\<lambda>_.
     act_bind (act_catch (verify_public_package b p lineage) (\<lambda>e.
        act_then (settlement_entry name (\<lambda>e. e\<lparr>pe_outcome := ''ambiguous''\<rparr>))
        (fail_with b ''partial-publication'' e))) (\<lambda>integrity.
     act_then (mark_published b name integrity)
     (act_bind (require_latest b lineage) (\<lambda>_. act_return ())))))"

definition verify_and :: "'w boundary \<Rightarrow> Candidate \<Rightarrow> Lineage \<Rightarrow> (string \<Rightarrow> string \<Rightarrow> ('w, unit) action) \<Rightarrow>
    string \<Rightarrow> ('w, unit) action" where
  "verify_and b c lineage mark name =
     act_bind (act_of (package_named c name)) (\<lambda>p.
     act_bind (verify_public_package b p lineage) (\<lambda>integrity. mark name integrity))"

definition bootstrap :: "'w boundary \<Rightarrow> bool \<Rightarrow> Candidate \<Rightarrow> Lineage \<Rightarrow> RegistryPackage \<Rightarrow> ('w, unit) action" where
  "bootstrap b npm c lineage meta_state =
     act_then (act_check (require_unused (Some meta_state) (c_version c)))
     (act_then (for_each (\<lambda>name. act_bind (act_outside (registry_package b name)) (\<lambda>state.
        act_check (guard (state = None)
          (PromotionError ''bootstrap requires every platform package name to be unpublished''))))
        PLATFORM_PACKAGES)
     (act_then (act_check (require_npm npm))
     (act_then (bind_npm_toolchain b)
     (act_then (for_each (publish_one b c lineage) PLATFORM_PACKAGES)
     (act_then (for_each (verify_and b c lineage (mark_published b)) PLATFORM_PACKAGES)
     (act_then (publish_one b c lineage META_PACKAGE)
     (act_then (set_status ''npm-settled'') (write_settlement b))))))))"

definition stage_attempt :: "'w boundary \<Rightarrow> Candidate \<Rightarrow> string \<Rightarrow> ('w, unit) action" where
  "stage_attempt b c name =
     act_bind (act_of (package_named c name)) (\<lambda>p.
     act_bind (attempt b c ''stage'' p) (\<lambda>returncode.
     if returncode \<noteq> 0 then
       act_then (settlement_entry name (\<lambda>e. e\<lparr>pe_outcome := ''ambiguous''\<rparr>))
       (fail_with b ''ambiguous'' (PromotionError (''npm did not confirm '' @
          (if name = META_PACKAGE then ''meta '' else []) @
          ''staging; do not retry or auto-approve this version'')))
     else settlement_entry name (\<lambda>e. e\<lparr>pe_outcome := ''staged''\<rparr>)))"

definition stage_platforms ::
  "'w boundary \<Rightarrow> bool \<Rightarrow> Candidate \<Rightarrow> Lineage \<Rightarrow> RegistryPackage \<Rightarrow> ('w, unit) action" where
  "stage_platforms b npm c lineage meta_state =
     act_then (act_check (require_unused (Some meta_state) (c_version c)))
     (act_then (for_each (\<lambda>name. act_bind (act_outside (registry_package b name)) (\<lambda>found.
        case found of
          None \<Rightarrow> act_raise (PromotionError
            ''staged publication requires every platform package to exist already'')
        | Some state \<Rightarrow> act_check (first_failure [require_owners state lineage,
            require_unused (Some state) (c_version c)]))) PLATFORM_PACKAGES)
     (act_then (act_check (require_npm npm))
     (act_then (bind_npm_toolchain b)
     (act_then (for_each (\<lambda>name. act_then (stage_attempt b c name) (write_settlement b)) PLATFORM_PACKAGES)
     (act_then (set_status ''awaiting-platform-approval'') (write_settlement b))))))"

definition stage_meta ::
  "'w boundary \<Rightarrow> bool \<Rightarrow> Candidate \<Rightarrow> Lineage \<Rightarrow> RegistryPackage \<Rightarrow> ('w, unit) action" where
  "stage_meta b npm c lineage meta_state =
     act_then (act_check (require_unused (Some meta_state) (c_version c)))
     (act_then (for_each (verify_and b c lineage (mark_verified b)) PLATFORM_PACKAGES)
     (act_then (act_check (require_npm npm))
     (act_then (bind_npm_toolchain b)
     (act_then (stage_attempt b c META_PACKAGE)
     (act_then (set_status ''awaiting-meta-approval'') (write_settlement b))))))"

definition settle_and_promote :: "'w boundary \<Rightarrow> Candidate \<Rightarrow> Lineage \<Rightarrow> ('w, unit) action" where
  "settle_and_promote b c lineage =
     act_then (for_each (verify_and b c lineage (mark_verified b)) PACKAGE_ORDER)
     (act_bind (require_latest b lineage) (\<lambda>_.
     act_then (reauthenticate_attested_bytes b c)
     (act_then (act_update (\<lambda>s. s\<lparr>s_promotion_attempted := True, s_github_outcome := ''ambiguous'',
        s_status := ''in-progress''\<rparr>))
     (act_then (write_settlement b)
     (act_then (act_log Promoted)
     (act_then (act_catch (act_outside (github_promote b c)) (fail_with b ''ambiguous''))
     (act_then (act_update (\<lambda>s. s\<lparr>s_promoted := True, s_github_outcome := ''promoted'',
        s_status := ''complete''\<rparr>))
     (write_settlement b))))))))"

definition transition_body :: "'w boundary \<Rightarrow> bool \<Rightarrow> string \<Rightarrow> Candidate \<Rightarrow> Lineage \<Rightarrow> ('w, unit) action" where
  "transition_body b npm operation c lineage =
     act_bind (require_latest b lineage) (\<lambda>meta_state.
     if operation = ''bootstrap'' then bootstrap b npm c lineage meta_state
     else if operation = ''stage-platforms'' then stage_platforms b npm c lineage meta_state
     else if operation = ''stage-meta'' then stage_meta b npm c lineage meta_state
     else settle_and_promote b c lineage)"

definition transition_handler :: "'w boundary \<Rightarrow> exn \<Rightarrow> ('w, unit) action" where
  "transition_handler b e =
     act_bind (act_get s_status) (\<lambda>status.
     if status \<in> {''ambiguous'', ''partial-publication''} then act_raise e
     else act_then (act_update (\<lambda>s. s\<lparr>s_status := stopped_status s\<rparr>))
       (act_then (write_settlement b) (act_raise e)))"

section \<open>The transition\<close>

definition prepare_settlement ::
  "'w boundary \<Rightarrow> string \<Rightarrow> Candidate \<Rightarrow> Lineage \<Rightarrow> pydict \<Rightarrow> string \<Rightarrow> int \<Rightarrow> int \<Rightarrow> 'w \<Rightarrow> settlement res \<times> 'w" where
  "prepare_settlement b operation c lineage evidence digest run_id run_attempt w =
     (case checked (first_failure [
         guard (operation \<in> set OPERATIONS) (PromotionError ''promotion operation is unsupported''),
         check_of (package_map c),
         refuse_attempted_retry (existing_settlement b w),
         check_of (validate_attestation_evidence (PDict evidence) (Some c) (Some run_id) (Some run_attempt) None)])
       (Inr ()) of
       Inl e \<Rightarrow> (Inl e, w)
     | Inr _ \<Rightarrow>
         (case now b w of (timestamp, w') \<Rightarrow>
            (ebind (bind_attestation_evidence
               (new_settlement operation c lineage (dict_of (dget evidence ''draftAuthority'')) timestamp)
               c evidence digest run_id run_attempt) (\<lambda>s. Inr (s\<lparr>s_status := ''in-progress''\<rparr>)), w')))"

definition guarded_body :: "'w boundary \<Rightarrow> bool \<Rightarrow> string \<Rightarrow> Candidate \<Rightarrow> Lineage \<Rightarrow> ('w, unit) action" where
  "guarded_body b npm operation c lineage =
     act_then (write_settlement b) (act_catch (transition_body b npm operation c lineage) (transition_handler b))"

record 'w transition_result =
  tr_result :: "settlement res"
  tr_world :: 'w
  tr_events :: "event list"

definition execute_transition ::
  "'w boundary \<Rightarrow> bool \<Rightarrow> string \<Rightarrow> Candidate \<Rightarrow> Lineage \<Rightarrow> pydict \<Rightarrow> string \<Rightarrow> int \<Rightarrow> int \<Rightarrow> 'w \<Rightarrow>
    'w transition_result" where
  "execute_transition b npm operation c lineage evidence digest run_id run_attempt w =
     (case prepare_settlement b operation c lineage evidence digest run_id run_attempt w of
        (Inl e, w') \<Rightarrow> \<lparr>tr_result = Inl e, tr_world = w', tr_events = []\<rparr>
      | (Inr s, w') \<Rightarrow>
          (case guarded_body b npm operation c lineage \<lparr>world = w', live = s, events = []\<rparr> of (r, st) \<Rightarrow>
             \<lparr>tr_result = ebind r (\<lambda>_. Inr (live st)), tr_world = world st, tr_events = events st\<rparr>))"

end
