(* ===== verification/Promotion_Valid.thy ===== *)
theory Promotion_Valid
  imports Promotion_Transition
begin

text \<open>
  When a live settlement passes \<open>validate_settlement\<close>: the conditions on the fields that never change
  during a transition (\<open>frame_ok\<close>), on the attestations, on each package entry and on the status,
  each stated over the records, and the settlements a transition reaches satisfy them.
\<close>

section \<open>Reading the dictionaries\<close>

lemma settlement_get [simp]:
  "dget (settlement_dict s) ''schema'' = PStr SCHEMA"
  "dget (settlement_dict s) ''operation'' = PStr (s_operation s)"
  "dget (settlement_dict s) ''status'' = PStr (s_status s)"
  "dget (settlement_dict s) ''version'' = PStr (s_version s)"
  "dget (settlement_dict s) ''sourceSha'' = PStr (s_source_sha s)"
  "dget (settlement_dict s) ''repository'' = PStr (s_repository s)"
  "dget (settlement_dict s) ''releaseId'' = PInt (s_release_id s)"
  "dget (settlement_dict s) ''tag'' = PStr (s_tag s)"
  "dget (settlement_dict s) ''registry'' = PStr REGISTRY"
  "dget (settlement_dict s) ''stableLatest'' = PStr (s_latest s)"
  "dget (settlement_dict s) ''alphaTag'' = PStr ALPHA_TAG"
  "dget (settlement_dict s) ''assemblySha256'' = PStr (s_assembly s)"
  "dget (settlement_dict s) ''draftAuthority'' = PDict (s_authority s)"
  "dget (settlement_dict s) ''startedAt'' = PStr (s_started s)"
  "dget (settlement_dict s) ''updatedAt'' = PStr (s_updated s)"
  "dget (settlement_dict s) ''githubArtifactAttestations'' = PDict (attestation_dict (s_attestations s))"
  "dget (settlement_dict s) ''npmMutationToolchain'' = s_toolchain s"
  "dget (settlement_dict s) ''packages'' = PList (map (\<lambda>e. PDict (package_dict e)) (s_packages s))"
  by (simp_all add: settlement_dict_def)

definition github_dict :: "settlement \<Rightarrow> pydict" where
  "github_dict s = [(''draftVerified'', PBool (s_draft_verified s)),
     (''promotionAttempted'', PBool (s_promotion_attempted s)), (''promoted'', PBool (s_promoted s)),
     (''outcome'', PStr (s_github_outcome s))]"

lemma settlement_get_github [simp]: "dget (settlement_dict s) ''github'' = PDict (github_dict s)"
  by (simp add: settlement_dict_def github_dict_def)

lemma github_get [simp]:
  "dget (github_dict s) ''draftVerified'' = PBool (s_draft_verified s)"
  "dget (github_dict s) ''promotionAttempted'' = PBool (s_promotion_attempted s)"
  "dget (github_dict s) ''promoted'' = PBool (s_promoted s)"
  "dget (github_dict s) ''outcome'' = PStr (s_github_outcome s)"
  by (simp_all add: github_dict_def)

lemma attestation_get [simp]:
  "dget (attestation_dict a) ''status'' = PStr (as_status a)"
  "dget (attestation_dict a) ''repository'' = PStr (as_repository a)"
  "dget (attestation_dict a) ''sourceSha'' = PStr (as_source_sha a)"
  "dget (attestation_dict a) ''sourceRef'' = PStr ''refs/heads/main''"
  "dget (attestation_dict a) ''predicateType'' = PStr PROVENANCE_PREDICATE"
  "dget (attestation_dict a) ''signerWorkflow'' = PStr (as_repository a @ ''/'' @ SIGNER_WORKFLOW_PATH)"
  "dget (attestation_dict a) ''signerDigest'' = PStr (as_source_sha a)"
  "dget (attestation_dict a) ''expectedAssetCount'' = PInt (int (as_expected a))"
  "dget (attestation_dict a) ''verifiedAssetCount'' = PInt (int (as_verified a))"
  "dget (attestation_dict a) ''bytesReauthenticated'' = PBool (as_bytes a)"
  "dget (attestation_dict a) ''workflowRunId'' = py_opt PInt (as_run_id a)"
  "dget (attestation_dict a) ''workflowRunAttempt'' = py_opt PInt (as_run_attempt a)"
  "dget (attestation_dict a) ''evidenceSha256'' = py_opt PStr (as_evidence a)"
  "dget (attestation_dict a) ''tool'' = as_tool a"
  "dget (attestation_dict a) ''assets'' = PList (map (\<lambda>x. PDict (asset_dict x)) (as_assets a))"
  by (simp_all add: attestation_dict_def)

lemma package_get [simp]:
  "dget (package_dict e) ''name'' = PStr (pe_name e)"
  "dget (package_dict e) ''role'' = PStr (pe_role e)"
  "dget (package_dict e) ''artifact'' = PStr (pe_artifact e)"
  "dget (package_dict e) ''sha256'' = PStr (pe_sha256 e)"
  "dget (package_dict e) ''shasum'' = PStr (pe_shasum e)"
  "dget (package_dict e) ''integrity'' = PStr (pe_integrity e)"
  "dget (package_dict e) ''attempted'' = PBool (pe_attempted e)"
  "dget (package_dict e) ''action'' = PStr (pe_action e)"
  "dget (package_dict e) ''outcome'' = PStr (pe_outcome e)"
  "dget (package_dict e) ''registryIntegrity'' = py_opt PStr (pe_registry e)"
  "dget (package_dict e) ''provenancePredicateType'' = py_opt PStr (pe_provenance e)"
  by (simp_all add: package_dict_def)

lemma asset_get [simp]:
  "dget (asset_dict a) ''name'' = PStr (ae_name a)"
  "dget (asset_dict a) ''byteLength'' = PInt (ae_byte_length a)"
  "dget (asset_dict a) ''sha256'' = PStr (ae_sha256 a)"
  "dget (asset_dict a) ''outcome'' = PStr (ae_outcome a)"
  by (simp_all add: asset_dict_def)

lemma exact_dicts [simp]:
  "exact_object (PDict (settlement_dict s)) SETTLEMENT_FIELDS label = Inr (settlement_dict s)"
  "exact_object (PDict (github_dict s)) GITHUB_SETTLEMENT_FIELDS label = Inr (github_dict s)"
  "exact_object (PDict (attestation_dict a)) ATTESTATION_SETTLEMENT_FIELDS label = Inr (attestation_dict a)"
  "exact_object (PDict (package_dict e)) PACKAGE_SETTLEMENT_FIELDS label = Inr (package_dict e)"
  "exact_object (PDict (asset_dict x)) ATTESTATION_ASSET_FIELDS label = Inr (asset_dict x)"
  by (simp_all add: exact_object_def keys_are_def settlement_dict_def SETTLEMENT_FIELDS_def github_dict_def
      GITHUB_SETTLEMENT_FIELDS_def attestation_dict_def ATTESTATION_SETTLEMENT_FIELDS_def package_dict_def
      PACKAGE_SETTLEMENT_FIELDS_def asset_dict_def ATTESTATION_ASSET_FIELDS_def)

lemma py_opt_None [simp]:
  "py_opt PStr v = PNone \<longleftrightarrow> v = None" "py_opt PInt w = PNone \<longleftrightarrow> w = None"
  "PNone = py_opt PStr v \<longleftrightarrow> v = None" "PNone = py_opt PInt w \<longleftrightarrow> w = None"
  by (cases v; cases w; simp)+

lemma py_opt_Str [simp]: "py_opt PStr v = PStr x \<longleftrightarrow> v = Some x"
  by (cases v) auto

lemma checked_Inr [simp]: "check_of (checked c (Inr x)) = c"
  by (cases c) simp_all

section \<open>Conditions on the records\<close>

text \<open>What never changes during a transition, for the asset names \<open>names\<close> of the version.\<close>

definition frame_entry :: "settlement \<Rightarrow> string \<Rightarrow> package_entry \<Rightarrow> bool" where
  "frame_entry s name e \<longleftrightarrow>
     pe_name e = name \<and> pe_role e = package_role name \<and>
     pe_artifact e = package_artifact (s_version s) name \<and> SAFE_ARTIFACT (pe_artifact e) \<and>
     SHA256 (pe_sha256 e) \<and> SHA1 (pe_shasum e) \<and> INTEGRITY (pe_integrity e) \<and>
     (\<exists>a \<in> set (as_assets (s_attestations s)). ae_name a = pe_artifact e \<and> ae_sha256 a = pe_sha256 e)"

definition frame_ok :: "string list \<Rightarrow> settlement \<Rightarrow> bool" where
  "frame_ok names s \<longleftrightarrow>
     s_operation s \<in> set OPERATIONS \<and> ALPHA (s_version s) \<and> FULL_SHA (s_source_sha s) \<and>
     REPOSITORY (s_repository s) \<and> 0 < s_release_id s \<and> s_tag s = ''cli-v'' @ s_version s \<and>
     SHA256 (s_assembly s) \<and> expected_asset_names (s_version s) = Inr names \<and> distinct names \<and>
     as_repository (s_attestations s) = s_repository s \<and> as_source_sha (s_attestations s) = s_source_sha s \<and>
     as_expected (s_attestations s) = length names \<and> map ae_name (as_assets (s_attestations s)) = names \<and>
     (\<forall>a \<in> set (as_assets (s_attestations s)). 1 \<le> ae_byte_length a \<and>
        ae_byte_length a \<le> MAX_ALPHA_ASSET_BYTES \<and> SHA256 (ae_sha256 a)) \<and>
     validate_draft_authority_identity (PDict (s_authority s)) (s_source_sha s)
        (map (\<lambda>x. PDict (asset_dict x)) (as_assets (s_attestations s))) = Inr (s_authority s) \<and>
     (\<exists>a \<in> set (as_assets (s_attestations s)). ae_name a = ''SHA256SUMS'' \<and> ae_sha256 a = s_assembly s) \<and>
     list_all2 (frame_entry s) PACKAGE_ORDER (s_packages s) \<and> s_draft_verified s"

text \<open>The attestations are bound to evidence; \<open>again\<close> says whether the bytes are still the attested ones.\<close>

definition attested :: "bool \<Rightarrow> settlement \<Rightarrow> bool" where
  "attested again s \<longleftrightarrow> (let a = s_attestations s in
     as_status a = (if again then ''verified'' else ''failed'') \<and> as_bytes a = again \<and>
     as_verified a = length (as_assets a) \<and> (\<forall>x \<in> set (as_assets a). ae_outcome x = ''verified'') \<and>
     (\<exists>r. as_run_id a = Some r \<and> 0 < r) \<and> (\<exists>r. as_run_attempt a = Some r \<and> 0 < r) \<and>
     (\<exists>d. as_evidence a = Some d \<and> SHA256 d) \<and>
     (\<exists>t. as_tool a = PDict t \<and> validate_attestation_tool (PDict t) = Inr t))"

definition entry_ok :: "package_entry \<Rightarrow> bool" where
  "entry_ok e \<longleftrightarrow>
     (pe_action e = ''none'' \<and> \<not> pe_attempted e \<and> pe_outcome e = ''not-attempted'' \<and>
        pe_registry e = None \<and> pe_provenance e = None) \<or>
     (pe_action e = ''verify'' \<and> \<not> pe_attempted e \<and> pe_outcome e = ''verified'' \<and>
        pe_registry e = Some (pe_integrity e) \<and> pe_provenance e = Some PROVENANCE_PREDICATE) \<or>
     (pe_action e = ''publish'' \<and> pe_attempted e \<and> pe_outcome e = ''published'' \<and>
        pe_registry e = Some (pe_integrity e) \<and> pe_provenance e = Some PROVENANCE_PREDICATE) \<or>
     (pe_action e \<in> {''publish'', ''stage''} \<and> pe_attempted e \<and> pe_outcome e = ''ambiguous'' \<and>
        pe_registry e = None \<and> pe_provenance e = None) \<or>
     (pe_action e = ''stage'' \<and> pe_attempted e \<and> pe_outcome e = ''staged'' \<and>
        pe_registry e = None \<and> pe_provenance e = None)"

definition toolchain_ok :: "settlement \<Rightarrow> bool" where
  "toolchain_ok s \<longleftrightarrow> toolchain_check (s_toolchain s) = None \<and>
     (s_operation s = ''settle-and-promote'' \<longrightarrow> s_toolchain s = PNone) \<and>
     (list_ex pe_attempted (s_packages s) \<longrightarrow> s_toolchain s \<noteq> PNone)"

definition github_ok :: "settlement \<Rightarrow> bool" where
  "github_ok s \<longleftrightarrow> (s_github_outcome s, s_promotion_attempted s, s_promoted s) \<in>
     {(''not-attempted'', False, False), (''ambiguous'', True, False), (''promoted'', True, True)}"

definition coherent :: "settlement \<Rightarrow> bool" where
  "coherent s \<longleftrightarrow>
     s_status s \<in> set settlement_statuses \<and>
     operation_exact (s_operation s) (map package_dict (s_packages s)) (s_toolchain s) (github_dict s) \<and>
     status_coherent (s_operation s) (s_status s) (as_status (s_attestations s))
       (map package_dict (s_packages s)) (s_toolchain s) (github_dict s)"

definition accepted :: "settlement \<Rightarrow> bool" where
  "accepted s \<longleftrightarrow> validate_settlement (PDict (settlement_dict s)) = Inr (settlement_dict s)"

section \<open>They suffice\<close>

lemma asset_by_name_found:
  assumes "distinct (map ae_name as)" "a \<in> set as"
  shows "asset_by_name (map (\<lambda>x. PDict (asset_dict x)) as) (ae_name a) = Some (PDict (asset_dict a))"
proof -
  let ?kv = "map (\<lambda>x. (ae_name x, PDict (asset_dict x))) as"
  have "distinct (map fst (rev ?kv))" using assms(1) by (simp add: rev_map [symmetric] comp_def)
  moreover have "(ae_name a, PDict (asset_dict a)) \<in> set (rev ?kv)" using assms(2) by auto
  ultimately have "map_of (rev ?kv) (ae_name a) = Some (PDict (asset_dict a))"
    by (rule map_of_is_SomeI)
  then show ?thesis by (simp add: asset_by_name_def comp_def)
qed

lemma first_failure_None: "(\<And>c. c \<in> set cs \<Longrightarrow> c = None) \<Longrightarrow> first_failure cs = None"
  by (auto simp: first_failure_eq_None)

lemma count_outcome_all:
  "\<forall>x \<in> set as. ae_outcome x = ''verified'' \<Longrightarrow>
     count_outcome ''verified'' (map (\<lambda>x. PDict (asset_dict x)) as) = length as \<and>
     count_outcome ''failed'' (map (\<lambda>x. PDict (asset_dict x)) as) = 0"
  by (induction as) (auto simp: count_outcome_def)

lemma map2_checks:
  "list_all2 (\<lambda>x y. f x (g y) = None) xs ys \<Longrightarrow> c \<in> set (map2 f xs (map g ys)) \<Longrightarrow> c = None"
  by (auto simp: list_all2_iff zip_map2)

lemma attestation_asset_ok:
  assumes "ae_name x = name" "1 \<le> ae_byte_length x" "ae_byte_length x \<le> MAX_ALPHA_ASSET_BYTES"
    "SHA256 (ae_sha256 x)" "ae_outcome x = ''verified''"
  shows "attestation_asset_check name (PDict (asset_dict x)) = None"
  using assms by (simp add: attestation_asset_check_def Let_def int_between_def is_match_def hashable_def)

lemma frame_attestation_checks:
  assumes f: "frame_ok names s" and a: "attested again s"
  shows "first_failure (attestation_checks (settlement_dict s) (attestation_dict (s_attestations s)) names) = None"
proof (rule first_failure_None)
  let ?as = "as_assets (s_attestations s)"
  fix c assume c: "c \<in> set (attestation_checks (settlement_dict s) (attestation_dict (s_attestations s)) names)"
  have names: "map ae_name ?as = names" "distinct (map ae_name ?as)" "length ?as = length names"
    using f by (auto simp: frame_ok_def)
  have counts: "count_outcome ''verified'' (map (\<lambda>x. PDict (asset_dict x)) ?as) = length ?as"
    "count_outcome ''failed'' (map (\<lambda>x. PDict (asset_dict x)) ?as) = 0"
    using a count_outcome_all [of ?as] by (auto simp: attested_def Let_def)
  obtain r r' g t where bound: "as_run_id (s_attestations s) = Some r" "0 < r"
    "as_run_attempt (s_attestations s) = Some r'" "0 < r'" "as_evidence (s_attestations s) = Some g" "SHA256 g"
    "as_tool (s_attestations s) = PDict t" "validate_attestation_tool (PDict t) = Inr t"
    using a unfolding attested_def Let_def by blast
  have status: "as_status (s_attestations s) = (if again then ''verified'' else ''failed'')"
    "as_bytes (s_attestations s) = again" "as_verified (s_attestations s) = length ?as"
    using a by (simp_all add: attested_def Let_def)
  have frame: "as_repository (s_attestations s) = s_repository s" "as_source_sha (s_attestations s) = s_source_sha s"
    "as_expected (s_attestations s) = length names"
    using f by (simp_all add: frame_ok_def)
  have id: "attestation_identity_check (settlement_dict s) (attestation_dict (s_attestations s)) (length names) = None"
    using bound status frame names(3)
    by (simp add: attestation_identity_check_def Let_def hashable_def optional_value_def positive_int_def
      is_match_def evidence_values_def)
  have each: "list_all2 (\<lambda>n x. attestation_asset_check n (PDict (asset_dict x)) = None) names ?as"
  proof (rule list_all2_all_nthI)
    fix i assume "i < length names"
    then have "ae_name (?as ! i) = names ! i" "?as ! i \<in> set ?as" using names by (metis nth_map, simp)
    then show "attestation_asset_check (names ! i) (PDict (asset_dict (?as ! i))) = None"
      using f a by (intro attestation_asset_ok) (auto simp: frame_ok_def attested_def Let_def)
  qed (simp add: names)
  obtain m where m: "m \<in> set ?as" "ae_name m = ''SHA256SUMS''" "ae_sha256 m = s_assembly s"
    using f by (auto simp: frame_ok_def)
  have "asset_by_name (map (\<lambda>x. PDict (asset_dict x)) ?as) ''SHA256SUMS'' = Some (PDict (asset_dict m))"
    using asset_by_name_found [OF names(2) m(1)] m(2) by simp
  then have assembly: "assembly_digest_check (settlement_dict s) (map (\<lambda>x. PDict (asset_dict x)) ?as) = None"
    using m by (simp add: assembly_digest_check_def)
  have tool: "attestation_tool_check (as_tool (s_attestations s)) = None"
    using bound by (simp add: attestation_tool_check_def)
  have state: "attestation_state_check (attestation_dict (s_attestations s)) (map (\<lambda>x. PDict (asset_dict x)) ?as) (length names) = None"
    using bound status counts names by (simp add: attestation_state_check_def Let_def evidence_values_def)
  have authority: "check_of (validate_draft_authority_identity (PDict (s_authority s)) (s_source_sha s)
      (map (\<lambda>x. PDict (asset_dict x)) ?as)) = None"
    using f by (simp add: frame_ok_def)
  show "c = None"
    using c id map2_checks [of attestation_asset_check "\<lambda>x. PDict (asset_dict x)" names ?as, OF each] assembly tool state authority counts(1) status(3)
    by (auto simp: attestation_checks_def Let_def)
qed

lemma optional_integrity [simp]: "optional_value (is_match INTEGRITY) (py_opt PStr v) \<longleftrightarrow> (\<forall>x. v = Some x \<longrightarrow> INTEGRITY x)"
  by (cases v) (auto simp: optional_value_def is_match_def)

lemma entry_identity_ok:
  assumes "pe_role e = package_role (pe_name e)" "SAFE_ARTIFACT (pe_artifact e)" "SHA256 (pe_sha256 e)"
    "SHA1 (pe_shasum e)" "INTEGRITY (pe_integrity e)" "entry_ok e"
  shows "package_identity_check (pe_name e) (package_dict e) = None"
  using assms by (auto simp: package_identity_check_def Let_def is_match_def hashable_def entry_ok_def)

lemma entry_state_ok: "entry_ok e \<Longrightarrow> package_state_check (package_dict e) = None"
  by (auto simp: package_state_check_def Let_def entry_ok_def)

lemma frame_package_check:
  assumes f: "frame_ok names s" and e: "frame_entry s name e" and ok: "entry_ok e"
  shows "package_check (s_version s) (map (\<lambda>x. PDict (asset_dict x)) (as_assets (s_attestations s)))
    name (PDict (package_dict e)) = None"
proof -
  let ?as = "as_assets (s_attestations s)"
  obtain a where a: "a \<in> set ?as" "ae_name a = pe_artifact e" "ae_sha256 a = pe_sha256 e"
    using e by (auto simp: frame_entry_def)
  have "distinct (map ae_name ?as)" using f by (simp add: frame_ok_def)
  then have "asset_by_name (map (\<lambda>x. PDict (asset_dict x)) ?as) (pe_artifact e) = Some (PDict (asset_dict a))"
    using asset_by_name_found [of ?as a] a by simp
  then have artifact: "package_artifact_check (s_version s) name (map (\<lambda>x. PDict (asset_dict x)) ?as) (package_dict e) = None"
    using e a by (simp add: package_artifact_check_def frame_entry_def)
  have identity: "package_identity_check name (package_dict e) = None"
    using entry_identity_ok [of e] e ok by (auto simp: frame_entry_def)
  show ?thesis by (simp add: package_check_def artifact identity entry_state_ok [OF ok])
qed

lemma frame_identity:
  "frame_ok names s \<Longrightarrow> s_status s \<in> set settlement_statuses \<Longrightarrow>
     settlement_identity_check (settlement_dict s) = None"
  by (simp add: frame_ok_def settlement_identity_check_def Let_def hashable_def is_match_def positive_int_def)

lemma attempted_package_dict [simp]: "attempted_package (PDict (package_dict e)) = pe_attempted e"
  by (simp add: attempted_package_def)

lemma frame_tail_checks:
  assumes f: "frame_ok names s" and e: "list_all entry_ok (s_packages s)" and t: "toolchain_ok s"
    and g: "github_ok s" and c: "coherent s"
  shows "first_failure (settlement_tail_checks (settlement_dict s) (attestation_dict (s_attestations s))) = None"
proof (rule first_failure_None)
  let ?as = "map (\<lambda>x. PDict (asset_dict x)) (as_assets (s_attestations s))"
  fix x assume x: "x \<in> set (settlement_tail_checks (settlement_dict s) (attestation_dict (s_attestations s)))"
  have entries: "list_all2 (frame_entry s) PACKAGE_ORDER (s_packages s)" "s_draft_verified s"
    using f by (simp_all add: frame_ok_def)
  have each: "list_all2 (\<lambda>n e. package_check (s_version s) ?as n (PDict (package_dict e)) = None)
      PACKAGE_ORDER (s_packages s)"
  proof (rule list_all2_all_nthI)
    show "length PACKAGE_ORDER = length (s_packages s)" using entries(1) by (rule list_all2_lengthD)
    fix i assume "i < length PACKAGE_ORDER"
    with entries(1) e have "frame_entry s (PACKAGE_ORDER ! i) (s_packages s ! i)" "entry_ok (s_packages s ! i)"
      by (auto simp: list_all2_conv_all_nth list_all_length)
    then show "package_check (s_version s) ?as (PACKAGE_ORDER ! i) (PDict (package_dict (s_packages s ! i))) = None"
      by (rule frame_package_check [OF f])
  qed
  have tool: "toolchain_check (s_toolchain s) = None" using t by (simp add: toolchain_ok_def)
  have state: "toolchain_state_check (settlement_dict s) (map (\<lambda>e. PDict (package_dict e)) (s_packages s)) = None"
    using t by (auto simp: toolchain_state_check_def Let_def toolchain_ok_def list_ex_iff)
  have github: "github_check (github_dict s) = None"
    using g by (auto simp: github_check_def Let_def github_ok_def hashable_def)
  have coh: "validate_settlement_coherence (settlement_dict s) (attestation_dict (s_attestations s))
      (map package_dict (s_packages s)) (s_toolchain s) (github_dict s) = None"
    using c entries(2) by (simp add: validate_settlement_coherence_def coherent_def)
  have len: "length (s_packages s) = length PACKAGE_ORDER" using entries(1) by (simp add: list_all2_lengthD)
  show "x = None"
    using x map2_checks [of "package_check (s_version s) ?as" "\<lambda>e. PDict (package_dict e)" PACKAGE_ORDER
        "s_packages s" x, OF each] tool state github coh len
    by (auto simp: settlement_tail_checks_def Let_def comp_def)
qed

theorem accepted_intro:
  assumes "frame_ok names s" "attested again s" "list_all entry_ok (s_packages s)" "toolchain_ok s"
    "github_ok s" "coherent s"
  shows "accepted s"
proof -
  have "expected_asset_names (s_version s) = Inr names" using assms(1) by (simp add: frame_ok_def)
  moreover have "settlement_identity_check (settlement_dict s) = None"
    using frame_identity [OF assms(1)] assms(6) by (simp add: coherent_def)
  moreover have all: "first_failure (attestation_checks (settlement_dict s) (attestation_dict (s_attestations s)) names @
      settlement_tail_checks (settlement_dict s) (attestation_dict (s_attestations s))) = None"
    using frame_attestation_checks [OF assms(1,2)] frame_tail_checks [OF assms(1,3-6)] by simp
  ultimately show ?thesis by (simp add: accepted_def validate_settlement_def all)
qed

end
