(* ===== verification/Promotion_Shapes.thy ===== *)
theory Promotion_Shapes
  imports Promotion_Valid
begin

text \<open>
  The shapes a live settlement takes during the four operations, each with the statuses that are
  coherent with it: a prefix of the packages is marked, at most one attempt is undecided, and the rest
  is untouched.
\<close>

section \<open>Reading the coherence checks on entries\<close>

lemma coherence_simps [simp]:
  "package_is a t out (package_dict e) \<longleftrightarrow> pe_action e = a \<and> pe_attempted e = t \<and> pe_outcome e = out"
  "action_in as (package_dict e) \<longleftrightarrow> pe_action e \<in> set as"
  "outcome_is out (package_dict e) \<longleftrightarrow> pe_outcome e = out"
  "github_is t p out (github_dict s) \<longleftrightarrow> s_draft_verified s \<and> s_promotion_attempted s = t \<and>
     s_promoted s = p \<and> s_github_outcome s = out"
  by (auto simp: package_is_def action_in_def outcome_is_def github_is_def)

lemma all_packages_map [simp]:
  "all_packages a t out (map package_dict es) \<longleftrightarrow>
     list_all (\<lambda>e. pe_action e = a \<and> pe_attempted e = t \<and> pe_outcome e = out) es"
  by (induction es) (auto simp: all_packages_def)

definition fresh :: "package_entry \<Rightarrow> bool" where
  "fresh e \<longleftrightarrow> pe_action e = ''none'' \<and> \<not> pe_attempted e \<and> pe_outcome e = ''not-attempted'' \<and>
     pe_registry e = None \<and> pe_provenance e = None"

definition undecided :: "string \<Rightarrow> package_entry \<Rightarrow> package_entry" where
  "undecided a e = e\<lparr>pe_attempted := True, pe_action := a, pe_outcome := ''ambiguous''\<rparr>"

definition published :: "package_entry \<Rightarrow> package_entry" where
  "published e = e\<lparr>pe_attempted := True, pe_action := ''publish'', pe_outcome := ''published'',
     pe_registry := Some (pe_integrity e), pe_provenance := Some PROVENANCE_PREDICATE\<rparr>"

definition staged :: "package_entry \<Rightarrow> package_entry" where
  "staged e = e\<lparr>pe_attempted := True, pe_action := ''stage'', pe_outcome := ''staged''\<rparr>"

definition verified :: "package_entry \<Rightarrow> package_entry" where
  "verified e = e\<lparr>pe_action := ''verify'', pe_outcome := ''verified'',
     pe_registry := Some (pe_integrity e), pe_provenance := Some PROVENANCE_PREDICATE\<rparr>"

lemmas mark_defs = undecided_def published_def staged_def verified_def

lemma ordered_progress_shape:
  assumes "list_all fresh ys" "a \<noteq> ''none''"
    "\<forall>x \<in> set xs. pe_action x = a \<and> pe_attempted x = t \<and> pe_outcome x = out"
  shows "ordered_progress (map package_dict (xs @ ys)) a t out amb"
proof -
  have "dropWhile (package_is a t out) (map package_dict (xs @ ys)) =
      dropWhile (package_is a t out) (map package_dict ys)"
    unfolding map_append by (rule dropWhile_append2) (use assms(3) in auto)
  also have "\<dots> = map package_dict ys"
    using assms(1,2) by (cases ys) (auto simp: fresh_def)
  finally have rest: "dropWhile (package_is a t out) (map package_dict (xs @ ys)) = map package_dict ys" .
  have "list_all (\<lambda>e. pe_action e = ''none'' \<and> \<not> pe_attempted e \<and> pe_outcome e = ''not-attempted'') ys"
    using assms(1) by (auto simp: list_all_iff fresh_def)
  then have "all_packages ''none'' False ''not-attempted'' (map package_dict ys)" by simp
  then show ?thesis
    using assms(1) unfolding ordered_progress_def Let_def rest
    by (cases ys; cases amb) (simp_all add: fresh_def)
qed

lemma ordered_progress_undecided:
  assumes "list_all fresh ys" "out \<noteq> ''ambiguous''"
    "\<forall>x \<in> set xs. pe_action x = a \<and> pe_attempted x = t \<and> pe_outcome x = out"
  shows "ordered_progress (map package_dict (xs @ undecided a' z # ys)) a t out (Some a')"
proof -
  have "dropWhile (package_is a t out) (map package_dict (xs @ undecided a' z # ys)) =
      dropWhile (package_is a t out) (map package_dict (undecided a' z # ys))"
    unfolding map_append by (rule dropWhile_append2) (use assms(3) in auto)
  also have "\<dots> = package_dict (undecided a' z) # map package_dict ys"
    using assms(2) by (simp add: undecided_def)
  finally have rest: "dropWhile (package_is a t out) (map package_dict (xs @ undecided a' z # ys)) =
      package_dict (undecided a' z) # map package_dict ys" .
  have "all_packages ''none'' False ''not-attempted'' (map package_dict ys)"
    using assms(1) by (auto simp: list_all_iff fresh_def)
  then show ?thesis
    unfolding ordered_progress_def Let_def rest by (simp add: undecided_def)
qed

section \<open>Statuses\<close>

definition idle :: "settlement \<Rightarrow> bool" where
  "idle s \<longleftrightarrow> s_draft_verified s \<and> \<not> s_promotion_attempted s \<and> \<not> s_promoted s \<and>
     s_github_outcome s = ''not-attempted''"

definition att_settled :: "settlement \<Rightarrow> bool" where
  "att_settled s \<longleftrightarrow> as_status (s_attestations s) \<in> {''failed'', ''verified''}"

abbreviation att_verified :: "settlement \<Rightarrow> bool" where
  "att_verified s \<equiv> as_status (s_attestations s) = ''verified''"

lemma str_in_PStr [simp]: "str_in (PStr x) ss \<longleftrightarrow> x \<in> set ss"
  by simp

lemmas coherent_defs = coherent_def operation_exact_def status_coherent_def operation_progress_def Let_def
  idle_def att_settled_def settlement_statuses_def

lemma marked_actions:
  "\<forall>x \<in> set (map published xs). pe_action x = ''publish'' \<and> pe_attempted x = True \<and> pe_outcome x = ''published''"
  "\<forall>x \<in> set (map staged xs). pe_action x = ''stage'' \<and> pe_attempted x = True \<and> pe_outcome x = ''staged''"
  "\<forall>x \<in> set (map verified xs). list_all fresh xs \<longrightarrow>
     pe_action x = ''verify'' \<and> pe_attempted x = False \<and> pe_outcome x = ''verified''"
  by (auto simp: mark_defs list_all_iff fresh_def)

lemma fresh_actions: "list_all fresh ys \<Longrightarrow>
    \<forall>y \<in> set ys. pe_action y = ''none'' \<and> \<not> pe_attempted y \<and> pe_outcome y = ''not-attempted''"
  by (auto simp: list_all_iff fresh_def)

lemma bootstrap_coherent:
  assumes op: "s_operation s = ''bootstrap''" and i: "idle s"
    and pk: "s_packages s = map published xs @ ys" and fr: "list_all fresh ys"
  shows "s_status s = ''in-progress'' \<Longrightarrow> att_verified s \<Longrightarrow> coherent s"
    and "s_status s = ''partial-publication'' \<Longrightarrow> att_settled s \<Longrightarrow> s_toolchain s \<noteq> PNone \<Longrightarrow> xs \<noteq> [] \<Longrightarrow> coherent s"
    and "s_status s = ''failed'' \<Longrightarrow> att_settled s \<Longrightarrow> xs = [] \<Longrightarrow> coherent s"
    and "s_status s = ''npm-settled'' \<Longrightarrow> att_verified s \<Longrightarrow> s_toolchain s \<noteq> PNone \<Longrightarrow> ys = [] \<Longrightarrow> coherent s"
proof -
  have prog: "ordered_progress (map package_dict (s_packages s)) ''publish'' True ''published'' amb" for amb
    unfolding pk by (rule ordered_progress_shape [OF fr _ marked_actions(1)]) simp
  have act: "list_all (action_in [''none'', ''publish'']) (map package_dict (s_packages s))"
    using fresh_actions [OF fr] marked_actions(1) [of xs] by (auto simp: pk list_all_iff)
  have some: "xs \<noteq> [] \<Longrightarrow> list_ex (\<lambda>i. dget i ''attempted'' = PBool True \<and> dget i ''action'' = PStr ''publish'')
      (map package_dict (s_packages s))"
    by (cases xs) (simp_all add: pk published_def)
  have none: "xs = [] \<Longrightarrow> \<not> list_ex (outcome_is ''ambiguous'') (map package_dict (s_packages s)) \<and>
      all_packages ''none'' False ''not-attempted'' (map package_dict (s_packages s))"
    using fresh_actions [OF fr] by (auto simp: pk list_ex_iff list_all_iff)
  have all: "ys = [] \<Longrightarrow> all_packages ''publish'' True ''published'' (map package_dict (s_packages s))"
    by (simp add: pk list_all_iff published_def del: map_map)
  note simps = coherent_defs op prog act
  show "s_status s = ''in-progress'' \<Longrightarrow> att_verified s \<Longrightarrow> coherent s"
    using i by (simp add: simps)
  show "s_status s = ''partial-publication'' \<Longrightarrow> att_settled s \<Longrightarrow> s_toolchain s \<noteq> PNone \<Longrightarrow> xs \<noteq> [] \<Longrightarrow> coherent s"
    using i some by (simp add: simps)
  show "s_status s = ''failed'' \<Longrightarrow> att_settled s \<Longrightarrow> xs = [] \<Longrightarrow> coherent s"
    using i none by (simp add: simps)
  show "s_status s = ''npm-settled'' \<Longrightarrow> att_verified s \<Longrightarrow> s_toolchain s \<noteq> PNone \<Longrightarrow> ys = [] \<Longrightarrow> coherent s"
    using i all by (simp add: simps)
qed

lemma bootstrap_undecided_coherent:
  assumes op: "s_operation s = ''bootstrap''" and i: "idle s"
    and pk: "s_packages s = map published xs @ undecided ''publish'' z # ys" and fr: "list_all fresh ys"
  shows "s_status s = ''in-progress'' \<Longrightarrow> att_verified s \<Longrightarrow> coherent s"
    and "s_status s = ''partial-publication'' \<Longrightarrow> att_settled s \<Longrightarrow> s_toolchain s \<noteq> PNone \<Longrightarrow> coherent s"
proof -
  have prog: "ordered_progress (map package_dict (s_packages s)) ''publish'' True ''published'' (Some ''publish'')"
    unfolding pk by (rule ordered_progress_undecided [OF fr _ marked_actions(1)]) simp
  have act: "list_all (action_in [''none'', ''publish'']) (map package_dict (s_packages s))"
    using fresh_actions [OF fr] marked_actions(1) [of xs] by (auto simp: pk list_all_iff undecided_def)
  have some: "list_ex (\<lambda>i. dget i ''attempted'' = PBool True \<and> dget i ''action'' = PStr ''publish'')
      (map package_dict (s_packages s))"
    by (simp add: pk undecided_def)
  note simps = coherent_defs op prog act
  show "s_status s = ''in-progress'' \<Longrightarrow> att_verified s \<Longrightarrow> coherent s"
    using i by (simp add: simps)
  show "s_status s = ''partial-publication'' \<Longrightarrow> att_settled s \<Longrightarrow> s_toolchain s \<noteq> PNone \<Longrightarrow> coherent s"
    using i some by (simp add: simps)
qed

lemma stage_coherent:
  assumes op: "s_operation s = ''stage-platforms''" and i: "idle s"
    and pk: "s_packages s = (map staged xs @ ys) @ [m]" and fr: "list_all fresh ys" "fresh m"
  shows "s_status s = ''in-progress'' \<Longrightarrow> att_verified s \<Longrightarrow> coherent s"
    and "s_status s = ''failed'' \<Longrightarrow> att_settled s \<Longrightarrow> coherent s"
    and "s_status s = ''awaiting-platform-approval'' \<Longrightarrow> att_verified s \<Longrightarrow> s_toolchain s \<noteq> PNone \<Longrightarrow>
      ys = [] \<Longrightarrow> coherent s"
proof -
  have bl: "butlast (map package_dict (s_packages s)) = map package_dict (map staged xs @ ys)"
    "last (map package_dict (s_packages s)) = package_dict m"
    unfolding pk by (simp_all add: butlast_append del: map_map)
  have prog: "ordered_progress (map package_dict (map staged xs @ ys)) ''stage'' True ''staged'' amb" for amb
    by (rule ordered_progress_shape [OF fr(1) _ marked_actions(2)]) simp
  have act: "list_all (action_in [''none'', ''stage'']) (map package_dict (map staged xs @ ys))"
    using fresh_actions [OF fr(1)] marked_actions(2) [of xs] by (auto simp: list_all_iff)
  have meta: "pe_action m = ''none''" "\<not> pe_attempted m" "pe_outcome m = ''not-attempted''"
    using fr(2) by (simp_all add: fresh_def)
  have no: "\<not> list_ex (outcome_is ''ambiguous'') (map package_dict (s_packages s))"
    using fresh_actions [OF fr(1)] meta by (auto simp: pk list_ex_iff list_all_iff staged_def)
  have all: "ys = [] \<Longrightarrow> all_packages ''stage'' True ''staged'' (map package_dict (map staged xs @ ys))"
    by (simp add: list_all_iff staged_def del: map_map)
  note simps = coherent_defs op bl prog act meta no
  show "s_status s = ''in-progress'' \<Longrightarrow> att_verified s \<Longrightarrow> coherent s"
    using i by (simp add: simps del: map_append map_map)
  show "s_status s = ''failed'' \<Longrightarrow> att_settled s \<Longrightarrow> coherent s"
    using i by (simp add: simps del: map_append map_map)
  show "s_status s = ''awaiting-platform-approval'' \<Longrightarrow> att_verified s \<Longrightarrow> s_toolchain s \<noteq> PNone \<Longrightarrow>
      ys = [] \<Longrightarrow> coherent s"
    using i all act by (simp add: simps del: map_append map_map)
qed

lemma stage_undecided_coherent:
  assumes op: "s_operation s = ''stage-platforms''" and i: "idle s"
    and pk: "s_packages s = (map staged xs @ undecided ''stage'' z # ys) @ [m]"
    and fr: "list_all fresh ys" "fresh m"
  shows "s_status s = ''in-progress'' \<Longrightarrow> att_verified s \<Longrightarrow> coherent s"
    and "s_status s = ''ambiguous'' \<Longrightarrow> att_verified s \<Longrightarrow> s_toolchain s \<noteq> PNone \<Longrightarrow> coherent s"
proof -
  let ?ps = "map staged xs @ undecided ''stage'' z # ys"
  have bl: "butlast (map package_dict (s_packages s)) = map package_dict ?ps"
    "last (map package_dict (s_packages s)) = package_dict m"
    unfolding pk by (simp_all add: butlast_append del: map_map)
  have prog: "ordered_progress (map package_dict ?ps) ''stage'' True ''staged'' (Some ''stage'')"
    by (rule ordered_progress_undecided [OF fr(1) _ marked_actions(2)]) simp
  have act: "list_all (action_in [''none'', ''stage'']) (map package_dict ?ps)"
    using fresh_actions [OF fr(1)] marked_actions(2) [of xs] by (auto simp: list_all_iff undecided_def)
  have meta: "pe_action m = ''none''" "\<not> pe_attempted m" "pe_outcome m = ''not-attempted''"
    using fr(2) by (simp_all add: fresh_def)
  have amb: "list_ex (outcome_is ''ambiguous'') (map package_dict (s_packages s))"
    by (simp add: pk undecided_def)
  note simps = coherent_defs op bl prog act meta amb
  show "s_status s = ''in-progress'' \<Longrightarrow> att_verified s \<Longrightarrow> coherent s"
    using i by (simp add: simps del: map_append map_map list.map)
  show "s_status s = ''ambiguous'' \<Longrightarrow> att_verified s \<Longrightarrow> s_toolchain s \<noteq> PNone \<Longrightarrow> coherent s"
    using i by (simp add: simps del: map_append map_map list.map)
qed

lemma meta_coherent:
  assumes op: "s_operation s = ''stage-meta''" and i: "idle s"
    and pk: "s_packages s = (map verified xs @ ys) @ [m]" and fr: "list_all fresh ys" "list_all fresh xs" "fresh m"
  shows "s_status s = ''in-progress'' \<Longrightarrow> att_verified s \<Longrightarrow> coherent s"
    and "s_status s = ''failed'' \<Longrightarrow> att_settled s \<Longrightarrow> coherent s"
proof -
  have bl: "butlast (map package_dict (s_packages s)) = map package_dict (map verified xs @ ys)"
    "last (map package_dict (s_packages s)) = package_dict m"
    unfolding pk by (simp_all add: butlast_append del: map_map)
  have marks: "\<forall>x \<in> set (map verified xs). pe_action x = ''verify'' \<and> pe_attempted x = False \<and> pe_outcome x = ''verified''"
    using marked_actions(3) [of xs] fr(2) by blast
  have prog: "ordered_progress (map package_dict (map verified xs @ ys)) ''verify'' False ''verified'' None"
    by (rule ordered_progress_shape [OF fr(1) _ marks]) simp
  have act: "list_all (action_in [''none'', ''verify'']) (map package_dict (map verified xs @ ys))"
    using fresh_actions [OF fr(1)] marks by (auto simp: list_all_iff)
  have meta: "pe_action m = ''none''" "\<not> pe_attempted m" "pe_outcome m = ''not-attempted''"
    using fr(3) by (simp_all add: fresh_def)
  have no: "\<not> list_ex (outcome_is ''ambiguous'') (map package_dict (s_packages s))"
    using fresh_actions [OF fr(1)] meta by (auto simp: pk list_ex_iff list_all_iff verified_def)
  note simps = coherent_defs op bl prog act meta no
  show "s_status s = ''in-progress'' \<Longrightarrow> att_verified s \<Longrightarrow> coherent s"
    using i by (simp add: simps del: map_append map_map)
  show "s_status s = ''failed'' \<Longrightarrow> att_settled s \<Longrightarrow> coherent s"
    using i by (simp add: simps del: map_append map_map)
qed

lemma meta_attempt_coherent:
  assumes op: "s_operation s = ''stage-meta''" and i: "idle s" and att: "att_verified s"
    and fr: "list_all fresh xs"
  shows "s_packages s = map verified xs @ [undecided ''stage'' m] \<Longrightarrow> s_status s = ''in-progress'' \<Longrightarrow> coherent s"
    and "s_packages s = map verified xs @ [undecided ''stage'' m] \<Longrightarrow> s_status s = ''ambiguous'' \<Longrightarrow>
      s_toolchain s \<noteq> PNone \<Longrightarrow> coherent s"
    and "s_packages s = map verified xs @ [staged m] \<Longrightarrow> s_status s = ''awaiting-meta-approval'' \<Longrightarrow>
      s_toolchain s \<noteq> PNone \<Longrightarrow> coherent s"
proof -
  have marks: "\<forall>x \<in> set (map verified xs). pe_action x = ''verify'' \<and> pe_attempted x = False \<and> pe_outcome x = ''verified''"
    using marked_actions(3) [of xs] fr by blast
  have prog: "ordered_progress (map package_dict (map verified xs)) ''verify'' False ''verified'' None"
    using ordered_progress_shape [of "[]", OF _ _ marks] by simp
  have act: "list_all (action_in [''none'', ''verify'']) (map package_dict (map verified xs))"
    "list_all (\<lambda>e. pe_action e = ''verify'' \<and> \<not> pe_attempted e \<and> pe_outcome e = ''verified'') (map verified xs)"
    using marks by (auto simp: list_all_iff simp del: map_map)
  note simps = coherent_defs op att prog act butlast_append
  show "s_packages s = map verified xs @ [undecided ''stage'' m] \<Longrightarrow> s_status s = ''in-progress'' \<Longrightarrow> coherent s"
    using i by (simp add: simps undecided_def del: map_map)
  show "s_packages s = map verified xs @ [undecided ''stage'' m] \<Longrightarrow> s_status s = ''ambiguous'' \<Longrightarrow>
      s_toolchain s \<noteq> PNone \<Longrightarrow> coherent s"
    using i by (simp add: simps undecided_def del: map_map)
  show "s_packages s = map verified xs @ [staged m] \<Longrightarrow> s_status s = ''awaiting-meta-approval'' \<Longrightarrow>
      s_toolchain s \<noteq> PNone \<Longrightarrow> coherent s"
    using i by (simp add: simps staged_def del: map_map)
qed

lemma settle_coherent:
  assumes op: "s_operation s = ''settle-and-promote''" and t: "s_toolchain s = PNone" and i: "idle s"
    and pk: "s_packages s = map verified xs @ ys" and fr: "list_all fresh ys" "list_all fresh xs"
  shows "s_status s = ''in-progress'' \<Longrightarrow> att_verified s \<Longrightarrow> coherent s"
    and "s_status s = ''failed'' \<Longrightarrow> att_settled s \<Longrightarrow> coherent s"
proof -
  have marks: "\<forall>x \<in> set (map verified xs). pe_action x = ''verify'' \<and> pe_attempted x = False \<and> pe_outcome x = ''verified''"
    using marked_actions(3) [of xs] fr(2) by blast
  have prog: "ordered_progress (map package_dict (s_packages s)) ''verify'' False ''verified'' None"
    unfolding pk by (rule ordered_progress_shape [OF fr(1) _ marks]) simp
  have act: "list_all (action_in [''none'', ''verify'']) (map package_dict (s_packages s))"
    unfolding pk using fresh_actions [OF fr(1)] marks by (auto simp: list_all_iff)
  have no: "\<not> list_ex (outcome_is ''ambiguous'') (map package_dict (s_packages s))"
    using fresh_actions [OF fr(1)] by (auto simp: pk list_ex_iff list_all_iff verified_def)
  note simps = coherent_defs op t prog act no
  show "s_status s = ''in-progress'' \<Longrightarrow> att_verified s \<Longrightarrow> coherent s"
    using i by (simp add: simps)
  show "s_status s = ''failed'' \<Longrightarrow> att_settled s \<Longrightarrow> coherent s"
    using i by (simp add: simps)
qed

lemma promotion_coherent:
  assumes op: "s_operation s = ''settle-and-promote''" and t: "s_toolchain s = PNone" and att: "att_verified s"
    and d: "s_draft_verified s" "s_promotion_attempted s"
    and pk: "s_packages s = map verified xs" and fr: "list_all fresh xs"
  shows "\<not> s_promoted s \<Longrightarrow> s_github_outcome s = ''ambiguous'' \<Longrightarrow> s_status s \<in> {''in-progress'', ''ambiguous''} \<Longrightarrow> coherent s"
    and "s_promoted s \<Longrightarrow> s_github_outcome s = ''promoted'' \<Longrightarrow> s_status s = ''complete'' \<Longrightarrow> coherent s"
proof -
  have marks: "\<forall>x \<in> set (map verified xs). pe_action x = ''verify'' \<and> pe_attempted x = False \<and> pe_outcome x = ''verified''"
    using marked_actions(3) [of xs] fr by blast
  have prog: "ordered_progress (map package_dict (s_packages s)) ''verify'' False ''verified'' None"
    unfolding pk using ordered_progress_shape [of "[]", OF _ _ marks] by simp
  have act: "list_all (action_in [''none'', ''verify'']) (map package_dict (s_packages s))"
    "list_all (\<lambda>e. pe_action e = ''verify'' \<and> \<not> pe_attempted e \<and> pe_outcome e = ''verified'') (s_packages s)"
    unfolding pk using marks by (auto simp: list_all_iff simp del: map_map)
  note simps = coherent_defs op t att d prog act
  show "\<not> s_promoted s \<Longrightarrow> s_github_outcome s = ''ambiguous'' \<Longrightarrow> s_status s \<in> {''in-progress'', ''ambiguous''} \<Longrightarrow> coherent s"
    by (elim insertE emptyE) (simp_all add: simps)
  show "s_promoted s \<Longrightarrow> s_github_outcome s = ''promoted'' \<Longrightarrow> s_status s = ''complete'' \<Longrightarrow> coherent s"
    by (simp add: simps)
qed

end
