(* ===== verification/Promotion_Logic.thy ===== *)
theory Promotion_Logic
  imports Promotion_Shapes "HOL-Library.Sublist"
begin

text \<open>
  A Hoare logic for the actions of a promotion. Assertions speak of the live settlement and of the log
  only, so calls to the outside world preserve them whatever it answers; \<open>Q\<close> holds after a normal
  return and \<open>E\<close> after an exception.
\<close>

section \<open>Triples\<close>

type_synonym assertion = "settlement \<Rightarrow> event list \<Rightarrow> bool"

definition triple ::
  "assertion \<Rightarrow> ('w, 'a) action \<Rightarrow> ('a \<Rightarrow> assertion) \<Rightarrow> (exn \<Rightarrow> assertion) \<Rightarrow> bool" where
  "triple P m Q E \<longleftrightarrow> (\<forall>st. P (live st) (events st) \<longrightarrow>
     (case m st of (Inr x, st') \<Rightarrow> Q x (live st') (events st') | (Inl e, st') \<Rightarrow> E e (live st') (events st')))"

lemma triple_conseq:
  assumes "triple P' m Q' E'" "\<And>s es. P s es \<Longrightarrow> P' s es" "\<And>x s es. Q' x s es \<Longrightarrow> Q x s es"
    "\<And>e s es. E' e s es \<Longrightarrow> E e s es"
  shows "triple P m Q E"
  using assms unfolding triple_def by (fastforce split: prod.splits sum.splits)

lemma triple_pre: "triple P' m Q E \<Longrightarrow> (\<And>s es. P s es \<Longrightarrow> P' s es) \<Longrightarrow> triple P m Q E"
  by (rule triple_conseq)

lemma triple_return: "triple (Q x) (act_return x) Q E"
  by (simp add: triple_def act_return_def)

lemma triple_raise: "triple (E e) (act_raise e) Q E"
  by (simp add: triple_def act_raise_def)

lemma triple_raised: "(\<And>s es. P s es \<Longrightarrow> E e s es) \<Longrightarrow> triple P (act_raise e) Q E"
  by (simp add: triple_def act_raise_def)

lemma triple_of:
  assumes "\<And>x s es. r = Inr x \<Longrightarrow> P s es \<Longrightarrow> Q x s es" "\<And>e s es. r = Inl e \<Longrightarrow> P s es \<Longrightarrow> E e s es"
  shows "triple P (act_of r) Q E"
  using assms by (cases r) (simp_all add: triple_def act_of_def)

lemma triple_check:
  assumes "\<And>s es. c = None \<Longrightarrow> P s es \<Longrightarrow> Q () s es" "\<And>e s es. c = Some e \<Longrightarrow> P s es \<Longrightarrow> E e s es"
  shows "triple P (act_check c) Q E"
  unfolding act_check_def by (rule triple_of; cases c) (use assms in auto)

lemma triple_bind:
  assumes "triple P m Q E" "\<And>x. triple (Q x) (f x) R E"
  shows "triple P (act_bind m f) R E"
  unfolding triple_def
proof (intro allI impI)
  fix st :: "'a promotion" assume pre: "P (live st) (events st)"
  obtain r st' where m: "m st = (r, st')" by (cases "m st")
  show "case act_bind m f st of (Inr x, st') \<Rightarrow> R x (live st') (events st')
      | (Inl e, st') \<Rightarrow> E e (live st') (events st')"
  proof (cases r)
    case (Inl e)
    with assms(1) pre m show ?thesis by (auto simp: triple_def act_bind_def)
  next
    case (Inr x)
    with assms(1) pre m have "Q x (live st') (events st')" by (auto simp: triple_def)
    with assms(2) [of x] m Inr show ?thesis by (simp add: triple_def act_bind_def)
  qed
qed

lemma triple_then:
  assumes "triple P m (\<lambda>_. Q) E" "triple Q n R E"
  shows "triple P (act_then m n) R E"
  unfolding act_then_def by (rule triple_bind [OF assms(1)]) (rule assms(2))

lemma triple_catch:
  assumes "triple P m Q E'" "\<And>e. is_promotion e \<Longrightarrow> triple (E' e) (h e) Q E"
    "\<And>e s es. \<not> is_promotion e \<Longrightarrow> E' e s es \<Longrightarrow> E e s es"
  shows "triple P (act_catch m h) Q E"
  unfolding triple_def
proof (intro allI impI)
  fix st :: "'a promotion" assume pre: "P (live st) (events st)"
  obtain r st' where m: "m st = (r, st')" by (cases "m st")
  show "case act_catch m h st of (Inr x, st') \<Rightarrow> Q x (live st') (events st')
      | (Inl e, st') \<Rightarrow> E e (live st') (events st')"
  proof (cases r)
    case (Inr x)
    with assms(1) pre m show ?thesis by (auto simp: triple_def act_catch_def)
  next
    case (Inl e)
    with assms(1) pre m have "E' e (live st') (events st')" by (auto simp: triple_def)
    with assms(2) [of e] assms(3) [of e] m Inl show ?thesis
      by (cases "is_promotion e") (simp_all add: triple_def act_catch_def)
  qed
qed

lemma triple_outside: "(\<And>s es. P s es \<Longrightarrow> \<forall>x. Q x s es) \<Longrightarrow> (\<And>s es. P s es \<Longrightarrow> \<forall>e. E e s es) \<Longrightarrow> triple P (act_outside f) Q E"
  by (auto simp: triple_def act_outside_def split: prod.splits sum.splits)

lemma triple_outside_frame: "triple P (act_outside f) (\<lambda>_. P) (\<lambda>_. P)"
  by (rule triple_outside) auto

lemma triple_update: "triple (\<lambda>s es. Q () (f s) es) (act_update f) Q E"
  by (simp add: triple_def act_update_def)

lemma triple_log: "triple (\<lambda>s es. Q () s (es @ [x])) (act_log x) Q E"
  by (simp add: triple_def act_log_def)

lemma triple_get: "triple (\<lambda>s es. Q (f s) s es) (act_get f) Q E"
  by (simp add: triple_def act_get_def)

lemma triple_for_each_from:
  assumes "\<And>xs x ys. zs = xs @ x # ys \<Longrightarrow> triple (I xs) (f x) (\<lambda>_. I (xs @ [x])) E"
  shows "zs = done @ rest \<Longrightarrow> triple (I done) (for_each f rest) (\<lambda>_. I zs) E"
proof (induction rest arbitrary: "done")
  case Nil
  then show ?case by (simp add: triple_def act_return_def)
next
  case (Cons x rest)
  have "triple (I done) (f x) (\<lambda>_. I (done @ [x])) E" using assms Cons.prems by blast
  moreover have "triple (I (done @ [x])) (for_each f rest) (\<lambda>_. I zs) E"
    using Cons.prems by (intro Cons.IH) simp
  ultimately show ?case by (auto intro: triple_then)
qed

lemma triple_for_each:
  assumes "\<And>xs x ys. zs = xs @ x # ys \<Longrightarrow> triple (I xs) (f x) (\<lambda>_. I (xs @ [x])) E"
  shows "triple (I []) (for_each f zs) (\<lambda>_. I zs) E"
  by (rule triple_for_each_from [OF assms]) simp_all

lemma triple_for_each_same:
  assumes "\<And>x. x \<in> set zs \<Longrightarrow> triple P (f x) (\<lambda>_. P) E"
  shows "triple P (for_each f zs) (\<lambda>_. P) E"
  using triple_for_each [of zs "\<lambda>_. P" f E] assms by simp

section \<open>Writes\<close>

text \<open>A write of an accepted settlement stores it, unless the disk fails.\<close>

lemma triple_write:
  assumes "\<And>s es. P s es \<Longrightarrow> accepted s"
    and "\<And>s es t. P s es \<Longrightarrow> Q () (s\<lparr>s_updated := t\<rparr>) (es @ [Wrote (s\<lparr>s_updated := t\<rparr>)])"
    and "\<And>s es t e. P s es \<Longrightarrow> E e (s\<lparr>s_updated := t\<rparr>) (es @ [WriteFailed (s\<lparr>s_updated := t\<rparr>)])"
  shows "triple P (write_settlement b) Q E"
  unfolding triple_def
proof (intro allI impI)
  fix st :: "'a promotion" assume pre: "P (live st) (events st)"
  then have "validate_settlement (PDict (settlement_dict (live st))) = Inr (settlement_dict (live st))"
    using assms(1) by (auto simp: accepted_def)
  then show "case write_settlement b st of (Inr x, st') \<Rightarrow> Q x (live st') (events st')
      | (Inl e, st') \<Rightarrow> E e (live st') (events st')"
    using assms(2,3) [OF pre] by (simp add: write_settlement_def Let_def split: prod.splits option.splits)
qed

text \<open>Without any knowledge of the settlement: one of the three entries is logged.\<close>

lemma triple_write_any:
  assumes "\<And>s es e. P s es \<Longrightarrow> E e s (es @ [Refused s])"
    and "\<And>s es t. P s es \<Longrightarrow> Q () (s\<lparr>s_updated := t\<rparr>) (es @ [Wrote (s\<lparr>s_updated := t\<rparr>)])"
    and "\<And>s es t e. P s es \<Longrightarrow> E e (s\<lparr>s_updated := t\<rparr>) (es @ [WriteFailed (s\<lparr>s_updated := t\<rparr>)])"
  shows "triple P (write_settlement b) Q E"
  unfolding triple_def
proof (intro allI impI)
  fix st :: "'a promotion" assume pre: "P (live st) (events st)"
  show "case write_settlement b st of (Inr x, st') \<Rightarrow> Q x (live st') (events st')
      | (Inl e, st') \<Rightarrow> E e (live st') (events st')"
    using assms [OF pre]
    by (auto simp: write_settlement_def Let_def split: prod.splits option.splits sum.splits)
qed

section \<open>The steps that only look\<close>

lemma triple_require_latest: "triple P (require_latest b lineage) (\<lambda>_. P) (\<lambda>_. P)"
  unfolding require_latest_def
  by (rule triple_bind [OF triple_outside_frame])
     (auto split: option.split intro!: triple_of triple_raised)

lemma public_version_check_None:
  "public_version_check p v state rv = None \<Longrightarrow> rv_integrity rv = pa_integrity p"
  by (simp add: public_version_check_def)

lemma triple_verify:
  "triple P (verify_public_package b p lineage) (\<lambda>i s es. P s es \<and> i = pa_integrity p) (\<lambda>_. P)"
  unfolding verify_public_package_def
proof (rule triple_bind [OF triple_outside_frame], goal_cases)
  case (1 found)
  show ?case
  proof (cases found)
    case (Some state)
    show ?thesis
      unfolding Some option.case
    proof (rule triple_bind [of _ _ "\<lambda>_. P"], goal_cases)
      case 1
      show ?case by (rule triple_of) auto
    next
      case (2 version)
      show ?case
      proof (cases "map_of (rp_versions state) version")
        case (Some rv)
        have "triple P (act_then (act_check (public_version_check p version state rv))
            (act_bind (act_outside (registry_tarball b (rv_tarball_url rv))) (\<lambda>body.
              act_then (act_check (public_body_check p version rv body)) (act_return (rv_integrity rv)))))
          (\<lambda>i s es. P s es \<and> i = pa_integrity p) (\<lambda>_. P)"
          by (rule triple_then [of _ _ "\<lambda>s es. P s es \<and> rv_integrity rv = pa_integrity p"],
              rule triple_check, simp add: public_version_check_None, simp,
              rule triple_bind [of _ _ "\<lambda>_ s es. P s es \<and> rv_integrity rv = pa_integrity p"],
              rule triple_outside, simp, simp,
              rule triple_then [of _ _ "\<lambda>s es. P s es \<and> rv_integrity rv = pa_integrity p"],
              rule triple_check, simp, simp, rule triple_pre [OF triple_return], simp)
        with Some show ?thesis by simp
      qed (simp add: triple_raised)
    qed
  qed (simp add: triple_raised)
qed

end
