(* ===== verification/Promotion_Ahead.thy ===== *)
theory Promotion_Ahead
  imports Promotion_Logic
begin

text \<open>
  The write-ahead discipline: whatever the outside world answers, a mutation of the registry and the
  promotion of the release happen only directly after a settlement that records them as attempted and
  undecided has been stored, and every stored settlement passes its validator. The facts hold of every
  prefix of the log, so also of a run that is killed.
\<close>

section \<open>Assertions on the log alone\<close>

definition keeps :: "(event list \<Rightarrow> bool) \<Rightarrow> ('w, 'a) action \<Rightarrow> bool" where
  "keeps W m \<longleftrightarrow> triple (\<lambda>_. W) m (\<lambda>_ _. W) (\<lambda>_ _. W)"

named_theorems keeps_intros \<open>actions that preserve an assertion on the log\<close>

lemma keeps_bind [keeps_intros]: "keeps W m \<Longrightarrow> (\<And>x. keeps W (f x)) \<Longrightarrow> keeps W (act_bind m f)"
  unfolding keeps_def by (rule triple_bind)

lemma keeps_then [keeps_intros]: "keeps W m \<Longrightarrow> keeps W n \<Longrightarrow> keeps W (act_then m n)"
  unfolding act_then_def by (rule keeps_bind)

lemma keeps_catch [keeps_intros]: "keeps W m \<Longrightarrow> (\<And>e. keeps W (h e)) \<Longrightarrow> keeps W (act_catch m h)"
  unfolding keeps_def by (rule triple_catch)

lemma keeps_return [keeps_intros]: "keeps W (act_return x)"
  by (simp add: keeps_def triple_def act_return_def)

lemma keeps_raise [keeps_intros]: "keeps W (act_raise e)"
  by (simp add: keeps_def triple_raised)

lemma keeps_of [keeps_intros]: "keeps W (act_of r)"
  by (simp add: keeps_def triple_of)

lemma keeps_check [keeps_intros]: "keeps W (act_check c)"
  by (simp add: keeps_def triple_check)

lemma keeps_outside [keeps_intros]: "keeps W (act_outside f)"
  by (simp add: keeps_def triple_outside)

lemma keeps_update [keeps_intros]: "keeps W (act_update f)"
  by (simp add: keeps_def triple_def act_update_def)

lemma keeps_get [keeps_intros]: "keeps W (act_get f)"
  by (simp add: keeps_def triple_def act_get_def)

lemma keeps_for_each [keeps_intros]: "(\<And>x. keeps W (f x)) \<Longrightarrow> keeps W (for_each f xs)"
  by (induction xs) (auto intro: keeps_intros)

lemma keeps_if [keeps_intros]: "(c \<Longrightarrow> keeps W m) \<Longrightarrow> (\<not> c \<Longrightarrow> keeps W n) \<Longrightarrow> keeps W (if c then m else n)"
  by simp

lemma keeps_option [keeps_intros]:
  "keeps W m \<Longrightarrow> (\<And>x. keeps W (f x)) \<Longrightarrow> keeps W (case v of None \<Rightarrow> m | Some x \<Rightarrow> f x)"
  by (cases v) auto

lemma keeps_settlement_entry [keeps_intros]: "keeps W (settlement_entry name f)"
  unfolding settlement_entry_def by (intro keeps_intros)

lemma keeps_set_status [keeps_intros]: "keeps W (set_status x)"
  unfolding set_status_def by (intro keeps_intros)

lemma keeps_require_latest [keeps_intros]: "keeps W (require_latest b lineage)"
  unfolding keeps_def by (rule triple_require_latest)

lemma keeps_verify [keeps_intros]: "keeps W (verify_public_package b p lineage)"
  unfolding keeps_def by (rule triple_conseq [OF triple_verify]) auto

section \<open>Stored settlements are valid\<close>

lemma validate_returns: "validate_settlement (PDict d) = Inr d' \<Longrightarrow> d' = d"
  by (auto simp: validate_settlement_def exact_object_def ebind_eq_Inr checked_eq_Inr split: if_splits)

lemma accepted_updated [simp]: "accepted (s\<lparr>s_updated := t\<rparr>) = accepted s"
proof -
  have same: "settlement_identity_check (settlement_dict (s\<lparr>s_updated := t\<rparr>)) = settlement_identity_check (settlement_dict s)"
    by (simp add: settlement_identity_check_def)
  have att: "attestation_checks (settlement_dict (s\<lparr>s_updated := t\<rparr>)) a ns = attestation_checks (settlement_dict s) a ns" for a ns
    by (simp add: attestation_checks_def attestation_identity_check_def assembly_digest_check_def Let_def
        cong: option.case_cong)
  have gh: "github_dict (s\<lparr>s_updated := t\<rparr>) = github_dict s" by (simp add: github_dict_def)
  have tail: "settlement_tail_checks (settlement_dict (s\<lparr>s_updated := t\<rparr>)) a = settlement_tail_checks (settlement_dict s) a" for a
    by (simp add: settlement_tail_checks_def toolchain_state_check_def validate_settlement_coherence_def gh Let_def)
  show ?thesis
    by (simp add: accepted_def validate_settlement_def same att tail checked_def ebind_eq_Inr
        split: option.splits)
qed

lemma accepted_iff: "accepted s \<longleftrightarrow> (\<exists>d. validate_settlement (PDict (settlement_dict s)) = Inr d)"
  using validate_returns by (auto simp: accepted_def)

section \<open>Write-ahead\<close>

definition attempt_recorded :: "string \<Rightarrow> string \<Rightarrow> settlement \<Rightarrow> bool" where
  "attempt_recorded operation name s \<longleftrightarrow> s_status s = ''in-progress'' \<and>
     (\<exists>e \<in> set (s_packages s). pe_name e = name \<and> pe_attempted e \<and> pe_action e = operation \<and>
        pe_outcome e = ''ambiguous'')"

definition promotion_recorded :: "settlement \<Rightarrow> bool" where
  "promotion_recorded s \<longleftrightarrow> s_status s = ''in-progress'' \<and> s_promotion_attempted s \<and>
     s_github_outcome s = ''ambiguous''"

fun covered :: "event list \<Rightarrow> event \<Rightarrow> bool" where
  "covered before (Mutated operation name) =
     (\<exists>pre s. before = pre @ [Wrote s] \<and> attempt_recorded operation name s)"
| "covered before Promoted = (\<exists>pre s. before = pre @ [Wrote s] \<and> promotion_recorded s)"
| "covered before (Wrote s) = accepted s"
| "covered before (Refused s) = True"
| "covered before (WriteFailed s) = True"

definition written_ahead :: "event list \<Rightarrow> bool" where
  "written_ahead es \<longleftrightarrow> (\<forall>before x after. es = before @ x # after \<longrightarrow> covered before x)"

lemma written_ahead_snoc: "written_ahead (es @ [x]) \<longleftrightarrow> written_ahead es \<and> covered es x"
proof
  assume w: "written_ahead (es @ [x])"
  have "covered before y" if "es = before @ y # after" for before y after
  proof -
    from that have "es @ [x] = before @ y # (after @ [x])" by simp
    with w show ?thesis unfolding written_ahead_def by blast
  qed
  moreover have "covered es x" using w unfolding written_ahead_def by blast
  ultimately show "written_ahead es \<and> covered es x" unfolding written_ahead_def by blast
next
  assume w: "written_ahead es \<and> covered es x"
  show "written_ahead (es @ [x])"
    unfolding written_ahead_def
  proof (intro allI impI)
    fix before y after assume eq: "es @ [x] = before @ y # after"
    show "covered before y"
    proof (cases after rule: rev_cases)
      case Nil
      with eq w show ?thesis by simp
    next
      case (snoc zs z)
      with eq have "es = before @ y # zs" by simp
      with w show ?thesis unfolding written_ahead_def by blast
    qed
  qed
qed

lemma written_ahead_Nil [simp]: "written_ahead []"
  by (simp add: written_ahead_def)

lemma triple_write_ahead:
  assumes "\<And>s t. P s \<Longrightarrow> P (s\<lparr>s_updated := t\<rparr>)"
  shows "triple (\<lambda>s es. written_ahead es \<and> P s) (write_settlement b)
    (\<lambda>_ s es. written_ahead es \<and> P s \<and> (\<exists>pre. es = pre @ [Wrote s])) (\<lambda>_ _. written_ahead)"
  unfolding triple_def
proof (intro allI impI)
  fix st :: "'a promotion" assume pre: "written_ahead (events st) \<and> P (live st)"
  show "case write_settlement b st of
      (Inr x, st') \<Rightarrow> written_ahead (events st') \<and> P (live st') \<and> (\<exists>pre. events st' = pre @ [Wrote (live st')])
    | (Inl e, st') \<Rightarrow> written_ahead (events st')"
  proof (cases "validate_settlement (PDict (settlement_dict (live st)))")
    case (Inl e)
    with pre show ?thesis by (simp add: write_settlement_def written_ahead_snoc)
  next
    case (Inr d)
    then have "accepted (live st)" by (auto simp: accepted_iff)
    with pre assms Inr show ?thesis
      by (auto simp: write_settlement_def Let_def written_ahead_snoc split: prod.splits option.splits)
  qed
qed

lemma keeps_write [keeps_intros]: "keeps written_ahead (write_settlement b)"
  unfolding keeps_def by (rule triple_conseq [OF triple_write_ahead [of "\<lambda>_. True"]]) auto

lemma keeps_fail_with [keeps_intros]: "keeps written_ahead (fail_with b x e)"
  unfolding fail_with_def by (intro keeps_intros)

lemma keeps_reauthenticate [keeps_intros]: "keeps written_ahead (reauthenticate_attested_bytes b c)"
  unfolding reauthenticate_attested_bytes_def by (intro keeps_intros)

lemma update_first_has:
  "name \<in> set (map pe_name es) \<Longrightarrow> \<exists>e. pe_name e = name \<and> f e \<in> set (update_first name f es)"
  by (induction es) auto

lemma keeps_attempt [keeps_intros]: "keeps written_ahead (attempt b c operation p)"
  unfolding attempt_def
proof (rule keeps_then, rule keeps_reauthenticate)
  let ?f = "\<lambda>e. e\<lparr>pe_attempted := True, pe_action := operation, pe_outcome := ''ambiguous''\<rparr>"
  let ?E = "\<lambda>(_ :: exn) (_ :: settlement). written_ahead"
  let ?marked = "\<lambda>s. \<exists>e \<in> set (s_packages s). pe_name e = pa_name p \<and> pe_attempted e \<and> pe_action e = operation \<and>
    pe_outcome e = ''ambiguous''"
  have marked: "pa_name p \<in> set (map pe_name (s_packages s)) \<Longrightarrow>
      ?marked (s\<lparr>s_packages := update_first (pa_name p) ?f (s_packages s)\<rparr>)" for s
  proof -
    assume "pa_name p \<in> set (map pe_name (s_packages s))"
    from update_first_has [OF this, of ?f] obtain e where
      e: "pe_name e = pa_name p" "?f e \<in> set (update_first (pa_name p) ?f (s_packages s))" by blast
    then show ?thesis by (intro bexI [of _ "?f e"]) simp_all
  qed
  have entry: "triple (\<lambda>_. written_ahead) (settlement_entry (pa_name p) ?f)
      (\<lambda>_ s es. written_ahead es \<and> ?marked s) ?E"
    unfolding triple_def settlement_entry_def act_bind_def act_get_def act_update_def act_raise_def
    by (auto intro: marked [simplified])
  have status: "triple (\<lambda>s es. written_ahead es \<and> ?marked s) (set_status ''in-progress'')
      (\<lambda>_ s es. written_ahead es \<and> attempt_recorded operation (pa_name p) s) ?E"
    unfolding set_status_def by (rule triple_pre [OF triple_update]) (simp add: attempt_recorded_def)
  have store: "triple (\<lambda>s es. written_ahead es \<and> attempt_recorded operation (pa_name p) s) (write_settlement b)
      (\<lambda>_ s es. written_ahead (es @ [Mutated operation (pa_name p)])) ?E"
    by (rule triple_conseq [OF triple_write_ahead [of "attempt_recorded operation (pa_name p)"]])
       (auto simp: attempt_recorded_def written_ahead_snoc)
  have note_it: "triple (\<lambda>s es. written_ahead (es @ [Mutated operation (pa_name p)]))
      (act_log (Mutated operation (pa_name p))) (\<lambda>_ _. written_ahead) ?E"
    by (rule triple_log)
  have mutate: "keeps written_ahead (act_catch (act_outside (npm_mutate b operation p))
      (fail_with b (if operation = ''publish'' then ''partial-publication'' else ''ambiguous'')))"
    by (intro keeps_intros)
  show "keeps written_ahead (act_then (settlement_entry (pa_name p) ?f) (act_then (set_status ''in-progress'')
      (act_then (write_settlement b) (act_then (act_log (Mutated operation (pa_name p)))
      (act_catch (act_outside (npm_mutate b operation p))
        (fail_with b (if operation = ''publish'' then ''partial-publication'' else ''ambiguous'')))))))"
    unfolding keeps_def
    by (rule triple_then, rule entry, rule triple_then, rule status, rule triple_then, rule store,
        rule triple_then, rule note_it, rule mutate [unfolded keeps_def])
qed

lemma keeps_marks [keeps_intros]:
  "keeps written_ahead (mark_published b name i)" "keeps written_ahead (mark_verified b name i)"
  "keeps written_ahead (bind_npm_toolchain b)"
  unfolding mark_published_def mark_verified_def bind_npm_toolchain_def by (intro keeps_intros)+

lemma keeps_steps [keeps_intros]:
  "keeps written_ahead (publish_one b c lineage name)"
  "(\<And>n i. keeps written_ahead (mark n i)) \<Longrightarrow> keeps written_ahead (verify_and b c lineage mark name)"
  "keeps written_ahead (stage_attempt b c name)"
  unfolding publish_one_def verify_and_def stage_attempt_def by (intro keeps_intros; assumption?)+

lemma keeps_promotion: "keeps written_ahead (settle_and_promote b c lineage)"
proof -
  let ?E = "\<lambda>(_ :: exn) (_ :: settlement). written_ahead"
  let ?mark = "act_update (\<lambda>s. s\<lparr>s_promotion_attempted := True, s_github_outcome := ''ambiguous'', s_status := ''in-progress''\<rparr>)"
  let ?rest = "act_then (act_catch (act_outside (github_promote b c)) (fail_with b ''ambiguous''))
    (act_then (act_update (\<lambda>s. s\<lparr>s_promoted := True, s_github_outcome := ''promoted'', s_status := ''complete''\<rparr>))
      (write_settlement b))"
  have mark: "triple (\<lambda>_. written_ahead) ?mark (\<lambda>_ s es. written_ahead es \<and> promotion_recorded s) ?E"
    by (rule triple_pre [OF triple_update]) (simp add: promotion_recorded_def)
  have store: "triple (\<lambda>s es. written_ahead es \<and> promotion_recorded s) (write_settlement b)
      (\<lambda>_ s es. written_ahead (es @ [Promoted])) ?E"
    by (rule triple_conseq [OF triple_write_ahead [of promotion_recorded]])
       (auto simp: promotion_recorded_def written_ahead_snoc)
  have note_it: "triple (\<lambda>s es. written_ahead (es @ [Promoted])) (act_log Promoted) (\<lambda>_ _. written_ahead) ?E"
    by (rule triple_log)
  have rest: "keeps written_ahead ?rest" by (intro keeps_intros)
  have tail: "keeps written_ahead (act_then ?mark (act_then (write_settlement b) (act_then (act_log Promoted) ?rest)))"
    unfolding keeps_def
    by (rule triple_then, rule mark, rule triple_then, rule store, rule triple_then, rule note_it,
        rule rest [unfolded keeps_def])
  show ?thesis
    unfolding settle_and_promote_def by (intro keeps_intros tail)
qed

lemma keeps_body: "keeps written_ahead (guarded_body b npm operation c lineage)"
  unfolding guarded_body_def transition_body_def transition_handler_def bootstrap_def stage_platforms_def
    stage_meta_def
  by (intro keeps_intros keeps_promotion)

lemma written_ahead_execute:
  "written_ahead (tr_events (execute_transition b npm operation c lineage evidence digest run_id run_attempt w))"
proof -
  have "written_ahead (events st')"
    if "guarded_body b npm operation c lineage \<lparr>world = w', live = s, events = []\<rparr> = (r, st')" for s w' r st'
  proof -
    have "case guarded_body b npm operation c lineage \<lparr>world = w', live = s, events = []\<rparr> of
        (Inl e, st') \<Rightarrow> written_ahead (events st') | (Inr _, st') \<Rightarrow> written_ahead (events st')"
      using keeps_body [of b npm operation c lineage] unfolding keeps_def triple_def by simp
    with that show ?thesis by (cases r) simp_all
  qed
  then show ?thesis
    by (auto simp: execute_transition_def split: prod.splits sum.splits)
qed

end
