(* ===== verification/Promotion_Run.thy ===== *)
theory Promotion_Run
  imports Promotion_Ahead
begin

text \<open>
  What a whole run does: for each of the four operations, the live settlement keeps one of the shapes of
  \<^verbatim>\<open>Promotion_Shapes\<close>, so the validator accepts every settlement the run wants to store; the mutations
  are made in the order of the packages, each at most once; and a run that stops has stored a settlement
  that says so.
\<close>

section \<open>Assertions\<close>

fun mutations :: "event list \<Rightarrow> (string \<times> string) list" where
  "mutations [] = []"
| "mutations (Mutated operation name # es) = (operation, name) # mutations es"
| "mutations (Wrote s # es) = mutations es"
| "mutations (Refused s # es) = mutations es"
| "mutations (WriteFailed s # es) = mutations es"
| "mutations (Promoted # es) = mutations es"

lemma mutations_append [simp]: "mutations (xs @ ys) = mutations xs @ mutations ys"
  by (induction xs rule: mutations.induct) auto

definition promotions :: "event list \<Rightarrow> nat" where
  "promotions es = length (filter (\<lambda>e. e = Promoted) es)"

lemma promotions_simps [simp]:
  "promotions [] = 0" "promotions (xs @ ys) = promotions xs + promotions ys"
  "promotions [Wrote s] = 0" "promotions [Refused s] = 0" "promotions [WriteFailed s] = 0"
  "promotions [Mutated a n] = 0" "promotions [Promoted] = 1"
  by (simp_all add: promotions_def)

definition no_refusal :: "event list \<Rightarrow> bool" where
  "no_refusal es \<longleftrightarrow> (\<forall>s. Refused s \<notin> set es)"

definition disk_failed :: "event list \<Rightarrow> bool" where
  "disk_failed es \<longleftrightarrow> (\<exists>s. WriteFailed s \<in> set es)"

lemma log_simps [simp]:
  "no_refusal []" "\<not> disk_failed []"
  "no_refusal (es @ [Wrote s]) = no_refusal es" "disk_failed (es @ [Wrote s]) = disk_failed es"
  "no_refusal (es @ [Mutated a n]) = no_refusal es" "disk_failed (es @ [Mutated a n]) = disk_failed es"
  "no_refusal (es @ [Promoted]) = no_refusal es" "disk_failed (es @ [Promoted]) = disk_failed es"
  "disk_failed (es @ [WriteFailed s])" "disk_failed es \<Longrightarrow> disk_failed (es @ [x])"
  by (auto simp: no_refusal_def disk_failed_def)

definition pe_key :: "package_entry \<Rightarrow> string list" where
  "pe_key e = [pe_name e, pe_role e, pe_artifact e, pe_sha256 e, pe_shasum e, pe_integrity e]"

definition run_state ::
  "string list \<Rightarrow> string \<Rightarrow> pyval \<Rightarrow> bool \<Rightarrow> package_entry list \<Rightarrow> settlement \<Rightarrow> bool" where
  "run_state names operation toolchain again pk s \<longleftrightarrow>
     frame_ok names s \<and> attested again s \<and> s_operation s = operation \<and> idle s \<and>
     s_toolchain s = toolchain \<and> toolchain_check toolchain = None \<and> s_packages s = pk"

lemma frame_entry_cong:
  "s_version s' = s_version s \<Longrightarrow> as_assets (s_attestations s') = as_assets (s_attestations s) \<Longrightarrow>
     pe_key e' = pe_key e \<Longrightarrow> frame_entry s' n e' = frame_entry s n e"
  by (simp add: frame_entry_def pe_key_def)

lemma frame_ok_packages:
  assumes "frame_ok names s" "map pe_key pk = map pe_key (s_packages s)"
  shows "frame_ok names (s\<lparr>s_packages := pk\<rparr>)"
proof -
  have "list_all2 (frame_entry s) PACKAGE_ORDER (s_packages s)" using assms(1) by (simp add: frame_ok_def)
  moreover have len: "length pk = length (s_packages s)" using assms(2) by (rule map_eq_imp_length_eq)
  moreover have "pe_key (pk ! i) = pe_key (s_packages s ! i)" if "i < length pk" for i
    using that assms(2) len by (metis nth_map)
  ultimately have "list_all2 (frame_entry (s\<lparr>s_packages := pk\<rparr>)) PACKAGE_ORDER pk"
    by (auto simp: list_all2_conv_all_nth frame_entry_cong [of "s\<lparr>s_packages := pk\<rparr>" s])
  with assms(1) show ?thesis by (simp add: frame_ok_def)
qed

lemma frame_entry_updates [simp]:
  "frame_entry (s\<lparr>s_status := x\<rparr>) = frame_entry s"
  "frame_entry (s\<lparr>s_updated := t\<rparr>) = frame_entry s"
  "frame_entry (s\<lparr>s_toolchain := v\<rparr>) = frame_entry s"
  "frame_entry (s\<lparr>s_promotion_attempted := q\<rparr>) = frame_entry s"
  "frame_entry (s\<lparr>s_promoted := q\<rparr>) = frame_entry s"
  "frame_entry (s\<lparr>s_github_outcome := x\<rparr>) = frame_entry s"
  "frame_entry (s\<lparr>s_attestations := (s_attestations s)\<lparr>as_status := x, as_bytes := q\<rparr>\<rparr>) = frame_entry s"
  by (simp_all add: fun_eq_iff frame_entry_def)

lemma frame_ok_updates [simp]:
  "frame_ok names (s\<lparr>s_status := x\<rparr>) = frame_ok names s"
  "frame_ok names (s\<lparr>s_updated := t\<rparr>) = frame_ok names s"
  "frame_ok names (s\<lparr>s_toolchain := v\<rparr>) = frame_ok names s"
  "frame_ok names (s\<lparr>s_promotion_attempted := q\<rparr>) = frame_ok names s"
  "frame_ok names (s\<lparr>s_promoted := q\<rparr>) = frame_ok names s"
  "frame_ok names (s\<lparr>s_github_outcome := x\<rparr>) = frame_ok names s"
  "frame_ok names (s\<lparr>s_attestations := (s_attestations s)\<lparr>as_status := x, as_bytes := q\<rparr>\<rparr>) = frame_ok names s"
  by (simp_all add: frame_ok_def)

lemma attested_updates [simp]:
  "attested a (s\<lparr>s_status := x\<rparr>) = attested a s" "attested a (s\<lparr>s_updated := t\<rparr>) = attested a s"
  "attested a (s\<lparr>s_toolchain := v\<rparr>) = attested a s" "attested a (s\<lparr>s_packages := pk\<rparr>) = attested a s"
  "attested a (s\<lparr>s_promotion_attempted := q\<rparr>) = attested a s" "attested a (s\<lparr>s_promoted := q\<rparr>) = attested a s"
  "attested a (s\<lparr>s_github_outcome := x\<rparr>) = attested a s"
  by (simp_all add: attested_def)

lemma run_state_updates [simp]:
  "run_state n op t a pk (s\<lparr>s_status := x\<rparr>) = run_state n op t a pk s"
  "run_state n op t a pk (s\<lparr>s_updated := u\<rparr>) = run_state n op t a pk s"
  by (simp_all add: run_state_def idle_def)

lemma run_state_packages:
  "run_state n op t a pk s \<Longrightarrow> map pe_key pk' = map pe_key pk \<Longrightarrow> run_state n op t a pk' (s\<lparr>s_packages := pk'\<rparr>)"
  using frame_ok_packages by (auto simp: run_state_def idle_def)

lemma run_state_toolchain:
  "run_state n op t a pk s \<Longrightarrow> toolchain_check t' = None \<Longrightarrow> run_state n op t' a pk (s\<lparr>s_toolchain := t'\<rparr>)"
  by (simp add: run_state_def idle_def)

lemma run_state_reauth_failed:
  "run_state n op t True pk s \<Longrightarrow>
     run_state n op t False pk (s\<lparr>s_attestations := (s_attestations s)\<lparr>as_status := ''failed'', as_bytes := False\<rparr>\<rparr>)"
  by (auto simp: run_state_def idle_def attested_def Let_def)

lemma idle_github_ok: "idle s \<Longrightarrow> github_ok s"
  by (simp add: idle_def github_ok_def)

section \<open>Accepted shapes\<close>

lemma fresh_entry_ok:
  "fresh e \<Longrightarrow> entry_ok e" "fresh e \<Longrightarrow> entry_ok (published e)" "fresh e \<Longrightarrow> entry_ok (staged e)"
  "fresh e \<Longrightarrow> entry_ok (verified e)" "fresh e \<Longrightarrow> a \<in> {''publish'', ''stage''} \<Longrightarrow> entry_ok (undecided a e)"
  by (auto simp: fresh_def entry_ok_def mark_defs)

lemma mark_keys [simp]:
  "pe_key (published e) = pe_key e" "pe_key (staged e) = pe_key e" "pe_key (verified e) = pe_key e"
  "pe_key (undecided a e) = pe_key e"
  by (simp_all add: pe_key_def mark_defs)

lemma mark_names [simp]:
  "pe_name (published e) = pe_name e" "pe_name (staged e) = pe_name e" "pe_name (verified e) = pe_name e"
  "pe_name (undecided a e) = pe_name e"
  by (simp_all add: mark_defs)

lemma mark_attempted [simp]:
  "pe_attempted (published e)" "pe_attempted (staged e)" "pe_attempted (undecided a e)"
  "pe_attempted (verified e) = pe_attempted e"
  by (simp_all add: mark_defs)

lemma run_accepted:
  assumes "run_state n op t a pk s" "list_all entry_ok pk" "coherent s"
    "op = ''settle-and-promote'' \<longrightarrow> t = PNone" "list_ex pe_attempted pk \<longrightarrow> t \<noteq> PNone"
  shows "accepted s"
  using assms by (intro accepted_intro [of n s a]) (auto simp: run_state_def toolchain_ok_def idle_github_ok)

lemma run_att:
  "run_state n op t a pk s \<Longrightarrow> att_settled s" "run_state n op t True pk s \<Longrightarrow> att_verified s"
  by (auto simp: run_state_def attested_def att_settled_def Let_def)

lemma fresh_list_ok:
  "list_all fresh ys \<Longrightarrow> list_all entry_ok ys" "list_all fresh ys \<Longrightarrow> \<not> list_ex pe_attempted ys"
  "list_all fresh xs \<Longrightarrow> list_all entry_ok (map published xs)"
  "list_all fresh xs \<Longrightarrow> list_all entry_ok (map staged xs)"
  "list_all fresh xs \<Longrightarrow> list_all entry_ok (map verified xs)"
  "list_all fresh xs \<Longrightarrow> \<not> list_ex pe_attempted (map verified xs)"
  by (auto simp: list_all_iff list_ex_iff fresh_entry_ok fresh_def)

lemma accepted_bootstrap:
  assumes r: "run_state n ''bootstrap'' t a (map published xs @ ys) s" and f: "list_all fresh xs" "list_all fresh ys"
    and t: "xs \<noteq> [] \<longrightarrow> t \<noteq> PNone"
    and st: "s_status s = ''in-progress'' \<and> a \<or> s_status s = ''partial-publication'' \<and> xs \<noteq> [] \<or>
      s_status s = ''failed'' \<and> xs = [] \<or> s_status s = ''npm-settled'' \<and> a \<and> ys = [] \<and> xs \<noteq> []"
  shows "accepted s"
proof (rule run_accepted [OF r])
  have s: "s_operation s = ''bootstrap''" "idle s" "s_packages s = map published xs @ ys" "s_toolchain s = t"
    using r by (simp_all add: run_state_def)
  show "coherent s"
    using st t s(4) run_att(1) [OF r] run_att(2) [of n "''bootstrap''" t "map published xs @ ys" s] r
      bootstrap_coherent [OF s(1-3) f(2)] by auto
qed (use f t in \<open>auto simp: fresh_list_ok\<close>)

lemma accepted_bootstrap_undecided:
  assumes r: "run_state n ''bootstrap'' t True (map published xs @ undecided ''publish'' z # ys) s"
    and f: "list_all fresh xs" "fresh z" "list_all fresh ys" and t: "t \<noteq> PNone"
    and st: "s_status s \<in> {''in-progress'', ''partial-publication''}"
  shows "accepted s"
proof (rule run_accepted [OF r])
  have s: "s_operation s = ''bootstrap''" "idle s"
    "s_packages s = map published xs @ undecided ''publish'' z # ys" "s_toolchain s = t"
    using r by (simp_all add: run_state_def)
  show "coherent s"
    using st t s(4) run_att [OF r] bootstrap_undecided_coherent [OF s(1-3) f(3)] by auto
qed (use f t in \<open>auto simp: fresh_list_ok fresh_entry_ok\<close>)

lemma accepted_stage:
  assumes r: "run_state n ''stage-platforms'' t a ((map staged xs @ ys) @ [m]) s"
    and f: "list_all fresh xs" "list_all fresh ys" "fresh m" and t: "xs \<noteq> [] \<longrightarrow> t \<noteq> PNone"
    and st: "s_status s = ''in-progress'' \<and> a \<or> s_status s = ''failed'' \<or>
      s_status s = ''awaiting-platform-approval'' \<and> a \<and> ys = [] \<and> xs \<noteq> []"
  shows "accepted s"
proof (rule run_accepted [OF r])
  have s: "s_operation s = ''stage-platforms''" "idle s" "s_packages s = (map staged xs @ ys) @ [m]" "s_toolchain s = t"
    using r by (simp_all add: run_state_def)
  show "coherent s"
    using st t s(4) run_att(1) [OF r] run_att(2) [of n "''stage-platforms''" t "(map staged xs @ ys) @ [m]" s] r
      stage_coherent [OF s(1-3) f(2,3)] by auto
qed (use f t in \<open>auto simp: fresh_list_ok fresh_entry_ok fresh_def\<close>)

lemma accepted_stage_undecided:
  assumes r: "run_state n ''stage-platforms'' t True ((map staged xs @ undecided ''stage'' z # ys) @ [m]) s"
    and f: "list_all fresh xs" "fresh z" "list_all fresh ys" "fresh m" and t: "t \<noteq> PNone"
    and st: "s_status s \<in> {''in-progress'', ''ambiguous''}"
  shows "accepted s"
proof (rule run_accepted [OF r])
  have s: "s_operation s = ''stage-platforms''" "idle s"
    "s_packages s = (map staged xs @ undecided ''stage'' z # ys) @ [m]" "s_toolchain s = t"
    using r by (simp_all add: run_state_def)
  show "coherent s"
    using st t s(4) run_att [OF r] stage_undecided_coherent [OF s(1-3) f(3,4)] by auto
qed (use f t in \<open>auto simp: fresh_list_ok fresh_entry_ok\<close>)

lemma accepted_meta:
  assumes r: "run_state n ''stage-meta'' t a ((map verified xs @ ys) @ [m]) s"
    and f: "list_all fresh xs" "list_all fresh ys" "fresh m"
    and st: "s_status s = ''in-progress'' \<and> a \<or> s_status s = ''failed''"
  shows "accepted s"
proof (rule run_accepted [OF r])
  have s: "s_operation s = ''stage-meta''" "idle s" "s_packages s = (map verified xs @ ys) @ [m]"
    using r by (simp_all add: run_state_def)
  show "coherent s"
    using st run_att(1) [OF r] run_att(2) [of n "''stage-meta''" t "(map verified xs @ ys) @ [m]" s] r
      meta_coherent [OF s(1-3) f(2,1,3)] by auto
qed (use f fresh_list_ok(6) [OF f(1)] fresh_list_ok(2) [OF f(2)] in \<open>auto simp: fresh_list_ok fresh_entry_ok fresh_def\<close>)

lemma accepted_meta_attempt:
  assumes r: "run_state n ''stage-meta'' t True (map verified xs @ [e]) s"
    and f: "list_all fresh xs" "fresh m" and t: "t \<noteq> PNone"
    and st: "e = undecided ''stage'' m \<and> s_status s \<in> {''in-progress'', ''ambiguous''} \<or>
      e = staged m \<and> s_status s = ''awaiting-meta-approval''"
  shows "accepted s"
proof (rule run_accepted [OF r])
  have s: "s_operation s = ''stage-meta''" "idle s" "s_packages s = map verified xs @ [e]" "s_toolchain s = t"
    using r by (simp_all add: run_state_def)
  show "coherent s"
    using st t s run_att(2) [OF r] meta_attempt_coherent [OF s(1,2) run_att(2) [OF r] f(1), of m] by auto
qed (use f t st in \<open>auto simp: fresh_list_ok fresh_entry_ok\<close>)

lemma accepted_settle:
  assumes r: "run_state n ''settle-and-promote'' PNone a (map verified xs @ ys) s"
    and f: "list_all fresh xs" "list_all fresh ys"
    and st: "s_status s = ''in-progress'' \<and> a \<or> s_status s = ''failed''"
  shows "accepted s"
proof (rule run_accepted [OF r])
  have s: "s_operation s = ''settle-and-promote''" "idle s" "s_packages s = map verified xs @ ys" "s_toolchain s = PNone"
    using r by (simp_all add: run_state_def)
  show "coherent s"
    using st run_att(1) [OF r] run_att(2) [of n "''settle-and-promote''" PNone "map verified xs @ ys" s] r
      settle_coherent [OF s(1,4,2,3) f(2,1)] by auto
qed (use f fresh_list_ok(6) [OF f(1)] fresh_list_ok(2) [OF f(2)] in \<open>auto simp: fresh_list_ok\<close>)

end
