(* ===== verification/Promotion_Steps.thy ===== *)
theory Promotion_Steps
  imports Promotion_Run
begin

text \<open>
  The steps of a run as triples: each takes a running state with one shape of the packages and the
  mutations made so far to the next one, or stops in a state the handler can record.
\<close>

section \<open>Running and stopping\<close>

definition running ::
  "string list \<Rightarrow> string \<Rightarrow> pyval \<Rightarrow> package_entry list \<Rightarrow> (string \<times> string) list \<Rightarrow> assertion" where
  "running n op t pk M s es \<longleftrightarrow>
     run_state n op t True pk s \<and> s_status s = ''in-progress'' \<and> no_refusal es \<and> \<not> disk_failed es \<and>
     mutations es = M \<and> promotions es = 0"

definition stop_err :: "(string \<times> string) list \<Rightarrow> nat \<Rightarrow> exn \<Rightarrow> assertion" where
  "stop_err L k e s es \<longleftrightarrow> prefix (mutations es) L \<and> promotions es \<le> k \<and>
     (disk_failed es \<or> no_refusal es \<and> (is_promotion e \<longrightarrow>
        (if s_status s \<in> {''ambiguous'', ''partial-publication''} then \<exists>pre. es = pre @ [Wrote s]
         else accepted (s\<lparr>s_status := stopped_status s\<rparr>))))"

definition stop_of :: "package_entry list \<Rightarrow> string" where
  "stop_of pk = (if list_ex (\<lambda>e. pe_attempted e \<and> pe_action e = ''publish'') pk
     then ''partial-publication'' else ''failed'')"

definition stoppable :: "string list \<Rightarrow> string \<Rightarrow> pyval \<Rightarrow> package_entry list \<Rightarrow> bool" where
  "stoppable n op t pk \<longleftrightarrow> (\<forall>a s. run_state n op t a pk s \<longrightarrow> s_status s = stop_of pk \<longrightarrow> accepted s)"

definition storable :: "string list \<Rightarrow> string \<Rightarrow> pyval \<Rightarrow> package_entry list \<Rightarrow> string \<Rightarrow> bool" where
  "storable n op t pk x \<longleftrightarrow> (\<forall>s. run_state n op t True pk s \<longrightarrow> s_status s = x \<longrightarrow> accepted s)"

lemma stopped_run: "run_state n op t a pk s \<Longrightarrow> stopped_status s = stop_of pk"
  by (simp add: run_state_def stopped_status_def stop_of_def)

lemma running_stops:
  assumes "stoppable n op t pk" "prefix M L" "running n op t pk M s es"
  shows "stop_err L k e s es"
proof -
  have r: "run_state n op t True pk s" using assms(3) by (simp add: running_def)
  then have "accepted (s\<lparr>s_status := stopped_status s\<rparr>)"
    using assms(1) stopped_run [OF r] by (simp add: stoppable_def)
  with assms show ?thesis by (simp add: stop_err_def running_def)
qed

lemma step_look:
  assumes "\<And>P. triple P m (\<lambda>x s es. P s es \<and> \<Phi> x) (\<lambda>_. P)" "stoppable n op t pk" "prefix M L"
  shows "triple (running n op t pk M) m (\<lambda>x s es. running n op t pk M s es \<and> \<Phi> x) (stop_err L k)"
  by (rule triple_conseq [OF assms(1) [of "running n op t pk M"]]) (auto intro: running_stops [OF assms(2,3)])

lemma step_look_at:
  assumes "\<And>P. triple P m (\<lambda>_. P) (\<lambda>_. P)" "stoppable n op t pk" "prefix M L"
  shows "triple (running n op t pk M) m (\<lambda>_. running n op t pk M) (stop_err L k)"
  by (rule triple_conseq [OF assms(1) [of "running n op t pk M"]]) (auto intro: running_stops [OF assms(2,3)])

lemma step_write:
  assumes "storable n op t pk ''in-progress''" "prefix M L"
  shows "triple (running n op t pk M) (write_settlement b) (\<lambda>_. running n op t pk M) (stop_err L k)"
proof (rule triple_write)
  fix s es assume r: "running n op t pk M s es"
  then show "accepted s" using assms(1) by (auto simp: running_def storable_def)
  fix u show "running n op t pk M (s\<lparr>s_updated := u\<rparr>) (es @ [Wrote (s\<lparr>s_updated := u\<rparr>)])"
    using r by (simp add: running_def)
  fix e show "stop_err L k e (s\<lparr>s_updated := u\<rparr>) (es @ [WriteFailed (s\<lparr>s_updated := u\<rparr>)])"
    using r assms(2) by (simp add: running_def stop_err_def)
qed

lemma step_fail_with:
  assumes "storable n op t pk x" "prefix M L" "x \<in> {''ambiguous'', ''partial-publication''}"
  shows "triple (running n op t pk M) (fail_with b x e) Q (stop_err L k)"
  unfolding fail_with_def set_status_def
proof (rule triple_then [OF triple_pre [OF triple_update [of "\<lambda>_ s es. run_state n op t True pk s \<and>
      s_status s = x \<and> no_refusal es \<and> mutations es = M \<and> promotions es = 0"]]])
  show "triple (\<lambda>s es. run_state n op t True pk s \<and> s_status s = x \<and> no_refusal es \<and> mutations es = M \<and> promotions es = 0)
     (act_then (write_settlement b) (act_raise e)) Q (stop_err L k)"
  proof (rule triple_then [OF _ triple_raised])
    show "triple (\<lambda>s es. run_state n op t True pk s \<and> s_status s = x \<and> no_refusal es \<and> mutations es = M \<and> promotions es = 0)
       (write_settlement b) (\<lambda>_. stop_err L k e) (stop_err L k)"
      by (rule triple_write) (use assms in \<open>auto simp: storable_def stop_err_def\<close>)
  qed
qed (simp add: running_def)

lemma step_reauthenticate:
  assumes "stoppable n op t pk" "prefix M L"
  shows "triple (running n op t pk M) (reauthenticate_attested_bytes b c) (\<lambda>_. running n op t pk M) (stop_err L k)"
  unfolding reauthenticate_attested_bytes_def
proof (rule triple_bind [OF triple_pre [OF triple_get [of "\<lambda>x s es. running n op t pk M s es \<and> x = ''verified''"]]])
  fix s es assume "running n op t pk M s es"
  then show "running n op t pk M s es \<and> as_status (s_attestations s) = ''verified''"
    using run_att(2) [of n op t pk s] by (simp add: running_def)
next
  fix status
  let ?failed = "\<lambda>s. s\<lparr>s_attestations := (s_attestations s)\<lparr>as_status := ''failed'', as_bytes := False\<rparr>,
      s_status := stopped_status s\<rparr>"
  let ?R = "\<lambda>s es. run_state n op t False pk s \<and> s_status s = stop_of pk \<and> no_refusal es \<and>
      mutations es = M \<and> promotions es = 0"
  have stored: "triple ?R (write_settlement b) (\<lambda>_. stop_err L k e) (stop_err L k)" for e
  proof (rule triple_write)
    fix s es assume r: "?R s es"
    then show acc: "accepted s" using assms(1) by (auto simp: stoppable_def)
    fix u :: string
    have "accepted (s\<lparr>s_updated := u, s_status := stop_of pk\<rparr>)"
      using r assms(1) by (auto simp: stoppable_def)
    moreover have "stopped_status (s\<lparr>s_updated := u\<rparr>) = stop_of pk"
      using r by (intro stopped_run [of n op t False]) simp
    ultimately show "stop_err L k e (s\<lparr>s_updated := u\<rparr>) (es @ [Wrote (s\<lparr>s_updated := u\<rparr>)])"
      using r acc assms(2) by (auto simp: stop_err_def)
    fix e' show "stop_err L k e' (s\<lparr>s_updated := u\<rparr>) (es @ [WriteFailed (s\<lparr>s_updated := u\<rparr>)])"
      using r assms(2) by (auto simp: stop_err_def)
  qed
  have mark: "triple (running n op t pk M) (act_update ?failed) (\<lambda>_. ?R) (stop_err L k)"
    by (rule triple_pre [OF triple_update])
       (auto simp: running_def stopped_run intro: run_state_reauth_failed)
  have "triple (running n op t pk M) (act_then (act_update ?failed) (act_then (write_settlement b) (act_raise e)))
      (\<lambda>_. running n op t pk M) (stop_err L k)" for e
    by (rule triple_then, rule mark, rule triple_then, rule stored, rule triple_raised)
  then have "triple (running n op t pk M) (act_catch (act_outside (reauthenticate_assets b c))
      (\<lambda>e. act_then (act_update ?failed) (act_then (write_settlement b) (act_raise e)))) (\<lambda>_. running n op t pk M) (stop_err L k)"
    by (rule triple_catch [OF triple_outside_frame]) (rule running_stops [OF assms])
  then show "triple (\<lambda>s es. running n op t pk M s es \<and> status = ''verified'')
      (if status \<noteq> ''verified'' then act_raise (PromotionError ''GitHub artifact attestations are not settled'')
       else act_catch (act_outside (reauthenticate_assets b c))
         (\<lambda>e. act_then (act_update ?failed) (act_then (write_settlement b) (act_raise e))))
      (\<lambda>_. running n op t pk M) (stop_err L k)"
    by (cases "status = ''verified''") (auto intro: triple_raised)
qed

lemma step_entry:
  assumes "update_first name f pk = pk'" "name \<in> set (map pe_name pk)" "map pe_key pk' = map pe_key pk"
  shows "triple (running n op t pk M) (settlement_entry name f) (\<lambda>_. running n op t pk' M) E"
proof -
  have "running n op t pk M s es \<Longrightarrow> running n op t pk' M (s\<lparr>s_packages := update_first name f (s_packages s)\<rparr>) es"
    and "running n op t pk M s es \<Longrightarrow> name \<in> set (map pe_name (s_packages s))" for s es
    using assms run_state_packages [of n op t True pk s pk'] by (auto simp: running_def run_state_def)
  then show ?thesis
    unfolding triple_def settlement_entry_def act_bind_def act_get_def act_update_def act_raise_def by auto
qed

lemma update_first_at: "pe_name e = name \<Longrightarrow> name \<notin> set (map pe_name xs) \<Longrightarrow>
    update_first name f (xs @ e # ys) = xs @ f e # ys"
  by (induction xs) auto

lemma step_attempt:
  assumes stop: "stoppable n op t pk" and upd: "update_first (pa_name p) (undecided a) pk = pk'"
    and mem: "pa_name p \<in> set (map pe_name pk)" and keys: "map pe_key pk' = map pe_key pk"
    and w: "storable n op t pk' ''in-progress''"
    and x: "storable n op t pk' (if a = ''publish'' then ''partial-publication'' else ''ambiguous'')"
    and L: "prefix (M @ [(a, pa_name p)]) L"
  shows "triple (running n op t pk M) (attempt b c a p) (\<lambda>_. running n op t pk' (M @ [(a, pa_name p)])) (stop_err L k)"
proof -
  have L': "prefix M L" using L by (rule append_prefixD)
  have f: "(\<lambda>e. e\<lparr>pe_attempted := True, pe_action := a, pe_outcome := ''ambiguous''\<rparr>) = undecided a"
    by (simp add: undecided_def fun_eq_iff)
  have status: "triple (running n op t pk' M) (set_status ''in-progress'') (\<lambda>_. running n op t pk' M) (stop_err L k)"
    unfolding set_status_def by (rule triple_pre [OF triple_update]) (simp add: running_def)
  have logged: "triple (running n op t pk' M) (act_log (Mutated a (pa_name p)))
      (\<lambda>_. running n op t pk' (M @ [(a, pa_name p)])) (stop_err L k)"
    by (rule triple_pre [OF triple_log]) (simp add: running_def)
  let ?N = "running n op t pk' (M @ [(a, pa_name p)])"
  have mutate: "triple ?N (act_catch (act_outside (npm_mutate b a p))
      (fail_with b (if a = ''publish'' then ''partial-publication'' else ''ambiguous''))) (\<lambda>_. ?N) (stop_err L k)"
  proof (rule triple_catch [OF triple_outside_frame])
    show "triple ?N (fail_with b (if a = ''publish'' then ''partial-publication'' else ''ambiguous'') e) (\<lambda>_. ?N) (stop_err L k)"
      for e using x L by (rule step_fail_with) simp
    show "\<not> is_promotion e \<Longrightarrow> ?N s es \<Longrightarrow> stop_err L k e s es" for e s es
      using L by (auto simp: running_def stop_err_def)
  qed
  show ?thesis
    unfolding attempt_def f
    by (rule triple_then, rule step_reauthenticate [OF stop L'], rule triple_then,
        rule step_entry [OF upd mem keys], rule triple_then, rule status, rule triple_then,
        rule step_write [OF w L'], rule triple_then, rule logged, rule mutate)
qed

lemma step_mark:
  assumes "update_first name f pk = pk'" "name \<in> set (map pe_name pk)" "map pe_key pk' = map pe_key pk"
    "storable n op t pk' ''in-progress''" "prefix M L"
  shows "triple (running n op t pk M) (act_then (settlement_entry name f) (write_settlement b))
    (\<lambda>_. running n op t pk' M) (stop_err L k)"
  by (rule triple_then, rule step_entry [OF assms(1-3)], rule step_write [OF assms(4,5)])

lemma step_toolchain:
  assumes valid: "\<And>w v. fst (npm_toolchain b w) = Inr v \<Longrightarrow> toolchain_check v = None \<and> v \<noteq> PNone"
    and stop: "stoppable n op PNone pk" and L: "prefix M L"
    and w: "\<And>t. t \<noteq> PNone \<Longrightarrow> storable n op t pk ''in-progress''"
  shows "triple (running n op PNone pk M) (bind_npm_toolchain b)
    (\<lambda>_ s es. \<exists>t. t \<noteq> PNone \<and> running n op t pk M s es) (stop_err L k)"
  unfolding bind_npm_toolchain_def
proof (rule triple_bind [of _ _ "\<lambda>v s es. running n op PNone pk M s es \<and> toolchain_check v = None \<and> v \<noteq> PNone"])
  show "triple (running n op PNone pk M) (act_outside (npm_toolchain b))
     (\<lambda>v s es. running n op PNone pk M s es \<and> toolchain_check v = None \<and> v \<noteq> PNone) (stop_err L k)"
    using valid running_stops [OF stop L]
    by (auto simp: triple_def act_outside_def split: prod.splits sum.splits) (metis fst_conv)+
  fix v
  show "triple (\<lambda>s es. running n op PNone pk M s es \<and> toolchain_check v = None \<and> v \<noteq> PNone)
     (act_then (act_update (\<lambda>s. s\<lparr>s_toolchain := v\<rparr>)) (write_settlement b))
     (\<lambda>_ s es. \<exists>t. t \<noteq> PNone \<and> running n op t pk M s es) (stop_err L k)"
  proof (cases "toolchain_check v = None \<and> v \<noteq> PNone")
    case True
    have "triple (running n op PNone pk M) (act_update (\<lambda>s. s\<lparr>s_toolchain := v\<rparr>)) (\<lambda>_. running n op v pk M) (stop_err L k)"
      using True by (intro triple_pre [OF triple_update]) (auto simp: running_def intro: run_state_toolchain)
    moreover have "triple (running n op v pk M) (write_settlement b) (\<lambda>_. running n op v pk M) (stop_err L k)"
      using True by (intro step_write w L) simp
    ultimately have "triple (running n op PNone pk M) (act_then (act_update (\<lambda>s. s\<lparr>s_toolchain := v\<rparr>)) (write_settlement b))
        (\<lambda>_. running n op v pk M) (stop_err L k)" by (rule triple_then)
    then show ?thesis by (rule triple_conseq) (use True in auto)
  qed (auto simp: triple_def)
qed

end
