(* ===== verification/Promotion_Operations.thy ===== *)
theory Promotion_Operations
  imports Promotion_Steps
begin

text \<open>
  The four operations as triples from the bound settlement to the stored one: which shape each step
  leaves, that every shape can be stored and stopped, and the composition of the steps.
\<close>

section \<open>Packages of a candidate\<close>

abbreviation entries :: "PackageArtifact list \<Rightarrow> package_entry list" where
  "entries ps \<equiv> map settlement_package ps"

lemma settlement_package_simps [simp]:
  "fresh (settlement_package p)" "pe_name (settlement_package p) = pa_name p"
  "pe_integrity (settlement_package p) = pa_integrity p"
  by (simp_all add: settlement_package_def fresh_def)

lemma fresh_entries [simp]: "list_all fresh (entries ps)"
  by (simp add: list_all_iff)

lemma entries_names [simp]: "map pe_name (entries ps) = map pa_name ps"
  by simp

lemma package_named_at:
  "distinct (map pa_name (c_packages c)) \<Longrightarrow> c_packages c = A @ p # B \<Longrightarrow> package_named c (pa_name p) = Inr p"
proof -
  assume d: "distinct (map pa_name (c_packages c))" and c: "c_packages c = A @ p # B"
  let ?kv = "map (\<lambda>p. (pa_name p, p)) (c_packages c)"
  have "distinct (map fst ?kv)" using d by (simp add: comp_def)
  moreover have "(pa_name p, p) \<in> set ?kv" using c by simp
  ultimately have "map_of ?kv (pa_name p) = Some p" by (rule map_of_is_SomeI)
  then show ?thesis by (simp add: package_named_def)
qed

lemma distinct_PACKAGE_ORDER: "distinct PACKAGE_ORDER"
  by (simp add: PACKAGE_ORDER_def PLATFORM_PACKAGES_def PLATFORMS_def META_PACKAGE_def)

text \<open>The packages up to a name of the order, the one of that name and the others.\<close>

lemma split_packages:
  assumes "map pa_name ps = zs" "zs = xs @ x # ys"
  obtains A p B where "ps = A @ p # B" "map pa_name A = xs" "pa_name p = x" "map pa_name B = ys"
proof -
  from assms have m: "map pa_name ps = xs @ x # ys" by simp
  then obtain A C where 1: "ps = A @ C" "map pa_name A = xs" "map pa_name C = x # ys"
    by (auto simp: map_eq_append_conv)
  then obtain p B where "C = p # B" "pa_name p = x" "map pa_name B = ys" by (cases C) auto
  with 1 that show ?thesis by blast
qed

lemma update_marked:
  assumes "distinct (map pa_name (A @ p # B))" "\<And>e. pe_name (g e) = pe_name e"
  shows "update_first (pa_name p) f (map g (entries A) @ settlement_package p # ys) =
      map g (entries A) @ f (settlement_package p) # ys"
    and "update_first (pa_name p) f (map g (entries A) @ undecided a (settlement_package p) # ys) =
      map g (entries A) @ f (undecided a (settlement_package p)) # ys"
    and "update_first (pa_name p) f (map g (entries (A @ p # B)) @ ys) =
      map g (entries A) @ f (g (settlement_package p)) # map g (entries B) @ ys"
proof -
  have n: "pa_name p \<notin> set (map pe_name (map g (entries A)))"
    using assms by (auto simp: comp_def)
  show "update_first (pa_name p) f (map g (entries A) @ settlement_package p # ys) =
      map g (entries A) @ f (settlement_package p) # ys"
    using n by (intro update_first_at) simp_all
  show "update_first (pa_name p) f (map g (entries A) @ undecided a (settlement_package p) # ys) =
      map g (entries A) @ f (undecided a (settlement_package p)) # ys"
    using n by (intro update_first_at) simp_all
  show "update_first (pa_name p) f (map g (entries (A @ p # B)) @ ys) =
      map g (entries A) @ f (g (settlement_package p)) # map g (entries B) @ ys"
    using n assms(2) update_first_at [of "g (settlement_package p)" "pa_name p" "map g (entries A)"]
    by simp
qed

lemma marks_after_undecided:
  "(\<lambda>e. e\<lparr>pe_outcome := ''published'', pe_registry := Some i, pe_provenance := Some PROVENANCE_PREDICATE\<rparr>)
     (undecided ''publish'' e) = e\<lparr>pe_attempted := True, pe_action := ''publish'', pe_outcome := ''published'',
       pe_registry := Some i, pe_provenance := Some PROVENANCE_PREDICATE\<rparr>"
  by (simp add: undecided_def)

section \<open>Which shapes can be stored and stopped\<close>

lemma stop_bootstrap:
  "list_all fresh xs \<Longrightarrow> list_all fresh ys \<Longrightarrow> (xs \<noteq> [] \<longrightarrow> t \<noteq> PNone) \<Longrightarrow>
     stoppable n ''bootstrap'' t (map published xs @ ys)"
  unfolding stoppable_def
proof (intro allI impI, goal_cases)
  case (1 a s)
  have "stop_of (map published xs @ ys) = (if xs = [] then ''failed'' else ''partial-publication'')"
    using fresh_actions [OF 1(2)] by (cases xs) (auto simp: stop_of_def published_def list_ex_iff)
  with 1 show ?case by (intro accepted_bootstrap [of n t a xs ys s]) (auto split: if_splits)
qed

lemma store_bootstrap:
  "list_all fresh xs \<Longrightarrow> list_all fresh ys \<Longrightarrow> (xs \<noteq> [] \<longrightarrow> t \<noteq> PNone) \<Longrightarrow>
     storable n ''bootstrap'' t (map published xs @ ys) ''in-progress''"
  "list_all fresh xs \<Longrightarrow> xs \<noteq> [] \<Longrightarrow> t \<noteq> PNone \<Longrightarrow> storable n ''bootstrap'' t (map published xs) ''npm-settled''"
  "list_all fresh xs \<Longrightarrow> fresh z \<Longrightarrow> list_all fresh ys \<Longrightarrow> t \<noteq> PNone \<Longrightarrow>
     x \<in> {''in-progress'', ''partial-publication''} \<Longrightarrow>
     storable n ''bootstrap'' t (map published xs @ undecided ''publish'' z # ys) x"
  using accepted_bootstrap [of n t True xs ys] accepted_bootstrap [of n t True xs "[]"]
    accepted_bootstrap_undecided [of n t xs z ys]
  by (auto simp: storable_def)

lemma no_publish:
  "list_all fresh ys \<Longrightarrow> \<not> list_ex (\<lambda>e. pe_attempted e \<and> pe_action e = ''publish'') (map staged xs @ ys)"
  "list_all fresh ys \<Longrightarrow> \<not> list_ex (\<lambda>e. pe_attempted e \<and> pe_action e = ''publish'') (map verified xs @ ys)"
  by (auto simp: list_ex_iff list_all_iff fresh_def staged_def verified_def)

lemma stop_stage:
  "list_all fresh xs \<Longrightarrow> list_all fresh ys \<Longrightarrow> fresh m \<Longrightarrow> (xs \<noteq> [] \<longrightarrow> t \<noteq> PNone) \<Longrightarrow>
     stoppable n ''stage-platforms'' t ((map staged xs @ ys) @ [m])"
  unfolding stoppable_def
proof (intro allI impI, goal_cases)
  case (1 a s)
  have "stop_of ((map staged xs @ ys) @ [m]) = ''failed''"
    using no_publish(1) [of "ys @ [m]" xs] 1(2,3) by (simp add: stop_of_def)
  with 1 show ?case by (intro accepted_stage [of n t a xs ys m s]) auto
qed

lemma store_stage:
  "list_all fresh xs \<Longrightarrow> list_all fresh ys \<Longrightarrow> fresh m \<Longrightarrow> (xs \<noteq> [] \<longrightarrow> t \<noteq> PNone) \<Longrightarrow>
     storable n ''stage-platforms'' t ((map staged xs @ ys) @ [m]) ''in-progress''"
  "list_all fresh xs \<Longrightarrow> fresh m \<Longrightarrow> xs \<noteq> [] \<Longrightarrow> t \<noteq> PNone \<Longrightarrow>
     storable n ''stage-platforms'' t (map staged xs @ [m]) ''awaiting-platform-approval''"
  "list_all fresh xs \<Longrightarrow> fresh z \<Longrightarrow> list_all fresh ys \<Longrightarrow> fresh m \<Longrightarrow> t \<noteq> PNone \<Longrightarrow>
     x \<in> {''in-progress'', ''ambiguous''} \<Longrightarrow>
     storable n ''stage-platforms'' t ((map staged xs @ undecided ''stage'' z # ys) @ [m]) x"
  using accepted_stage [of n t True xs ys m] accepted_stage [of n t True xs "[]" m]
    accepted_stage_undecided [of n t xs z ys m]
  by (auto simp: storable_def)

lemma stop_meta:
  "list_all fresh xs \<Longrightarrow> list_all fresh ys \<Longrightarrow> fresh m \<Longrightarrow>
     stoppable n ''stage-meta'' t ((map verified xs @ ys) @ [m])"
  unfolding stoppable_def
proof (intro allI impI, goal_cases)
  case (1 a s)
  have "stop_of ((map verified xs @ ys) @ [m]) = ''failed''"
    using no_publish(2) [of "ys @ [m]" xs] 1(2,3) by (simp add: stop_of_def)
  with 1 show ?case by (intro accepted_meta [of n t a xs ys m s]) auto
qed

lemma store_meta:
  "list_all fresh xs \<Longrightarrow> list_all fresh ys \<Longrightarrow> fresh m \<Longrightarrow>
     storable n ''stage-meta'' t ((map verified xs @ ys) @ [m]) ''in-progress''"
  "list_all fresh xs \<Longrightarrow> fresh m \<Longrightarrow> t \<noteq> PNone \<Longrightarrow> x \<in> {''in-progress'', ''ambiguous''} \<Longrightarrow>
     storable n ''stage-meta'' t (map verified xs @ [undecided ''stage'' m]) x"
  "list_all fresh xs \<Longrightarrow> fresh m \<Longrightarrow> t \<noteq> PNone \<Longrightarrow>
     storable n ''stage-meta'' t (map verified xs @ [staged m]) ''awaiting-meta-approval''"
  using accepted_meta [of n t True xs ys m] accepted_meta_attempt [of n t xs _ _ m]
  by (auto simp: storable_def)

lemma stop_settle:
  "list_all fresh xs \<Longrightarrow> list_all fresh ys \<Longrightarrow> stoppable n ''settle-and-promote'' PNone (map verified xs @ ys)"
  unfolding stoppable_def
proof (intro allI impI, goal_cases)
  case (1 a s)
  have "stop_of (map verified xs @ ys) = ''failed''"
    using no_publish(2) [OF 1(2), of xs] by (simp add: stop_of_def)
  with 1 show ?case by (intro accepted_settle [of n a xs ys s]) auto
qed

lemma store_settle:
  "list_all fresh xs \<Longrightarrow> list_all fresh ys \<Longrightarrow>
     storable n ''settle-and-promote'' PNone (map verified xs @ ys) ''in-progress''"
  using accepted_settle [of n True xs ys] by (auto simp: storable_def)

section \<open>The steps over one package\<close>

lemma bind_of [simp]: "act_bind (act_of (Inr x)) f = f x"
  by (simp add: act_bind_def act_of_def fun_eq_iff)

definition finished :: "(string \<times> string) list \<Rightarrow> nat \<Rightarrow> string \<Rightarrow> assertion" where
  "finished L k x s es \<longleftrightarrow> mutations es = L \<and> promotions es = k \<and> s_status s = x \<and> no_refusal es \<and>
     \<not> disk_failed es \<and> (\<exists>pre. es = pre @ [Wrote s]) \<and> accepted s"

lemma step_finish:
  assumes "storable n op t pk x" "prefix M L"
  shows "triple (running n op t pk M) (act_then (set_status x) (write_settlement b)) (\<lambda>_. finished M 0 x) (stop_err L k)"
  unfolding set_status_def
proof (rule triple_then [OF triple_pre [OF triple_update [of "\<lambda>_ s es. run_state n op t True pk s \<and>
      s_status s = x \<and> no_refusal es \<and> \<not> disk_failed es \<and> mutations es = M \<and> promotions es = 0"]]])
  show "triple (\<lambda>s es. run_state n op t True pk s \<and> s_status s = x \<and> no_refusal es \<and> \<not> disk_failed es \<and>
      mutations es = M \<and> promotions es = 0) (write_settlement b) (\<lambda>_. finished M 0 x) (stop_err L k)"
    by (rule triple_write) (use assms in \<open>auto simp: storable_def finished_def stop_err_def\<close>)
qed (simp add: running_def)

lemma step_return: "triple P (act_bind m (\<lambda>_. act_return ())) Q E" if "triple P m (\<lambda>_. Q ()) E"
  using that by (rule triple_bind) (rule triple_return)

lemma step_publish:
  assumes c: "c_packages c = A @ p # B" and d: "distinct (map pa_name (c_packages c))" and t: "t \<noteq> PNone"
    and L: "prefix (M @ [(''publish'', pa_name p)]) L"
  shows "triple (running n ''bootstrap'' t (map published (entries A) @ entries (p # B)) M)
     (publish_one b c lineage (pa_name p))
     (\<lambda>_. running n ''bootstrap'' t (map published (entries (A @ [p])) @ entries B) (M @ [(''publish'', pa_name p)]))
     (stop_err L k)"
proof -
  let ?e = "settlement_package p"
  let ?pkU = "map published (entries A) @ undecided ''publish'' ?e # entries B"
  let ?M = "M @ [(''publish'', pa_name p)]"
  let ?amb = "\<lambda>e. e\<lparr>pe_outcome := ''ambiguous''\<rparr>"
  let ?U = "running n ''bootstrap'' t ?pkU ?M"
  note upd = update_marked [OF d [unfolded c] mark_names(1)]
  have stored: "x \<in> {''in-progress'', ''partial-publication''} \<Longrightarrow> storable n ''bootstrap'' t ?pkU x" for x
    using t by (intro store_bootstrap) simp_all
  have att: "triple (running n ''bootstrap'' t (map published (entries A) @ entries (p # B)) M)
      (attempt b c ''publish'' p) (\<lambda>_. ?U) (stop_err L k)"
    using t by (intro step_attempt stop_bootstrap stored L) (simp_all add: upd del: map_map)
  have same: "?amb (undecided ''publish'' ?e) = undecided ''publish'' ?e" by (simp add: undecided_def)
  have fail: "triple ?U (act_then (settlement_entry (pa_name p) ?amb) (fail_with b ''partial-publication'' e))
      (\<lambda>i s es. ?U s es \<and> i = pa_integrity p) (stop_err L k)" for e
  proof (rule triple_then)
    show "triple ?U (settlement_entry (pa_name p) ?amb) (\<lambda>_. ?U) (stop_err L k)"
      by (rule step_entry) (simp_all add: upd same del: map_map)
    show "triple ?U (fail_with b ''partial-publication'' e) (\<lambda>i s es. ?U s es \<and> i = pa_integrity p) (stop_err L k)"
      by (rule step_fail_with [OF stored L]) simp_all
  qed
  have verify: "triple ?U (act_catch (verify_public_package b p lineage) (\<lambda>e.
        act_then (settlement_entry (pa_name p) ?amb) (fail_with b ''partial-publication'' e)))
      (\<lambda>i s es. ?U s es \<and> i = pa_integrity p) (stop_err L k)"
    by (rule triple_catch [OF triple_verify fail]) (use L in \<open>auto simp: running_def stop_err_def\<close>)
  have pub: "e\<lparr>pe_attempted := True, pe_action := ''publish'', pe_outcome := ''published'',
      pe_registry := Some (pe_integrity e), pe_provenance := Some PROVENANCE_PREDICATE\<rparr> = published e" for e
    by (simp add: published_def)
  let ?pkP = "map published (entries (A @ [p])) @ entries B"
  have mark: "triple ?U (mark_published b (pa_name p) (pa_integrity p)) (\<lambda>_. running n ''bootstrap'' t ?pkP ?M) (stop_err L k)"
    unfolding mark_published_def
    using t pub [of ?e] by (intro step_mark store_bootstrap L) (simp_all add: upd marks_after_undecided del: map_map)
  have mark': "triple (\<lambda>s es. ?U s es \<and> i = pa_integrity p)
      (act_then (mark_published b (pa_name p) i) (act_bind (require_latest b lineage) (\<lambda>_. act_return ())))
      (\<lambda>_. running n ''bootstrap'' t ?pkP ?M) (stop_err L k)" for i
  proof (cases "i = pa_integrity p")
    case True
    have "triple ?U (act_then (mark_published b (pa_name p) i) (act_bind (require_latest b lineage) (\<lambda>_. act_return ())))
        (\<lambda>_. running n ''bootstrap'' t ?pkP ?M) (stop_err L k)"
      unfolding True
      using t by (intro triple_then [OF mark] step_return step_look_at triple_require_latest stop_bootstrap L) simp_all
    with True show ?thesis by simp
  qed (simp add: triple_def)
  show ?thesis
    unfolding publish_one_def package_named_at [OF d c] bind_of
    by (rule triple_bind [OF att triple_bind [OF verify mark']])
qed

lemma step_verify_and:
  assumes "package_named c name = Inr p" "stoppable n op t pk" "prefix M L"
    and mark: "triple (running n op t pk M) (mark name (pa_integrity p)) (\<lambda>_. running n op t pk' M) (stop_err L k)"
  shows "triple (running n op t pk M) (verify_and b c lineage mark name) (\<lambda>_. running n op t pk' M) (stop_err L k)"
  unfolding verify_and_def assms(1) bind_of
proof (rule triple_bind [OF step_look [OF triple_verify assms(2,3)]])
  fix i
  show "triple (\<lambda>s es. running n op t pk M s es \<and> i = pa_integrity p) (mark name i)
      (\<lambda>_. running n op t pk' M) (stop_err L k)"
    by (cases "i = pa_integrity p") (use mark in \<open>auto simp: triple_def\<close>)
qed

lemma step_republish:
  assumes c: "c_packages c = A @ p # B" and d: "distinct (map pa_name (c_packages c))" and t: "t \<noteq> PNone"
    and L: "prefix M L" and C: "A @ p # B = C @ D" "p \<in> set C"
  shows "triple (running n ''bootstrap'' t (map published (entries C) @ entries D) M)
     (verify_and b c lineage (mark_published b) (pa_name p))
     (\<lambda>_. running n ''bootstrap'' t (map published (entries C) @ entries D) M) (stop_err L k)"
proof (rule step_verify_and [OF package_named_at [OF d c]])
  have C': "C \<noteq> []" using C(2) by auto
  show "stoppable n ''bootstrap'' t (map published (entries C) @ entries D)" using t by (intro stop_bootstrap) simp_all
  obtain B' where B': "C = A @ p # B'"
  proof -
    obtain A' B' where "C = A' @ p # B'" using C(2) by (meson split_list)
    moreover from this C(1) d c have "A' = A"
      by (auto simp: append_eq_append_conv2 append_eq_Cons_conv Cons_eq_append_conv)
    ultimately show ?thesis using that by blast
  qed
  have "distinct (map pa_name (A @ p # B'))" using d c C(1) B' by auto
  note upd = update_marked(3) [OF this mark_names(1)]
  have same: "published (settlement_package p)\<lparr>pe_outcome := ''published'', pe_registry := Some (pa_integrity p),
      pe_provenance := Some PROVENANCE_PREDICATE\<rparr> = published (settlement_package p)"
    by (simp add: published_def)
  have "update_first (pa_name p) (\<lambda>e. e\<lparr>pe_outcome := ''published'', pe_registry := Some (pa_integrity p),
      pe_provenance := Some PROVENANCE_PREDICATE\<rparr>) (map published (entries C) @ entries D) =
      map published (entries C) @ entries D"
    unfolding B' upd same by simp
  then show "triple (running n ''bootstrap'' t (map published (entries C) @ entries D) M)
     (mark_published b (pa_name p) (pa_integrity p))
     (\<lambda>_. running n ''bootstrap'' t (map published (entries C) @ entries D) M) (stop_err L k)"
    unfolding mark_published_def using t C(2) by (intro step_mark store_bootstrap L) auto
qed (rule L)

lemma verified_mark:
  "(\<lambda>e. e\<lparr>pe_action := ''verify'', pe_outcome := ''verified'', pe_registry := Some (pa_integrity p),
     pe_provenance := Some PROVENANCE_PREDICATE\<rparr>) (settlement_package p) = verified (settlement_package p)"
  by (simp add: verified_def)

lemma step_verified:
  assumes c: "c_packages c = A @ p # B" and d: "distinct (map pa_name (c_packages c))" and L: "prefix M L"
    and B: "B = B1 @ B2"
    and stop: "stoppable n op t (map verified (entries A) @ entries (p # B1) @ entries B2)"
    and store: "storable n op t (map verified (entries (A @ [p])) @ entries B1 @ entries B2) ''in-progress''"
  shows "triple (running n op t (map verified (entries A) @ entries (p # B1) @ entries B2) M)
     (verify_and b c lineage (mark_verified b) (pa_name p))
     (\<lambda>_. running n op t (map verified (entries (A @ [p])) @ entries B1 @ entries B2) M) (stop_err L k)"
proof (rule step_verify_and [OF package_named_at [OF d c] stop L])
  note upd = update_marked(1) [OF d [unfolded c] mark_names(3)]
  have "update_first (pa_name p) (\<lambda>e. e\<lparr>pe_action := ''verify'', pe_outcome := ''verified'',
      pe_registry := Some (pa_integrity p), pe_provenance := Some PROVENANCE_PREDICATE\<rparr>)
      (map verified (entries A) @ entries (p # B1) @ entries B2) =
      map verified (entries (A @ [p])) @ entries B1 @ entries B2"
    using upd [of _ "entries B1 @ entries B2"] verified_mark [of p] by (simp del: map_map)
  then show "triple (running n op t (map verified (entries A) @ entries (p # B1) @ entries B2) M)
     (mark_verified b (pa_name p) (pa_integrity p))
     (\<lambda>_. running n op t (map verified (entries (A @ [p])) @ entries B1 @ entries B2) M) (stop_err L k)"
    unfolding mark_verified_def by (intro step_mark store L) (auto simp: pe_key_def verified_def)
qed

lemma step_stage_attempt:
  assumes c: "c_packages c = A @ p # B" and d: "distinct (map pa_name (c_packages c))"
    and g: "\<And>e. pe_name (g e) = pe_name e" "\<And>e. pe_key (g e) = pe_key e"
    and L: "prefix (M @ [(''stage'', pa_name p)]) L"
    and stop: "stoppable n op t (map g (entries A) @ entries (p # B))"
    and und: "\<And>x. x \<in> {''in-progress'', ''ambiguous''} \<Longrightarrow>
      storable n op t (map g (entries A) @ undecided ''stage'' (settlement_package p) # entries B) x"
  shows "triple (running n op t (map g (entries A) @ entries (p # B)) M) (stage_attempt b c (pa_name p))
     (\<lambda>_. running n op t (map g (entries A) @ staged (settlement_package p) # entries B) (M @ [(''stage'', pa_name p)]))
     (stop_err L k)"
proof -
  let ?e = "settlement_package p"
  let ?pkU = "map g (entries A) @ undecided ''stage'' ?e # entries B"
  let ?pkS = "map g (entries A) @ staged ?e # entries B"
  let ?M = "M @ [(''stage'', pa_name p)]"
  let ?U = "running n op t ?pkU ?M"
  note upd = update_marked [OF d [unfolded c] g(1)]
  have marks: "(undecided ''stage'' ?e)\<lparr>pe_outcome := ''ambiguous''\<rparr> = undecided ''stage'' ?e"
    "(undecided ''stage'' ?e)\<lparr>pe_outcome := ''staged''\<rparr> = staged ?e"
    by (simp_all add: undecided_def staged_def)
  have att: "triple (running n op t (map g (entries A) @ entries (p # B)) M) (attempt b c ''stage'' p) (\<lambda>_. ?U) (stop_err L k)"
    by (intro step_attempt stop und L) (simp_all add: upd g del: map_map)
  have fail: "triple ?U (act_then (settlement_entry (pa_name p) (\<lambda>e. e\<lparr>pe_outcome := ''ambiguous''\<rparr>))
      (fail_with b ''ambiguous'' e)) (\<lambda>_. running n op t ?pkS ?M) (stop_err L k)" for e
  proof (rule triple_then)
    show "triple ?U (settlement_entry (pa_name p) (\<lambda>e. e\<lparr>pe_outcome := ''ambiguous''\<rparr>)) (\<lambda>_. ?U) (stop_err L k)"
      by (rule step_entry) (simp_all add: upd marks del: map_map)
    show "triple ?U (fail_with b ''ambiguous'' e) (\<lambda>_. running n op t ?pkS ?M) (stop_err L k)"
      by (rule step_fail_with [OF und L]) simp_all
  qed
  have ok: "triple ?U (settlement_entry (pa_name p) (\<lambda>e. e\<lparr>pe_outcome := ''staged''\<rparr>)) (\<lambda>_. running n op t ?pkS ?M) (stop_err L k)"
    by (rule step_entry) (simp_all add: upd marks del: map_map)
  show ?thesis
    unfolding stage_attempt_def package_named_at [OF d c] bind_of
    by (rule triple_bind [OF att], split if_split, intro conjI impI, rule fail, rule ok)
qed

end
