(* ===== verification/Promotion_Outcome.thy ===== *)
theory Promotion_Outcome
  imports Promotion_Operations
begin

text \<open>
  The four operations, the handler and the whole transition: what a completed run has done and stored,
  and what a stopped run has stored.
\<close>

section \<open>Small steps\<close>

lemma step_check:
  "stoppable n op t pk \<Longrightarrow> prefix M L \<Longrightarrow>
     triple (running n op t pk M) (act_check c) (\<lambda>_. running n op t pk M) (stop_err L k)"
  by (rule step_look_at) (auto intro: triple_check)

lemma triple_some:
  "(\<And>t. A t \<Longrightarrow> triple (P t) m Q E) \<Longrightarrow> triple (\<lambda>s es. \<exists>t. A t \<and> P t s es) m Q E"
  unfolding triple_def by (intro allI impI, elim exE conjE) simp

lemma look_each:
  assumes "\<And>x P. triple P (f x) (\<lambda>_. P) (\<lambda>_. P)" "stoppable n op t pk" "prefix M L"
  shows "triple (running n op t pk M) (for_each f xs) (\<lambda>_. running n op t pk M) (stop_err L k)"
  by (rule triple_for_each_same) (rule step_look_at [OF assms])

lemma triple_look_package:
  "(\<And>found. triple P (f found) (\<lambda>_. P) (\<lambda>_. P)) \<Longrightarrow>
     triple P (act_bind (act_outside (registry_package b x)) f) (\<lambda>_. P) (\<lambda>_. P)"
  by (rule triple_bind [OF triple_outside_frame])

section \<open>The operations\<close>

definition planned :: "string \<Rightarrow> (string \<times> string) list" where
  "planned operation =
     (if operation = ''bootstrap'' then map (Pair ''publish'') PACKAGE_ORDER
      else if operation = ''stage-platforms'' then map (Pair ''stage'') PLATFORM_PACKAGES
      else if operation = ''stage-meta'' then [(''stage'', META_PACKAGE)] else [])"

definition target_status :: "string \<Rightarrow> string" where
  "target_status operation =
     (if operation = ''bootstrap'' then ''npm-settled''
      else if operation = ''stage-platforms'' then ''awaiting-platform-approval''
      else if operation = ''stage-meta'' then ''awaiting-meta-approval'' else ''complete'')"

definition planned_promotions :: "string \<Rightarrow> nat" where
  "planned_promotions operation = (if operation = ''settle-and-promote'' then 1 else 0)"

lemma candidate_split:
  assumes "map pa_name (c_packages c) = PACKAGE_ORDER"
  obtains P m where "c_packages c = P @ [m]" "map pa_name P = PLATFORM_PACKAGES" "pa_name m = META_PACKAGE"
    "distinct (map pa_name (c_packages c))" "P \<noteq> []"
proof -
  from assms have "map pa_name (c_packages c) = PLATFORM_PACKAGES @ META_PACKAGE # []"
    by (simp add: PACKAGE_ORDER_def)
  then obtain P p B where "c_packages c = P @ p # B" "map pa_name P = PLATFORM_PACKAGES"
    "pa_name p = META_PACKAGE" "map pa_name B = []"
    using split_packages [OF refl] by metis
  moreover have "PLATFORM_PACKAGES \<noteq> []" by (simp add: PLATFORM_PACKAGES_def PLATFORMS_def)
  moreover have "distinct (map pa_name (c_packages c))" using assms distinct_PACKAGE_ORDER by simp
  ultimately show ?thesis by (intro that [of P p]) auto
qed

lemma triple_marked_each:
  assumes names: "map pa_name P = zs"
    and step: "\<And>A p B. P = A @ p # B \<Longrightarrow> triple (J A (p # B)) (f (pa_name p)) (\<lambda>_. J (A @ [p]) B) E"
  shows "triple (J [] P) (for_each f zs) (\<lambda>_. J P []) E"
proof -
  have "triple (J (take (length ([] :: string list)) P) (drop (length ([] :: string list)) P)) (for_each f zs)
      (\<lambda>_. J (take (length zs) P) (drop (length zs) P)) E"
  proof (rule triple_for_each [where I = "\<lambda>xs. J (take (length xs) P) (drop (length xs) P)"])
    fix xs x ys assume "zs = xs @ x # ys"
    from split_packages [OF names this] obtain A p B where
      P: "P = A @ p # B" "map pa_name A = xs" "pa_name p = x" by metis
    then have "length A = length xs" by auto
    with step [OF P(1)] P show "triple (J (take (length xs) P) (drop (length xs) P)) (f x)
        (\<lambda>_. J (take (length (xs @ [x])) P) (drop (length (xs @ [x])) P)) E"
      by (simp add: take_Suc_conv_app_nth)
  qed
  moreover have "length zs = length P" using names by auto
  ultimately show ?thesis by simp
qed

lemma run_bootstrap:
  assumes names: "map pa_name (c_packages c) = PACKAGE_ORDER"
    and valid: "\<And>w v. fst (npm_toolchain b w) = Inr v \<Longrightarrow> toolchain_check v = None \<and> v \<noteq> PNone"
  shows "triple (running n ''bootstrap'' PNone (entries (c_packages c)) [])
    (bootstrap b npm c lineage meta_state) (\<lambda>_. finished (planned ''bootstrap'') 0 ''npm-settled'')
    (stop_err (planned ''bootstrap'') 0)"
proof -
  obtain P m where c: "c_packages c = P @ [m]" "map pa_name P = PLATFORM_PACKAGES" "pa_name m = META_PACKAGE"
    and d: "distinct (map pa_name (c_packages c))" "P \<noteq> []"
    by (rule candidate_split [OF names])
  let ?L = "planned ''bootstrap''"
  let ?R = "\<lambda>t A B. running n ''bootstrap'' t (map published (entries A) @ entries (B @ [m]))
      (map (Pair ''publish'') (map pa_name A))"
  have L: "?L = map (Pair ''publish'') (map pa_name (P @ [m]))" by (simp add: planned_def PACKAGE_ORDER_def c)
  have stop0: "stoppable n ''bootstrap'' PNone (entries (c_packages c))"
    using stop_bootstrap [of "[]" "entries (c_packages c)" PNone n] by simp
  have start: "running n ''bootstrap'' t (entries (c_packages c)) [] = ?R t [] P" for t using c by simp
  have store0: "storable n ''bootstrap'' t (entries (c_packages c)) ''in-progress''" for t
    using store_bootstrap(1) [of "[]" "entries (c_packages c)" t n] by simp
  have tail: "triple (?R t [] P)
      (act_then (for_each (publish_one b c lineage) PLATFORM_PACKAGES)
      (act_then (for_each (verify_and b c lineage (mark_published b)) PLATFORM_PACKAGES)
      (act_then (publish_one b c lineage META_PACKAGE)
      (act_then (set_status ''npm-settled'') (write_settlement b)))))
      (\<lambda>_. finished ?L 0 ''npm-settled'') (stop_err ?L 0)" if t: "t \<noteq> PNone" for t
  proof (rule triple_then)
    show "triple (?R t [] P) (for_each (publish_one b c lineage) PLATFORM_PACKAGES) (\<lambda>_. ?R t P []) (stop_err ?L 0)"
    proof (rule triple_marked_each [OF c(2)])
      fix A p B assume P: "P = A @ p # B"
      have "triple (running n ''bootstrap'' t (map published (entries A) @ entries (p # B @ [m]))
          (map (Pair ''publish'') (map pa_name A))) (publish_one b c lineage (pa_name p))
          (\<lambda>_. running n ''bootstrap'' t (map published (entries (A @ [p])) @ entries (B @ [m]))
            (map (Pair ''publish'') (map pa_name A) @ [(''publish'', pa_name p)])) (stop_err ?L 0)"
        by (rule step_publish) (use c P d t in \<open>simp_all add: L\<close>)
      then show "triple (?R t A (p # B)) (publish_one b c lineage (pa_name p)) (\<lambda>_. ?R t (A @ [p]) B) (stop_err ?L 0)"
        by simp
    qed
  next
    have again: "triple (?R t P []) (for_each (verify_and b c lineage (mark_published b)) PLATFORM_PACKAGES)
        (\<lambda>_. ?R t P []) (stop_err ?L 0)"
    proof (rule triple_for_each_same)
      fix x assume "x \<in> set PLATFORM_PACKAGES"
      then obtain p where p: "p \<in> set P" "pa_name p = x" by (auto simp flip: c(2))
      then obtain A B where "P = A @ p # B" by (meson split_list)
      then show "triple (?R t P []) (verify_and b c lineage (mark_published b) x) (\<lambda>_. ?R t P []) (stop_err ?L 0)"
        unfolding append_Nil p(2) [symmetric]
        by (intro step_republish [where A = A and B = "B @ [m]"]) (use c(1) d(1) t p(1) in \<open>simp_all add: L\<close>)
    qed
    have last: "triple (?R t P []) (publish_one b c lineage META_PACKAGE)
        (\<lambda>_. running n ''bootstrap'' t (map published (entries (P @ [m]))) ?L) (stop_err ?L 0)"
      using step_publish [of c P m "[]" t "map (Pair ''publish'') (map pa_name P)" ?L n b lineage 0] c d t
      by (simp add: L)
    have fin: "triple (running n ''bootstrap'' t (map published (entries (P @ [m]))) ?L)
        (act_then (set_status ''npm-settled'') (write_settlement b)) (\<lambda>_. finished ?L 0 ''npm-settled'') (stop_err ?L 0)"
      using t by (intro step_finish store_bootstrap) simp_all
    show "triple (?R t P [])
      (act_then (for_each (verify_and b c lineage (mark_published b)) PLATFORM_PACKAGES)
      (act_then (publish_one b c lineage META_PACKAGE)
      (act_then (set_status ''npm-settled'') (write_settlement b))))
      (\<lambda>_. finished ?L 0 ''npm-settled'') (stop_err ?L 0)"
      by (rule triple_then [OF again triple_then [OF last fin]])
  qed
  have rest: "triple (\<lambda>s es. \<exists>t. t \<noteq> PNone \<and> running n ''bootstrap'' t (entries (c_packages c)) [] s es)
      (act_then (for_each (publish_one b c lineage) PLATFORM_PACKAGES)
      (act_then (for_each (verify_and b c lineage (mark_published b)) PLATFORM_PACKAGES)
      (act_then (publish_one b c lineage META_PACKAGE)
      (act_then (set_status ''npm-settled'') (write_settlement b)))))
      (\<lambda>_. finished ?L 0 ''npm-settled'') (stop_err ?L 0)"
    unfolding start by (rule triple_some) (rule tail)
  have looks: "triple Q (act_bind (act_outside (registry_package b x)) (\<lambda>state.
        act_check (guard (state = None)
          (PromotionError ''bootstrap requires every platform package name to be unpublished''))))
      (\<lambda>_. Q) (\<lambda>_. Q)" for Q x
    by (rule triple_look_package, rule triple_check)
  show ?thesis
    unfolding bootstrap_def
    by (rule triple_then [OF step_check [OF stop0]], simp, rule triple_then [OF look_each [OF looks stop0]], simp,
        rule triple_then [OF step_check [OF stop0]], simp,
        rule triple_then [OF step_toolchain [OF valid stop0 _ store0] rest], assumption, simp)
qed

lemma run_stage_platforms:
  assumes names: "map pa_name (c_packages c) = PACKAGE_ORDER"
    and valid: "\<And>w v. fst (npm_toolchain b w) = Inr v \<Longrightarrow> toolchain_check v = None \<and> v \<noteq> PNone"
  shows "triple (running n ''stage-platforms'' PNone (entries (c_packages c)) [])
    (stage_platforms b npm c lineage meta_state)
    (\<lambda>_. finished (planned ''stage-platforms'') 0 ''awaiting-platform-approval'')
    (stop_err (planned ''stage-platforms'') 0)"
proof -
  let ?op = "''stage-platforms''"
  obtain P m where c: "c_packages c = P @ [m]" "map pa_name P = PLATFORM_PACKAGES" "pa_name m = META_PACKAGE"
    and d: "distinct (map pa_name (c_packages c))" "P \<noteq> []"
    by (rule candidate_split [OF names])
  let ?L = "planned ''stage-platforms''"
  let ?R = "\<lambda>t A B. running n ?op t (map staged (entries A) @ entries (B @ [m])) (map (Pair ''stage'') (map pa_name A))"
  have L: "?L = map (Pair ''stage'') (map pa_name P)" by (simp add: planned_def c)
  have stop: "stoppable n ?op t (map staged (entries A) @ entries (B @ [m]))" if "A \<noteq> [] \<longrightarrow> t \<noteq> PNone" for t A B
    using stop_stage [of "entries A" "entries B" "settlement_package m" t n] that by simp
  have store: "storable n ?op t (map staged (entries A) @ entries (B @ [m])) ''in-progress''"
    if "A \<noteq> [] \<longrightarrow> t \<noteq> PNone" for t A B
    using store_stage(1) [of "entries A" "entries B" "settlement_package m" t n] that by simp
  have start: "running n ?op t (entries (c_packages c)) [] = ?R t [] P" for t using c by simp
  have stop0: "stoppable n ?op PNone (entries (c_packages c))" using stop [of "[]" PNone P] c by simp
  have store0: "storable n ?op t (entries (c_packages c)) ''in-progress''" for t using store [of "[]" t P] c by simp
  have tail: "triple (?R t [] P)
      (act_then (for_each (\<lambda>name. act_then (stage_attempt b c name) (write_settlement b)) PLATFORM_PACKAGES)
      (act_then (set_status ''awaiting-platform-approval'') (write_settlement b)))
      (\<lambda>_. finished ?L 0 ''awaiting-platform-approval'') (stop_err ?L 0)" if t: "t \<noteq> PNone" for t
  proof (rule triple_then)
    show "triple (?R t [] P) (for_each (\<lambda>name. act_then (stage_attempt b c name) (write_settlement b)) PLATFORM_PACKAGES)
        (\<lambda>_. ?R t P []) (stop_err ?L 0)"
    proof (rule triple_marked_each [OF c(2)], rule triple_then)
      fix A p B assume P: "P = A @ p # B"
      have und: "storable n ?op t (map staged (entries A) @ undecided ''stage'' (settlement_package p) # entries (B @ [m])) x"
        if "x \<in> {''in-progress'', ''ambiguous''}" for x
        using store_stage(3) [of "entries A" "settlement_package p" "entries B" "settlement_package m" t x n] t that by simp
      have pre: "prefix (map (Pair ''stage'') (map pa_name A) @ [(''stage'', pa_name p)]) ?L" using P by (simp add: L)
      have stopA: "stoppable n ?op t (map staged (entries A) @ entries (p # B @ [m]))" using stop [of A t "p # B"] t by simp
      have "triple (running n ?op t (map staged (entries A) @ entries (p # B @ [m])) (map (Pair ''stage'') (map pa_name A)))
          (stage_attempt b c (pa_name p))
          (\<lambda>_. running n ?op t (map staged (entries A) @ staged (settlement_package p) # entries (B @ [m]))
            (map (Pair ''stage'') (map pa_name A) @ [(''stage'', pa_name p)])) (stop_err ?L 0)"
        by (rule step_stage_attempt [OF _ d(1) mark_names(2) mark_keys(2) pre stopA und]) (use c P in simp_all)
      then show "triple (?R t A (p # B)) (stage_attempt b c (pa_name p)) (\<lambda>_. ?R t (A @ [p]) B) (stop_err ?L 0)" by simp
      show "triple (?R t (A @ [p]) B) (write_settlement b) (\<lambda>_. ?R t (A @ [p]) B) (stop_err ?L 0)"
        using t P by (intro step_write store) (simp_all add: L)
    qed
    have "storable n ?op t (map staged (entries P) @ entries ([] @ [m])) ''awaiting-platform-approval''"
      using store_stage(2) [of "entries P" "settlement_package m" t n] t d(2) by simp
    then show "triple (?R t P []) (act_then (set_status ''awaiting-platform-approval'') (write_settlement b))
        (\<lambda>_. finished ?L 0 ''awaiting-platform-approval'') (stop_err ?L 0)"
      unfolding L by (rule step_finish) simp
  qed
  have rest: "triple (\<lambda>s es. \<exists>t. t \<noteq> PNone \<and> running n ?op t (entries (c_packages c)) [] s es)
      (act_then (for_each (\<lambda>name. act_then (stage_attempt b c name) (write_settlement b)) PLATFORM_PACKAGES)
      (act_then (set_status ''awaiting-platform-approval'') (write_settlement b)))
      (\<lambda>_. finished ?L 0 ''awaiting-platform-approval'') (stop_err ?L 0)"
    unfolding start by (rule triple_some) (rule tail)
  have looks: "triple Q (act_bind (act_outside (registry_package b x)) (\<lambda>found. case found of
          None \<Rightarrow> act_raise (PromotionError ''staged publication requires every platform package to exist already'')
        | Some state \<Rightarrow> act_check (first_failure [require_owners state lineage, require_unused (Some state) (c_version c)])))
      (\<lambda>_. Q) (\<lambda>_. Q)" for Q x
    by (rule triple_look_package) (auto split: option.split intro: triple_check triple_raised)
  show ?thesis
    unfolding stage_platforms_def
    by (rule triple_then [OF step_check [OF stop0]], simp, rule triple_then [OF look_each [OF looks stop0]], simp,
        rule triple_then [OF step_check [OF stop0]], simp,
        rule triple_then [OF step_toolchain [OF valid stop0 _ store0] rest], assumption, simp)
qed

lemma run_stage_meta:
  assumes names: "map pa_name (c_packages c) = PACKAGE_ORDER"
    and valid: "\<And>w v. fst (npm_toolchain b w) = Inr v \<Longrightarrow> toolchain_check v = None \<and> v \<noteq> PNone"
  shows "triple (running n ''stage-meta'' PNone (entries (c_packages c)) [])
    (stage_meta b npm c lineage meta_state)
    (\<lambda>_. finished (planned ''stage-meta'') 0 ''awaiting-meta-approval'')
    (stop_err (planned ''stage-meta'') 0)"
proof -
  let ?op = "''stage-meta''"
  obtain P m where c: "c_packages c = P @ [m]" "map pa_name P = PLATFORM_PACKAGES" "pa_name m = META_PACKAGE"
    and d: "distinct (map pa_name (c_packages c))" "P \<noteq> []"
    by (rule candidate_split [OF names])
  let ?L = "planned ''stage-meta''"
  let ?R = "\<lambda>t A B. running n ?op t (map verified (entries A) @ entries B @ entries [m]) []"
  have L: "?L = [(''stage'', pa_name m)]" by (simp add: planned_def c)
  have stop: "stoppable n ?op t (map verified (entries A) @ entries B @ entries [m])" for t A B
    using stop_meta [of "entries A" "entries B" "settlement_package m" n t] by simp
  have store: "storable n ?op t (map verified (entries A) @ entries B @ entries [m]) ''in-progress''" for t A B
    using store_meta(1) [of "entries A" "entries B" "settlement_package m" n t] by simp
  have start: "running n ?op t (entries (c_packages c)) [] = ?R t [] P" for t using c by simp
  have stop0: "stoppable n ?op PNone (entries (c_packages c))" using stop [of PNone "[]" P] c by simp
  have verify: "triple (?R t [] P) (for_each (verify_and b c lineage (mark_verified b)) PLATFORM_PACKAGES)
      (\<lambda>_. ?R t P []) (stop_err ?L 0)" for t
  proof (rule triple_marked_each [OF c(2)])
    fix A p B assume P: "P = A @ p # B"
    show "triple (?R t A (p # B)) (verify_and b c lineage (mark_verified b) (pa_name p)) (\<lambda>_. ?R t (A @ [p]) B) (stop_err ?L 0)"
      by (rule step_verified [OF _ d(1) _ _ stop store]) (use c P in simp_all)
  qed
  let ?M = "running n ?op PNone (map verified (entries P) @ entries [m]) []"
  have tail: "triple (\<lambda>s es. \<exists>t. t \<noteq> PNone \<and> running n ?op t (map verified (entries P) @ entries [m]) [] s es)
      (act_then (stage_attempt b c META_PACKAGE)
      (act_then (set_status ''awaiting-meta-approval'') (write_settlement b)))
      (\<lambda>_. finished ?L 0 ''awaiting-meta-approval'') (stop_err ?L 0)"
  proof (rule triple_some, rule triple_then)
    fix t assume t: "t \<noteq> PNone"
    have und: "storable n ?op t (map verified (entries P) @ undecided ''stage'' (settlement_package m) # entries []) x"
      if "x \<in> {''in-progress'', ''ambiguous''}" for x
      using store_meta(2) [of "entries P" "settlement_package m" t x n] t that by simp
    have stopM: "stoppable n ?op t (map verified (entries P) @ entries [m])" using stop [of t P "[]"] by simp
    show "triple (running n ?op t (map verified (entries P) @ entries [m]) []) (stage_attempt b c META_PACKAGE)
        (\<lambda>_. running n ?op t (map verified (entries P) @ staged (settlement_package m) # entries []) ([] @ [(''stage'', pa_name m)]))
        (stop_err ?L 0)"
      unfolding c(3) [symmetric]
      by (rule step_stage_attempt [OF _ d(1) mark_names(3) mark_keys(3) _ stopM und]) (use c in \<open>simp_all add: L\<close>)
    have "storable n ?op t (map verified (entries P) @ [staged (settlement_package m)]) ''awaiting-meta-approval''"
      using t by (intro store_meta) simp_all
    then show "triple (running n ?op t (map verified (entries P) @ staged (settlement_package m) # entries []) ([] @ [(''stage'', pa_name m)]))
        (act_then (set_status ''awaiting-meta-approval'') (write_settlement b))
        (\<lambda>_. finished ?L 0 ''awaiting-meta-approval'') (stop_err ?L 0)"
      unfolding L append_Nil by (intro step_finish) simp_all
  qed
  have stopM: "stoppable n ?op PNone (map verified (entries P) @ entries [m])" using stop [of PNone P "[]"] by simp
  have storeM: "storable n ?op t (map verified (entries P) @ entries [m]) ''in-progress''" for t
    using store [of t P "[]"] by simp
  have verify': "triple (running n ?op PNone (entries (c_packages c)) [])
      (for_each (verify_and b c lineage (mark_verified b)) PLATFORM_PACKAGES) (\<lambda>_. ?M) (stop_err ?L 0)"
    using verify [of PNone] c by simp
  show ?thesis
    unfolding stage_meta_def
    by (rule triple_then [OF step_check [OF stop0]], simp, rule triple_then [OF verify'],
        rule triple_then [OF step_check [OF stopM]], simp,
        rule triple_then [OF step_toolchain [OF valid stopM _ storeM] tail], assumption, simp)
qed

section \<open>Promotion of the release\<close>

text \<open>All packages are verified, the release is about to be, or has been, promoted.\<close>

definition promoting :: "string list \<Rightarrow> package_entry list \<Rightarrow> bool \<Rightarrow> string \<Rightarrow> string \<Rightarrow> nat \<Rightarrow> assertion" where
  "promoting names pk promoted outcome x j s es \<longleftrightarrow>
     frame_ok names s \<and> attested True s \<and> s_operation s = ''settle-and-promote'' \<and> s_toolchain s = PNone \<and>
     s_packages s = pk \<and> s_draft_verified s \<and> s_promotion_attempted s \<and> s_promoted s = promoted \<and>
     s_github_outcome s = outcome \<and> s_status s = x \<and> no_refusal es \<and> \<not> disk_failed es \<and> mutations es = [] \<and>
     promotions es = j"

lemma promoting_accepted:
  assumes "promoting n (map verified xs) promoted outcome x j s es" "list_all fresh xs"
    "\<not> promoted \<and> outcome = ''ambiguous'' \<and> x \<in> {''in-progress'', ''ambiguous''} \<or>
     promoted \<and> outcome = ''promoted'' \<and> x = ''complete''"
  shows "accepted s"
proof (rule accepted_intro)
  show "frame_ok n s" "attested True s" using assms(1) by (simp_all add: promoting_def)
  show "list_all entry_ok (s_packages s)" using assms(1,2) by (simp add: promoting_def fresh_list_ok)
  show "toolchain_ok s"
    using assms(1) fresh_list_ok(6) [OF assms(2)] by (auto simp: promoting_def toolchain_ok_def toolchain_check_def)
  show "github_ok s" using assms(1,3) by (auto simp: promoting_def github_ok_def)
  have att: "att_verified s" using assms(1) by (simp add: promoting_def attested_def Let_def)
  have f: "s_operation s = ''settle-and-promote''" "s_toolchain s = PNone" "s_draft_verified s"
    "s_promotion_attempted s" "s_packages s = map verified xs" "s_promoted s = promoted"
    "s_github_outcome s = outcome" "s_status s = x"
    using assms(1) by (simp_all add: promoting_def)
  note coh = promotion_coherent [OF f(1,2) att f(3-5) assms(2), unfolded f(6-8)]
  show "coherent s" using assms(3) by (elim disjE conjE) (rule coh; simp)+
qed

lemma promoting_updated [simp]:
  "promoting n pk p outcome x j (s\<lparr>s_updated := u\<rparr>) (es @ [Wrote t]) = promoting n pk p outcome x j s es"
  by (simp add: promoting_def)

lemma store_promoting:
  assumes "list_all fresh xs" "x = ''in-progress''" "j = 0 \<or> j = (1 :: nat)"
  shows "triple (promoting n (map verified xs) False ''ambiguous'' x j) (write_settlement b)
    (\<lambda>_. promoting n (map verified xs) False ''ambiguous'' x j) (stop_err [] 1)"
  by (rule triple_write)
     (use assms promoting_accepted [OF _ assms(1)] in \<open>auto simp: promoting_def stop_err_def\<close>)

lemma run_settle:
  assumes names: "map pa_name (c_packages c) = PACKAGE_ORDER"
  shows "triple (running n ''settle-and-promote'' PNone (entries (c_packages c)) [])
    (settle_and_promote b c lineage) (\<lambda>_. finished [] 1 ''complete'') (stop_err [] 1)"
proof -
  let ?op = "''settle-and-promote''"
  let ?ps = "c_packages c"
  let ?pk = "map verified (entries ?ps)"
  have d: "distinct (map pa_name ?ps)" using names distinct_PACKAGE_ORDER by simp
  let ?R = "\<lambda>A B. running n ?op PNone (map verified (entries A) @ entries B) []"
  have verify: "triple (?R [] ?ps) (for_each (verify_and b c lineage (mark_verified b)) PACKAGE_ORDER)
      (\<lambda>_. ?R ?ps []) (stop_err [] 1)"
  proof (rule triple_marked_each [OF names])
    fix A p B assume P: "?ps = A @ p # B"
    have stop: "stoppable n ?op PNone (map verified (entries A) @ entries (p # B) @ entries [])"
      and store: "storable n ?op PNone (map verified (entries (A @ [p])) @ entries B @ entries []) ''in-progress''"
      using stop_settle [of "entries A" "entries (p # B)" n] store_settle [of "entries (A @ [p])" "entries B" n] by simp_all
    show "triple (?R A (p # B)) (verify_and b c lineage (mark_verified b) (pa_name p)) (\<lambda>_. ?R (A @ [p]) B) (stop_err [] 1)"
      using step_verified [OF P d _ _ stop store, where M = "[]" and L = "[]" and b = b and lineage = lineage and k = 1]
      by (simp only: list.map(1) append_Nil2 prefix_order.refl simp_thms)
  qed
  have stop: "stoppable n ?op PNone ?pk" using stop_settle [of "entries ?ps" "[]" n] by simp
  let ?mark = "act_update (\<lambda>s. s\<lparr>s_promotion_attempted := True, s_github_outcome := ''ambiguous'', s_status := ''in-progress''\<rparr>)"
  let ?done = "act_update (\<lambda>s. s\<lparr>s_promoted := True, s_github_outcome := ''promoted'', s_status := ''complete''\<rparr>)"
  let ?P = "promoting n ?pk False ''ambiguous'' ''in-progress''"
  have mark: "triple (running n ?op PNone ?pk []) ?mark (\<lambda>_. ?P 0) (stop_err [] 1)"
    by (rule triple_pre [OF triple_update]) (simp add: running_def run_state_def promoting_def idle_def)
  have logged: "triple (?P 0) (act_log Promoted) (\<lambda>_. ?P 1) (stop_err [] 1)"
    by (rule triple_pre [OF triple_log]) (simp add: promoting_def)
  have failed: "triple (?P 1) (fail_with b ''ambiguous'' e) (\<lambda>_. ?P 1) (stop_err [] 1)" for e
    unfolding fail_with_def set_status_def
  proof (rule triple_then [OF triple_pre [OF triple_update [of "\<lambda>_. promoting n ?pk False ''ambiguous'' ''ambiguous'' 1"]]])
    have "triple (promoting n ?pk False ''ambiguous'' ''ambiguous'' 1) (write_settlement b) (\<lambda>_. stop_err [] 1 e) (stop_err [] 1)"
      by (rule triple_write)
         (use promoting_accepted [of n "entries ?ps"] in \<open>auto simp: promoting_def stop_err_def\<close>)
    then show "triple (promoting n ?pk False ''ambiguous'' ''ambiguous'' 1) (act_then (write_settlement b) (act_raise e))
        (\<lambda>_. ?P 1) (stop_err [] 1)"
      by (rule triple_then) (rule triple_raised)
  qed (simp add: promoting_def)
  have promote: "triple (?P 1) (act_catch (act_outside (github_promote b c)) (fail_with b ''ambiguous'')) (\<lambda>_. ?P 1) (stop_err [] 1)"
    by (rule triple_catch [OF triple_outside_frame failed]) (auto simp: promoting_def stop_err_def)
  have complete: "triple (?P 1) ?done (\<lambda>_. promoting n ?pk True ''promoted'' ''complete'' 1) (stop_err [] 1)"
    by (rule triple_pre [OF triple_update]) (simp add: promoting_def)
  have fin: "triple (promoting n ?pk True ''promoted'' ''complete'' 1) (write_settlement b) (\<lambda>_. finished [] 1 ''complete'') (stop_err [] 1)"
    by (rule triple_write)
       (use promoting_accepted [of n "entries ?ps"] in \<open>auto simp: promoting_def stop_err_def finished_def\<close>)
  have latest: "triple (running n ?op PNone ?pk []) (require_latest b lineage) (\<lambda>_. running n ?op PNone ?pk []) (stop_err [] 1)"
    by (rule step_look_at [OF triple_require_latest stop]) simp
  have again: "triple (running n ?op PNone ?pk []) (reauthenticate_attested_bytes b c) (\<lambda>_. running n ?op PNone ?pk []) (stop_err [] 1)"
    by (rule step_reauthenticate [OF stop]) simp
  have store: "triple (?P 0) (write_settlement b) (\<lambda>_. ?P 0) (stop_err [] 1)"
    by (rule store_promoting) simp_all
  have verify': "triple (running n ?op PNone (entries ?ps) []) (for_each (verify_and b c lineage (mark_verified b)) PACKAGE_ORDER)
      (\<lambda>_. running n ?op PNone ?pk []) (stop_err [] 1)"
    using verify by simp
  show ?thesis
    unfolding settle_and_promote_def
    by (rule triple_then, rule verify', rule triple_bind, rule latest, rule triple_then, rule again,
        rule triple_then, rule mark, rule triple_then, rule store, rule triple_then, rule logged,
        rule triple_then, rule promote, rule triple_then, rule complete, rule fin)
qed

section \<open>The handler and the whole run\<close>

definition stopped :: "(string \<times> string) list \<Rightarrow> nat \<Rightarrow> exn \<Rightarrow> assertion" where
  "stopped L k e s es \<longleftrightarrow> prefix (mutations es) L \<and> promotions es \<le> k \<and>
     (disk_failed es \<or> no_refusal es \<and> (is_promotion e \<longrightarrow> (\<exists>pre. es = pre @ [Wrote s]) \<and>
        s_status s \<in> {''failed'', ''ambiguous'', ''partial-publication''}))"

lemma stopped_status_cases: "stopped_status s \<in> {''failed'', ''partial-publication''}"
  by (simp add: stopped_status_def)

lemma handler_stops:
  assumes "is_promotion e"
  shows "triple (stop_err L k e) (transition_handler b e) (\<lambda>_ _ _. False) (stopped L k)"
  unfolding triple_def
proof (intro allI impI)
  fix st :: "'a promotion" assume pre: "stop_err L k e (live st) (events st)"
  let ?post = "\<lambda>r st'. case r of Inl e' \<Rightarrow> stopped L k e' (live st') (events st') | Inr _ \<Rightarrow> False"
  have "?post r st'" if run: "transition_handler b e st = (r, st')" for r st'
  proof (cases "s_status (live st) \<in> {''ambiguous'', ''partial-publication''}")
    case True
    then have "r = Inl e" "st' = st"
      using run by (auto simp: transition_handler_def act_bind_def act_get_def act_raise_def)
    with pre True assms show ?thesis by (auto simp: stop_err_def stopped_def)
  next
    case False
    let ?s = "(live st)\<lparr>s_status := stopped_status (live st)\<rparr>"
    have eq: "transition_handler b e st = act_then (write_settlement b) (act_raise e) (st\<lparr>live := ?s\<rparr>)"
      using False by (simp add: transition_handler_def act_then_def act_bind_def act_get_def act_update_def)
    have "triple (\<lambda>s es. s = ?s \<and> es = events st) (write_settlement b) (\<lambda>_. stopped L k e) (stopped L k)"
    proof (cases "disk_failed (events st)")
      case True
      with pre show ?thesis
        by (intro triple_write_any) (auto simp: stopped_def stop_err_def)
    next
      case ok: False
      with pre False assms have "accepted ?s" "no_refusal (events st)" by (auto simp: stop_err_def)
      with pre stopped_status_cases [of "live st"] show ?thesis
        by (intro triple_write) (auto simp: stopped_def stop_err_def)
    qed
    then have "triple (\<lambda>s es. s = ?s \<and> es = events st) (act_then (write_settlement b) (act_raise e)) (\<lambda>_ _ _. False) (stopped L k)"
      by (rule triple_then) (rule triple_raised)
    then have "case transition_handler b e st of (Inl e, st') \<Rightarrow> stopped L k e (live st') (events st') | (Inr _, st') \<Rightarrow> False"
      unfolding triple_def eq by (elim allE [of _ "st\<lparr>live := ?s\<rparr>"] impE) simp_all
    with run show ?thesis by (cases r) simp_all
  qed
  then show "case transition_handler b e st of (Inl e, st') \<Rightarrow> stopped L k e (live st') (events st') | (Inr x, st') \<Rightarrow> False"
    by (cases "transition_handler b e st"; cases "fst (transition_handler b e st)") auto
qed

lemma operation_cases:
  assumes "operation \<in> set OPERATIONS"
  obtains "operation = ''bootstrap''" | "operation = ''stage-platforms''" | "operation = ''stage-meta''"
    | "operation = ''settle-and-promote''"
  using assms by (auto simp: OPERATIONS_def)

lemma stoppable_fresh:
  assumes "map pa_name (c_packages c) = PACKAGE_ORDER" "operation \<in> set OPERATIONS"
  shows "stoppable n operation PNone (entries (c_packages c))"
    and "storable n operation PNone (entries (c_packages c)) ''in-progress''"
proof -
  obtain P m where c: "c_packages c = P @ [m]" by (rule candidate_split [OF assms(1)])
  show "stoppable n operation PNone (entries (c_packages c))"
    using stop_bootstrap [of "[]" "entries (c_packages c)" PNone n] stop_settle [of "[]" "entries (c_packages c)" n]
      stop_stage [of "[]" "entries P" "settlement_package m" PNone n]
      stop_meta [of "[]" "entries P" "settlement_package m" n PNone]
    by (cases rule: operation_cases [OF assms(2)]) (simp_all add: c)
  show "storable n operation PNone (entries (c_packages c)) ''in-progress''"
    using store_bootstrap(1) [of "[]" "entries (c_packages c)" PNone n] store_settle [of "[]" "entries (c_packages c)" n]
      store_stage(1) [of "[]" "entries P" "settlement_package m" PNone n]
      store_meta(1) [of "[]" "entries P" "settlement_package m" n PNone]
    by (cases rule: operation_cases [OF assms(2)]) (simp_all add: c)
qed

lemma run_body:
  assumes names: "map pa_name (c_packages c) = PACKAGE_ORDER" and op: "operation \<in> set OPERATIONS"
    and valid: "\<And>w v. fst (npm_toolchain b w) = Inr v \<Longrightarrow> toolchain_check v = None \<and> v \<noteq> PNone"
  shows "triple (running n operation PNone (entries (c_packages c)) []) (transition_body b npm operation c lineage)
    (\<lambda>_. finished (planned operation) (planned_promotions operation) (target_status operation))
    (stop_err (planned operation) (planned_promotions operation))"
  unfolding transition_body_def
proof (rule triple_bind [OF step_look_at [OF triple_require_latest stoppable_fresh(1) [OF names op]]])
  fix meta_state
  note ops = run_bootstrap [OF names valid, where n = n and npm = npm and lineage = lineage and meta_state = meta_state]
    run_stage_platforms [OF names valid, where n = n and npm = npm and lineage = lineage and meta_state = meta_state]
    run_stage_meta [OF names valid, where n = n and npm = npm and lineage = lineage and meta_state = meta_state]
    run_settle [OF names, where n = n and b = b and lineage = lineage]
  show "triple (running n operation PNone (entries (c_packages c)) [])
     (if operation = ''bootstrap'' then bootstrap b npm c lineage meta_state
      else if operation = ''stage-platforms'' then stage_platforms b npm c lineage meta_state
      else if operation = ''stage-meta'' then stage_meta b npm c lineage meta_state else settle_and_promote b c lineage)
     (\<lambda>_. finished (planned operation) (planned_promotions operation) (target_status operation))
     (stop_err (planned operation) (planned_promotions operation))"
    using ops
    by (cases rule: operation_cases [OF op]) (simp_all add: planned_def planned_promotions_def target_status_def)
qed simp

lemma run_guarded:
  assumes names: "map pa_name (c_packages c) = PACKAGE_ORDER" and op: "operation \<in> set OPERATIONS"
    and valid: "\<And>w v. fst (npm_toolchain b w) = Inr v \<Longrightarrow> toolchain_check v = None \<and> v \<noteq> PNone"
  shows "triple (running n operation PNone (entries (c_packages c)) []) (guarded_body b npm operation c lineage)
    (\<lambda>_. finished (planned operation) (planned_promotions operation) (target_status operation))
    (stopped (planned operation) (planned_promotions operation))"
  unfolding guarded_body_def
proof (rule triple_then)
  let ?L = "planned operation" and ?k = "planned_promotions operation"
  show "triple (running n operation PNone (entries (c_packages c)) []) (write_settlement b)
      (\<lambda>_. running n operation PNone (entries (c_packages c)) []) (stopped ?L ?k)"
  proof (rule triple_write)
    fix s es assume r: "running n operation PNone (entries (c_packages c)) [] s es"
    then show "accepted s" using stoppable_fresh(2) [OF names op, of n] by (auto simp: running_def storable_def)
    fix u show "running n operation PNone (entries (c_packages c)) [] (s\<lparr>s_updated := u\<rparr>) (es @ [Wrote (s\<lparr>s_updated := u\<rparr>)])"
      using r by (simp add: running_def)
    fix e show "stopped ?L ?k e (s\<lparr>s_updated := u\<rparr>) (es @ [WriteFailed (s\<lparr>s_updated := u\<rparr>)])"
      using r by (simp add: running_def stopped_def)
  qed
  show "triple (running n operation PNone (entries (c_packages c)) [])
      (act_catch (transition_body b npm operation c lineage) (transition_handler b))
      (\<lambda>_. finished ?L ?k (target_status operation)) (stopped ?L ?k)"
  proof (rule triple_catch [OF run_body [OF names op valid]])
    show "triple (stop_err ?L ?k e) (transition_handler b e) (\<lambda>_. finished ?L ?k (target_status operation)) (stopped ?L ?k)"
      if "is_promotion e" for e
      by (rule triple_conseq [OF handler_stops [OF that]]) auto
    show "\<not> is_promotion e \<Longrightarrow> stop_err ?L ?k e s es \<Longrightarrow> stopped ?L ?k e s es" for e s es
      by (auto simp: stop_err_def stopped_def)
  qed
qed

end
