(* ===== verification/Promotion_Candidate.thy ===== *)
theory Promotion_Candidate
  imports Promotion_Outcome
begin

text \<open>
  From a downloaded assembly to a run: the package manifests and \<^verbatim>\<open>authenticate_assembly\<close>, the
  reauthentication of the candidate's bytes, and the proof that evidence which names the candidate gives
  a settlement the run can start from.
\<close>

section \<open>Package manifests\<close>

definition cohort_fields :: "string list" where
  "cohort_fields = [''schema'', ''version'', ''sourceRevision'', ''releaseChannel'', ''purpose'', ''image'',
     ''admittedPlatforms'', ''semanticStatus'', ''releaseEligible'', ''publicationAuthorized'']"

definition validate_package_manifest :: "pydict \<Rightarrow> string \<Rightarrow> string \<Rightarrow> string \<Rightarrow> string \<Rightarrow> check" where
  "validate_package_manifest m name version source_sha role =
    (let cohort = dict_of (dget m ''openproseCohort'') in
     first_failure [
       guard (dget m ''name'' = PStr name \<and> dget m ''version'' = PStr version)
         (PromotionError ''npm package manifest identity is not exact''),
       guard (dget m ''publishConfig'' = PNone \<or>
          py_eq (dget m ''publishConfig'') (PDict [(''access'', PStr ''public'')]))
         (PromotionError ''npm package publish configuration is incompatible''),
       guard (\<not> has_key m ''scripts'' \<and> dget m ''private'' \<noteq> PBool True)
         (PromotionError ''npm package contains a publishing lifecycle or is private''),
       guard (is_dict (dget m ''openproseCohort'') \<and> keys_are cohort cohort_fields)
         (PromotionError ''npm package cohort identity is not closed''),
       guard (dget cohort ''schema'' = PStr ''openprose.npm-cohort/1'' \<and> dget cohort ''version'' = PStr version \<and>
          dget cohort ''sourceRevision'' = PStr source_sha \<and>
          dget cohort ''releaseChannel'' = PStr ''functional-alpha'' \<and>
          dget cohort ''admittedPlatforms'' = PList (map PStr (sort PLATFORMS)) \<and>
          dget cohort ''semanticStatus'' = PStr ''not-applicable'' \<and>
          dget cohort ''releaseEligible'' = PBool False \<and> dget cohort ''publicationAuthorized'' = PBool False)
         (PromotionError ''npm package cohort is not exact and draft-safe''),
       (if role = ''meta'' then
          guard (py_eq (dget m ''optionalDependencies'')
              (PDict (map (\<lambda>package. (package, PStr version)) PLATFORM_PACKAGES)))
            (PromotionError ''npm meta package does not select the exact platform cohort'')
        else
          guard (dget m ''openprosePlatform'' = PStr (package_platform name))
            (PromotionError ''npm platform package identity is inconsistent''))])"

section \<open>The candidate of a downloaded assembly\<close>

text \<open>
  \<open>read i\<close> is what reading each file of the assembly reports in pass \<open>i\<close>: the packages, the checksum
  file and the asset inventory are read one after the other.
\<close>

definition authenticate_package ::
  "(string \<Rightarrow> tar_member list option) \<Rightarrow> (string \<Rightarrow> asset_trace) \<Rightarrow> string \<Rightarrow> string \<Rightarrow> string \<Rightarrow> PackageArtifact res" where
  "authenticate_package tar read version source_sha name =
    (let artifact = package_artifact version name in
     ebind (regular_bytes MAX_PACKAGE_BYTES (read artifact)) (\<lambda>body.
     ebind (npm_package_json tar body) (\<lambda>manifest.
     checked (validate_package_manifest manifest name version source_sha (package_role name))
     (Inr \<lparr>pa_name = name, pa_role = package_role name, pa_artifact = artifact, pa_body = body,
        pa_sha256 = sha256_hex body, pa_shasum = sha1_hex body,
        pa_integrity = ''sha512-'' @ b64encode (sha512 body)\<rparr>))))"

definition authenticate_asset :: "(string \<Rightarrow> asset_trace) \<Rightarrow> string \<Rightarrow> ReleaseAsset res" where
  "authenticate_asset read name =
     ebind (regular_bytes (nat MAX_ALPHA_ASSET_BYTES) (read name)) (\<lambda>body.
       Inr \<lparr>ra_name = name, ra_byte_length = int (length body), ra_sha256 = sha256_hex body\<rparr>)"

text \<open>\<open>admitted\<close> is the answer of \<open>draft.load_alpha_assembly\<close>, which is not modelled.\<close>

definition authenticate_assembly ::
  "(string \<Rightarrow> tar_member list option) \<Rightarrow> check \<Rightarrow> (nat \<Rightarrow> string \<Rightarrow> asset_trace) \<Rightarrow> string \<Rightarrow> int \<Rightarrow> string \<Rightarrow> string \<Rightarrow> Candidate res" where
  "authenticate_assembly tar admitted read repository release_id version source_sha =
     checked (case admitted of None \<Rightarrow> None
        | Some e \<Rightarrow> Some (PromotionError ''downloaded draft assembly failed alpha admission''))
     (ebind (traverse_res (authenticate_package tar (read 0) version source_sha) PACKAGE_ORDER) (\<lambda>packages.
      ebind (regular_bytes MAX_ALPHA_CHECKSUM_BYTES (read 1 ''SHA256SUMS'')) (\<lambda>aggregate.
      ebind (expected_asset_names version) (\<lambda>names.
      ebind (traverse_res (authenticate_asset (read 2)) names) (\<lambda>assets.
      Inr \<lparr>c_repository = repository, c_release_id = release_id, c_version = version,
        c_source_sha = source_sha, c_tag = ''cli-v'' @ version, c_assembly_sha256 = sha256_hex aggregate,
        c_assets = assets, c_packages = packages\<rparr>)))))"

section \<open>Reauthentication\<close>

definition subject_check :: "(string \<Rightarrow> asset_trace) \<Rightarrow> ReleaseAsset \<Rightarrow> check" where
  "subject_check read asset =
     check_of (ebind (regular_bytes (nat MAX_ALPHA_ASSET_BYTES) (read (ra_name asset))) (\<lambda>body.
       checked (guard (int (length body) = ra_byte_length asset \<and> sha256_hex body = ra_sha256 asset)
         (PromotionError ''attestation subject bytes changed'')) (Inr ())))"

text \<open>\<open>CandidateAssetAuthenticator.reauthenticate\<close> on the names \<open>iterdir\<close> lists, \<open>None\<close> for an \<open>OSError\<close>.\<close>

definition reauthenticate :: "string list option \<Rightarrow> (string \<Rightarrow> asset_trace) \<Rightarrow> Candidate \<Rightarrow> check" where
  "reauthenticate listed read c =
     check_of (ebind (expected_asset_names (c_version c)) (\<lambda>expected.
       checked (first_failure
         (guard (map ra_name (c_assets c) = expected)
            (PromotionError ''attestation candidate inventory is not closed'') #
          (case listed of None \<Rightarrow> Some (PromotionError ''attestation asset inventory is unavailable'')
           | Some names \<Rightarrow> guard (sort names = expected)
               (PromotionError ''attestation asset inventory changed'')) #
          map (subject_check read) (c_assets c))) (Inr ())))"

section \<open>A candidate a run can start from\<close>

definition sound_candidate :: "Candidate \<Rightarrow> bool" where
  "sound_candidate c \<longleftrightarrow> (\<forall>p \<in> set (c_packages c).
     pa_role p = package_role (pa_name p) \<and> pa_artifact p = package_artifact (c_version c) (pa_name p) \<and>
     SAFE_ARTIFACT (pa_artifact p) \<and> SHA256 (pa_sha256 p) \<and> SHA1 (pa_shasum p) \<and> INTEGRITY (pa_integrity p) \<and>
     (\<exists>a \<in> set (c_assets c). ra_name a = pa_artifact p \<and> ra_sha256 a = pa_sha256 p))"

lemma expected_distinct: "expected_asset_names v = Inr names \<Longrightarrow> distinct names"
  by (auto simp: expected_asset_names_def simp del: remdups.simps split: if_splits)

lemma expected_ALPHA: "expected_asset_names v = Inr names \<Longrightarrow> ALPHA v"
  by (auto simp: expected_asset_names_def split: if_splits)

lemma first_failure_NoneD: "first_failure cs = None \<Longrightarrow> c \<in> set cs \<Longrightarrow> c = None"
  by (simp add: first_failure_eq_None)

text \<open>What accepted evidence says of its candidate.\<close>

lemma evidence_facts:
  assumes "validate_attestation_evidence (PDict e) (Some c) (Some run_id) (Some run_attempt) authority = Inr e'"
  obtains names where "e' = e" "expected_asset_names (c_version c) = Inr names"
    "REPOSITORY (c_repository c)" "0 < c_release_id c" "FULL_SHA (c_source_sha c)"
    "c_tag c = ''cli-v'' @ c_version c" "SHA256 (c_assembly_sha256 c)" "0 < run_id" "0 < run_attempt"
    "length (list_of (dget e ''assets'')) = length names"
    "map release_asset (list_of (dget e ''assets'')) = c_assets c"
    "list_all2 (\<lambda>n i. evidence_asset_check n i = None) names (list_of (dget e ''assets''))"
    "validate_draft_authority_identity (dget e ''draftAuthority'') (c_source_sha c) (list_of (dget e ''assets''))
       = Inr (dict_of (dget e ''draftAuthority''))"
    "evidence_assembly_check e = None" "dget e ''assemblySha256'' = PStr (c_assembly_sha256 c)"
    "\<exists>t. dget e ''tool'' = PDict t \<and> validate_attestation_tool (PDict t) = Inr t"
proof -
  from assms obtain names identity where
    e: "e' = e" and n: "evidence_names_of (dget e ''version'') = Inr names"
    and first: "first_failure (evidence_identity_check e (length names) #
        check_of (validate_attestation_tool (dget e ''tool'')) #
        map2 evidence_asset_check names (list_of (dget e ''assets''))) = None"
    and id: "validate_draft_authority_identity (dget e ''draftAuthority'') (str_of (dget e ''sourceSha''))
         (list_of (dget e ''assets'')) = Inr identity"
    and second: "first_failure (evidence_binding_checks e (Some c) (Some run_id) (Some run_attempt)) = None"
    unfolding validate_attestation_evidence_def
    by (auto simp: ebind_eq_Inr checked_eq_Inr exact_object_def split: if_splits)
  have bind: "evidence_assembly_check e = None" "dget e ''workflowRunId'' = PInt run_id"
    "dget e ''workflowRunAttempt'' = PInt run_attempt" "evidence_candidate_check e c = None"
    using second by (simp_all add: evidence_binding_checks_def)
  have ident: "evidence_identity_check e (length names) = None"
    and tool: "check_of (validate_attestation_tool (dget e ''tool'')) = None"
    and all: "\<forall>x \<in> set (map2 evidence_asset_check names (list_of (dget e ''assets''))). x = None"
    using first by (auto simp: first_failure_eq_None)
  note cand = bind(4) [unfolded evidence_candidate_check_def guard_eq_None]
  note i = ident [unfolded evidence_identity_check_def guard_eq_None]
  have len: "length (list_of (dget e ''assets'')) = length names" using i by simp
  have a2: "list_all2 (\<lambda>n i. evidence_asset_check n i = None) names (list_of (dget e ''assets''))"
  proof (rule list_all2_all_nthI)
    fix j assume j: "j < length names"
    then have "evidence_asset_check (names ! j) (list_of (dget e ''assets'') ! j) \<in>
        set (map2 evidence_asset_check names (list_of (dget e ''assets'')))"
      using len by (auto simp: set_zip)
    with all show "evidence_asset_check (names ! j) (list_of (dget e ''assets'') ! j) = None" by blast
  qed (simp add: len)
  have idd: "dget e ''draftAuthority'' = PDict identity"
  proof (cases "dget e ''draftAuthority''")
    case (PDict x)
    with id show ?thesis
      by (auto simp: validate_draft_authority_identity_def exact_object_def ebind_eq_Inr checked_eq_Inr split: if_splits)
  qed (use id in \<open>auto simp: validate_draft_authority_identity_def exact_object_def\<close>)
  have tl: "\<exists>t. dget e ''tool'' = PDict t \<and> validate_attestation_tool (PDict t) = Inr t"
  proof (cases "dget e ''tool''")
    case (PDict x)
    with tool show ?thesis
      by (auto simp: check_of_eq_None validate_attestation_tool_def exact_object_def ebind_eq_Inr checked_eq_Inr
          split: if_splits)
  qed (use tool in \<open>auto simp: check_of_eq_None validate_attestation_tool_def exact_object_def\<close>)
  have "dget e ''tag'' = PStr (''cli-v'' @ str_of (dget e ''version''))" using i by blast
  then have tag: "c_tag c = ''cli-v'' @ c_version c" using cand by simp
  show ?thesis
  proof (rule that)
    show "expected_asset_names (c_version c) = Inr names" using n cand by (simp add: evidence_names_of_def)
    show "validate_draft_authority_identity (dget e ''draftAuthority'') (c_source_sha c) (list_of (dget e ''assets''))
       = Inr (dict_of (dget e ''draftAuthority''))"
      using id idd cand by simp
  qed (use e cand i len a2 bind tl tag in \<open>simp_all add: is_match_def positive_int_def\<close>)
qed

lemma evidence_asset_facts:
  assumes "evidence_asset_check n i = None"
  shows "ra_name (release_asset i) = n" "1 \<le> ra_byte_length (release_asset i)"
    "ra_byte_length (release_asset i) \<le> MAX_ALPHA_ASSET_BYTES" "SHA256 (ra_sha256 (release_asset i))"
    "dget (dict_of i) ''name'' = PStr (ra_name (release_asset i))"
    "dget (dict_of i) ''byteLength'' = PInt (ra_byte_length (release_asset i))"
    "dget (dict_of i) ''sha256'' = PStr (ra_sha256 (release_asset i))"
proof -
  from assms obtain d where d: "is_dict i" "dict_of i = d" "dget d ''name'' = PStr n"
    "int_between 1 MAX_ALPHA_ASSET_BYTES (dget d ''byteLength'')" "is_match SHA256 (dget d ''sha256'')"
    by (auto simp: evidence_asset_check_def check_of_eq_None exact_object_def ebind_eq_Inr checked_eq_Inr
        split: if_splits)
  moreover obtain k h where "dget d ''byteLength'' = PInt k" "dget d ''sha256'' = PStr h"
    using d(4,5) by (cases "dget d ''byteLength''"; cases "dget d ''sha256''") (auto simp: int_between_def is_match_def)
  ultimately show "ra_name (release_asset i) = n" "1 \<le> ra_byte_length (release_asset i)"
    "ra_byte_length (release_asset i) \<le> MAX_ALPHA_ASSET_BYTES" "SHA256 (ra_sha256 (release_asset i))"
    "dget (dict_of i) ''name'' = PStr (ra_name (release_asset i))"
    "dget (dict_of i) ''byteLength'' = PInt (ra_byte_length (release_asset i))"
    "dget (dict_of i) ''sha256'' = PStr (ra_sha256 (release_asset i))"
    by (simp_all add: release_asset_def int_between_def is_match_def)
qed

lemma evidence_assets_facts:
  assumes "list_all2 (\<lambda>n i. evidence_asset_check n i = None) names items"
  shows "map ra_name (map release_asset items) = names"
    and "\<forall>a \<in> set (map release_asset items). 1 \<le> ra_byte_length a \<and> ra_byte_length a \<le> MAX_ALPHA_ASSET_BYTES \<and> SHA256 (ra_sha256 a)"
    and "inventory_of items = inventory_of (map (\<lambda>a. PDict (asset_dict \<lparr>ae_name = ra_name a,
        ae_byte_length = ra_byte_length a, ae_sha256 = ra_sha256 a, ae_outcome = out\<rparr>)) (map release_asset items))"
  using assms by (induction rule: list_all2_induct) (auto simp: evidence_asset_facts inventory_of_def)

lemma assembly_facts:
  assumes "evidence_assembly_check e = None" "dget e ''assemblySha256'' = PStr h"
    "list_all2 (\<lambda>n i. evidence_asset_check n i = None) names (list_of (dget e ''assets''))"
  shows "\<exists>a \<in> set (map release_asset (list_of (dget e ''assets''))). ra_name a = ''SHA256SUMS'' \<and> ra_sha256 a = h"
proof -
  from assms(1,2) obtain i where i: "find (\<lambda>i. dget (dict_of i) ''name'' = PStr ''SHA256SUMS'') (list_of (dget e ''assets'')) = Some i"
    "dget (dict_of i) ''sha256'' = PStr h"
    by (auto simp: evidence_assembly_check_def split: option.splits)
  then have "i \<in> set (list_of (dget e ''assets''))" "dget (dict_of i) ''name'' = PStr ''SHA256SUMS''"
    by (auto simp: find_Some_iff)
  moreover from this i have "ra_name (release_asset i) = ''SHA256SUMS''" "ra_sha256 (release_asset i) = h"
    by (simp_all add: release_asset_def)
  ultimately show ?thesis by auto
qed

definition bound_settlement :: "string \<Rightarrow> Candidate \<Rightarrow> Lineage \<Rightarrow> pydict \<Rightarrow> string \<Rightarrow> string \<Rightarrow> int \<Rightarrow> int \<Rightarrow> settlement" where
  "bound_settlement operation c lineage e timestamp digest run_id run_attempt =
     (new_settlement operation c lineage (dict_of (dget e ''draftAuthority'')) timestamp)
       \<lparr>s_attestations := (attestation_settlement c)\<lparr>as_status := ''verified'', as_verified := length (c_assets c),
          as_bytes := True, as_run_id := Some run_id, as_run_attempt := Some run_attempt, as_evidence := Some digest,
          as_tool := dget e ''tool'',
          as_assets := map (\<lambda>a. a\<lparr>ae_outcome := ''verified''\<rparr>) (as_assets (attestation_settlement c))\<rparr>,
        s_status := ''in-progress''\<rparr>"

lemma bound_running:
  assumes v: "validate_attestation_evidence (PDict e) (Some c) (Some run_id) (Some run_attempt) authority = Inr e'"
    and op: "operation \<in> set OPERATIONS" and names: "map pa_name (c_packages c) = PACKAGE_ORDER"
    and sound: "sound_candidate c" and digest: "SHA256 digest"
  shows "\<exists>n. running n operation PNone (entries (c_packages c)) []
    (bound_settlement operation c lineage e timestamp digest run_id run_attempt) []"
proof -
  from v obtain ns where f: "expected_asset_names (c_version c) = Inr ns"
    "REPOSITORY (c_repository c)" "0 < c_release_id c" "FULL_SHA (c_source_sha c)"
    "c_tag c = ''cli-v'' @ c_version c" "SHA256 (c_assembly_sha256 c)" "0 < run_id" "0 < run_attempt"
    and as: "map release_asset (list_of (dget e ''assets'')) = c_assets c"
    and chk: "list_all2 (\<lambda>n i. evidence_asset_check n i = None) ns (list_of (dget e ''assets''))"
    and auth: "validate_draft_authority_identity (dget e ''draftAuthority'') (c_source_sha c) (list_of (dget e ''assets''))
       = Inr (dict_of (dget e ''draftAuthority''))"
    and asm: "evidence_assembly_check e = None" "dget e ''assemblySha256'' = PStr (c_assembly_sha256 c)"
    and tool: "\<exists>t. dget e ''tool'' = PDict t \<and> validate_attestation_tool (PDict t) = Inr t"
    by (rule evidence_facts) blast
  let ?s = "bound_settlement operation c lineage e timestamp digest run_id run_attempt"
  let ?as = "as_assets (s_attestations ?s)"
  note facts = evidence_assets_facts [OF chk, unfolded as]
  have lens: "length ns = length (c_assets c)" using facts(1) by (metis length_map)
  have asset_list: "?as = map (\<lambda>a. \<lparr>ae_name = ra_name a, ae_byte_length = ra_byte_length a, ae_sha256 = ra_sha256 a,
      ae_outcome = ''verified''\<rparr>) (c_assets c)"
    by (simp add: bound_settlement_def attestation_settlement_def)
  have inv: "inventory_of (list_of (dget e ''assets'')) = inventory_of (map (\<lambda>x. PDict (asset_dict x)) ?as)"
    unfolding asset_list using facts(3) [of "''verified''"] by (simp add: comp_def)
  have dict: "is_dict (dget e ''draftAuthority'')"
    using auth by (auto simp: validate_draft_authority_identity_def exact_object_def split: if_splits)
  then have "dget e ''draftAuthority'' = PDict (dict_of (dget e ''draftAuthority''))"
    by (cases "dget e ''draftAuthority''") auto
  with auth have authority: "validate_draft_authority_identity (PDict (dict_of (dget e ''draftAuthority''))) (c_source_sha c)
      (map (\<lambda>x. PDict (asset_dict x)) ?as) = Inr (dict_of (dget e ''draftAuthority''))"
    using inv by (simp add: validate_draft_authority_identity_def)
  have sums: "\<exists>a \<in> set ?as. ae_name a = ''SHA256SUMS'' \<and> ae_sha256 a = c_assembly_sha256 c"
    unfolding asset_list using assembly_facts [OF asm chk, unfolded as] by auto
  have packages: "list_all2 (frame_entry ?s) PACKAGE_ORDER (entries (c_packages c))"
  proof (rule list_all2_all_nthI)
    show "length PACKAGE_ORDER = length (entries (c_packages c))" using names by (metis length_map)
    fix j assume "j < length PACKAGE_ORDER"
    then have j: "j < length (c_packages c)" "pa_name (c_packages c ! j) = PACKAGE_ORDER ! j"
      using names by (metis length_map, metis length_map nth_map)
    then have "c_packages c ! j \<in> set (c_packages c)" by simp
    note mem = sound [unfolded sound_candidate_def, rule_format, OF this]
    have p: "pa_role (c_packages c ! j) = package_role (PACKAGE_ORDER ! j)"
      "pa_artifact (c_packages c ! j) = package_artifact (c_version c) (PACKAGE_ORDER ! j)"
      "SAFE_ARTIFACT (pa_artifact (c_packages c ! j))" "SHA256 (pa_sha256 (c_packages c ! j))"
      "SHA1 (pa_shasum (c_packages c ! j))" "INTEGRITY (pa_integrity (c_packages c ! j))"
      "\<exists>a \<in> set (c_assets c). ra_name a = pa_artifact (c_packages c ! j) \<and> ra_sha256 a = pa_sha256 (c_packages c ! j)"
      using mem [unfolded j(2)] by blast+
    have v: "s_version ?s = c_version c" by (simp add: bound_settlement_def new_settlement_def)
    show "frame_entry ?s (PACKAGE_ORDER ! j) (entries (c_packages c) ! j)"
      unfolding frame_entry_def v asset_list using p j by (auto simp: settlement_package_def)
  qed
  have frame: "frame_ok ns ?s"
    unfolding frame_ok_def
    using f op expected_distinct [OF f(1)] expected_ALPHA [OF f(1)] facts(1,2) lens authority sums packages asset_list
    by (auto simp: bound_settlement_def new_settlement_def attestation_settlement_def)
  have "attested True ?s"
    unfolding attested_def Let_def using f(7,8) digest tool asset_list
    by (auto simp: bound_settlement_def new_settlement_def attestation_settlement_def)
  then have "running ns operation PNone (entries (c_packages c)) [] ?s []"
    using frame by (auto simp: running_def run_state_def idle_def toolchain_check_def bound_settlement_def new_settlement_def)
  then show ?thesis by blast
qed

lemma prepared:
  assumes "prepare_settlement b operation c lineage e digest run_id run_attempt w = (Inr s, w')"
  shows "operation \<in> set OPERATIONS" "map pa_name (c_packages c) = PACKAGE_ORDER" "SHA256 digest"
    "\<exists>e'. validate_attestation_evidence (PDict e) (Some c) (Some run_id) (Some run_attempt) None = Inr e'"
    "\<exists>timestamp. s = bound_settlement operation c lineage e timestamp digest run_id run_attempt"
    "refuse_attempted_retry (existing_settlement b w) = None"
proof -
  let ?first = "first_failure [
         guard (operation \<in> set OPERATIONS) (PromotionError ''promotion operation is unsupported''),
         check_of (package_map c),
         refuse_attempted_retry (existing_settlement b w),
         check_of (validate_attestation_evidence (PDict e) (Some c) (Some run_id) (Some run_attempt) None)]"
  have first: "?first = None"
    using assms by (cases ?first) (simp_all add: prepare_settlement_def)
  obtain t w1 where "now b w = (t, w1)" by (cases "now b w")
  with assms first have bind: "bind_attestation_evidence
      (new_settlement operation c lineage (dict_of (dget e ''draftAuthority'')) t) c e digest run_id run_attempt =
      Inr (new_settlement operation c lineage (dict_of (dget e ''draftAuthority'')) t
        \<lparr>s_attestations := s_attestations (bound_settlement operation c lineage e t digest run_id run_attempt)\<rparr>) \<and>
      s = bound_settlement operation c lineage e t digest run_id run_attempt \<and> SHA256 digest"
    by (auto simp: prepare_settlement_def bind_attestation_evidence_def ebind_eq_Inr checked_eq_Inr
        bound_settlement_def new_settlement_def)
  show "operation \<in> set OPERATIONS" "refuse_attempted_retry (existing_settlement b w) = None"
    using first by simp_all
  show "map pa_name (c_packages c) = PACKAGE_ORDER"
    using first by (auto simp: check_of_eq_None package_map_def split: if_splits)
  show "\<exists>e'. validate_attestation_evidence (PDict e) (Some c) (Some run_id) (Some run_attempt) None = Inr e'"
    using first by (simp add: check_of_eq_None)
  show "SHA256 digest" "\<exists>timestamp. s = bound_settlement operation c lineage e timestamp digest run_id run_attempt"
    using bind by blast+
qed

text \<open>The run that follows a prepared settlement.\<close>

lemma run_outcome:
  assumes prep: "prepare_settlement b operation c lineage e digest run_id run_attempt w = (Inr s, w')"
    and sound: "sound_candidate c"
    and valid: "\<And>w v. fst (npm_toolchain b w) = Inr v \<Longrightarrow> toolchain_check v = None \<and> v \<noteq> PNone"
    and run: "guarded_body b npm operation c lineage \<lparr>world = w', live = s, events = []\<rparr> = (r, st)"
  shows "case r of
      Inr _ \<Rightarrow> finished (planned operation) (planned_promotions operation) (target_status operation) (live st) (events st)
    | Inl err \<Rightarrow> stopped (planned operation) (planned_promotions operation) err (live st) (events st)"
proof -
  note p = prepared [OF prep]
  from p(4,5) obtain e' t where "validate_attestation_evidence (PDict e) (Some c) (Some run_id) (Some run_attempt) None = Inr e'"
    and s: "s = bound_settlement operation c lineage e t digest run_id run_attempt" by blast
  from bound_running [OF this(1) p(1,2) sound p(3)] s obtain n where
    "running n operation PNone (entries (c_packages c)) [] s []" by blast
  moreover have "triple (running n operation PNone (entries (c_packages c)) []) (guarded_body b npm operation c lineage)
      (\<lambda>_. finished (planned operation) (planned_promotions operation) (target_status operation))
      (stopped (planned operation) (planned_promotions operation))"
    by (rule run_guarded [OF p(2,1)]) (rule valid)
  ultimately have "case guarded_body b npm operation c lineage \<lparr>world = w', live = s, events = []\<rparr> of
      (Inr _, st) \<Rightarrow> finished (planned operation) (planned_promotions operation) (target_status operation) (live st) (events st)
    | (Inl err, st) \<Rightarrow> stopped (planned operation) (planned_promotions operation) err (live st) (events st)"
    unfolding triple_def by simp
  with run show ?thesis by (cases r) simp_all
qed

section \<open>Authenticated assemblies are sound\<close>

lemma INTEGRITY_sha512: "INTEGRITY (''sha512-'' @ b64encode (sha512 body))"
proof -
  have "sha512 body \<noteq> []" using length_sha512 [of body] by auto
  from b64_shape [OF this] obtain h t where
    s: "b64encode (sha512 body) = h @ t" "h \<noteq> []" "list_all is_b64 h" "t \<in> {[], ''='', ''==''}" by blast
  have "\<not> is_b64 (CHR ''='')" by (simp add: is_b64_def is_alnum_def is_digit_def is_upper_def is_lower_def in_range_def)
  with s(4) have "takeWhile is_b64 t = []" "dropWhile is_b64 t = t" by auto
  with s have "takeWhile is_b64 (h @ t) = h" "dropWhile is_b64 (h @ t) = t"
    by (simp_all add: takeWhile_append2 dropWhile_append2 list_all_iff)
  with s show ?thesis by (auto simp: INTEGRITY_def)
qed

lemma package_artifact_expected:
  "expected_asset_names v = Inr names \<Longrightarrow> name \<in> set PACKAGE_ORDER \<Longrightarrow> package_artifact v name \<in> set names"
  by (auto simp: expected_asset_names_def PACKAGE_ORDER_def PLATFORM_PACKAGES_def PLATFORMS_def META_PACKAGE_def
      package_artifact_def package_role_def package_platform_def platform_artifacts_def simp del: remdups.simps split: if_splits)

lemma traverse_In: "traverse_res f xs = Inr ys \<Longrightarrow> x \<in> set xs \<Longrightarrow> \<exists>y \<in> set ys. f x = Inr y"
  by (induction xs arbitrary: ys) (auto simp: ebind_eq_Inr)

lemma traverse_Out: "traverse_res f xs = Inr ys \<Longrightarrow> y \<in> set ys \<Longrightarrow> \<exists>x \<in> set xs. f x = Inr y"
  by (induction xs arbitrary: ys) (auto simp: ebind_eq_Inr)

lemma authenticated_sound:
  assumes a: "authenticate_assembly tar admitted read repository release_id version source_sha = Inr c"
    and same: "\<And>name. name \<in> set PACKAGE_ORDER \<Longrightarrow> read 2 (package_artifact version name) = read 0 (package_artifact version name)"
    and short: "\<And>name. name \<in> set PACKAGE_ORDER \<Longrightarrow> SAFE_ARTIFACT (package_artifact version name)"
  shows "sound_candidate c" "map pa_name (c_packages c) = PACKAGE_ORDER"
proof -
  from a obtain packages names assets where
    pk: "traverse_res (authenticate_package tar (read 0) version source_sha) PACKAGE_ORDER = Inr packages"
    and ns: "expected_asset_names version = Inr names"
    and as: "traverse_res (authenticate_asset (read 2)) names = Inr assets"
    and c: "c_packages c = packages" "c_assets c = assets" "c_version c = version"
    unfolding authenticate_assembly_def by (auto simp: ebind_eq_Inr checked_eq_Inr)
  have one: "p = \<lparr>pa_name = name, pa_role = package_role name, pa_artifact = package_artifact version name,
      pa_body = pa_body p, pa_sha256 = sha256_hex (pa_body p), pa_shasum = sha1_hex (pa_body p),
      pa_integrity = ''sha512-'' @ b64encode (sha512 (pa_body p))\<rparr>"
    "regular_bytes MAX_PACKAGE_BYTES (read 0 (package_artifact version name)) = Inr (pa_body p)"
    if "authenticate_package tar (read 0) version source_sha name = Inr p" for name p
    using that by (auto simp: authenticate_package_def Let_def ebind_eq_Inr checked_eq_Inr)
  have "list_all2 (\<lambda>x y. authenticate_package tar (read 0) version source_sha x = Inr y) PACKAGE_ORDER packages"
    using pk by (simp add: traverse_res_all)
  then have "map pa_name packages = PACKAGE_ORDER"
  proof (induction rule: list_all2_induct)
    case (Cons x xs y ys)
    from one(1) [OF Cons(1)] have "pa_name y = x" by (metis PackageArtifact.select_convs(1))
    with Cons show ?case by simp
  qed simp
  then show "map pa_name (c_packages c) = PACKAGE_ORDER" using c by simp
  show "sound_candidate c"
    unfolding sound_candidate_def
  proof
    fix p assume "p \<in> set (c_packages c)"
    then obtain name where n: "name \<in> set PACKAGE_ORDER" "authenticate_package tar (read 0) version source_sha name = Inr p"
      using traverse_Out [OF pk] c by metis
    let ?a = "package_artifact version name"
    have "?a \<in> set names" by (rule package_artifact_expected [OF ns n(1)])
    then obtain x where x: "x \<in> set assets" "authenticate_asset (read 2) ?a = Inr x"
      using traverse_In [OF as] by blast
    have "MAX_PACKAGE_BYTES = nat MAX_ALPHA_ASSET_BYTES" by (simp add: MAX_PACKAGE_BYTES_def MAX_ALPHA_ASSET_BYTES_def)
    with x(2) one(2) [OF n(2)] same [OF n(1)] have "ra_name x = ?a" "ra_sha256 x = sha256_hex (pa_body p)"
      by (auto simp: authenticate_asset_def)
    moreover have "pa_name p = name" "pa_role p = package_role name" "pa_artifact p = ?a"
      "pa_sha256 p = sha256_hex (pa_body p)" "pa_shasum p = sha1_hex (pa_body p)"
      "pa_integrity p = ''sha512-'' @ b64encode (sha512 (pa_body p))"
      using arg_cong [OF one(1) [OF n(2)], of pa_name] arg_cong [OF one(1) [OF n(2)], of pa_role]
        arg_cong [OF one(1) [OF n(2)], of pa_artifact] arg_cong [OF one(1) [OF n(2)], of pa_sha256]
        arg_cong [OF one(1) [OF n(2)], of pa_shasum] arg_cong [OF one(1) [OF n(2)], of pa_integrity]
      by simp_all
    ultimately show "pa_role p = package_role (pa_name p) \<and> pa_artifact p = package_artifact (c_version c) (pa_name p) \<and>
       SAFE_ARTIFACT (pa_artifact p) \<and> SHA256 (pa_sha256 p) \<and> SHA1 (pa_shasum p) \<and> INTEGRITY (pa_integrity p) \<and>
       (\<exists>a \<in> set (c_assets c). ra_name a = pa_artifact p \<and> ra_sha256 a = pa_sha256 p)"
      using short [OF n(1)] x(1) c by (auto simp: SHA256_def SHA1_def INTEGRITY_sha512 [simplified])
  qed
qed

end
