(* ===== verification/Promotion_Registry.thy ===== *)
theory Promotion_Registry
  imports Promotion_Candidate
begin

text \<open>
  What the promotion reads from the public registry, \<^verbatim>\<open>PublicNpmRegistry.package\<close> and
  \<^verbatim>\<open>PublicNpmRegistry.tarball\<close> of \<^verbatim>\<open>cli/ci/promote_alpha_release.py\<close>, on the response of the HTTP
  boundary: the closed JSON reader, every check of the metadata, and the check of the origin of a URL
  with the part of \<^verbatim>\<open>urllib.parse.urlparse\<close> it uses.
\<close>

section \<open>URLs\<close>

record url_parts =
  up_scheme :: string
  up_netloc :: string
  up_fragment :: string

definition scheme_char :: "char \<Rightarrow> bool" where
  "scheme_char c \<longleftrightarrow> is_alnum c \<or> c \<in> set ''+-.''"

definition until_any :: "string \<Rightarrow> string \<Rightarrow> string" where
  "until_any stops s = takeWhile (\<lambda>c. c \<notin> set stops) s"

text \<open>\<open>urlparse\<close> without path and query; leading control characters go, tabs and newlines everywhere.\<close>

definition urlparse :: "string \<Rightarrow> url_parts" where
  "urlparse raw =
    (let s = filter (\<lambda>c. byte c \<noteq> 9 \<and> byte c \<noteq> 10 \<and> byte c \<noteq> 13) (dropWhile (\<lambda>c. byte c \<le> 32) raw);
         head = until_any '':'' s;
         named = (head \<noteq> [] \<and> length head < length s \<and> (is_upper (hd head) \<or> is_lower (hd head)) \<and>
                  list_all scheme_char head);
         scheme = (if named then map lower_char head else []);
         rest = (if named then drop (Suc (length head)) s else s);
         netloc = (if take 2 rest = ''//'' then until_any ''/?#'' (drop 2 rest) else [])
     in \<lparr>up_scheme = scheme, up_netloc = netloc,
         up_fragment = drop 1 (dropWhile (\<lambda>c. c \<noteq> CHR ''#'') rest)\<rparr>)"

text \<open>\<open>netloc.rpartition("@")\<close>: the user information, when there is some, and the host with its port.\<close>

definition user_and_host :: "string \<Rightarrow> string option \<times> string" where
  "user_and_host netloc =
     (if CHR ''@'' \<in> set netloc
      then (Some (rev (drop 1 (dropWhile (\<lambda>c. c \<noteq> CHR ''@'') (rev netloc)))),
            rev (takeWhile (\<lambda>c. c \<noteq> CHR ''@'') (rev netloc)))
      else (None, netloc))"

text \<open>
  The five conditions on a URL of the registry. A host in brackets is outside the origin; the
  \<open>ValueError\<close> that \<open>urlparse\<close> raises for some malformed ones is not modelled.
\<close>

definition registry_origin :: "string \<Rightarrow> bool" where
  "registry_origin raw =
    (let u = urlparse raw; (user, host) = user_and_host (up_netloc u);
         username = (case user of None \<Rightarrow> [] | Some i \<Rightarrow> until_any '':'' i);
         password = (case user of None \<Rightarrow> [] | Some i \<Rightarrow> drop (Suc (length (until_any '':'' i))) i)
     in up_scheme u = ''https'' \<and> py_lower (until_any '':'' host) = ''registry.npmjs.org'' \<and>
        username = [] \<and> password = [] \<and> up_fragment u = [])"

section \<open>Package metadata\<close>

definition string_items :: "pyval \<Rightarrow> bool" where
  "string_items v \<longleftrightarrow> is_dict v \<and> list_all (\<lambda>(k, x). is_str x) (dict_of v)"

definition string_pairs :: "pyval \<Rightarrow> (string \<times> string) list" where
  "string_pairs v = map (\<lambda>(k, x). (k, str_of x)) (dict_of v)"

definition owner_name :: "pyval \<Rightarrow> string res" where
  "owner_name v =
     (if is_dict v \<and> is_str (dget (dict_of v) ''name'') \<and> str_of (dget (dict_of v) ''name'') \<noteq> []
      then Inr (str_of (dget (dict_of v) ''name''))
      else Inl (PromotionError ''npm registry ownership metadata is malformed''))"

definition provenance_predicate :: "pyval \<Rightarrow> string option res" where
  "provenance_predicate attestations =
    (let bad = PromotionError ''npm registry provenance metadata is malformed'' in
     if attestations = PNone then Inr None
     else if \<not> is_dict attestations then Inl bad
     else (let provenance = dget (dict_of attestations) ''provenance'';
               attestation_url = dget (dict_of attestations) ''url'' in
       if is_dict provenance \<and> is_str (dget (dict_of provenance) ''predicateType'') \<and>
          is_str attestation_url \<and> registry_origin (str_of attestation_url)
       then Inr (Some (str_of (dget (dict_of provenance) ''predicateType'')))
       else Inl bad))"

definition registry_version :: "string \<Rightarrow> string \<times> pyval \<Rightarrow> (string \<times> RegistryVersion) res" where
  "registry_version name = (\<lambda>(version, document).
    (let d = dict_of document; dist = dict_of (dget d ''dist''); optional = dget d ''optionalDependencies'' in
     checked (first_failure [
       guard (is_dict document) (PromotionError ''npm registry version metadata is malformed''),
       guard (dget d ''name'' = PStr name \<and> dget d ''version'' = PStr version \<and> is_dict (dget d ''dist'') \<and>
          is_match SHA1 (dget dist ''shasum'') \<and> is_match INTEGRITY (dget dist ''integrity'') \<and>
          is_str (dget dist ''tarball'')) (PromotionError ''npm registry version identity is malformed''),
       guard (optional = PNone \<or> string_items optional)
         (PromotionError ''npm registry dependency metadata is malformed'')])
     (ebind (provenance_predicate (dget dist ''attestations'')) (\<lambda>predicate.
      Inr (version, \<lparr>rv_name = name, rv_version = version, rv_shasum = str_of (dget dist ''shasum''),
        rv_integrity = str_of (dget dist ''integrity''), rv_tarball_url = str_of (dget dist ''tarball''),
        rv_optional_dependencies = (if optional = PNone then None else Some (string_pairs optional)),
        rv_provenance = predicate\<rparr>)))))"

text \<open>\<open>PublicNpmRegistry.package\<close> on the status and body of the response.\<close>

definition public_package :: "string \<Rightarrow> (nat \<times> string) res \<Rightarrow> RegistryPackage option res" where
  "public_package name response =
     checked (guard (name \<in> set PACKAGE_ORDER)
       (PromotionError ''registry package is outside the closed cohort''))
     (ebind response (\<lambda>(status, body).
      if status = 404 then Inr None
      else ebind (closed_json body ''npm registry package metadata'' MAX_JSON_BYTES) (\<lambda>v.
        (let d = dict_of v in
         checked (first_failure [
           guard (is_dict v \<and> dget d ''name'' = PStr name)
             (PromotionError ''npm registry package identity is malformed''),
           guard (is_dict (dget d ''dist-tags'') \<and> is_dict (dget d ''versions'') \<and> is_list (dget d ''maintainers''))
             (PromotionError ''npm registry package metadata is incomplete''),
           guard (string_items (dget d ''dist-tags''))
             (PromotionError ''npm registry distribution tags are malformed'')])
         (ebind (traverse_res owner_name (list_of (dget d ''maintainers''))) (\<lambda>owners.
          checked (guard (distinct owners)
            (PromotionError ''npm registry ownership metadata is ambiguous''))
          (ebind (traverse_res (registry_version name) (dict_of (dget d ''versions''))) (\<lambda>versions.
           Inr (Some \<lparr>rp_name = name, rp_owners = owners, rp_tags = string_pairs (dget d ''dist-tags''),
             rp_versions = versions\<rparr>)))))))))"

definition public_tarball :: "string \<Rightarrow> (string \<Rightarrow> (nat \<times> string) res) \<Rightarrow> string res" where
  "public_tarball tarball request =
     checked (guard (registry_origin tarball)
       (PromotionError ''npm registry tarball URL is outside the closed origin''))
     (ebind (request tarball) (\<lambda>(status, body). Inr body))"

end
