(* ===== verification/Promotion_Handoff.thy ===== *)
theory Promotion_Handoff
  imports Promotion_Registry
begin

text \<open>
  The edges of the promotion in \<^verbatim>\<open>cli/ci/promote_alpha_release.py\<close>: the closed command line
  (\<^verbatim>\<open>_validate_inputs\<close>) and the read-only mode that verifies the attestations and hands the evidence
  over (\<^verbatim>\<open>preverify_attestations\<close>, \<^verbatim>\<open>AttestationEvidenceWriter\<close>).
\<close>

section \<open>The command line\<close>

record promote_args =
  g_mode :: string
  g_operation :: "string option"
  g_repository :: string
  g_release_id :: string
  g_version :: string
  g_source_sha :: string
  g_run_id :: string
  g_run_attempt :: string
  g_authority_name :: string
  g_authority_sha256 :: string
  g_authority_run_id :: string
  g_authority_run_attempt :: string
  g_evidence_name :: string
  g_evidence_sha256 :: "string option"
  g_confirmation :: "string option"
  g_settlement_name :: "string option"
  g_npm_tarball :: "string option"
  g_node :: "string option"
  g_github_cli :: "string option"

record promote_ids =
  i_release_id :: int
  i_run_id :: int
  i_run_attempt :: int
  i_authority_run_id :: int
  i_authority_run_attempt :: int

definition parse_ids :: "promote_args \<Rightarrow> promote_ids" where
  "parse_ids a = \<lparr>i_release_id = int (dec_value (g_release_id a)), i_run_id = int (dec_value (g_run_id a)),
     i_run_attempt = int (dec_value (g_run_attempt a)),
     i_authority_run_id = int (dec_value (g_authority_run_id a)),
     i_authority_run_attempt = int (dec_value (g_authority_run_attempt a))\<rparr>"

definition identity_inputs_check :: "promote_args \<Rightarrow> check" where
  "identity_inputs_check a = first_failure [
     guard (ALPHA (g_version a)) (PromotionError ''version must be exact numbered alpha SemVer''),
     guard (FULL_SHA (g_source_sha a)) (PromotionError ''source SHA must be full lowercase hexadecimal''),
     guard (REPOSITORY (g_repository a)) (PromotionError ''GitHub repository must be owner/name''),
     guard (positive_digits (g_release_id a)) (PromotionError ''GitHub release ID must be a positive integer''),
     guard (positive_digits (g_run_id a) \<and> positive_digits (g_run_attempt a))
       (PromotionError ''workflow run identity must be positive integers''),
     guard (positive_digits (g_authority_run_id a) \<and> positive_digits (g_authority_run_attempt a))
       (PromotionError ''draft authority producer run must be positive integers''),
     guard (g_authority_name a = DRAFT_AUTHORITY_FILENAME)
       (PromotionError ''draft authority must use the canonical filename''),
     guard (SHA256 (g_authority_sha256 a)) (PromotionError ''draft authority digest is malformed''),
     guard (g_evidence_name a = ATTESTATION_EVIDENCE_FILENAME)
       (PromotionError ''attestation evidence must use the canonical filename'')]"

definition readonly_inputs_check :: "promote_args \<Rightarrow> check" where
  "readonly_inputs_check a = first_failure [
     guard (g_operation a = None \<and> g_confirmation a = None \<and> g_settlement_name a = None \<and>
        g_npm_tarball a = None \<and> g_node a = None \<and> g_evidence_sha256 a = None)
       (PromotionError ''read-only attestation mode does not accept mutation custody''),
     guard (case g_github_cli a of None \<Rightarrow> False | Some p \<Rightarrow> take 1 p = ''/'')
       (PromotionError ''read-only attestation mode requires an absolute GitHub CLI path'')]"

definition expected_confirmation :: "promote_args \<Rightarrow> string \<Rightarrow> string" where
  "expected_confirmation a operation =
    (let i = parse_ids a in
     ''PROMOTE '' @ operation @ '' '' @ g_version a @ '' '' @ g_source_sha a @ '' '' @ dec_int (i_release_id i) @
     '' AUTHORITY '' @ dec_int (i_authority_run_id i) @ ''/'' @ dec_int (i_authority_run_attempt i) @ '' '' @
     g_authority_sha256 a)"

definition mutation_inputs_check :: "promote_args \<Rightarrow> check" where
  "mutation_inputs_check a =
     (case g_operation a of
        None \<Rightarrow> Some (PromotionError ''promotion operation is unsupported'')
      | Some operation \<Rightarrow> first_failure [
          guard (operation \<in> set OPERATIONS) (PromotionError ''promotion operation is unsupported''),
          guard (g_confirmation a = Some (expected_confirmation a operation))
            (PromotionError ''confirmation does not exactly identify this transition''),
          guard (g_settlement_name a = Some ''npm-publication-settlement.json'')
            (PromotionError ''settlement must use the canonical filename''),
          guard (case g_evidence_sha256 a of None \<Rightarrow> False | Some d \<Rightarrow> SHA256 d)
            (PromotionError ''attestation evidence digest is malformed''),
          guard (g_github_cli a = None)
            (PromotionError ''evidence-consuming mutation mode does not accept GitHub CLI custody''),
          (if operation = ''settle-and-promote'' then
             guard (g_npm_tarball a = None \<and> g_node a = None)
               (PromotionError ''settlement-only promotion does not accept npm custody'')
           else guard (g_npm_tarball a \<noteq> None) (PromotionError ''an exact npm client tarball is required''))])"

definition validate_inputs :: "promote_args \<Rightarrow> promote_ids res" where
  "validate_inputs a =
     checked (first_failure [identity_inputs_check a,
       if g_mode a = ''verify-attestations'' then readonly_inputs_check a else mutation_inputs_check a])
     (Inr (parse_ids a))"

section \<open>Verifying the attestations\<close>

record 'w attestation_boundary =
  evidence_exists :: "'w \<Rightarrow> bool"
  gh_toolchain :: "'w \<Rightarrow> pyval res \<times> 'w"
  gh_verify :: "ReleaseAsset \<Rightarrow> 'w \<Rightarrow> AttestationResult list res \<times> 'w"
  gh_reauthenticate :: "Candidate \<Rightarrow> 'w \<Rightarrow> unit res \<times> 'w"
  store_evidence :: "string \<Rightarrow> 'w \<Rightarrow> check \<times> 'w"

definition expected_attestation :: "Candidate \<Rightarrow> ReleaseAsset \<Rightarrow> AttestationResult" where
  "expected_attestation c asset = \<lparr>ar_repository = c_repository c, ar_source_sha = c_source_sha c,
     ar_source_ref = ''refs/heads/main'', ar_predicate_type = PROVENANCE_PREDICATE,
     ar_signer_workflow = c_repository c @ ''/'' @ SIGNER_WORKFLOW_PATH, ar_signer_digest = c_source_sha c,
     ar_subject_name = ra_name asset, ar_subject_sha256 = ra_sha256 asset\<rparr>"

fun verify_each :: "'w attestation_boundary \<Rightarrow> Candidate \<Rightarrow> ReleaseAsset list \<Rightarrow> 'w \<Rightarrow> check \<times> 'w" where
  "verify_each b c [] w = (None, w)"
| "verify_each b c (asset # assets) w =
     (case gh_verify b asset w of
        (Inl e, w') \<Rightarrow> (Some e, w')
      | (Inr results, w') \<Rightarrow>
          if results = [expected_attestation c asset] then verify_each b c assets w'
          else (Some (PromotionError ''GitHub artifact attestation identity is not exact''), w'))"

definition attestation_evidence :: "Candidate \<Rightarrow> DraftAuthority \<Rightarrow> int \<Rightarrow> int \<Rightarrow> pydict \<Rightarrow> pydict" where
  "attestation_evidence c authority run_id run_attempt tool =
     [(''schema'', PStr ATTESTATION_EVIDENCE_SCHEMA), (''status'', PStr ''verified''),
      (''repository'', PStr (c_repository c)), (''releaseId'', PInt (c_release_id c)),
      (''version'', PStr (c_version c)), (''sourceSha'', PStr (c_source_sha c)), (''tag'', PStr (c_tag c)),
      (''assemblySha256'', PStr (c_assembly_sha256 c)),
      (''draftAuthority'', PDict (draft_authority_identity authority)),
      (''sourceRef'', PStr ''refs/heads/main''), (''predicateType'', PStr PROVENANCE_PREDICATE),
      (''signerWorkflow'', PStr (c_repository c @ ''/'' @ SIGNER_WORKFLOW_PATH)),
      (''signerDigest'', PStr (c_source_sha c)), (''workflowRunId'', PInt run_id),
      (''workflowRunAttempt'', PInt run_attempt), (''expectedAssetCount'', PInt (int (length (c_assets c)))),
      (''verifiedAssetCount'', PInt (int (length (c_assets c)))), (''bytesReauthenticated'', PBool True),
      (''tool'', PDict tool),
      (''assets'', PList (map (\<lambda>a. PDict [(''name'', PStr (ra_name a)), (''byteLength'', PInt (ra_byte_length a)),
         (''sha256'', PStr (ra_sha256 a)), (''outcome'', PStr ''verified'')]) (c_assets c)))]"

text \<open>\<open>AttestationEvidenceWriter.write\<close>; \<open>store_evidence\<close> is its part after \<open>refuse_existing\<close>.\<close>

definition write_evidence :: "'w attestation_boundary \<Rightarrow> pydict \<Rightarrow> 'w \<Rightarrow> string res \<times> 'w" where
  "write_evidence b evidence w =
     (case checked (first_failure [
         check_of (validate_attestation_evidence (PDict evidence) None None None None),
         guard (length (encode_attestation_evidence evidence) \<le> MAX_ATTESTATION_EVIDENCE_BYTES)
           (PromotionError ''attestation evidence exceeds its byte limit''),
         guard (\<not> evidence_exists b w)
           (PromotionError ''attestation evidence already exists; refuse ambiguous replacement'')])
       (Inr (encode_attestation_evidence evidence)) of
        Inl e \<Rightarrow> (Inl e, w)
      | Inr encoded \<Rightarrow>
          (case store_evidence b encoded w of
             (Some e, w') \<Rightarrow> (Inl e, w')
           | (None, w') \<Rightarrow> (Inr (sha256_hex encoded), w')))"

definition preverify_inputs_check :: "'w attestation_boundary \<Rightarrow> Candidate \<Rightarrow> DraftAuthority \<Rightarrow> int \<Rightarrow> int \<Rightarrow> 'w \<Rightarrow> check" where
  "preverify_inputs_check b c authority run_id run_attempt w =
     check_of (checked (guard (0 < run_id \<and> 0 < run_attempt) (PromotionError ''workflow run identity is malformed''))
       (ebind (expected_asset_names (c_version c)) (\<lambda>names.
        checked (first_failure [
          guard (map ra_name (c_assets c) = names)
            (PromotionError ''attestation candidate inventory is not closed''),
          require_draft_authority_candidate authority c,
          guard (\<not> evidence_exists b w)
            (PromotionError ''attestation evidence already exists; refuse ambiguous replacement'')]) (Inr ()))))"

definition preverify_attestations ::
  "'w attestation_boundary \<Rightarrow> Candidate \<Rightarrow> DraftAuthority \<Rightarrow> int \<Rightarrow> int \<Rightarrow> 'w \<Rightarrow> pydict res \<times> 'w" where
  "preverify_attestations b c authority run_id run_attempt w =
     (case preverify_inputs_check b c authority run_id run_attempt w of
        Some e \<Rightarrow> (Inl e, w)
      | None \<Rightarrow>
     (case gh_toolchain b w of
        (Inl e, w1) \<Rightarrow> (Inl e, w1)
      | (Inr v, w1) \<Rightarrow>
     (case validate_attestation_tool v of
        Inl e \<Rightarrow> (Inl e, w1)
      | Inr tool \<Rightarrow>
     (case verify_each b c (c_assets c) w1 of
        (Some e, w2) \<Rightarrow> (Inl e, w2)
      | (None, w2) \<Rightarrow>
     (case gh_reauthenticate b c w2 of
        (Inl e, w3) \<Rightarrow> (Inl e, w3)
      | (Inr _, w3) \<Rightarrow>
     (let evidence = attestation_evidence c authority run_id run_attempt tool in
      case validate_attestation_evidence (PDict evidence) (Some c) (Some run_id) (Some run_attempt) (Some authority) of
        Inl e \<Rightarrow> (Inl e, w3)
      | Inr _ \<Rightarrow>
     (case write_evidence b evidence w3 of
        (Inl e, w4) \<Rightarrow> (Inl e, w4)
      | (Inr digest, w4) \<Rightarrow> (Inr evidence, w4))))))))"

end
