(* ===== verification/Promotion_Store.thy ===== *)
theory Promotion_Store
  imports Promotion_Handoff
begin

text \<open>
  The two atomic writers of \<^verbatim>\<open>cli/ci/promote_alpha_release.py\<close> on a disk: what
  \<^verbatim>\<open>SettlementWriter.write\<close> and \<^verbatim>\<open>AttestationEvidenceWriter.write\<close> leave in their directory when any of
  their calls fails, and while other processes change it. Both satisfy one contract, the locale
  \<open>file_store\<close>: the file is never torn.
\<close>

section \<open>The directory and what may go wrong\<close>

datatype store_step =
    MakeParent | CheckParent | HardenParent | CheckPath | OpenTemporary | FillTemporary | PublishPath | SyncDirectory

type_synonym disk = "string \<rightharpoonup> string"

text \<open>
  \<open>fault\<close> is the first call that fails, if any; \<open>partial\<close> is what the temporary file then holds;
  \<open>stuck\<close> says that a temporary file cannot be removed; \<open>meanwhile\<close> is what other processes do to the
  directory before the file is put in place. The temporary file is this process's own.
\<close>

record store_env =
  fault :: "store_step option"
  stuck :: bool
  partial :: string
  pid :: nat
  meanwhile :: "disk \<Rightarrow> disk"

definition temporary_name :: "nat \<Rightarrow> string \<Rightarrow> string" where
  "temporary_name process name = ''.'' @ name @ ''.'' @ dec_digits process @ ''.tmp''"

definition discard :: "bool \<Rightarrow> string \<Rightarrow> disk \<Rightarrow> disk" where
  "discard keep temporary d = (if keep then d else d(temporary := None))"

section \<open>The writers\<close>

definition store_settlement_file :: "string \<Rightarrow> store_env \<Rightarrow> string \<Rightarrow> disk \<Rightarrow> check \<times> disk" where
  "store_settlement_file name env encoded d =
    (let lost = Some (PromotionError ''publication settlement cannot be written atomically'');
         temporary = temporary_name (pid env) name;
         filled = (meanwhile env d)(temporary \<mapsto> encoded) in
     if fault env = Some MakeParent then (Some (OSErr ''mkdir''), d)
     else if fault env = Some CheckParent then (Some (PromotionError ''settlement directory is unsafe''), d)
     else if fault env = Some HardenParent then (Some (PromotionError ''settlement directory cannot be hardened''), d)
     else if fault env = Some CheckPath then (Some (PromotionError ''settlement path must not be a symlink''), d)
     else if fault env = Some OpenTemporary \<or> d temporary \<noteq> None then (lost, discard (stuck env) temporary d)
     else if fault env = Some FillTemporary then (lost, discard (stuck env) temporary (d(temporary \<mapsto> partial env)))
     else if fault env = Some PublishPath then (lost, discard (stuck env) temporary filled)
     else if fault env = Some SyncDirectory then (lost, filled(temporary := None, name \<mapsto> encoded))
     else (None, filled(temporary := None, name \<mapsto> encoded)))"

text \<open>The evidence is linked into place: the link fails where the name exists, and its own removal of the
  temporary file is one of the calls that may fail.\<close>

definition store_evidence_file :: "string \<Rightarrow> store_env \<Rightarrow> string \<Rightarrow> disk \<Rightarrow> check \<times> disk" where
  "store_evidence_file name env encoded d =
    (let lost = Some (PromotionError ''attestation evidence cannot be written atomically'');
         temporary = temporary_name (pid env) name;
         filled = (meanwhile env d)(temporary \<mapsto> encoded) in
     if fault env = Some MakeParent then (Some (OSErr ''mkdir''), d)
     else if fault env = Some CheckParent then (Some (PromotionError ''attestation evidence directory is unsafe''), d)
     else if fault env = Some HardenParent
       then (Some (PromotionError ''attestation evidence directory cannot be hardened''), d)
     else if fault env = Some CheckPath \<or> d name \<noteq> None
       then (Some (PromotionError ''attestation evidence already exists; refuse ambiguous replacement''), d)
     else if fault env = Some OpenTemporary \<or> d temporary \<noteq> None then (lost, discard (stuck env) temporary d)
     else if fault env = Some FillTemporary then (lost, discard (stuck env) temporary (d(temporary \<mapsto> partial env)))
     else if fault env = Some PublishPath \<or> filled name \<noteq> None then (lost, discard (stuck env) temporary filled)
     else if fault env = Some SyncDirectory \<or> stuck env
       then (lost, discard (stuck env) temporary (filled(name \<mapsto> encoded)))
     else (None, filled(name \<mapsto> encoded, temporary := None)))"

lemma temporary_distinct [simp]: "temporary_name process name \<noteq> name" "name \<noteq> temporary_name process name"
proof -
  have "length (temporary_name process name) > length name" by (simp add: temporary_name_def)
  then show "temporary_name process name \<noteq> name" "name \<noteq> temporary_name process name" by auto
qed

lemma discard_other [simp]: "discard keep (temporary_name process name) d name = d name"
  by (simp add: discard_def)

section \<open>Their contract\<close>

text \<open>A sequence of writes with the given writer, each with its own faults.\<close>

primrec store_all ::
  "(store_env \<Rightarrow> string \<Rightarrow> disk \<Rightarrow> check \<times> disk) \<Rightarrow> (store_env \<times> string) list \<Rightarrow> disk \<Rightarrow> disk" where
  "store_all store [] d = d"
| "store_all store (w # ws) d = store_all store ws (snd (store (fst w) (snd w) d))"

definition undisturbed :: "string \<Rightarrow> store_env \<Rightarrow> bool" where
  "undisturbed name env \<longleftrightarrow> (\<forall>d. meanwhile env d name = d name)"

lemma store_all_append: "store_all store (vs @ ws) d = store_all store ws (store_all store vs d)"
  by (induction vs arbitrary: d) simp_all

text \<open>What a caller may rely on, for the file \<open>name\<close> that \<open>store\<close> writes.\<close>

locale file_store =
  fixes store :: "store_env \<Rightarrow> string \<Rightarrow> disk \<Rightarrow> check \<times> disk" and name :: string
  assumes stored: "store env encoded d = (None, d') \<Longrightarrow> d' name = Some encoded"
    and untorn: "store env encoded d = (r, d') \<Longrightarrow> d' name \<in> {d name, meanwhile env d name, Some encoded}"
begin

lemma never_torn:
  "\<forall>w \<in> set ws. undisturbed name (fst w) \<Longrightarrow> store_all store ws d name \<in> insert (d name) (Some ` snd ` set ws)"
proof (induction ws arbitrary: d)
  case (Cons w ws)
  let ?d = "snd (store (fst w) (snd w) d)"
  have "?d name \<in> {d name, meanwhile (fst w) d name, Some (snd w)}"
    by (rule untorn [OF prod.collapse [symmetric]])
  with Cons.prems have "?d name \<in> {d name, Some (snd w)}" by (simp add: undisturbed_def)
  moreover have "store_all store ws ?d name \<in> insert (?d name) (Some ` snd ` set ws)"
    using Cons.prems by (intro Cons.IH) simp
  ultimately show ?case by auto
qed simp

lemma last_write_stands:
  assumes "fst (store env encoded (store_all store ws d)) = None"
  shows "store_all store (ws @ [(env, encoded)]) d name = Some encoded"
  using stored [of env encoded "store_all store ws d" "snd (store env encoded (store_all store ws d))"] assms
  by (simp add: store_all_append prod_eq_iff)

end

interpretation settlement_file: file_store "store_settlement_file name" name for name
proof
  fix env encoded d d' and r :: check
  show "store_settlement_file name env encoded d = (None, d') \<Longrightarrow> d' name = Some encoded"
    by (auto simp: store_settlement_file_def Let_def split: if_splits)
  show "store_settlement_file name env encoded d = (r, d') \<Longrightarrow>
      d' name \<in> {d name, meanwhile env d name, Some encoded}"
    by (auto simp: store_settlement_file_def Let_def split: if_splits)
qed

interpretation evidence_file: file_store "store_evidence_file name" name for name
proof
  fix env encoded d d' and r :: check
  show "store_evidence_file name env encoded d = (None, d') \<Longrightarrow> d' name = Some encoded"
    by (auto simp: store_evidence_file_def Let_def split: if_splits)
  show "store_evidence_file name env encoded d = (r, d') \<Longrightarrow>
      d' name \<in> {d name, meanwhile env d name, Some encoded}"
    by (auto simp: store_evidence_file_def Let_def split: if_splits)
qed

end
