(* ===== verification/Promotion_Reading.thy ===== *)
theory Promotion_Reading
  imports Promotion_Store
begin

text \<open>
  What a settlement that passes \<^verbatim>\<open>validate_settlement\<close> says, read from its dictionaries: the converse
  of \<open>accepted_intro\<close>. The facts hold for any value, whoever wrote it.
\<close>

lemma accepted_checks:
  assumes "validate_settlement v = Inr d"
  obtains att names where "dget d ''githubArtifactAttestations'' = PDict att"
    "expected_asset_names (str_of (dget d ''version'')) = Inr names"
    "first_failure (attestation_checks d att names) = None"
    "first_failure (settlement_tail_checks d att) = None" "settlement_identity_check d = None"
proof -
  from assms obtain att names where a:
    "exact_object (dget d ''githubArtifactAttestations'') ATTESTATION_SETTLEMENT_FIELDS
       ''settlement GitHub artifact attestations'' = Inr att"
    "expected_asset_names (str_of (dget d ''version'')) = Inr names"
    "first_failure (attestation_checks d att names @ settlement_tail_checks d att) = None"
    "settlement_identity_check d = None"
    by (auto simp: validate_settlement_def ebind_eq_Inr checked_eq_Inr exact_object_def split: if_splits)
  moreover from a(1) have "dget d ''githubArtifactAttestations'' = PDict att"
    by (cases "dget d ''githubArtifactAttestations''") (auto simp: exact_object_def split: if_splits)
  ultimately show ?thesis using that by (auto simp: first_failure_eq_None)
qed

definition packages_of :: "pydict \<Rightarrow> pydict list" where
  "packages_of d = map dict_of (list_of (dget d ''packages''))"

lemma tail_facts:
  assumes "first_failure (settlement_tail_checks d att) = None"
  shows "list_all2 (\<lambda>name item. package_check (str_of (dget d ''version'')) (list_of (dget att ''assets'')) name item = None)
      PACKAGE_ORDER (list_of (dget d ''packages''))"
    and "operation_exact (str_of (dget d ''operation'')) (packages_of d) (dget d ''npmMutationToolchain'')
      (dict_of (dget d ''github''))"
    and "status_coherent (str_of (dget d ''operation'')) (str_of (dget d ''status'')) (str_of (dget att ''status''))
      (packages_of d) (dget d ''npmMutationToolchain'') (dict_of (dget d ''github''))"
    and "toolchain_state_check d (list_of (dget d ''packages'')) = None"
proof -
  let ?ps = "list_of (dget d ''packages'')"
  let ?check = "package_check (str_of (dget d ''version'')) (list_of (dget att ''assets''))"
  have each: "c = None" if "c \<in> set (settlement_tail_checks d att)" for c
    using assms that by (simp add: first_failure_eq_None)
  have len: "length ?ps = length PACKAGE_ORDER"
    using each [of "guard (is_list (dget d ''packages'') \<and> length ?ps = length PACKAGE_ORDER)
       (PromotionError ''publication settlement package inventory is not closed'')"]
    by (auto simp: settlement_tail_checks_def Let_def)
  show "list_all2 (\<lambda>name item. ?check name item = None) PACKAGE_ORDER ?ps"
  proof (rule list_all2_all_nthI)
    fix i assume i: "i < length PACKAGE_ORDER"
    then have "?check (PACKAGE_ORDER ! i) (?ps ! i) \<in> set (map2 ?check PACKAGE_ORDER ?ps)"
      using len by (auto simp: set_zip)
    then show "?check (PACKAGE_ORDER ! i) (?ps ! i) = None"
      by (intro each) (simp add: settlement_tail_checks_def Let_def)
  qed (simp add: len)
  have "validate_settlement_coherence d att (map dict_of ?ps) (dget d ''npmMutationToolchain'')
      (dict_of (dget d ''github'')) = None"
    by (rule each) (simp add: settlement_tail_checks_def Let_def)
  then show "operation_exact (str_of (dget d ''operation'')) (packages_of d) (dget d ''npmMutationToolchain'')
      (dict_of (dget d ''github''))"
    "status_coherent (str_of (dget d ''operation'')) (str_of (dget d ''status'')) (str_of (dget att ''status''))
      (packages_of d) (dget d ''npmMutationToolchain'') (dict_of (dget d ''github''))"
    by (simp_all add: validate_settlement_coherence_def packages_of_def)
  show "toolchain_state_check d ?ps = None"
    by (rule each) (simp add: settlement_tail_checks_def Let_def)
qed

text \<open>A package entry that passes its checks, and the asset it is bound to.\<close>

lemma asset_by_name_mem:
  "asset_by_name assets n = Some i \<Longrightarrow> i \<in> set assets \<and> str_of (dget (dict_of i) ''name'') = n"
  unfolding asset_by_name_def by (drule map_of_SomeD) auto

lemma package_facts:
  assumes "package_check version assets name p = None"
  shows "dget (dict_of p) ''name'' = PStr name"
    and "dget (dict_of p) ''artifact'' = PStr (package_artifact version name)"
    and "is_match INTEGRITY (dget (dict_of p) ''integrity'')"
    and "\<exists>i \<in> set assets. str_of (dget (dict_of i) ''name'') = package_artifact version name \<and>
      dget (dict_of i) ''sha256'' = dget (dict_of p) ''sha256''"
    and "package_state_check (dict_of p) = None"
proof -
  have "exact_object p PACKAGE_SETTLEMENT_FIELDS ''settlement package'' = Inr (dict_of p)"
    using assms by (auto simp: package_check_def check_of_eq_None ebind_eq_Inr exact_object_def split: if_splits)
  with assms have c: "package_identity_check name (dict_of p) = None"
    "package_artifact_check version name assets (dict_of p) = None" "package_state_check (dict_of p) = None"
    by (auto simp: package_check_def)
  show "package_state_check (dict_of p) = None" by (rule c)
  show "dget (dict_of p) ''name'' = PStr name" "is_match INTEGRITY (dget (dict_of p) ''integrity'')"
    using c(1) by (simp_all add: package_identity_check_def Let_def)
  show art: "dget (dict_of p) ''artifact'' = PStr (package_artifact version name)"
    using c(2) by (simp add: package_artifact_check_def)
  from c(2) show "\<exists>i \<in> set assets. str_of (dget (dict_of i) ''name'') = package_artifact version name \<and>
      dget (dict_of i) ''sha256'' = dget (dict_of p) ''sha256''"
    by (auto simp: package_artifact_check_def art dest: asset_by_name_mem split: option.splits)
qed

lemma package_verified:
  assumes "package_state_check item = None" "package_is ''verify'' False ''verified'' item"
  shows "dget item ''registryIntegrity'' = dget item ''integrity'' \<and>
    dget item ''provenancePredicateType'' = PStr PROVENANCE_PREDICATE"
  using assms by (simp add: package_state_check_def package_is_def Let_def)

lemma package_published:
  assumes "package_state_check item = None" "package_is ''publish'' True ''published'' item"
  shows "dget item ''registryIntegrity'' = dget item ''integrity'' \<and>
    dget item ''provenancePredicateType'' = PStr PROVENANCE_PREDICATE"
  using assms by (simp add: package_state_check_def package_is_def Let_def)

text \<open>The packages of an accepted settlement that are all in one settled state.\<close>

definition settled_as :: "string \<Rightarrow> bool \<Rightarrow> string \<Rightarrow> pydict \<Rightarrow> string \<Rightarrow> pydict \<Rightarrow> bool" where
  "settled_as action attempted outcome att name item \<longleftrightarrow>
     dget item ''name'' = PStr name \<and> package_is action attempted outcome item \<and>
     dget item ''registryIntegrity'' = dget item ''integrity'' \<and>
     dget item ''provenancePredicateType'' = PStr PROVENANCE_PREDICATE \<and>
     (\<exists>i \<in> set (list_of (dget att ''assets'')). dget (dict_of i) ''sha256'' = dget item ''sha256'' \<and>
        PStr (str_of (dget (dict_of i) ''name'')) = dget item ''artifact'')"

lemma settled_packages:
  assumes each: "list_all2 (\<lambda>name item. package_check version (list_of (dget att ''assets'')) name item = None)
      PACKAGE_ORDER items"
    and all: "list_all (package_is action attempted outcome) (map dict_of items)"
    and state: "(action, attempted, outcome) \<in> {(''verify'', False, ''verified''), (''publish'', True, ''published'')}"
  shows "list_all2 (settled_as action attempted outcome att) PACKAGE_ORDER (map dict_of items)"
proof (rule list_all2_all_nthI)
  show len: "length PACKAGE_ORDER = length (map dict_of items)" using each by (simp add: list_all2_lengthD)
  fix i assume i: "i < length PACKAGE_ORDER"
  with len have i': "i < length items" by simp
  have c: "package_check version (list_of (dget att ''assets'')) (PACKAGE_ORDER ! i) (items ! i) = None"
    using each i by (simp add: list_all2_conv_all_nth)
  have p: "package_is action attempted outcome (dict_of (items ! i))"
    using all i' by (simp add: list_all_length)
  note f = package_facts [OF c]
  have "dget (dict_of (items ! i)) ''registryIntegrity'' = dget (dict_of (items ! i)) ''integrity'' \<and>
      dget (dict_of (items ! i)) ''provenancePredicateType'' = PStr PROVENANCE_PREDICATE"
    using state p package_verified [OF f(5)] package_published [OF f(5)] by auto
  with f p i' show "settled_as action attempted outcome att (PACKAGE_ORDER ! i) (map dict_of items ! i)"
    by (auto simp: settled_as_def)
qed

text \<open>What the attestation state of an accepted settlement certifies once it is \<^verbatim>\<open>verified\<close>.\<close>

lemma attestation_verified:
  assumes "first_failure (attestation_checks d att names) = None" "dget att ''status'' = PStr ''verified''"
  shows "dget att ''bytesReauthenticated'' = PBool True \<and> dget att ''tool'' \<noteq> PNone \<and>
    count_outcome ''verified'' (list_of (dget att ''assets'')) = length names \<and>
    list_all (\<lambda>v. v \<noteq> PNone) (evidence_values att)"
proof -
  have "attestation_state_check att (list_of (dget att ''assets'')) (length names) = None"
    using assms(1) by (rule first_failure_NoneD) (simp add: attestation_checks_def Let_def)
  with assms(2) show ?thesis by (auto simp: attestation_state_check_def Let_def list_all_iff)
qed

lemma status_complete:
  assumes "status_coherent operation ''complete'' att items toolchain g"
  shows "operation = ''settle-and-promote'' \<and> att = ''verified'' \<and>
    list_all (package_is ''verify'' False ''verified'') items \<and> github_is True True ''promoted'' g"
  using assms by (simp add: status_coherent_def Let_def all_packages_def)

lemma status_settled:
  assumes "status_coherent operation ''npm-settled'' att items toolchain g"
  shows "operation = ''bootstrap'' \<and> att = ''verified'' \<and> toolchain \<noteq> PNone \<and>
    list_all (package_is ''publish'' True ''published'') items \<and> github_is False False ''not-attempted'' g"
  using assms by (simp add: status_coherent_def Let_def all_packages_def)

lemma status_promoting:
  assumes "status_coherent operation ''in-progress'' att items toolchain g" "dget g ''outcome'' = PStr ''ambiguous''"
  shows "operation = ''settle-and-promote'' \<and> att = ''verified'' \<and>
    list_all (package_is ''verify'' False ''verified'') items"
  using assms by (simp add: status_coherent_def Let_def all_packages_def)

end
