(* ===== verification/Promotion_Demo.thy ===== *)
theory Promotion_Demo
  imports Promotion_Reading
begin

text \<open>
  Evidence made from a candidate and its draft authority is accepted for them, and a concrete release,
  \<^verbatim>\<open>0.15.0-alpha.1\<close>, at which the properties of the promotion are applied. Digests stay symbolic.
\<close>

section \<open>Evidence that names its candidate\<close>

definition sound_assets :: "Candidate \<Rightarrow> bool" where
  "sound_assets c \<longleftrightarrow> expected_asset_names (c_version c) = Inr (map ra_name (c_assets c)) \<and>
     (\<forall>a \<in> set (c_assets c). 1 \<le> ra_byte_length a \<and> ra_byte_length a \<le> MAX_ALPHA_ASSET_BYTES \<and> SHA256 (ra_sha256 a)) \<and>
     (\<exists>a \<in> set (c_assets c). ra_name a = ''SHA256SUMS'' \<and> ra_sha256 a = c_assembly_sha256 c) \<and>
     REPOSITORY (c_repository c) \<and> 0 < c_release_id c \<and> FULL_SHA (c_source_sha c) \<and>
     c_tag c = ''cli-v'' @ c_version c \<and> SHA256 (c_assembly_sha256 c)"

definition evidence_assets :: "Candidate \<Rightarrow> pyval list" where
  "evidence_assets c = map (\<lambda>a. PDict [(''name'', PStr (ra_name a)), (''byteLength'', PInt (ra_byte_length a)),
     (''sha256'', PStr (ra_sha256 a)), (''outcome'', PStr ''verified'')]) (c_assets c)"

definition sound_authority :: "DraftAuthority \<Rightarrow> Candidate \<Rightarrow> bool" where
  "sound_authority a c \<longleftrightarrow> SHA256 (d_sha256 a) \<and> d_control_sha a = c_source_sha c \<and>
     1 \<le> d_body_byte_length a \<and> d_body_byte_length a \<le> MAX_RELEASE_NOTES_BYTES \<and> SHA256 (d_body_sha256 a) \<and>
     d_asset_inventory_sha256 a = sha256_hex (canonical_json (inventory_of (evidence_assets c))) \<and>
     0 < d_workflow_run_id a \<and> 0 < d_workflow_run_attempt a \<and> d_outcome a \<in> {''created'', ''resumed''}"

lemma evidence_get [simp]:
  "dget (attestation_evidence c a r t tool) ''schema'' = PStr ATTESTATION_EVIDENCE_SCHEMA"
  "dget (attestation_evidence c a r t tool) ''status'' = PStr ''verified''"
  "dget (attestation_evidence c a r t tool) ''repository'' = PStr (c_repository c)"
  "dget (attestation_evidence c a r t tool) ''releaseId'' = PInt (c_release_id c)"
  "dget (attestation_evidence c a r t tool) ''version'' = PStr (c_version c)"
  "dget (attestation_evidence c a r t tool) ''sourceSha'' = PStr (c_source_sha c)"
  "dget (attestation_evidence c a r t tool) ''tag'' = PStr (c_tag c)"
  "dget (attestation_evidence c a r t tool) ''assemblySha256'' = PStr (c_assembly_sha256 c)"
  "dget (attestation_evidence c a r t tool) ''draftAuthority'' = PDict (draft_authority_identity a)"
  "dget (attestation_evidence c a r t tool) ''sourceRef'' = PStr ''refs/heads/main''"
  "dget (attestation_evidence c a r t tool) ''predicateType'' = PStr PROVENANCE_PREDICATE"
  "dget (attestation_evidence c a r t tool) ''signerWorkflow'' = PStr (c_repository c @ ''/'' @ SIGNER_WORKFLOW_PATH)"
  "dget (attestation_evidence c a r t tool) ''signerDigest'' = PStr (c_source_sha c)"
  "dget (attestation_evidence c a r t tool) ''workflowRunId'' = PInt r"
  "dget (attestation_evidence c a r t tool) ''workflowRunAttempt'' = PInt t"
  "dget (attestation_evidence c a r t tool) ''expectedAssetCount'' = PInt (int (length (c_assets c)))"
  "dget (attestation_evidence c a r t tool) ''verifiedAssetCount'' = PInt (int (length (c_assets c)))"
  "dget (attestation_evidence c a r t tool) ''bytesReauthenticated'' = PBool True"
  "dget (attestation_evidence c a r t tool) ''tool'' = PDict tool"
  "dget (attestation_evidence c a r t tool) ''assets'' = PList (evidence_assets c)"
  by (simp_all add: attestation_evidence_def evidence_assets_def)

lemma evidence_object [simp]:
  "exact_object (PDict (attestation_evidence c a r t tool)) ATTESTATION_EVIDENCE_FIELDS label
     = Inr (attestation_evidence c a r t tool)"
  by (simp add: exact_object_def keys_are_def attestation_evidence_def ATTESTATION_EVIDENCE_FIELDS_def)

lemma evidence_asset_accepted:
  "1 \<le> ra_byte_length a \<Longrightarrow> ra_byte_length a \<le> MAX_ALPHA_ASSET_BYTES \<Longrightarrow> SHA256 (ra_sha256 a) \<Longrightarrow>
     evidence_asset_check (ra_name a) (PDict [(''name'', PStr (ra_name a)), (''byteLength'', PInt (ra_byte_length a)),
       (''sha256'', PStr (ra_sha256 a)), (''outcome'', PStr ''verified'')]) = None"
  by (simp add: evidence_asset_check_def exact_object_def keys_are_def ATTESTATION_EVIDENCE_ASSET_FIELDS_def
      int_between_def is_match_def)

lemma evidence_assets_accepted:
  assumes "\<forall>a \<in> set as. 1 \<le> ra_byte_length a \<and> ra_byte_length a \<le> MAX_ALPHA_ASSET_BYTES \<and> SHA256 (ra_sha256 a)"
  shows "\<forall>x \<in> set (map2 evidence_asset_check (map ra_name as) (map (\<lambda>a. PDict [(''name'', PStr (ra_name a)),
     (''byteLength'', PInt (ra_byte_length a)), (''sha256'', PStr (ra_sha256 a)), (''outcome'', PStr ''verified'')]) as)). x = None"
  using assms by (induction as) (simp_all add: evidence_asset_accepted)

lemma identity_get [simp]:
  "dget (draft_authority_identity a) ''sha256'' = PStr (d_sha256 a)"
  "dget (draft_authority_identity a) ''artifact'' =
     PStr (draft_artifact (d_workflow_run_id a) (d_workflow_run_attempt a))"
  "dget (draft_authority_identity a) ''controlSha'' = PStr (d_control_sha a)"
  "dget (draft_authority_identity a) ''releaseBody'' =
     PDict [(''byteLength'', PInt (d_body_byte_length a)), (''sha256'', PStr (d_body_sha256 a))]"
  "dget (draft_authority_identity a) ''assetInventorySha256'' = PStr (d_asset_inventory_sha256 a)"
  "dget (draft_authority_identity a) ''workflowRun'' = PDict [(''path'', PStr ALPHA_DRAFT_WORKFLOW),
     (''id'', PInt (d_workflow_run_id a)), (''attempt'', PInt (d_workflow_run_attempt a))]"
  "dget (draft_authority_identity a) ''outcome'' = PStr (d_outcome a)"
  by (simp_all add: draft_authority_identity_def)

lemma identity_object [simp]:
  "exact_object (PDict (draft_authority_identity a)) DRAFT_AUTHORITY_IDENTITY_FIELDS label
     = Inr (draft_authority_identity a)"
  by (simp add: exact_object_def keys_are_def draft_authority_identity_def DRAFT_AUTHORITY_IDENTITY_FIELDS_def)

lemma authority_identity_accepted:
  assumes "sound_authority a c"
  shows "validate_draft_authority_identity (PDict (draft_authority_identity a)) (c_source_sha c) (evidence_assets c)
    = Inr (draft_authority_identity a)"
proof -
  have "identity_fields_check (draft_authority_identity a) (c_source_sha c) = None"
    using assms by (auto simp: identity_fields_check_def sound_authority_def Let_def keys_are_def is_match_def
        int_between_def positive_int_def hashable_def SHA256_def [of "sha256_hex _"])
  then show ?thesis using assms by (simp add: validate_draft_authority_identity_def sound_authority_def)
qed

lemma find_map_image: "find P (map f xs) = map_option f (find (\<lambda>x. P (f x)) xs)"
  by (induction xs) auto

lemma find_unique: "distinct (map f xs) \<Longrightarrow> x \<in> set xs \<Longrightarrow> find (\<lambda>y. f y = f x) xs = Some x"
  by (induction xs) (auto simp: image_iff)

lemma evidence_assembly_accepted:
  assumes "distinct (map ra_name (c_assets c))"
    "x \<in> set (c_assets c)" "ra_name x = ''SHA256SUMS''" "ra_sha256 x = c_assembly_sha256 c"
  shows "evidence_assembly_check (attestation_evidence c a r t tool) = None"
proof -
  have "find (\<lambda>y. ra_name y = ''SHA256SUMS'') (c_assets c) = Some x"
    using find_unique [OF assms(1,2)] assms(3) by simp
  then have "find (\<lambda>i. dget (dict_of i) ''name'' = PStr ''SHA256SUMS'') (evidence_assets c) =
      Some (PDict [(''name'', PStr (ra_name x)), (''byteLength'', PInt (ra_byte_length x)),
       (''sha256'', PStr (ra_sha256 x)), (''outcome'', PStr ''verified'')])"
    by (simp add: evidence_assets_def find_map_image)
  then show ?thesis by (simp add: evidence_assembly_check_def assms(4))
qed

lemma release_assets [simp]: "map release_asset (evidence_assets c) = c_assets c"
  by (auto simp: evidence_assets_def release_asset_def comp_def intro: map_idI)

lemma draft_identity_eq: "py_eq (PDict (draft_authority_identity a)) (PDict (draft_authority_identity a))"
  by (rule py_eq_refl) (simp add: draft_authority_identity_def)

theorem attestation_evidence_valid:
  assumes c: "sound_assets c" and a: "sound_authority a c" and r: "0 < r" and t: "0 < t"
    and tool: "validate_attestation_tool (PDict tool) = Inr tool"
    and opt: "cand \<in> {None, Some c}" "run \<in> {None, Some r}" "att \<in> {None, Some t}" "auth \<in> {None, Some a}"
  shows "validate_attestation_evidence (PDict (attestation_evidence c a r t tool)) cand run att auth
    = Inr (attestation_evidence c a r t tool)"
proof -
  let ?e = "attestation_evidence c a r t tool" and ?names = "map ra_name (c_assets c)"
  have names: "evidence_names_of (PStr (c_version c)) = Inr ?names" "ALPHA (c_version c)"
    using c by (auto simp: sound_assets_def evidence_names_of_def intro: expected_ALPHA)
  have ident: "evidence_identity_check ?e (length ?names) = None"
    using c r t names by (simp add: evidence_identity_check_def sound_assets_def is_match_def positive_int_def
        evidence_assets_def)
  have assets: "\<forall>x \<in> set (map2 evidence_asset_check ?names (evidence_assets c)). x = None"
    unfolding evidence_assets_def using c by (intro evidence_assets_accepted) (simp add: sound_assets_def)
  have first: "first_failure (evidence_identity_check ?e (length ?names) #
      check_of (validate_attestation_tool (PDict tool)) # map2 evidence_asset_check ?names (evidence_assets c)) = None"
    by (rule first_failure_None) (use ident tool assets in auto)
  obtain x where x: "x \<in> set (c_assets c)" "ra_name x = ''SHA256SUMS''" "ra_sha256 x = c_assembly_sha256 c"
    using c by (auto simp: sound_assets_def)
  have "distinct ?names" using c by (intro expected_distinct [of "c_version c"]) (simp add: sound_assets_def)
  note asm = evidence_assembly_accepted [OF this x, of a r t tool]
  have cand: "evidence_candidate_check ?e c = None" by (simp add: evidence_candidate_check_def)
  have binding: "first_failure ((case auth of None \<Rightarrow> None | Some a' \<Rightarrow>
        guard (py_eq (PDict (draft_authority_identity a)) (PDict (draft_authority_identity a')))
          (PromotionError ''attestation evidence binds another draft authority'')) #
      evidence_binding_checks ?e cand run att) = None"
    using asm cand opt draft_identity_eq [of a] by (auto simp: evidence_binding_checks_def)
  show ?thesis
    using names(1) first binding authority_identity_accepted [OF a]
    by (simp add: validate_attestation_evidence_def)
qed

section \<open>A concrete release\<close>

definition demo_digest :: string where "demo_digest = replicate 64 (CHR ''a'')"
definition demo_version :: string where "demo_version = ''0.15.0-alpha.1''"

definition demo_names :: "string list" where
  "demo_names = (case expected_asset_names demo_version of Inl e \<Rightarrow> [] | Inr names \<Rightarrow> names)"

definition demo_package :: "string \<Rightarrow> PackageArtifact" where
  "demo_package name = \<lparr>pa_name = name, pa_role = package_role name,
     pa_artifact = package_artifact demo_version name, pa_body = name, pa_sha256 = demo_digest,
     pa_shasum = sha1_hex name, pa_integrity = ''sha512-'' @ b64encode (sha512 name)\<rparr>"

definition demo_candidate :: Candidate where
  "demo_candidate = \<lparr>c_repository = ''openprose/prose'', c_release_id = 7, c_version = demo_version,
     c_source_sha = replicate 40 (CHR ''b''), c_tag = ''cli-v'' @ demo_version, c_assembly_sha256 = demo_digest,
     c_assets = map (\<lambda>n. \<lparr>ra_name = n, ra_byte_length = 1, ra_sha256 = demo_digest\<rparr>) demo_names,
     c_packages = map demo_package PACKAGE_ORDER\<rparr>"

definition demo_authority :: DraftAuthority where
  "demo_authority = \<lparr>d_repository = ''openprose/prose'', d_release_id = 7, d_version = demo_version,
     d_source_sha = replicate 40 (CHR ''b''), d_control_sha = replicate 40 (CHR ''b''),
     d_tag = ''cli-v'' @ demo_version, d_body_byte_length = 1, d_body_sha256 = demo_digest,
     d_assets = c_assets demo_candidate,
     d_asset_inventory_sha256 = sha256_hex (canonical_json (inventory_of (evidence_assets demo_candidate))),
     d_workflow_run_id = 1, d_workflow_run_attempt = 1, d_outcome = ''created'', d_sha256 = demo_digest\<rparr>"

definition demo_tool :: pydict where
  "demo_tool = [(''authority'', PStr GH_TOOL_AUTHORITY), (''version'', PStr ''2.60.1''),
     (''executableByteLength'', PInt 1), (''executableSha256'', PStr demo_digest)]"

definition demo_toolchain :: pyval where
  "demo_toolchain = PDict [(''npmVersion'', PStr NPM_VERSION), (''npmTarballUrl'', PStr (url PINNED_NPM_AUTHORITY)),
     (''npmTarballByteLength'', PInt (byte_length PINNED_NPM_AUTHORITY)),
     (''npmTarballSha1'', PStr (na_sha1 PINNED_NPM_AUTHORITY)),
     (''npmTarballSha256'', PStr (na_sha256 PINNED_NPM_AUTHORITY)),
     (''npmTarballSha512'', PStr (na_sha512 PINNED_NPM_AUTHORITY)),
     (''npmTarballIntegrity'', PStr (na_integrity PINNED_NPM_AUTHORITY)),
     (''npmTreeSha256'', PStr (tree_sha256 PINNED_NPM_AUTHORITY)),
     (''npmEntrySha256'', PStr (entry_sha256 PINNED_NPM_AUTHORITY)), (''nodeVersion'', PStr NODE_VERSION),
     (''nodeExecutableSha256'', PStr demo_digest)]"

definition demo_evidence :: pydict where
  "demo_evidence = attestation_evidence demo_candidate demo_authority 3 1 demo_tool"

lemma demo_alpha: "ALPHA demo_version"
  by code_simp

lemma demo_names: "expected_asset_names demo_version = Inr demo_names"
  using demo_alpha by (simp add: demo_names_def expected_asset_names_def)

lemma demo_digest: "SHA256 demo_digest"
  by code_simp

lemma demo_gh_version: "stable_version ''2.60.1''"
  by code_simp

lemma demo_tool: "validate_attestation_tool (PDict demo_tool) = Inr demo_tool"
  using demo_digest demo_gh_version by (simp add: validate_attestation_tool_def exact_object_def keys_are_def demo_tool_def
      ATTESTATION_TOOL_FIELDS_def is_match_def int_between_def MAX_GH_BYTES_def)

lemma demo_toolchain: "toolchain_check demo_toolchain = None" "demo_toolchain \<noteq> PNone"
  using demo_digest by (simp_all add: toolchain_check_def demo_toolchain_def exact_object_def keys_are_def NPM_TOOLCHAIN_FIELDS_def is_match_def)

lemma demo_safe: "name \<in> set PACKAGE_ORDER \<Longrightarrow> SAFE_ARTIFACT (package_artifact demo_version name)"
proof -
  have "list_all (\<lambda>name. SAFE_ARTIFACT (package_artifact demo_version name)) PACKAGE_ORDER" by code_simp
  then show "name \<in> set PACKAGE_ORDER \<Longrightarrow> ?thesis" by (simp add: list_all_iff)
qed

lemma demo_sound: "sound_candidate demo_candidate" "map pa_name (c_packages demo_candidate) = PACKAGE_ORDER"
proof -
  have "\<exists>a \<in> set (c_assets demo_candidate). ra_name a = package_artifact demo_version name \<and> ra_sha256 a = demo_digest"
    if "name \<in> set PACKAGE_ORDER" for name
    using package_artifact_expected [OF demo_names that] by (force simp: demo_candidate_def)
  moreover have "INTEGRITY (''sha512-'' @ b64encode (sha512 name))" for name by (rule INTEGRITY_sha512)
  ultimately show "sound_candidate demo_candidate"
    using demo_safe demo_digest by (auto simp: sound_candidate_def demo_candidate_def demo_package_def SHA1_def)
  show "map pa_name (c_packages demo_candidate) = PACKAGE_ORDER"
    by (simp add: demo_candidate_def demo_package_def comp_def)
qed

lemma demo_sums: "''SHA256SUMS'' \<in> set demo_names"
proof -
  have names: "demo_names = sort (remdups (''SHA256SUMS'' # evidence_names @ meta_artifact demo_version #
      concat (map (platform_artifacts demo_version) PLATFORMS)))"
    using demo_names demo_alpha by (simp add: expected_asset_names_def del: remdups.simps)
  show ?thesis unfolding names by simp
qed

lemma demo_repository: "REPOSITORY ''openprose/prose''" "FULL_SHA (replicate 40 (CHR ''b''))"
  by code_simp+

lemma demo_assets: "sound_assets demo_candidate" "sound_authority demo_authority demo_candidate"
proof -
  show "sound_assets demo_candidate"
    using demo_names demo_sums demo_digest demo_repository
    by (force simp: sound_assets_def demo_candidate_def comp_def MAX_ALPHA_ASSET_BYTES_def)
  show "sound_authority demo_authority demo_candidate"
    using demo_digest by (simp add: sound_authority_def demo_authority_def demo_candidate_def MAX_RELEASE_NOTES_BYTES_def)
qed

lemmas demo_evidence_valid =
  attestation_evidence_valid [OF demo_assets, of 3 1 demo_tool, simplified demo_tool, folded demo_evidence_def]

end
