(* ===== verification/Promotion_Progress.thy ===== *)
theory Promotion_Progress
  imports Promotion_Demo
begin

text \<open>
  Progress: when the outside world agrees with the release and the disk works, a staging operation or the
  final promotion runs to its end. An action \<open>blames\<close> the log when it can only raise after a write that
  was refused or failed; \<open>run_outcome\<close> excludes the first and a working disk the second.
\<close>

section \<open>A world that agrees\<close>

text \<open>The registry serves the package as the candidate has it, with provenance, under the alpha tag.\<close>

definition verifiable :: "'w boundary \<Rightarrow> PackageArtifact \<Rightarrow> Lineage \<Rightarrow> bool" where
  "verifiable b p lineage \<longleftrightarrow> (\<exists>state version rv.
     (\<forall>w. fst (registry_package b (pa_name p) w) = Inr (Some state)) \<and> require_owners state lineage = None \<and>
     manifest_version (open_tar b) p = Inr version \<and> map_of (rp_versions state) version = Some rv \<and>
     public_version_check p version state rv = None \<and>
     (\<forall>w. \<exists>body. fst (registry_tarball b (rv_tarball_url rv) w) = Inr body \<and>
        public_body_check p version rv body = None))"

definition unused :: "'w boundary \<Rightarrow> string \<Rightarrow> string \<Rightarrow> Lineage \<Rightarrow> bool" where
  "unused b name version lineage \<longleftrightarrow> (\<exists>state. (\<forall>w. fst (registry_package b name w) = Inr (Some state)) \<and>
     require_owners state lineage = None \<and> require_unused (Some state) version = None)"

definition latest_stands :: "'w boundary \<Rightarrow> Lineage \<Rightarrow> bool" where
  "latest_stands b lineage \<longleftrightarrow> (\<exists>state. (\<forall>w. fst (registry_package b META_PACKAGE w) = Inr (Some state)) \<and>
     require_owners state lineage = None \<and> map_of (rp_tags state) ''latest'' = Some (ln_latest lineage))"

definition npm_agrees :: "'w boundary \<Rightarrow> Candidate \<Rightarrow> bool" where
  "npm_agrees b c \<longleftrightarrow>
     (\<forall>w. \<exists>v. fst (npm_toolchain b w) = Inr v \<and> toolchain_check v = None \<and> v \<noteq> PNone) \<and>
     (\<forall>p \<in> set (c_packages c). \<forall>w. fst (npm_mutate b ''stage'' p w) = Inr 0)"

definition agreeable :: "'w boundary \<Rightarrow> bool \<Rightarrow> Candidate \<Rightarrow> Lineage \<Rightarrow> string \<Rightarrow> bool" where
  "agreeable b npm c lineage operation \<longleftrightarrow>
     (\<forall>w. fst (reauthenticate_assets b c w) = Inr ()) \<and>
     (\<forall>encoded w. fst (store_settlement b encoded w) = None) \<and> latest_stands b lineage \<and>
     (if operation = ''stage-platforms'' then npm \<and> npm_agrees b c \<and>
        (\<forall>name \<in> set PACKAGE_ORDER. unused b name (c_version c) lineage)
      else if operation = ''stage-meta'' then npm \<and> npm_agrees b c \<and>
        unused b META_PACKAGE (c_version c) lineage \<and>
        (\<forall>p \<in> set (c_packages c). pa_name p \<in> set PLATFORM_PACKAGES \<longrightarrow> verifiable b p lineage)
      else operation = ''settle-and-promote'' \<and>
        (\<forall>v w. fst (npm_toolchain b w) = Inr v \<longrightarrow> toolchain_check v = None \<and> v \<noteq> PNone) \<and>
        (\<forall>p \<in> set (c_packages c). verifiable b p lineage) \<and> (\<forall>w. fst (github_promote b c w) = Inr ()))"

section \<open>Actions that only raise after a bad write\<close>

definition complaint :: "event list \<Rightarrow> bool" where
  "complaint es \<longleftrightarrow> \<not> no_refusal es \<or> disk_failed es"

definition settled_names :: "settlement \<Rightarrow> bool" where
  "settled_names s \<longleftrightarrow> map pe_name (s_packages s) = PACKAGE_ORDER \<and> as_status (s_attestations s) = ''verified''"

text \<open>\<open>m\<close> returns a value that satisfies \<open>V\<close>, or has complained.\<close>

definition yields :: "('a \<Rightarrow> bool) \<Rightarrow> ('w, 'a) action \<Rightarrow> bool" where
  "yields V m \<longleftrightarrow> triple (\<lambda>s _. settled_names s) m (\<lambda>x s _. settled_names s \<and> V x) (\<lambda>_ _. complaint)"

abbreviation runs :: "('w, 'a) action \<Rightarrow> bool" where
  "runs m \<equiv> yields (\<lambda>_. True) m"

named_theorems yields_intros \<open>actions that raise only after a refused or failed write\<close>

lemma complaint_simps [simp]:
  "complaint (es @ [Refused s])" "complaint (es @ [WriteFailed s])" "complaint (es @ [Wrote s]) = complaint es"
  by (auto simp: complaint_def no_refusal_def disk_failed_def)

lemma yields_bind: "yields V m \<Longrightarrow> (\<And>x. V x \<Longrightarrow> yields U (f x)) \<Longrightarrow> yields U (act_bind m f)"
  unfolding yields_def
  by (erule triple_bind) (auto simp: triple_def)

lemma yields_then [yields_intros]: "runs m \<Longrightarrow> yields U n \<Longrightarrow> yields U (act_then m n)"
  unfolding act_then_def by (rule yields_bind)

lemma yields_return [yields_intros]: "V x \<Longrightarrow> yields V (act_return x)"
  by (simp add: yields_def triple_def act_return_def)

lemma yields_of: "r = Inr x \<Longrightarrow> V x \<Longrightarrow> yields V (act_of r)"
  by (simp add: yields_def triple_def act_of_def)

lemma runs_check [yields_intros]: "c = None \<Longrightarrow> runs (act_check c)"
  unfolding act_check_def by (rule yields_of [of _ "()"]) simp_all

lemma runs_log [yields_intros]: "runs (act_log x)"
  by (simp add: yields_def triple_def act_log_def)

lemma yields_outside: "(\<And>w. \<exists>x. fst (f w) = Inr x \<and> V x) \<Longrightarrow> yields V (act_outside f)"
  unfolding yields_def triple_def act_outside_def
proof (intro allI impI)
  fix st :: "'a promotion" assume f: "\<And>w. \<exists>x. fst (f w) = Inr x \<and> V x" and s: "settled_names (live st)"
  obtain x w where "f (world st) = (Inr x, w)" "V x" using f [of "world st"] by (metis prod.collapse)
  with s show "case case f (world st) of (r, w) \<Rightarrow> (r, st\<lparr>world := w\<rparr>) of
      (Inr x, st') \<Rightarrow> settled_names (live st') \<and> V x | (Inl e, st') \<Rightarrow> complaint (events st')" by simp
qed

lemma runs_write [yields_intros]: "runs (write_settlement b)"
  unfolding yields_def by (rule triple_write_any) (simp_all add: settled_names_def)

lemma runs_update: "(\<And>s. settled_names s \<Longrightarrow> settled_names (f s)) \<Longrightarrow> runs (act_update f)"
  by (simp add: yields_def triple_def act_update_def)

lemma runs_set_status [yields_intros]: "runs (set_status x)"
  unfolding set_status_def by (rule runs_update) (simp add: settled_names_def)

lemma runs_for_each [yields_intros]: "(\<And>x. x \<in> set xs \<Longrightarrow> runs (f x)) \<Longrightarrow> runs (for_each f xs)"
  unfolding yields_def by (simp add: triple_for_each_same)

lemma update_first_names: "(\<And>e. pe_name (f e) = pe_name e) \<Longrightarrow> map pe_name (update_first n f es) = map pe_name es"
  by (induction es) auto

lemma runs_settlement_entry [yields_intros]:
  assumes "name \<in> set PACKAGE_ORDER" "\<And>e. pe_name (f e) = pe_name e"
  shows "runs (settlement_entry name f)"
  using assms unfolding settlement_entry_def yields_def triple_def
  by (auto simp: act_bind_def act_get_def act_update_def settled_names_def update_first_names
      simp flip: set_map)

lemma keeps_complaint [keeps_intros]: "keeps complaint (write_settlement b)"
  unfolding keeps_def by (rule triple_write_any) simp_all

text \<open>A handler that always raises passes the blame on.\<close>

lemma yields_catch:
  assumes m: "yields V m" and h: "\<And>e. keeps complaint (h e)" and raise: "\<And>e st. \<exists>e'. fst (h e st) = Inl e'"
  shows "yields V (act_catch m (h :: exn \<Rightarrow> ('w, 'a) action))"
  unfolding yields_def
proof (rule triple_catch [OF m [unfolded yields_def]])
  fix e
  show "triple (\<lambda>_. complaint) (h e) (\<lambda>x s _. settled_names s \<and> V x) (\<lambda>_ _. complaint)"
    unfolding triple_def
  proof (intro allI impI)
    fix st :: "'w promotion" assume c: "complaint (events st)"
    obtain e' st' where r: "h e st = (Inl e', st')" using raise [of e st] by (metis prod.collapse)
    then have "complaint (events st')" using h [of e] c unfolding keeps_def triple_def by fastforce
    with r show "case h e st of (Inr x, st') \<Rightarrow> settled_names (live st') \<and> V x
        | (Inl e, st') \<Rightarrow> complaint (events st')" by simp
  qed
qed

lemma raises: "\<exists>e'. fst (fail_with b x e st) = Inl e'" "\<exists>e'. fst (transition_handler b e st) = Inl e'"
  by (auto simp: fail_with_def transition_handler_def act_then_def act_bind_def act_raise_def act_get_def
      split: prod.splits sum.splits)

lemma keeps_handlers [keeps_intros]: "keeps complaint (fail_with b x e)" "keeps complaint (transition_handler b e)"
  unfolding fail_with_def transition_handler_def by (intro keeps_intros)+

section \<open>The steps in a world that agrees\<close>

lemma runs_reauthenticate:
  assumes "\<And>w. fst (reauthenticate_assets b c w) = Inr ()"
  shows "runs (reauthenticate_attested_bytes b c)"
proof -
  have out: "runs (act_outside (reauthenticate_assets b c))" by (rule yields_outside) (simp add: assms)
  have "act_catch (act_outside (reauthenticate_assets b c)) h = act_outside (reauthenticate_assets b c)" for h
  proof
    fix st :: "'a promotion"
    obtain w where "reauthenticate_assets b c (world st) = (Inr (), w)" using assms [of "world st"] by (metis prod.collapse)
    then show "act_catch (act_outside (reauthenticate_assets b c)) h st = act_outside (reauthenticate_assets b c) st"
      by (simp add: act_catch_def act_outside_def)
  qed
  with out show ?thesis
    unfolding reauthenticate_attested_bytes_def yields_def triple_def
    by (auto simp: act_bind_def act_get_def settled_names_def)
qed

lemma yields_attempt:
  assumes reauth: "\<And>w. fst (reauthenticate_assets b c w) = Inr ()" and name: "pa_name p \<in> set PACKAGE_ORDER"
    and npm: "\<And>w. fst (npm_mutate b operation p w) = Inr k"
  shows "yields (\<lambda>x. x = k) (attempt b c operation p)"
  unfolding attempt_def
  by (intro yields_then runs_reauthenticate reauth runs_settlement_entry name runs_set_status runs_write runs_log
      yields_catch yields_outside keeps_handlers raises) (simp_all add: npm)

lemma yields_look:
  assumes "latest_stands b lineage"
  shows "yields (\<lambda>state. \<forall>w. fst (registry_package b META_PACKAGE w) = Inr (Some state)) (require_latest b lineage)"
proof -
  obtain state where state: "\<forall>w. fst (registry_package b META_PACKAGE w) = Inr (Some state)"
    "require_owners state lineage = None" "map_of (rp_tags state) ''latest'' = Some (ln_latest lineage)"
    using assms by (auto simp: latest_stands_def)
  show ?thesis
    unfolding require_latest_def
    by (rule yields_bind [of "\<lambda>x. x = Some state"], rule yields_outside)
      (use state in \<open>auto intro: yields_of\<close>)
qed

lemma runs_verify: "verifiable b p lineage \<Longrightarrow> runs (verify_public_package b p lineage)"
  unfolding verifiable_def verify_public_package_def
proof (elim exE conjE)
  fix state version rv
  assume reg: "\<forall>w. fst (registry_package b (pa_name p) w) = Inr (Some state)" and own: "require_owners state lineage = None"
    and man: "manifest_version (open_tar b) p = Inr version" and rv: "map_of (rp_versions state) version = Some rv"
    and pub: "public_version_check p version state rv = None"
    and tar: "\<forall>w. \<exists>body. fst (registry_tarball b (rv_tarball_url rv) w) = Inr body \<and> public_body_check p version rv body = None"
  have "runs (act_then (act_check (public_version_check p version state rv))
      (act_bind (act_outside (registry_tarball b (rv_tarball_url rv))) (\<lambda>body.
         act_then (act_check (public_body_check p version rv body)) (act_return (rv_integrity rv)))))"
    by (intro yields_then runs_check pub yields_bind [OF yields_outside] yields_return) (use tar in auto)
  then show "runs (act_bind (act_outside (registry_package b (pa_name p))) (\<lambda>found.
     case found of None \<Rightarrow> act_raise (PromotionError ''an expected npm package is not public'')
     | Some state \<Rightarrow> act_bind (act_of (checked (require_owners state lineage) (manifest_version (open_tar b) p))) (\<lambda>v.
         case map_of (rp_versions state) v of
           None \<Rightarrow> act_raise (PromotionError ''the expected npm package version is not public'')
         | Some rv \<Rightarrow> act_then (act_check (public_version_check p v state rv))
             (act_bind (act_outside (registry_tarball b (rv_tarball_url rv))) (\<lambda>body.
              act_then (act_check (public_body_check p v rv body)) (act_return (rv_integrity rv)))))))"
    by (intro yields_bind [of "\<lambda>x. x = Some state"] yields_outside)
      (use reg own man rv in \<open>auto intro!: yields_bind [of "\<lambda>x. x = version"] yields_of\<close>)
qed

lemma runs_mark_verified: "name \<in> set PACKAGE_ORDER \<Longrightarrow> runs (mark_verified b name i)"
  unfolding mark_verified_def by (intro yields_intros) simp_all

lemma package_of_name:
  assumes "map pa_name (c_packages c) = PACKAGE_ORDER" "name \<in> set PACKAGE_ORDER"
  obtains p where "p \<in> set (c_packages c)" "pa_name p = name" "package_named c name = Inr p"
proof -
  have "name \<in> pa_name ` set (c_packages c)" using assms by (metis list.set_map)
  then have "name \<in> dom (map_of (map (\<lambda>p. (pa_name p, p)) (c_packages c)))"
    by (simp add: dom_map_of_conv_image_fst image_image)
  then obtain p where p: "map_of (map (\<lambda>p. (pa_name p, p)) (c_packages c)) name = Some p" by blast
  then have "p \<in> set (c_packages c)" "pa_name p = name" by (auto dest: map_of_SomeD)
  with p show ?thesis by (intro that [of p]) (simp_all add: package_named_def)
qed

lemma runs_verify_and:
  assumes names: "map pa_name (c_packages c) = PACKAGE_ORDER" and name: "name \<in> set PACKAGE_ORDER"
    and ok: "\<And>p. p \<in> set (c_packages c) \<Longrightarrow> pa_name p = name \<Longrightarrow> verifiable b p lineage"
  shows "runs (verify_and b c lineage (mark_verified b) name)"
proof -
  obtain p where p: "p \<in> set (c_packages c)" "pa_name p = name" "package_named c name = Inr p"
    by (rule package_of_name [OF names name])
  show ?thesis
    unfolding verify_and_def
    by (rule yields_bind [of "\<lambda>x. x = p"], rule yields_of, rule p(3), simp,
        rule yields_bind [of "\<lambda>_. True"], simp only:, rule runs_verify [OF ok [OF p(1,2)]],
        rule runs_mark_verified [OF name])
qed

lemma runs_stage_attempt:
  assumes names: "map pa_name (c_packages c) = PACKAGE_ORDER" and name: "name \<in> set PACKAGE_ORDER"
    and reauth: "\<And>w. fst (reauthenticate_assets b c w) = Inr ()" and npm: "npm_agrees b c"
  shows "runs (stage_attempt b c name)"
proof -
  obtain p where p: "p \<in> set (c_packages c)" "pa_name p = name" "package_named c name = Inr p"
    by (rule package_of_name [OF names name])
  have "yields (\<lambda>x. x = 0) (attempt b c ''stage'' p)"
    using npm p name by (intro yields_attempt reauth) (auto simp: npm_agrees_def)
  moreover have "runs (settlement_entry name (\<lambda>e. e\<lparr>pe_outcome := ''staged''\<rparr>))"
    using name by (intro runs_settlement_entry) simp_all
  ultimately show ?thesis
    unfolding stage_attempt_def p(3)
    by (intro yields_bind [of "\<lambda>x. x = p"] yields_of) (auto intro: yields_bind)
qed

lemma runs_bind_toolchain: "npm_agrees b c \<Longrightarrow> runs (bind_npm_toolchain b)"
  unfolding bind_npm_toolchain_def npm_agrees_def
  by (rule yields_bind [OF yields_outside [of _ "\<lambda>_. True"]])
    (auto intro!: yields_then runs_update runs_write simp: settled_names_def)

lemma platform_names: "name \<in> set PLATFORM_PACKAGES \<Longrightarrow> name \<in> set PACKAGE_ORDER" "META_PACKAGE \<in> set PACKAGE_ORDER"
  by (simp_all add: PACKAGE_ORDER_def)

lemma runs_stage_platforms:
  assumes names: "map pa_name (c_packages c) = PACKAGE_ORDER" and agree: "agreeable b npm c lineage ''stage-platforms''"
    and meta: "require_unused (Some meta_state) (c_version c) = None"
  shows "runs (stage_platforms b npm c lineage meta_state)"
proof -
  have ok: "npm" "npm_agrees b c" "\<And>w. fst (reauthenticate_assets b c w) = Inr ()"
    "\<And>name. name \<in> set PACKAGE_ORDER \<Longrightarrow> unused b name (c_version c) lineage"
    using agree by (simp_all add: agreeable_def)
  have look: "runs (act_bind (act_outside (registry_package b name)) (\<lambda>found. case found of
      None \<Rightarrow> act_raise (PromotionError ''staged publication requires every platform package to exist already'')
    | Some state \<Rightarrow> act_check (first_failure [require_owners state lineage, require_unused (Some state) (c_version c)])))"
    if "name \<in> set PLATFORM_PACKAGES" for name
  proof -
    have "unused b name (c_version c) lineage" using ok(4) platform_names(1) that by blast
    then obtain state where "\<forall>w. fst (registry_package b name w) = Inr (Some state)" "require_owners state lineage = None"
      "require_unused (Some state) (c_version c) = None"
      unfolding unused_def by blast
    then show ?thesis
      by (intro yields_bind [of "\<lambda>x. x = Some state"] yields_outside) (auto intro: runs_check)
  qed
  have "require_npm npm = None" using ok(1) by (simp add: require_npm_def)
  with meta show ?thesis
    unfolding stage_platforms_def
    by (intro yields_then runs_check runs_for_each look runs_bind_toolchain [OF ok(2)] runs_set_status runs_write
        runs_stage_attempt [OF names platform_names(1) ok(3,2)])
qed

lemma runs_stage_meta:
  assumes names: "map pa_name (c_packages c) = PACKAGE_ORDER" and agree: "agreeable b npm c lineage ''stage-meta''"
    and meta: "require_unused (Some meta_state) (c_version c) = None"
  shows "runs (stage_meta b npm c lineage meta_state)"
proof -
  have ok: "npm" "npm_agrees b c" "\<And>w. fst (reauthenticate_assets b c w) = Inr ()"
    "\<And>p. p \<in> set (c_packages c) \<Longrightarrow> pa_name p \<in> set PLATFORM_PACKAGES \<Longrightarrow> verifiable b p lineage"
    using agree by (simp_all add: agreeable_def)
  have "require_npm npm = None" using ok(1) by (simp add: require_npm_def)
  with meta show ?thesis
    unfolding stage_meta_def
    by (intro yields_then runs_check runs_for_each runs_bind_toolchain [OF ok(2)] runs_set_status runs_write
        runs_stage_attempt [OF names platform_names(2) ok(3,2)] runs_verify_and [OF names platform_names(1)] ok(4)) auto
qed

lemma runs_settle:
  assumes names: "map pa_name (c_packages c) = PACKAGE_ORDER" and agree: "agreeable b npm c lineage ''settle-and-promote''"
  shows "runs (settle_and_promote b c lineage)"
proof -
  have ok: "latest_stands b lineage" "\<And>w. fst (reauthenticate_assets b c w) = Inr ()"
    "\<And>p. p \<in> set (c_packages c) \<Longrightarrow> verifiable b p lineage" "\<And>w. fst (github_promote b c w) = Inr ()"
    using agree by (simp_all add: agreeable_def)
  have promote: "runs (act_catch (act_outside (github_promote b c)) (fail_with b ''ambiguous''))"
    by (intro yields_catch yields_outside keeps_handlers raises) (simp add: ok(4))
  show ?thesis
    unfolding settle_and_promote_def
    by (intro yields_then yields_bind [OF yields_look [OF ok(1)]] runs_reauthenticate ok(2) runs_for_each runs_write
        runs_log promote runs_verify_and [OF names] ok(3)) (auto intro!: runs_update simp: settled_names_def)
qed

lemma runs_body:
  assumes names: "map pa_name (c_packages c) = PACKAGE_ORDER" and agree: "agreeable b npm c lineage operation"
  shows "runs (guarded_body b npm operation c lineage)"
proof -
  have op: "operation \<in> {''stage-platforms'', ''stage-meta'', ''settle-and-promote''}"
    and latest: "latest_stands b lineage"
    using agree by (auto simp: agreeable_def split: if_splits)
  have unused: "require_unused (Some state) (c_version c) = None"
    if "operation \<noteq> ''settle-and-promote''" "\<forall>w. fst (registry_package b META_PACKAGE w) = Inr (Some state)" for state
  proof -
    have "unused b META_PACKAGE (c_version c) lineage"
      using agree op that(1) platform_names(2) by (auto simp: agreeable_def)
    then obtain state' where "\<forall>w. fst (registry_package b META_PACKAGE w) = Inr (Some state')"
      "require_unused (Some state') (c_version c) = None"
      unfolding unused_def by blast
    moreover from this(1) that(2) have "state' = state" by (metis Inr_inject option.inject)
    ultimately show ?thesis by simp
  qed
  have "runs (transition_body b npm operation c lineage)"
    unfolding transition_body_def
  proof (rule yields_bind [OF yields_look [OF latest]])
    fix state assume state: "\<forall>w. fst (registry_package b META_PACKAGE w) = Inr (Some state)"
    from op consider "operation = ''stage-platforms''" | "operation = ''stage-meta''" | "operation = ''settle-and-promote''"
      by blast
    then show "runs (if operation = ''bootstrap'' then bootstrap b npm c lineage state
      else if operation = ''stage-platforms'' then stage_platforms b npm c lineage state
      else if operation = ''stage-meta'' then stage_meta b npm c lineage state else settle_and_promote b c lineage)"
      using agree unused [OF _ state] runs_stage_platforms [OF names] runs_stage_meta [OF names] runs_settle [OF names]
      by cases simp_all
  qed
  then show ?thesis
    unfolding guarded_body_def by (intro yields_then runs_write yields_catch keeps_handlers raises)
qed

section \<open>The whole run\<close>

lemma agreeable_operation: "agreeable b npm c lineage operation \<Longrightarrow> operation \<in> set OPERATIONS"
  by (auto simp: agreeable_def OPERATIONS_def split: if_splits)

lemma agreeable_toolchain:
  assumes "agreeable b npm c lineage operation" "fst (npm_toolchain b w) = Inr v"
  shows "toolchain_check v = None \<and> v \<noteq> PNone"
proof (cases "operation = ''settle-and-promote''")
  case True
  with assms show ?thesis by (auto simp: agreeable_def)
next
  case False
  with assms(1) have "npm_agrees b c" by (auto simp: agreeable_def split: if_splits)
  then obtain v' where "fst (npm_toolchain b w) = Inr v'" "toolchain_check v' = None \<and> v' \<noteq> PNone"
    unfolding npm_agrees_def by blast
  with assms(2) show ?thesis by simp
qed

lemma prepare_succeeds:
  assumes op: "operation \<in> set OPERATIONS" and names: "map pa_name (c_packages c) = PACKAGE_ORDER"
    and fresh: "existing_settlement b w = None"
    and e: "validate_attestation_evidence (PDict e) (Some c) (Some run_id) (Some run_attempt) None = Inr e"
    and d: "attestation_evidence_digest e = Inr digest"
  shows "\<exists>s w'. prepare_settlement b operation c lineage e digest run_id run_attempt w = (Inr s, w')"
proof -
  have "SHA256 digest"
    using d by (auto simp: attestation_evidence_digest_def ebind_eq_Inr SHA256_def)
  with assms show ?thesis
    by (auto simp: prepare_settlement_def package_map_def refuse_attempted_retry_def bind_attestation_evidence_def
        split: prod.splits)
qed

lemma no_complaint: "finished L k x s es \<Longrightarrow> \<not> complaint es"
  by (simp add: finished_def complaint_def)

definition stored_whole :: "event list \<Rightarrow> bool" where
  "stored_whole es \<longleftrightarrow> \<not> disk_failed es"

lemma write_stores: "(\<And>encoded w. fst (store_settlement b encoded w) = None) \<Longrightarrow> keeps stored_whole (write_settlement b)"
  unfolding keeps_def triple_def write_settlement_def
  by (auto simp: stored_whole_def Let_def disk_failed_def split: sum.splits prod.splits option.splits)
     (metis fst_conv option.distinct(1))

lemma working_disk:
  assumes store: "\<And>encoded w. fst (store_settlement b encoded w) = None"
  shows "keeps stored_whole (guarded_body b npm operation c lineage)"
proof -
  note w = write_stores [OF store]
  have log: "keeps stored_whole (act_log x)" if "\<And>s. x \<noteq> WriteFailed s" for x :: event
    using that by (auto simp: keeps_def triple_def act_log_def stored_whole_def disk_failed_def)
  have fail: "keeps stored_whole (fail_with b x e)" for x e
    unfolding fail_with_def by (intro keeps_intros w)
  have reauth: "keeps stored_whole (reauthenticate_attested_bytes b c)"
    unfolding reauthenticate_attested_bytes_def by (intro keeps_intros w)
  have attempt: "keeps stored_whole (attempt b c x p)" for x p
    unfolding attempt_def by (intro keeps_intros w log fail reauth) simp
  show ?thesis
    unfolding guarded_body_def transition_body_def transition_handler_def bootstrap_def stage_platforms_def
      stage_meta_def settle_and_promote_def publish_one_def verify_and_def stage_attempt_def mark_verified_def
      mark_published_def bind_npm_toolchain_def
    by (intro keeps_intros w log fail reauth attempt) simp
qed

lemma finishes:
  assumes agree: "agreeable b npm c lineage operation" and sound: "sound_candidate c"
    and prep: "prepare_settlement b operation c lineage e digest run_id run_attempt w = (Inr s, w')"
    and run: "guarded_body b npm operation c lineage \<lparr>world = w', live = s, events = []\<rparr> = (r, st)"
  shows "r = Inr ()"
proof (rule ccontr)
  assume "r \<noteq> Inr ()"
  then obtain err where r: "r = Inl err" by (cases r) auto
  note p = prepared [OF prep]
  have names: "map pe_name (s_packages s) = PACKAGE_ORDER" "as_status (s_attestations s) = ''verified''"
    using p(2,5) by (auto simp: bound_settlement_def new_settlement_def settlement_package_def comp_def)
  have "complaint (events st)"
    using runs_body [OF p(2) agree] names run unfolding yields_def triple_def settled_names_def r
    by (force dest: spec [of _ "\<lparr>world = w', live = s, events = []\<rparr>"])
  moreover have "stored_whole (events st)"
    using working_disk [of b npm operation c lineage] agree run unfolding keeps_def triple_def r agreeable_def
    by (force dest: spec [of _ "\<lparr>world = w', live = s, events = []\<rparr>"] simp: stored_whole_def)
  ultimately have "\<not> no_refusal (events st)" "\<not> disk_failed (events st)"
    by (auto simp: complaint_def stored_whole_def)
  with run_outcome [OF prep sound agreeable_toolchain [OF agree] run] show False
    by (simp add: r stopped_def)
qed

section \<open>A concrete world\<close>

text \<open>A registry that serves the demo release for the names \<open>public\<close>; \<open>npm\<close>, GitHub and the disk work.\<close>

definition demo_registry :: "string list \<Rightarrow> string \<Rightarrow> RegistryPackage" where
  "demo_registry public name = \<lparr>rp_name = name, rp_owners = [''openprose''],
     rp_tags = [(''latest'', ''0.9.0''), (ALPHA_TAG, demo_version)],
     rp_versions = (if name \<in> set public then [(demo_version, \<lparr>rv_name = name, rv_version = demo_version,
        rv_shasum = sha1_hex name, rv_integrity = ''sha512-'' @ b64encode (sha512 name), rv_tarball_url = name,
        rv_optional_dependencies = Some (map (\<lambda>n. (n, demo_version)) PLATFORM_PACKAGES),
        rv_provenance = Some PROVENANCE_PREDICATE\<rparr>)] else [])\<rparr>"

definition demo_member :: tar_member where
  "demo_member = \<lparr>tm_name = ''package/package.json'', tm_special = False, tm_isfile = True, tm_size = 28,
     tm_content = ''{\"version\":\"0.15.0-alpha.1\"}''\<rparr>"

definition demo_lineage :: Lineage where
  "demo_lineage = \<lparr>ln_latest = ''0.9.0'', ln_owners = [''openprose'']\<rparr>"

definition demo_world :: "string list \<Rightarrow> unit boundary" where
  "demo_world public = \<lparr>registry_package = (\<lambda>name w. (Inr (Some (demo_registry public name)), w)),
     registry_tarball = (\<lambda>u w. (Inr u, w)), npm_toolchain = (\<lambda>w. (Inr demo_toolchain, w)),
     npm_mutate = (\<lambda>_ _ w. (Inr 0, w)), github_promote = (\<lambda>_ w. (Inr (), w)),
     reauthenticate_assets = (\<lambda>_ w. (Inr (), w)), now = (\<lambda>w. (''2026-01-01T00:00:00Z'', w)),
     existing_settlement = (\<lambda>_. None), store_settlement = (\<lambda>_ w. (None, w)), open_tar = (\<lambda>_. Some [demo_member])\<rparr>"


lemma demo_calls [simp]:
  "registry_package (demo_world public) name w = (Inr (Some (demo_registry public name)), w)"
  "registry_tarball (demo_world public) u w = (Inr u, w)" "npm_toolchain (demo_world public) w = (Inr demo_toolchain, w)"
  "npm_mutate (demo_world public) x p w = (Inr 0, w)" "github_promote (demo_world public) c w = (Inr (), w)"
  "reauthenticate_assets (demo_world public) c w = (Inr (), w)" "existing_settlement (demo_world public) w = None"
  "store_settlement (demo_world public) encoded w = (None, w)" "open_tar (demo_world public) body = Some [demo_member]"
  by (simp_all add: demo_world_def)

lemma demo_json:
  "json_loads_bytes (closed_hooks l) ''{\"version\":\"0.15.0-alpha.1\"}'' = Inr (PDict [(''version'', PStr demo_version)])"
  by code_simp

lemma demo_version_read: "manifest_version (open_tar (demo_world public)) p = Inr demo_version"
proof -
  have "scan_members [] None [demo_member] = Inr (Some ''{\"version\":\"0.15.0-alpha.1\"}'')"
    by (simp add: demo_member_def unsafe_member_def MANIFEST_LIMIT_def)
  then have "npm_package_json (open_tar (demo_world public)) body = Inr [(''version'', PStr demo_version)]" for body
    by (simp add: npm_package_json_def closed_json_def demo_json MANIFEST_LIMIT_def)
  with demo_alpha show ?thesis by (simp add: manifest_version_def is_match_def)
qed

lemma demo_names_packages: "p \<in> set (c_packages demo_candidate) \<Longrightarrow> p = demo_package (pa_name p) \<and> pa_name p \<in> set PACKAGE_ORDER"
  by (auto simp: demo_candidate_def demo_package_def)

lemma demo_verifiable:
  assumes "p \<in> set (c_packages demo_candidate)" "pa_name p \<in> set public"
  shows "verifiable (demo_world public) p demo_lineage"
proof -
  from demo_names_packages [OF assms(1)] have p: "p = demo_package (pa_name p)" by blast
  let ?state = "demo_registry public (pa_name p)"
  obtain rv where rv: "map_of (rp_versions ?state) demo_version = Some rv" "rv = snd (hd (rp_versions ?state))"
    using assms(2) by (simp add: demo_registry_def)
  have "public_version_check p demo_version ?state rv = None"
    using assms(2) by (subst p) (simp add: rv demo_registry_def public_version_check_def demo_package_def ALPHA_TAG_def)
  moreover have "public_body_check p demo_version rv (rv_tarball_url rv) = None"
    using assms(2) by (subst p) (simp add: rv demo_registry_def public_body_check_def demo_package_def same_dict_def
      PLATFORM_PACKAGES_def PLATFORMS_def)
  ultimately show ?thesis
    using rv(1) demo_version_read [of public p] unfolding verifiable_def
    by (intro exI [of _ ?state] exI [of _ demo_version] exI [of _ rv])
      (auto simp: require_owners_def demo_registry_def demo_lineage_def)
qed

lemma demo_agrees:
  "agreeable (demo_world PACKAGE_ORDER) False demo_candidate demo_lineage ''settle-and-promote''"
  "agreeable (demo_world PLATFORM_PACKAGES) True demo_candidate demo_lineage ''stage-meta''"
  "agreeable (demo_world []) True demo_candidate demo_lineage ''stage-platforms''"
proof -
  have latest: "latest_stands (demo_world public) demo_lineage" for public
    by (auto simp: latest_stands_def require_owners_def demo_registry_def demo_lineage_def)
  have npm: "npm_agrees (demo_world public) c" for public c
    using demo_toolchain by (auto simp: npm_agrees_def)
  have free: "name \<notin> set public \<Longrightarrow> unused (demo_world public) name v demo_lineage" for public name v
    by (auto simp: unused_def require_owners_def demo_registry_def demo_lineage_def require_unused_def)
  have meta: "META_PACKAGE \<notin> set PLATFORM_PACKAGES" by code_simp
  show "agreeable (demo_world PACKAGE_ORDER) False demo_candidate demo_lineage ''settle-and-promote''"
    using demo_toolchain demo_verifiable demo_names_packages latest unfolding agreeable_def
    by auto
  show "agreeable (demo_world PLATFORM_PACKAGES) True demo_candidate demo_lineage ''stage-meta''"
    using demo_verifiable latest npm free [of META_PACKAGE PLATFORM_PACKAGES] meta unfolding agreeable_def
    by auto
  show "agreeable (demo_world []) True demo_candidate demo_lineage ''stage-platforms''"
    using latest npm free unfolding agreeable_def
    by auto
qed

end
