(* ===== verification/Promotion_History.thy ===== *)
theory Promotion_History
  imports Promotion_Progress
begin

text \<open>
  The stored settlements of one transition, one after the other: a later one describes the same release
  with the same evidence and never forgets an attempt an earlier one records.
\<close>

section \<open>One settlement after another\<close>

definition identity_of :: "settlement \<Rightarrow> string list \<times> int \<times> pydict \<times> (string \<times> int \<times> string) list" where
  "identity_of s =
     ([s_operation s, s_version s, s_source_sha s, s_repository s, s_tag s, s_latest s, s_assembly s, s_started s],
      s_release_id s, s_authority s,
      map (\<lambda>a. (ae_name a, ae_byte_length a, ae_sha256 a)) (as_assets (s_attestations s)))"

definition evidence_of :: "settlement \<Rightarrow> int option \<times> int option \<times> string option \<times> pyval" where
  "evidence_of s = (let a = s_attestations s in (as_run_id a, as_run_attempt a, as_evidence a, as_tool a))"

definition entry_kept :: "package_entry \<Rightarrow> package_entry \<Rightarrow> bool" where
  "entry_kept e e' \<longleftrightarrow> pe_key e' = pe_key e \<and> (pe_attempted e \<longrightarrow> pe_attempted e')"

definition remembers :: "settlement \<Rightarrow> settlement \<Rightarrow> bool" where
  "remembers s s' \<longleftrightarrow> identity_of s' = identity_of s \<and> evidence_of s' = evidence_of s \<and>
     list_all2 entry_kept (s_packages s) (s_packages s') \<and>
     (s_promotion_attempted s \<longrightarrow> s_promotion_attempted s') \<and> (s_promoted s \<longrightarrow> s_promoted s')"

fun stored_settlements :: "event list \<Rightarrow> settlement list" where
  "stored_settlements [] = []"
| "stored_settlements (Wrote s # es) = s # stored_settlements es"
| "stored_settlements (Refused s # es) = stored_settlements es"
| "stored_settlements (WriteFailed s # es) = stored_settlements es"
| "stored_settlements (Mutated a n # es) = stored_settlements es"
| "stored_settlements (Promoted # es) = stored_settlements es"

lemma stored_append [simp]: "stored_settlements (xs @ ys) = stored_settlements xs @ stored_settlements ys"
  by (induction xs rule: stored_settlements.induct) auto

lemma entries_kept_refl [simp]: "list_all2 entry_kept es es"
  by (rule list_all2_refl) (simp add: entry_kept_def)

lemma remembers_refl [simp]: "remembers s s"
  by (simp add: remembers_def)

lemma entries_kept_trans:
  "list_all2 entry_kept xs ys \<Longrightarrow> list_all2 entry_kept ys zs \<Longrightarrow> list_all2 entry_kept xs zs"
  by (erule (1) list_all2_trans [rotated]) (simp add: entry_kept_def)

lemma remembers_trans: "remembers r s \<Longrightarrow> remembers s t \<Longrightarrow> remembers r t"
  unfolding remembers_def by (elim conjE, intro conjI) (simp_all add: entries_kept_trans)

section \<open>Every action remembers\<close>

definition history :: assertion where
  "history s es \<longleftrightarrow> sorted_wrt remembers (stored_settlements es) \<and> (\<forall>r \<in> set (stored_settlements es). remembers r s)"

definition recalls :: "('w, 'a) action \<Rightarrow> bool" where
  "recalls m \<longleftrightarrow> triple history m (\<lambda>_. history) (\<lambda>_. history)"

named_theorems recalls_intros \<open>actions that keep the history\<close>

lemma recalls_bind [recalls_intros]: "recalls m \<Longrightarrow> (\<And>x. recalls (f x)) \<Longrightarrow> recalls (act_bind m f)"
  unfolding recalls_def by (rule triple_bind)

lemma recalls_then [recalls_intros]: "recalls m \<Longrightarrow> recalls n \<Longrightarrow> recalls (act_then m n)"
  unfolding act_then_def by (rule recalls_bind)

lemma recalls_catch [recalls_intros]: "recalls m \<Longrightarrow> (\<And>e. recalls (h e)) \<Longrightarrow> recalls (act_catch m h)"
  unfolding recalls_def by (rule triple_catch)

lemma recalls_pure [recalls_intros]:
  "recalls (act_return x)" "recalls (act_raise e)" "recalls (act_of r)" "recalls (act_check c)" "recalls (act_outside g)"
  "recalls (act_get f)"
  by (simp_all add: recalls_def triple_return triple_raised triple_of triple_check triple_outside)
     (simp add: triple_def act_return_def act_get_def)+

lemma recalls_log [recalls_intros]: "(\<And>s. x \<noteq> Wrote s) \<Longrightarrow> recalls (act_log x)"
  by (cases x) (auto simp: recalls_def triple_def act_log_def history_def)

lemma recalls_update [recalls_intros]: "(\<And>s. remembers s (f s)) \<Longrightarrow> recalls (act_update f)"
  by (auto simp: recalls_def triple_def act_update_def history_def intro: remembers_trans)

lemma recalls_for_each [recalls_intros]: "(\<And>x. recalls (f x)) \<Longrightarrow> recalls (for_each f xs)"
  by (induction xs) (auto intro: recalls_intros)

lemma recalls_if [recalls_intros]: "(c \<Longrightarrow> recalls m) \<Longrightarrow> (\<not> c \<Longrightarrow> recalls n) \<Longrightarrow> recalls (if c then m else n)"
  by simp

lemma recalls_option [recalls_intros]:
  "recalls m \<Longrightarrow> (\<And>x. recalls (f x)) \<Longrightarrow> recalls (case v of None \<Rightarrow> m | Some x \<Rightarrow> f x)"
  by (cases v) auto

lemma remembers_updates [simp]:
  "remembers s (s\<lparr>s_status := x\<rparr>)" "remembers s (s\<lparr>s_updated := x\<rparr>)" "remembers s (s\<lparr>s_toolchain := v\<rparr>)"
  "remembers s (s\<lparr>s_attestations := (s_attestations s)\<lparr>as_status := x, as_bytes := b\<rparr>, s_status := y\<rparr>)"
  "remembers s (s\<lparr>s_promotion_attempted := True, s_github_outcome := x, s_status := y\<rparr>)"
  "remembers s (s\<lparr>s_promoted := True, s_github_outcome := x, s_status := y\<rparr>)"
  by (simp_all add: remembers_def identity_of_def evidence_of_def Let_def)

lemma recalls_write [recalls_intros]: "recalls (write_settlement b)"
  unfolding recalls_def
proof (rule triple_write_any)
  fix s es t e assume h: "history s es"
  let ?s = "s\<lparr>s_updated := t\<rparr>"
  have r: "remembers r ?s" if "remembers r s" for r by (rule remembers_trans [OF that]) simp
  from h r show "history ?s (es @ [Wrote ?s])" "history ?s (es @ [WriteFailed ?s])" "history s (es @ [Refused s])"
    by (auto simp: history_def sorted_wrt_append)
qed

lemma update_first_remembers:
  "(\<And>e. entry_kept e (f e)) \<Longrightarrow> list_all2 entry_kept es (update_first name f es)"
  by (induction es) (simp_all add: entry_kept_def)

lemma recalls_settlement_entry [recalls_intros]:
  assumes "\<And>e. entry_kept e (f e)"
  shows "recalls (settlement_entry name f)"
proof -
  have "remembers s (s\<lparr>s_packages := update_first name f (s_packages s)\<rparr>)" for s
    using update_first_remembers [of f, OF assms] by (simp add: remembers_def identity_of_def evidence_of_def)
  then show ?thesis unfolding settlement_entry_def by (intro recalls_intros)
qed

lemma recalls_looks [recalls_intros]: "recalls (require_latest b lineage)" "recalls (verify_public_package b p lineage)"
  unfolding recalls_def by (rule triple_require_latest, rule triple_conseq [OF triple_verify]) auto

lemma recalls_status [recalls_intros]: "recalls (set_status x)"
  unfolding set_status_def by (intro recalls_intros) simp

lemma recalls_fail_with [recalls_intros]: "recalls (fail_with b x e)"
  unfolding fail_with_def by (intro recalls_intros)

lemma recalls_reauthenticate [recalls_intros]: "recalls (reauthenticate_attested_bytes b c)"
  unfolding reauthenticate_attested_bytes_def by (intro recalls_intros) simp

lemma recalls_attempt [recalls_intros]: "recalls (attempt b c operation p)"
  unfolding attempt_def by (intro recalls_intros) (simp_all add: entry_kept_def pe_key_def)

lemma recalls_marks [recalls_intros]:
  "recalls (mark_published b name i)" "recalls (mark_verified b name i)" "recalls (bind_npm_toolchain b)"
  unfolding mark_published_def mark_verified_def bind_npm_toolchain_def
  by (intro recalls_intros; simp add: entry_kept_def pe_key_def)+

lemma recalls_steps [recalls_intros]:
  "recalls (publish_one b c lineage name)"
  "(\<And>n i. recalls (mark n i)) \<Longrightarrow> recalls (verify_and b c lineage mark name)"
  "recalls (stage_attempt b c name)"
  unfolding publish_one_def verify_and_def stage_attempt_def
  by (intro recalls_intros; assumption?; simp add: entry_kept_def pe_key_def)+

lemma recalls_operations [recalls_intros]:
  "recalls (bootstrap b npm c lineage state)" "recalls (stage_platforms b npm c lineage state)"
  "recalls (stage_meta b npm c lineage state)" "recalls (settle_and_promote b c lineage)"
  unfolding bootstrap_def stage_platforms_def stage_meta_def settle_and_promote_def
  by (intro recalls_intros; simp)+

lemma recalls_body: "recalls (guarded_body b npm operation c lineage)"
  unfolding guarded_body_def transition_body_def transition_handler_def by (intro recalls_intros) simp

lemma history_execute:
  "sorted_wrt remembers (stored_settlements
     (tr_events (execute_transition b npm operation c lineage evidence digest run_id run_attempt w)))"
proof -
  have "history (live st') (events st')"
    if "guarded_body b npm operation c lineage \<lparr>world = w', live = s, events = []\<rparr> = (r, st')" for s w' r st'
  proof -
    have "case guarded_body b npm operation c lineage \<lparr>world = w', live = s, events = []\<rparr> of
        (Inl e, st') \<Rightarrow> history (live st') (events st') | (Inr _, st') \<Rightarrow> history (live st') (events st')"
      using recalls_body [of b npm operation c lineage] unfolding recalls_def triple_def by (simp add: history_def)
    with that show ?thesis by (cases r) simp_all
  qed
  then show ?thesis
    by (auto simp: execute_transition_def history_def split: prod.splits sum.splits)
qed

end
