(* ===== verification/Promotion_Decimal.thy ===== *)
theory Promotion_Decimal
  imports Promotion_Base
begin

text \<open>Decimal numerals without leading zeros, as the patterns of versions and ids admit them, print as they were read.\<close>

lemma dec_value_snoc: "dec_value (t @ [c]) = 10 * dec_value t + (byte c - 48)"
  by simp

lemma digit_char: "is_digit c \<Longrightarrow> byte c - 48 < 10 \<and> char_of (48 + (byte c - 48)) = c"
  by (auto simp: is_digit_def in_range_def)

lemma zero_char: "char_of (48 :: nat) = CHR ''0''"
  by code_simp

lemma dec_digits_value: "positive_digits s \<Longrightarrow> 0 < dec_value s \<and> dec_digits (dec_value s) = s"
proof (induction s rule: rev_induct)
  case (snoc c t)
  note c = digit_char [of c]
  show ?case
  proof (cases "t = []")
    case True
    with snoc.prems have d: "is_digit c" "c \<noteq> CHR ''0''" by (simp_all add: positive_digits_def)
    then have "0 < byte c - 48" using c zero_char by (cases "byte c - 48") auto
    with True c d show ?thesis by (simp add: dec_digits.simps [of "byte c - 48"])
  next
    case False
    with snoc.prems have p: "positive_digits t" "is_digit c" by (simp_all add: positive_digits_def)
    with snoc.IH c have "dec_value (t @ [c]) \<ge> 10" "dec_value (t @ [c]) div 10 = dec_value t"
      "dec_value (t @ [c]) mod 10 = byte c - 48"
      by (simp_all add: dec_value_snoc del: dec_value.simps)
    with snoc.IH p c show ?thesis by (simp add: dec_digits.simps [of "dec_value (t @ [c])"] del: dec_value.simps)
  qed
qed (simp add: positive_digits_def)

lemma id_round_trip:
  "positive_digits s \<Longrightarrow> 0 < int (dec_value s) \<and> dec_int (int (dec_value s)) = s"
  using dec_digits_value [of s] by (simp add: dec_int_def del: dec_value.simps)

text \<open>A version part is determined by its value.\<close>

lemma numeric_part_dec: "numeric_part s \<Longrightarrow> s = (if dec_value s = 0 then ''0'' else dec_digits (dec_value s))"
proof (cases "hd s = CHR ''0''")
  case True
  assume "numeric_part s"
  with True have "s = ''0''" by (cases s) (auto simp: numeric_part_def)
  moreover have "dec_value ''0'' = 0" by code_simp
  ultimately show ?thesis by (simp del: dec_value.simps)
next
  case False
  assume "numeric_part s"
  with False have "positive_digits s" by (simp add: numeric_part_def positive_digits_def)
  from dec_digits_value [OF this] show ?thesis by (simp del: dec_value.simps)
qed

lemma numeric_parts_eq:
  "list_all numeric_part ss \<Longrightarrow> list_all numeric_part ts \<Longrightarrow> map dec_value ss = map dec_value ts \<Longrightarrow> ss = ts"
proof (induction ss arbitrary: ts)
  case (Cons s ss)
  then obtain t ts' where ts: "ts = t # ts'" by (cases ts) auto
  have "dec_value s = dec_value t" "numeric_part s" "numeric_part t" using Cons.prems ts by (simp_all del: dec_value.simps)
  then have "s = t" using numeric_part_dec by metis
  with Cons ts show ?case by (simp del: dec_value.simps)
qed simp

end
