(* ===== verification/Promotion_Claims.thy ===== *)
theory Promotion_Claims
  imports Promotion_History Promotion_Decimal
begin

text \<open>
  The properties of the release promotion, \<^verbatim>\<open>cli/ci/promote_alpha_release.py\<close>, each with a witness on
  the demo release. The abstractions they speak of: \<open>tr_events\<close> is the log of stored and refused
  settlements, registry mutations and release promotions; \<open>mutations\<close> and \<open>promotions\<close> read it;
  \<open>accepted\<close> says that a settlement passes \<^verbatim>\<open>validate_settlement\<close>.
\<close>

section \<open>Runs on the demo release\<close>

definition demo_digest_of_evidence :: string where
  "demo_digest_of_evidence = sha256_hex (encode_attestation_evidence demo_evidence)"

lemma demo_evidence_digest: "attestation_evidence_digest demo_evidence = Inr demo_digest_of_evidence"
  by (simp add: attestation_evidence_digest_def demo_evidence_valid demo_digest_of_evidence_def)

lemma demo_prepared:
  assumes "operation \<in> set OPERATIONS" "existing_settlement b w = None"
  obtains s w' where "prepare_settlement b operation demo_candidate lineage demo_evidence demo_digest_of_evidence 3 1 w
    = (Inr s, w')"
proof -
  have "validate_attestation_evidence (PDict demo_evidence) (Some demo_candidate) (Some 3) (Some 1) None = Inr demo_evidence"
    by (simp add: demo_evidence_valid)
  from prepare_succeeds [OF assms(1) demo_sound(2) assms(2) this demo_evidence_digest] that show ?thesis by blast
qed

definition demo_run :: "string list \<Rightarrow> bool \<Rightarrow> string \<Rightarrow> unit transition_result" where
  "demo_run public npm operation = execute_transition (demo_world public) npm operation demo_candidate demo_lineage
     demo_evidence demo_digest_of_evidence 3 1 ()"

lemma demo_finishes:
  assumes "agreeable (demo_world public) npm demo_candidate demo_lineage operation"
  obtains s where "tr_result (demo_run public npm operation) = Inr s"
    "finished (planned operation) (planned_promotions operation) (target_status operation) s
       (tr_events (demo_run public npm operation))"
proof -
  note op = agreeable_operation [OF assms]
  obtain s where prep: "prepare_settlement (demo_world public) operation demo_candidate demo_lineage demo_evidence
      demo_digest_of_evidence 3 1 () = (Inr s, ())"
    by (rule demo_prepared [OF op, of "demo_world public" "()"]) simp_all
  obtain r st where run: "guarded_body (demo_world public) npm operation demo_candidate demo_lineage
      \<lparr>world = (), live = s, events = []\<rparr> = (r, st)" by fastforce
  have r: "r = Inr ()" by (rule finishes [OF assms demo_sound(1) prep run])
  show ?thesis
  proof (rule that)
    show "tr_result (demo_run public npm operation) = Inr (live st)"
      by (simp add: demo_run_def execute_transition_def prep run r)
    show "finished (planned operation) (planned_promotions operation) (target_status operation) (live st)
        (tr_events (demo_run public npm operation))"
      using run_outcome [OF prep demo_sound(1) agreeable_toolchain [OF assms] run]
      by (simp add: demo_run_def execute_transition_def prep run r)
  qed
qed

lemma demo_toolchain_answer:
  "fst (npm_toolchain (demo_world public) w) = Inr v \<Longrightarrow> toolchain_check v = None \<and> v \<noteq> PNone"
  using demo_toolchain by auto

section \<open>The log of a run\<close>

text \<open>C1. Write-ahead: whatever npm, GitHub, the registry, the clock and the disk answer, at every moment of
  a transition each registry mutation so far, and the promotion of the release, came directly after a
  settlement that records this very attempt as undecided had been stored, and every stored settlement
  passes \<^verbatim>\<open>validate_settlement\<close>. So a killed run always leaves a record of what it may have done.\<close>

theorem transition_writes_ahead:
  "written_ahead (tr_events (execute_transition b npm operation c lineage evidence digest run_id run_attempt w))"
  by (rule written_ahead_execute)

text \<open>C2. How a transition ends, for a candidate whose packages are authenticated and an npm boundary
  that only reports the pinned toolchain: it either returns a settlement with the status its operation aims at,
  stored last, after exactly the planned mutations in order; or it raises before anything happened; or
  it raises after a prefix of the planned mutations. Then, unless the disk failed, none of its settlements has been
  refused by its own validator, and if what it raises is a \<open>PromotionError\<close> a settlement with the failure was
  stored last. Any other exception, of the registry client for instance, passes the handler, and nothing is promised
  about the settlement it leaves.\<close>

theorem transition_outcome:
  assumes "sound_candidate c" "\<And>w v. fst (npm_toolchain b w) = Inr v \<Longrightarrow> toolchain_check v = None \<and> v \<noteq> PNone"
  shows "let run = execute_transition b npm operation c lineage evidence digest run_id run_attempt w;
             es = tr_events run in
    case tr_result run of
      Inr s \<Rightarrow> s_status s = target_status operation \<and> accepted s \<and> (\<exists>before. es = before @ [Wrote s]) \<and>
        mutations es = planned operation \<and> promotions es = planned_promotions operation \<and> no_refusal es
    | Inl err \<Rightarrow> es = [] \<or> prefix (mutations es) (planned operation) \<and> promotions es \<le> planned_promotions operation \<and>
        (disk_failed es \<or> no_refusal es \<and> (is_promotion err \<longrightarrow> (\<exists>before s. es = before @ [Wrote s] \<and>
          s_status s \<in> {''failed'', ''ambiguous'', ''partial-publication''})))"
proof (cases "prepare_settlement b operation c lineage evidence digest run_id run_attempt w")
  case (Pair r w')
  show ?thesis
  proof (cases r)
    case (Inl err)
    with Pair show ?thesis by (simp add: execute_transition_def Let_def)
  next
    case (Inr s)
    obtain r' st where run: "guarded_body b npm operation c lineage \<lparr>world = w', live = s, events = []\<rparr> = (r', st)"
      by fastforce
    have "case r' of
        Inr _ \<Rightarrow> finished (planned operation) (planned_promotions operation) (target_status operation) (live st) (events st)
      | Inl err \<Rightarrow> stopped (planned operation) (planned_promotions operation) err (live st) (events st)"
      by (rule run_outcome [OF Pair [unfolded Inr] assms(1) _ run]) (rule assms(2))
    then show ?thesis
      by (cases r') (auto simp: execute_transition_def Pair Inr run Let_def finished_def stopped_def)
  qed
qed

lemma transition_outcome_witness:
  "\<exists>s. tr_result (demo_run PACKAGE_ORDER False ''settle-and-promote'') = Inr s \<and> s_status s = ''complete'' \<and>
     promotions (tr_events (demo_run PACKAGE_ORDER False ''settle-and-promote'')) = 1"
proof -
  obtain s where "tr_result (demo_run PACKAGE_ORDER False ''settle-and-promote'') = Inr s"
    by (rule demo_finishes [OF demo_agrees(1)])
  then show ?thesis
    using transition_outcome [where b = "demo_world PACKAGE_ORDER", OF demo_sound(1) demo_toolchain_answer,
      where operation = "''settle-and-promote''" and lineage = demo_lineage and evidence = demo_evidence and
      digest = demo_digest_of_evidence and run_id = 3 and run_attempt = 1 and npm = False and w = "()"]
    by (simp add: demo_run_def Let_def target_status_def planned_promotions_def)
qed

text \<open>C3. Progress: when no settlement exists yet, the evidence names the candidate and its digest, the
  registry, npm, GitHub and the disk agree with the release, and the operation is a staging operation or
  the final promotion, the transition returns a settlement with the status it aims at.\<close>

theorem transition_completes:
  assumes agree: "agreeable b npm c lineage operation" and sound: "sound_candidate c"
    and names: "map pa_name (c_packages c) = PACKAGE_ORDER" and fresh: "existing_settlement b w = None"
    and evidence: "validate_attestation_evidence (PDict evidence) (Some c) (Some run_id) (Some run_attempt) None = Inr evidence"
    and digest: "attestation_evidence_digest evidence = Inr digest"
  shows "\<exists>s. tr_result (execute_transition b npm operation c lineage evidence digest run_id run_attempt w) = Inr s \<and>
    s_status s = target_status operation"
proof -
  obtain s w' where prep: "prepare_settlement b operation c lineage evidence digest run_id run_attempt w = (Inr s, w')"
    using prepare_succeeds [OF agreeable_operation [OF agree] names fresh evidence digest] by blast
  obtain r st where run: "guarded_body b npm operation c lineage \<lparr>world = w', live = s, events = []\<rparr> = (r, st)" by fastforce
  have r: "r = Inr ()" by (rule finishes [OF agree sound prep run])
  from run_outcome [OF prep sound agreeable_toolchain [OF agree] run] r show ?thesis
    by (auto simp: execute_transition_def prep run finished_def)
qed

lemma transition_completes_witness:
  "\<exists>s. tr_result (demo_run PLATFORM_PACKAGES True ''stage-meta'') = Inr s \<and> s_status s = ''awaiting-meta-approval''"
  using transition_completes [OF demo_agrees(2) demo_sound _ demo_evidence_valid demo_evidence_digest]
  by (simp add: demo_run_def target_status_def)

section \<open>What a stored settlement certifies\<close>

lemma certified:
  assumes v: "validate_settlement v = Inr d"
    and all: "list_all (package_is action att outc) (packages_of d)"
    and state: "(action, att, outc) \<in> {(''verify'', False, ''verified''), (''publish'', True, ''published'')}"
  shows "list_all2 (settled_as action att outc (dict_of (dget d ''githubArtifactAttestations''))) PACKAGE_ORDER (packages_of d)"
proof -
  obtain a names where a: "dget d ''githubArtifactAttestations'' = PDict a"
    "first_failure (settlement_tail_checks d a) = None"
    by (rule accepted_checks [OF v]) blast
  from settled_packages [OF tail_facts(1) [OF a(2)] all [unfolded packages_of_def] state] a(1)
  show ?thesis by (simp add: packages_of_def)
qed

lemma attestations_settled:
  assumes v: "validate_settlement v = Inr d" and s: "str_of (dget (dict_of (dget d ''githubArtifactAttestations'')) ''status'') = ''verified''"
  shows "dget (dict_of (dget d ''githubArtifactAttestations'')) ''bytesReauthenticated'' = PBool True \<and>
    (\<exists>names. expected_asset_names (str_of (dget d ''version'')) = Inr names \<and>
       count_outcome ''verified'' (list_of (dget (dict_of (dget d ''githubArtifactAttestations'')) ''assets'')) = length names)"
proof -
  obtain a names where a: "dget d ''githubArtifactAttestations'' = PDict a"
    "expected_asset_names (str_of (dget d ''version'')) = Inr names" "first_failure (attestation_checks d a names) = None"
    by (rule accepted_checks [OF v]) blast
  have "is_str (dget a ''status'')"
    using first_failure_NoneD [OF a(3), of "attestation_identity_check d a (length names)"]
    by (auto simp: attestation_checks_def Let_def attestation_identity_check_def str_in_iff)
  with s a(1) have "dget a ''status'' = PStr ''verified''" by (cases "dget a ''status''") simp_all
  from attestation_verified [OF a(3) this] a show ?thesis by auto
qed

lemma accepted_status:
  assumes "validate_settlement v = Inr d"
  shows "status_coherent (str_of (dget d ''operation'')) (str_of (dget d ''status''))
    (str_of (dget (dict_of (dget d ''githubArtifactAttestations'')) ''status'')) (packages_of d)
    (dget d ''npmMutationToolchain'') (dict_of (dget d ''github''))"
proof -
  obtain a where "dget d ''githubArtifactAttestations'' = PDict a" "first_failure (settlement_tail_checks d a) = None"
    by (rule accepted_checks [OF assms]) blast
  with tail_facts(3) show ?thesis by force
qed

text \<open>C5. What a complete settlement certifies, whoever wrote the file: if any JSON value passes
  \<^verbatim>\<open>validate_settlement\<close> with the status \<^verbatim>\<open>complete\<close>, then it belongs to the final promotion, all five packages
  are verified public with exactly the candidate's integrity and provenance and with the digest of the
  attested release asset of their name, the release is promoted, and every asset of the version's closed
  inventory was attested and its bytes authenticated again.\<close>

theorem complete_settlement_certifies:
  assumes "validate_settlement v = Inr d" "dget d ''status'' = PStr ''complete''"
  shows "str_of (dget d ''operation'') = ''settle-and-promote'' \<and>
    list_all2 (settled_as ''verify'' False ''verified'' (dict_of (dget d ''githubArtifactAttestations'')))
      PACKAGE_ORDER (packages_of d) \<and>
    github_is True True ''promoted'' (dict_of (dget d ''github'')) \<and>
    dget (dict_of (dget d ''githubArtifactAttestations'')) ''bytesReauthenticated'' = PBool True \<and>
    (\<exists>names. expected_asset_names (str_of (dget d ''version'')) = Inr names \<and>
       count_outcome ''verified'' (list_of (dget (dict_of (dget d ''githubArtifactAttestations'')) ''assets'')) = length names)"
proof -
  have "status_coherent (str_of (dget d ''operation'')) ''complete''
      (str_of (dget (dict_of (dget d ''githubArtifactAttestations'')) ''status'')) (packages_of d)
      (dget d ''npmMutationToolchain'') (dict_of (dget d ''github''))"
    using accepted_status [OF assms(1)] assms(2) by simp
  note c = status_complete [OF this]
  then have all: "list_all (package_is ''verify'' False ''verified'') (packages_of d)"
    and att: "str_of (dget (dict_of (dget d ''githubArtifactAttestations'')) ''status'') = ''verified''" by blast+
  have "list_all2 (settled_as ''verify'' False ''verified'' (dict_of (dget d ''githubArtifactAttestations'')))
      PACKAGE_ORDER (packages_of d)"
    by (rule certified [OF assms(1) all]) simp
  with c attestations_settled [OF assms(1) att] show ?thesis by blast
qed

lemma complete_settlement_certifies_witness:
  "\<exists>s. tr_result (demo_run PACKAGE_ORDER False ''settle-and-promote'') = Inr s \<and>
     github_is True True ''promoted'' (github_dict s) \<and>
     list_all2 (settled_as ''verify'' False ''verified'' (attestation_dict (s_attestations s))) PACKAGE_ORDER
       (map package_dict (s_packages s))"
proof -
  obtain s where s: "tr_result (demo_run PACKAGE_ORDER False ''settle-and-promote'') = Inr s"
    "finished (planned ''settle-and-promote'') (planned_promotions ''settle-and-promote'')
       (target_status ''settle-and-promote'') s (tr_events (demo_run PACKAGE_ORDER False ''settle-and-promote''))"
    by (rule demo_finishes [OF demo_agrees(1)])
  then have "validate_settlement (PDict (settlement_dict s)) = Inr (settlement_dict s)"
    "dget (settlement_dict s) ''status'' = PStr ''complete''"
    by (simp_all add: finished_def accepted_def target_status_def)
  from complete_settlement_certifies [OF this] s(1) show ?thesis by (simp add: packages_of_def comp_def)
qed

text \<open>C4. The release is promoted only after everything was verified: wherever the promotion of the release
  stands in the log of a transition, the entry before it is a stored settlement of the final promotion in
  which all five packages are verified public with the candidate's integrity and provenance and with
  the digest of their attested asset, and the attested bytes were authenticated.\<close>

theorem promotion_follows_verification:
  assumes "tr_events (execute_transition b npm operation c lineage evidence digest run_id run_attempt w)
    = before @ Promoted # after"
  shows "\<exists>pre s. before = pre @ [Wrote s] \<and> s_operation s = ''settle-and-promote'' \<and> s_promotion_attempted s \<and>
    as_status (s_attestations s) = ''verified'' \<and> as_bytes (s_attestations s) \<and>
    list_all2 (settled_as ''verify'' False ''verified'' (attestation_dict (s_attestations s)))
      PACKAGE_ORDER (map package_dict (s_packages s))"
proof -
  note ahead = written_ahead_execute [of b npm operation c lineage evidence digest run_id run_attempt w, unfolded assms]
  then have "covered before Promoted" unfolding written_ahead_def by blast
  then obtain pre s where s: "before = pre @ [Wrote s]" "promotion_recorded s" by auto
  from ahead have "covered pre (Wrote s)" unfolding s(1) written_ahead_def by (elim allE [of _ pre]) auto
  then have v: "validate_settlement (PDict (settlement_dict s)) = Inr (settlement_dict s)" by (simp add: accepted_def)
  have "status_coherent (s_operation s) ''in-progress'' (as_status (s_attestations s)) (map package_dict (s_packages s))
      (s_toolchain s) (github_dict s)" "dget (github_dict s) ''outcome'' = PStr ''ambiguous''"
    using accepted_status [OF v] s(2) by (simp_all add: promotion_recorded_def packages_of_def comp_def)
  note c = status_promoting [OF this]
  have "list_all2 (settled_as ''verify'' False ''verified'' (attestation_dict (s_attestations s))) PACKAGE_ORDER
      (map package_dict (s_packages s))"
    using certified [OF v, of "''verify''" False "''verified''"] c by (simp add: packages_of_def comp_def)
  moreover have "as_bytes (s_attestations s)"
    using attestations_settled [OF v] c by simp
  ultimately show ?thesis using s c by (auto simp: promotion_recorded_def)
qed

lemma promotion_follows_verification_witness:
  "\<exists>pre s after. tr_events (demo_run PACKAGE_ORDER False ''settle-and-promote'') = pre @ Wrote s # Promoted # after \<and>
     s_promotion_attempted s"
proof -
  let ?es = "tr_events (demo_run PACKAGE_ORDER False ''settle-and-promote'')"
  obtain s where "finished (planned ''settle-and-promote'') 1 (target_status ''settle-and-promote'') s ?es"
    by (rule demo_finishes [OF demo_agrees(1)]) (simp add: planned_promotions_def)
  then have "Promoted \<in> set ?es" by (auto simp: finished_def promotions_def filter_empty_conv length_Suc_conv filter_eq_Cons_iff)
  then obtain before after where es: "?es = before @ Promoted # after" by (meson split_list)
  from promotion_follows_verification [OF es [unfolded demo_run_def]] obtain pre s
    where "before = pre @ [Wrote s]" "s_promotion_attempted s" by blast
  with es show ?thesis by (metis append.assoc append_Cons append_Nil)
qed

text \<open>One settlement, one run: where a settlement already exists, readable or not, a transition raises
  before it touches anything; the world is unchanged and its log is empty.\<close>

theorem existing_settlement_blocks:
  assumes "existing_settlement b w = Some r"
  shows "\<exists>err. execute_transition b npm operation c lineage evidence digest run_id run_attempt w =
    \<lparr>tr_result = Inl err, tr_world = w, tr_events = []\<rparr>"
proof -
  have "refuse_attempted_retry (existing_settlement b w) \<noteq> None"
    using assms by (auto simp: refuse_attempted_retry_def check_of_eq_None ebind_eq_Inr)
  then obtain err where "first_failure [
         guard (operation \<in> set OPERATIONS) (PromotionError ''promotion operation is unsupported''),
         check_of (package_map c),
         refuse_attempted_retry (existing_settlement b w),
         check_of (validate_attestation_evidence (PDict evidence) (Some c) (Some run_id) (Some run_attempt) None)] = Some err"
    using first_failure_NoneD by (metis (no_types, lifting) list.set_intros(1,2) not_None_eq)
  then show ?thesis by (simp add: execute_transition_def prepare_settlement_def)
qed

lemma existing_settlement_blocks_witness:
  "\<exists>err. execute_transition ((demo_world PACKAGE_ORDER)\<lparr>existing_settlement := \<lambda>_. Some (Inr ''{}'')\<rparr>) False
     ''settle-and-promote'' demo_candidate demo_lineage demo_evidence demo_digest_of_evidence 3 1 () =
     \<lparr>tr_result = Inl err, tr_world = (), tr_events = []\<rparr>"
  by (rule existing_settlement_blocks [of _ _ "Inr ''{}''"]) simp

section \<open>The registry\<close>

text \<open>How an action returns normally.\<close>

lemma returns [simp]:
  "act_bind m f st = (Inr x, st') \<longleftrightarrow> (\<exists>y st1. m st = (Inr y, st1) \<and> f y st1 = (Inr x, st'))"
  "act_then m' n st = (Inr x, st') \<longleftrightarrow> (\<exists>st1. m' st = (Inr (), st1) \<and> n st1 = (Inr x, st'))"
  "act_of r st = (Inr y, st') \<longleftrightarrow> r = Inr y \<and> st' = st"
  "act_check c st = (Inr u, st') \<longleftrightarrow> c = None \<and> st' = st"
  "act_return y st = (Inr z, st') \<longleftrightarrow> z = y \<and> st' = st"
  "act_raise e st = (Inr z, st') \<longleftrightarrow> False"
  "act_outside g st = (Inr z, st') \<longleftrightarrow> (\<exists>w. g (world st) = (Inr z, w) \<and> st' = st\<lparr>world := w\<rparr>)"
  by (auto simp: act_bind_def act_then_def act_of_def act_check_def act_return_def act_raise_def act_outside_def
      checked_eq_Inr split: prod.splits sum.splits)

text \<open>C30. A package counts as verified only if the public registry serves exactly it: the owners are the
  authorised ones, the alpha tag selects the version of the package's own manifest, the published
  version has its shasum, integrity and the SLSA provenance, the downloaded bytes are the candidate's
  bytes, and a meta package depends on the exact platform cohort. The live settlement and the log are not
  touched.\<close>

theorem verified_package_is_exact:
  assumes "verify_public_package b p lineage st = (Inr integrity, st')"
  shows "integrity = pa_integrity p \<and> live st' = live st \<and> events st' = events st \<and>
    (\<exists>state version rv w1 w2. registry_package b (pa_name p) (world st) = (Inr (Some state), w1) \<and>
       set (rp_owners state) = set (ln_owners lineage) \<and> manifest_version (open_tar b) p = Inr version \<and>
       map_of (rp_tags state) ALPHA_TAG = Some version \<and> map_of (rp_versions state) version = Some rv \<and>
       rv_name rv = pa_name p \<and> rv_version rv = version \<and> rv_shasum rv = pa_shasum p \<and>
       rv_integrity rv = pa_integrity p \<and> rv_provenance rv = Some PROVENANCE_PREDICATE \<and>
       registry_tarball b (rv_tarball_url rv) w1 = (Inr (pa_body p), w2) \<and> sha1_hex (pa_body p) = pa_shasum p \<and>
       (pa_role p = ''meta'' \<longrightarrow> (\<exists>deps. rv_optional_dependencies rv = Some deps \<and>
          length deps = length PLATFORM_PACKAGES \<and> set deps \<subseteq> (\<lambda>name. (name, version)) ` set PLATFORM_PACKAGES)))"
proof -
  from assms obtain state version rv w1 w2 body where reg: "registry_package b (pa_name p) (world st) = (Inr (Some state), w1)"
    and own: "require_owners state lineage = None" and man: "manifest_version (open_tar b) p = Inr version"
    and rv: "map_of (rp_versions state) version = Some rv" and pub: "public_version_check p version state rv = None"
    and tar: "registry_tarball b (rv_tarball_url rv) w1 = (Inr body, w2)" and body: "public_body_check p version rv body = None"
    and res: "integrity = rv_integrity rv" "st' = st\<lparr>world := w2\<rparr>"
    by (auto simp: verify_public_package_def checked_eq_Inr split: option.splits)
  have "set (rp_owners state) = set (ln_owners lineage)" using own by (simp add: require_owners_def)
  moreover have "rv_name rv = pa_name p" "rv_version rv = version" "rv_shasum rv = pa_shasum p"
    "rv_integrity rv = pa_integrity p" "rv_provenance rv = Some PROVENANCE_PREDICATE"
    "map_of (rp_tags state) ALPHA_TAG = Some version"
    using pub by (simp_all add: public_version_check_def)
  moreover have b: "body = pa_body p" "sha1_hex (pa_body p) = pa_shasum p"
    and "pa_role p \<noteq> ''meta'' \<or> (\<exists>d. rv_optional_dependencies rv = Some d \<and>
      same_dict d (map (\<lambda>name. (name, version)) PLATFORM_PACKAGES))"
    using body by (auto simp: public_body_check_def split: option.splits)
  moreover have "length d = length PLATFORM_PACKAGES \<and> set d \<subseteq> (\<lambda>name. (name, version)) ` set PLATFORM_PACKAGES"
    if "same_dict d (map (\<lambda>name. (name, version)) PLATFORM_PACKAGES)" for d
    using that by (auto simp: same_dict_def list_all_iff dest!: map_of_SomeD)
  ultimately show ?thesis using reg man rv tar res unfolding b by force
qed

lemma verify_returns:
  assumes "verifiable b p lineage"
  shows "\<exists>i st'. verify_public_package b p lineage st = (Inr i, st')"
proof -
  from assms obtain state version rv where v: "\<forall>w. fst (registry_package b (pa_name p) w) = Inr (Some state)"
    "require_owners state lineage = None" "manifest_version (open_tar b) p = Inr version"
    "map_of (rp_versions state) version = Some rv" "public_version_check p version state rv = None"
    "\<forall>w. \<exists>body. fst (registry_tarball b (rv_tarball_url rv) w) = Inr body \<and> public_body_check p version rv body = None"
    by (auto simp: verifiable_def)
  obtain w1 where 1: "registry_package b (pa_name p) (world st) = (Inr (Some state), w1)"
    using v(1) by (metis prod.collapse)
  obtain body w2 where 2: "registry_tarball b (rv_tarball_url rv) w1 = (Inr body, w2)" "public_body_check p version rv body = None"
    using v(6) by (metis prod.collapse)
  have "verify_public_package b p lineage st = (Inr (rv_integrity rv), st\<lparr>world := w2\<rparr>)"
    using v 1 2 by (simp add: verify_public_package_def)
  then show ?thesis by blast
qed

lemma verified_package_is_exact_witness:
  "\<exists>i st'. verify_public_package (demo_world PACKAGE_ORDER) (demo_package META_PACKAGE) demo_lineage
     \<lparr>world = (), live = new_settlement ''bootstrap'' demo_candidate demo_lineage [] [], events = []\<rparr> = (Inr i, st') \<and>
     i = ''sha512-'' @ b64encode (sha512 META_PACKAGE) \<and> events st' = []"
proof -
  let ?st = "\<lparr>world = (), live = new_settlement ''bootstrap'' demo_candidate demo_lineage [] [], events = []\<rparr>"
  have "verifiable (demo_world PACKAGE_ORDER) (demo_package META_PACKAGE) demo_lineage"
    by (rule demo_verifiable) (simp_all add: demo_candidate_def demo_package_def PACKAGE_ORDER_def)
  then obtain i st' where v: "verify_public_package (demo_world PACKAGE_ORDER) (demo_package META_PACKAGE) demo_lineage ?st = (Inr i, st')"
    using verify_returns by blast
  have "i = pa_integrity (demo_package META_PACKAGE)" "events st' = events ?st"
    using verified_package_is_exact [OF v] by blast+
  with v show ?thesis by (simp add: demo_package_def)
qed

section \<open>The files\<close>

text \<open>C31. The settlement file is never torn: whichever calls fail in whichever of its writes, the file holds
  what it held before or exactly the bytes of one of the writes, as long as no other process writes it;
  and after a write that reports success it holds that write.\<close>

theorem settlement_file_never_torn:
  assumes "\<forall>w \<in> set ws. undisturbed name (fst w)"
  shows "store_all (store_settlement_file name) ws d name \<in> insert (d name) (Some ` snd ` set ws) \<and>
    (fst (store_settlement_file name env encoded (store_all (store_settlement_file name) ws d)) = None \<longrightarrow>
      store_all (store_settlement_file name) (ws @ [(env, encoded)]) d name = Some encoded)"
  using settlement_file.never_torn [OF assms] settlement_file.last_write_stands by blast

definition broken :: "store_step \<Rightarrow> store_env" where
  "broken step = \<lparr>fault = Some step, stuck = True, partial = ''{'', pid = 7, meanwhile = (\<lambda>d. d)\<rparr>"

lemma settlement_file_never_torn_witness:
  "store_all (store_settlement_file ''s.json'')
     [(broken SyncDirectory, ''A''), (broken FillTemporary, ''B'')] Map.empty ''s.json'' \<in> {None, Some ''A'', Some ''B''}"
  using settlement_file_never_torn [of "[(broken SyncDirectory, ''A''), (broken FillTemporary, ''B'')]" "''s.json''" Map.empty]
  by (simp add: undisturbed_def broken_def)

text \<open>C32. Evidence is written once: a write of the attestation evidence never changes a file that exists,
  not even one that another process creates while the write is under way; when it reports success the
  file did not exist before and holds exactly the evidence.\<close>

theorem evidence_never_overwritten:
  "(let (r, d') = store_evidence_file name env encoded d in
     (d name \<noteq> None \<longrightarrow> r \<noteq> None \<and> d' name = d name) \<and>
     (meanwhile env d name \<noteq> None \<longrightarrow> d' name \<in> {d name, meanwhile env d name} \<and> r \<noteq> None) \<and>
     (r = None \<longrightarrow> d name = None \<and> meanwhile env d name = None \<and> d' name = Some encoded))"
  by (auto simp: store_evidence_file_def Let_def)

lemma evidence_never_overwritten_witness:
  "snd (store_evidence_file ''e.json'' (broken SyncDirectory) ''B'' [''e.json'' \<mapsto> ''A'']) ''e.json'' = Some ''A''"
  using evidence_never_overwritten [of "''e.json''" "broken SyncDirectory" "''B''" "[''e.json'' \<mapsto> ''A'']"]
  by (auto simp: Let_def split: prod.splits)

section \<open>The command line\<close>










section \<open>The handoff\<close>

definition gh_agrees :: "'w attestation_boundary \<Rightarrow> Candidate \<Rightarrow> pydict \<Rightarrow> bool" where
  "gh_agrees b c tool \<longleftrightarrow> (\<forall>w. \<not> evidence_exists b w) \<and> (\<forall>w. fst (gh_toolchain b w) = Inr (PDict tool)) \<and>
     (\<forall>asset w. fst (gh_verify b asset w) = Inr [expected_attestation c asset]) \<and>
     (\<forall>w. fst (gh_reauthenticate b c w) = Inr ()) \<and> (\<forall>encoded w. fst (store_evidence b encoded w) = None)"

lemma verify_each_agrees:
  assumes "\<And>asset w. fst (gh_verify b asset w) = Inr [expected_attestation c asset]"
  shows "fst (verify_each b c as w) = None"
proof (induction as arbitrary: w)
  case (Cons a as)
  then show ?case using assms [of a w] by (cases "gh_verify b a w") simp
qed simp

lemma preverify_may_start:
  "require_draft_authority_candidate authority c = None \<Longrightarrow> sound_assets c \<Longrightarrow> 0 < run_id \<Longrightarrow> 0 < run_attempt \<Longrightarrow>
    \<not> evidence_exists b w \<Longrightarrow> preverify_inputs_check b c authority run_id run_attempt w = None"
  by (simp add: preverify_inputs_check_def sound_assets_def)

text \<open>C34. The handoff composes: when GitHub confirms every asset and the disk works, the read-only mode
  emits evidence (unless it is longer than its limit), and exactly this evidence with the digest of the stored bytes is what a
  later transition of the same candidate accepts, with or without the binding to the draft authority.\<close>

theorem preverified_evidence_is_accepted:
  assumes c: "sound_assets c" and a: "sound_authority authority c"
    and same: "require_draft_authority_candidate authority c = None" and run: "0 < run_id" "0 < run_attempt"
    and tool: "validate_attestation_tool (PDict tool) = Inr tool" and gh: "gh_agrees b c tool"
  shows "let e = attestation_evidence c authority run_id run_attempt tool; encoded = encode_attestation_evidence e in
    fst (preverify_attestations b c authority run_id run_attempt w) =
      (if length encoded \<le> MAX_ATTESTATION_EVIDENCE_BYTES then Inr e
       else Inl (PromotionError ''attestation evidence exceeds its byte limit'')) \<and>
    attestation_evidence_digest e = Inr (sha256_hex encoded) \<and>
    validate_attestation_evidence (PDict e) (Some c) (Some run_id) (Some run_attempt) None = Inr e"
proof -
  let ?e = "attestation_evidence c authority run_id run_attempt tool"
  note valid = attestation_evidence_valid [OF c a run tool]
  have g: "\<not> evidence_exists b w" "fst (gh_toolchain b w) = Inr (PDict tool)" "fst (gh_reauthenticate b c w) = Inr ()"
    "fst (store_evidence b encoded w) = None" for w encoded
    using gh by (simp_all add: gh_agrees_def)
  obtain w1 where 1: "gh_toolchain b w = (Inr (PDict tool), w1)" using g(2) by (metis prod.collapse)
  obtain w2 where 2: "verify_each b c (c_assets c) w1 = (None, w2)"
    using verify_each_agrees [of b c "c_assets c" w1] gh by (metis gh_agrees_def prod.collapse)
  obtain w3 where 3: "gh_reauthenticate b c w2 = (Inr (), w3)" using g(3) by (metis prod.collapse)
  obtain w4 where 4: "store_evidence b (encode_attestation_evidence ?e) w3 = (None, w4)" using g(4) by (metis prod.collapse)
  have "fst (write_evidence b ?e w3) = (if length (encode_attestation_evidence ?e) \<le> MAX_ATTESTATION_EVIDENCE_BYTES
      then Inr (sha256_hex (encode_attestation_evidence ?e))
      else Inl (PromotionError ''attestation evidence exceeds its byte limit''))"
    by (simp add: write_evidence_def valid g 4)
  then have "fst (preverify_attestations b c authority run_id run_attempt w) =
      (if length (encode_attestation_evidence ?e) \<le> MAX_ATTESTATION_EVIDENCE_BYTES then Inr ?e
       else Inl (PromotionError ''attestation evidence exceeds its byte limit''))"
    using preverify_may_start [OF same c run g(1)]
    by (auto simp: preverify_attestations_def 1 2 3 tool Let_def valid split: prod.splits sum.splits if_splits)
  then show ?thesis by (simp add: Let_def valid attestation_evidence_digest_def)
qed

definition demo_github :: "unit attestation_boundary" where
  "demo_github = \<lparr>evidence_exists = (\<lambda>_. False), gh_toolchain = (\<lambda>w. (Inr (PDict demo_tool), w)),
     gh_verify = (\<lambda>asset w. (Inr [expected_attestation demo_candidate asset], w)),
     gh_reauthenticate = (\<lambda>_ w. (Inr (), w)), store_evidence = (\<lambda>_ w. (None, w))\<rparr>"

lemma preverified_evidence_is_accepted_witness:
  "fst (preverify_attestations demo_github demo_candidate demo_authority 3 1 ()) \<in>
     {Inr demo_evidence, Inl (PromotionError ''attestation evidence exceeds its byte limit'')} \<and>
   validate_attestation_evidence (PDict demo_evidence) (Some demo_candidate) (Some 3) (Some 1) None = Inr demo_evidence"
proof -
  have "gh_agrees demo_github demo_candidate demo_tool" by (simp add: gh_agrees_def demo_github_def)
  moreover have "require_draft_authority_candidate demo_authority demo_candidate = None"
    by (simp add: require_draft_authority_candidate_def demo_authority_def demo_candidate_def)
  ultimately show ?thesis
    using preverified_evidence_is_accepted [OF demo_assets _ _ _ demo_tool, of 3 1 demo_github "()"]
    by (simp add: Let_def demo_evidence_def)
qed

section \<open>Attempts are never forgotten\<close>

text \<open>C6. Every settlement a transition stores continues all the ones stored before it: it describes the
  same release, candidate, draft authority and attestation evidence, lists the same packages in the same
  order with the same artifacts, and an attempted package, an attempted promotion or a completed promotion
  stays recorded as such, whatever the registry, the release host, the disk or the tools answer in
  between.\<close>

theorem settlements_never_forget:
  "sorted_wrt remembers (stored_settlements
     (tr_events (execute_transition b npm operation c lineage evidence digest run_id run_attempt w)))"
  by (rule history_execute)

end
