(* ===== verification/Py_Effect.thy ===== *)
theory Py_Effect
  imports Py_Value
begin

text \<open>
  Code with effects: a computation takes a state and returns a value or an exception with the new
  state, so what was done before an exception is kept. The operations are those the modelled code uses
  (sequencing, raising, \<open>try\<close>/\<open>except\<close>), and \<open>hoare\<close> is the logic their proofs run in: a
  precondition, one postcondition for the value and one for the exception.
\<close>

section \<open>Computations\<close>

type_synonym ('s, 'a) eff = "'s \<Rightarrow> 'a res \<times> 's"

definition eff_return :: "'a \<Rightarrow> ('s, 'a) eff" where
  "eff_return x = (\<lambda>s. (Inr x, s))"

definition eff_raise :: "exn \<Rightarrow> ('s, 'a) eff" where
  "eff_raise e = (\<lambda>s. (Inl e, s))"

definition eff_of :: "'a res \<Rightarrow> ('s, 'a) eff" where
  "eff_of r = (\<lambda>s. (r, s))"

definition eff_bind :: "('s, 'a) eff \<Rightarrow> ('a \<Rightarrow> ('s, 'b) eff) \<Rightarrow> ('s, 'b) eff" where
  "eff_bind m f = (\<lambda>s. case m s of (Inl e, s') \<Rightarrow> (Inl e, s') | (Inr x, s') \<Rightarrow> f x s')"

definition eff_then :: "('s, unit) eff \<Rightarrow> ('s, 'b) eff \<Rightarrow> ('s, 'b) eff" where
  "eff_then m n = eff_bind m (\<lambda>_. n)"

definition eff_check :: "check \<Rightarrow> ('s, unit) eff" where
  "eff_check c = eff_of (checked c (Inr ()))"

text \<open>\<open>except Exception\<close>: an interrupt or the end of the process is no \<open>Exception\<close>.\<close>

definition is_exception :: "exn \<Rightarrow> bool" where
  "is_exception e \<longleftrightarrow> e \<notin> {OtherExn ''KeyboardInterrupt'', OtherExn ''SystemExit'', OtherExn ''killed''}"

definition eff_try :: "('s, 'a) eff \<Rightarrow> (exn \<Rightarrow> ('s, 'a) eff) \<Rightarrow> ('s, 'a) eff" where
  "eff_try m h = (\<lambda>s. case m s of
     (Inl e, s') \<Rightarrow> if is_exception e then h e s' else (Inl e, s')
   | (Inr x, s') \<Rightarrow> (Inr x, s'))"

section \<open>Pre- and postconditions\<close>

definition hoare ::
  "('s \<Rightarrow> bool) \<Rightarrow> ('s, 'a) eff \<Rightarrow> ('a \<Rightarrow> 's \<Rightarrow> bool) \<Rightarrow> (exn \<Rightarrow> 's \<Rightarrow> bool) \<Rightarrow> bool" where
  "hoare P m Q E \<longleftrightarrow>
     (\<forall>s. P s \<longrightarrow> (case m s of (Inl e, s') \<Rightarrow> E e s' | (Inr x, s') \<Rightarrow> Q x s'))"

named_theorems hoare_rules \<open>rules for the operations on computations\<close>

lemma hoare_conseq:
  assumes "hoare P' m Q' E'" "\<And>s. P s \<Longrightarrow> P' s" "\<And>x s. Q' x s \<Longrightarrow> Q x s" "\<And>e s. E' e s \<Longrightarrow> E e s"
  shows "hoare P m Q E"
  using assms unfolding hoare_def by (fastforce split: prod.splits sum.splits)

lemma hoare_pre: "hoare P' m Q E \<Longrightarrow> (\<And>s. P s \<Longrightarrow> P' s) \<Longrightarrow> hoare P m Q E"
  by (rule hoare_conseq)

lemma hoare_return [hoare_rules]: "hoare (Q x) (eff_return x) Q E"
  by (simp add: hoare_def eff_return_def)

lemma hoare_raise [hoare_rules]: "hoare (E e) (eff_raise e) Q E"
  by (simp add: hoare_def eff_raise_def)

lemma hoare_of [hoare_rules]:
  "hoare (\<lambda>s. case r of Inl e \<Rightarrow> E e s | Inr x \<Rightarrow> Q x s) (eff_of r) Q E"
  by (simp add: hoare_def eff_of_def split: sum.splits)

lemma hoare_check [hoare_rules]:
  "hoare (\<lambda>s. case c of Some e \<Rightarrow> E e s | None \<Rightarrow> Q () s) (eff_check c) Q E"
  by (simp add: hoare_def eff_check_def eff_of_def checked_def split: option.splits)

lemma hoare_bind [hoare_rules]:
  assumes "\<And>x. hoare (Q x) (f x) R E" "hoare P m Q E"
  shows "hoare P (eff_bind m f) R E"
  unfolding hoare_def
proof (intro allI impI)
  fix s assume "P s"
  with assms(2) have m: "case m s of (Inl e, s') \<Rightarrow> E e s' | (Inr x, s') \<Rightarrow> Q x s'" by (simp add: hoare_def)
  obtain r s' where r: "m s = (r, s')" by (cases "m s")
  show "case eff_bind m f s of (Inl e, s') \<Rightarrow> E e s' | (Inr x, s') \<Rightarrow> R x s'"
    using m r assms(1) by (cases r) (simp_all add: eff_bind_def hoare_def)
qed

lemma hoare_then [hoare_rules]: "hoare Q n R E \<Longrightarrow> hoare P m (\<lambda>_. Q) E \<Longrightarrow> hoare P (eff_then m n) R E"
  unfolding eff_then_def by (rule hoare_bind)

lemma hoare_try:
  assumes "hoare P m Q E'" "\<And>e. is_exception e \<Longrightarrow> hoare (E' e) (h e) Q E"
    "\<And>e s. E' e s \<Longrightarrow> \<not> is_exception e \<Longrightarrow> E e s"
  shows "hoare P (eff_try m h) Q E"
  unfolding hoare_def
proof (intro allI impI)
  fix s assume "P s"
  with assms(1) have m: "case m s of (Inl e, s') \<Rightarrow> E' e s' | (Inr x, s') \<Rightarrow> Q x s'" by (simp add: hoare_def)
  obtain r s' where r: "m s = (r, s')" by (cases "m s")
  show "case eff_try m h s of (Inl e, s') \<Rightarrow> E e s' | (Inr x, s') \<Rightarrow> Q x s'"
    using m r assms(2, 3) by (cases r) (simp_all add: eff_try_def hoare_def)
qed

lemma hoare_if [hoare_rules]:
  "(c \<Longrightarrow> hoare P m Q E) \<Longrightarrow> (\<not> c \<Longrightarrow> hoare P' n Q E) \<Longrightarrow>
   hoare (\<lambda>s. if c then P s else P' s) (if c then m else n) Q E"
  by (simp add: hoare_def)

lemma hoare_if_same: "(c \<Longrightarrow> hoare P m Q E) \<Longrightarrow> (\<not> c \<Longrightarrow> hoare P n Q E) \<Longrightarrow> hoare P (if c then m else n) Q E"
  by simp

text \<open>A check in front of a computation: what it checks is known afterwards.\<close>

lemma hoare_guard:
  assumes "ok \<Longrightarrow> hoare P m Q E" "\<And>s. P s \<Longrightarrow> \<not> ok \<Longrightarrow> E e s"
  shows "hoare P (eff_then (eff_check (guard ok e)) m) Q E"
  using assms by (cases ok) (auto simp: hoare_def eff_then_def eff_bind_def eff_check_def eff_of_def checked_def guard_def)

lemma hoare_bind_of:
  assumes "\<And>x. r = Inr x \<Longrightarrow> hoare P (f x) Q E" "\<And>e s. P s \<Longrightarrow> r = Inl e \<Longrightarrow> E e s"
  shows "hoare P (eff_bind (eff_of r) f) Q E"
  using assms by (cases r) (auto simp: hoare_def eff_bind_def eff_of_def)

lemma hoareD_value: "hoare P m Q E \<Longrightarrow> P s \<Longrightarrow> m s = (Inr x, s') \<Longrightarrow> Q x s'"
  unfolding hoare_def by (metis (mono_tags, lifting) case_prod_conv sum.case(2))

lemma hoareD_exn: "hoare P m Q E \<Longrightarrow> P s \<Longrightarrow> m s = (Inl e, s') \<Longrightarrow> E e s'"
  unfolding hoare_def by (metis (mono_tags, lifting) case_prod_conv sum.case(1))

lemma eff_simps [simp]:
  "eff_return x s = (Inr x, s)" "eff_raise e s = (Inl e, s)" "eff_of r s = (r, s)"
  "eff_check None s = (Inr (), s)" "eff_check (Some e) s = (Inl e, s)"
  by (simp_all add: eff_return_def eff_raise_def eff_of_def eff_check_def)

end
