(* ===== verification/Weave_Engine.thy ===== *)
theory Weave_Engine
  imports Py_Effect Py_Json
begin

text \<open>
  The reconcile engine of \<^verbatim>\<open>experiments/weave/engine.py\<close>: the checkpoint, one call of \<open>reconcile\<close> over
  the capabilities its host injects, and \<open>settle_pending\<close>. Capabilities are computations on the host's
  state; the calls of \<open>save\<close> and \<open>act\<close> are recorded in a log, which the code does not keep and the
  properties speak about.
\<close>

section \<open>Numbers\<close>

text \<open>An \<open>int\<close> or a \<open>float\<close>, compared as Python does: exactly, and never true for a NaN.\<close>

datatype pynum = NInt int | NFloat pyfloat

fun number :: "pynum \<Rightarrow> pyval" where
  "number (NInt n) = PInt n"
| "number (NFloat f) = PFloat f"

fun as_number :: "pyval \<Rightarrow> pynum option" where
  "as_number (PInt n) = Some (NInt n)"
| "as_number (PFloat f) = Some (NFloat f)"
| "as_number _ = None"

fun num_value :: "pynum \<Rightarrow> pyfloat" where
  "num_value (NInt n) = FFin (of_int n)"
| "num_value (NFloat FNegZero) = FFin 0"
| "num_value (NFloat f) = f"

fun float_less :: "pyfloat \<Rightarrow> pyfloat \<Rightarrow> bool" where
  "float_less (FFin a) (FFin b) = (a < b)"
| "float_less (FFin a) FPosInf = True"
| "float_less FNegInf (FFin b) = True"
| "float_less FNegInf FPosInf = True"
| "float_less _ _ = False"

definition num_less :: "pynum \<Rightarrow> pynum \<Rightarrow> bool" where
  "num_less a b \<longleftrightarrow> float_less (num_value a) (num_value b)"

definition num_le :: "pynum \<Rightarrow> pynum \<Rightarrow> bool" where
  "num_le a b \<longleftrightarrow> num_less a b \<or> num_eq (num_value a) (num_value b)"

text \<open>\<open>min(a, b)\<close> keeps the first unless the second is smaller.\<close>

definition num_min :: "pynum \<Rightarrow> pynum \<Rightarrow> pynum" where
  "num_min a b = (if num_less b a then b else a)"

text \<open>\<open>math.isfinite\<close> converts an integer to a float first.\<close>

definition is_finite :: "pynum \<Rightarrow> bool res" where
  "is_finite n = (case n of
     NInt i \<Rightarrow> (case round64 (of_int i) of FFin _ \<Rightarrow> Inr True | _ \<Rightarrow> Inl (OtherExn ''OverflowError''))
   | NFloat f \<Rightarrow> Inr (f \<notin> {FPosInf, FNegInf, FNaN}))"

section \<open>The checkpoint\<close>

record Checkpoint =
  ck_binding :: string
  ck_evidence :: string
  ck_disposition :: string
  ck_valid_until :: pynum
  ck_pending :: "string option"
  ck_attempts :: int
  ck_settlement :: "pydict option"

definition CHECKPOINT_FIELDS :: "string list" where
  "CHECKPOINT_FIELDS = [''binding'', ''evidence'', ''disposition'', ''valid_until'', ''pending'', ''attempts'',
     ''settlement'']"

definition DISPOSITIONS :: "string list" where "DISPOSITIONS = [''unknown'', ''satisfied'', ''work-needed'']"

definition new_checkpoint :: Checkpoint where
  "new_checkpoint = \<lparr>ck_binding = [], ck_evidence = [], ck_disposition = ''unknown'', ck_valid_until = NInt 0,
     ck_pending = None, ck_attempts = 0, ck_settlement = None\<rparr>"

text \<open>\<open>asdict(checkpoint)\<close>\<close>

definition asdict :: "Checkpoint \<Rightarrow> pydict" where
  "asdict cp =
     [(''binding'', PStr (ck_binding cp)), (''evidence'', PStr (ck_evidence cp)),
      (''disposition'', PStr (ck_disposition cp)), (''valid_until'', number (ck_valid_until cp)),
      (''pending'', (case ck_pending cp of None \<Rightarrow> PNone | Some p \<Rightarrow> PStr p)),
      (''attempts'', PInt (ck_attempts cp)),
      (''settlement'', (case ck_settlement cp of None \<Rightarrow> PNone | Some d \<Rightarrow> PDict d))]"

definition nonblank :: "pyval \<Rightarrow> bool" where
  "nonblank v \<longleftrightarrow> is_str v \<and> \<not> is_blank (str_of v)"

definition finite_number :: "pyval \<Rightarrow> check" where
  "finite_number v = (case as_number v of
     None \<Rightarrow> Some (ValueErr ''invalid checkpoint expiry'')
   | Some n \<Rightarrow> (case is_finite n of Inl e \<Rightarrow> Some e
       | Inr ok \<Rightarrow> guard ok (ValueErr ''invalid checkpoint expiry'')))"

definition settlement_record :: "pyval \<Rightarrow> bool" where
  "settlement_record v \<longleftrightarrow> v = PNone \<or>
     is_dict v \<and> keys_are (dict_of v) [''attempt'', ''binding'', ''outcome'', ''receipt''] \<and>
     list_all (\<lambda>(k, w). nonblank w) (dict_of v) \<and>
     str_in (dget (dict_of v) ''outcome'') [''completed'', ''not-applied'']"

text \<open>\<open>Checkpoint.__post_init__\<close> on the fields as they were passed.\<close>

definition post_init :: "pydict \<Rightarrow> check" where
  "post_init d = first_failure [
     guard (is_str (dget d ''binding'') \<and> is_str (dget d ''evidence'')) (ValueErr ''invalid checkpoint identity''),
     guard (str_in (dget d ''disposition'') DISPOSITIONS) (ValueErr ''invalid checkpoint disposition''),
     guard (is_int (dget d ''attempts'') \<and> 0 \<le> int_of (dget d ''attempts'')) (ValueErr ''invalid checkpoint attempts''),
     finite_number (dget d ''valid_until''),
     guard (dget d ''pending'' = PNone \<or> nonblank (dget d ''pending'')) (ValueErr ''invalid pending attempt''),
     guard (settlement_record (dget d ''settlement'')) (ValueErr ''invalid settlement record'')]"

definition checkpoint_of :: "pydict \<Rightarrow> Checkpoint" where
  "checkpoint_of d = \<lparr>ck_binding = str_of (dget d ''binding''), ck_evidence = str_of (dget d ''evidence''),
     ck_disposition = str_of (dget d ''disposition''),
     ck_valid_until = (case as_number (dget d ''valid_until'') of None \<Rightarrow> NInt 0 | Some n \<Rightarrow> n),
     ck_pending = (case dget d ''pending'' of PStr p \<Rightarrow> Some p | _ \<Rightarrow> None),
     ck_attempts = int_of (dget d ''attempts''),
     ck_settlement = (case dget d ''settlement'' of PDict r \<Rightarrow> Some r | _ \<Rightarrow> None)\<rparr>"

text \<open>\<open>Checkpoint(**v)\<close>: missing fields take their default, an unknown one is a \<open>TypeError\<close>.\<close>

definition make_checkpoint :: "pyval \<Rightarrow> Checkpoint res" where
  "make_checkpoint v =
     checked (guard (is_dict v \<and> keys_within (dict_of v) CHECKPOINT_FIELDS) TypeErr)
     (let d = dict_of v @ asdict new_checkpoint in checked (post_init d) (Inr (checkpoint_of d)))"

section \<open>Capabilities\<close>

record Evidence =
  ev_identity :: string
  ev_payload :: string
  ev_observed_at :: pynum
  ev_valid_until :: pynum
  ev_gap :: "string option"

record 's capabilities =
  observe :: "('s, Evidence) eff"
  assess :: "Evidence \<Rightarrow> ('s, pyval) eff"
  act :: "Evidence \<Rightarrow> string \<Rightarrow> ('s, unit) eff"
  clock :: "('s, pynum) eff"
  new_id :: "('s, pyval) eff"

datatype call = Saved Checkpoint | SaveFailed Checkpoint | Assessed Evidence string | Acted Evidence string

record 's weave =
  host :: 's
  calls :: "call list"

definition outside :: "('s, 'a) eff \<Rightarrow> ('s weave, 'a) eff" where
  "outside m = (\<lambda>w. case m (host w) of (r, h) \<Rightarrow> (r, w\<lparr>host := h\<rparr>))"

definition log_call :: "call \<Rightarrow> ('s weave, unit) eff" where
  "log_call c = (\<lambda>w. (Inr (), w\<lparr>calls := calls w @ [c]\<rparr>))"

definition save_logged :: "(Checkpoint \<Rightarrow> ('s, unit) eff) \<Rightarrow> Checkpoint \<Rightarrow> ('s weave, unit) eff" where
  "save_logged save cp = (\<lambda>w. case save cp (host w) of
     (Inr x, h) \<Rightarrow> (Inr x, w\<lparr>host := h, calls := calls w @ [Saved cp]\<rparr>)
   | (Inl e, h) \<Rightarrow> (Inl e, w\<lparr>host := h, calls := calls w @ [SaveFailed cp]\<rparr>))"

section \<open>One reconcile call\<close>

text \<open>\<open>evidence.observed_at <= now < evidence.valid_until\<close>\<close>

definition current :: "Evidence \<Rightarrow> pynum \<Rightarrow> bool" where
  "current e t \<longleftrightarrow> num_le (ev_observed_at e) t \<and> num_less t (ev_valid_until e)"

definition has_gap :: "Evidence \<Rightarrow> bool" where
  "has_gap e \<longleftrightarrow> (case ev_gap e of None \<Rightarrow> False | Some g \<Rightarrow> g \<noteq> [])"

definition judge :: "'s capabilities \<Rightarrow> Evidence \<Rightarrow> ('s weave, string \<times> Evidence \<times> bool) eff" where
  "judge c evidence =
     eff_bind (outside (assess c evidence)) (\<lambda>result.
     eff_then (eff_check (guard (str_in result DISPOSITIONS) (ValueErr ''invalid assessment'')))
     (eff_then (log_call (Assessed evidence (str_of result)))
     (eff_bind (outside (observe c)) (\<lambda>fresh.
      if has_gap fresh \<or> ev_identity fresh \<noteq> ev_identity evidence then eff_return (''unknown'', fresh, True)
      else eff_bind (outside (clock c)) (\<lambda>t.
        if \<not> current evidence t then eff_return (''unknown'', fresh, True)
        else eff_bind (outside (clock c)) (\<lambda>t'.
          if \<not> current fresh t' then eff_return (''unknown'', fresh, True)
          else eff_return (str_of result, fresh, False)))))))"

definition act_logged :: "'s capabilities \<Rightarrow> Evidence \<Rightarrow> string \<Rightarrow> ('s weave, unit) eff" where
  "act_logged c evidence attempt =
     eff_then (log_call (Acted evidence attempt)) (outside (act c evidence attempt))"

text \<open>From the return of the action to the end.\<close>

definition reassess ::
  "'s capabilities \<Rightarrow> (Checkpoint \<Rightarrow> ('s, unit) eff) \<Rightarrow> Checkpoint \<Rightarrow> ('s weave, Checkpoint \<times> string) eff" where
  "reassess c save cp =
     (let cp = cp\<lparr>ck_pending := None, ck_disposition := ''unknown''\<rparr> in
      eff_then (save_logged save cp)
      (eff_bind (outside (observe c)) (\<lambda>after.
       let gap = eff_return (cp, ''evidence-gap'') in
       if has_gap after then gap
       else eff_bind (outside (clock c)) (\<lambda>t.
         if \<not> current after t then gap
         else eff_bind (judge c after) (\<lambda>(result, fresh, stale).
           let cp = cp\<lparr>ck_evidence := ev_identity fresh, ck_disposition := result,
             ck_valid_until := num_min (ev_valid_until after) (ev_valid_until fresh)\<rparr> in
           eff_then (save_logged save cp)
           (eff_return (cp, if stale then ''stale-assessment'' else result)))))))"

text \<open>From the decision that work is needed to the action.\<close>

definition perform ::
  "'s capabilities \<Rightarrow> (Checkpoint \<Rightarrow> ('s, unit) eff) \<Rightarrow> Evidence \<Rightarrow> Checkpoint \<Rightarrow>
    ('s weave, Checkpoint \<times> string) eff" where
  "perform c save first cp =
     eff_bind (outside (new_id c)) (\<lambda>attempt.
     eff_then (eff_check (guard (nonblank attempt) (ValueErr ''invalid new attempt identity'')))
     (let cp = cp\<lparr>ck_pending := Some (str_of attempt), ck_attempts := ck_attempts cp + 1\<rparr> in
      eff_then (save_logged save cp)
      (eff_bind (eff_try (eff_then (act_logged c first (str_of attempt)) (eff_return True))
         (\<lambda>e. eff_return False)) (\<lambda>returned.
       if returned then reassess c save cp else eff_return (cp, ''action-outcome-unknown'')))))"

definition reconcile ::
  "string \<Rightarrow> Checkpoint \<Rightarrow> 's capabilities \<Rightarrow> (Checkpoint \<Rightarrow> ('s, unit) eff) \<Rightarrow> pyval \<Rightarrow>
    ('s weave, Checkpoint \<times> string) eff" where
  "reconcile binding checkpoint c save max_attempts =
     eff_then (eff_check (guard (is_int max_attempts \<and> 0 \<le> int_of max_attempts) (ValueErr ''invalid attempt limit'')))
     (eff_bind (eff_of (make_checkpoint (PDict (asdict checkpoint)))) (\<lambda>cp.
      if ck_pending cp \<notin> {None, Some []} then eff_return (cp, ''recovery-needed'')
      else eff_bind (outside (observe c)) (\<lambda>first.
      eff_bind (outside (clock c)) (\<lambda>now.
      if has_gap first \<or> \<not> current first now then
        (let cp = cp\<lparr>ck_disposition := ''unknown''\<rparr> in
         eff_then (save_logged save cp) (eff_return (cp, ''evidence-gap'')))
      else if ck_binding cp = binding \<and> ck_evidence cp = ev_identity first \<and> ck_disposition cp = ''satisfied'' \<and>
          num_less now (ck_valid_until cp) then eff_return (cp, ''reused'')
      else eff_bind (judge c first) (\<lambda>(result, fresh, stale).
        let cp = cp\<lparr>ck_binding := binding, ck_evidence := ev_identity fresh, ck_disposition := result,
          ck_valid_until := num_min (ev_valid_until first) (ev_valid_until fresh)\<rparr> in
        eff_then (save_logged save cp)
        (if stale then eff_return (cp, ''stale-assessment'')
         else if result \<noteq> ''work-needed'' then eff_return (cp, result)
         else if int_of max_attempts \<le> ck_attempts cp then eff_return (cp, ''attempt-limit'')
         else perform c save first cp))))))"

text \<open>Building a checkpoint from the fields of another only checks them.\<close>

lemma dget_asdict [simp]:
  "dget (asdict cp @ d) ''binding'' = PStr (ck_binding cp)" "dget (asdict cp @ d) ''evidence'' = PStr (ck_evidence cp)"
  "dget (asdict cp @ d) ''disposition'' = PStr (ck_disposition cp)"
  "dget (asdict cp @ d) ''valid_until'' = number (ck_valid_until cp)"
  "dget (asdict cp @ d) ''pending'' = (case ck_pending cp of None \<Rightarrow> PNone | Some p \<Rightarrow> PStr p)"
  "dget (asdict cp @ d) ''attempts'' = PInt (ck_attempts cp)"
  "dget (asdict cp @ d) ''settlement'' = (case ck_settlement cp of None \<Rightarrow> PNone | Some r \<Rightarrow> PDict r)"
  by (simp_all add: asdict_def dget_def)

lemma checkpoint_of_asdict [simp]: "checkpoint_of (asdict cp @ d) = cp"
  by (cases "ck_valid_until cp") (auto simp: checkpoint_of_def split: option.splits)

lemma make_checkpoint_asdict:
  "make_checkpoint (PDict (asdict cp)) = Inr cp' \<longleftrightarrow> post_init (asdict cp @ asdict new_checkpoint) = None \<and> cp' = cp"
proof -
  have "keys_within (asdict cp) CHECKPOINT_FIELDS" by (simp add: keys_within_def asdict_def CHECKPOINT_FIELDS_def)
  then show ?thesis by (auto simp: make_checkpoint_def checked_eq_Inr Let_def)
qed

lemma valid_pending: "post_init (asdict cp @ d) = None \<Longrightarrow> ck_pending cp \<noteq> Some []"
  by (auto simp: post_init_def first_failure_eq_None nonblank_def is_blank_def)

section \<open>Settlement of a pending attempt\<close>

definition settle_pending :: "Checkpoint \<Rightarrow> pyval \<Rightarrow> pyval \<Rightarrow> pyval \<Rightarrow> pyval \<Rightarrow> Checkpoint res" where
  "settle_pending checkpoint binding attempt outcome receipt =
     checked (first_failure [
       guard (py_truth attempt \<and> (case ck_pending checkpoint of None \<Rightarrow> False | Some p \<Rightarrow> attempt = PStr p))
         (ValueErr ''pending attempt mismatch''),
       guard (binding = PStr (ck_binding checkpoint)) (ValueErr ''binding mismatch''),
       guard (str_in outcome [''completed'', ''not-applied'']) (ValueErr ''unresolved action outcome''),
       guard (nonblank receipt) (ValueErr ''receipt reference required'')])
     (ebind (make_checkpoint (PDict (asdict checkpoint))) (\<lambda>cp.
       Inr (cp\<lparr>ck_settlement := Some [(''attempt'', attempt), (''binding'', binding), (''outcome'', outcome),
         (''receipt'', receipt)], ck_pending := None, ck_disposition := ''unknown'', ck_valid_until := NInt 0\<rparr>)))"

end
