(* ===== verification/Weave_Store.thy ===== *)
theory Weave_Store
  imports Weave_Engine Py_Json_Ascii
begin

text \<open>
  The checkpoint host of \<^verbatim>\<open>experiments/weave/store.py\<close>. The state is the directory of the checkpoint, a map
  from file names to bytes, and the world \<open>'e\<close> the capabilities act on. Each host operation runs with an
  environment that says which of its system calls fails, and with which exception; an exception that is no
  \<open>Exception\<close> stands for the end of the process at that point.
\<close>

section \<open>File names\<close>

text \<open>\<open>PurePath.suffix\<close> and \<open>with_suffix\<close> of a file name: from the last dot, unless that is its first or last
  character.\<close>

definition stem_length :: "string \<Rightarrow> nat" where
  "stem_length name = (let after = length (takeWhile (\<lambda>c. c \<noteq> CHR ''.'') (rev name)) in
     if CHR ''.'' \<in> set name \<and> after \<noteq> 0 \<and> after + 1 < length name then length name - after - 1 else length name)"

definition suffix_of :: "string \<Rightarrow> string" where
  "suffix_of name = drop (stem_length name) name"

definition with_suffix :: "string \<Rightarrow> string \<Rightarrow> string" where
  "with_suffix name suf = take (stem_length name) name @ suf"

definition file_host :: "string \<Rightarrow> string res" where
  "file_host path = checked (guard (suffix_of path \<notin> {''.lock'', ''.tmp''})
     (ValueErr ''checkpoint path conflicts with reserved sidecar suffix'')) (Inr path)"

section \<open>The directory\<close>

type_synonym directory = "string \<rightharpoonup> string"

datatype save_point = AtOpen | AtWrite | AtReplace | AtDirectory
datatype lock_point = AtMakeDirectory | AtOpenLock | AtFlock

record save_env =
  save_fault :: "(save_point \<times> exn) option"
  torn :: string

record 'e host_env =
  caps :: "'e capabilities"
  lock_fault :: "'e \<Rightarrow> (lock_point \<times> exn) option \<times> 'e"
  read_fault :: "'e \<Rightarrow> check \<times> 'e"
  save_env_of :: "'e \<Rightarrow> save_env \<times> 'e"

record 'e host_state =
  disk :: directory
  outer :: 'e

definition store_style :: json_style where
  "store_style = \<lparr>ensure_ascii = True, sort_keys = False, item_sep = '', '', key_sep = '': ''\<rparr>"

definition checkpoint_text :: "Checkpoint \<Rightarrow> string" where
  "checkpoint_text cp = json_dumps store_style (PDict (asdict cp)) @ [CHR 0x0A]"

text \<open>\<open>json.dump(..., allow_nan=False)\<close>; the expiry is the only float.\<close>

definition json_compliant :: "Checkpoint \<Rightarrow> bool" where
  "json_compliant cp \<longleftrightarrow> num_value (ck_valid_until cp) \<notin> {FPosInf, FNegInf, FNaN}"

definition save_checkpoint :: "string \<Rightarrow> save_env \<Rightarrow> Checkpoint \<Rightarrow> directory \<Rightarrow> check \<times> directory" where
  "save_checkpoint path env cp d =
     (let target = with_suffix path ''.tmp'';
          written = d(target \<mapsto> checkpoint_text cp);
          replaced = d(target := None, path \<mapsto> checkpoint_text cp) in
      case save_fault env of
        Some (AtOpen, e) \<Rightarrow> (Some e, d)
      | Some (AtWrite, e) \<Rightarrow> (Some e, d(target \<mapsto> torn env))
      | fault \<Rightarrow>
          if \<not> json_compliant cp
          then (Some (ValueErr ''Out of range float values are not JSON compliant''), d(target \<mapsto> torn env))
          else (case fault of
            Some (AtReplace, e) \<Rightarrow> (Some e, written)
          | Some (_, e) \<Rightarrow> (Some e, replaced)
          | None \<Rightarrow> (None, replaced)))"

definition parse_checkpoint :: "string \<Rightarrow> Checkpoint res" where
  "parse_checkpoint bytes =
     (case utf8_decode bytes of None \<Rightarrow> Inl UnicodeErr
      | Some t \<Rightarrow> ebind (json_loads default_hooks t) make_checkpoint)"

definition read_checkpoint :: "string \<Rightarrow> directory \<Rightarrow> Checkpoint res" where
  "read_checkpoint path d =
     (case d path of None \<Rightarrow> Inr new_checkpoint | Some bytes \<Rightarrow> parse_checkpoint bytes)"

definition touch :: "string \<Rightarrow> directory \<Rightarrow> directory" where
  "touch name d = (case d name of None \<Rightarrow> d(name \<mapsto> []) | Some _ \<Rightarrow> d)"

section \<open>The host\<close>

definition lift_outer :: "('e, 'a) eff \<Rightarrow> ('e host_state, 'a) eff" where
  "lift_outer m = (\<lambda>h. case m (outer h) of (r, e) \<Rightarrow> (r, h\<lparr>outer := e\<rparr>))"

definition host_capabilities :: "'e capabilities \<Rightarrow> 'e host_state capabilities" where
  "host_capabilities c = \<lparr>observe = lift_outer (observe c), assess = (\<lambda>e. lift_outer (assess c e)),
     act = (\<lambda>e i. lift_outer (act c e i)), clock = lift_outer (clock c), new_id = lift_outer (new_id c)\<rparr>"

definition host_locked :: "string \<Rightarrow> 'e host_env \<Rightarrow> ('e host_state, unit) eff" where
  "host_locked path env = (\<lambda>h. case lock_fault env (outer h) of (fault, e') \<Rightarrow>
     (let h' = h\<lparr>outer := e'\<rparr>; opened = h'\<lparr>disk := touch (with_suffix path ''.lock'') (disk h)\<rparr> in
      case fault of None \<Rightarrow> (Inr (), opened)
      | Some (AtFlock, e) \<Rightarrow> (Inl e, opened)
      | Some (_, e) \<Rightarrow> (Inl e, h')))"

definition host_read :: "string \<Rightarrow> 'e host_env \<Rightarrow> ('e host_state, Checkpoint) eff" where
  "host_read path env = (\<lambda>h. case read_fault env (outer h) of
     (Some e, e') \<Rightarrow> (Inl e, h\<lparr>outer := e'\<rparr>)
   | (None, e') \<Rightarrow> (read_checkpoint path (disk h), h\<lparr>outer := e'\<rparr>))"

definition host_save :: "string \<Rightarrow> 'e host_env \<Rightarrow> Checkpoint \<Rightarrow> ('e host_state, unit) eff" where
  "host_save path env cp = (\<lambda>h. case save_env_of env (outer h) of (senv, e') \<Rightarrow>
     (case save_checkpoint path senv cp (disk h) of
        (c, d) \<Rightarrow> (checked c (Inr ()), h\<lparr>disk := d, outer := e'\<rparr>)))"

definition host_step ::
  "string \<Rightarrow> 'e host_env \<Rightarrow> string \<Rightarrow> pyval \<Rightarrow> ('e host_state weave, Checkpoint \<times> string) eff" where
  "host_step path env binding max_attempts =
     eff_then (outside (host_locked path env))
     (eff_bind (outside (host_read path env)) (\<lambda>cp.
      reconcile binding cp (host_capabilities (caps env)) (host_save path env) max_attempts))"

definition host_settle ::
  "string \<Rightarrow> 'e host_env \<Rightarrow> pyval \<Rightarrow> pyval \<Rightarrow> pyval \<Rightarrow> pyval \<Rightarrow> ('e host_state weave, Checkpoint) eff" where
  "host_settle path env binding attempt outcome receipt =
     eff_then (outside (host_locked path env))
     (eff_bind (outside (host_read path env)) (\<lambda>cp.
      eff_bind (eff_of (settle_pending cp binding attempt outcome receipt)) (\<lambda>checkpoint.
      eff_then (save_logged (host_save path env) checkpoint) (eff_return checkpoint))))"

section \<open>Names stay apart\<close>

lemma suffix_with:
  assumes "suf \<in> {''.lock'', ''.tmp''}" "suffix_of path \<notin> {''.lock'', ''.tmp''}"
  shows "with_suffix path suf \<noteq> path"
proof
  assume "with_suffix path suf = path"
  then have "take (stem_length path) path @ suf = take (stem_length path) path @ suffix_of path"
    by (simp add: with_suffix_def suffix_of_def)
  with assms show False by auto
qed

lemma with_suffix_inject: "with_suffix path a = with_suffix path b \<longleftrightarrow> a = b"
  by (simp add: with_suffix_def)

section \<open>What is stored reads back\<close>

definition legible :: "Checkpoint \<Rightarrow> bool" where
  "legible cp \<longleftrightarrow> parse_checkpoint (checkpoint_text cp) = Inr cp"

lemma read_after_save:
  assumes apart: "with_suffix path ''.tmp'' \<noteq> path" and ok: "legible cp"
    and save: "save_checkpoint path env cp d = (c, d')"
  shows "read_checkpoint path d' = (if c = None then Inr cp else read_checkpoint path d') \<and>
     (read_checkpoint path d' = read_checkpoint path d \<or> read_checkpoint path d' = Inr cp)"
  using save apart ok
  by (auto simp: save_checkpoint_def Let_def read_checkpoint_def legible_def
      split: option.splits save_point.splits prod.splits if_splits)

lemma read_touch: "name \<noteq> path \<Longrightarrow> read_checkpoint path (touch name d) = read_checkpoint path d"
  by (simp add: read_checkpoint_def touch_def split: option.splits)

text \<open>A valid checkpoint of ASCII texts with an integer expiry reads back.\<close>

definition plain_checkpoint :: "Checkpoint \<Rightarrow> bool" where
  "plain_checkpoint cp \<longleftrightarrow> post_init (asdict cp @ asdict new_checkpoint) = None \<and> ascii_items (asdict cp) \<and>
     (\<exists>n. ck_valid_until cp = NInt n) \<and>
     (case ck_settlement cp of None \<Rightarrow> True | Some d \<Rightarrow> json_plain (PDict d))"

lemma legible_plain:
  assumes "plain_checkpoint cp"
  shows "legible cp"
proof -
  let ?v = "PDict (asdict cp)" and ?style = "store_style\<lparr>ensure_ascii := False\<rparr>"
  have "json_dumps (store_style\<lparr>ensure_ascii := True\<rparr>) ?v = json_dumps ?style ?v"
    using assms by (intro json_dumps_ascii(1)) (simp add: plain_checkpoint_def)
  then have eq: "checkpoint_text cp = json_dumps ?style ?v @ [CHR 0x0A]"
    by (simp add: checkpoint_text_def store_style_def)
  have plain: "json_plain ?v"
    using assms by (auto simp: plain_checkpoint_def asdict_def split: option.splits)
  have style: "style_ok ?style" by (auto simp: style_ok_def store_style_def is_ws_def)
  have "json_loads default_hooks (json_dumps ?style ?v @ [CHR 0x0A]) = Inr ?v"
    by (rule json_loads_dumps_ws [OF style default_hooks_ok plain])
      (simp_all add: is_ws_def num_stop_def is_digit_def in_range_def)
  moreover have "utf8_valid (checkpoint_text cp)"
    unfolding checkpoint_text_def using assms
    by (intro utf8_append utf8_json_dumps(1) ascii_py_utf8(1))
      (simp_all add: plain_checkpoint_def store_style_def)
  ultimately show ?thesis
    using assms by (simp add: legible_def parse_checkpoint_def utf8_decode_def eq make_checkpoint_asdict plain_checkpoint_def)
qed

end
