(* ===== verification/Weave_Ledger.thy ===== *)
theory Weave_Ledger
  imports Weave_Store
begin

text \<open>
  What the checkpoint host promises, as a ledger: the attempt that is pending, the number of attempts ever
  begun and the actions that were performed. Every operation of the host, wherever a system call fails or the
  process ends, is one operation of the ledger of the same kind: a reconcile call may begin an attempt, and only a
  settlement of the pending attempt may release it from outside.
\<close>

section \<open>The ledger\<close>

record ledger =
  pending_attempt :: "string option"
  begun :: int
  performed :: "string list"

text \<open>What the host is asked: to reconcile with a limit of attempts, or to settle an attempt, which returns or not.\<close>

datatype ledger_label = Reconcile int | Settlement pyval bool

inductive ledger_op :: "ledger_label \<Rightarrow> ledger \<Rightarrow> ledger \<Rightarrow> bool" where
  Idle: "\<forall>a. k \<noteq> Settlement a True \<Longrightarrow> ledger_op k l l"
| Begin: "pending_attempt l = None \<Longrightarrow> begun l < limit \<Longrightarrow> a \<noteq> [] \<Longrightarrow>
    ledger_op (Reconcile limit) l (l\<lparr>pending_attempt := Some a, begun := begun l + 1\<rparr>)"
| Uncertain: "pending_attempt l = None \<Longrightarrow> begun l < limit \<Longrightarrow> a \<noteq> [] \<Longrightarrow>
    ledger_op (Reconcile limit) l (l\<lparr>pending_attempt := Some a, begun := begun l + 1, performed := performed l @ [a]\<rparr>)"
| Complete: "pending_attempt l = None \<Longrightarrow> begun l < limit \<Longrightarrow> a \<noteq> [] \<Longrightarrow>
    ledger_op (Reconcile limit) l (l\<lparr>begun := begun l + 1, performed := performed l @ [a]\<rparr>)"
| Settle: "pending_attempt l = Some a \<Longrightarrow>
    ledger_op (Settlement (PStr a) returned) l (l\<lparr>pending_attempt := None\<rparr>)"

inductive_cases ledger_opE: "ledger_op k l m"

inductive_simps ledger_op_reconcile: "ledger_op (Reconcile limit) l m"

text \<open>With an attempt pending, or with no attempt left, a reconcile call changes nothing.\<close>

lemma ledger_op_barred:
  "pending_attempt l \<noteq> None \<or> limit \<le> begun l \<Longrightarrow> ledger_op (Reconcile limit) l m \<longleftrightarrow> m = l"
  by (auto simp: ledger_op_reconcile)

fun label_within :: "int \<Rightarrow> ledger_label \<Rightarrow> bool" where
  "label_within limit (Reconcile n) \<longleftrightarrow> n \<le> limit"
| "label_within limit (Settlement a returned) \<longleftrightarrow> True"

definition within_budget :: "int \<Rightarrow> ledger \<Rightarrow> bool" where
  "within_budget limit l \<longleftrightarrow> int (length (performed l)) \<le> begun l \<and> begun l \<le> limit"

lemma budget_op: "ledger_op k l m \<Longrightarrow> label_within limit k \<Longrightarrow> within_budget limit l \<Longrightarrow> within_budget limit m"
  by (cases rule: ledger_op.cases) (auto simp: within_budget_def)

section \<open>The ledger of a host\<close>

fun acted :: "call list \<Rightarrow> string list" where
  "acted [] = []"
| "acted (Acted e a # cs) = a # acted cs"
| "acted (Saved cp # cs) = acted cs"
| "acted (SaveFailed cp # cs) = acted cs"
| "acted (Assessed e r # cs) = acted cs"

fun stored :: "call list \<Rightarrow> Checkpoint list" where
  "stored [] = []"
| "stored (Saved cp # cs) = cp # stored cs"
| "stored (SaveFailed cp # cs) = cp # stored cs"
| "stored (Acted e a # cs) = stored cs"
| "stored (Assessed e r # cs) = stored cs"

lemma acted_append [simp]: "acted (xs @ ys) = acted xs @ acted ys"
  by (induction xs rule: acted.induct) auto

lemma stored_calls_append [simp]: "stored (xs @ ys) = stored xs @ stored ys"
  by (induction xs rule: stored.induct) auto

definition ledger_of :: "Checkpoint \<Rightarrow> string list \<Rightarrow> ledger" where
  "ledger_of cp as = \<lparr>pending_attempt = ck_pending cp, begun = ck_attempts cp, performed = as\<rparr>"

definition reads :: "string \<Rightarrow> 'e host_state weave \<Rightarrow> Checkpoint res" where
  "reads path w = read_checkpoint path (disk (host w))"

text \<open>The ledger of a state: what its file reads as, with the actions in its log.\<close>

definition ledger_at :: "string \<Rightarrow> 'e host_state weave \<Rightarrow> ledger option" where
  "ledger_at path w = (case reads path w of Inl e \<Rightarrow> None | Inr cp \<Rightarrow> Some (ledger_of cp (acted (calls w))))"

text \<open>Host operations one after the other, each in an environment and with arguments of its own.\<close>

datatype 'e host_op = Do_step "'e host_env" string pyval | Do_settle "'e host_env" pyval pyval pyval pyval

fun do_op :: "string \<Rightarrow> 'e host_op \<Rightarrow> 'e host_state weave \<Rightarrow> bool \<times> 'e host_state weave" where
  "do_op path (Do_step env binding max_attempts) w =
     (case host_step path env binding max_attempts w of (r, w') \<Rightarrow> (\<not> isl r, w'))"
| "do_op path (Do_settle env binding attempt outcome receipt) w =
     (case host_settle path env binding attempt outcome receipt w of (r, w') \<Rightarrow> (\<not> isl r, w'))"

fun run_ops :: "string \<Rightarrow> 'e host_op list \<Rightarrow> 'e host_state weave \<Rightarrow> 'e host_state weave" where
  "run_ops path [] w = w"
| "run_ops path (k # ks) w = run_ops path ks (snd (do_op path k w))"

text \<open>What the ledger is asked by a host operation that returns or not.\<close>

fun label_of :: "'e host_op \<Rightarrow> bool \<Rightarrow> ledger_label" where
  "label_of (Do_step env binding max_attempts) returned = Reconcile (int_of max_attempts)"
| "label_of (Do_settle env binding attempt outcome receipt) returned = Settlement attempt returned"

section \<open>What the file holds\<close>

definition holds :: "string \<Rightarrow> 'e host_state weave \<Rightarrow> Checkpoint \<Rightarrow> bool" where
  "holds path w cp \<longleftrightarrow> (disk (host w) path = None \<and> cp = new_checkpoint) \<or>
     (disk (host w) path = Some (checkpoint_text cp) \<and> cp \<in> set (stored (calls w)))"

definition on_ledger :: "string \<Rightarrow> call list \<Rightarrow> ledger \<Rightarrow> 'e host_state weave \<Rightarrow> bool" where
  "on_ledger path base l w \<longleftrightarrow> prefix base (calls w) \<and> (\<exists>cp. holds path w cp \<and> ledger_of cp (acted (calls w)) = l)"

lemma reads_held: "holds path w cp \<Longrightarrow> list_all legible (stored (calls w)) \<Longrightarrow> reads path w = Inr cp"
  by (auto simp: holds_def reads_def read_checkpoint_def legible_def list_all_iff)

lemma save_outcome:
  assumes apart: "with_suffix path ''.tmp'' \<noteq> path" and save: "save_checkpoint path env cp d = (c, d')"
  shows "(d' path = d path \<and> c \<noteq> None) \<or> d' path = Some (checkpoint_text cp)"
  using save apart
  by (auto simp: save_checkpoint_def Let_def split: option.splits save_point.splits prod.splits if_splits)

lemma on_saved:
  assumes apart: "with_suffix path ''.tmp'' \<noteq> path"
  shows "hoare (on_ledger path base l) (save_logged (host_save path env) cp)
     (\<lambda>_. on_ledger path base (ledger_of cp (performed l)))
     (\<lambda>_ w. on_ledger path base l w \<or> on_ledger path base (ledger_of cp (performed l)) w)"
  unfolding hoare_def
proof (intro allI impI)
  fix w :: "'a host_state weave" assume "on_ledger path base l w"
  then obtain cp0 where w: "prefix base (calls w)" "holds path w cp0" "ledger_of cp0 (acted (calls w)) = l"
    by (auto simp: on_ledger_def)
  obtain senv e' where senv: "save_env_of env (outer (host w)) = (senv, e')" by (cases "save_env_of env (outer (host w))")
  obtain c d' where save: "save_checkpoint path senv cp (disk (host w)) = (c, d')"
    by (cases "save_checkpoint path senv cp (disk (host w))")
  from w(3) have acts: "performed l = acted (calls w)" by (auto simp: ledger_of_def)
  from save_outcome [OF apart save] show "case save_logged (host_save path env) cp w of
      (Inl e, w') \<Rightarrow> on_ledger path base l w' \<or> on_ledger path base (ledger_of cp (performed l)) w'
    | (Inr x, w') \<Rightarrow> on_ledger path base (ledger_of cp (performed l)) w'"
    using w save senv acts
    by (cases c) (auto simp: save_logged_def host_save_def on_ledger_def holds_def intro: exI [of _ cp0])
qed

lemma on_outside:
  "hoare (on_ledger path base l) (outside (lift_outer m)) (\<lambda>_. on_ledger path base l) (\<lambda>_. on_ledger path base l)"
  by (simp add: hoare_def outside_def lift_outer_def on_ledger_def holds_def split: prod.splits sum.splits)

lemma on_assessed:
  "hoare (on_ledger path base l) (log_call (Assessed e r)) (\<lambda>_. on_ledger path base l) E"
  by (auto simp: hoare_def log_call_def on_ledger_def holds_def)

lemma on_acted:
  "hoare (on_ledger path base l) (log_call (Acted e a)) (\<lambda>_. on_ledger path base (l\<lparr>performed := performed l @ [a]\<rparr>)) E"
  by (auto simp: hoare_def log_call_def on_ledger_def holds_def ledger_of_def)

lemma host_capabilities_simps [simp]:
  "observe (host_capabilities c) = lift_outer (observe c)" "assess (host_capabilities c) e = lift_outer (assess c e)"
  "act (host_capabilities c) e a = lift_outer (act c e a)" "clock (host_capabilities c) = lift_outer (clock c)"
  "new_id (host_capabilities c) = lift_outer (new_id c)"
  by (simp_all add: host_capabilities_def)

lemma ledger_of_updates [simp]:
  "ledger_of (cp\<lparr>ck_evidence := x\<rparr>) as = ledger_of cp as" "ledger_of (cp\<lparr>ck_disposition := y\<rparr>) as = ledger_of cp as"
  "ledger_of (cp\<lparr>ck_valid_until := t\<rparr>) as = ledger_of cp as" "ledger_of (cp\<lparr>ck_binding := z\<rparr>) as = ledger_of cp as"
  "performed (ledger_of cp as) = as"
  by (simp_all add: ledger_of_def)

section \<open>A reconcile call on the ledger\<close>

definition outcome :: "string \<Rightarrow> call list \<Rightarrow> ledger_label \<Rightarrow> ledger \<Rightarrow> 'e host_state weave \<Rightarrow> bool" where
  "outcome path base k l w \<longleftrightarrow> (\<exists>m. ledger_op k l m \<and> on_ledger path base m w)"

lemma outcomeI: "on_ledger path base m w \<Longrightarrow> ledger_op k l m \<Longrightarrow> outcome path base k l w"
  by (auto simp: outcome_def)

text \<open>Every step keeps to the phase \<open>m\<close> it starts in, or stops in an outcome.\<close>

lemma phase_pure:
  "ledger_op k l m \<Longrightarrow> hoare (on_ledger path base m) (eff_check c) (\<lambda>_. on_ledger path base m) (\<lambda>_. outcome path base k l)"
  "hoare (on_ledger path base m) (eff_return x) (\<lambda>_. on_ledger path base m) (\<lambda>_. outcome path base k l)"
  by (cases c) (auto simp: hoare_def intro: outcomeI)

lemma phase_outside:
  "ledger_op k l m \<Longrightarrow> hoare (on_ledger path base m) (outside (lift_outer f)) (\<lambda>_. on_ledger path base m)
     (\<lambda>_. outcome path base k l)"
  by (rule hoare_conseq [OF on_outside]) (auto intro: outcomeI)

lemma phase_saved:
  assumes "with_suffix path ''.tmp'' \<noteq> path" "ledger_op k l m" "ledger_op k l m'"
    "ledger_of cp (performed m) = m'"
  shows "hoare (on_ledger path base m) (save_logged (host_save path env) cp) (\<lambda>_. on_ledger path base m')
     (\<lambda>_. outcome path base k l)"
  by (rule hoare_conseq [OF on_saved [OF assms(1)]]) (use assms(2-4) in \<open>auto intro: outcomeI\<close>)

lemmas phase_rules = hoare_bind hoare_then hoare_if_same phase_outside phase_pure on_assessed

lemma phase_judge:
  "ledger_op k l m \<Longrightarrow> hoare (on_ledger path base m) (judge (host_capabilities c) e) (\<lambda>_. on_ledger path base m)
     (\<lambda>_. outcome path base k l)"
  unfolding judge_def host_capabilities_simps
  by (rule phase_rules | assumption)+

lemma phase_reassess:
  assumes apart: "with_suffix path ''.tmp'' \<noteq> path" and ops: "ledger_op k l m" "ledger_op k l m'"
    and m': "ledger_of (cp\<lparr>ck_pending := None\<rparr>) (performed m) = m'"
  shows "hoare (on_ledger path base m) (reassess (host_capabilities c) (host_save path env) cp)
     (\<lambda>_. on_ledger path base m') (\<lambda>_. outcome path base k l)"
proof -
  from m' have first: "ledger_of (cp\<lparr>ck_pending := None, ck_disposition := ''unknown''\<rparr>) (performed m) = m'" by simp
  from m' have "performed m' = performed m" by auto
  with m' have final: "ledger_of (cp\<lparr>ck_pending := None, ck_disposition := a, ck_evidence := x, ck_disposition := y,
      ck_valid_until := t\<rparr>) (performed m') = m'" for a x y t by simp
  show ?thesis
    unfolding reassess_def host_capabilities_simps Let_def case_prod_unfold
    by (rule phase_rules phase_judge phase_saved [OF apart ops first] phase_saved [OF apart ops(2, 2) final] ops)+
qed

text \<open>The action: recorded as pending, logged, performed, and reassessed when it returns.\<close>

lemma phase_perform:
  fixes c :: "'e capabilities"
  assumes apart: "with_suffix path ''.tmp'' \<noteq> path" and free: "ck_pending cp = None" and room: "ck_attempts cp < limit"
    and l: "pending_attempt l = None" "begun l = ck_attempts cp"
  shows "hoare (on_ledger path base l) (perform (host_capabilities c) (host_save path env) first cp)
     (\<lambda>_. outcome path base (Reconcile limit) l) (\<lambda>_. outcome path base (Reconcile limit) l)"
proof -
  have idle: "ledger_op (Reconcile limit) l l" by (simp add: ledger_op.Idle)
  define p where "p a = l\<lparr>pending_attempt := Some a, begun := begun l + 1\<rparr>" for a
  define q where "q a = (p a)\<lparr>performed := performed (p a) @ [a]\<rparr>" for a
  define d where "d a = l\<lparr>begun := begun l + 1, performed := performed l @ [a]\<rparr>" for a
  have ops: "ledger_op (Reconcile limit) l (p a)" "ledger_op (Reconcile limit) l (q a)" "ledger_op (Reconcile limit) l (d a)" if "a \<noteq> []" for a
    using ledger_op.intros(2-4) [of l limit a] l room that by (simp_all add: p_def q_def d_def)
  have began: "ledger_of (cp\<lparr>ck_pending := Some a, ck_attempts := ck_attempts cp + 1\<rparr>) (performed l) = p a" for a
    using l by (simp add: p_def ledger_of_def)
  have ended: "ledger_of (cp\<lparr>ck_pending := Some a, ck_attempts := n, ck_pending := None\<rparr>) (performed (q a)) = d a"
    if "n = ck_attempts cp + 1" for a n
    using l that by (simp add: q_def p_def d_def ledger_of_def)
  have acting: "hoare (on_ledger path base (p a))
      (eff_try (eff_then (act_logged (host_capabilities c) first a) (eff_return True)) (\<lambda>e. eff_return False))
      (\<lambda>_. on_ledger path base (q a)) (\<lambda>_. outcome path base (Reconcile limit) l)" if "a \<noteq> []" for a
  proof (rule hoare_try)
    show "hoare (on_ledger path base (p a)) (eff_then (act_logged (host_capabilities c) first a) (eff_return True))
        (\<lambda>_. on_ledger path base (q a)) (\<lambda>_. on_ledger path base (q a))"
      unfolding act_logged_def host_capabilities_simps q_def
      by (rule hoare_then hoare_return on_outside on_acted)+
  qed (use ops [OF that] in \<open>auto simp: hoare_def intro: outcomeI\<close>)
  have after: "hoare (on_ledger path base (q a))
      (if returned then reassess (host_capabilities c) (host_save path env) (cp\<lparr>ck_pending := Some a, ck_attempts := n\<rparr>)
       else eff_return (cp', s)) (\<lambda>_. outcome path base (Reconcile limit) l) (\<lambda>_. outcome path base (Reconcile limit) l)"
    if "a \<noteq> []" "n = ck_attempts cp + 1" for a n returned cp' s
    using ops(2, 3) [OF that(1), THEN outcomeI [rotated]]
    by (cases returned)
       (auto simp: hoare_def [of _ "eff_return _"]
         intro!: hoare_conseq [OF phase_reassess [OF apart ops(2, 3) [OF that(1)] ended [OF that(2)]]])
  show ?thesis
    unfolding perform_def host_capabilities_simps Let_def
  proof (rule hoare_bind [OF _ phase_outside [OF idle]], rule hoare_guard)
    fix attempt assume "nonblank attempt"
    then have some: "str_of attempt \<noteq> []" by (cases attempt) (auto simp: nonblank_def is_blank_def)
    show "hoare (on_ledger path base l)
        (eff_then (save_logged (host_save path env) (cp\<lparr>ck_pending := Some (str_of attempt), ck_attempts := ck_attempts cp + 1\<rparr>))
        (eff_bind (eff_try (eff_then (act_logged (host_capabilities c) first (str_of attempt)) (eff_return True))
           (\<lambda>e. eff_return False)) (\<lambda>returned.
         if returned then reassess (host_capabilities c) (host_save path env)
             (cp\<lparr>ck_pending := Some (str_of attempt), ck_attempts := ck_attempts cp + 1\<rparr>)
         else eff_return (cp\<lparr>ck_pending := Some (str_of attempt), ck_attempts := ck_attempts cp + 1\<rparr>,
             ''action-outcome-unknown''))))
        (\<lambda>_. outcome path base (Reconcile limit) l) (\<lambda>_. outcome path base (Reconcile limit) l)"
      by (rule hoare_then hoare_bind after [OF some refl] acting [OF some]
          phase_saved [OF apart idle ops(1) [OF some] began])+
  qed (auto intro: outcomeI idle)
qed

lemma phase_reconcile:
  fixes c :: "'e capabilities"
  assumes apart: "with_suffix path ''.tmp'' \<noteq> path"
    and l: "pending_attempt l = ck_pending cp" "begun l = ck_attempts cp"
  shows "hoare (on_ledger path base l) (reconcile binding cp (host_capabilities c) (host_save path env) max_attempts)
     (\<lambda>_. outcome path base (Reconcile (int_of max_attempts)) l) (\<lambda>_. outcome path base (Reconcile (int_of max_attempts)) l)"
proof -
  have idle: "ledger_op (Reconcile (int_of max_attempts)) l l" by (simp add: ledger_op.Idle)
  note out = outcomeI [OF _ idle]
  have kept: "hoare (on_ledger path base l) (eff_return x) (\<lambda>_. outcome path base (Reconcile (int_of max_attempts)) l) E" for x :: "Checkpoint \<times> string" and E
    by (simp add: hoare_def out)
  have save: "hoare (on_ledger path base l) (save_logged (host_save path env) cp') (\<lambda>_. on_ledger path base l)
      (\<lambda>_. outcome path base (Reconcile (int_of max_attempts)) l)" if "ck_pending cp' = ck_pending cp" "ck_attempts cp' = ck_attempts cp" for cp'
    by (rule phase_saved [OF apart idle idle]) (use that l in \<open>simp add: ledger_of_def\<close>)
  show ?thesis
    unfolding reconcile_def host_capabilities_simps Let_def case_prod_unfold
  proof (rule hoare_guard, rule hoare_bind_of, goal_cases)
    case (1 cp')
    then have cp': "cp' = cp" and nonempty: "ck_pending cp \<noteq> Some []"
      by (auto simp: make_checkpoint_asdict dest: valid_pending)
    have perform: "hoare (on_ledger path base l) (perform (host_capabilities c) (host_save path env) first cp'')
        (\<lambda>_. outcome path base (Reconcile (int_of max_attempts)) l) (\<lambda>_. outcome path base (Reconcile (int_of max_attempts)) l)"
      if "ck_pending cp \<in> {None, Some []}" "\<not> int_of max_attempts \<le> ck_attempts cp''" "ck_attempts cp'' = ck_attempts cp"
        "ck_pending cp'' = ck_pending cp" for first cp''
      by (rule phase_perform [OF apart]) (use that nonempty l in auto)
    show ?case
      unfolding cp'
      by (rule hoare_if_same kept hoare_then hoare_bind phase_outside [OF idle] phase_judge [OF idle] save perform |
          simp)+
  qed (auto intro: out)
qed

section \<open>Host operations on the ledger\<close>

text \<open>Only the checkpoint that the file holds and that reads back reaches the engine.\<close>

lemma on_locked:
  assumes "with_suffix path ''.lock'' \<noteq> path"
  shows "hoare (on_ledger path base l) (outside (host_locked path env)) (\<lambda>_. on_ledger path base l) (\<lambda>_. on_ledger path base l)"
  using assms by (auto simp: hoare_def outside_def host_locked_def Let_def on_ledger_def holds_def touch_def
      split: prod.splits option.splits lock_point.splits)

definition starts :: "string \<Rightarrow> call list \<Rightarrow> ledger \<Rightarrow> 'e host_state weave \<Rightarrow> bool" where
  "starts path base l w \<longleftrightarrow> on_ledger path base l w \<and> calls w = base"

lemma starts_locked:
  assumes "with_suffix path ''.lock'' \<noteq> path" "ledger_op k l l"
  shows "hoare (starts path base l) (outside (host_locked path env)) (\<lambda>_. starts path base l) (\<lambda>_. outcome path base k l)"
  using on_locked [OF assms(1), of base l env] assms(2)
  by (auto simp: hoare_def starts_def outside_def intro: outcomeI split: prod.splits sum.splits)

lemma starts_read:
  fixes env :: "'e host_env"
  assumes "list_all legible (stored base)" "ledger_op k l l"
  shows "hoare (starts path base l) (outside (host_read path env))
     (\<lambda>cp w. on_ledger path base l w \<and> pending_attempt l = ck_pending cp \<and> begun l = ck_attempts cp)
     (\<lambda>_. outcome path base k l)"
  unfolding hoare_def
proof (intro allI impI)
  fix w :: "'e host_state weave" assume "starts path base l w"
  then obtain cp where w: "calls w = base" "holds path w cp" "ledger_of cp (acted base) = l"
    by (auto simp: starts_def on_ledger_def)
  with assms have read: "reads path w = Inr cp" by (auto intro: reads_held)
  obtain r u where u: "outside (host_read path env) w = (r, u)" by (cases "outside (host_read path env) w")
  with w have "on_ledger path base l u"
    by (auto simp: outside_def host_read_def on_ledger_def holds_def split: prod.splits option.splits)
  moreover have "pending_attempt l = ck_pending cp'" "begun l = ck_attempts cp'" if "r = Inr cp'" for cp'
    using u that read w(3) by (auto simp: outside_def host_read_def reads_def ledger_of_def split: prod.splits option.splits)
  ultimately show "case outside (host_read path env) w of (Inl e, w') \<Rightarrow> outcome path base k l w'
    | (Inr cp, w') \<Rightarrow> on_ledger path base l w' \<and> pending_attempt l = ck_pending cp \<and> begun l = ck_attempts cp"
    using outcomeI [OF _ assms(2)] u by (cases r) simp_all
qed

lemma hoare_given: "(A \<Longrightarrow> B \<Longrightarrow> hoare P m Q E) \<Longrightarrow> hoare (\<lambda>s. P s \<and> A \<and> B) m Q E"
  by (auto simp: hoare_def)

lemma phase_step:
  assumes apart: "with_suffix path ''.tmp'' \<noteq> path" "with_suffix path ''.lock'' \<noteq> path"
    and base: "list_all legible (stored base)"
  shows "hoare (starts path base l) (host_step path env binding max_attempts)
     (\<lambda>_. outcome path base (Reconcile (int_of max_attempts)) l) (\<lambda>_. outcome path base (Reconcile (int_of max_attempts)) l)"
proof -
  have idle: "ledger_op (Reconcile (int_of max_attempts)) l l" by (simp add: ledger_op.Idle)
  show ?thesis
    unfolding host_step_def
    by (rule hoare_then [OF hoare_bind [OF hoare_given starts_read [OF base idle]] starts_locked [OF apart(2) idle]])
      (rule phase_reconcile [OF apart(1)])
qed

lemma phase_settle:
  assumes apart: "with_suffix path ''.tmp'' \<noteq> path" "with_suffix path ''.lock'' \<noteq> path"
    and base: "list_all legible (stored base)"
  shows "hoare (starts path base l) (host_settle path env binding attempt outc receipt)
     (\<lambda>_. outcome path base (Settlement attempt True) l) (\<lambda>_. outcome path base (Settlement attempt False) l)"
proof -
  have idle: "ledger_op (Settlement attempt False) l l" by (simp add: ledger_op.Idle)
  have save: "hoare (on_ledger path base l) (eff_then (save_logged (host_save path env) cp') (eff_return cp'))
      (\<lambda>_. outcome path base (Settlement attempt True) l) (\<lambda>_. outcome path base (Settlement attempt False) l)"
    if "settle_pending cp binding attempt outc receipt = Inr cp'" "pending_attempt l = ck_pending cp" "begun l = ck_attempts cp"
    for cp cp'
  proof -
    define m where "m = l\<lparr>pending_attempt := None\<rparr>"
    from that(1) obtain a where cp': "ck_pending cp = Some a" "attempt = PStr a" "ck_pending cp' = None"
        "ck_attempts cp' = ck_attempts cp"
      by (auto simp: settle_pending_def checked_eq_Inr first_failure_eq_None ebind_eq_Inr make_checkpoint_asdict
          split: option.splits)
    with that have op: "ledger_op (Settlement attempt returned) l m" for returned by (simp add: m_def ledger_op.Settle)
    have eq: "ledger_of cp' (performed l) = m" using cp' that by (simp add: m_def ledger_of_def)
    show ?thesis
      by (rule hoare_then [OF _ phase_saved [OF apart(1) idle op eq]]) (auto simp: hoare_def intro: outcomeI op)
  qed
  show ?thesis
    unfolding host_settle_def
    by (rule hoare_then [OF hoare_bind [OF hoare_given starts_read [OF base idle]] starts_locked [OF apart(2) idle]],
        rule hoare_bind_of, erule (2) save) (rule outcomeI [OF _ idle])
qed

section \<open>Runs of the host\<close>

text \<open>The log only grows.\<close>

definition grows :: "('s weave, 'a) eff \<Rightarrow> bool" where
  "grows m \<longleftrightarrow> (\<forall>w. prefix (calls w) (calls (snd (m w))))"

lemma grows_bind: "grows m \<Longrightarrow> (\<And>x. grows (f x)) \<Longrightarrow> grows (eff_bind m f)"
  unfolding grows_def eff_bind_def
  by (auto split: prod.splits sum.splits) (metis prefix_order.trans snd_conv)+

lemma grows_then: "grows m \<Longrightarrow> grows n \<Longrightarrow> grows (eff_then m n)"
  unfolding eff_then_def by (rule grows_bind)

lemma grows_try: "grows m \<Longrightarrow> (\<And>e. grows (h e)) \<Longrightarrow> grows (eff_try m h)"
  unfolding grows_def eff_try_def
  by (auto split: prod.splits sum.splits) (metis prefix_order.trans snd_conv)+

lemma grows_basic:
  "grows (eff_return x)" "grows (eff_check c)" "grows (eff_of r)" "grows (outside m')" "grows (log_call k)" "grows (save_logged s cp)"
  by (auto simp: grows_def eff_check_def outside_def log_call_def save_logged_def split: prod.splits sum.splits)

lemma grows_if: "grows m \<Longrightarrow> grows n \<Longrightarrow> grows (if c then m else n)"
  by simp

lemmas grows_rules = grows_bind grows_then grows_try grows_basic grows_if

lemma grows_judge: "grows (judge c e)"
  unfolding judge_def by (rule grows_rules)+

lemma grows_reassess: "grows (reassess c save cp)"
  unfolding reassess_def Let_def case_prod_unfold by (rule grows_rules grows_judge)+

lemma grows_reconcile: "grows (reconcile binding cp c save m)"
  unfolding reconcile_def perform_def act_logged_def Let_def case_prod_unfold
  by (rule grows_rules grows_judge grows_reassess)+

lemma grows_host: "grows (host_step path env binding m)" "grows (host_settle path env binding' a oc r)"
  unfolding host_step_def host_settle_def by (rule grows_rules grows_reconcile)+

definition fresh_ledger :: ledger where
  "fresh_ledger = \<lparr>pending_attempt = None, begun = 0, performed = []\<rparr>"

lemma hoare_run: "hoare P m (\<lambda>_. Q) (\<lambda>_. Q) \<Longrightarrow> P w \<Longrightarrow> m w = (r, u) \<Longrightarrow> Q u"
  by (cases r) (auto simp: hoare_def)

lemma file_host_apart:
  assumes "file_host path = Inr p"
  shows "with_suffix path ''.tmp'' \<noteq> path" "with_suffix path ''.lock'' \<noteq> path" "p = path"
  using assms suffix_with [of _ path] by (auto simp: file_host_def checked_eq_Inr)

lemma legible_prefix: "prefix (calls v) (calls u) \<Longrightarrow> list_all legible (stored (calls u)) \<Longrightarrow> list_all legible (stored (calls v))"
  by (auto simp: prefix_def)

lemma on_ledger_at: "on_ledger path base l w \<Longrightarrow> list_all legible (stored (calls w)) \<Longrightarrow> ledger_at path w = Some l"
  by (auto simp: on_ledger_def ledger_at_def reads_held)

lemma grows_op: "prefix (calls w) (calls (snd (do_op path k w)))"
proof (cases k)
  case (Do_step env binding max_attempts)
  with grows_host(1) [of path env binding max_attempts] show ?thesis by (simp add: grows_def split_beta)
next
  case (Do_settle env binding attempt outc receipt)
  with grows_host(2) [of path env binding attempt outc receipt] show ?thesis by (simp add: grows_def split_beta)
qed

lemma grows_ops: "prefix (calls w) (calls (run_ops path ks w))"
  by (induction path ks w rule: run_ops.induct) (auto intro: prefix_order.trans grows_op)

text \<open>One host operation is one operation of the ledger.\<close>

lemma op_on_ledger:
  assumes path: "file_host path = Inr p" and legible: "list_all legible (stored (calls w))"
    and l: "on_ledger path [] l w" and run: "do_op path k w = (returned, u)"
  shows "\<exists>m. ledger_op (label_of k returned) l m \<and> on_ledger path [] m u"
proof -
  note apart = file_host_apart [OF path]
  from l have start: "starts path (calls w) l w" by (simp add: starts_def on_ledger_def)
  have "\<exists>m. ledger_op (label_of k returned) l m \<and> on_ledger path (calls w) m u"
  proof (cases k)
    case (Do_step env binding max_attempts)
    with run obtain r where "host_step path env binding max_attempts w = (r, u)" by (auto split: prod.splits)
    from hoare_run [OF phase_step [OF apart(1, 2) legible] start this] Do_step show ?thesis by (simp add: outcome_def)
  next
    case (Do_settle env binding attempt outc receipt)
    with run obtain r where r: "host_settle path env binding attempt outc receipt w = (r, u)" "returned = (\<not> isl r)"
      by (auto split: prod.splits)
    with phase_settle [OF apart(1, 2) legible, of l env binding attempt outc receipt] start
    have "outcome path (calls w) (Settlement attempt returned) l u"
      by (cases r) (fastforce simp: hoare_def)+
    with Do_settle show ?thesis by (simp add: outcome_def)
  qed
  then show ?thesis by (auto simp: on_ledger_def)
qed

lemma run_on_ledger:
  assumes "file_host path = Inr p" "on_ledger path [] l w" "list_all legible (stored (calls (run_ops path ks w)))"
  shows "\<exists>m. on_ledger path [] m (run_ops path ks w)"
  using assms
proof (induction path ks w arbitrary: l rule: run_ops.induct)
  case (2 path k ks w)
  obtain returned u where u: "do_op path k w = (returned, u)" by (cases "do_op path k w")
  have "list_all legible (stored (calls w))"
    using legible_prefix [OF grows_ops [of w path "k # ks"] "2.prems"(3)] .
  from op_on_ledger [OF "2.prems"(1) this "2.prems"(2) u] obtain m where "on_ledger path [] m u" by blast
  with 2 u show ?case by simp
qed auto

text \<open>The budget holds along a run whose reconcile calls keep to the limit.\<close>

fun op_within :: "int \<Rightarrow> 'e host_op \<Rightarrow> bool" where
  "op_within limit (Do_step env binding max_attempts) \<longleftrightarrow> int_of max_attempts \<le> limit"
| "op_within limit (Do_settle env binding attempt outc receipt) \<longleftrightarrow> True"

lemma label_within_op: "op_within limit k \<Longrightarrow> label_within limit (label_of k returned)"
  by (cases k) simp_all

lemma run_in_budget:
  assumes "file_host path = Inr p" "on_ledger path [] l w" "list_all legible (stored (calls (run_ops path ks w)))"
    "within_budget limit l" "list_all (op_within limit) ks"
  shows "\<exists>m. on_ledger path [] m (run_ops path ks w) \<and> within_budget limit m"
  using assms
proof (induction path ks w arbitrary: l rule: run_ops.induct)
  case (2 path k ks w)
  obtain returned u where u: "do_op path k w = (returned, u)" by (cases "do_op path k w")
  have "list_all legible (stored (calls w))"
    using legible_prefix [OF grows_ops [of w path "k # ks"] "2.prems"(3)] .
  from op_on_ledger [OF "2.prems"(1) this "2.prems"(2) u]
  obtain m where m: "ledger_op (label_of k returned) l m" "on_ledger path [] m u" by blast
  have "within_budget limit m" using budget_op [OF m(1) label_within_op "2.prems"(4)] "2.prems"(5) by simp
  with 2 u m(2) show ?case by simp
qed auto

lemma fresh_on_ledger: "disk (host w) path = None \<Longrightarrow> calls w = [] \<Longrightarrow> on_ledger path [] fresh_ledger w"
  by (simp add: on_ledger_def holds_def fresh_ledger_def ledger_of_def new_checkpoint_def)

end
