(* ===== verification/Py_Float.thy ===== *)
theory Py_Float
  imports Py_Json
begin

text \<open>
  Arithmetic of Python's \<open>float\<close>: exact on rationals, then rounded to binary64 with ties to even, with the special
  values of IEEE 754.
\<close>

definition overflow_error :: exn where
  "overflow_error = OtherExn ''OverflowError''"

definition float_of_int :: "int \<Rightarrow> pyfloat res" where
  "float_of_int n = (case round64 (of_int n) of FFin r \<Rightarrow> Inr (FFin r) | _ \<Rightarrow> Inl overflow_error)"

text \<open>\<open>float(v)\<close> of a number.\<close>

fun py_float :: "pyval \<Rightarrow> pyfloat res" where
  "py_float (PFloat f) = Inr f"
| "py_float (PInt n) = float_of_int n"
| "py_float (PBool b) = Inr (FFin (if b then 1 else 0))"
| "py_float _ = Inl TypeErr"

definition finite_float :: "pyfloat \<Rightarrow> bool" where
  "finite_float f \<longleftrightarrow> float_num f \<noteq> None"

fun float_neg :: "pyfloat \<Rightarrow> pyfloat" where
  "float_neg (FFin r) = (if r = 0 then FNegZero else FFin (- r))"
| "float_neg FNegZero = FFin 0"
| "float_neg FPosInf = FNegInf"
| "float_neg FNegInf = FPosInf"
| "float_neg FNaN = FNaN"

fun float_add :: "pyfloat \<Rightarrow> pyfloat \<Rightarrow> pyfloat" where
  "float_add FNaN b = FNaN"
| "float_add FPosInf b = (if b = FNaN \<or> b = FNegInf then FNaN else FPosInf)"
| "float_add FNegInf b = (if b = FNaN \<or> b = FPosInf then FNaN else FNegInf)"
| "float_add FNegZero b = b"
| "float_add (FFin r) b = (case b of FFin s \<Rightarrow> round64 (r + s) | FNegZero \<Rightarrow> FFin r | _ \<Rightarrow> b)"

definition float_sub :: "pyfloat \<Rightarrow> pyfloat \<Rightarrow> pyfloat" where
  "float_sub a b = float_add a (float_neg b)"

fun float_lt :: "pyfloat \<Rightarrow> pyfloat \<Rightarrow> bool" where
  "float_lt FNaN b = False"
| "float_lt FPosInf b = False"
| "float_lt FNegInf b = (b \<noteq> FNaN \<and> b \<noteq> FNegInf)"
| "float_lt a b = (case b of FPosInf \<Rightarrow> True | FNegInf \<Rightarrow> False | FNaN \<Rightarrow> False
     | _ \<Rightarrow> (case (float_num a, float_num b) of (Some r, Some s) \<Rightarrow> r < s | _ \<Rightarrow> False))"

definition float_leq :: "pyfloat \<Rightarrow> pyfloat \<Rightarrow> bool" where
  "float_leq a b \<longleftrightarrow> float_lt a b \<or> (case (float_num a, float_num b) of (Some r, Some s) \<Rightarrow> r = s | _ \<Rightarrow> a = b \<and> a \<noteq> FNaN)"

text \<open>\<open>round(x, digits)\<close>: the nearest decimal, ties to even, read back as a float of the same sign.\<close>

definition float_round :: "nat \<Rightarrow> pyfloat \<Rightarrow> pyfloat" where
  "float_round digits f = (case f of
     FFin r \<Rightarrow> (let n = round_even (r * 10 ^ digits) in
       if n = 0 \<and> r < 0 then FNegZero else round64 (of_int n / 10 ^ digits))
   | _ \<Rightarrow> f)"

lemma float_lt_irrefl: "\<not> float_lt a a"
  by (cases a) auto

lemma float_leq_not_lt: "a \<noteq> FNaN \<Longrightarrow> b \<noteq> FNaN \<Longrightarrow> float_leq a b \<longleftrightarrow> \<not> float_lt b a"
  by (cases a; cases b) (auto simp: float_leq_def)

end
