(* ===== verification/Py_Order.thy ===== *)
theory Py_Order
  imports Py_Json
begin

text \<open>
  The order of Python's strings, by code points, is a linear order; \<open>sorted(set(...))\<close> of strings.
\<close>

lemma str_le_simps: "str_le (a # s) (b # t) \<longleftrightarrow> byte a < byte b \<or> a = b \<and> str_le s t" "str_le s [] \<longleftrightarrow> s = []"
  by (simp, cases s) auto

lemma str_le_total: "str_le s t \<or> str_le t s"
proof (induction s arbitrary: t)
  case (Cons a s)
  show ?case
  proof (cases t)
    case (Cons b t')
    then show ?thesis using Cons.IH [of t'] of_char_eq_iff [of a b, where ?'a = nat]
      by (auto simp: str_le_simps(1) simp del: str_le.simps(2) of_char_eq_iff)
  qed simp
qed simp

lemma str_le_antisym: "str_le s t \<Longrightarrow> str_le t s \<Longrightarrow> s = t"
proof (induction s arbitrary: t)
  case (Cons a s)
  then show ?case by (cases t) (auto simp: str_le_simps)
qed (simp add: str_le_simps(2))

lemma str_le_trans: "str_le s t \<Longrightarrow> str_le t u \<Longrightarrow> str_le s u"
proof (induction s arbitrary: t u)
  case (Cons a s)
  then obtain b t' c u' where "t = b # t'" "u = c # u'" by (cases t; cases u) auto
  with Cons.prems Cons.IH [of t' u'] show ?case by (auto simp: str_le_simps(1) simp del: str_le.simps(2))
qed simp

text \<open>\<open>sorted(set(...))\<close> of texts\<close>

fun insert_name :: "string \<Rightarrow> string list \<Rightarrow> string list" where
  "insert_name x [] = [x]"
| "insert_name x (y # ys) = (if x = y then y # ys else if str_le x y then x # y # ys else y # insert_name x ys)"

definition sorted_names :: "string list \<Rightarrow> string list" where
  "sorted_names xs = foldr insert_name xs []"

abbreviation str_before :: "string \<Rightarrow> string \<Rightarrow> bool" where
  "str_before s t \<equiv> str_le s t \<and> s \<noteq> t"

lemma set_insert_name: "set (insert_name x ys) = insert x (set ys)"
  by (induction ys) auto

lemma sorted_insert_name: "sorted_wrt str_before ys \<Longrightarrow> sorted_wrt str_before (insert_name x ys)"
proof (induction ys)
  case (Cons y ys)
  consider "x = y" | "x \<noteq> y" "str_le x y" | "x \<noteq> y" "str_le y x" "\<not> str_le x y" using str_le_total by blast
  then show ?case
  proof cases
    case 2
    then have "str_before x z" if "z \<in> set ys" for z
      using that Cons.prems str_le_trans [of x y z] str_le_antisym [of x y] by auto
    with 2 Cons.prems show ?thesis by auto
  next
    case 3
    with Cons show ?thesis by (auto simp: set_insert_name)
  qed (use Cons.prems in simp)
qed simp

lemma set_sorted_names [simp]: "set (sorted_names xs) = set xs"
  by (induction xs) (auto simp: sorted_names_def set_insert_name)

lemma sorted_sorted_names: "sorted_wrt str_before (sorted_names xs)"
  by (induction xs) (auto simp: sorted_names_def intro: sorted_insert_name)

end
