(* ===== verification/Weave_Evidence.thy ===== *)
theory Weave_Evidence
  imports Weave_Engine Py_Json_Ascii Py_Float Py_Order "HOL-Library.Multiset"
begin

text \<open>
  The evidence of \<^verbatim>\<open>experiments/weave/evidence.py\<close>: packed values with their identity, the file and query
  observers, and \<open>can_reuse\<close>. What the file system and SQLite answer is an argument: for a file the outcome of
  each call, for a query the columns and rows or the exception of the database.
\<close>

section \<open>Packing\<close>

text \<open>\<open>now + ttl\<close>: integers are added exactly, otherwise both are converted to floats and the sum is rounded.\<close>

fun to_float :: "pynum \<Rightarrow> pyfloat res" where
  "to_float (NInt n) = (case round64 (of_int n) of FFin r \<Rightarrow> Inr (FFin r) | _ \<Rightarrow> Inl (OtherExn ''OverflowError''))"
| "to_float (NFloat f) = Inr f"

definition num_add :: "pynum \<Rightarrow> pynum \<Rightarrow> pynum res" where
  "num_add a b = (case (a, b) of (NInt m, NInt n) \<Rightarrow> Inr (NInt (m + n))
     | _ \<Rightarrow> ebind (to_float a) (\<lambda>x. ebind (to_float b) (\<lambda>y. Inr (NFloat (float_add x y)))))"

definition payload_style :: json_style where
  "payload_style = \<lparr>ensure_ascii = False, sort_keys = True, item_sep = '','', key_sep = '':''\<rparr>"

definition plain_style :: json_style where
  "plain_style = \<lparr>ensure_ascii = False, sort_keys = False, item_sep = '', '', key_sep = '': ''\<rparr>"

definition pack :: "string \<Rightarrow> pyval \<Rightarrow> pyval \<Rightarrow> pynum \<Rightarrow> pynum \<Rightarrow> string option \<Rightarrow> Evidence res" where
  "pack source selector value now ttl gap =
     (let payload = json_dumps payload_style value in
      ebind (utf8_encode (json_dumps plain_style (PList [PStr source, selector, PStr payload,
        (case gap of None \<Rightarrow> PNone | Some g \<Rightarrow> PStr g)]))) (\<lambda>encoded.
      ebind (num_add now ttl) (\<lambda>until.
      Inr \<lparr>ev_identity = sha256_hex encoded, ev_payload = payload, ev_observed_at = now, ev_valid_until = until,
        ev_gap = gap\<rparr>)))"

section \<open>Files\<close>

record file_answer =
  fa_stat :: "bool res"
  fa_open :: check
  fa_fstat :: "bool res"
  fa_read :: "string res"

definition is_limit :: "pyval \<Rightarrow> bool" where
  "is_limit v \<longleftrightarrow> is_int v \<and> 0 \<le> int_of v"

definition regular_file :: "bool res \<Rightarrow> check" where
  "regular_file r = (case r of Inl e \<Rightarrow> Some e | Inr regular \<Rightarrow> guard regular (ValueErr ''regular file required''))"

definition bounded_text :: "file_answer \<Rightarrow> nat \<Rightarrow> string res" where
  "bounded_text f limit =
     checked (first_failure [regular_file (fa_stat f), fa_open f, regular_file (fa_fstat f)])
     (ebind (fa_read f) (\<lambda>content.
      let raw = take (limit + 1) content in
      checked (guard (length raw \<le> limit) (ValueErr ''oversize''))
      (case utf8_decode raw of None \<Rightarrow> Inl UnicodeErr | Some t \<Rightarrow> Inr t)))"

text \<open>\<open>except (OSError, UnicodeError, ValueError)\<close> and the name of the class; an \<open>OSErr\<close> carries it.\<close>

fun file_gap :: "exn \<Rightarrow> string option" where
  "file_gap (OSErr name) = Some name"
| "file_gap UnicodeErr = Some ''UnicodeDecodeError''"
| "file_gap (ValueErr m) = Some ''ValueError''"
| "file_gap _ = None"

definition file_evidence :: "string \<Rightarrow> file_answer \<Rightarrow> pynum \<Rightarrow> pynum \<Rightarrow> pyval \<Rightarrow> Evidence res" where
  "file_evidence path f now ttl limit =
     checked (guard (is_limit limit) (ValueErr ''limit must be a nonnegative integer''))
     (let selector = PStr ''utf8-file-v1'' in
      case ebind (bounded_text f (nat (int_of limit))) (\<lambda>value. pack path selector (PStr value) now ttl None) of
        Inr e \<Rightarrow> Inr e
      | Inl error \<Rightarrow> (case file_gap error of None \<Rightarrow> Inl error
          | Some name \<Rightarrow> pack path selector PNone now ttl (Some name)))"

section \<open>Queries\<close>

datatype sql_value = SNull | SInt int | SReal pyfloat | SText string | SBlob

type_synonym sql_row = "sql_value list"

text \<open>\<open>json.dumps\<close> of a row fails on a blob.\<close>

fun cell :: "sql_value \<Rightarrow> pyval" where
  "cell SNull = PNone" | "cell (SInt n) = PInt n" | "cell (SReal f) = PFloat f" | "cell (SText s) = PStr s"
| "cell SBlob = PNone"

definition row_value :: "sql_row \<Rightarrow> pyval" where
  "row_value r = PList (map cell r)"

definition row_text :: "sql_row \<Rightarrow> string" where
  "row_text r = json_dumps plain_style (row_value r)"

definition has_blob :: "sql_row list \<Rightarrow> bool" where
  "has_blob rows \<longleftrightarrow> list_ex (\<lambda>r. SBlob \<in> set r) rows"

definition ordered_rows :: "sql_row list \<Rightarrow> sql_row list" where
  "ordered_rows rows = map snd (sort_items (map (\<lambda>r. (row_text r, r)) rows))"

text \<open>\<open>dict(zip(columns, row))\<close> with distinct columns.\<close>

definition named_row :: "string list \<Rightarrow> sql_row \<Rightarrow> pyval" where
  "named_row columns r = PDict (zip columns (map cell r))"

text \<open>What the query returned: no description for a statement without result, or the columns and all rows.\<close>

type_synonym query_answer = "(string list option \<times> sql_row list) res"

definition query_value :: "bool \<Rightarrow> nat \<Rightarrow> nat \<Rightarrow> query_answer \<Rightarrow> pyval res" where
  "query_value named_rows row_limit byte_limit answer =
     ebind answer (\<lambda>(description, found).
     case description of None \<Rightarrow> Inl (ValueErr ''not a result set'')
     | Some columns \<Rightarrow>
         (let rows = take (row_limit + 1) found in
          checked (first_failure [
            guard (length rows \<le> row_limit) (ValueErr ''row limit''),
            guard (\<not> has_blob rows) TypeErr,
            guard (\<not> named_rows \<or> distinct columns) (ValueErr ''duplicate column names'')])
          (let value = PDict [(''columns'', PList (map PStr columns)),
                 (''rows'', PList (map (if named_rows then named_row columns else row_value) (ordered_rows rows)))] in
           ebind (utf8_encode (json_dumps plain_style value)) (\<lambda>encoded.
           checked (guard (length encoded \<le> byte_limit) (ValueErr ''result byte limit'')) (Inr value)))))"

text \<open>\<open>except (sqlite3.Error, ValueError, TypeError)\<close>; a \<open>UnicodeEncodeError\<close> is a \<open>ValueError\<close>.\<close>

fun query_gap :: "exn \<Rightarrow> string option" where
  "query_gap (OtherExn name) = (if take 8 name = ''sqlite3.'' then Some (drop 8 name) else None)"
| "query_gap UnicodeErr = Some ''UnicodeEncodeError''"
| "query_gap (ValueErr m) = Some ''ValueError''"
| "query_gap TypeErr = Some ''TypeError''"
| "query_gap _ = None"

definition query_evidence ::
  "string \<Rightarrow> string \<Rightarrow> pyval \<Rightarrow> query_answer \<Rightarrow> pynum \<Rightarrow> pynum \<Rightarrow> pyval \<Rightarrow> pyval \<Rightarrow> bool \<Rightarrow> Evidence res" where
  "query_evidence path query params answer now ttl row_limit byte_limit named_rows =
     checked (guard (is_limit row_limit \<and> is_limit byte_limit)
       (ValueErr ''query limits must be nonnegative integers''))
     (let selector = PList [PStr (if named_rows then ''sqlite-unordered-named-rows-v1'' else ''sqlite-unordered-rows-v1''),
            PStr query, params] in
      case ebind (query_value named_rows (nat (int_of row_limit)) (nat (int_of byte_limit)) answer) (\<lambda>value.
          pack path selector value now ttl None) of
        Inr e \<Rightarrow> Inr e
      | Inl error \<Rightarrow> (case query_gap error of None \<Rightarrow> Inl error
          | Some name \<Rightarrow> pack path selector PNone now ttl (Some name)))"

definition can_reuse :: "Evidence \<Rightarrow> Evidence \<Rightarrow> string \<Rightarrow> string \<Rightarrow> pynum \<Rightarrow> bool" where
  "can_reuse old new old_binding current_binding now \<longleftrightarrow>
     old_binding = current_binding \<and> ev_identity old = ev_identity new \<and>
     ev_gap old = None \<and> ev_gap new = None \<and> current old now \<and> current new now"

section \<open>The order of the rows does not matter\<close>

lemma insert_item_commute:
  assumes "fst x = fst y \<Longrightarrow> x = y"
  shows "insert_item x (insert_item y l) = insert_item y (insert_item x l)"
proof (cases "x = y")
  case False
  with assms have "\<not> (str_le (fst x) (fst y) \<and> str_le (fst y) (fst x))" by (auto dest: str_le_antisym)
  with str_le_total [of "fst x" "fst y"] show ?thesis
    by (induction l) (auto intro: str_le_trans)
qed simp

lemma sort_items_perm:
  assumes inj: "inj_on fst (set xs)" and perm: "mset xs = mset ys"
  shows "sort_items xs = sort_items ys"
proof -
  have "fold insert_item (rev xs) = fold insert_item (rev ys)"
  proof (rule fold_multiset_equiv)
    fix x y assume "x \<in> set (rev xs)" "y \<in> set (rev xs)"
    with inj have "fst x = fst y \<Longrightarrow> x = y" by (auto simp: inj_on_def)
    then show "insert_item x \<circ> insert_item y = insert_item y \<circ> insert_item x"
      by (auto intro!: ext insert_item_commute)
  qed (simp add: perm)
  then show ?thesis by (simp add: sort_items_def foldr_conv_fold)
qed

text \<open>Rows of nulls, integers and texts are determined by their text.\<close>

definition exact_row :: "sql_row \<Rightarrow> bool" where
  "exact_row r \<longleftrightarrow> list_all (\<lambda>c. case c of SNull \<Rightarrow> True | SInt _ \<Rightarrow> True | SText _ \<Rightarrow> True | _ \<Rightarrow> False) r"


lemma plain_style_ok: "style_ok plain_style"
  by (auto simp: style_ok_def plain_style_def is_ws_def)

lemma exact_row_plain: "exact_row r \<Longrightarrow> json_plain_list (map cell r)"
  by (induction r) (auto simp: exact_row_def split: sql_value.splits)

lemma row_text_inject:
  assumes "exact_row r" "exact_row s" "row_text r = row_text s"
  shows "r = s"
proof -
  have again: "json_loads default_hooks (row_text q) = Inr (row_value q)" if "exact_row q" for q
    unfolding row_text_def
    by (rule json_loads_dumps [OF plain_style_ok default_hooks_ok]) (simp add: row_value_def exact_row_plain that)
  from again [OF assms(1)] again [OF assms(2)] assms(3) have cells: "map cell r = map cell s" by (simp add: row_value_def)
  have "a = b" if "cell a = cell b" "exact_row [a]" "exact_row [b]" for a b
    using that by (cases a; cases b) (simp_all add: exact_row_def)
  with assms(1, 2) have "inj_on cell (set r \<union> set s)" by (auto simp: inj_on_def exact_row_def list_all_iff)
  with cells show ?thesis by (rule map_inj_on)
qed

lemma ordered_rows_perm:
  assumes "mset rows = mset rows'" "\<forall>r \<in> set rows. exact_row r"
  shows "ordered_rows rows = ordered_rows rows'"
proof -
  have "inj_on fst (set (map (\<lambda>r. (row_text r, r)) rows))"
    using assms(2) by (auto simp: inj_on_def intro: row_text_inject)
  moreover have "mset (map (\<lambda>r. (row_text r, r)) rows) = mset (map (\<lambda>r. (row_text r, r)) rows')"
    using assms(1) by (simp add: mset_map)
  ultimately have "sort_items (map (\<lambda>r. (row_text r, r)) rows) = sort_items (map (\<lambda>r. (row_text r, r)) rows')"
    by (rule sort_items_perm)
  then show ?thesis by (simp add: ordered_rows_def)
qed

lemma has_blob_perm: "mset rows = mset rows' \<Longrightarrow> has_blob rows = has_blob rows'"
  by (auto simp: has_blob_def list_ex_iff dest: mset_eq_setD)

end
