(* ===== verification/Weave_Claims.thy ===== *)
theory Weave_Claims
  imports Weave_Ledger Weave_Evidence
begin

text \<open>
  The properties of the experimental weave core, \<^verbatim>\<open>experiments/weave\<close>: one action per call and recorded
  first, the checkpoint host as a refinement of its ledger, what a satisfied verdict rests on, and evidence
  that ignores the order of rows.
\<close>

section \<open>What one call leaves in the log\<close>

text \<open>The log of a call after \<open>base\<close>, and the logs that hold no action.\<close>

definition quiet :: "call list \<Rightarrow> 's weave \<Rightarrow> bool" where
  "quiet base w \<longleftrightarrow> prefix base (calls w) \<and> acted (drop (length base) (calls w)) = []"

lemma quiet_refl: "calls w = base \<Longrightarrow> quiet base w"
  by (simp add: quiet_def)

lemma quiet_more: "quiet base w \<Longrightarrow> calls w' = calls w @ cs \<Longrightarrow> acted cs = [] \<Longrightarrow> quiet base w'"
  by (auto simp: quiet_def prefix_def)

lemma quiet_steps:
  "hoare (quiet base) (outside m) (\<lambda>_. quiet base) (\<lambda>_. quiet base)"
  "hoare (quiet base) (save_logged s cp) (\<lambda>_. quiet base) (\<lambda>_. quiet base)"
  "hoare (quiet base) (log_call (Assessed e r)) (\<lambda>_. quiet base) (\<lambda>_. quiet base)"
  "hoare (quiet base) (eff_check c) (\<lambda>_. quiet base) (\<lambda>_. quiet base)"
  "hoare (quiet base) (eff_return x) (\<lambda>_. quiet base) (\<lambda>_. quiet base)"
  by (cases c; auto simp: hoare_def outside_def save_logged_def log_call_def split: prod.splits sum.splits
      intro: quiet_more)+

lemmas quiet_rules = hoare_bind hoare_then hoare_if_same quiet_steps

lemma quiet_judge: "hoare (quiet base) (judge c e) (\<lambda>_. quiet base) (\<lambda>_. quiet base)"
  unfolding judge_def by (rule quiet_rules)+

lemma quiet_reassess: "hoare (quiet base) (reassess c save cp) (\<lambda>_. quiet base) (\<lambda>_. quiet base)"
  unfolding reassess_def Let_def case_prod_unfold by (rule quiet_rules quiet_judge)+

definition exact :: "call list \<Rightarrow> 's weave \<Rightarrow> bool" where
  "exact cs w \<longleftrightarrow> calls w = cs"

lemma exact_quiet: "acted cs = [] \<Longrightarrow> exact (base @ cs) w \<Longrightarrow> quiet base w"
  by (auto simp: quiet_def exact_def)

lemma exact_base_quiet: "exact base w \<Longrightarrow> quiet base w"
  by (simp add: exact_quiet [of "[]", simplified])

text \<open>While the log after \<open>base\<close> is \<open>cs\<close>, an exception satisfies \<open>E\<close> as soon as such a log does.\<close>

lemma exact_steps:
  "(\<And>w. exact cs w \<Longrightarrow> E w) \<Longrightarrow> hoare (exact cs) (outside m) (\<lambda>_. exact cs) (\<lambda>_. E)"
  "(\<And>w. exact (cs @ [SaveFailed cp]) w \<Longrightarrow> E w) \<Longrightarrow>
     hoare (exact cs) (save_logged s cp) (\<lambda>_. exact (cs @ [Saved cp])) (\<lambda>_. E)"
  "hoare (exact cs) (log_call k) (\<lambda>_. exact (cs @ [k])) (\<lambda>_. E)"
  by (auto simp: hoare_def exact_def outside_def save_logged_def log_call_def split: prod.splits sum.splits)

text \<open>An assessment that stands is the last entry, and the evidence is unchanged.\<close>

definition judged :: "call list \<Rightarrow> Evidence \<Rightarrow> string \<times> Evidence \<times> bool \<Rightarrow> 's weave \<Rightarrow> bool" where
  "judged base e v w \<longleftrightarrow> (case v of (result, fresh, stale) \<Rightarrow> quiet base w \<and>
     (\<not> stale \<longrightarrow> exact (base @ [Assessed e result]) w \<and> ev_identity fresh = ev_identity e))"

lemma exact_judge: "hoare (exact base) (judge c e) (judged base e) (\<lambda>_. quiet base)"
proof -
  note q0 = exact_base_quiet and q1 = exact_quiet [of "[Assessed e r]" for r, simplified]
  have stale: "hoare (exact (base @ [Assessed e r])) (eff_return (x, fresh, True)) (judged base e) E" for r x fresh E
    by (auto simp: hoare_def judged_def intro: q1)
  have ok: "hoare (exact (base @ [Assessed e r])) (eff_return (r, fresh, False)) (judged base e) E"
    if "\<not> (has_gap fresh \<or> ev_identity fresh \<noteq> ev_identity e)" for r fresh E
    using that by (auto simp: hoare_def judged_def intro: q1)
  show ?thesis
    unfolding judge_def
    by (rule hoare_bind [OF hoare_guard] hoare_then [OF _ exact_steps(3)] hoare_bind hoare_if_same
        exact_steps(1) stale ok q0 q1 | assumption)+
qed

section \<open>One action, recorded first\<close>

text \<open>The call acts on the evidence it assessed, once, directly after storing the attempt.\<close>

definition acts_recorded :: "string \<Rightarrow> Checkpoint \<Rightarrow> int \<Rightarrow> call list \<Rightarrow> bool" where
  "acts_recorded binding cp0 limit cs \<longleftrightarrow> (\<exists>e a cp post.
     cs = [Assessed e ''work-needed'', Saved cp,
       Saved (cp\<lparr>ck_pending := Some a, ck_attempts := ck_attempts cp0 + 1\<rparr>), Acted e a] @ post \<and>
     acted post = [] \<and> a \<noteq> [] \<and> \<not> has_gap e \<and> ck_binding cp = binding \<and> ck_evidence cp = ev_identity e \<and>
     ck_pending cp0 = None \<and> ck_attempts cp0 < limit)"

definition one_action :: "string \<Rightarrow> Checkpoint \<Rightarrow> int \<Rightarrow> call list \<Rightarrow> 's weave \<Rightarrow> bool" where
  "one_action binding cp0 limit base w \<longleftrightarrow> quiet base w \<or>
     (\<exists>cs. calls w = base @ cs \<and> acts_recorded binding cp0 limit cs)"

lemma quiet_one_action: "quiet base w \<Longrightarrow> one_action binding cp0 limit base w"
  by (simp add: one_action_def)

lemma exact_perform:
  assumes e: "\<not> has_gap e" "ck_binding cp = binding" "ck_evidence cp = ev_identity e"
    and cp0: "ck_pending cp0 = None" "ck_attempts cp0 < limit" "ck_attempts cp = ck_attempts cp0"
  shows "hoare (exact (base @ [Assessed e ''work-needed'', Saved cp])) (perform c save e cp)
     (\<lambda>_. one_action binding cp0 limit base) (\<lambda>_. one_action binding cp0 limit base)"
proof -
  let ?cs = "[Assessed e ''work-needed'', Saved cp]"
  let ?saved = "\<lambda>a. Saved (cp\<lparr>ck_pending := Some a, ck_attempts := ck_attempts cp0 + 1\<rparr>)"
  let ?three = "\<lambda>a. (base @ ?cs) @ [?saved a]"
  let ?four = "\<lambda>a. ?three a @ [Acted e a]"
  have early: "exact (base @ ?cs @ cs) w \<Longrightarrow> one_action binding cp0 limit base w" if "acted cs = []" for cs and w :: "'a weave"
    by (rule quiet_one_action, rule exact_quiet) (use that in auto)
  have late: "one_action binding cp0 limit base w" if "quiet (?four a) w" "a \<noteq> []" for a and w :: "'a weave"
  proof -
    from that(1) obtain post where "calls w = base @ (?cs @ [?saved a, Acted e a] @ post)" "acted post = []"
      by (auto simp: quiet_def prefix_def)
    with that(2) e cp0 show ?thesis unfolding one_action_def acts_recorded_def
      by (intro disjI2 exI [of _ "?cs @ [?saved a, Acted e a] @ post"]) auto
  qed
  have acting: "hoare (exact (?three a)) (eff_try (eff_then (act_logged c e a) (eff_return True)) (\<lambda>e. eff_return False))
      (\<lambda>_. quiet (?four a)) (\<lambda>_. one_action binding cp0 limit base)" if "a \<noteq> []" for a
  proof (rule hoare_try)
    have logged: "hoare (exact (?three a)) (log_call (Acted e a)) (\<lambda>_. quiet (?four a)) E" for E
      by (auto simp: hoare_def log_call_def exact_def quiet_def)
    show "hoare (exact (?three a)) (eff_then (act_logged c e a) (eff_return True))
        (\<lambda>_. quiet (?four a)) (\<lambda>_. quiet (?four a))"
      unfolding act_logged_def by (rule hoare_then quiet_steps logged)+
  qed (use late that in \<open>auto simp: hoare_def\<close>)
  have after: "hoare (quiet (?four a)) (if returned then reassess c save cp' else eff_return x)
      (\<lambda>_. one_action binding cp0 limit base) (\<lambda>_. one_action binding cp0 limit base)" if "a \<noteq> []" for a returned cp' x
    by (cases returned) (auto simp: hoare_def [of _ "eff_return _"] intro: late [OF _ that]
        intro!: hoare_conseq [OF quiet_reassess])
  show ?thesis
    unfolding perform_def Let_def cp0(3)
  proof (rule hoare_bind [OF hoare_guard exact_steps(1)])
    fix attempt assume "nonblank attempt"
    then have some: "str_of attempt \<noteq> []" by (cases attempt) (auto simp: nonblank_def is_blank_def)
    show "hoare (exact (base @ ?cs)) (eff_then (save_logged save (cp\<lparr>ck_pending := Some (str_of attempt), ck_attempts := ck_attempts cp0 + 1\<rparr>))
        (eff_bind (eff_try (eff_then (act_logged c e (str_of attempt)) (eff_return True)) (\<lambda>e. eff_return False)) (\<lambda>returned.
         if returned then reassess c save (cp\<lparr>ck_pending := Some (str_of attempt), ck_attempts := ck_attempts cp0 + 1\<rparr>)
         else eff_return (cp\<lparr>ck_pending := Some (str_of attempt), ck_attempts := ck_attempts cp0 + 1\<rparr>, ''action-outcome-unknown''))))
        (\<lambda>_. one_action binding cp0 limit base) (\<lambda>_. one_action binding cp0 limit base)"
      by (rule hoare_then [OF hoare_bind [OF after [OF some] acting [OF some]] exact_steps(2)])
         (rule early [of "[SaveFailed _]"], simp_all)
  qed (use early [of "[]"] in auto)
qed

lemma exact_reconcile:
  "hoare (exact base) (reconcile binding cp0 c save (PInt limit))
     (\<lambda>_. one_action binding cp0 limit base) (\<lambda>_. one_action binding cp0 limit base)"
proof -
  let ?R = "one_action binding cp0 limit base"
  note q = quiet_one_action [of base _ binding cp0 limit]
  have start: "exact base w \<Longrightarrow> ?R w" for w :: "'a weave"
    by (rule q, rule exact_base_quiet)
  have still: "hoare (quiet base) (save_logged save cp) (\<lambda>_. ?R) (\<lambda>_. ?R)" for cp
    by (rule hoare_conseq [OF quiet_steps(2)]) (auto intro: q)
  have return: "hoare P (eff_return x) (\<lambda>_. ?R) (\<lambda>_. ?R)" if "\<And>w. P w \<Longrightarrow> ?R w" for P and x :: "Checkpoint \<times> string"
    using that by (simp add: hoare_def)
  have decided: "hoare (judged base e (result, fresh, stale))
      (eff_then (save_logged save cp)
        (if stale then eff_return (cp, x) else if result \<noteq> ''work-needed'' then eff_return (cp, y)
         else if limit \<le> ck_attempts cp then eff_return (cp, z) else perform c save e cp)) (\<lambda>_. ?R) (\<lambda>_. ?R)"
    if "\<not> has_gap e" "ck_binding cp = binding" "ck_evidence cp = ev_identity fresh" "ck_pending cp0 = None"
      "ck_attempts cp = ck_attempts cp0" for e result fresh stale cp x y z
  proof (cases stale)
    case True
    have "hoare (judged base e (result, fresh, stale)) (eff_then (save_logged save cp) (eff_return (cp, x))) (\<lambda>_. ?R) (\<lambda>_. ?R)"
      by (rule hoare_then [OF return hoare_pre [OF still]]) (auto simp: judged_def)
    with True show ?thesis by simp
  next
    case False
    have saved: "exact ((base @ [Assessed e result]) @ [k]) w \<Longrightarrow> acted [k] = [] \<Longrightarrow> ?R w" for k and w :: "'a weave"
      using exact_quiet [of "[Assessed e result, k]" base w] by (simp add: q)
    have act: "hoare (exact ((base @ [Assessed e result]) @ [Saved cp])) (perform c save e cp) (\<lambda>_. ?R) (\<lambda>_. ?R)"
      if "result = ''work-needed''" "\<not> limit \<le> ck_attempts cp" "ev_identity fresh = ev_identity e"
      using exact_perform [of e cp binding cp0 limit base c save] that
        \<open>\<not> has_gap e\<close> \<open>ck_binding cp = binding\<close> \<open>ck_evidence cp = ev_identity fresh\<close> \<open>ck_pending cp0 = None\<close>
        \<open>ck_attempts cp = ck_attempts cp0\<close> by simp
    have "hoare (exact (base @ [Assessed e result]))
        (eff_then (save_logged save cp)
          (if result \<noteq> ''work-needed'' then eff_return (cp, y)
           else if limit \<le> ck_attempts cp then eff_return (cp, z) else perform c save e cp)) (\<lambda>_. ?R) (\<lambda>_. ?R)"
      if "ev_identity fresh = ev_identity e"
    proof (rule hoare_then [OF _ exact_steps(2)])
      show "hoare (exact ((base @ [Assessed e result]) @ [Saved cp]))
          (if result \<noteq> ''work-needed'' then eff_return (cp, y)
           else if limit \<le> ck_attempts cp then eff_return (cp, z) else perform c save e cp) (\<lambda>_. ?R) (\<lambda>_. ?R)"
        by (rule hoare_if_same return act that saved | simp)+
    qed (use saved in auto)
    then show ?thesis
      using False by (auto simp: hoare_def judged_def)
  qed
  note decided = decided [of _ _ "fst (snd p)" "fst p" "snd (snd p)" for p, unfolded prod.collapse]
  show ?thesis
    unfolding reconcile_def Let_def case_prod_unfold
  proof (rule hoare_guard, rule hoare_bind_of, goal_cases)
    case (1 cp)
    note given = 1
    from given have cp: "cp = cp0" and nonempty: "ck_pending cp0 \<noteq> Some []"
      by (auto simp: make_checkpoint_asdict dest: valid_pending)
    have wait: "hoare (exact base) (outside m) (\<lambda>_. exact base) (\<lambda>_. ?R)" for m :: "('a, 'b) eff"
      by (rule exact_steps(1)) (rule start)
    have free: "ck_pending cp0 = None" if "\<not> ck_pending cp0 \<notin> {None, Some []}" using that nonempty by auto
    show ?case
      unfolding cp int_of.simps
    proof (rule hoare_if_same [OF return [OF start]], assumption, rule hoare_bind [OF _ wait], rule hoare_bind [OF _ wait],
        rule hoare_if_same, goal_cases)
      case (1 first now)
      show ?case by (rule hoare_then [OF return hoare_pre [OF still]]) (auto intro: exact_base_quiet)
    next
      case (2 first now)
      then have e: "\<not> has_gap first" by simp
      have judging: "hoare (exact base) (judge c first) (judged base first) (\<lambda>_. ?R)"
        by (rule hoare_conseq [OF exact_judge]) (auto intro: q)
      show ?case
        by (rule hoare_if_same [OF return [OF start]], assumption, rule hoare_bind [OF decided judging])
           (use e free [OF 2(1)] in auto)
    qed
  qed (auto intro: start)
qed

text \<open>C9. One reconcile call performs at most one action, whatever the capabilities answer and wherever they
  raise. If it acts, then no attempt was pending and the attempts were below the limit, and its log begins
  with the assessment that found work needed on gapless evidence, the stored verdict on that very evidence
  under this binding, the stored pending attempt with the counter raised by one, and only then the action on
  the assessed evidence.\<close>

theorem reconcile_acts_once:
  assumes "reconcile binding cp c save (PInt limit) w = (r, w')"
  shows "\<exists>cs. calls w' = calls w @ cs \<and> (acted cs = [] \<or> acts_recorded binding cp limit cs)"
proof -
  have "one_action binding cp limit (calls w) w'"
    using hoare_run [OF exact_reconcile _ assms, of "calls w"] by (simp add: exact_def)
  then show ?thesis by (auto simp: one_action_def quiet_def prefix_def)
qed

section \<open>A demo host\<close>

text \<open>The world is a flag that the action repairs.\<close>

definition demo_observed :: "bool \<Rightarrow> Evidence" where
  "demo_observed ok = \<lparr>ev_identity = (if ok then ''good'' else ''bad''), ev_payload = [], ev_observed_at = NInt 0,
     ev_valid_until = NInt 60, ev_gap = None\<rparr>"

definition demo_caps :: "bool capabilities" where
  "demo_caps = \<lparr>observe = (\<lambda>ok. (Inr (demo_observed ok), ok)),
     assess = (\<lambda>e ok. (Inr (PStr (if ev_identity e = ''good'' then ''satisfied'' else ''work-needed'')), ok)),
     act = (\<lambda>e a ok. (Inr (), True)), clock = (\<lambda>ok. (Inr (NInt 1), ok)), new_id = (\<lambda>ok. (Inr (PStr ''one''), ok))\<rparr>"

definition demo_save :: "Checkpoint \<Rightarrow> (bool, unit) eff" where
  "demo_save cp = (\<lambda>ok. (Inr (), ok))"

definition demo_weave :: "bool weave" where
  "demo_weave = \<lparr>host = False, calls = []\<rparr>"

lemma new_make_checkpoint: "make_checkpoint (PDict (asdict new_checkpoint)) = Inr new_checkpoint"
  unfolding make_checkpoint_asdict
  by (simp add: new_checkpoint_def post_init_def finite_number_def is_finite_def DISPOSITIONS_def settlement_record_def
      round64_def)

lemmas demo_simps = demo_caps_def demo_observed_def demo_save_def demo_weave_def new_checkpoint_def outside_def eff_bind_def
  eff_then_def eff_try_def log_call_def save_logged_def act_logged_def DISPOSITIONS_def current_def num_le_def num_less_def
  num_min_def num_eq_def has_gap_def nonblank_def is_blank_def is_space_cp_def

lemma demo_reconcile:
  "acted (calls (snd (reconcile ''v1'' new_checkpoint demo_caps demo_save (PInt 1) demo_weave))) = [''one'']"
  "fst (reconcile ''v1'' new_checkpoint demo_caps demo_save (PInt 1) demo_weave) =
     Inr (\<lparr>ck_binding = ''v1'', ck_evidence = ''good'', ck_disposition = ''satisfied'', ck_valid_until = NInt 60,
       ck_pending = None, ck_attempts = 1, ck_settlement = None\<rparr>, ''satisfied'')"
  unfolding reconcile_def perform_def reassess_def judge_def new_make_checkpoint
  by (simp_all add: demo_simps Let_def)

lemma reconcile_acts_once_witness:
  "acts_recorded ''v1'' new_checkpoint 1 (calls (snd (reconcile ''v1'' new_checkpoint demo_caps demo_save (PInt 1) demo_weave)))"
  using reconcile_acts_once [OF surjective_pairing, of "''v1''" new_checkpoint demo_caps demo_save 1 demo_weave]
    demo_reconcile(1) by (auto simp: demo_weave_def)

section \<open>A satisfied verdict\<close>

definition verdict_stands :: "string \<Rightarrow> call list \<Rightarrow> Checkpoint \<times> string \<Rightarrow> 's weave \<Rightarrow> bool" where
  "verdict_stands binding base v w \<longleftrightarrow> (case v of (cp, status) \<Rightarrow> status = ''satisfied'' \<longrightarrow>
     (\<exists>pre e. calls w = base @ pre @ [Assessed e ''satisfied'', Saved cp] \<and> ck_binding cp = binding \<and>
        ck_evidence cp = ev_identity e \<and> ck_disposition cp = ''satisfied'' \<and> ck_pending cp = None))"

abbreviation after_base :: "call list \<Rightarrow> 's weave \<Rightarrow> bool" where
  "after_base base w \<equiv> prefix base (calls w)"

lemma after_steps:
  "hoare (after_base base) (outside m) (\<lambda>_. after_base base) (\<lambda>_ _. True)"
  "hoare (after_base base) (save_logged s cp) (\<lambda>_. after_base base) (\<lambda>_ _. True)"
  "hoare (after_base base) (act_logged c e a) (\<lambda>_. after_base base) (\<lambda>_. after_base base)"
  by (auto simp: hoare_def outside_def save_logged_def act_logged_def log_call_def eff_then_def eff_bind_def prefix_def
      split: prod.splits sum.splits)

lemma after_judge:
  "hoare (after_base base) (judge c e) (\<lambda>v w. \<exists>pre. judged (base @ pre) e v w) (\<lambda>_ _. True)"
  unfolding hoare_def
proof (intro allI impI)
  fix w :: "'a weave" assume "after_base base w"
  then obtain pre where "exact (base @ pre) w" by (auto simp: prefix_def exact_def)
  then have "judged (base @ pre) e v w'" if "judge c e w = (Inr v, w')" for v w'
    using that by (rule hoareD_value [OF exact_judge])
  then show "case judge c e w of (Inl e', w') \<Rightarrow> True | (Inr v, w') \<Rightarrow> \<exists>pre. judged (base @ pre) e v w'"
    by (force split: prod.splits sum.splits)
qed

lemma verdict_other: "status \<noteq> ''satisfied'' \<Longrightarrow> hoare P (eff_return (cp, status)) (verdict_stands binding base) E"
  by (simp add: hoare_def verdict_stands_def)

text \<open>Saving what an assessment decided, and returning it.\<close>

lemma verdict_saved:
  assumes "ck_binding cp = binding" "ck_evidence cp = ev_identity (fst (snd v))" "ck_disposition cp = fst v"
    "ck_pending cp = None" "\<not> snd (snd v)"
  shows "hoare (\<lambda>w. \<exists>pre. judged (base @ pre) e v w) (eff_then (save_logged save cp) (eff_return (cp, fst v)))
     (verdict_stands binding base) (\<lambda>_ _. True)"
  using assms by (cases v) (auto simp: hoare_def judged_def exact_def eff_then_def eff_bind_def save_logged_def verdict_stands_def
      split: prod.splits sum.splits)

lemma verdict_reassess:
  assumes "ck_binding cp = binding"
  shows "hoare (after_base base) (reassess c save cp) (verdict_stands binding base) (\<lambda>_ _. True)"
proof -
  have final: "hoare (\<lambda>w. \<exists>pre. judged (base @ pre) e v w)
      (eff_then (save_logged save cp') (eff_return (cp', if snd (snd v) then ''stale-assessment'' else fst v)))
      (verdict_stands binding base) (\<lambda>_ _. True)"
    if "ck_binding cp' = binding" "ck_evidence cp' = ev_identity (fst (snd v))" "ck_disposition cp' = fst v"
      "ck_pending cp' = None" for e v cp'
  proof (cases "snd (snd v)")
    case True
    have "hoare (\<lambda>w. \<exists>pre. judged (base @ pre) e v w) (eff_then (save_logged save cp') (eff_return (cp', ''stale-assessment'')))
        (verdict_stands binding base) (\<lambda>_ _. True)"
      by (rule hoare_then [OF verdict_other [of _ "\<lambda>_. True"]]) (auto simp: hoare_def split: prod.splits sum.splits)
    with True show ?thesis by simp
  qed (use verdict_saved [OF that] in auto)
  show ?thesis
    unfolding reassess_def Let_def case_prod_unfold
    by (rule hoare_then [OF hoare_bind [OF hoare_if_same [OF verdict_other hoare_bind [OF hoare_if_same [OF verdict_other
            hoare_bind [OF final after_judge]] after_steps(1)]] after_steps(1)] after_steps(2)])
       (use assms in simp_all)
qed

lemma verdict_reconcile:
  "hoare (after_base base) (reconcile binding cp0 c save limit) (verdict_stands binding base) (\<lambda>_ _. True)"
proof -
  have trying: "hoare (after_base base) (eff_try (eff_then (act_logged c e a) (eff_return True)) (\<lambda>e. eff_return False))
      (\<lambda>_. after_base base) (\<lambda>_ _. True)" for e a
    by (rule hoare_try [OF hoare_then [OF hoare_return after_steps(3)]]) (auto simp: hoare_def)
  have performed: "hoare (after_base base) (perform c save e cp) (verdict_stands binding base) (\<lambda>_ _. True)"
    if "ck_binding cp = binding" for e cp
    unfolding perform_def Let_def
    by (rule hoare_bind [OF hoare_guard [OF hoare_then [OF hoare_bind [OF hoare_if_same [OF verdict_reassess verdict_other]
            trying] after_steps(2)]] after_steps(1)]) (use that in simp_all)
  have saved: "hoare (\<lambda>w. \<exists>pre. judged (base @ pre) e v w) (save_logged save cp) (\<lambda>_. after_base base) (\<lambda>_ _. True)" for e v cp
    by (rule hoare_pre [OF after_steps(2)]) (auto simp: judged_def quiet_def prefix_def)
  have decided: "hoare (\<lambda>w. \<exists>pre. judged (base @ pre) e v w)
      (eff_then (save_logged save cp)
        (if snd (snd v) then eff_return (cp, ''stale-assessment'') else if fst v \<noteq> ''work-needed'' then eff_return (cp, fst v)
         else if int_of limit \<le> ck_attempts cp then eff_return (cp, ''attempt-limit'') else perform c save e cp))
      (verdict_stands binding base) (\<lambda>_ _. True)"
    if "ck_binding cp = binding" "ck_evidence cp = ev_identity (fst (snd v))" "ck_disposition cp = fst v"
      "ck_pending cp = None" for e v cp
  proof (cases "\<not> snd (snd v) \<and> fst v \<noteq> ''work-needed''")
    case True
    with verdict_saved [OF that, of base e save] show ?thesis by simp
  next
    case False
    then show ?thesis
      by (intro hoare_then [OF _ saved] hoare_if_same verdict_other performed [OF that(1)]) auto
  qed
  show ?thesis
    unfolding reconcile_def Let_def case_prod_unfold
  proof (rule hoare_guard, rule hoare_bind_of, goal_cases)
    case (1 cp)
    then have free: "ck_pending cp = None" if "\<not> ck_pending cp \<notin> {None, Some []}"
      using that by (auto simp: make_checkpoint_asdict dest: valid_pending)
    show ?case
    proof (rule hoare_if_same [OF verdict_other], simp, rule hoare_bind [OF _ after_steps(1)],
        rule hoare_bind [OF _ after_steps(1)], rule hoare_if_same, goal_cases)
      case (1 first now)
      show ?case by (rule hoare_then [OF verdict_other after_steps(2)]) simp
    next
      case (2 first now)
      show ?case
        by (rule hoare_if_same [OF verdict_other], simp, rule hoare_bind [OF _ after_judge], rule decided)
           (use free [OF 2(1)] in simp_all)
    qed
  qed simp_all
qed

text \<open>C35. When a call reports the verdict ''satisfied'', its last two entries are an assessment of some evidence as
  satisfied and the stored checkpoint it returns, which records that evidence, this binding and no pending
  attempt: no other assessment, store or action stands between that verdict and the report.\<close>

theorem satisfied_is_assessed:
  assumes "reconcile binding cp0 c save limit w = (Inr (cp, ''satisfied''), w')"
  shows "\<exists>pre e. calls w' = calls w @ pre @ [Assessed e ''satisfied'', Saved cp] \<and> ck_binding cp = binding \<and>
    ck_evidence cp = ev_identity e \<and> ck_disposition cp = ''satisfied'' \<and> ck_pending cp = None"
  using hoareD_value [OF verdict_reconcile _ assms, of "calls w"] by (simp add: verdict_stands_def)

lemma satisfied_is_assessed_witness:
  "\<exists>pre e cp. calls (snd (reconcile ''v1'' new_checkpoint demo_caps demo_save (PInt 1) demo_weave)) =
     pre @ [Assessed e ''satisfied'', Saved cp] \<and> ck_evidence cp = ev_identity e"
  using satisfied_is_assessed [OF prod_eqI [OF _ snd_conv [symmetric]], unfolded fst_conv, OF demo_reconcile(2)]
  by (auto simp: demo_weave_def)

section \<open>The host refines its ledger\<close>

text \<open>C8. The checkpoint host implements the ledger of attempts, step by step. The ledger of a state is the pending
  attempt and the attempt count that its file reads as, with the actions performed so far. A host on a new path has the
  empty ledger, and after any sequence of operations, each in an environment and with arguments of its own, wherever a
  system call of one failed or the process ended in the middle of one, the next operation takes the ledger to the next
  by one ledger operation of its own kind. A reconcile call begins an attempt only when none is pending and its
  limit allows it, performs it at most once, leaves it pending when its outcome is unknown, and otherwise changes
  nothing; a settlement only releases the very attempt that is pending, and does so whenever it returns. This holds
  provided every checkpoint that the run stores reads back from its JSON text, which \<open>legible_plain\<close> shows for ASCII
  texts and integer expiries a float can hold.\<close>

theorem host_refines_ledger:
  assumes "file_host path = Inr p" "disk (host w) path = None" "calls w = []"
    "u = run_ops path ks w" "do_op path k u = (returned, v)" "\<forall>cp \<in> set (stored (calls v)). legible cp"
  shows "ledger_at path w = Some fresh_ledger \<and>
    (\<exists>l m. ledger_at path u = Some l \<and> ledger_op (label_of k returned) l m \<and> ledger_at path v = Some m)"
proof -
  have v: "list_all legible (stored (calls v))" using assms(6) by (simp add: list_all_iff)
  have u: "list_all legible (stored (calls u))" using legible_prefix [OF grows_op [of u path k]] assms(5) v by simp
  have w: "list_all legible (stored (calls w))" by (simp add: assms(3))
  note start = fresh_on_ledger [OF assms(2, 3)]
  from run_on_ledger [OF assms(1) start] u assms(4) obtain l where l: "on_ledger path [] l u" by blast
  from op_on_ledger [OF assms(1) u l assms(5)] obtain m where "ledger_op (label_of k returned) l m" "on_ledger path [] m v"
    by blast
  with on_ledger_at [OF start w] on_ledger_at [OF l u] on_ledger_at [OF _ v] show ?thesis by blast
qed

text \<open>Over all operations of a host the actions performed never outnumber the attempts recorded in its
  checkpoint, and those never exceed the attempt limit, crashes and failing writes included.\<close>

theorem actions_within_budget:
  assumes "file_host path = Inr p" "disk (host w) path = None" "calls w = []" "u = run_ops path ks w"
    "list_all (op_within limit) ks" "\<forall>cp \<in> set (stored (calls u)). legible cp" "0 \<le> limit"
  shows "\<exists>l. ledger_at path u = Some l \<and> int (length (performed l)) \<le> begun l \<and> begun l \<le> limit"
proof -
  have u: "list_all legible (stored (calls u))" using assms(6) by (simp add: list_all_iff)
  have "within_budget limit fresh_ledger" using assms(7) by (simp add: within_budget_def fresh_ledger_def)
  from run_in_budget [OF assms(1) fresh_on_ledger [OF assms(2, 3)] _ this assms(5)] u assms(4)
  obtain l where "on_ledger path [] l u" "within_budget limit l" by blast
  with on_ledger_at [OF _ u] show ?thesis by (auto simp: within_budget_def)
qed

text \<open>A process that ends while the action runs.\<close>

definition crash_env :: "bool host_env" where
  "crash_env = \<lparr>caps = demo_caps\<lparr>act := (\<lambda>e a ok. (Inl (OtherExn ''killed''), True))\<rparr>, lock_fault = (\<lambda>ok. (None, ok)),
     read_fault = (\<lambda>ok. (None, ok)), save_env_of = (\<lambda>ok. (\<lparr>save_fault = None, torn = []\<rparr>, ok))\<rparr>"

definition weave_start :: "bool host_state weave" where
  "weave_start = \<lparr>host = \<lparr>disk = Map.empty, outer = False\<rparr>, calls = []\<rparr>"

definition demo_crashed :: "bool host_state weave" where
  "demo_crashed = snd (host_step ''cp.json'' crash_env ''v1'' (PInt 1) weave_start)"

definition demo_first :: Checkpoint where
  "demo_first = \<lparr>ck_binding = ''v1'', ck_evidence = ''bad'', ck_disposition = ''work-needed'', ck_valid_until = NInt 60,
     ck_pending = None, ck_attempts = 0, ck_settlement = None\<rparr>"

lemma demo_crashed_calls:
  "calls demo_crashed = [Assessed (demo_observed False) ''work-needed'', Saved demo_first,
     Saved (demo_first\<lparr>ck_pending := Some ''one'', ck_attempts := 1\<rparr>), Acted (demo_observed False) ''one'']"
  unfolding demo_crashed_def host_step_def reconcile_def perform_def reassess_def judge_def
  by (simp add: demo_simps weave_start_def crash_env_def demo_first_def host_locked_def host_read_def read_checkpoint_def
      host_capabilities_def lift_outer_def host_save_def save_checkpoint_def touch_def Let_def json_compliant_def
      with_suffix_def stem_length_def is_exception_def new_make_checkpoint [unfolded new_checkpoint_def])

lemma weave_run: "do_op ''cp.json'' (Do_step crash_env ''v1'' (PInt 1)) weave_start =
    (fst (do_op ''cp.json'' (Do_step crash_env ''v1'' (PInt 1)) weave_start), demo_crashed)"
  by (simp add: demo_crashed_def split_beta)

lemma demo_expiry: "round64 60 = FFin 60"
  by code_simp

lemma demo_legible: "\<forall>cp \<in> set (stored (calls demo_crashed)). legible cp"
proof -
  have "plain_checkpoint demo_first" "plain_checkpoint (demo_first\<lparr>ck_pending := Some ''one'', ck_attempts := 1\<rparr>)"
    unfolding plain_checkpoint_def
    by (simp_all add: demo_first_def post_init_def DISPOSITIONS_def finite_number_def is_finite_def settlement_record_def
        nonblank_def is_blank_def is_space_cp_def demo_expiry) (simp_all add: asdict_def)
  then show ?thesis by (simp add: demo_crashed_calls legible_plain)
qed

lemma demo_host: "file_host ''cp.json'' = Inr ''cp.json''" "disk (host weave_start) ''cp.json'' = None" "calls weave_start = []"
  by (simp_all add: file_host_def suffix_of_def stem_length_def weave_start_def)

lemma host_refines_ledger_witness:
  "\<exists>l m. ledger_at ''cp.json'' weave_start = Some l \<and> ledger_op (Reconcile 1) l m \<and>
     ledger_at ''cp.json'' demo_crashed = Some m \<and> performed m = [''one'']"
proof -
  have "weave_start = run_ops ''cp.json'' [] weave_start" by simp
  from host_refines_ledger [OF demo_host this weave_run demo_legible]
  obtain l m where ledger: "ledger_at ''cp.json'' weave_start = Some l" "ledger_op (Reconcile 1) l m"
    "ledger_at ''cp.json'' demo_crashed = Some m" by auto
  from ledger(3) have "performed m = acted (calls demo_crashed)"
    by (auto simp: ledger_at_def ledger_of_def split: sum.splits)
  with ledger show ?thesis by (auto simp: demo_crashed_calls)
qed

lemma actions_within_budget_witness:
  "\<exists>l. ledger_at ''cp.json'' demo_crashed = Some l \<and> begun l = 1"
proof -
  have "demo_crashed = run_ops ''cp.json'' [Do_step crash_env ''v1'' (PInt 1)] weave_start"
    by (simp add: demo_crashed_def split_beta)
  from actions_within_budget [OF demo_host this, of 1] demo_legible obtain l where
    l: "ledger_at ''cp.json'' demo_crashed = Some l" "int (length (performed l)) \<le> begun l" "begun l \<le> 1" by auto
  from l(1) have "performed l = acted (calls demo_crashed)"
    by (auto simp: ledger_at_def ledger_of_def split: sum.splits)
  with l show ?thesis by (auto simp: demo_crashed_calls)
qed

section \<open>Evidence ignores the order of rows\<close>

text \<open>Two query results with the same columns and the same rows in any order, duplicates counted, give
  the same evidence, identity included, or the same gap or error; the rows hold nulls, integers and texts, of
  which the canonical row text is a faithful key.\<close>

theorem query_evidence_unordered:
  assumes "mset rows = mset rows'" "\<forall>r \<in> set rows. exact_row r"
  shows "query_evidence path query params (Inr (columns, rows)) now ttl row_limit byte_limit named_rows =
    query_evidence path query params (Inr (columns, rows')) now ttl row_limit byte_limit named_rows"
proof -
  have "query_value named_rows m n (Inr (columns, rows)) = query_value named_rows m n (Inr (columns, rows'))" for m n
  proof -
    have len: "length rows = length rows'" using assms(1) by (metis size_mset)
    show ?thesis
    proof (cases "length rows \<le> m")
      case True
      with len have "take (m + 1) rows = rows" "take (m + 1) rows' = rows'" by simp_all
      then show ?thesis
        using ordered_rows_perm [OF assms] has_blob_perm [OF assms(1)] len
        by (simp add: query_value_def Let_def split: option.splits)
    next
      case False
      with len show ?thesis by (simp add: query_value_def Let_def split: option.splits)
    qed
  qed
  then show ?thesis by (simp add: query_evidence_def Let_def)
qed

lemma query_evidence_unordered_witness:
  "query_evidence ''db'' ''select'' (PList []) (Inr (Some [''n''], [[SInt 1], [SText ''x''], [SInt 1]])) (NInt 0) (NInt 60)
     (PInt 10) (PInt 100) False =
   query_evidence ''db'' ''select'' (PList []) (Inr (Some [''n''], [[SText ''x''], [SInt 1], [SInt 1]])) (NInt 0) (NInt 60)
     (PInt 10) (PInt 100) False"
  by (rule query_evidence_unordered) (simp_all add: exact_row_def)

end
