(* ===== verification/Py_Text.thy ===== *)
theory Py_Text
  imports Py_Json
begin

text \<open>
  Text operations of Python's \<open>str\<close> on the byte representation: stripping, the first line, substring search and
  replacement, and the case folding of \<^verbatim>\<open>re.IGNORECASE\<close> as far as ASCII patterns see it.
\<close>

text \<open>\<open>s.strip()\<close>\<close>

definition py_strip :: "string \<Rightarrow> string" where
  "py_strip s = concat (map utf8_of_cp
     (rev (dropWhile is_space_cp (rev (dropWhile is_space_cp (code_points s))))))"

text \<open>\<open>s.splitlines()[0]\<close> of a nonempty text\<close>

definition is_line_end :: "nat \<Rightarrow> bool" where
  "is_line_end n \<longleftrightarrow> 10 \<le> n \<and> n \<le> 13 \<or> 28 \<le> n \<and> n \<le> 30 \<or> n \<in> {133, 8232, 8233}"

definition first_line :: "string \<Rightarrow> string" where
  "first_line s = concat (map utf8_of_cp (takeWhile (\<lambda>n. \<not> is_line_end n) (code_points s)))"

definition starts_with :: "string \<Rightarrow> string \<Rightarrow> bool" where
  "starts_with p s \<longleftrightarrow> take (length p) s = p"

text \<open>\<open>w in s\<close>, and \<open>s.replace(old, new)\<close> for a nonempty \<open>old\<close>\<close>

fun occurs_in :: "string \<Rightarrow> string \<Rightarrow> bool" where
  "occurs_in w [] = (w = [])"
| "occurs_in w (c # s) = (starts_with w (c # s) \<or> occurs_in w s)"

fun replace_text :: "string \<Rightarrow> string \<Rightarrow> string \<Rightarrow> string" where
  "replace_text old new [] = []"
| "replace_text old new (c # s) =
     (if starts_with old (c # s) then new @ replace_text old new (drop (length old - 1) s)
      else c # replace_text old new s)"

text \<open>
  The characters an ASCII pattern matches without regard to case: the ASCII letters, U+0130 and U+0131 as \<open>i\<close>,
  U+017F as \<open>s\<close> and the Kelvin sign U+212A as \<open>k\<close>.
\<close>

fun fold_case :: "string \<Rightarrow> string" where
  "fold_case [] = []"
| "fold_case (a # s) =
     (if a = CHR 0xC4 \<and> (starts_with [CHR 0xB0] s \<or> starts_with [CHR 0xB1] s) then CHR ''i'' # fold_case (drop 1 s)
      else if a = CHR 0xC5 \<and> starts_with [CHR 0xBF] s then CHR ''s'' # fold_case (drop 1 s)
      else if a = CHR 0xE2 \<and> starts_with [CHR 0x84, CHR 0xAA] s then CHR ''k'' # fold_case (drop 2 s)
      else lower_char a # fold_case s)"

end
