(* ===== verification/Resolver_Profile.thy ===== *)
theory Resolver_Profile
  imports Py_Json_Ascii Py_Text
begin

text \<open>
  The launch profiles of \<^verbatim>\<open>cli/conformance/cases/adapters/windows-resolution/resolver_model.py\<close>: strict JSON,
  the closed validation of a profile (\<^verbatim>\<open>validate_profile\<close> and its helpers) and of the whole oracle
  (\<^verbatim>\<open>load_oracle\<close>). The regular expression engine is the argument \<open>rx\<close>: \<open>rx p\<close> is \<open>None\<close> when
  \<^verbatim>\<open>re.compile\<close> refuses the pattern \<open>p\<close>, and otherwise decides \<^verbatim>\<open>re.fullmatch\<close>.
\<close>

abbreviation bad :: "string \<Rightarrow> exn" where "bad \<equiv> ResolutionError"

section \<open>Constants\<close>

definition PROFILE_KEYS :: "string list" where
  "PROFILE_KEYS = [''schema'', ''profileId'', ''adapterId'', ''status'', ''platform'', ''harnessVersion'',
     ''versionPattern'', ''resolution'', ''artifacts'', ''manifest'', ''argvPrefix'', ''fixedEnvironment'',
     ''inheritedEnvironmentNames'', ''strippedEnvironmentNames'', ''claims'']"

definition CLAIM_KEYS :: "string list" where
  "CLAIM_KEYS = [''productAdmission'', ''semanticConformance'', ''releaseEligibility'']"
definition ARTIFACT_KEYS :: "string list" where
  "ARTIFACT_KEYS = [''role'', ''path'', ''size'', ''sha256'', ''format'']"
definition MANIFEST_KEYS :: "string list" where "MANIFEST_KEYS = [''artifactRole'', ''match'', ''expected'']"
definition FIXED_ENV_KEYS :: "string list" where "FIXED_ENV_KEYS = [''name'', ''value'']"
definition NATIVE_KEYS :: "string list" where
  "NATIVE_KEYS = [''kind'', ''commandNames'', ''application'', ''packageName'', ''packageRootLayouts'', ''manifestPath'']"
definition RUNTIME_KEYS :: "string list" where
  "RUNTIME_KEYS = [''kind'', ''commandNames'', ''runtimeApplication'', ''packageName'', ''packageRootLayouts'',
     ''entrypoint'', ''manifestPath'']"
definition FORMATS :: "string list" where
  "FORMATS = [''pe-x64'', ''pe-arm64'', ''utf8-lf'', ''json-utf8'', ''canonical-json-lf'']"
definition STATUSES :: "string list" where
  "STATUSES = [''provider-free-fixture'', ''research-feasible-non-admitted'']"
definition SHELL_SUFFIXES :: "string list" where "SHELL_SUFFIXES = [''.cmd'', ''.bat'', ''.ps1'']"
definition MAX_ARTIFACT_BYTES :: int where "MAX_ARTIFACT_BYTES = 1073741824"
definition MAX_ARTIFACTS :: nat where "MAX_ARTIFACTS = 64"
definition MAX_SEARCH_DIRECTORIES :: nat where "MAX_SEARCH_DIRECTORIES = 32"

definition ENVIRONMENT_NAME :: "string \<Rightarrow> bool" where
  "ENVIRONMENT_NAME s \<longleftrightarrow> (case s of [] \<Rightarrow> False
     | c # t \<Rightarrow> (is_upper c \<or> c = CHR ''_'') \<and> list_all (\<lambda>d. is_upper d \<or> is_digit d \<or> d = CHR ''_'') t)"

definition name_char :: "char \<Rightarrow> bool" where
  "name_char c \<longleftrightarrow> is_alnum c \<or> c \<in> set ''._-''"

definition IDENTIFIER :: "string \<Rightarrow> bool" where
  "IDENTIFIER s \<longleftrightarrow> (case s of [] \<Rightarrow> False
     | c # t \<Rightarrow> is_alnum c \<and> list_all (\<lambda>d. name_char d \<or> d \<in> set ''/@'') t)"

definition COMMAND_NAME :: "string \<Rightarrow> bool" where
  "COMMAND_NAME s \<longleftrightarrow> (case s of [] \<Rightarrow> False | c # t \<Rightarrow> is_alnum c \<and> list_all name_char t)"

text \<open>\<^verbatim>\<open>^(?:@[A-Za-z0-9._-]+/)?[A-Za-z0-9._-]+$\<close>\<close>

definition PACKAGE_NAME :: "string \<Rightarrow> bool" where
  "PACKAGE_NAME s \<longleftrightarrow>
     (if take 1 s = ''@'' then
        (case split_on (CHR ''/'') (drop 1 s) of [scope, name] \<Rightarrow>
           scope \<noteq> [] \<and> name \<noteq> [] \<and> list_all name_char scope \<and> list_all name_char name
         | _ \<Rightarrow> False)
      else s \<noteq> [] \<and> list_all name_char s)"

section \<open>Strict JSON\<close>

fun reject_duplicate :: "pydict \<Rightarrow> pydict \<Rightarrow> pyval res" where
  "reject_duplicate acc [] = Inr (PDict acc)"
| "reject_duplicate acc ((k, v) # ps) =
     (if has_key acc k then Inl (bad (''duplicate JSON key: '' @ k)) else reject_duplicate (acc @ [(k, v)]) ps)"

definition strict_hooks :: json_hooks where
  "strict_hooks = \<lparr>pairs_hook = reject_duplicate [], constant_hook = constant_hook default_hooks\<rparr>"

definition utf8_bom :: string where "utf8_bom = [CHR 0xEF, CHR 0xBB, CHR 0xBF]"

definition load_json_strict :: "string \<Rightarrow> pyval res" where
  "load_json_strict bytes =
     (if take 3 bytes = utf8_bom \<or> CHR 0x00 \<in> set bytes then Inl (bad ''JSON contains a forbidden encoding marker'')
      else case utf8_decode bytes of
        None \<Rightarrow> Inl (bad ''JSON is not strict UTF-8'')
      | Some t \<Rightarrow> (case json_loads strict_hooks t of
            Inl (ResolutionError m) \<Rightarrow> Inl (ResolutionError m)
          | Inl _ \<Rightarrow> Inl (bad ''JSON is not strict UTF-8'')
          | Inr v \<Rightarrow> Inr v))"

section \<open>Shared checks\<close>

text \<open>\<open>_closed\<close>, followed by a subscript with a string wherever it passes: \<open>set(value)\<close> of a list can be the
  expected set as well, and the subscript then raises; other values have no elements at all.\<close>

fun closed :: "pyval \<Rightarrow> string list \<Rightarrow> string \<Rightarrow> check" where
  "closed (PDict d) ks label = guard (keys_are d ks) (bad (label @ '' is not a closed object''))"
| "closed (PStr s) ks label = Some (bad (label @ '' is not a closed object''))"
| "closed (PList xs) ks label =
     (if list_all hashable xs \<and> \<not> (list_all (\<lambda>x. str_in x ks) xs \<and> list_all (\<lambda>k. PStr k \<in> set xs) ks)
      then Some (bad (label @ '' is not a closed object'')) else Some TypeErr)"
| "closed _ ks label = Some TypeErr"

text \<open>\<open>v in {...}\<close> for a set of strings.\<close>

definition in_set :: "pyval \<Rightarrow> string list \<Rightarrow> exn \<Rightarrow> check" where
  "in_set v ss e = (if hashable v then guard (str_in v ss) e else Some TypeErr)"

definition matches :: "(string \<Rightarrow> bool) \<Rightarrow> pyval \<Rightarrow> bool" where
  "matches p v \<longleftrightarrow> is_str v \<and> p (str_of v)"

definition false_claims :: "pyval \<Rightarrow> string list \<Rightarrow> check" where
  "false_claims v ks = first_failure [
     guard (is_dict v) (bad ''claims are not an object''),
     closed v ks ''claims'',
     guard (list_all (\<lambda>(k, x). x = PBool False) (dict_of v)) (bad ''an oracle claim is overstated'')]"

fun py_distinct :: "pyval list \<Rightarrow> bool" where
  "py_distinct [] = True"
| "py_distinct (x # xs) = (\<not> list_ex (py_eq x) xs \<and> py_distinct xs)"

text \<open>\<open>isinstance(v, list) and low <= len(v) <= high and len(v) == len(set(v))\<close>\<close>

definition distinct_list :: "pyval \<Rightarrow> nat \<Rightarrow> nat \<Rightarrow> exn \<Rightarrow> check" where
  "distinct_list v low high e =
     (if \<not> is_list v \<or> length (list_of v) < low \<or> high < length (list_of v) then Some e
      else if \<not> list_all hashable (list_of v) then Some TypeErr
      else guard (py_distinct (list_of v)) e)"

definition path_char :: "char \<Rightarrow> bool" where
  "path_char c \<longleftrightarrow> is_alnum c \<or> c \<in> set ''@._{}-''"

definition safe_relative :: "pyval \<Rightarrow> check" where
  "safe_relative v =
     (let s = str_of v; parts = split_on (CHR ''/'') s in first_failure [
       guard (is_str v \<and> s \<noteq> []) (bad ''relative path is invalid''),
       guard (utf8_valid s) UnicodeErr,
       guard (length s \<le> 1024) (bad ''relative path is invalid''),
       guard (backslash \<notin> set s \<and> CHR 0x00 \<notin> set s \<and> take 1 s \<noteq> ''/'' \<and> CHR '':'' \<notin> set s)
         (bad ''relative path is invalid''),
       guard (list_all (\<lambda>p. p \<notin> set ['''', ''.'', ''..'']) parts) (bad ''relative path contains traversal''),
       guard (list_all (list_all path_char) parts) (bad ''relative path contains a forbidden character'')])"

definition ends_with :: "string \<Rightarrow> string \<Rightarrow> bool" where
  "ends_with s suf \<longleftrightarrow> length suf \<le> length s \<and> drop (length s - length suf) s = suf"

definition command_names :: "pyval \<Rightarrow> check" where
  "command_names v = first_failure (distinct_list v 1 8 (bad ''command names are invalid'') #
     map (\<lambda>n. guard (matches COMMAND_NAME n \<and> \<not> list_ex (ends_with (py_lower (str_of n))) SHELL_SUFFIXES)
       (bad ''command name is invalid'')) (list_of v))"

section \<open>Artifacts\<close>

definition fold_path :: "string \<Rightarrow> string" where "fold_path s = map lower_char s"

definition artifact_fields :: "pydict \<Rightarrow> check" where
  "artifact_fields a = first_failure [
     guard (is_int_or_bool (dget a ''size'') \<and> 1 \<le> int_of (dget a ''size'') \<and> int_of (dget a ''size'') \<le> MAX_ARTIFACT_BYTES)
       (bad ''artifact size is invalid''),
     guard (matches (hex_string 64) (dget a ''sha256'')) (bad ''artifact digest is invalid''),
     in_set (dget a ''format'') FORMATS (bad ''artifact format is invalid'')]"

text \<open>The loop over the artifacts with the roles and folded paths seen; the result is the map by role.\<close>

fun check_artifacts :: "pyval list \<Rightarrow> (string \<times> pydict) list \<Rightarrow> string list \<Rightarrow> (string \<times> pydict) list res" where
  "check_artifacts [] seen paths = Inr seen"
| "check_artifacts (v # vs) seen paths =
     (let a = dict_of v; role = str_of (dget a ''role''); path = fold_path (str_of (dget a ''path'')) in
      checked (first_failure [
        closed v ARTIFACT_KEYS ''artifact'',
        guard (matches IDENTIFIER (dget a ''role'')) (bad ''artifact role is invalid''),
        safe_relative (dget a ''path''),
        guard (role \<notin> fst ` set seen \<and> path \<notin> set paths) (bad ''artifact role or path is duplicated''),
        artifact_fields a])
      (check_artifacts vs (seen @ [(role, a)]) (path # paths)))"

definition artifact_inventory :: "pyval \<Rightarrow> (string \<times> pydict) list res" where
  "artifact_inventory v =
     checked (guard (is_list v \<and> 1 \<le> length (list_of v) \<and> length (list_of v) \<le> MAX_ARTIFACTS)
       (bad ''artifact inventory is invalid''))
     (check_artifacts (list_of v) [] [])"

section \<open>Packages and manifests\<close>

fun count_sub :: "nat \<Rightarrow> string \<Rightarrow> string \<Rightarrow> nat" where
  "count_sub 0 sub s = 0"
| "count_sub (Suc n) sub s =
     (case s of [] \<Rightarrow> 0
      | c # t \<Rightarrow> if take (length sub) s = sub then Suc (count_sub n sub (drop (length sub) s)) else count_sub n sub t)"

text \<open>\<open>s.count(token)\<close>, where the length of the text is enough fuel, and \<open>s.replace(token, name)\<close>.\<close>

definition package_token :: string where "package_token = ''{packageName}''"

definition expand_layout :: "string \<Rightarrow> string \<Rightarrow> string" where
  "expand_layout layout name = replace_text package_token name layout"

definition required_package_resolution :: "pydict \<Rightarrow> check" where
  "required_package_resolution r = first_failure (
     [guard (matches PACKAGE_NAME (dget r ''packageName'')) (bad ''package name is invalid''),
      distinct_list (dget r ''packageRootLayouts'') 1 8 (bad ''package root layouts are invalid'')] @
     map (\<lambda>l. first_failure [
       guard (is_str l \<and> count_sub (length (str_of l)) package_token (str_of l) = 1)
         (bad ''package layout token is invalid''),
       safe_relative (PStr (expand_layout (str_of l) ''package''))]) (list_of (dget r ''packageRootLayouts'')) @
     [safe_relative (dget r ''manifestPath'')])"

definition validate_manifest_binding :: "pyval \<Rightarrow> (string \<times> pydict) list \<Rightarrow> check" where
  "validate_manifest_binding m by_role = first_failure [
     guard (is_dict m) (bad ''package manifest binding is missing''),
     closed m MANIFEST_KEYS ''manifest binding'',
     guard (dget (dict_of m) ''artifactRole'' = PStr ''package-manifest'' \<and> ''package-manifest'' \<in> fst ` set by_role)
       (bad ''package manifest artifact is not bound''),
     guard (dget (dict_of m) ''match'' = PStr ''exact-object'' \<and> is_dict (dget (dict_of m) ''expected''))
       (bad ''package manifest match is not exact'')]"

definition role_path :: "(string \<times> pydict) list \<Rightarrow> string \<Rightarrow> pyval" where
  "role_path by_role role = (case map_of by_role role of None \<Rightarrow> PNone | Some a \<Rightarrow> dget a ''path'')"

definition package_binding :: "pydict \<Rightarrow> pyval \<Rightarrow> (string \<times> pydict) list \<Rightarrow> check" where
  "package_binding r manifest by_role = first_failure [
     required_package_resolution r,
     validate_manifest_binding manifest by_role,
     guard (role_path by_role ''package-manifest'' = dget r ''manifestPath'')
       (bad ''manifest path is not bound to its artifact'')]"

definition PACKAGE_FIELDS :: "string list" where
  "PACKAGE_FIELDS = [''packageName'', ''packageRootLayouts'', ''manifestPath'']"

definition optional_package_resolution :: "pydict \<Rightarrow> pyval \<Rightarrow> (string \<times> pydict) list \<Rightarrow> check" where
  "optional_package_resolution r manifest by_role =
     (if list_ex (has_key r) PACKAGE_FIELDS then
        first_failure [guard (list_all (has_key r) PACKAGE_FIELDS) (bad ''native package resolution is incomplete''),
          package_binding r manifest by_role]
      else guard (manifest = PNone) (bad ''direct native profile cannot carry a package manifest''))"

section \<open>Environment\<close>

definition environment_names :: "pyval \<Rightarrow> string \<Rightarrow> check" where
  "environment_names v label = first_failure (
     (if \<not> is_list v then Some (bad (label @ '' environment names are invalid''))
      else distinct_list v 0 (length (list_of v)) (bad (label @ '' environment names are invalid''))) #
     map (\<lambda>n. guard (matches ENVIRONMENT_NAME n) (bad (label @ '' environment name is invalid''))) (list_of v))"

definition names_of :: "pyval \<Rightarrow> string list" where
  "names_of v = map str_of (list_of v)"

text \<open>\<open>for entry in value\<close>: a dictionary yields its keys, a string its characters.\<close>

fun elements :: "pyval \<Rightarrow> pyval list res" where
  "elements (PList xs) = Inr xs"
| "elements (PDict d) = Inr (map (\<lambda>(k, v). PStr k) d)"
| "elements (PStr s) = Inr (map (\<lambda>c. PStr [c]) s)"
| "elements _ = Inl TypeErr"

definition fixed_value :: "pyval \<Rightarrow> bool" where
  "fixed_value v \<longleftrightarrow> is_str v \<and> CHR 0x00 \<notin> set (str_of v) \<and>
     (CHR ''{'' \<notin> set (str_of v) \<or> str_of v = ''{packageRoot}'')"

fun check_fixed :: "pyval list \<Rightarrow> string list \<Rightarrow> string list res" where
  "check_fixed [] names = Inr names"
| "check_fixed (v # vs) names =
     (let d = dict_of v; name = dget d ''name'' in
      checked (first_failure [
        closed v FIXED_ENV_KEYS ''fixed environment'',
        guard (matches ENVIRONMENT_NAME name \<and> str_of name \<notin> set names)
          (bad ''fixed environment name is invalid or duplicated''),
        guard (fixed_value (dget d ''value'')) (bad ''fixed environment value is invalid'')])
      (check_fixed vs (str_of name # names)))"

definition disjoint_names :: "string list \<Rightarrow> string list \<Rightarrow> bool" where
  "disjoint_names xs ys \<longleftrightarrow> list_all (\<lambda>x. x \<notin> set ys) xs"

definition validate_environment :: "pydict \<Rightarrow> check" where
  "validate_environment p =
     (let inherited = dget p ''inheritedEnvironmentNames''; stripped = dget p ''strippedEnvironmentNames'' in
      case ebind (elements (dget p ''fixedEnvironment'')) (\<lambda>vs. check_fixed vs []) of
        Inl e \<Rightarrow> Some e
      | Inr fixed \<Rightarrow> first_failure [
          environment_names inherited ''inherited'',
          environment_names stripped ''stripped'',
          guard (disjoint_names fixed (names_of inherited @ names_of stripped) \<and>
              disjoint_names (names_of inherited) (names_of stripped)) (bad ''environment policies overlap'')])"

section \<open>Profiles\<close>

type_synonym regexes = "string \<Rightarrow> (string \<Rightarrow> bool) option"

definition profile_header :: "regexes \<Rightarrow> pydict \<Rightarrow> check" where
  "profile_header rx p = first_failure [
     guard (dget p ''schema'' = PStr ''openprose.windows-launch-profile/1'') (bad ''launch profile schema is unsupported''),
     guard (matches IDENTIFIER (dget p ''profileId'')) (bad ''profileId is invalid''),
     guard (is_str (dget p ''adapterId'') \<and> CHR ''/'' \<in> set (str_of (dget p ''adapterId''))) (bad ''adapterId is invalid''),
     in_set (dget p ''status'') STATUSES (bad ''profile status is not non-admitting''),
     in_set (dget p ''platform'') [''win32-x64'', ''win32-arm64''] (bad ''profile platform is unsupported''),
     guard (is_str (dget p ''harnessVersion'') \<and> str_of (dget p ''harnessVersion'') \<noteq> []) (bad ''harnessVersion is invalid''),
     guard (is_str (dget p ''versionPattern'') \<and> rx (str_of (dget p ''versionPattern'')) \<noteq> None)
       (bad ''versionPattern is invalid''),
     false_claims (dget p ''claims'') CLAIM_KEYS]"

definition is_exe :: "pyval \<Rightarrow> bool" where
  "is_exe v \<longleftrightarrow> ends_with (py_lower (str_of v)) ''.exe''"

definition native_check :: "pydict \<Rightarrow> pydict \<Rightarrow> pydict \<Rightarrow> (string \<times> pydict) list \<Rightarrow> check" where
  "native_check p r application by_role = first_failure [
     guard (keys_within r NATIVE_KEYS \<and> list_all (has_key r) [''kind'', ''commandNames'', ''application''])
       (bad ''native resolution shape is invalid''),
     command_names (dget r ''commandNames''),
     safe_relative (dget r ''application''),
     guard (is_exe (dget r ''application'')) (bad ''native application is not an .exe''),
     guard (dget application ''path'' = dget r ''application'') (bad ''native application is not bound to its artifact''),
     guard (dget p ''argvPrefix'' = PList []) (bad ''native argvPrefix must be empty''),
     optional_package_resolution r (dget p ''manifest'') by_role]"

definition entrypoint_prefix :: pyval where
  "entrypoint_prefix = PList [PDict [(''artifactRole'', PStr ''entrypoint'')]]"

definition runtime_check :: "pydict \<Rightarrow> pydict \<Rightarrow> pydict \<Rightarrow> (string \<times> pydict) list \<Rightarrow> check" where
  "runtime_check p r application by_role =
     (let runtime = dget r ''runtimeApplication'' in first_failure [
     closed (PDict r) RUNTIME_KEYS ''runtime resolution'',
     command_names (dget r ''commandNames''),
     guard (is_str runtime \<and> CHR ''/'' \<notin> set (str_of runtime) \<and> backslash \<notin> set (str_of runtime))
       (bad ''runtime application must be one executable name''),
     guard (is_exe runtime) (bad ''runtime application is not an .exe''),
     guard (dget application ''path'' = runtime) (bad ''runtime application is not bound to its artifact''),
     required_package_resolution r,
     safe_relative (dget r ''entrypoint''),
     guard (role_path by_role ''entrypoint'' = dget r ''entrypoint'') (bad ''entrypoint is not bound to its artifact''),
     guard (py_eq (dget p ''argvPrefix'') entrypoint_prefix) (bad ''runtime argvPrefix must bind exactly one entrypoint''),
     validate_manifest_binding (dget p ''manifest'') by_role,
     guard (role_path by_role ''package-manifest'' = dget r ''manifestPath'')
       (bad ''manifest path is not bound to its artifact'')])"

definition resolution_check :: "pydict \<Rightarrow> pydict \<Rightarrow> (string \<times> pydict) list \<Rightarrow> check" where
  "resolution_check p application by_role =
     (let v = dget p ''resolution''; r = dict_of v in
      if \<not> is_dict v then Some (bad ''resolution is not an object'')
      else if dget r ''kind'' = PStr ''native-executable'' then native_check p r application by_role
      else if dget r ''kind'' = PStr ''runtime-entrypoint'' then runtime_check p r application by_role
      else Some (bad ''resolution kind is unsupported''))"

definition validate_profile :: "regexes \<Rightarrow> pyval \<Rightarrow> check" where
  "validate_profile rx v =
     (let p = dict_of v in
      case first_failure [guard (is_dict v) (bad ''profile is not an object''), closed v PROFILE_KEYS ''profile'',
          profile_header rx p] of
        Some e \<Rightarrow> Some e
      | None \<Rightarrow>
          (case artifact_inventory (dget p ''artifacts'') of
             Inl e \<Rightarrow> Some e
           | Inr by_role \<Rightarrow>
               (case map_of by_role ''application'' of
                  None \<Rightarrow> Some (bad ''application artifact is missing or not PE'')
                | Some application \<Rightarrow> first_failure [
                    guard (take 3 (str_of (dget application ''format'')) = ''pe-'')
                      (bad ''application artifact is missing or not PE''),
                    resolution_check p application by_role,
                    validate_environment p])))"

section \<open>The oracle\<close>

definition ORACLE_KEYS :: "string list" where
  "ORACLE_KEYS = [''schema'', ''oracleVersion'', ''frozenAt'', ''scope'', ''invariants'', ''claims'', ''researchProfiles'',
     ''providerFreeProfiles'', ''blockedAdapters'', ''sources'']"

text \<open>\<open>a + b\<close> and the iteration over it.\<close>

fun concatenated :: "pyval \<Rightarrow> pyval \<Rightarrow> pyval list res" where
  "concatenated (PList xs) (PList ys) = Inr (xs @ ys)"
| "concatenated (PStr s) (PStr t) = elements (PStr (s @ t))"
| "concatenated _ _ = Inl TypeErr"

fun check_profiles :: "regexes \<Rightarrow> pyval list \<Rightarrow> string list \<Rightarrow> check" where
  "check_profiles rx [] ids = None"
| "check_profiles rx (v # vs) ids =
     (let i = str_of (dget (dict_of v) ''profileId'') in
      case first_failure [validate_profile rx v, guard (i \<notin> set ids) (bad ''profileId is duplicated'')] of
        Some e \<Rightarrow> Some e | None \<Rightarrow> check_profiles rx vs (i # ids))"

definition blocker_check :: "pyval \<Rightarrow> check" where
  "blocker_check v = first_failure [
     closed v [''adapterId'', ''frozenIdentity'', ''windowsLaunchFeasible'', ''reasons'', ''futureSafeRoute''] ''blocked adapter'',
     guard (dget (dict_of v) ''windowsLaunchFeasible'' = PBool False \<and> py_truth (dget (dict_of v) ''reasons''))
       (bad ''a blocked adapter overstates Windows feasibility'')]"

definition oracle_check :: "regexes \<Rightarrow> pydict \<Rightarrow> check" where
  "oracle_check rx d = first_failure [
     closed (PDict d) ORACLE_KEYS ''oracle'',
     guard (dget d ''schema'' = PStr ''openprose.windows-resolution-oracle/1'') (bad ''oracle schema is unsupported''),
     false_claims (dget d ''claims'')
       [''productAdmission'', ''strictWrapperAdmission'', ''semanticConformance'', ''releaseEligibility''],
     (case concatenated (dget d ''researchProfiles'') (dget d ''providerFreeProfiles'') of
        Inl e \<Rightarrow> Some e | Inr profiles \<Rightarrow> check_profiles rx profiles []),
     (case elements (dget d ''blockedAdapters'') of
        Inl e \<Rightarrow> Some e | Inr blockers \<Rightarrow> first_failure (map blocker_check blockers))]"

definition load_oracle :: "regexes \<Rightarrow> string \<Rightarrow> pydict res" where
  "load_oracle rx bytes =
     ebind (load_json_strict bytes) (\<lambda>v.
     checked (first_failure [guard (is_dict v) (bad ''oracle is not an object''), oracle_check rx (dict_of v)])
     (Inr (dict_of v)))"

section \<open>Launching\<close>

definition MAX_ARGV :: nat where "MAX_ARGV = 64"

text \<open>\<open>build_command\<close> of a resolution's application and prefix.\<close>

definition build_command :: "string \<Rightarrow> string list \<Rightarrow> pyval list \<Rightarrow> pyval list res" where
  "build_command application argv_prefix arguments =
     (let command = PStr application # map PStr argv_prefix @ arguments in
      if MAX_ARGV < length command \<or> list_ex (\<lambda>v. \<not> is_str v \<or> CHR 0x00 \<in> set (str_of v)) command
      then Inl (bad ''command exceeds the closed argv contract'') else Inr command)"

definition validate_version_output :: "regexes \<Rightarrow> pyval \<Rightarrow> pyval \<Rightarrow> bool res" where
  "validate_version_output rx profile output =
     checked (validate_profile rx profile)
     (if \<not> is_str output \<or> CHR 0x00 \<in> set (str_of output) then Inr False
      else ebind (utf8_encode (str_of output)) (\<lambda>encoded.
        if 65536 < length encoded then Inr False
        else Inr (case rx (str_of (dget (dict_of profile) ''versionPattern'')) of
          None \<Rightarrow> False | Some fullmatch \<Rightarrow> fullmatch (py_strip (str_of output)))))"

end
