(* ===== verification/Resolver_Files.thy ===== *)
theory Resolver_Files
  imports Resolver_Profile Py_Codec
begin

text \<open>
  The resolution of a profile in \<^verbatim>\<open>resolver_model.py\<close>: package roots, links below a home, the bounded read of
  an artifact, its format, the inventory, and \<^verbatim>\<open>resolve_profile\<close>. What the operating system answers is a
  record of functions on absolute POSIX paths, given by their parts; the answer to \<open>open\<close> need not fit the
  one to \<open>lstat\<close>, so a file replaced in between is covered, and reads may be short.
\<close>

section \<open>The file system\<close>

type_synonym path = "string list"

record path_stat =
  ps_link :: bool
  ps_dir :: bool
  ps_regular :: bool
  ps_attributes :: nat

text \<open>An opened file: what \<open>fstat\<close> reports, its content, and how many further bytes a read at each position
  returns at most.\<close>

record open_file =
  of_regular :: bool
  of_size :: nat
  of_content :: string
  of_grain :: "nat \<Rightarrow> nat"

record file_system =
  fs_exists :: "path \<Rightarrow> bool"
  fs_is_dir :: "path \<Rightarrow> bool"
  fs_resolve :: "path \<Rightarrow> path res"
  fs_lstat :: "path \<Rightarrow> path_stat option"
  fs_open :: "path \<Rightarrow> open_file option"

definition path_text :: "path \<Rightarrow> string" where
  "path_text p = CHR ''/'' # join_with (CHR ''/'') p"

definition resolved_text :: "file_system \<Rightarrow> path \<Rightarrow> string res" where
  "resolved_text fs p = ebind (fs_resolve fs p) (\<lambda>q. Inr (path_text q))"

section \<open>Reading an artifact\<close>

text \<open>\<open>os.read(descriptor, n)\<close> at position \<open>k\<close>: at least one byte before the end of the file.\<close>

definition sys_read :: "open_file \<Rightarrow> nat \<Rightarrow> nat \<Rightarrow> string" where
  "sys_read f k n = take (min n (Suc (of_grain f k))) (drop k (of_content f))"

function read_loop :: "open_file \<Rightarrow> nat \<Rightarrow> nat \<Rightarrow> string \<Rightarrow> string" where
  "read_loop f k remaining acc =
     (if remaining = 0 then acc
      else (let chunk = sys_read f k (min remaining 1048576) in
        if chunk = [] then acc
        else read_loop f (k + length chunk) (remaining - length chunk) (acc @ chunk)))"
  by pat_completeness auto

termination
proof (relation "measure (\<lambda>(f, k, remaining, acc). remaining)")
  fix f :: open_file and k remaining :: nat and acc chunk :: string
  assume "remaining \<noteq> 0" "chunk = sys_read f k (min remaining 1048576)" "chunk \<noteq> []"
  then show "((f, k + length chunk, remaining - length chunk, acc @ chunk), f, k, remaining, acc)
      \<in> measure (\<lambda>(f, k, remaining, acc). remaining)" by simp
qed simp

declare read_loop.simps [simp del]

definition is_link_or_reparse :: "path_stat \<Rightarrow> bool" where
  "is_link_or_reparse st \<longleftrightarrow> ps_link st \<or> odd (ps_attributes st div 1024)"

fun reject_linked_descendants :: "file_system \<Rightarrow> path \<Rightarrow> string list \<Rightarrow> check" where
  "reject_linked_descendants fs current (part # next # parts) =
     (let here = current @ [part] in
      case fs_lstat fs here of
        None \<Rightarrow> Some (bad ''artifact parent is unavailable'')
      | Some st \<Rightarrow>
          if is_link_or_reparse st then Some (bad ''intermediate artifact link is forbidden'')
          else if \<not> ps_dir st then Some (bad ''artifact parent is not a directory'')
          else reject_linked_descendants fs here (next # parts))"
| "reject_linked_descendants fs current parts = None"

definition read_final_regular_file :: "file_system \<Rightarrow> path \<Rightarrow> nat \<Rightarrow> (string \<times> string) res" where
  "read_final_regular_file fs p expected_size =
     (case fs_lstat fs p of
        None \<Rightarrow> Inl (bad ''artifact is unavailable'')
      | Some st \<Rightarrow>
          checked (first_failure [
            guard (\<not> is_link_or_reparse st) (bad ''final artifact link is forbidden''),
            guard (ps_regular st) (bad ''artifact is not a regular file''),
            guard (int expected_size \<le> MAX_ARTIFACT_BYTES) (bad ''artifact exceeds the read bound'')])
          (case fs_open fs p of
             None \<Rightarrow> Inl (bad ''artifact could not be opened without following links'')
           | Some f \<Rightarrow>
               checked (first_failure [
                 guard (of_regular f) (bad ''artifact is not a regular file''),
                 guard (of_size f = expected_size) (bad ''artifact digest or size does not match the profile'')])
               (let data = read_loop f 0 (expected_size + 1) [] in
                checked (guard (length data \<le> expected_size) (bad ''artifact grew beyond its profiled size''))
                (ebind (resolved_text fs p) (\<lambda>located. Inr (data, located))))))"

section \<open>Formats\<close>

definition le_value :: "string \<Rightarrow> nat" where "le_value s = be_value (rev s)"

definition slice :: "nat \<Rightarrow> nat \<Rightarrow> string \<Rightarrow> string" where "slice i j s = take (j - i) (drop i s)"

definition pe_check :: "string \<Rightarrow> string \<Rightarrow> check" where
  "pe_check bytes machine =
     (let offset = le_value (slice 60 64 bytes) in first_failure [
       guard (70 \<le> length bytes \<and> slice 0 2 bytes = ''MZ'') (bad ''application is not a shaped PE image''),
       guard (offset + 6 \<le> length bytes \<and> slice offset (offset + 4) bytes = [CHR ''P'', CHR ''E'', CHR 0x00, CHR 0x00])
         (bad ''application is not a shaped PE image''),
       guard (slice (offset + 4) (offset + 6) bytes = machine) (bad ''PE machine does not match the profile'')])"

definition canonical_lf_style :: json_style where
  "canonical_lf_style = \<lparr>ensure_ascii = True, sort_keys = True, item_sep = '','', key_sep = '':''\<rparr>"

definition text_check :: "string \<Rightarrow> bool \<Rightarrow> check" where
  "text_check bytes canonical = first_failure [
     guard (take 3 bytes \<noteq> utf8_bom \<and> CHR 0x00 \<notin> set bytes \<and> CHR 0x0D \<notin> set bytes \<and> ends_with bytes [CHR 0x0A])
       (bad ''text artifact normalization is invalid''),
     guard (utf8_valid bytes) (bad ''text artifact is not UTF-8''),
     (if \<not> canonical then None
      else case load_json_strict bytes of
        Inl e \<Rightarrow> Some e
      | Inr v \<Rightarrow> guard (json_dumps canonical_lf_style v @ [CHR 0x0A] = bytes) (bad ''JSON artifact is not canonical''))]"

definition validate_format :: "string \<Rightarrow> string \<Rightarrow> check" where
  "validate_format bytes format =
     (if take 3 format = ''pe-'' then
        pe_check bytes (if format = ''pe-x64'' then [CHR 0x64, CHR 0x86] else [CHR 0x64, CHR 0xAA])
      else if format \<in> {''utf8-lf'', ''canonical-json-lf''} then text_check bytes (format = ''canonical-json-lf'')
      else if format = ''json-utf8'' then check_of (load_json_strict bytes)
      else None)"

section \<open>The inventory\<close>

definition relative_parts :: "string \<Rightarrow> string list res" where
  "relative_parts value = checked (safe_relative (PStr value)) (Inr (split_on (CHR ''/'') value))"

definition is_runtime :: "pydict \<Rightarrow> bool" where
  "is_runtime p \<longleftrightarrow> dget (dict_of (dget p ''resolution'')) ''kind'' = PStr ''runtime-entrypoint''"

text \<open>One turn of the loop: the bytes of an artifact and where they were read.\<close>

definition verify_artifact :: "file_system \<Rightarrow> path \<Rightarrow> pydict \<Rightarrow> (string \<times> string) res" where
  "verify_artifact fs base a =
     ebind (relative_parts (str_of (dget a ''path''))) (\<lambda>parts.
     checked (reject_linked_descendants fs base parts)
     (ebind (read_final_regular_file fs (base @ parts) (nat (int_of (dget a ''size'')))) (\<lambda>(bytes, located).
      checked (first_failure [
        guard (int (length bytes) = int_of (dget a ''size'') \<and> sha256_hex bytes = str_of (dget a ''sha256''))
          (bad ''artifact digest or size does not match the profile''),
        validate_format bytes (str_of (dget a ''format''))])
      (Inr (bytes, located)))))"

definition artifact_base :: "pydict \<Rightarrow> path \<Rightarrow> path \<Rightarrow> pydict \<Rightarrow> path" where
  "artifact_base p application_home package_home a =
     (if is_runtime p \<and> dget a ''role'' = PStr ''application'' then application_home else package_home)"

fun verify_artifacts ::
  "file_system \<Rightarrow> (pydict \<Rightarrow> path) \<Rightarrow> pydict list \<Rightarrow> (string \<times> string) list \<Rightarrow> string list \<Rightarrow>
    ((string \<times> string) list \<times> string list) res" where
  "verify_artifacts fs base [] verified reads = Inr (verified, reads)"
| "verify_artifacts fs base (a # as) verified reads =
     ebind (verify_artifact fs (base a) a) (\<lambda>(bytes, located).
       verify_artifacts fs base as (dict_set (str_of (dget a ''role'')) bytes verified) (reads @ [located]))"

definition artifacts_of :: "pydict \<Rightarrow> pydict list" where
  "artifacts_of p = map dict_of (list_of (dget p ''artifacts''))"

definition verify_inventory :: "file_system \<Rightarrow> pydict \<Rightarrow> path \<Rightarrow> path \<Rightarrow> string list res" where
  "verify_inventory fs p application_home package_home =
     ebind (verify_artifacts fs (artifact_base p application_home package_home) (artifacts_of p) [] [])
       (\<lambda>(verified, reads).
     if dget p ''manifest'' = PNone then Inr reads
     else (let m = dict_of (dget p ''manifest'') in
       case map_of verified (str_of (dget m ''artifactRole'')) of
         None \<Rightarrow> Inl KeyErr
       | Some bytes \<Rightarrow>
           ebind (load_json_strict bytes) (\<lambda>v.
           checked (guard (py_eq v (dget m ''expected'')) (bad ''manifest does not match the exact profiled object''))
           (Inr reads))))"

section \<open>Resolution\<close>

record resolved =
  rs_profile_id :: pyval
  rs_adapter_id :: pyval
  rs_application :: string
  rs_argv_prefix :: "string list"
  rs_fixed :: "(string \<times> string) list"
  rs_inherited :: "pyval list"
  rs_stripped :: "pyval list"
  rs_reads :: "string list"
  rs_claims :: pydict

fun materialize :: "file_system \<Rightarrow> path \<Rightarrow> pyval list \<Rightarrow> (string \<times> string) list \<Rightarrow> (string \<times> string) list res" where
  "materialize fs home [] fixed = Inr fixed"
| "materialize fs home (v # vs) fixed =
     (let d = dict_of v; value = str_of (dget d ''value'') in
      ebind (if value = ''{packageRoot}'' then resolved_text fs home else Inr value) (\<lambda>s.
        materialize fs home vs (dict_set (str_of (dget d ''name'')) s fixed)))"

definition make_resolved ::
  "pydict \<Rightarrow> string \<Rightarrow> string list \<Rightarrow> (string \<times> string) list \<Rightarrow> string list \<Rightarrow> resolved" where
  "make_resolved p application argv_prefix fixed reads = \<lparr>rs_profile_id = dget p ''profileId'',
     rs_adapter_id = dget p ''adapterId'', rs_application = application, rs_argv_prefix = argv_prefix, rs_fixed = fixed,
     rs_inherited = list_of (dget p ''inheritedEnvironmentNames''),
     rs_stripped = list_of (dget p ''strippedEnvironmentNames''), rs_reads = reads, rs_claims = dict_of (dget p ''claims'')\<rparr>"

fun package_roots :: "file_system \<Rightarrow> path \<Rightarrow> string list \<Rightarrow> string \<Rightarrow> path list res" where
  "package_roots fs directory [] package_name = Inr []"
| "package_roots fs directory (layout # layouts) package_name =
     ebind (relative_parts (expand_layout layout package_name)) (\<lambda>parts.
     if fs_exists fs (directory @ parts) \<and> fs_is_dir fs (directory @ parts) then
       ebind (fs_resolve fs (directory @ parts)) (\<lambda>home.
       ebind (package_roots fs directory layouts package_name) (\<lambda>roots. Inr (home # roots)))
     else package_roots fs directory layouts package_name)"

text \<open>The candidate below one root: \<open>None\<close> where a file that must exist does not.\<close>

definition candidate_at :: "file_system \<Rightarrow> pydict \<Rightarrow> path \<Rightarrow> path \<Rightarrow> path \<Rightarrow> (string list res) \<Rightarrow> resolved res" where
  "candidate_at fs p directory home application argv_prefix =
     ebind (verify_inventory fs p directory home) (\<lambda>reads.
     ebind (materialize fs home (list_of (dget p ''fixedEnvironment'')) []) (\<lambda>fixed.
     ebind (resolved_text fs application) (\<lambda>app.
     ebind argv_prefix (\<lambda>pre. Inr (make_resolved p app pre fixed reads)))))"

fun native_candidates :: "file_system \<Rightarrow> pydict \<Rightarrow> path \<Rightarrow> path list \<Rightarrow> resolved list res" where
  "native_candidates fs p directory [] = Inr []"
| "native_candidates fs p directory (home # roots) =
     ebind (relative_parts (str_of (dget (dict_of (dget p ''resolution'')) ''application''))) (\<lambda>parts.
     if \<not> fs_exists fs (home @ parts) then native_candidates fs p directory roots
     else ebind (candidate_at fs p directory home (home @ parts) (Inr [])) (\<lambda>c.
       ebind (native_candidates fs p directory roots) (\<lambda>cs. Inr (c # cs))))"

definition layouts_of :: "pydict \<Rightarrow> string list" where
  "layouts_of r = map str_of (list_of (dget r ''packageRootLayouts''))"

definition resolve_native :: "file_system \<Rightarrow> pydict \<Rightarrow> path \<Rightarrow> resolved list res" where
  "resolve_native fs p directory =
     (let r = dict_of (dget p ''resolution'') in
      ebind (if dget r ''packageName'' = PNone then Inr [directory]
             else package_roots fs directory (layouts_of r) (str_of (dget r ''packageName''))) (\<lambda>roots.
      ebind (native_candidates fs p directory roots) (\<lambda>results.
      checked (guard (length results \<le> 1) (bad ''native package layout is ambiguous'')) (Inr results))))"

fun runtime_candidates :: "file_system \<Rightarrow> pydict \<Rightarrow> path \<Rightarrow> path \<Rightarrow> path list \<Rightarrow> resolved list res" where
  "runtime_candidates fs p directory runtime [] = Inr []"
| "runtime_candidates fs p directory runtime (home # roots) =
     (let r = dict_of (dget p ''resolution'') in
      ebind (relative_parts (str_of (dget r ''entrypoint''))) (\<lambda>entry.
      ebind (relative_parts (str_of (dget r ''manifestPath''))) (\<lambda>manifest.
      if \<not> fs_exists fs (home @ entry) \<or> \<not> fs_exists fs (home @ manifest)
      then runtime_candidates fs p directory runtime roots
      else ebind (candidate_at fs p directory home runtime
          (ebind (resolved_text fs (home @ entry)) (\<lambda>e. Inr [e]))) (\<lambda>c.
        ebind (runtime_candidates fs p directory runtime roots) (\<lambda>cs. Inr (c # cs))))))"

definition resolve_runtime :: "file_system \<Rightarrow> pydict \<Rightarrow> path \<Rightarrow> resolved list res" where
  "resolve_runtime fs p directory =
     (let r = dict_of (dget p ''resolution''); runtime = directory @ [str_of (dget r ''runtimeApplication'')] in
      if \<not> fs_exists fs runtime then Inr []
      else ebind (package_roots fs directory (layouts_of r) (str_of (dget r ''packageName'')))
        (runtime_candidates fs p directory runtime))"

text \<open>A search directory is a path with a flag whether it is absolute.\<close>

fun directory_candidates :: "file_system \<Rightarrow> pydict \<Rightarrow> (bool \<times> path) list \<Rightarrow> resolved list res" where
  "directory_candidates fs p [] = Inr []"
| "directory_candidates fs p ((absolute, directory) # dirs) =
     checked (guard absolute (bad ''search directory is not absolute''))
     (ebind (if dget (dict_of (dget p ''resolution'')) ''kind'' = PStr ''native-executable''
             then resolve_native fs p directory else resolve_runtime fs p directory) (\<lambda>found.
      ebind (directory_candidates fs p dirs) (\<lambda>rest. Inr (found @ rest))))"

definition resolve_profile :: "regexes \<Rightarrow> file_system \<Rightarrow> pyval \<Rightarrow> (bool \<times> path) list \<Rightarrow> resolved res" where
  "resolve_profile rx fs profile dirs =
     checked (first_failure [
       validate_profile rx profile,
       guard (1 \<le> length dirs \<and> length dirs \<le> MAX_SEARCH_DIRECTORIES) (bad ''search directory count is invalid'')])
     (ebind (directory_candidates fs (dict_of profile) dirs) (\<lambda>candidates.
      case candidates of
        [] \<Rightarrow> Inl (bad ''no authenticated launch candidate'')
      | [c] \<Rightarrow> Inr c
      | _ \<Rightarrow> Inl (bad ''authenticated launch candidate is ambiguous'')))"

end
