(* ===== verification/Resolver_Claims.thy ===== *)
theory Resolver_Claims
  imports Resolver_Files Prose_Traverse
begin

text \<open>
  The properties of the Windows resolution oracle: the bounded read ends and returns the file, a resolved
  launch rests on authentic artifacts only, the order of the search directories does not matter, and what a
  validated profile guarantees.
\<close>

section \<open>The read loop\<close>

lemma read_loop_prefix: "read_loop f k n acc = acc @ take n (drop k (of_content f))"
proof (induction f k n acc rule: read_loop.induct)
  case (1 f k n acc)
  let ?rest = "drop k (of_content f)" and ?chunk = "sys_read f k (min n 1048576)"
  show ?case
  proof (cases "n = 0 \<or> ?chunk = []")
    case True
    then have "n = 0 \<or> ?rest = []" by (auto simp: sys_read_def)
    with True show ?thesis by (auto simp: read_loop.simps [of f k n] Let_def)
  next
    case False
    define m where "m = min (min n 1048576) (Suc (of_grain f k))"
    have chunk: "?chunk = take m ?rest" by (simp add: sys_read_def m_def)
    have "m \<le> n" by (simp add: m_def)
    have "read_loop f k n acc = read_loop f (k + length ?chunk) (n - length ?chunk) (acc @ ?chunk)"
      using False by (simp add: read_loop.simps [of f k n] Let_def)
    also have "\<dots> = acc @ ?chunk @ take (n - length ?chunk) (drop (k + length ?chunk) (of_content f))"
      using 1 False by simp
    also have "?chunk @ take (n - length ?chunk) (drop (k + length ?chunk) (of_content f)) = take n ?rest"
    proof (cases "m \<le> length ?rest")
      case True
      then have "take n ?rest = take m ?rest @ take (n - m) (drop m ?rest)"
        using \<open>m \<le> n\<close> by (metis append_take_drop_id le_add_diff_inverse take_add)
      with True show ?thesis by (simp add: chunk ac_simps)
    next
      case False
      with \<open>m \<le> n\<close> show ?thesis by (simp add: chunk)
    qed
    finally show ?thesis .
  qed
qed

text \<open>C36. The read loop of an artifact ends however short the reads are, and returns exactly the first
  \<open>n + 1\<close> bytes of the opened file: a file that grew is noticed, and no more than that is ever held.\<close>

theorem bounded_read_terminates:
  "read_loop f 0 (n + 1) [] = take (n + 1) (of_content f)"
  by (simp add: read_loop_prefix)

section \<open>Authentic artifacts\<close>

text \<open>What the profile says of an artifact holds of the file below \<open>base\<close>: every directory on the way is a real
  directory, the file is regular and no link, and the opened file has the profiled length, digest and format.\<close>

definition real_directory :: "file_system \<Rightarrow> path \<Rightarrow> bool" where
  "real_directory fs p \<longleftrightarrow> (\<exists>st. fs_lstat fs p = Some st \<and> \<not> is_link_or_reparse st \<and> ps_dir st)"

definition real_file :: "file_system \<Rightarrow> path \<Rightarrow> string \<Rightarrow> bool" where
  "real_file fs p content \<longleftrightarrow>
     (\<exists>st f. fs_lstat fs p = Some st \<and> \<not> is_link_or_reparse st \<and> ps_regular st \<and>
        fs_open fs p = Some f \<and> of_regular f \<and> of_content f = content)"

definition authentic :: "file_system \<Rightarrow> path \<Rightarrow> pydict \<Rightarrow> bool" where
  "authentic fs base a \<longleftrightarrow> (\<exists>parts content.
     parts = split_on (CHR ''/'') (str_of (dget a ''path'')) \<and> safe_relative (PStr (str_of (dget a ''path''))) = None \<and>
     (\<forall>i. 0 < i \<and> i < length parts \<longrightarrow> real_directory fs (base @ take i parts)) \<and>
     real_file fs (base @ parts) content \<and> int (length content) = int_of (dget a ''size'') \<and>
     sha256_hex content = str_of (dget a ''sha256'') \<and> validate_format content (str_of (dget a ''format'')) = None)"

lemma reject_linked_None:
  assumes "reject_linked_descendants fs base parts = None" "0 < i" "i < length parts"
  shows "real_directory fs (base @ take i parts)"
  using assms
proof (induction fs base parts arbitrary: i rule: reject_linked_descendants.induct)
  case (1 fs base part next_part parts)
  then have here: "real_directory fs (base @ [part])"
    and rest: "reject_linked_descendants fs (base @ [part]) (next_part # parts) = None"
    by (auto simp: real_directory_def Let_def split: option.splits if_splits)
  show ?case
  proof (cases "i = 1")
    case False
    with 1 obtain j where j: "i = Suc j" "0 < j" "j < length (next_part # parts)" by (cases i) auto
    have "real_directory fs ((base @ [part]) @ take j (next_part # parts))"
      using 1 rest j by (auto simp: Let_def split: option.splits if_splits)
    with j show ?thesis by simp
  qed (simp add: here)
qed auto

lemma read_final_Inr:
  assumes "read_final_regular_file fs p n = Inr (content, located)"
  shows "real_file fs p content \<and> length content \<le> n \<and> resolved_text fs p = Inr located"
  using assms
  by (auto simp: read_final_regular_file_def Let_def checked_eq_Inr first_failure_eq_None ebind_eq_Inr real_file_def
      read_loop_prefix split: option.splits)

lemma verify_artifact_Inr:
  assumes "verify_artifact fs base a = Inr (content, located)"
  shows "authentic fs base a"
    and "resolved_text fs (base @ split_on (CHR ''/'') (str_of (dget a ''path''))) = Inr located"
proof -
  let ?parts = "split_on (CHR ''/'') (str_of (dget a ''path''))"
  from assms have safe: "safe_relative (PStr (str_of (dget a ''path''))) = None"
    and links: "reject_linked_descendants fs base ?parts = None"
    and final: "read_final_regular_file fs (base @ ?parts) (nat (int_of (dget a ''size''))) = Inr (content, located)"
    and facts: "int (length content) = int_of (dget a ''size'')" "sha256_hex content = str_of (dget a ''sha256'')"
      "validate_format content (str_of (dget a ''format'')) = None"
    by (auto simp: verify_artifact_def relative_parts_def ebind_eq_Inr checked_eq_Inr first_failure_eq_None)
  from read_final_Inr [OF final] facts safe reject_linked_None [OF links]
  show "authentic fs base a" "resolved_text fs (base @ ?parts) = Inr located" by (auto simp: authentic_def)
qed

text \<open>The paths read, in the order of the inventory.\<close>

definition artifact_location :: "file_system \<Rightarrow> path \<Rightarrow> pydict \<Rightarrow> string res" where
  "artifact_location fs base a = resolved_text fs (base @ split_on (CHR ''/'') (str_of (dget a ''path'')))"

lemma verify_artifacts_Inr:
  assumes "verify_artifacts fs base as verified reads = Inr (v, rs)"
  shows "(\<forall>a \<in> set as. authentic fs (base a) a) \<and>
    (\<exists>new. rs = reads @ new \<and> traverse_res (\<lambda>a. artifact_location fs (base a) a) as = Inr new)"
  using assms
proof (induction fs base as verified reads rule: verify_artifacts.induct)
  case (2 fs base a as verified reads)
  from "2.prems" obtain content located where one: "verify_artifact fs (base a) a = Inr (content, located)"
    and rest: "verify_artifacts fs base as (dict_set (str_of (dget a ''role'')) content verified) (reads @ [located]) = Inr (v, rs)"
    by (auto simp: ebind_eq_Inr)
  from "2.IH" [OF rest] verify_artifact_Inr [OF one] show ?case
    by (auto simp: artifact_location_def)
qed simp

text \<open>A launch whose every artifact is authentic, at the place the profile gives it.\<close>

definition authenticated :: "file_system \<Rightarrow> pydict \<Rightarrow> path \<Rightarrow> path \<Rightarrow> resolved \<Rightarrow> bool" where
  "authenticated fs p directory home r \<longleftrightarrow>
     (let base = artifact_base p directory home in
      (\<forall>a \<in> set (artifacts_of p). authentic fs (base a) a) \<and>
      traverse_res (\<lambda>a. artifact_location fs (base a) a) (artifacts_of p) = Inr (rs_reads r))"

lemma candidate_authenticated:
  assumes "candidate_at fs p directory home application argv_prefix = Inr r"
  shows "authenticated fs p directory home r" "resolved_text fs application = Inr (rs_application r)"
    "argv_prefix = Inr (rs_argv_prefix r)"
proof -
  from assms obtain reads where inv: "verify_inventory fs p directory home = Inr reads" and r: "rs_reads r = reads"
    "resolved_text fs application = Inr (rs_application r)" "argv_prefix = Inr (rs_argv_prefix r)"
    by (auto simp: candidate_at_def ebind_eq_Inr make_resolved_def)
  from inv obtain v where "verify_artifacts fs (artifact_base p directory home) (artifacts_of p) [] [] = Inr (v, reads)"
    by (auto simp: verify_inventory_def ebind_eq_Inr Let_def checked_eq_Inr split: if_splits option.splits)
  from verify_artifacts_Inr [OF this] r show "authenticated fs p directory home r"
    "resolved_text fs application = Inr (rs_application r)" "argv_prefix = Inr (rs_argv_prefix r)"
    by (auto simp: authenticated_def Let_def)
qed

lemma native_candidates_Inr:
  assumes "native_candidates fs p directory homes = Inr cs" "c \<in> set cs"
  shows "\<exists>home. authenticated fs p directory home c \<and> rs_argv_prefix c = [] \<and>
    resolved_text fs (home @ split_on (CHR ''/'') (str_of (dget (dict_of (dget p ''resolution'')) ''application'')))
      = Inr (rs_application c)"
  using assms
proof (induction homes arbitrary: cs)
  case (Cons home homes)
  show ?case
  proof (cases "fs_exists fs (home @ split_on (CHR ''/'') (str_of (dget (dict_of (dget p ''resolution'')) ''application'')))")
    case True
    with Cons.prems obtain d ds where d: "candidate_at fs p directory home
        (home @ split_on (CHR ''/'') (str_of (dget (dict_of (dget p ''resolution'')) ''application''))) (Inr []) = Inr d"
      and ds: "native_candidates fs p directory homes = Inr ds" "cs = d # ds"
      by (auto simp: ebind_eq_Inr relative_parts_def checked_eq_Inr)
    from Cons.IH [OF ds(1)] ds(2) Cons.prems(2) candidate_authenticated [OF d] show ?thesis by auto
  next
    case False
    with Cons.prems Cons.IH show ?thesis by (auto simp: ebind_eq_Inr relative_parts_def checked_eq_Inr)
  qed
qed simp

lemma runtime_candidates_Inr:
  assumes "runtime_candidates fs p directory runtime homes = Inr cs" "c \<in> set cs"
  shows "\<exists>home entry. authenticated fs p directory home c \<and> resolved_text fs runtime = Inr (rs_application c) \<and>
    resolved_text fs (home @ split_on (CHR ''/'') (str_of (dget (dict_of (dget p ''resolution'')) ''entrypoint''))) = Inr entry \<and>
    rs_argv_prefix c = [entry]"
  using assms
proof (induction homes arbitrary: cs)
  case (Cons home homes)
  let ?r = "dict_of (dget p ''resolution'')"
  let ?entry = "home @ split_on (CHR ''/'') (str_of (dget ?r ''entrypoint''))"
  let ?manifest = "home @ split_on (CHR ''/'') (str_of (dget ?r ''manifestPath''))"
  show ?case
  proof (cases "fs_exists fs ?entry \<and> fs_exists fs ?manifest")
    case True
    with Cons.prems obtain d ds where d: "candidate_at fs p directory home runtime
        (ebind (resolved_text fs ?entry) (\<lambda>e. Inr [e])) = Inr d"
      and ds: "runtime_candidates fs p directory runtime homes = Inr ds" "cs = d # ds"
      by (auto simp: ebind_eq_Inr relative_parts_def checked_eq_Inr Let_def)
    from Cons.IH [OF ds(1)] ds(2) Cons.prems(2) candidate_authenticated [OF d] show ?thesis
      by (auto simp: ebind_eq_Inr)
  next
    case False
    with Cons.prems Cons.IH show ?thesis by (auto simp: ebind_eq_Inr relative_parts_def checked_eq_Inr Let_def)
  qed
qed simp

text \<open>The inventory of a valid profile.\<close>

lemma check_artifacts_Inr:
  assumes "check_artifacts vs seen paths = Inr by_role"
  shows "by_role = seen @ map (\<lambda>v. (str_of (dget (dict_of v) ''role''), dict_of v)) vs \<and>
    (\<forall>v \<in> set vs. is_str (dget (dict_of v) ''role'') \<and> safe_relative (dget (dict_of v) ''path'') = None)"
  using assms
  by (induction vs seen paths rule: check_artifacts.induct)
     (auto simp: Let_def checked_eq_Inr first_failure_eq_None matches_def)

lemma valid_inventory:
  assumes "validate_profile rx v = None"
  obtains by_role application where "map_of by_role ''application'' = Some application"
    "resolution_check (dict_of v) application by_role = None"
    "\<And>role a. map_of by_role role = Some a \<Longrightarrow> a \<in> set (artifacts_of (dict_of v)) \<and> dget a ''role'' = PStr role \<and>
       is_str (dget a ''path'')"
proof -
  let ?p = "dict_of v"
  from assms obtain by_role application where inv: "artifact_inventory (dget ?p ''artifacts'') = Inr by_role"
    and app: "map_of by_role ''application'' = Some application" "resolution_check ?p application by_role = None"
    by (auto simp: validate_profile_def Let_def first_failure_eq_None split: option.splits sum.splits)
  have "a \<in> set (artifacts_of ?p) \<and> dget a ''role'' = PStr role \<and> is_str (dget a ''path'')" if "map_of by_role role = Some a" for role a
  proof -
    from inv have "check_artifacts (list_of (dget ?p ''artifacts'')) [] [] = Inr by_role"
      by (auto simp: artifact_inventory_def checked_eq_Inr)
    from check_artifacts_Inr [OF this] map_of_SomeD [OF that] obtain w where w: "w \<in> set (list_of (dget ?p ''artifacts''))"
      "a = dict_of w" "role = str_of (dget a ''role'')" "is_str (dget a ''role'')" "safe_relative (dget a ''path'') = None" by auto
    then show ?thesis
      by (cases "dget a ''role''") (auto simp: artifacts_of_def safe_relative_def Let_def first_failure_eq_None)
  qed
  with app show ?thesis by (rule that)
qed

lemma directory_candidates_Inr:
  assumes "directory_candidates fs p dirs = Inr cs" "c \<in> set cs"
  shows "\<exists>directory found. (True, directory) \<in> set dirs \<and> c \<in> set found \<and>
    (if dget (dict_of (dget p ''resolution'')) ''kind'' = PStr ''native-executable''
     then resolve_native fs p directory else resolve_runtime fs p directory) = Inr found"
  using assms
proof (induction fs p dirs arbitrary: cs rule: directory_candidates.induct)
  case (2 fs p absolute directory dirs)
  from "2.prems"(1) obtain found rest where absolute
    and found: "(if dget (dict_of (dget p ''resolution'')) ''kind'' = PStr ''native-executable''
       then resolve_native fs p directory else resolve_runtime fs p directory) = Inr found"
    and rest: "directory_candidates fs p dirs = Inr rest" and cs: "cs = found @ rest"
    by (auto simp: ebind_eq_Inr checked_eq_Inr)
  from "2.IH" [OF rest] found \<open>absolute\<close> cs "2.prems"(2) show ?case by (cases "c \<in> set found") force+
qed simp

definition launch_location :: "file_system \<Rightarrow> pydict \<Rightarrow> path \<Rightarrow> path \<Rightarrow> string \<Rightarrow> string \<Rightarrow> bool" where
  "launch_location fs p directory home role located \<longleftrightarrow>
     (\<exists>a \<in> set (artifacts_of p). dget a ''role'' = PStr role \<and>
        artifact_location fs (artifact_base p directory home a) a = Inr located)"

lemma native_launch:
  assumes valid: "validate_profile rx v = None"
    and native: "dget (dict_of (dget (dict_of v) ''resolution'')) ''kind'' = PStr ''native-executable''"
    and found: "resolve_native fs (dict_of v) directory = Inr cs" "c \<in> set cs"
  shows "\<exists>home. authenticated fs (dict_of v) directory home c \<and>
    launch_location fs (dict_of v) directory home ''application'' (rs_application c) \<and> rs_argv_prefix c = []"
proof -
  let ?p = "dict_of v"
  from found(1) obtain homes where "native_candidates fs ?p directory homes = Inr cs"
    by (auto simp: resolve_native_def Let_def ebind_eq_Inr checked_eq_Inr simp del: native_candidates.simps split: if_splits)
  from native_candidates_Inr [OF this found(2)] obtain home where h: "authenticated fs ?p directory home c" "rs_argv_prefix c = []"
    "resolved_text fs (home @ split_on (CHR ''/'') (str_of (dget (dict_of (dget ?p ''resolution'')) ''application''))) = Inr (rs_application c)"
    by blast
  from valid_inventory [OF valid] obtain by_role application where a: "map_of by_role ''application'' = Some application"
    "resolution_check ?p application by_role = None" and by_role: "\<And>role a. map_of by_role role = Some a \<Longrightarrow>
      a \<in> set (artifacts_of ?p) \<and> dget a ''role'' = PStr role \<and> is_str (dget a ''path'')" by blast
  from a(2) native have "native_check ?p (dict_of (dget ?p ''resolution'')) application by_role = None"
    by (simp add: resolution_check_def Let_def split: if_splits)
  then have app: "dget application ''path'' = dget (dict_of (dget ?p ''resolution'')) ''application''"
    unfolding native_check_def first_failure_eq_None list.set by (simp add: guard_def split: if_splits)
  from native have run: "\<not> is_runtime ?p" by (simp add: is_runtime_def)
  have "launch_location fs ?p directory home ''application'' (rs_application c)"
    unfolding launch_location_def
  proof (rule bexI [of _ application], rule conjI)
    show "artifact_location fs (artifact_base ?p directory home application) application = Inr (rs_application c)"
      using h(3) app run by (simp add: artifact_location_def artifact_base_def)
  qed (use by_role [OF a(1)] in simp_all)
  with h show ?thesis by blast
qed

lemma runtime_launch:
  assumes valid: "validate_profile rx v = None"
    and runtime: "dget (dict_of (dget (dict_of v) ''resolution'')) ''kind'' \<noteq> PStr ''native-executable''"
    and found: "resolve_runtime fs (dict_of v) directory = Inr cs" "c \<in> set cs"
  shows "\<exists>home entry. authenticated fs (dict_of v) directory home c \<and>
    launch_location fs (dict_of v) directory home ''application'' (rs_application c) \<and>
    launch_location fs (dict_of v) directory home ''entrypoint'' entry \<and> rs_argv_prefix c = [entry]"
proof -
  let ?p = "dict_of v" let ?r = "dict_of (dget ?p ''resolution'')"
  from found obtain homes where "runtime_candidates fs ?p directory (directory @ [str_of (dget ?r ''runtimeApplication'')]) homes = Inr cs"
    by (auto simp: resolve_runtime_def Let_def ebind_eq_Inr simp del: runtime_candidates.simps split: if_splits)
  from runtime_candidates_Inr [OF this found(2)] obtain home entry where h: "authenticated fs ?p directory home c"
    "resolved_text fs (directory @ [str_of (dget ?r ''runtimeApplication'')]) = Inr (rs_application c)"
    "resolved_text fs (home @ split_on (CHR ''/'') (str_of (dget ?r ''entrypoint''))) = Inr entry" "rs_argv_prefix c = [entry]"
    by blast
  from valid_inventory [OF valid] obtain by_role application where a: "map_of by_role ''application'' = Some application"
    "resolution_check ?p application by_role = None" and by_role: "\<And>role a. map_of by_role role = Some a \<Longrightarrow>
      a \<in> set (artifacts_of ?p) \<and> dget a ''role'' = PStr role \<and> is_str (dget a ''path'')" by blast
  from a(2) runtime have kind: "dget ?r ''kind'' = PStr ''runtime-entrypoint''"
    and check: "runtime_check ?p ?r application by_role = None"
    by (auto simp: resolution_check_def Let_def split: if_splits)
  from check have app: "dget application ''path'' = dget ?r ''runtimeApplication''" "CHR ''/'' \<notin> set (str_of (dget ?r ''runtimeApplication''))"
    and entry: "role_path by_role ''entrypoint'' = dget ?r ''entrypoint''" "safe_relative (dget ?r ''entrypoint'') = None"
    by (auto simp: runtime_check_def Let_def first_failure_eq_None)
  from entry obtain e where e: "map_of by_role ''entrypoint'' = Some e" "dget e ''path'' = dget ?r ''entrypoint''"
    by (auto simp: role_path_def safe_relative_def Let_def first_failure_eq_None split: option.splits)
  have run: "is_runtime ?p" using kind by (simp add: is_runtime_def)
  have "launch_location fs ?p directory home ''application'' (rs_application c)"
    using h(2) app by_role [OF a(1)] run
    by (auto simp: launch_location_def artifact_location_def artifact_base_def split_on_no_sep intro!: bexI [of _ application])
  moreover have "launch_location fs ?p directory home ''entrypoint'' entry"
    using h(3) e(2) by_role [OF e(1)]
    by (auto simp: launch_location_def artifact_location_def artifact_base_def intro!: bexI [of _ e])
  ultimately show ?thesis using h by blast
qed

lemma resolve_profile_Inr:
  "resolve_profile rx fs profile dirs = Inr r \<longleftrightarrow> validate_profile rx profile = None \<and>
     1 \<le> length dirs \<and> length dirs \<le> MAX_SEARCH_DIRECTORIES \<and> directory_candidates fs (dict_of profile) dirs = Inr [r]"
  by (cases "directory_candidates fs (dict_of profile) dirs")
     (auto simp: resolve_profile_def checked_eq_Inr first_failure_eq_None simp del: directory_candidates.simps split: list.splits)

text \<open>C10. A resolved launch rests on authentic files only. There are one absolute search directory and one
  package root below which every artifact of the profile was opened without a link on the way, is a regular file
  and has exactly the profiled length, digest and format; the read paths are the locations of those artifacts in
  order, the application is the location of the artifact with that role, and the argument prefix is empty or the
  location of the authenticated entrypoint.\<close>

theorem resolved_launch_is_authentic:
  assumes "resolve_profile rx fs profile dirs = Inr r"
  shows "\<exists>directory home. (True, directory) \<in> set dirs \<and> authenticated fs (dict_of profile) directory home r \<and>
    launch_location fs (dict_of profile) directory home ''application'' (rs_application r) \<and>
    (rs_argv_prefix r = [] \<or>
     (\<exists>entry. rs_argv_prefix r = [entry] \<and> launch_location fs (dict_of profile) directory home ''entrypoint'' entry))"
proof -
  from assms have valid: "validate_profile rx profile = None" and cs: "directory_candidates fs (dict_of profile) dirs = Inr [r]"
    by (simp_all add: resolve_profile_Inr)
  from directory_candidates_Inr [OF cs] obtain directory found where d: "(True, directory) \<in> set dirs" "r \<in> set found"
    "(if dget (dict_of (dget (dict_of profile) ''resolution'')) ''kind'' = PStr ''native-executable''
      then resolve_native fs (dict_of profile) directory else resolve_runtime fs (dict_of profile) directory) = Inr found"
    by auto
  show ?thesis
    using native_launch [OF valid _ _ d(2), of fs directory] runtime_launch [OF valid _ _ d(2), of fs directory] d(1, 3)
    by (auto split: if_splits)
qed

section \<open>Search order\<close>

text \<open>The order of the search directories decides nothing: whenever a launch is resolved, the same launch is
  resolved from the directories in any other order, since it is the only candidate among all of them.\<close>

theorem search_order_is_irrelevant:
  assumes "resolve_profile rx fs profile dirs = Inr r" "mset dirs' = mset dirs"
  shows "resolve_profile rx fs profile dirs' = Inr r"
proof -
  let ?p = "dict_of profile"
  let ?found = "\<lambda>d. checked (guard (fst d) (bad ''search directory is not absolute''))
    (if dget (dict_of (dget ?p ''resolution'')) ''kind'' = PStr ''native-executable''
     then resolve_native fs ?p (snd d) else resolve_runtime fs ?p (snd d))"
  have all: "directory_candidates fs ?p ds = Inr cs \<longleftrightarrow> (\<exists>fss. traverse_res ?found ds = Inr fss \<and> cs = concat fss)" for ds cs
    by (induction ds arbitrary: cs) (auto simp: ebind_eq_Inr checked_eq_Inr)
  from assms(1) have "directory_candidates fs ?p dirs = Inr [r]" and valid: "validate_profile rx profile = None"
    and count: "1 \<le> length dirs" "length dirs \<le> MAX_SEARCH_DIRECTORIES"
    by (simp_all add: resolve_profile_Inr)
  then obtain fss where fss: "traverse_res ?found dirs = Inr fss" "concat fss = [r]" using all [of dirs "[r]"] by auto
  obtain fss' where fss': "traverse_res ?found dirs' = Inr fss'" "mset fss' = mset fss"
    by (rule traverse_res_perm [OF fss(1) assms(2)])
  have "mset (concat fss') = mset (concat fss)"
    using fss'(2) by (simp add: mset_concat sum_mset_sum_list [symmetric])
  then have "concat fss' = [r]" by (simp add: fss(2))
  with all [of dirs' "[r]"] fss' have "directory_candidates fs ?p dirs' = Inr [r]" by auto
  moreover have "length dirs' = length dirs" using assms(2) by (metis size_mset)
  ultimately show ?thesis using valid count by (simp add: resolve_profile_Inr)
qed

section \<open>A concrete launch\<close>

text \<open>The application of the smallest profile: an x64 image of 70 bytes in one of two search directories.\<close>

definition demo_binary :: string where
  "demo_binary = ''MZ'' @ replicate 58 (CHR 0x00) @ [CHR 0x40, CHR 0x00, CHR 0x00, CHR 0x00] @
     ''PE'' @ [CHR 0x00, CHR 0x00, CHR 0x64, CHR 0x86]"

definition demo_launch_profile :: pyval where
  "demo_launch_profile = PDict [
     (''schema'', PStr ''openprose.windows-launch-profile/1''),
     (''profileId'', PStr ''demo''), (''adapterId'', PStr ''demo/1''),
     (''status'', PStr ''provider-free-fixture''), (''platform'', PStr ''win32-x64''),
     (''harnessVersion'', PStr ''1''), (''versionPattern'', PStr ''1''),
     (''resolution'', PDict [(''kind'', PStr ''native-executable''), (''commandNames'', PList [PStr ''a'']),
        (''application'', PStr ''a.exe'')]),
     (''artifacts'', PList [PDict [(''role'', PStr ''application''), (''path'', PStr ''a.exe''), (''size'', PInt 70),
        (''sha256'', PStr (sha256_hex demo_binary)), (''format'', PStr ''pe-x64'')]]),
     (''manifest'', PNone), (''argvPrefix'', PList []), (''fixedEnvironment'', PList []),
     (''inheritedEnvironmentNames'', PList []), (''strippedEnvironmentNames'', PList []),
     (''claims'', PDict [(''productAdmission'', PBool False), (''semanticConformance'', PBool False),
        (''releaseEligibility'', PBool False)])]"

definition demo_rx :: regexes where "demo_rx p = Some (\<lambda>s. s = p)"

definition demo_launch_files :: file_system where
  "demo_launch_files = \<lparr>fs_exists = (\<lambda>p. p = [''d'', ''a.exe'']), fs_is_dir = (\<lambda>p. p = [''d''] \<or> p = [''e'']), fs_resolve = Inr,
     fs_lstat = (\<lambda>p. if p = [''d'', ''a.exe''] then Some \<lparr>ps_link = False, ps_dir = False, ps_regular = True, ps_attributes = 32\<rparr>
       else None),
     fs_open = (\<lambda>p. if p = [''d'', ''a.exe''] then Some \<lparr>of_regular = True, of_size = 70, of_content = demo_binary, of_grain = (\<lambda>k. 15)\<rparr>
       else None)\<rparr>"

definition demo_resolved :: resolved where
  "demo_resolved = \<lparr>rs_profile_id = PStr ''demo'', rs_adapter_id = PStr ''demo/1'', rs_application = ''/d/a.exe'',
     rs_argv_prefix = [], rs_fixed = [], rs_inherited = [], rs_stripped = [], rs_reads = [''/d/a.exe''],
     rs_claims = [(''productAdmission'', PBool False), (''semanticConformance'', PBool False),
       (''releaseEligibility'', PBool False)]\<rparr>"

lemmas demo_constants = CLAIM_KEYS_def ARTIFACT_KEYS_def FORMATS_def STATUSES_def NATIVE_KEYS_def PACKAGE_FIELDS_def PROFILE_KEYS_def
  MAX_ARTIFACTS_def MAX_ARTIFACT_BYTES_def demo_rx_def

lemmas demo_checks = guard_def in_set_def matches_def distinct_list_def command_names_def false_claims_def
  hashable_def is_int_or_bool_def Let_def

lemma demo_launch_names: "IDENTIFIER ''demo''" "IDENTIFIER ''application''" "COMMAND_NAME ''a''" "is_exe (PStr ''a.exe'')"
  "safe_relative (PStr ''a.exe'') = None" "lower_char (CHR ''a'') = CHR ''a''" "\<not> list_ex (ends_with ''a'') SHELL_SUFFIXES"
  "take 3 ''pe-x64'' = ''pe-''"
  by code_simp+

lemma demo_header: "profile_header demo_rx (dict_of demo_launch_profile) = None"
  by (simp add: profile_header_def demo_launch_profile_def demo_checks demo_constants demo_launch_names keys_are_def)

lemma demo_inventory: "artifact_inventory (dget (dict_of demo_launch_profile) ''artifacts'') =
    Inr [(''application'', dict_of (hd (list_of (dget (dict_of demo_launch_profile) ''artifacts''))))]"
  by (simp add: artifact_inventory_def demo_launch_profile_def artifact_fields_def checked_def demo_checks demo_constants
    demo_launch_names keys_are_def)

lemma demo_resolution_check: "resolution_check (dict_of demo_launch_profile)
    (dict_of (hd (list_of (dget (dict_of demo_launch_profile) ''artifacts'')))) by_role = None"
  by (simp add: resolution_check_def native_check_def demo_launch_profile_def optional_package_resolution_def demo_checks
    demo_constants demo_launch_names keys_within_def)

lemma demo_environment: "validate_environment (dict_of demo_launch_profile) = None"
  by (simp add: validate_environment_def environment_names_def demo_launch_profile_def demo_checks disjoint_names_def names_of_def)

lemma demo_profile_valid: "validate_profile demo_rx demo_launch_profile = None"
  using demo_header demo_inventory demo_resolution_check demo_environment
  by (simp add: validate_profile_def demo_launch_profile_def demo_checks demo_constants keys_are_def demo_launch_names)

lemma demo_read: "read_loop f 0 71 [] = take 71 (of_content f)"
  by (simp add: read_loop_prefix)

lemma demo_format: "validate_format demo_binary ''pe-x64'' = None" "length demo_binary = 70"
  by code_simp+

lemma demo_candidates:
  "directory_candidates demo_launch_files (dict_of demo_launch_profile) [(True, [''e'']), (True, [''d''])] = Inr [demo_resolved]"
proof -
  let ?p = "dict_of demo_launch_profile"
  have parts: "relative_parts ''a.exe'' = Inr [''a.exe'']" by code_simp
  have "read_final_regular_file demo_launch_files [''d'', ''a.exe''] 70 = Inr (demo_binary, ''/d/a.exe'')"
    by (simp add: read_final_regular_file_def demo_launch_files_def is_link_or_reparse_def demo_read demo_format guard_def checked_def
      MAX_ARTIFACT_BYTES_def resolved_text_def path_text_def)
  then have "verify_inventory demo_launch_files ?p [''d''] [''d''] = Inr [''/d/a.exe'']"
    by (simp add: verify_inventory_def artifacts_of_def demo_launch_profile_def artifact_base_def verify_artifact_def parts
      demo_format checked_def guard_def)
  then have "candidate_at demo_launch_files ?p [''d''] [''d''] [''d'', ''a.exe''] (Inr []) = Inr demo_resolved"
    by (simp add: candidate_at_def make_resolved_def demo_resolved_def demo_launch_profile_def resolved_text_def demo_launch_files_def
      path_text_def)
  then have "resolve_native demo_launch_files ?p [''d''] = Inr [demo_resolved]" "resolve_native demo_launch_files ?p [''e''] = Inr []"
    by (simp_all add: resolve_native_def demo_launch_profile_def parts demo_launch_files_def checked_def guard_def)
  then show ?thesis by (simp add: demo_launch_profile_def checked_def guard_def)
qed

lemma demo_resolution: "resolve_profile demo_rx demo_launch_files demo_launch_profile [(True, [''e'']), (True, [''d''])] = Inr demo_resolved"
  using demo_profile_valid demo_candidates by (simp add: resolve_profile_Inr MAX_SEARCH_DIRECTORIES_def del: directory_candidates.simps)

theorem resolved_launch_is_authentic_witness:
  "\<exists>directory home. (True, directory) \<in> set [(True, [''e'']), (True, [''d''])] \<and>
     authenticated demo_launch_files (dict_of demo_launch_profile) directory home demo_resolved \<and>
     launch_location demo_launch_files (dict_of demo_launch_profile) directory home ''application'' (rs_application demo_resolved) \<and>
     (rs_argv_prefix demo_resolved = [] \<or> (\<exists>entry. rs_argv_prefix demo_resolved = [entry] \<and>
       launch_location demo_launch_files (dict_of demo_launch_profile) directory home ''entrypoint'' entry))"
  using resolved_launch_is_authentic [OF demo_resolution] by blast

theorem search_order_is_irrelevant_witness:
  "resolve_profile demo_rx demo_launch_files demo_launch_profile [(True, [''d'']), (True, [''e''])] = Inr demo_resolved"
  using search_order_is_irrelevant [OF demo_resolution, of "[(True, [''d'']), (True, [''e''])]"] by simp

end
