(* ===== verification/Bridge_Files.thy ===== *)
theory Bridge_Files
  imports Hosted_Protocol
begin

text \<open>
  The workspace of \<^verbatim>\<open>cli/conformance/fake-hosted-service/capability_bridge.py\<close>: the file tree and the
  system calls the bridge makes on it, \<open>_workspace_path\<close>, \<open>_read\<close> and \<open>_write\<close>. A tree maps absolute
  paths, given by their parts, to what lies there; the calls resolve symbolic links as the kernel does. Any other
  failure of a call, how much one \<open>write\<close> takes and how much one \<open>read\<close> gives, is decided by the record \<open>kernel\<close>.
  Nobody else changes the tree between the calls of one read or write.
\<close>

section \<open>The file tree\<close>

type_synonym path = "string list"

text \<open>A link names its target by the parts of an absolute path; \<open>Special\<close> is a device, socket or pipe.\<close>

datatype node = Directory | Regular string | Symlink path | Special

type_synonym tree = "path \<Rightarrow> node option"

record kernel =
  lstat_fails :: "path \<Rightarrow> bool"
  open_fails :: "path \<Rightarrow> bool"
  read_gives :: "path \<Rightarrow> nat \<Rightarrow> nat option"
  chmod_fails :: "path \<Rightarrow> bool"
  write_takes :: "path \<Rightarrow> nat \<Rightarrow> nat option"

abbreviation missing :: exn where "missing \<equiv> OSErr ''FileNotFoundError''"
abbreviation os_error :: exn where "os_error \<equiv> OSErr ''OSError''"

definition node_at :: "tree \<Rightarrow> path \<Rightarrow> node option" where
  "node_at t p = (if p = [] then Some Directory else t p)"

text \<open>The walk of the kernel from the directory \<open>done\<close>, with the number of links it still follows.\<close>

fun follow :: "tree \<Rightarrow> nat \<Rightarrow> path \<Rightarrow> path \<Rightarrow> path res" where
  "follow t links here [] = Inr here"
| "follow t links here (p # ps) =
     (case t (here @ [p]) of
        None \<Rightarrow> Inl missing
      | Some (Symlink target) \<Rightarrow>
          (case links of 0 \<Rightarrow> Inl os_error | Suc n \<Rightarrow> follow t n [] (target @ ps))
      | Some Directory \<Rightarrow> follow t links (here @ [p]) ps
      | Some _ \<Rightarrow> if ps = [] then Inr (here @ [p]) else Inl (OSErr ''NotADirectoryError''))"

definition MAX_LINKS :: nat where "MAX_LINKS = 40"

text \<open>The place a path names when a link at its end is not followed.\<close>

definition place_of :: "tree \<Rightarrow> path \<Rightarrow> path res" where
  "place_of t p =
     (if p = [] then Inr []
      else ebind (follow t MAX_LINKS [] (butlast p)) (\<lambda>parent.
        if node_at t parent = Some Directory then Inr (parent @ [last p])
        else Inl (OSErr ''NotADirectoryError'')))"

definition lstat :: "kernel \<Rightarrow> tree \<Rightarrow> path \<Rightarrow> node res" where
  "lstat k t p =
     (if lstat_fails k p then Inl os_error
      else ebind (place_of t p) (\<lambda>q. case node_at t q of None \<Rightarrow> Inl missing | Some n \<Rightarrow> Inr n))"

definition is_dir :: "tree \<Rightarrow> path \<Rightarrow> bool" where
  "is_dir t p \<longleftrightarrow> (case follow t MAX_LINKS [] p of Inl e \<Rightarrow> False | Inr q \<Rightarrow> node_at t q = Some Directory)"

text \<open>\<open>os.open\<close> with \<open>O_NOFOLLOW\<close> for reading, and with \<open>O_CREAT\<close> and \<open>O_TRUNC\<close> for writing.\<close>

definition open_read :: "kernel \<Rightarrow> tree \<Rightarrow> path \<Rightarrow> path res" where
  "open_read k t p =
     (if open_fails k p then Inl os_error
      else ebind (place_of t p) (\<lambda>q. case node_at t q of
          None \<Rightarrow> Inl missing
        | Some (Symlink target) \<Rightarrow> Inl os_error
        | Some n \<Rightarrow> Inr q))"

definition open_write :: "kernel \<Rightarrow> tree \<Rightarrow> path \<Rightarrow> (path \<times> tree) res" where
  "open_write k t p =
     (if open_fails k p then Inl os_error
      else ebind (place_of t p) (\<lambda>q. case node_at t q of
          None \<Rightarrow> Inr (q, t(q \<mapsto> Regular []))
        | Some (Regular data) \<Rightarrow> Inr (q, t(q \<mapsto> Regular []))
        | Some Special \<Rightarrow> Inr (q, t)
        | Some n \<Rightarrow> Inl os_error))"

text \<open>One \<open>os.read\<close> of at most \<open>n\<close> bytes: of a file that is not empty it gives at least one.\<close>

definition os_read :: "kernel \<Rightarrow> path \<Rightarrow> nat \<Rightarrow> string \<Rightarrow> string res" where
  "os_read k q n content =
     (case read_gives k q n of None \<Rightarrow> Inl os_error | Some extra \<Rightarrow> Inr (take (min n (Suc extra)) content))"

text \<open>\<open>os.write\<close> at the end of what has been written: at least one byte is taken.\<close>

definition put_data :: "tree \<Rightarrow> path \<Rightarrow> string \<Rightarrow> tree" where
  "put_data t q data = (case t q of Some (Regular old) \<Rightarrow> t(q \<mapsto> Regular data) | _ \<Rightarrow> t)"

function write_loop :: "kernel \<Rightarrow> path \<Rightarrow> string \<Rightarrow> nat \<Rightarrow> tree \<Rightarrow> unit res \<times> tree" where
  "write_loop k q data cursor t =
     (if length data \<le> cursor then (Inr (), t)
      else case write_takes k q cursor of
        None \<Rightarrow> (Inl os_error, t)
      | Some extra \<Rightarrow>
          (let next = min (length data) (cursor + Suc extra) in
           write_loop k q data next (put_data t q (take next data))))"
  by pat_completeness auto

termination
  by (relation "measure (\<lambda>(k, q, data, cursor, t). length data - cursor)") auto

declare write_loop.simps [simp del]

section \<open>Paths\<close>

text \<open>\<open>Path(raw).parts\<close> of a relative path, and \<open>Path(raw).name\<close>.\<close>

definition path_parts :: "string \<Rightarrow> string list" where
  "path_parts raw = filter (\<lambda>p. p \<noteq> [] \<and> p \<noteq> ''.'') (split_on (CHR ''/'') raw)"

definition is_absolute :: "string \<Rightarrow> bool" where
  "is_absolute raw \<longleftrightarrow> take 1 raw = ''/''"

definition path_name :: "string \<Rightarrow> string" where
  "path_name raw = (if path_parts raw = [] then [] else last (path_parts raw))"

abbreviation refuse :: "string \<Rightarrow> string \<Rightarrow> exn" where "refuse \<equiv> CapabilityRefusal"

fun walk :: "kernel \<Rightarrow> tree \<Rightarrow> path \<Rightarrow> string list \<Rightarrow> bool \<Rightarrow> path res" where
  "walk k t current [] allow_missing_leaf = Inr current"
| "walk k t current (part # parts) allow_missing_leaf =
     (case lstat k t (current @ [part]) of
        Inl e \<Rightarrow>
          if e = missing then
            (if parts = [] \<and> allow_missing_leaf then Inr (current @ [part])
             else Inl (refuse ''CAPABILITY_NOT_FOUND'' ''The requested workspace path does not exist.''))
          else Inl e
      | Inr (Symlink target) \<Rightarrow>
          Inl (refuse ''CAPABILITY_SYMLINK_REJECTED'' ''Symlinks are not permitted in local capability paths.'')
      | Inr n \<Rightarrow>
          if parts \<noteq> [] \<and> n \<noteq> Directory
          then Inl (refuse ''CAPABILITY_PATH_REJECTED'' ''A workspace path parent is not a directory.'')
          else walk k t (current @ [part]) parts allow_missing_leaf)"

definition workspace_path :: "kernel \<Rightarrow> tree \<Rightarrow> path \<Rightarrow> pyval \<Rightarrow> bool \<Rightarrow> bool \<Rightarrow> path res" where
  "workspace_path k t workspace v allow_missing_leaf allow_root =
     (let raw = str_of v; parts = path_parts raw in
      checked (guard (is_str v \<and> raw \<noteq> [] \<and> CHR 0x00 \<notin> set raw \<and> backslash \<notin> set raw)
        (refuse ''CAPABILITY_PATH_REJECTED'' ''The workspace path is invalid.''))
      (if raw = ''.'' \<and> allow_root then Inr workspace
       else checked (guard (\<not> is_absolute raw \<and> list_all (\<lambda>p. p \<notin> set ['''', ''.'', ''..'']) parts)
           (refuse ''CAPABILITY_PATH_REJECTED'' ''The workspace path escapes or aliases its root.''))
         (ebind (walk k t workspace parts allow_missing_leaf) (\<lambda>current.
          checked (guard (take (length workspace) current = workspace)
            (refuse ''CAPABILITY_PATH_REJECTED'' ''The workspace path escapes its root.''))
          (Inr current)))))"

section \<open>Reading and writing\<close>

definition MAX_IO_BYTES :: int where "MAX_IO_BYTES = 1048576"

definition closed_arguments :: "pydict \<Rightarrow> string list \<Rightarrow> check" where
  "closed_arguments arguments expected = guard (keys_are arguments expected)
     (refuse ''CAPABILITY_OPERATION_REJECTED'' ''The capability arguments have unknown or missing fields.'')"

text \<open>\<open>path not in allowlist\<close>: an unhashable path raises.\<close>

definition granted :: "pyval \<Rightarrow> string list \<Rightarrow> string \<Rightarrow> check" where
  "granted v allowlist message = first_failure [guard (hashable v) TypeErr,
     guard (str_in v allowlist) (refuse ''CAPABILITY_PATH_REJECTED'' message)]"

definition io_bound :: "pyval \<Rightarrow> int \<Rightarrow> bool" where
  "io_bound v high \<longleftrightarrow> is_int v \<and> 1 \<le> int_of v \<and> int_of v \<le> high"

definition translate :: "(exn \<Rightarrow> exn) \<Rightarrow> 'a res \<Rightarrow> 'a res" where
  "translate f m = (case m of Inl e \<Rightarrow> Inl (f e) | Inr x \<Rightarrow> Inr x)"

definition read_open_error :: "exn \<Rightarrow> exn" where
  "read_open_error e =
     (if e = missing then refuse ''CAPABILITY_NOT_FOUND'' ''The requested workspace file does not exist.''
      else refuse ''CAPABILITY_SYMLINK_REJECTED'' ''The requested workspace path is not a safe regular file.'')"

definition bridge_read :: "kernel \<Rightarrow> tree \<Rightarrow> path \<Rightarrow> string list \<Rightarrow> pydict \<Rightarrow> pydict res" where
  "bridge_read k t workspace allowlist arguments =
     (let limit = nat (int_of (dget arguments ''maxBytes'')) in
      checked (first_failure [
        closed_arguments arguments [''path'', ''maxBytes''],
        granted (dget arguments ''path'') allowlist ''The workspace read path is not granted.'',
        guard (io_bound (dget arguments ''maxBytes'') MAX_IO_BYTES)
          (refuse ''CAPABILITY_INPUT_LIMIT'' ''The read byte limit is invalid.'')])
      (ebind (workspace_path k t workspace (dget arguments ''path'') False False) (\<lambda>p.
       ebind (translate read_open_error (open_read k t p)) (\<lambda>q.
       case node_at t q of
         Some (Regular content) \<Rightarrow> ebind (os_read k q (limit + 1) content) (\<lambda>data.
           checked (guard (length data \<le> limit)
             (refuse ''CAPABILITY_OUTPUT_LIMIT'' ''The workspace read exceeds its declared byte limit.''))
           (Inr [(''bytesBase64'', PStr (b64encode data)), (''byteLength'', PInt (int (length data)))]))
       | _ \<Rightarrow> Inl (refuse ''CAPABILITY_NOT_FILE'' ''The requested workspace path is not a regular file.'')))))"

definition write_open_error :: "exn \<Rightarrow> exn" where
  "write_open_error e =
     (if e = missing then refuse ''CAPABILITY_NOT_FOUND'' ''The workspace write parent does not exist.''
      else refuse ''CAPABILITY_SYMLINK_REJECTED'' ''The workspace write target is not safe.'')"

text \<open>The payload: \<open>binascii.Error\<close> is a \<open>ValueError\<close>.\<close>

definition write_payload :: "pyval \<Rightarrow> string res" where
  "write_payload v =
     checked (guard (is_str v) (refuse ''CAPABILITY_INPUT_LIMIT'' ''The workspace write payload is invalid.''))
     (ebind (translate (\<lambda>e. refuse ''CAPABILITY_INPUT_LIMIT'' ''The workspace write payload is invalid.'')
        (b64decode (str_of v))) (\<lambda>data.
      checked (guard (int (length data) \<le> MAX_IO_BYTES)
        (refuse ''CAPABILITY_INPUT_LIMIT'' ''The workspace write exceeds the fixture byte limit.''))
      (Inr data)))"

definition write_target :: "kernel \<Rightarrow> tree \<Rightarrow> path \<Rightarrow> string list \<Rightarrow> pydict \<Rightarrow> (string \<times> path \<times> tree) res" where
  "write_target k t workspace allowlist arguments =
     checked (first_failure [
       closed_arguments arguments [''path'', ''bytesBase64''],
       granted (dget arguments ''path'') allowlist ''The workspace write path is not granted.''])
     (ebind (write_payload (dget arguments ''bytesBase64'')) (\<lambda>data.
      ebind (workspace_path k t workspace (dget arguments ''path'') True False) (\<lambda>p.
      ebind (translate write_open_error (open_write k t p)) (\<lambda>(q, t'). Inr (data, q, t')))))"

definition bridge_write :: "kernel \<Rightarrow> tree \<Rightarrow> path \<Rightarrow> string list \<Rightarrow> pydict \<Rightarrow> pydict res \<times> tree" where
  "bridge_write k t workspace allowlist arguments =
     (case write_target k t workspace allowlist arguments of
        Inl e \<Rightarrow> (Inl e, t)
      | Inr (data, q, t') \<Rightarrow>
          if chmod_fails k q then (Inl os_error, t')
          else (case write_loop k q data 0 t' of
              (Inl e, t'') \<Rightarrow> (Inl e, t'')
            | (Inr written, t'') \<Rightarrow> (Inr [(''bytesWritten'', PInt (int (length data)))], t'')))"

end
