(* ===== verification/Bridge_Process.thy ===== *)
theory Bridge_Process
  imports Py_Value
begin

text \<open>
  Running an allowlisted process in \<^verbatim>\<open>capability_bridge.py\<close>: the two reader threads of \<open>_execute\<close>, which
  share a budget of retained bytes under a lock, the closing of the streams after the joins, and the decision. What the
  child and the clock did is a \<open>child_run\<close>: the reads of the two threads in the order they took the lock, before and
  after each stream was closed, whether the wait ran out, whether the child could be reaped. Every order of events is
  covered, so is every split into chunks. A run returns: closing a stream waits for a read in progress, so a descendant
  that keeps the stream open and writes nothing keeps \<open>_execute\<close> from returning, and such a run is none of these.
\<close>

section \<open>The readers\<close>

text \<open>A read that returns, reaches the end, fails with an \<open>OSError\<close> or finds its stream closed, which is a
  \<open>ValueError\<close> that nobody catches; and the end of the thread.\<close>

datatype reader_event = Chunk string | End_of_file | Read_error | Read_closed | Thread_end

datatype reader_status = Reading | At_end | Overflowed | Failed | Cut_off

record readers =
  buffer0 :: string
  buffer1 :: string
  status0 :: reader_status
  status1 :: reader_status
  closed0 :: bool
  closed1 :: bool
  ended0 :: bool
  ended1 :: bool
  retained :: nat
  max_observed :: nat
  child_killed :: bool

definition start_readers :: "nat \<Rightarrow> readers" where
  "start_readers observed = \<lparr>buffer0 = [], buffer1 = [], status0 = Reading, status1 = Reading, closed0 = False,
     closed1 = False, ended0 = False, ended1 = False, retained = 0, max_observed = observed, child_killed = False\<rparr>"

definition buffer_of :: "readers \<Rightarrow> bool \<Rightarrow> string" where
  "buffer_of r second = (if second then buffer1 r else buffer0 r)"

definition status_of :: "readers \<Rightarrow> bool \<Rightarrow> reader_status" where
  "status_of r second = (if second then status1 r else status0 r)"

definition closed_of :: "readers \<Rightarrow> bool \<Rightarrow> bool" where
  "closed_of r second = (if second then closed1 r else closed0 r)"

definition set_reader_status :: "bool \<Rightarrow> reader_status \<Rightarrow> readers \<Rightarrow> readers" where
  "set_reader_status second s r = (if second then r\<lparr>status1 := s\<rparr> else r\<lparr>status0 := s\<rparr>)"

definition close_stream :: "bool \<Rightarrow> readers \<Rightarrow> readers" where
  "close_stream second r = (if second then r\<lparr>closed1 := True\<rparr> else r\<lparr>closed0 := True\<rparr>)"

definition end_thread :: "bool \<Rightarrow> readers \<Rightarrow> readers" where
  "end_thread second r = (if second then r\<lparr>ended1 := True\<rparr> else r\<lparr>ended0 := True\<rparr>)"

definition append_buffer :: "bool \<Rightarrow> string \<Rightarrow> readers \<Rightarrow> readers" where
  "append_buffer second accepted r =
     (let r' = (if second then r\<lparr>buffer1 := buffer1 r @ accepted\<rparr> else r\<lparr>buffer0 := buffer0 r @ accepted\<rparr>);
          kept = retained r + length accepted in
      r'\<lparr>retained := kept, max_observed := max (max_observed r) kept\<rparr>)"

text \<open>One turn of \<open>read_bounded\<close> of the first or the second stream. A thread that has left its loop takes no other
  turn than its end; one whose stream has been closed keeps what its last read returned, and dies in the next.\<close>

definition reader_turn :: "nat \<Rightarrow> bool \<Rightarrow> reader_event \<Rightarrow> readers \<Rightarrow> readers" where
  "reader_turn max_output_bytes second ev r =
     (if status_of r second \<noteq> Reading then (if ev = Thread_end then end_thread second r else r)
      else case ev of
        End_of_file \<Rightarrow> set_reader_status second At_end r
      | Read_error \<Rightarrow> (set_reader_status second Failed r)\<lparr>child_killed := True\<rparr>
      | Read_closed \<Rightarrow> if closed_of r second then set_reader_status second Cut_off r else r
      | Thread_end \<Rightarrow> r
      | Chunk chunk \<Rightarrow>
          if chunk = [] then set_reader_status second At_end r
          else (let remaining = int max_output_bytes - int (retained r);
                    accepted = take (nat (max 0 remaining)) chunk;
                    r' = append_buffer second accepted r in
            if length accepted < length chunk then (set_reader_status second Overflowed r')\<lparr>child_killed := True\<rparr>
            else if closed_of r second then set_reader_status second Cut_off r' else r'))"

datatype moment = Turn bool reader_event | Close bool

fun run_moment :: "nat \<Rightarrow> moment \<Rightarrow> readers \<Rightarrow> readers" where
  "run_moment limit (Turn second ev) r = reader_turn limit second ev r"
| "run_moment limit (Close second) r = close_stream second r"

fun run_readers :: "nat \<Rightarrow> moment list \<Rightarrow> readers \<Rightarrow> readers" where
  "run_readers limit [] r = r"
| "run_readers limit (m # ms) r = run_readers limit ms (run_moment limit m r)"

section \<open>The decision\<close>

text \<open>What \<open>Popen\<close> raises.\<close>

datatype spawn_error = Spawn_os string | Spawn_value string | Spawn_subprocess

fun spawn_exn :: "spawn_error \<Rightarrow> exn" where
  "spawn_exn (Spawn_os m) = OSErr m"
| "spawn_exn (Spawn_value m) = ValueErr m"
| "spawn_exn Spawn_subprocess = OtherExn ''SubprocessError''"

text \<open>The turns until both joins are over, then until the first stream is closed and the second, until the first thread
  is asked whether it is alive and the second, and afterwards.\<close>

record child_run =
  cr_spawn_error :: "spawn_error option"
  cr_joined :: "(bool \<times> reader_event) list"
  cr_closing :: "(bool \<times> reader_event) list"
  cr_closed :: "(bool \<times> reader_event) list"
  cr_checking :: "(bool \<times> reader_event) list"
  cr_later :: "(bool \<times> reader_event) list"
  cr_timed_out :: bool
  cr_reap_failed :: bool
  cr_returncode :: int

definition turns :: "(bool \<times> reader_event) list \<Rightarrow> moment list" where
  "turns evs = map (\<lambda>(second, ev). Turn second ev) evs"

definition before_close :: "bool \<Rightarrow> child_run \<Rightarrow> moment list" where
  "before_close second c = turns (cr_joined c) @ (if second then Close False # turns (cr_closing c) else [])"

definition until_check :: "child_run \<Rightarrow> moment list" where
  "until_check c = turns (cr_joined c) @ [Close False] @ turns (cr_closing c) @ [Close True] @ turns (cr_closed c)"

definition execution_failed :: "string \<Rightarrow> exn" where
  "execution_failed m = CapabilityRefusal ''CAPABILITY_EXECUTION_FAILED'' m"

definition output_limit_refusal :: exn where
  "output_limit_refusal = CapabilityRefusal ''CAPABILITY_OUTPUT_LIMIT'' ''The allowlisted process exceeded its output byte limit.''"

text \<open>\<open>any(reader.is_alive() for reader in readers)\<close>: the second thread is asked after the first.\<close>

definition any_alive :: "readers \<Rightarrow> readers \<Rightarrow> bool" where
  "any_alive r r' \<longleftrightarrow> \<not> ended0 r \<or> \<not> ended1 r'"

definition has_status :: "readers \<Rightarrow> reader_status \<Rightarrow> bool" where
  "has_status r s \<longleftrightarrow> status0 r = s \<or> status1 r = s"

definition execute_outcome :: "child_run \<Rightarrow> readers \<Rightarrow> readers \<Rightarrow> (int \<times> string \<times> string) res" where
  "execute_outcome c r r' = checked (first_failure [
     guard (\<not> cr_reap_failed c) (execution_failed ''The direct allowlisted process could not be reaped.''),
     guard (\<not> any_alive r r' \<and> \<not> has_status r' Failed)
       (execution_failed ''The direct allowlisted process output reader did not settle.''),
     guard (\<not> has_status r' Overflowed) output_limit_refusal,
     guard (\<not> cr_timed_out c) (execution_failed ''The allowlisted process exceeded its execution deadline.'')])
   (Inr (cr_returncode c, buffer0 r', buffer1 r'))"

text \<open>\<open>_execute\<close>: the result with the most bytes ever retained and whether the child was reaped, both unchanged
  when the child could not be started.\<close>

definition execute :: "child_run \<Rightarrow> nat \<Rightarrow> nat \<Rightarrow> bool option \<Rightarrow> (int \<times> string \<times> string) res \<times> nat \<times> bool option" where
  "execute c max_output_bytes observed reaped =
     (case cr_spawn_error c of
        Some e \<Rightarrow> (Inl (spawn_exn e), observed, reaped)
      | None \<Rightarrow>
          (let r = run_readers max_output_bytes (until_check c) (start_readers observed);
               r' = run_readers max_output_bytes (turns (cr_checking c)) r in
           (execute_outcome c r r', max_observed (run_readers max_output_bytes (turns (cr_later c)) r'),
            Some (\<not> cr_reap_failed c))))"

section \<open>What is retained\<close>

text \<open>What the reads of one stream return, up to its end or up to one read after it is closed, and whether its end is
  reached.\<close>

fun stream_read :: "bool \<Rightarrow> bool \<Rightarrow> moment list \<Rightarrow> string \<times> bool" where
  "stream_read second shut [] = ([], False)"
| "stream_read second shut (Close s # ms) = stream_read second (shut \<or> s = second) ms"
| "stream_read second shut (Turn s ev # ms) =
     (if s \<noteq> second then stream_read second shut ms
      else case ev of
        Chunk chunk \<Rightarrow> if chunk = [] then ([], True) else if shut then (chunk, False)
          else (case stream_read second shut ms of (bytes, at_end) \<Rightarrow> (chunk @ bytes, at_end))
      | End_of_file \<Rightarrow> ([], True)
      | Read_error \<Rightarrow> ([], False)
      | Read_closed \<Rightarrow> if shut then ([], False) else stream_read second shut ms
      | Thread_end \<Rightarrow> stream_read second shut ms)"

text \<open>Nothing has ended the reading of a stream.\<close>

definition open_turn :: "bool \<Rightarrow> moment \<Rightarrow> bool" where
  "open_turn second m \<longleftrightarrow> (case m of Close s \<Rightarrow> True
     | Turn s ev \<Rightarrow> s \<noteq> second \<or> ev \<notin> {End_of_file, Read_error, Chunk []})"

definition still_open :: "bool \<Rightarrow> moment list \<Rightarrow> bool" where
  "still_open second ms \<longleftrightarrow> list_all (open_turn second) ms"

definition reader_inv :: "nat \<Rightarrow> readers \<Rightarrow> bool" where
  "reader_inv limit r \<longleftrightarrow> retained r = length (buffer0 r) + length (buffer1 r) \<and> retained r \<le> limit \<and>
     retained r \<le> max_observed r"

lemma status_simps [simp]:
  "status_of (set_reader_status b s r) b' = (if b = b' then s else status_of r b')"
  "status_of (append_buffer b a r) b' = status_of r b'"
  "status_of (close_stream b r) b' = status_of r b'" "status_of (end_thread b r) b' = status_of r b'"
  "status_of (r\<lparr>child_killed := k\<rparr>) b = status_of r b"
  "buffer_of (set_reader_status b s r) b' = buffer_of r b'"
  "buffer_of (append_buffer b a r) b' = (if b = b' then buffer_of r b' @ a else buffer_of r b')"
  "buffer_of (close_stream b r) b' = buffer_of r b'" "buffer_of (end_thread b r) b' = buffer_of r b'"
  "buffer_of (r\<lparr>child_killed := k\<rparr>) b = buffer_of r b"
  "closed_of (set_reader_status b s r) b' = closed_of r b'" "closed_of (append_buffer b a r) b' = closed_of r b'"
  "closed_of (close_stream b r) b' = (closed_of r b' \<or> b = b')" "closed_of (end_thread b r) b' = closed_of r b'"
  "closed_of (r\<lparr>child_killed := k\<rparr>) b = closed_of r b"
  by (auto simp: status_of_def set_reader_status_def append_buffer_def buffer_of_def closed_of_def close_stream_def
      end_thread_def Let_def)

lemma reader_inv_simps [simp]:
  "reader_inv limit (set_reader_status b s r) = reader_inv limit r"
  "reader_inv limit (close_stream b r) = reader_inv limit r" "reader_inv limit (end_thread b r) = reader_inv limit r"
  "reader_inv limit (r\<lparr>child_killed := k\<rparr>) = reader_inv limit r"
  by (auto simp: reader_inv_def set_reader_status_def close_stream_def end_thread_def)

lemma reader_inv_append:
  "reader_inv limit r \<Longrightarrow> length a \<le> limit - retained r \<Longrightarrow> reader_inv limit (append_buffer b a r)"
  by (auto simp: reader_inv_def append_buffer_def Let_def)

lemma reader_inv_step: "reader_inv limit r \<Longrightarrow> reader_inv limit (run_moment limit m r)"
  by (cases m) (auto simp: reader_turn_def Let_def reader_inv_append nat_diff_distrib split: reader_event.split)

lemma reader_inv_run: "reader_inv limit r \<Longrightarrow> reader_inv limit (run_readers limit ms r)"
  by (induction limit ms r rule: run_readers.induct) (simp_all add: reader_inv_step)

lemma run_readers_append: "run_readers limit (ms @ ns) r = run_readers limit ns (run_readers limit ms r)"
  by (induction limit ms r rule: run_readers.induct) simp_all

lemma stopped_stays: "status_of r second \<noteq> Reading \<Longrightarrow>
    status_of (run_readers limit ms r) second = status_of r second \<and> buffer_of (run_readers limit ms r) second = buffer_of r second"
proof (induction limit ms r rule: run_readers.induct)
  case (2 limit m ms r)
  have "status_of (run_moment limit m r) second = status_of r second \<and> buffer_of (run_moment limit m r) second = buffer_of r second"
    using "2.prems" by (cases m; cases "\<exists>ev. m = Turn second ev")
      (auto simp: reader_turn_def Let_def split: reader_event.split)
  with 2 show ?case by simp
qed simp

text \<open>A reader that has neither failed nor overflowed has kept all it read, whatever the other one does.\<close>

definition clean :: "reader_status \<Rightarrow> bool" where
  "clean s \<longleftrightarrow> s \<noteq> Failed \<and> s \<noteq> Overflowed"

lemma run_stream:
  assumes "status_of r second = Reading" "clean (status_of (run_readers limit ms r) second)"
  shows "buffer_of (run_readers limit ms r) second = buffer_of r second @ fst (stream_read second (closed_of r second) ms) \<and>
    (status_of (run_readers limit ms r) second = At_end \<longleftrightarrow> snd (stream_read second (closed_of r second) ms))"
  using assms
proof (induction limit ms r rule: run_readers.induct)
  case (2 limit m ms r)
  let ?r = "run_moment limit m r"
  show ?case
  proof (cases "status_of ?r second = Reading")
    case True
    with "2.IH" "2.prems" have IH: "buffer_of (run_readers limit ms ?r) second =
        buffer_of ?r second @ fst (stream_read second (closed_of ?r second) ms)"
      "status_of (run_readers limit ms ?r) second = At_end \<longleftrightarrow> snd (stream_read second (closed_of ?r second) ms)" by simp_all
    show ?thesis
    proof (cases m)
      case (Turn s ev)
      with True IH "2.prems"(1) show ?thesis
        by (cases "s = second") (auto simp: reader_turn_def Let_def split: reader_event.splits if_splits prod.splits)
    qed (use IH in \<open>auto split: if_splits\<close>)
  next
    case False
    then obtain ev where m: "m = Turn second ev"
      using "2.prems"(1) by (cases m) (auto simp: reader_turn_def Let_def split: reader_event.splits if_splits)
    from stopped_stays [OF False, of limit ms] "2.prems" False m show ?thesis
      by (auto simp: clean_def reader_turn_def Let_def split: reader_event.splits if_splits)
  qed
qed simp

text \<open>A reader is cut off only when its stream is closed while it is reading.\<close>

definition open_until :: "bool \<Rightarrow> moment list \<Rightarrow> bool" where
  "open_until second ms \<longleftrightarrow> Close second \<notin> set ms"

lemma open_reader:
  assumes "open_until second ms" "status_of r second = Reading" "\<not> closed_of r second"
  shows "status_of (run_readers limit ms r) second \<noteq> Cut_off \<and>
    (status_of (run_readers limit ms r) second = Reading \<longrightarrow> still_open second ms)"
  using assms
proof (induction limit ms r rule: run_readers.induct)
  case (2 limit m ms r)
  let ?r = "run_moment limit m r"
  have open_again: "open_until second ms" "\<not> closed_of ?r second"
    using "2.prems" by (cases m; auto simp: open_until_def reader_turn_def Let_def split: reader_event.splits)+
  show ?case
  proof (cases "status_of ?r second = Reading")
    case True
    have "open_turn second m"
    proof (cases m)
      case (Turn s ev)
      with True "2.prems" show ?thesis
        by (cases "s = second") (auto simp: open_turn_def reader_turn_def split: reader_event.splits if_splits)
    qed (simp add: open_turn_def)
    with "2.IH" [OF open_again(1) True open_again(2)] show ?thesis by (simp add: still_open_def)
  next
    case False
    then have "status_of ?r second \<noteq> Cut_off"
      using "2.prems" by (cases m) (auto simp: reader_turn_def Let_def split: reader_event.splits if_splits)
    with stopped_stays [OF False, of limit ms] False show ?thesis by simp
  qed
qed (simp add: still_open_def)

section \<open>The result\<close>

lemma max_observed_step: "retained r \<le> limit \<Longrightarrow>
    retained (run_moment limit m r) \<le> limit \<and> max_observed (run_moment limit m r) \<le> max (max_observed r) limit"
  by (cases m) (auto simp: reader_turn_def append_buffer_def set_reader_status_def close_stream_def end_thread_def Let_def
      split: reader_event.split)

lemma max_observed_run: "retained r \<le> limit \<Longrightarrow> max_observed (run_readers limit ms r) \<le> max (max_observed r) limit"
proof (induction limit ms r rule: run_readers.induct)
  case (2 limit m ms r)
  with max_observed_step [of r limit m] show ?case by (auto simp: max_def split: if_splits)
qed simp

text \<open>Nothing above the limit is ever retained, and what a result carries is all that was read.\<close>

lemma execute_bound:
  assumes "execute c limit observed reaped = (r, observed', reaped')"
  shows "observed' \<le> max observed limit"
  using assms max_observed_run [of "start_readers observed" limit "until_check c @ turns (cr_checking c) @ turns (cr_later c)"]
  by (auto simp: execute_def Let_def start_readers_def run_readers_append split: option.splits)

definition child_stream :: "bool \<Rightarrow> child_run \<Rightarrow> string \<times> bool" where
  "child_stream second c = stream_read second False (until_check c @ turns (cr_checking c))"

lemma ended_stopped:
  "(ended0 r \<longrightarrow> status0 r \<noteq> Reading) \<and> (ended1 r \<longrightarrow> status1 r \<noteq> Reading) \<Longrightarrow>
   (ended0 (run_readers limit ms r) \<longrightarrow> status0 (run_readers limit ms r) \<noteq> Reading) \<and>
   (ended1 (run_readers limit ms r) \<longrightarrow> status1 (run_readers limit ms r) \<noteq> Reading)"
proof (induction limit ms r rule: run_readers.induct)
  case (2 limit m ms r)
  have "(ended0 (run_moment limit m r) \<longrightarrow> status0 (run_moment limit m r) \<noteq> Reading) \<and>
      (ended1 (run_moment limit m r) \<longrightarrow> status1 (run_moment limit m r) \<noteq> Reading)"
    using "2.prems" by (cases m) (auto simp: reader_turn_def set_reader_status_def append_buffer_def close_stream_def
        end_thread_def status_of_def Let_def split: reader_event.splits)
  from "2.IH" [OF this] show ?case by simp
qed simp

lemma execute_Inr:
  assumes "execute c limit observed reaped = (Inr (code, out, err), observed', reaped')"
  shows "code = cr_returncode c" "out = fst (child_stream False c)" "err = fst (child_stream True c)"
    "length out + length err \<le> limit" "reaped' = Some True" "\<not> cr_timed_out c"
    "snd (child_stream second c) \<or> still_open second (before_close second c)"
proof -
  let ?s = "start_readers observed"
  let ?r = "run_readers limit (until_check c) ?s"
  let ?r' = "run_readers limit (until_check c @ turns (cr_checking c)) ?s"
  from assms have "execute_outcome c ?r ?r' = Inr (code, out, err)" "reaped' = Some (\<not> cr_reap_failed c)"
    by (auto simp: execute_def Let_def run_readers_append split: option.splits)
  then have decided: "\<not> cr_reap_failed c" "\<not> any_alive ?r ?r'" "\<not> has_status ?r' Failed" "\<not> has_status ?r' Overflowed"
    "\<not> cr_timed_out c" "code = cr_returncode c" "out = buffer0 ?r'" "err = buffer1 ?r'" and reaped: "reaped' = Some True"
    by (auto simp: execute_outcome_def checked_eq_Inr)
  have start: "status_of ?s b = Reading" "\<not> closed_of ?s b" "buffer_of ?s b = []" for b
    by (simp_all add: start_readers_def status_of_def closed_of_def buffer_of_def)
  have clean: "clean (status_of ?r' b)" for b
    using decided(3, 4) by (cases b) (auto simp: clean_def has_status_def status_of_def)
  have kept: "buffer_of ?r' b = fst (child_stream b c)" "status_of ?r' b = At_end \<longleftrightarrow> snd (child_stream b c)" for b
    using run_stream [OF start(1) clean, of b] start(2) [of b] by (simp_all add: child_stream_def start(3))
  have stopped: "status_of ?r' b \<noteq> Reading" for b
  proof -
    have "status_of ?r False \<noteq> Reading" "status_of ?r' True \<noteq> Reading"
      using ended_stopped [of ?s limit] decided(2) by (auto simp: any_alive_def status_of_def start_readers_def)
    with stopped_stays [of ?r False limit "turns (cr_checking c)"] show ?thesis by (cases b) (simp_all add: run_readers_append)
  qed
  show "snd (child_stream second c) \<or> still_open second (before_close second c)"
  proof (rule disjCI)
    assume "\<not> still_open second (before_close second c)"
    moreover have "open_until second (before_close second c)"
      by (auto simp: open_until_def before_close_def turns_def)
    ultimately have early: "status_of (run_readers limit (before_close second c) ?s) second \<noteq> Reading"
      "status_of (run_readers limit (before_close second c) ?s) second \<noteq> Cut_off"
      using open_reader [OF _ start(1, 2)] by blast+
    obtain ms where "until_check c @ turns (cr_checking c) = before_close second c @ ms"
      by (cases second) (auto simp: until_check_def before_close_def)
    with stopped_stays [OF early(1), of limit ms] early have "status_of ?r' second \<noteq> Cut_off" by (simp add: run_readers_append)
    with stopped [of second] clean [of second] have "status_of ?r' second = At_end"
      by (cases "status_of ?r' second") (simp_all add: clean_def)
    then show "snd (child_stream second c)" by (simp add: kept)
  qed
  have "reader_inv limit ?r'" by (rule reader_inv_run) (simp add: reader_inv_def start_readers_def)
  then show "code = cr_returncode c" "out = fst (child_stream False c)" "err = fst (child_stream True c)"
    "length out + length err \<le> limit" "reaped' = Some True" "\<not> cr_timed_out c"
    using decided reaped kept [of False] kept [of True] by (simp_all add: reader_inv_def buffer_of_def)
qed

end
