(* ===== verification/Bridge_Service.thy ===== *)
theory Bridge_Service
  imports Bridge_Files Bridge_Process
begin

text \<open>
  The bridge of \<^verbatim>\<open>capability_bridge.py\<close>: its construction, \<open>_exec\<close>, \<open>handle\<close> with the counters, and
  \<open>snapshot\<close>. What lies outside (the kernel, the child processes, an executor passed to the constructor, and
  \<open>str\<close> of a container or float) is the record \<open>bridge_outside\<close>; each request may meet another one. Nothing
  confines a process: what it does to the tree while its request lasts is \<open>out_process\<close>, and what it, its descendants
  and anybody else do before a request comes is \<open>out_drift\<close>, both any functions of trees.
\<close>

section \<open>Construction\<close>

definition SAFE_ENVIRONMENT :: "string list" where "SAFE_ENVIRONMENT = [''LANG'', ''LC_ALL'', ''TERM'']"

definition SHELL_NAMES :: "string list" where
  "SHELL_NAMES = [''ash'', ''bash'', ''cmd'', ''cmd.exe'', ''csh'', ''dash'', ''fish'', ''ksh'', ''powershell'',
     ''powershell.exe'', ''pwsh'', ''sh'', ''tcsh'', ''zsh'']"

record config =
  bc_workspace :: path
  bc_executables :: "(string \<times> string list) list"
  bc_reads :: "string list"
  bc_writes :: "string list"
  bc_default :: bool

record spawn =
  sp_argv :: "string list"
  sp_cwd :: path
  sp_env :: "(string \<times> string) list"
  sp_timeout_ms :: int
  sp_output_limit :: int

record bridge =
  br_tree :: tree
  br_requested :: nat
  br_completed :: nat
  br_rejected :: nat
  br_codes :: "(string \<times> nat) list"
  br_reaped :: "bool option"
  br_retained :: nat
  br_spawned :: "spawn list"

record bridge_outside =
  out_kernel :: kernel
  out_drift :: "tree \<Rightarrow> tree"
  out_process :: "spawn \<Rightarrow> tree \<Rightarrow> tree"
  out_child :: "spawn \<Rightarrow> child_run"
  out_executor :: "spawn \<Rightarrow> (int \<times> string \<times> string) res"
  out_str :: "pyval \<Rightarrow> string"

text \<open>The command of an entry: a string alone, or the elements of a sequence.\<close>

fun entry_command :: "pyval \<Rightarrow> pyval list res" where
  "entry_command (PStr s) = Inr [PStr s]"
| "entry_command (PList xs) = Inr xs"
| "entry_command (PDict d) = Inr (map (\<lambda>(k, v). PStr k) d)"
| "entry_command _ = Inl TypeErr"

definition is_shell :: "string \<Rightarrow> bool" where
  "is_shell name \<longleftrightarrow> py_lower name \<in> set SHELL_NAMES"

definition executable_check :: "bool \<Rightarrow> string \<times> pyval list \<Rightarrow> check" where
  "executable_check default_executor e = (case e of (name, command) \<Rightarrow> first_failure [
     guard (name \<noteq> [] \<and> path_name name = name \<and> \<not> is_shell name \<and> command \<noteq> [] \<and>
         list_all (\<lambda>v. is_str v \<and> CHR 0x00 \<notin> set (str_of v)) command)
       (ValueErr ''executable allowlist entry is invalid''),
     guard (default_executor \<longrightarrow> is_absolute (str_of (hd command)) \<and> \<not> is_shell (path_name (str_of (hd command))))
       (ValueErr ''default executor requires an absolute non-shell executable'')])"

text \<open>\<open>__init__\<close>, given what \<open>resolve(strict=True)\<close> and \<open>is_dir\<close> answer for the workspace.\<close>

definition init_bridge ::
  "path res \<Rightarrow> bool \<Rightarrow> string list \<Rightarrow> string list \<Rightarrow> pydict \<Rightarrow> bool \<Rightarrow> tree \<Rightarrow> (config \<times> bridge) res" where
  "init_bridge resolved directory reads writes executables custom t =
     ebind resolved (\<lambda>workspace.
     checked (guard directory (ValueErr ''workspace must be a directory''))
     (ebind (traverse_res (\<lambda>(name, v). ebind (entry_command v) (\<lambda>c. Inr (name, c))) executables) (\<lambda>commands.
      checked (first_failure (map (executable_check (\<not> custom)) commands))
      (Inr (\<lparr>bc_workspace = workspace, bc_executables = map (\<lambda>(name, c). (name, map str_of c)) commands,
             bc_reads = reads, bc_writes = writes, bc_default = \<not> custom\<rparr>,
            \<lparr>br_tree = t, br_requested = 0, br_completed = 0, br_rejected = 0, br_codes = [], br_reaped = None,
             br_retained = 0, br_spawned = []\<rparr>)))))"

section \<open>Processes\<close>

definition argv_check :: "pyval \<Rightarrow> check" where
  "argv_check v = (let invalid = refuse ''CAPABILITY_EXECUTABLE_REJECTED'' ''The process argv is invalid.'' in first_failure [
     guard (is_list v \<and> list_of v \<noteq> [] \<and> length (list_of v) \<le> 128 \<and> list_all is_str (list_of v)) invalid,
     guard (list_all (\<lambda>x. CHR 0x00 \<notin> set (str_of x) \<and> py_len (str_of x) \<le> 4096) (list_of v)) invalid])"

definition env_check :: "pyval \<Rightarrow> check" where
  "env_check v = guard (is_dict v \<and>
      list_all (\<lambda>(name, x). name \<in> set SAFE_ENVIRONMENT \<and> is_str x \<and> CHR 0x00 \<notin> set (str_of x)) (dict_of v))
    (refuse ''CAPABILITY_ENV_REJECTED'' ''The process environment contains a non-allowlisted entry.'')"

text \<open>\<open>_exec\<close> up to the call of the executor.\<close>

definition exec_plan :: "bridge_outside \<Rightarrow> config \<Rightarrow> tree \<Rightarrow> pydict \<Rightarrow> spawn res" where
  "exec_plan out cfg t arguments =
     (let argv = map str_of (list_of (dget arguments ''argv'')); executable = hd argv;
          env = dget arguments ''env''; timeout = dget arguments ''timeoutMs''; limit = dget arguments ''maxOutputBytes'' in
      checked (first_failure [
        closed_arguments arguments [''argv'', ''cwd'', ''env'', ''timeoutMs'', ''maxOutputBytes''],
        argv_check (dget arguments ''argv''),
        guard (\<not> is_shell (path_name executable))
          (refuse ''CAPABILITY_SHELL_REJECTED'' ''Shell executables are not permitted by the local bridge.''),
        guard (executable \<in> fst ` set (bc_executables cfg))
          (refuse ''CAPABILITY_EXECUTABLE_REJECTED'' ''The executable is not allowlisted by the local bridge.''),
        env_check env,
        guard (io_bound timeout 30000) (refuse ''CAPABILITY_INPUT_LIMIT'' ''The process timeout is invalid.''),
        guard (io_bound limit MAX_IO_BYTES) (refuse ''CAPABILITY_INPUT_LIMIT'' ''The process output limit is invalid.'')])
      (ebind (workspace_path (out_kernel out) t (bc_workspace cfg) (dget arguments ''cwd'') False True) (\<lambda>cwd.
       checked (guard (is_dir t cwd)
         (refuse ''CAPABILITY_PATH_REJECTED'' ''The process working directory is not a directory.''))
       (Inr \<lparr>sp_argv = (if bc_default cfg then the (map_of (bc_executables cfg) executable) @ tl argv else argv),
          sp_cwd = cwd, sp_env = map (\<lambda>(name, v). (name, str_of v)) (dict_of env),
          sp_timeout_ms = int_of timeout, sp_output_limit = int_of limit\<rparr>))))"

definition is_process_error :: "exn \<Rightarrow> bool" where
  "is_process_error e \<longleftrightarrow> (case e of OSErr m \<Rightarrow> True | _ \<Rightarrow> e = OtherExn ''SubprocessError'')"

definition run_executor :: "bridge_outside \<Rightarrow> config \<Rightarrow> spawn \<Rightarrow> bridge \<Rightarrow> (int \<times> string \<times> string) res \<times> bridge" where
  "run_executor out cfg sp b =
     (let spawned = b\<lparr>br_spawned := br_spawned b @ [sp]\<rparr>; started = spawned\<lparr>br_tree := out_process out sp (br_tree b)\<rparr> in
      if bc_default cfg then
        (case execute (out_child out sp) (nat (sp_output_limit sp)) (br_retained b) (br_reaped b) of
           (r, observed, reaped) \<Rightarrow>
             (r, (if cr_spawn_error (out_child out sp) = None then started else spawned)
                \<lparr>br_retained := observed, br_reaped := reaped\<rparr>))
      else (out_executor out sp, started))"

definition exec_result :: "spawn \<Rightarrow> (int \<times> string \<times> string) res \<Rightarrow> pydict res" where
  "exec_result sp answer =
     ebind (translate (\<lambda>e. if is_process_error e
         then execution_failed ''The allowlisted process failed to execute.'' else e) answer)
       (\<lambda>(exit_code, stdout, stderr).
     checked (guard (int (length stdout + length stderr) \<le> sp_output_limit sp) output_limit_refusal)
     (Inr [(''exitCode'', PInt exit_code), (''stdoutBase64'', PStr (b64encode stdout)),
           (''stderrBase64'', PStr (b64encode stderr))]))"

definition bridge_exec :: "bridge_outside \<Rightarrow> config \<Rightarrow> pydict \<Rightarrow> bridge \<Rightarrow> pydict res \<times> bridge" where
  "bridge_exec out cfg arguments b =
     (case exec_plan out cfg (br_tree b) arguments of
        Inl e \<Rightarrow> (Inl e, b)
      | Inr sp \<Rightarrow> (case run_executor out cfg sp b of (answer, b') \<Rightarrow> (exec_result sp answer, b')))"

section \<open>Requests\<close>

definition ENVELOPE_KEYS :: "string list" where
  "ENVELOPE_KEYS = [''schema'', ''type'', ''requestId'', ''runId'', ''sequence'', ''correlationId'', ''operation'', ''arguments'']"

definition rejected_operation :: "string \<Rightarrow> exn" where
  "rejected_operation m = refuse ''CAPABILITY_OPERATION_REJECTED'' m"

definition validate_envelope :: "pydict \<Rightarrow> check" where
  "validate_envelope request = first_failure ([
     guard (keys_are request ENVELOPE_KEYS) (rejected_operation ''The capability envelope has unknown or missing fields.''),
     guard (dget request ''schema'' = PStr WIRE_SCHEMA \<and> dget request ''type'' = PStr ''capability.request'')
       (rejected_operation ''The capability envelope version or type is unsupported.'')] @
     map (\<lambda>name. guard (is_str (dget request name) \<and> str_of (dget request name) \<noteq> [])
         (rejected_operation ''The capability envelope correlation is invalid.''))
       [''requestId'', ''runId'', ''correlationId''] @
     [guard (is_dict (dget request ''arguments'')) (rejected_operation ''The capability arguments must be an object.'')])"

text \<open>\<open>str(request.get(name, default))\<close>\<close>

definition py_str :: "(pyval \<Rightarrow> string) \<Rightarrow> pyval \<Rightarrow> string" where
  "py_str other v = (case v of PStr s \<Rightarrow> s | PInt n \<Rightarrow> dec_int n | PBool b \<Rightarrow> if b then ''True'' else ''False''
     | PNone \<Rightarrow> ''None'' | _ \<Rightarrow> other v)"

definition answer_identity :: "bridge_outside \<Rightarrow> pydict \<Rightarrow> string \<Rightarrow> string \<Rightarrow> string \<times> pyval" where
  "answer_identity out request name fallback =
     (name, PStr (if has_key request name then py_str (out_str out) (dget request name) else fallback))"

definition bridge_response :: "bridge_outside \<Rightarrow> pydict \<Rightarrow> string \<Rightarrow> string \<times> pyval \<Rightarrow> pydict" where
  "bridge_response out request response_type payload = [
     (''schema'', PStr WIRE_SCHEMA), (''type'', PStr response_type),
     answer_identity out request ''requestId'' ''invalid-request'',
     answer_identity out request ''runId'' ''invalid-run'',
     answer_identity out request ''correlationId'' ''invalid-correlation'', payload]"

definition perform_request :: "bridge_outside \<Rightarrow> config \<Rightarrow> pydict \<Rightarrow> bridge \<Rightarrow> pydict res \<times> bridge" where
  "perform_request out cfg request b =
     (case validate_envelope request of
        Some e \<Rightarrow> (Inl e, b)
      | None \<Rightarrow>
          (let operation = dget request ''operation''; arguments = dict_of (dget request ''arguments'') in
           if operation = PStr ''workspace.read'' then
             (bridge_read (out_kernel out) (br_tree b) (bc_workspace cfg) (bc_reads cfg) arguments, b)
           else if operation = PStr ''workspace.write'' then
             (case bridge_write (out_kernel out) (br_tree b) (bc_workspace cfg) (bc_writes cfg) arguments of
                (r, t) \<Rightarrow> (r, b\<lparr>br_tree := t\<rparr>))
           else if operation = PStr ''process.exec'' then bridge_exec out cfg arguments b
           else (Inl (rejected_operation ''The requested local capability is not allowlisted.''), b)))"

definition count_code :: "string \<Rightarrow> (string \<times> nat) list \<Rightarrow> (string \<times> nat) list" where
  "count_code code codes = dict_set code (Suc (case map_of codes code of None \<Rightarrow> 0 | Some n \<Rightarrow> n)) codes"

definition handle :: "bridge_outside \<Rightarrow> config \<Rightarrow> pydict \<Rightarrow> bridge \<Rightarrow> pydict res \<times> bridge" where
  "handle out cfg request b =
     (case perform_request out cfg request
         (b\<lparr>br_requested := Suc (br_requested b), br_tree := out_drift out (br_tree b)\<rparr>) of
        (Inr result, b') \<Rightarrow>
          (Inr (bridge_response out request ''capability.result'' (''result'', PDict result)),
           b'\<lparr>br_completed := Suc (br_completed b')\<rparr>)
      | (Inl (CapabilityRefusal code message), b') \<Rightarrow>
          (Inr (bridge_response out request ''capability.error''
             (''error'', PDict [(''code'', PStr code), (''message'', PStr message)])),
           b'\<lparr>br_rejected := Suc (br_rejected b'), br_codes := count_code code (br_codes b')\<rparr>)
      | (Inl e, b') \<Rightarrow> (Inl e, b'))"

text \<open>A session: the requests with what lies outside at each of them; the answers in order.\<close>

fun serve :: "config \<Rightarrow> (bridge_outside \<times> pydict) list \<Rightarrow> bridge \<Rightarrow> pydict res list \<times> bridge" where
  "serve cfg [] b = ([], b)"
| "serve cfg ((out, request) # rs) b =
     (case handle out cfg request b of (answer, b') \<Rightarrow>
        (case serve cfg rs b' of (answers, b'') \<Rightarrow> (answer # answers, b'')))"

section \<open>Evidence\<close>

definition snapshot :: "config \<Rightarrow> bridge \<Rightarrow> pydict" where
  "snapshot cfg b = [
     (''schema'', PStr ''openprose.local-capability-evidence/1''),
     (''requested'', PInt (int (br_requested b))), (''completed'', PInt (int (br_completed b))),
     (''rejected'', PInt (int (br_rejected b))),
     (''rejectionCodes'', PDict (sort_items (map (\<lambda>(c, n). (c, PInt (int n))) (br_codes b)))),
     (''filesystemPathsConfined'', PBool True), (''processWorkingDirectoryConfined'', PBool True),
     (''processFilesystemSandbox'', PStr ''unsupported''), (''defaultDeny'', PBool True), (''shellEnabled'', PBool False),
     (''networkEnabled'', PBool False),
     (''outputCapture'', PStr (if bc_default cfg then ''bounded-default-executor'' else ''external-executor-unverified'')),
     (''maxRetainedOutputBytesObserved'', PInt (int (br_retained b))),
     (''directChildReaped'', (case br_reaped b of None \<Rightarrow> PNone | Some r \<Rightarrow> PBool r)),
     (''processContainment'', PStr (if bc_default cfg then ''direct-child-only'' else ''external-executor'')),
     (''descendantContainment'', PStr ''unsupported'')]"

end
