(* ===== verification/Bridge_Confine.thy ===== *)
theory Bridge_Confine
  imports Bridge_Service
begin

text \<open>
  What the bridge can reach. Below a workspace whose path runs through real directories only, a path that passes
  \<open>workspace_path\<close> names the place its parts spell, so a read sees that file and a write changes that file and
  no other: a write request changes one granted file at most, and an exec request starts an allowlisted process.
\<close>

section \<open>Real directories\<close>

fun dirs :: "tree \<Rightarrow> path \<Rightarrow> path \<Rightarrow> bool" where
  "dirs t here [] = True"
| "dirs t here (p # ps) \<longleftrightarrow> t (here @ [p]) = Some Directory \<and> dirs t (here @ [p]) ps"

abbreviation real_dir :: "tree \<Rightarrow> path \<Rightarrow> bool" where "real_dir t p \<equiv> dirs t [] p"

lemma dirs_append: "dirs t here (ps @ qs) \<longleftrightarrow> dirs t here ps \<and> dirs t (here @ ps) qs"
  by (induction t here ps rule: dirs.induct) auto

lemma follow_dirs: "dirs t here ps \<Longrightarrow> follow t links here ps = Inr (here @ ps)"
  by (induction t here ps rule: dirs.induct) auto

lemma node_at_real: "real_dir t p \<Longrightarrow> node_at t p = Some Directory"
  by (cases p rule: rev_cases) (auto simp: node_at_def dirs_append)

lemma place_of_real: "real_dir t p \<Longrightarrow> place_of t (p @ [q]) = Inr (p @ [q])"
  by (simp add: place_of_def follow_dirs node_at_real)

lemma place_of_dir: "real_dir t p \<Longrightarrow> place_of t p = Inr p"
  by (cases p rule: rev_cases) (auto simp: place_of_def follow_dirs node_at_real dirs_append)

lemma lstat_real:
  "real_dir t p \<Longrightarrow> lstat k t (p @ [q]) =
     (if lstat_fails k (p @ [q]) then Inl os_error
      else case t (p @ [q]) of None \<Rightarrow> Inl missing | Some n \<Rightarrow> Inr n)"
  by (simp add: lstat_def place_of_real node_at_def)

lemma is_dir_real: "real_dir t p \<Longrightarrow> is_dir t p"
  by (simp add: is_dir_def follow_dirs node_at_real)

section \<open>The walk\<close>

text \<open>The place below \<open>base\<close> that \<open>parts\<close> spell, reached through real directories and no link itself.\<close>

definition reached :: "tree \<Rightarrow> path \<Rightarrow> string list \<Rightarrow> bool \<Rightarrow> bool" where
  "reached t base parts may_be_missing \<longleftrightarrow> real_dir t (base @ butlast parts) \<and>
     (parts = [] \<or> (case t (base @ parts) of None \<Rightarrow> may_be_missing | Some (Symlink target) \<Rightarrow> False | Some n \<Rightarrow> True))"

lemma walk_Inr:
  assumes "walk k t current parts allow = Inr q" "real_dir t current"
  shows "q = current @ parts \<and> reached t current parts allow"
  using assms
proof (induction k t current parts allow rule: walk.induct)
  case (2 k t current part parts allow)
  note step = lstat_real [OF "2.prems"(2), of k part]
  show ?case
  proof (cases "t (current @ [part])")
    case None
    with "2.prems" step show ?thesis by (auto simp: reached_def split: if_splits)
  next
    case (Some n)
    show ?thesis
    proof (cases "parts = []")
      case True
      with "2.prems" step Some show ?thesis by (cases n) (auto simp: reached_def split: if_splits)
    next
      case False
      from "2.prems"(1) step Some False have n: "n = Directory" and ok: "\<not> lstat_fails k (current @ [part])"
        by (cases n; auto split: if_splits)+
      with Some "2.prems"(2) have "real_dir t (current @ [part])" by (simp add: dirs_append)
      moreover have "walk k t (current @ [part]) parts allow = Inr q" using "2.prems"(1) step Some False n ok by simp
      ultimately have "q = (current @ [part]) @ parts \<and> reached t (current @ [part]) parts allow"
        using "2.IH" step Some n ok by simp
      with False Some n show ?thesis by (simp add: reached_def)
    qed
  qed
qed (simp add: reached_def)

lemma walk_reached:
  assumes "reached t current parts allow" "real_dir t current" "\<And>i. \<not> lstat_fails k (current @ take i parts)"
  shows "walk k t current parts allow = Inr (current @ parts)"
  using assms
proof (induction k t current parts allow rule: walk.induct)
  case (2 k t current part parts allow)
  have ok: "\<not> lstat_fails k (current @ [part])" using "2.prems"(3) [of 1] by simp
  note step = lstat_real [OF "2.prems"(2), of k part]
  show ?case
  proof (cases "parts = []")
    case True
    with "2.prems"(1) step ok show ?thesis by (auto simp: reached_def split: option.splits node.splits)
  next
    case False
    with "2.prems"(1) have here: "t (current @ [part]) = Some Directory" "reached t (current @ [part]) parts allow"
      by (auto simp: reached_def dirs_append)
    with "2.prems"(2) have "real_dir t (current @ [part])" by (simp add: dirs_append)
    moreover have "\<not> lstat_fails k ((current @ [part]) @ take i parts)" for i using "2.prems"(3) [of "Suc i"] by simp
    ultimately show ?thesis using "2.IH" here step ok False by simp
  qed
qed simp

lemma workspace_path_Inr:
  assumes "workspace_path k t workspace v allow rooted = Inr q" "real_dir t workspace"
  shows "\<exists>raw. v = PStr raw \<and> q = workspace @ path_parts raw \<and> ''..'' \<notin> set (path_parts raw) \<and> \<not> is_absolute raw \<and>
    reached t workspace (path_parts raw) allow"
proof (cases "str_of v = ''.'' \<and> rooted")
  case True
  have "path_parts ''.'' = []" "\<not> is_absolute ''.''" by code_simp+
  with True assms show ?thesis
    by (cases v) (auto simp: workspace_path_def checked_eq_Inr reached_def Let_def)
next
  case False
  with assms(1) have "walk k t workspace (path_parts (str_of v)) allow = Inr q" "is_str v"
    "\<not> is_absolute (str_of v)" "list_all (\<lambda>p. p \<notin> set ['''', ''.'', ''..'']) (path_parts (str_of v))"
    by (auto simp: workspace_path_def Let_def checked_eq_Inr ebind_eq_Inr)
  with walk_Inr [OF this(1) assms(2)] show ?thesis by (cases v) (auto simp: list_all_iff)
qed

section \<open>Reads and writes\<close>

text \<open>The file a granted path spells.\<close>

definition granted_file :: "path \<Rightarrow> string list \<Rightarrow> path \<Rightarrow> bool" where
  "granted_file workspace allowlist q \<longleftrightarrow> (\<exists>raw \<in> set allowlist. q = workspace @ path_parts raw \<and>
     path_parts raw \<noteq> [] \<and> ''..'' \<notin> set (path_parts raw) \<and> \<not> is_absolute raw)"

lemma place_of_reached: "reached t base parts allow \<Longrightarrow> place_of t (base @ parts) = Inr (base @ parts)"
  using place_of_real [of t "base @ butlast parts" "last parts"] place_of_dir [of t base]
  by (cases parts rule: rev_cases) (auto simp: reached_def)

lemma write_loop_end: "length data \<le> cursor \<Longrightarrow> write_loop k q data cursor t = (Inr (), t)"
  by (simp add: write_loop.simps)

text \<open>The loop only changes the content of the regular file.\<close>

definition recontents :: "path \<Rightarrow> tree \<Rightarrow> tree \<Rightarrow> bool" where
  "recontents q t t' \<longleftrightarrow> t' = t \<or> (\<exists>old new. t q = Some (Regular old) \<and> t' = t(q \<mapsto> Regular new))"

lemma recontents_put: "recontents q t (put_data t q data)"
  by (auto simp: recontents_def put_data_def split: option.split node.split)

lemma recontents_trans: "recontents q t t' \<Longrightarrow> recontents q t' t'' \<Longrightarrow> recontents q t t''"
  unfolding recontents_def by (metis fun_upd_same fun_upd_upd)

lemma put_put: "put_data (put_data t q data) q data' = put_data t q data'"
  by (auto simp: put_data_def split: option.splits node.splits)

lemma write_loop_tree:
  "write_loop k q data cursor t = (r, t') \<Longrightarrow>
     recontents q t t' \<and> (r = Inr () \<longrightarrow> cursor < length data \<longrightarrow> t' = put_data t q data)"
proof (induction k q data cursor t rule: write_loop.induct)
  case (1 k q data cursor t)
  consider "length data \<le> cursor" | "\<not> length data \<le> cursor" "write_takes k q cursor = None"
    | extra where "\<not> length data \<le> cursor" "write_takes k q cursor = Some extra" by fastforce
  then show ?case
  proof cases
    case 1
    with "1.prems" show ?thesis by (simp add: write_loop_end recontents_def)
  next
    case 2
    with "1.prems" show ?thesis by (auto simp: write_loop.simps [of k q data cursor t] recontents_def)
  next
    case 3
    let ?next = "min (length data) (cursor + Suc extra)"
    let ?t = "put_data t q (take ?next data)"
    have run: "write_loop k q data ?next ?t = (r, t')"
      using 3 "1.prems" by (simp add: write_loop.simps [of k q data cursor t] Let_def)
    note IH = "1.IH" [OF 3 refl this]
    have "t' = put_data t q data" if "r = Inr ()"
    proof (cases "?next < length data")
      case True
      with IH that show ?thesis by (simp add: put_put)
    next
      case False
      then have "?next = length data" by simp
      with run have "t' = put_data t q (take (length data) data)" by (metis order.refl prod.inject write_loop_end)
      then show ?thesis by simp
    qed
    moreover have "recontents q t t'" using recontents_trans [OF recontents_put] IH by blast
    ultimately show ?thesis by blast
  qed
qed

text \<open>A write changes one file, the granted one, which was a regular file or did not exist.\<close>

definition changed_file :: "path \<Rightarrow> string list \<Rightarrow> tree \<Rightarrow> tree \<Rightarrow> bool" where
  "changed_file workspace allowlist t t' \<longleftrightarrow> t' = t \<or> (\<exists>q data. granted_file workspace allowlist q \<and>
     (case t q of None \<Rightarrow> True | Some (Regular old) \<Rightarrow> True | Some n \<Rightarrow> False) \<and> t' = t(q \<mapsto> Regular data))"

lemma write_target_Inr:
  assumes "write_target k t workspace allowlist arguments = Inr (data, q, t')" "real_dir t workspace"
  obtains raw encoded where "dget arguments ''path'' = PStr raw" "dget arguments ''bytesBase64'' = PStr encoded"
    "b64decode encoded = Inr data" "int (length data) \<le> MAX_IO_BYTES"
    "q = workspace @ path_parts raw" "granted_file workspace allowlist q" "real_dir t (workspace @ butlast (path_parts raw))"
    "if t q = Some Special then t' = t
     else t' = t(q \<mapsto> Regular []) \<and> (case t q of None \<Rightarrow> True | Some (Regular old) \<Rightarrow> True | Some n \<Rightarrow> False)"
proof -
  from assms(1) obtain p where grant: "str_in (dget arguments ''path'') allowlist"
    and payload: "write_payload (dget arguments ''bytesBase64'') = Inr data"
    and p: "workspace_path k t workspace (dget arguments ''path'') True False = Inr p"
    and opened: "translate write_open_error (open_write k t p) = Inr (q, t')"
    by (auto simp: write_target_def checked_eq_Inr ebind_eq_Inr granted_def)
  from payload obtain encoded where e: "dget arguments ''bytesBase64'' = PStr encoded" "b64decode encoded = Inr data"
    "int (length data) \<le> MAX_IO_BYTES"
    by (cases "dget arguments ''bytesBase64''")
       (auto simp: write_payload_def checked_eq_Inr ebind_eq_Inr translate_def split: sum.splits)
  from workspace_path_Inr [OF p assms(2)] obtain raw where raw: "dget arguments ''path'' = PStr raw" "p = workspace @ path_parts raw"
    "''..'' \<notin> set (path_parts raw)" "\<not> is_absolute raw" "reached t workspace (path_parts raw) True" by blast
  from opened place_of_reached [OF raw(5)] raw(2) have q: "q = p" and node: "case node_at t p of None \<Rightarrow> t' = t(p \<mapsto> Regular [])
      | Some (Regular old) \<Rightarrow> t' = t(p \<mapsto> Regular []) | Some Special \<Rightarrow> t' = t | Some n \<Rightarrow> False"
    by (auto simp: translate_def open_write_def split: sum.splits if_splits option.splits node.splits)
  from node raw(2) assms(2) have nonempty: "path_parts raw \<noteq> []" by (auto simp: node_at_real)
  then have "node_at t p = t p" by (simp add: raw(2) node_at_def)
  with node q have "if t q = Some Special then t' = t
     else t' = t(q \<mapsto> Regular []) \<and> (case t q of None \<Rightarrow> True | Some (Regular old) \<Rightarrow> True | Some n \<Rightarrow> False)"
    by (auto split: option.splits node.splits)
  moreover have "granted_file workspace allowlist q"
    using grant raw nonempty q by (auto simp: granted_file_def)
  ultimately show ?thesis
    by (intro that [of raw encoded]) (use raw e q in \<open>simp_all add: reached_def\<close>)
qed

lemma bridge_write_changes:
  assumes "bridge_write k t workspace allowlist arguments = (r, t')" "real_dir t workspace"
  shows "changed_file workspace allowlist t t'"
proof (cases "write_target k t workspace allowlist arguments")
  case (Inl e)
  with assms(1) show ?thesis by (simp add: bridge_write_def changed_file_def)
next
  case (Inr a)
  obtain data q t0 where a: "a = (data, q, t0)" by (cases a)
  from write_target_Inr [OF Inr [unfolded a] assms(2)] have q: "granted_file workspace allowlist q"
    and t0: "if t q = Some Special then t0 = t
     else t0 = t(q \<mapsto> Regular []) \<and> (case t q of None \<Rightarrow> True | Some (Regular old) \<Rightarrow> True | Some n \<Rightarrow> False)" by blast+
  obtain w t1 where w: "write_loop k q data 0 t0 = (w, t1)" by (cases "write_loop k q data 0 t0")
  from assms(1) Inr a w have "t' = t0 \<or> t' = t1"
    by (cases "chmod_fails k q"; cases w) (simp_all add: bridge_write_def)
  moreover have "recontents q t0 t1" using write_loop_tree [OF w] by blast
  ultimately have "recontents q t0 t'" unfolding recontents_def by blast
  then have "t' = t \<or> (case t q of None \<Rightarrow> True | Some (Regular old) \<Rightarrow> True | Some n \<Rightarrow> False) \<and>
      (\<exists>data. t' = t(q \<mapsto> Regular data))"
  proof (cases "t q = Some Special")
    case True
    with t0 \<open>recontents q t0 t'\<close> show ?thesis by (simp add: recontents_def)
  next
    case False
    with t0 have "t0 = t(q \<mapsto> Regular [])" "case t q of None \<Rightarrow> True | Some (Regular old) \<Rightarrow> True | Some n \<Rightarrow> False" by simp_all
    moreover from this \<open>recontents q t0 t'\<close> have "\<exists>data. t' = t(q \<mapsto> Regular data)"
      unfolding recontents_def by (metis fun_upd_upd)
    ultimately show ?thesis by blast
  qed
  with q show ?thesis unfolding changed_file_def by blast
qed

text \<open>A completed write leaves exactly the payload in a regular file.\<close>

lemma bridge_write_Inr:
  assumes "bridge_write k t workspace allowlist arguments = (Inr result, t')" "real_dir t workspace"
  obtains raw encoded data where "dget arguments ''path'' = PStr raw" "dget arguments ''bytesBase64'' = PStr encoded"
    "b64decode encoded = Inr data" "int (length data) \<le> MAX_IO_BYTES"
    "granted_file workspace allowlist (workspace @ path_parts raw)"
    "real_dir t (workspace @ butlast (path_parts raw))"
    "if t (workspace @ path_parts raw) = Some Special then t' = t
     else t' = t(workspace @ path_parts raw \<mapsto> Regular data) \<and>
       (case t (workspace @ path_parts raw) of None \<Rightarrow> True | Some (Regular old) \<Rightarrow> True | Some n \<Rightarrow> False)"
    "result = [(''bytesWritten'', PInt (int (length data)))]"
proof (cases "write_target k t workspace allowlist arguments")
  case (Inl e)
  with assms(1) show ?thesis by (simp add: bridge_write_def)
next
  case (Inr a)
  obtain data q t0 where a: "a = (data, q, t0)" by (cases a)
  obtain raw encoded where r: "dget arguments ''path'' = PStr raw" "dget arguments ''bytesBase64'' = PStr encoded"
    "b64decode encoded = Inr data" "int (length data) \<le> MAX_IO_BYTES"
    "q = workspace @ path_parts raw" "granted_file workspace allowlist q" "real_dir t (workspace @ butlast (path_parts raw))"
    "if t q = Some Special then t0 = t
     else t0 = t(q \<mapsto> Regular []) \<and> (case t q of None \<Rightarrow> True | Some (Regular old) \<Rightarrow> True | Some n \<Rightarrow> False)"
    using write_target_Inr [OF Inr [unfolded a] assms(2)] by blast
  obtain w where w: "write_loop k q data 0 t0 = (w, t')" "w = Inr ()" and result: "result = [(''bytesWritten'', PInt (int (length data)))]"
  proof (cases "write_loop k q data 0 t0")
    case (Pair w t1)
    with assms(1) Inr a that show thesis by (cases "chmod_fails k q"; cases w) (simp_all add: bridge_write_def)
  qed
  have "t' = put_data t0 q data"
  proof (cases "data = []")
    case True
    with w(1) have "t' = t0" by (simp add: write_loop_end)
    with r(8) True show ?thesis by (cases "t q = Some Special") (auto simp: put_data_def)
  next
    case False
    with write_loop_tree [OF w(1)] w(2) show ?thesis by simp
  qed
  with r(8) have final: "if t q = Some Special then t' = t
     else t' = t(q \<mapsto> Regular data) \<and> (case t q of None \<Rightarrow> True | Some (Regular old) \<Rightarrow> True | Some n \<Rightarrow> False)"
    by (cases "t q = Some Special") (simp_all add: put_data_def)
  show ?thesis by (rule that [OF r(1-4) r(6) [unfolded r(5)] r(7) final [unfolded r(5)] result])
qed

section \<open>Processes\<close>

text \<open>A process the configuration allows: its command line, directory, environment and bounds.\<close>

definition allowed_spawn :: "config \<Rightarrow> tree \<Rightarrow> spawn \<Rightarrow> bool" where
  "allowed_spawn cfg t sp \<longleftrightarrow>
     (\<exists>name command arguments. map_of (bc_executables cfg) name = Some command \<and>
        sp_argv sp = (if bc_default cfg then command else [name]) @ arguments \<and> length arguments < 128 \<and>
        list_all (\<lambda>a. CHR 0x00 \<notin> set a \<and> py_len a \<le> 4096) arguments) \<and>
     (\<exists>parts. sp_cwd sp = bc_workspace cfg @ parts \<and> ''..'' \<notin> set parts \<and> real_dir t (sp_cwd sp)) \<and>
     list_all (\<lambda>(name, v). name \<in> set SAFE_ENVIRONMENT \<and> CHR 0x00 \<notin> set v) (sp_env sp) \<and>
     1 \<le> sp_timeout_ms sp \<and> sp_timeout_ms sp \<le> 30000 \<and> 1 \<le> sp_output_limit sp \<and> sp_output_limit sp \<le> MAX_IO_BYTES"

lemma reached_directory:
  assumes "reached t base parts False" "real_dir t base" "is_dir t (base @ parts)"
  shows "real_dir t (base @ parts)"
proof (cases parts rule: rev_cases)
  case (snoc ps p)
  with assms(1) have real: "real_dir t (base @ ps)" by (simp add: reached_def)
  then have "dirs t base ps" by (simp add: dirs_append)
  have "follow t MAX_LINKS [] ((base @ ps) @ [p]) = Inr q \<Longrightarrow> \<forall>target. t (base @ parts) \<noteq> Some (Symlink target) \<Longrightarrow>
      q = base @ parts" for q
  proof -
    have step: "dirs t here ps \<Longrightarrow> follow t n here (ps @ [p]) = follow t n (here @ ps) [p]" for here ps n
      by (induction t here ps rule: dirs.induct) auto
    assume "follow t MAX_LINKS [] ((base @ ps) @ [p]) = Inr q" "\<forall>target. t (base @ parts) \<noteq> Some (Symlink target)"
    with step [OF real, of MAX_LINKS] snoc show "q = base @ parts" by (auto split: option.splits node.splits)
  qed
  with assms(1, 3) snoc have "node_at t (base @ parts) = Some Directory"
    by (auto simp: is_dir_def reached_def split: sum.splits option.splits node.splits)
  with real snoc show ?thesis by (simp add: dirs_append node_at_def)
qed (use assms in simp)

lemma exec_plan_allowed:
  assumes "exec_plan out cfg t arguments = Inr sp" "real_dir t (bc_workspace cfg)"
  shows "allowed_spawn cfg t sp"
proof -
  let ?argv = "map str_of (list_of (dget arguments ''argv''))"
  let ?env = "dict_of (dget arguments ''env'')"
  from assms(1) obtain cwd where argv: "argv_check (dget arguments ''argv'') = None" "hd ?argv \<in> fst ` set (bc_executables cfg)"
    and env: "env_check (dget arguments ''env'') = None"
    and bounds: "io_bound (dget arguments ''timeoutMs'') 30000" "io_bound (dget arguments ''maxOutputBytes'') MAX_IO_BYTES"
    and cwd: "workspace_path (out_kernel out) t (bc_workspace cfg) (dget arguments ''cwd'') False True = Inr cwd" "is_dir t cwd"
    and sp: "sp = \<lparr>sp_argv = (if bc_default cfg then the (map_of (bc_executables cfg) (hd ?argv)) @ tl ?argv else ?argv),
          sp_cwd = cwd, sp_env = map (\<lambda>(name, v). (name, str_of v)) ?env,
          sp_timeout_ms = int_of (dget arguments ''timeoutMs''), sp_output_limit = int_of (dget arguments ''maxOutputBytes'')\<rparr>"
    unfolding exec_plan_def Let_def checked_eq_Inr ebind_eq_Inr first_failure_Cons_None guard_eq_None by blast
  from argv(1) have shape: "?argv \<noteq> []" "length ?argv \<le> 128" "list_all (\<lambda>a. CHR 0x00 \<notin> set a \<and> py_len a \<le> 4096) ?argv"
    unfolding argv_check_def Let_def first_failure_Cons_None guard_eq_None by (simp_all add: list_all_iff)
  obtain command where command: "map_of (bc_executables cfg) (hd ?argv) = Some command"
    using argv(2) by (cases "map_of (bc_executables cfg) (hd ?argv)") (auto simp: map_of_eq_None_iff)
  have "list_all (\<lambda>a. CHR 0x00 \<notin> set a \<and> py_len a \<le> 4096) (tl ?argv)" "length (tl ?argv) < 128"
    using shape by (cases "?argv"; simp)+
  moreover have "sp_argv sp = (if bc_default cfg then command else [hd ?argv]) @ tl ?argv"
    using sp command shape(1) by simp
  ultimately have "\<exists>name command arguments. map_of (bc_executables cfg) name = Some command \<and>
        sp_argv sp = (if bc_default cfg then command else [name]) @ arguments \<and> length arguments < 128 \<and>
        list_all (\<lambda>a. CHR 0x00 \<notin> set a \<and> py_len a \<le> 4096) arguments"
    using command by blast
  moreover from workspace_path_Inr [OF cwd(1) assms(2)] obtain raw where "cwd = bc_workspace cfg @ path_parts raw"
    "''..'' \<notin> set (path_parts raw)" "reached t (bc_workspace cfg) (path_parts raw) False" by blast
  with reached_directory [OF this(3) assms(2)] cwd(2) sp
  have "\<exists>parts. sp_cwd sp = bc_workspace cfg @ parts \<and> ''..'' \<notin> set parts \<and> real_dir t (sp_cwd sp)" by auto
  moreover have "list_all (\<lambda>(name, v). name \<in> set SAFE_ENVIRONMENT \<and> CHR 0x00 \<notin> set v) (sp_env sp)"
    using env sp by (auto simp: env_check_def list_all_iff)
  ultimately show ?thesis using bounds sp by (simp add: allowed_spawn_def io_bound_def)
qed

end
