(* ===== verification/Py_Base64.thy ===== *)
theory Py_Base64
  imports Py_Digest
begin

text \<open>Base64 reads back what it wrote: \<open>b64decode(b64encode(data), validate=True) == data\<close>.\<close>

lemma b64_char_simps [simp]:
  assumes "n < 64"
  shows "b64_index (b64_char n) = Some n" "b64_char n \<noteq> CHR ''=''" "byte (b64_char n) < 128"
proof -
  have ne: "CHR ''='' = char_of (61 :: nat)" by code_simp
  consider "n < 26" | "26 \<le> n" "n < 52" | "52 \<le> n" "n < 62" | "n = 62" | "n = 63" using assms by linarith
  then have "b64_index (b64_char n) = Some n \<and> b64_char n \<noteq> CHR ''='' \<and> byte (b64_char n) < 128"
    by cases (auto simp: b64_index_def b64_char_def is_digit_def is_upper_def is_lower_def in_range_def b64_symbols ne
      simp flip: b64_symbols)
  then show "b64_index (b64_char n) = Some n" "b64_char n \<noteq> CHR ''=''" "byte (b64_char n) < 128" by blast+
qed

lemma byte_high: "byte c div 16 < 16" "byte c div 64 < 4"
  using byte_lt [of c] less_mult_imp_div_less [of "byte c" 16 16] less_mult_imp_div_less [of "byte c" 4 64] by simp_all

lemma byte_bits [simp]:
  "byte c div 16 div 16 = 0" "byte c div 16 mod 16 = byte c div 16"
  "byte c div 64 div 4 = 0" "byte c div 64 mod 4 = byte c div 64"
  using byte_high [of c] by simp_all

lemma sextets [simp]:
  "byte a div 4 < 64" "byte a mod 4 * 16 + byte b div 16 < 64" "byte b mod 16 * 4 + byte c div 64 < 64" "byte c mod 64 < 64"
  "byte a mod 4 * 16 < 64" "byte b mod 16 * 4 < 64"
proof -
  have "byte a mod 4 < 4" "byte b mod 16 < 16" "byte b div 16 < 16" "byte c div 64 < 4"
    using byte_high by simp_all
  then show "byte a mod 4 * 16 + byte b div 16 < 64" "byte b mod 16 * 4 + byte c div 64 < 64"
    "byte a mod 4 * 16 < 64" "byte b mod 16 * 4 < 64" by linarith+
  show "byte a div 4 < 64" "byte c mod 64 < 64" using byte_lt [of a] by (simp_all add: less_mult_imp_div_less)
qed

lemma b64_loop_encode: "b64_loop (b64encode s) 0 left 0 False out = Inr (out @ s)"
  by (induction s arbitrary: left out rule: b64encode.induct) simp_all

lemma b64encode_ascii: "list_all (\<lambda>c. byte c < 128) (b64encode s)"
  by (induction s rule: b64encode.induct) simp_all

lemma b64_no_pad_first: "take (Suc 0) (b64encode s) \<noteq> ''=''"
  by (cases s rule: b64encode.cases) simp_all

theorem b64_round_trip [simp]: "b64decode (b64encode s) = Inr s"
  by (simp add: b64decode_def b64encode_ascii b64_no_pad_first b64_loop_encode)

end
