(* ===== verification/Bridge_Answers.thy ===== *)
theory Bridge_Answers
  imports Bridge_Confine Py_Base64
begin

text \<open>
  The answers of the bridge as records of the hosted wire protocol: every refusal it can raise has a code and a
  message \<open>validate_record\<close> admits, and every result has one of the three admitted shapes.
\<close>

section \<open>Refusals\<close>

definition plain_message :: "string \<Rightarrow> bool" where
  "plain_message m \<longleftrightarrow> m \<noteq> [] \<and> hd m \<in> set ''AST'' \<and> length m \<le> 256"

definition known_refusal :: "exn \<Rightarrow> bool" where
  "known_refusal e \<longleftrightarrow>
     (\<forall>code message. e = CapabilityRefusal code message \<longrightarrow> code \<in> set CAPABILITY_ERROR_CODES \<and> plain_message message)"

definition known_check :: "check \<Rightarrow> bool" where "known_check c \<longleftrightarrow> (\<forall>e. c = Some e \<longrightarrow> known_refusal e)"

definition known_res :: "'a res \<Rightarrow> bool" where "known_res r \<longleftrightarrow> (\<forall>e. r = Inl e \<longrightarrow> known_refusal e)"

named_theorems known_rules \<open>composition of computations that raise known refusals only\<close>

lemma known_simps [simp]:
  "known_refusal TypeErr" "known_refusal (OSErr m)" "known_check None" "known_check (Some e) = known_refusal e"
  "known_res (Inl e) = known_refusal e" "known_res (Inr x)"
  "known_refusal (CapabilityRefusal code message) \<longleftrightarrow> code \<in> set CAPABILITY_ERROR_CODES \<and> plain_message message"
  by (simp_all add: known_refusal_def known_check_def known_res_def)

lemma known_guard [known_rules]: "known_refusal e \<Longrightarrow> known_check (guard ok e)"
  by (simp add: guard_def)

lemma known_first_failure [known_rules]: "list_all known_check cs \<Longrightarrow> known_check (first_failure cs)"
proof (induction cs)
  case (Cons c cs)
  then show ?case by (cases c) simp_all
qed simp

lemma known_checked [known_rules]: "known_check c \<Longrightarrow> known_res m \<Longrightarrow> known_res (checked c m)"
  by (cases c) simp_all

lemma known_ebind [known_rules]: "known_res m \<Longrightarrow> (\<And>x. known_res (f x)) \<Longrightarrow> known_res (ebind m f)"
  by (cases m) simp_all

lemma known_translate [known_rules]: "(\<And>e. m = Inl e \<Longrightarrow> known_refusal (f e)) \<Longrightarrow> known_res (translate f m)"
  by (cases m) (simp_all add: translate_def)

lemma known_if [known_rules]: "known_res m \<Longrightarrow> known_res n \<Longrightarrow> known_res (if c then m else n)"
  by simp

lemmas known_defs = plain_message_def CAPABILITY_ERROR_CODES_def

lemma known_lstat: "lstat k t p = Inl e \<Longrightarrow> known_refusal e"
proof -
  have "follow t n here ps = Inl e \<Longrightarrow> known_refusal e" for n here ps
    by (induction t n here ps rule: follow.induct) (auto split: option.splits node.splits if_splits nat.splits)
  then show "lstat k t p = Inl e \<Longrightarrow> known_refusal e"
    by (auto simp: lstat_def place_of_def ebind_eq_Inl split: if_splits option.splits)
qed

lemma known_walk: "known_res (walk k t current parts allow)"
proof (induction k t current parts allow rule: walk.induct)
  case (2 k t current part parts allow)
  then show ?case
    using known_lstat [of k t "current @ [part]"]
    by (simp add: known_defs split: sum.split node.split)
qed simp

lemma known_workspace_path: "known_res (workspace_path k t workspace v allow rooted)"
  unfolding workspace_path_def Let_def
  by (intro known_rules known_walk known_simps; simp add: known_defs)

lemma known_bridge_read: "known_res (bridge_read k t workspace allowlist arguments)"
  unfolding bridge_read_def Let_def
proof (intro known_rules known_workspace_path)
  show "list_all known_check [closed_arguments arguments [''path'', ''maxBytes''],
      granted (dget arguments ''path'') allowlist ''The workspace read path is not granted.'',
      guard (io_bound (dget arguments ''maxBytes'') MAX_IO_BYTES) (refuse ''CAPABILITY_INPUT_LIMIT'' ''The read byte limit is invalid.'')]"
    by (auto simp: closed_arguments_def granted_def known_defs intro!: known_rules)
  show "known_refusal (read_open_error e)" for e by (simp add: read_open_error_def known_defs)
  show "known_res (case node_at t q of
         Some (Regular content) \<Rightarrow> ebind (os_read k q (nat (int_of (dget arguments ''maxBytes'')) + 1) content) (\<lambda>data.
           checked (guard (length data \<le> nat (int_of (dget arguments ''maxBytes'')))
             (refuse ''CAPABILITY_OUTPUT_LIMIT'' ''The workspace read exceeds its declared byte limit.''))
           (Inr [(''bytesBase64'', PStr (b64encode data)), (''byteLength'', PInt (int (length data)))]))
       | _ \<Rightarrow> Inl (refuse ''CAPABILITY_NOT_FILE'' ''The requested workspace path is not a regular file.''))" for q
    by (auto simp: known_defs os_read_def intro!: known_rules split: option.split node.split)
qed

lemma known_bridge_write: "known_res (fst (bridge_write k t workspace allowlist arguments))"
proof -
  have "write_loop k q data cursor t = (Inl e, t') \<Longrightarrow> known_refusal e" for q data cursor t t' e
  proof (induction k q data cursor t arbitrary: t' rule: write_loop.induct)
    case (1 k q data cursor t)
    then show ?case
      by (simp add: write_loop.simps [of k q data cursor t] Let_def split: if_splits option.splits) (use known_simps in \<open>blast+\<close>)
  qed
  moreover have "known_res (write_target k t workspace allowlist arguments)"
    unfolding write_target_def write_payload_def
  proof (intro known_rules known_workspace_path)
    show "list_all known_check [closed_arguments arguments [''path'', ''bytesBase64''],
        granted (dget arguments ''path'') allowlist ''The workspace write path is not granted.'']"
      by (auto simp: closed_arguments_def granted_def known_defs intro!: known_rules)
    show "known_refusal (write_open_error e)" for e by (simp add: write_open_error_def known_defs)
  qed (auto simp: known_defs)
  ultimately show ?thesis
    by (auto simp: bridge_write_def split: sum.splits prod.splits)
qed

text \<open>Only the bridge itself speaks for the bridge: an executor passed in does not refuse. Starting a process cannot.\<close>

definition executor_silent :: "config \<Rightarrow> bridge_outside \<Rightarrow> bool" where
  "executor_silent cfg out \<longleftrightarrow> bc_default cfg \<or> (\<forall>sp code message. out_executor out sp \<noteq> Inl (CapabilityRefusal code message))"

lemma known_spawn: "known_refusal (spawn_exn e)"
  by (cases e) (simp_all add: known_refusal_def)

lemma known_run_executor:
  assumes "executor_silent cfg out"
  shows "known_res (fst (run_executor out cfg sp b))"
proof -
  have "known_res (execute_outcome c r r')" for c r r'
    unfolding execute_outcome_def execution_failed_def output_limit_refusal_def
    by (auto simp: known_defs intro!: known_rules)
  moreover have "bc_default cfg \<or> known_res (out_executor out sp)"
    using assms by (auto simp: executor_silent_def known_res_def known_refusal_def)
  ultimately show ?thesis
    by (auto simp: run_executor_def execute_def Let_def known_spawn split: prod.splits option.splits)
qed

lemma known_bridge_exec:
  assumes "executor_silent cfg out"
  shows "known_res (fst (bridge_exec out cfg arguments b))"
proof -
  have plan: "known_res (exec_plan out cfg (br_tree b) arguments)"
    unfolding exec_plan_def Let_def
  proof (intro known_rules known_workspace_path)
  qed (auto simp: closed_arguments_def argv_check_def env_check_def known_defs Let_def intro!: known_rules)
  have "known_res (exec_result sp answer)" if "known_res answer" for sp answer
    unfolding exec_result_def execution_failed_def output_limit_refusal_def
  proof (intro known_rules)
    show "known_refusal (if is_process_error e
        then CapabilityRefusal ''CAPABILITY_EXECUTION_FAILED'' ''The allowlisted process failed to execute.'' else e)"
      if "answer = Inl e" for e using \<open>known_res answer\<close> that by (simp add: known_defs)
  qed (auto simp: known_defs intro!: known_rules)
  with plan known_run_executor [OF assms] show ?thesis
    unfolding bridge_exec_def by (auto split: sum.splits prod.splits) (metis fst_conv)+
qed

lemma perform_cases:
  assumes "perform_request out cfg request b = (r, b')"
  obtains e where "validate_envelope request = Some e" "r = Inl e"
  | "r = bridge_read (out_kernel out) (br_tree b) (bc_workspace cfg) (bc_reads cfg) (dict_of (dget request ''arguments''))"
  | "r = fst (bridge_write (out_kernel out) (br_tree b) (bc_workspace cfg) (bc_writes cfg) (dict_of (dget request ''arguments'')))"
  | "r = fst (bridge_exec out cfg (dict_of (dget request ''arguments'')) b)"
  | "r = Inl (rejected_operation ''The requested local capability is not allowlisted.'')"
proof (cases "validate_envelope request")
  case (Some e)
  with assms that(1) show thesis by (simp add: perform_request_def)
next
  case None
  obtain w t where w: "bridge_write (out_kernel out) (br_tree b) (bc_workspace cfg) (bc_writes cfg) (dict_of (dget request ''arguments'')) = (w, t)"
    by (cases "bridge_write (out_kernel out) (br_tree b) (bc_workspace cfg) (bc_writes cfg) (dict_of (dget request ''arguments''))")
  from assms None that(2-5) w show thesis unfolding perform_request_def Let_def by (auto split: if_splits)
qed

lemma known_perform:
  assumes "executor_silent cfg out" "perform_request out cfg request b = (r, b')"
  shows "known_res r"
  using assms(2)
proof (cases rule: perform_cases)
  case (1 e)
  have "known_check (validate_envelope request)"
    unfolding validate_envelope_def rejected_operation_def
    by (auto simp: known_defs intro!: known_rules)
  with 1 show ?thesis by simp
qed (use known_bridge_read known_bridge_write known_bridge_exec [OF assms(1)]
  in \<open>simp_all add: rejected_operation_def known_defs\<close>)

section \<open>Results\<close>

text \<open>The three shapes a result can have; an exit status is the operating system's.\<close>

definition result_shape :: "pydict \<Rightarrow> bool" where
  "result_shape result \<longleftrightarrow>
     (\<exists>data. result = [(''bytesBase64'', PStr (b64encode data)), (''byteLength'', PInt (int (length data)))] \<and>
        int (length data) \<le> MAX_IO_BYTES) \<or>
     (\<exists>n. result = [(''bytesWritten'', PInt n)] \<and> 0 \<le> n \<and> n \<le> MAX_IO_BYTES) \<or>
     (\<exists>code out err. result = [(''exitCode'', PInt code), (''stdoutBase64'', PStr (b64encode out)),
        (''stderrBase64'', PStr (b64encode err))])"

lemma bridge_read_shape:
  assumes "bridge_read k t workspace allowlist arguments = Inr result"
  shows "result_shape result"
proof -
  let ?limit = "nat (int_of (dget arguments ''maxBytes''))"
  from assms obtain q where bound: "io_bound (dget arguments ''maxBytes'') MAX_IO_BYTES" and read: "(case node_at t q of
         Some (Regular content) \<Rightarrow> ebind (os_read k q (?limit + 1) content) (\<lambda>data.
           checked (guard (length data \<le> ?limit)
             (refuse ''CAPABILITY_OUTPUT_LIMIT'' ''The workspace read exceeds its declared byte limit.''))
           (Inr [(''bytesBase64'', PStr (b64encode data)), (''byteLength'', PInt (int (length data)))]))
       | _ \<Rightarrow> Inl (refuse ''CAPABILITY_NOT_FILE'' ''The requested workspace path is not a regular file.'')) = Inr result"
    unfolding bridge_read_def Let_def checked_eq_Inr ebind_eq_Inr first_failure_Cons_None guard_eq_None by blast
  from read obtain data where "length data \<le> ?limit"
    "result = [(''bytesBase64'', PStr (b64encode data)), (''byteLength'', PInt (int (length data)))]"
    by (cases "node_at t q"; cases "the (node_at t q)") (auto simp: checked_eq_Inr ebind_eq_Inr)
  moreover have "int ?limit \<le> MAX_IO_BYTES" using bound by (auto simp: io_bound_def)
  ultimately have "int (length data) \<le> MAX_IO_BYTES" by linarith
  with \<open>result = _\<close> show ?thesis unfolding result_shape_def by blast
qed

lemma write_payload_bound: "write_payload v = Inr data \<Longrightarrow> int (length data) \<le> MAX_IO_BYTES"
  by (auto simp: write_payload_def checked_eq_Inr ebind_eq_Inr)

lemma bridge_write_shape: "fst (bridge_write k t workspace allowlist arguments) = Inr result \<Longrightarrow> result_shape result"
  by (auto simp: bridge_write_def result_shape_def write_target_def checked_eq_Inr ebind_eq_Inr dest: write_payload_bound
      split: sum.splits if_splits prod.splits)

lemma bridge_exec_shape: "fst (bridge_exec out cfg arguments b) = Inr result \<Longrightarrow> result_shape result"
  by (auto simp: bridge_exec_def result_shape_def exec_result_def checked_eq_Inr ebind_eq_Inr
      split: sum.splits prod.splits)

lemma perform_shape:
  assumes "perform_request out cfg request b = (Inr result, b')"
  shows "result_shape result"
  using assms
  by (cases rule: perform_cases) (simp_all add: bridge_read_shape bridge_write_shape bridge_exec_shape)

text \<open>A result is valid exactly when its exit status, if it has one, is a byte.\<close>

lemma result_shape_valid:
  assumes "result_shape result"
  shows "validate_capability_result result = None \<longleftrightarrow>
    (has_key result ''exitCode'' \<longrightarrow> bounded_int (dget result ''exitCode'') 0 255)"
proof -
  have [simp]: "decode_or m (PStr (b64encode s)) = Inr s" for m s by (simp add: decode_or_def)
  from assms consider data where "result = [(''bytesBase64'', PStr (b64encode data)), (''byteLength'', PInt (int (length data)))]"
      "int (length data) \<le> MAX_IO_BYTES"
    | n where "result = [(''bytesWritten'', PInt n)]" "0 \<le> n" "n \<le> MAX_IO_BYTES"
    | code out err where "result = [(''exitCode'', PInt code), (''stdoutBase64'', PStr (b64encode out)),
        (''stderrBase64'', PStr (b64encode err))]"
    unfolding result_shape_def by blast
  then show ?thesis
  proof cases
    case 1
    then show ?thesis
      by (simp add: validate_capability_result_def keys_are_def bounded_int_def MAX_IO_BYTES_def MAX_CONTENT_BYTES_def)
  next
    case 2
    then show ?thesis
      by (simp add: validate_capability_result_def keys_are_def bounded_int_def MAX_IO_BYTES_def MAX_CONTENT_BYTES_def)
  next
    case 3
    then show ?thesis by (auto simp: validate_capability_result_def keys_are_def)
  qed
qed

lemma plain_message_valid:
  assumes "plain_message m"
  shows "1 \<le> py_len m" "py_len m \<le> 256"
proof -
  obtain c s where m: "m = c # s" "c \<in> set ''AST''" using assms by (cases m) (auto simp: plain_message_def)
  have "\<not> is_cont (CHR ''A'')" "\<not> is_cont (CHR ''S'')" "\<not> is_cont (CHR ''T'')" by code_simp+
  with m show "1 \<le> py_len m" by (auto simp: py_len_def)
  have "py_len m \<le> length m" by (simp add: py_len_def)
  with assms show "py_len m \<le> 256" by (simp add: plain_message_def)
qed

lemma error_valid:
  "code \<in> set CAPABILITY_ERROR_CODES \<Longrightarrow> plain_message message \<Longrightarrow>
     validate_capability_error [(''code'', PStr code), (''message'', PStr message)] = None"
  using plain_message_valid [of message]
  by (simp add: validate_capability_error_def keys_are_def hashable_def)

lemma response_valid:
  assumes "kind = ''capability.result'' \<and> name' = ''result'' \<and> payload_ok = (validate_capability_result payload = None) \<or>
      kind = ''capability.error'' \<and> name' = ''error'' \<and> payload_ok = (validate_capability_error payload = None)"
  shows "validate_record (PDict (bridge_response out request kind (name', PDict payload))) = None \<longleftrightarrow>
    list_all (\<lambda>name. valid_id (dget (bridge_response out request kind (name', PDict payload)) name))
      [''requestId'', ''runId'', ''correlationId''] \<and> payload_ok"
  using assms
  by (elim disjE conjE; simp add: validate_record_def validate_capability_response_def validate_correlation_ids_def bridge_response_def
      answer_identity_def keys_are_def hashable_def WIRE_SCHEMA_def)

end
