(* ===== verification/Bridge_Claims.thy ===== *)
theory Bridge_Claims
  imports Bridge_Answers
begin

text \<open>
  The properties of the local capability bridge: what a request can touch, that the evidence counts the answers, what
  the output of a process is, what a written file reads back as, and which answers the hosted service accepts.
\<close>

section \<open>Confinement\<close>

text \<open>The bridge when a request has come: counted, with the tree as it has become since the last one.\<close>

abbreviation arrived :: "bridge_outside \<Rightarrow> bridge \<Rightarrow> bridge" where
  "arrived out b \<equiv> b\<lparr>br_requested := Suc (br_requested b), br_tree := out_drift out (br_tree b)\<rparr>"

text \<open>The bridge itself changed at most one granted file and started nothing, or started one process and changed nothing.\<close>

definition confined_step :: "config \<Rightarrow> bridge_outside \<Rightarrow> tree \<Rightarrow> bridge \<Rightarrow> bridge \<Rightarrow> bool" where
  "confined_step cfg out t b b' \<longleftrightarrow>
     br_spawned b' = br_spawned b \<and> changed_file (bc_workspace cfg) (bc_writes cfg) t (br_tree b') \<or>
     (\<exists>sp. br_spawned b' = br_spawned b @ [sp] \<and> allowed_spawn cfg t sp \<and>
        (br_tree b' = t \<or> br_tree b' = out_process out sp t))"

lemma confined_same: "br_spawned b' = br_spawned b \<Longrightarrow> br_tree b' = t \<Longrightarrow> confined_step cfg out t b b'"
  by (simp add: confined_step_def changed_file_def)

lemma run_executor_state:
  assumes "run_executor out cfg sp b = (answer, b')"
  shows "br_spawned b' = br_spawned b @ [sp]" "br_tree b' = br_tree b \<or> br_tree b' = out_process out sp (br_tree b)"
  using assms by (auto simp: run_executor_def Let_def split: prod.splits if_splits)

lemma exec_confined:
  assumes "bridge_exec out cfg arguments b = (r, b')" "real_dir (br_tree b) (bc_workspace cfg)"
  shows "confined_step cfg out (br_tree b) b b'"
proof (cases "exec_plan out cfg (br_tree b) arguments")
  case (Inl e)
  with assms(1) show ?thesis by (simp add: bridge_exec_def confined_same)
next
  case (Inr sp)
  with assms(1) have "run_executor out cfg sp b = (fst (run_executor out cfg sp b), b')"
    by (auto simp: bridge_exec_def split: prod.splits)
  from run_executor_state [OF this] exec_plan_allowed [OF Inr assms(2)] show ?thesis
    unfolding confined_step_def by blast
qed

lemma perform_confined:
  assumes "perform_request out cfg request b = (r, b')" "real_dir (br_tree b) (bc_workspace cfg)"
  shows "confined_step cfg out (br_tree b) b b'"
proof -
  let ?arguments = "dict_of (dget request ''arguments'')"
  obtain w t where w: "bridge_write (out_kernel out) (br_tree b) (bc_workspace cfg) (bc_writes cfg) ?arguments = (w, t)"
    by (cases "bridge_write (out_kernel out) (br_tree b) (bc_workspace cfg) (bc_writes cfg) ?arguments")
  with assms(1) consider "b' = b" | "b' = b\<lparr>br_tree := t\<rparr>" | "bridge_exec out cfg ?arguments b = (r, b')"
    unfolding perform_request_def Let_def by (auto split: option.splits if_splits)
  then show ?thesis
  proof cases
    case 2
    with bridge_write_changes [OF w assms(2)] show ?thesis by (simp add: confined_step_def)
  qed (use exec_confined assms(2) in \<open>simp_all add: confined_same\<close>)
qed

lemma handle_perform:
  assumes "handle out cfg request b = (answer, b')"
  obtains r b0 where "perform_request out cfg request (arrived out b) = (r, b0)"
    "br_tree b' = br_tree b0" "br_spawned b' = br_spawned b0"
  using assms by (cases "perform_request out cfg request (arrived out b)")
    (auto simp: handle_def split: sum.splits exn.splits)

lemma handle_confined:
  assumes "handle out cfg request b = (answer, b')" "real_dir (out_drift out (br_tree b)) (bc_workspace cfg)"
  shows "confined_step cfg out (out_drift out (br_tree b)) b b'"
proof -
  obtain r b0 where p: "perform_request out cfg request (arrived out b) = (r, b0)"
    "br_tree b' = br_tree b0" "br_spawned b' = br_spawned b0" by (rule handle_perform [OF assms(1)])
  from perform_confined [OF p(1)] assms(2) have "confined_step cfg out (out_drift out (br_tree b)) (arrived out b) b0" by simp
  with p(2, 3) show ?thesis by (simp add: confined_step_def)
qed

text \<open>A session in which the others keep the workspace a real directory and leave a place alone.\<close>

definition others_keep :: "path \<Rightarrow> path \<Rightarrow> bridge_outside \<Rightarrow> bool" where
  "others_keep workspace p out \<longleftrightarrow>
     (\<forall>t. (real_dir t workspace \<longrightarrow> real_dir (out_drift out t) workspace) \<and> out_drift out t p = t p \<and>
        (\<forall>sp. (real_dir t workspace \<longrightarrow> real_dir (out_process out sp t) workspace) \<and> out_process out sp t p = t p))"

definition place_within :: "config \<Rightarrow> path \<Rightarrow> node option \<Rightarrow> node option \<Rightarrow> bool" where
  "place_within cfg p old new \<longleftrightarrow> new \<noteq> old \<longrightarrow> granted_file (bc_workspace cfg) (bc_writes cfg) p \<and>
     (case old of None \<Rightarrow> True | Some (Regular data) \<Rightarrow> True | Some n \<Rightarrow> False) \<and> (\<exists>data. new = Some (Regular data))"

lemma place_within_trans:
  "place_within cfg p old mid \<Longrightarrow> place_within cfg p mid new \<Longrightarrow> place_within cfg p old new"
  unfolding place_within_def by (cases "mid = old"; cases "new = mid") auto

lemma changed_file_place:
  "changed_file (bc_workspace cfg) (bc_writes cfg) t t' \<Longrightarrow> place_within cfg p (t p) (t' p)"
  by (auto simp: changed_file_def place_within_def split: if_splits)

lemma changed_file_dirs:
  assumes "changed_file workspace allowlist t t'" "real_dir t q"
  shows "real_dir t' q"
proof -
  from assms(1) have kept: "t p = Some Directory \<Longrightarrow> t' p = Some Directory" for p
    by (auto simp: changed_file_def)
  have "dirs t here ps \<Longrightarrow> dirs t' here ps" for here ps
    by (induction ps arbitrary: here) (auto intro: kept)
  with assms(2) show ?thesis by blast
qed

lemma confined_place:
  assumes "confined_step cfg out (out_drift out (br_tree b)) b b'" "others_keep (bc_workspace cfg) p out"
    "real_dir (br_tree b) (bc_workspace cfg)"
  shows "place_within cfg p (br_tree b p) (br_tree b' p) \<and> real_dir (br_tree b') (bc_workspace cfg)"
proof -
  let ?t = "out_drift out (br_tree b)"
  from assms(2, 3) have t: "?t p = br_tree b p" "real_dir ?t (bc_workspace cfg)"
    "\<And>sp. out_process out sp ?t p = ?t p \<and> real_dir (out_process out sp ?t) (bc_workspace cfg)"
    by (auto simp: others_keep_def)
  from assms(1) consider "changed_file (bc_workspace cfg) (bc_writes cfg) ?t (br_tree b')" | "br_tree b' = ?t"
    | sp where "br_tree b' = out_process out sp ?t" unfolding confined_step_def by blast
  then show ?thesis
  proof cases
    case 1
    from changed_file_place [OF this, of p] changed_file_dirs [OF 1 t(2)] t(1) show ?thesis by simp
  qed (use t in \<open>simp_all add: place_within_def\<close>)
qed

text \<open>Over a whole session a place the others leave alone changes only if it is a granted file.\<close>

lemma session_place:
  assumes "serve cfg rs b = (answers, b')" "\<forall>(out, request) \<in> set rs. others_keep (bc_workspace cfg) p out"
    "real_dir (br_tree b) (bc_workspace cfg)"
  shows "place_within cfg p (br_tree b p) (br_tree b' p)"
  using assms
proof (induction cfg rs b arbitrary: answers b' rule: serve.induct)
  case (2 cfg out request rs b)
  obtain answer b1 where h: "handle out cfg request b = (answer, b1)" by (cases "handle out cfg request b")
  have keep: "others_keep (bc_workspace cfg) p out" using "2.prems"(2) by simp
  then have "real_dir (out_drift out (br_tree b)) (bc_workspace cfg)" using "2.prems"(3) by (simp add: others_keep_def)
  from confined_place [OF handle_confined [OF h this] keep "2.prems"(3)]
  have first: "place_within cfg p (br_tree b p) (br_tree b1 p)" "real_dir (br_tree b1) (bc_workspace cfg)" by blast+
  obtain as where "serve cfg rs b1 = (as, b')" using "2.prems"(1) h by (auto split: prod.splits)
  with "2.IH" [OF h [symmetric]] "2.prems"(2) first(2) have "place_within cfg p (br_tree b1 p) (br_tree b' p)" by simp
  with first(1) show ?case by (rule place_within_trans)
qed (simp add: place_within_def)

lemma init_bridge_Inr:
  assumes "init_bridge (Inr workspace) directory reads writes executables custom t = Inr (cfg, b)"
  shows "bc_workspace cfg = workspace" "bc_writes cfg = writes" "bc_reads cfg = reads" "bc_default cfg = (\<not> custom)"
    "b = \<lparr>br_tree = t, br_requested = 0, br_completed = 0, br_rejected = 0, br_codes = [], br_reaped = None,
       br_retained = 0, br_spawned = []\<rparr>"
    "\<And>name command. (name, command) \<in> set (bc_executables cfg) \<Longrightarrow> \<not> is_shell name \<and> command \<noteq> [] \<and>
       (\<not> custom \<longrightarrow> is_absolute (hd command) \<and> \<not> is_shell (path_name (hd command)))"
proof -
  from assms obtain commands where entries: "list_all (\<lambda>e. executable_check (\<not> custom) e = None) commands"
    and cfg: "cfg = \<lparr>bc_workspace = workspace, bc_executables = map (\<lambda>(name, c). (name, map str_of c)) commands,
             bc_reads = reads, bc_writes = writes, bc_default = \<not> custom\<rparr>"
    and b: "b = \<lparr>br_tree = t, br_requested = 0, br_completed = 0, br_rejected = 0, br_codes = [], br_reaped = None,
       br_retained = 0, br_spawned = []\<rparr>"
    by (auto simp: init_bridge_def ebind_eq_Inr checked_eq_Inr first_failure_eq_None list_all_iff)
  show "bc_workspace cfg = workspace" "bc_writes cfg = writes" "bc_reads cfg = reads" "bc_default cfg = (\<not> custom)"
    by (simp_all add: cfg)
  show "b = \<lparr>br_tree = t, br_requested = 0, br_completed = 0, br_rejected = 0, br_codes = [], br_reaped = None,
       br_retained = 0, br_spawned = []\<rparr>" by (rule b)
  show "\<not> is_shell name \<and> command \<noteq> [] \<and> (\<not> custom \<longrightarrow> is_absolute (hd command) \<and> \<not> is_shell (path_name (hd command)))"
    if member: "(name, command) \<in> set (bc_executables cfg)" for name command
  proof -
    from member cfg obtain c where c: "(name, c) \<in> set commands" "command = map str_of c" by auto
    with entries have "executable_check (\<not> custom) (name, c) = None" by (simp add: list_all_iff)
    with c(2) show ?thesis by (auto simp: executable_check_def hd_map)
  qed
qed

text \<open>C11. Each request handled by a bridge that has been constructed, whatever state it is in, whatever has happened to
  the tree since the last request and whatever is requested: as long as the workspace is a real directory when the
  request comes, the bridge itself either starts nothing and at most creates or changes one regular file, at a place
  that a granted write path spells strictly below the workspace; or it starts one process and changes nothing. The
  process has an allowlisted command line (with the default executor an absolute, non-shell program), runs in a real
  directory of the workspace, has only the three safe environment variables and bounded time and output; what it does
  to the tree then is its own affair, for processes are not confined.\<close>

theorem bridge_stays_in_grant:
  assumes "init_bridge (Inr workspace) directory reads writes executables custom t0 = Inr (cfg, b0)"
    and "handle out cfg request b = (answer, b')" "t = out_drift out (br_tree b)" "real_dir t workspace"
  shows "br_spawned b' = br_spawned b \<and>
      (br_tree b' = t \<or> (\<exists>p data. granted_file workspace writes p \<and> br_tree b' = t(p \<mapsto> Regular data) \<and>
         (case t p of None \<Rightarrow> True | Some (Regular old) \<Rightarrow> True | Some n \<Rightarrow> False))) \<or>
    (\<exists>sp. br_spawned b' = br_spawned b @ [sp] \<and> (br_tree b' = t \<or> br_tree b' = out_process out sp t) \<and>
       allowed_spawn cfg t sp \<and>
       (custom \<or> is_absolute (hd (sp_argv sp)) \<and> \<not> is_shell (path_name (hd (sp_argv sp)))))"
proof -
  note cfg = init_bridge_Inr [OF assms(1)]
  have "real_dir (out_drift out (br_tree b)) (bc_workspace cfg)" using assms(3, 4) cfg(1) by simp
  from handle_confined [OF assms(2) this] have step: "confined_step cfg out t b b'" by (simp add: assms(3))
  have program: "is_absolute (hd (sp_argv sp)) \<and> \<not> is_shell (path_name (hd (sp_argv sp)))"
    if "allowed_spawn cfg t sp" and default: "\<not> custom" for sp
  proof -
    from that(1) obtain name command arguments where c: "map_of (bc_executables cfg) name = Some command"
      "sp_argv sp = (if bc_default cfg then command else [name]) @ arguments" unfolding allowed_spawn_def by blast
    from cfg(6) [OF map_of_SomeD [OF c(1)]] c(2) default cfg(4) show ?thesis by simp
  qed
  with step show ?thesis unfolding confined_step_def changed_file_def cfg(1) cfg(2) by blast
qed

section \<open>Counting\<close>

definition answer_type :: "string \<Rightarrow> pydict res \<Rightarrow> bool" where
  "answer_type s answer \<longleftrightarrow> (\<exists>d. answer = Inr d \<and> dget d ''type'' = PStr s)"

definition refused_with :: "string \<Rightarrow> pydict res \<Rightarrow> bool" where
  "refused_with code answer \<longleftrightarrow> answer_type ''capability.error'' answer \<and>
     (\<forall>d. answer = Inr d \<longrightarrow> dget (dict_of (dget d ''error'')) ''code'' = PStr code)"

definition count_of :: "(string \<times> nat) list \<Rightarrow> string \<Rightarrow> nat" where
  "count_of codes code = (case map_of codes code of None \<Rightarrow> 0 | Some n \<Rightarrow> n)"

lemma count_of_count_code: "count_of (count_code c codes) code = count_of codes code + (if c = code then 1 else 0)"
  by (auto simp: count_of_def count_code_def split: option.splits)

lemma perform_counts:
  "perform_request out cfg request b = (r, b') \<Longrightarrow> br_requested b' = br_requested b \<and> br_completed b' = br_completed b \<and>
     br_rejected b' = br_rejected b \<and> br_codes b' = br_codes b"
  by (auto simp: perform_request_def bridge_exec_def run_executor_def Let_def split: option.splits if_splits prod.splits sum.splits)

lemma response_fields:
  "dget (bridge_response out request s payload) ''type'' = PStr s"
  "dget (bridge_response out request s (''error'', v)) ''error'' = v"
  "dget (bridge_response out request s (''result'', v)) ''result'' = v"
  by (simp_all add: bridge_response_def answer_identity_def)

lemma handle_counts:
  assumes "handle out cfg request b = (answer, b')"
  shows "br_requested b' = Suc (br_requested b)"
    "br_completed b' = br_completed b + (if answer_type ''capability.result'' answer then 1 else 0)"
    "br_rejected b' = br_rejected b + (if answer_type ''capability.error'' answer then 1 else 0)"
    "count_of (br_codes b') code = count_of (br_codes b) code + (if refused_with code answer then 1 else 0)"
proof -
  obtain r b0 where p: "perform_request out cfg request (arrived out b) = (r, b0)"
    by (cases "perform_request out cfg request (arrived out b)")
  note counts = perform_counts [OF p]
  consider result where "r = Inr result" | c m where "r = Inl (CapabilityRefusal c m)"
    | e where "r = Inl e" "\<forall>c m. e \<noteq> CapabilityRefusal c m" by (metis sum.exhaust)
  then have "br_requested b' = Suc (br_requested b) \<and>
    br_completed b' = br_completed b + (if answer_type ''capability.result'' answer then 1 else 0) \<and>
    br_rejected b' = br_rejected b + (if answer_type ''capability.error'' answer then 1 else 0) \<and>
    count_of (br_codes b') code = count_of (br_codes b) code + (if refused_with code answer then 1 else 0)"
  proof cases
    case 1
    with assms p counts show ?thesis by (auto simp: handle_def answer_type_def refused_with_def response_fields)
  next
    case 2
    with assms p counts show ?thesis
      by (auto simp: handle_def answer_type_def refused_with_def response_fields count_of_count_code)
  next
    case 3
    with assms p counts show ?thesis by (cases e) (auto simp: handle_def answer_type_def refused_with_def)
  qed
  then show "br_requested b' = Suc (br_requested b)"
    "br_completed b' = br_completed b + (if answer_type ''capability.result'' answer then 1 else 0)"
    "br_rejected b' = br_rejected b + (if answer_type ''capability.error'' answer then 1 else 0)"
    "count_of (br_codes b') code = count_of (br_codes b) code + (if refused_with code answer then 1 else 0)" by blast+
qed

lemma serve_counts:
  "serve cfg rs b = (answers, b') \<Longrightarrow> br_requested b' = br_requested b + length answers \<and>
     br_completed b' = br_completed b + length (filter (answer_type ''capability.result'') answers) \<and>
     br_rejected b' = br_rejected b + length (filter (answer_type ''capability.error'') answers) \<and>
     count_of (br_codes b') code = count_of (br_codes b) code + length (filter (refused_with code) answers)"
proof (induction cfg rs b arbitrary: answers b' rule: serve.induct)
  case (2 cfg out request rs b)
  obtain answer b1 where h: "handle out cfg request b = (answer, b1)" by (cases "handle out cfg request b")
  obtain as where s: "serve cfg rs b1 = (as, b')" "answers = answer # as" using "2.prems" h by (auto split: prod.splits)
  from "2.IH" [OF h [symmetric] s(1)] handle_counts(1-3) [OF h] handle_counts(4) [OF h, of code] s(2) show ?case by simp
qed simp

lemma handle_kind:
  assumes "handle out cfg request b = (answer, b')"
  shows "(if isl answer then 1 else 0) + (if answer_type ''capability.result'' answer then 1 else 0) +
    (if answer_type ''capability.error'' answer then 1 else 0) = (1 :: nat)"
proof -
  obtain r b0 where "perform_request out cfg request (arrived out b) = (r, b0)"
    by (cases "perform_request out cfg request (arrived out b)")
  with assms show ?thesis
    by (auto simp: handle_def answer_type_def response_fields split: sum.splits exn.splits)
qed

lemma serve_kinds:
  "serve cfg rs b = (answers, b') \<Longrightarrow> length answers = length (filter (answer_type ''capability.result'') answers) +
     length (filter (answer_type ''capability.error'') answers) + length (filter isl answers)"
proof (induction cfg rs b arbitrary: answers b' rule: serve.induct)
  case (2 cfg out request rs b)
  obtain answer b1 where h: "handle out cfg request b = (answer, b1)" by (cases "handle out cfg request b")
  obtain as where s: "serve cfg rs b1 = (as, b')" "answers = answer # as" using "2.prems" h by (auto split: prod.splits)
  from "2.IH" [OF h [symmetric] s(1)] handle_kind [OF h] s(2) show ?case by (simp split: if_splits)
qed simp

text \<open>C27. The evidence counts exactly the answers: of the requests of a session, those completed are the ones
  answered with a result, those rejected the ones answered with an error, the count of every code is the number of
  errors with that code, and the remaining requests ended in an exception.\<close>

theorem evidence_counts_answers:
  assumes "init_bridge (Inr workspace) directory reads writes executables custom t = Inr (cfg, b)"
    and "serve cfg rs b = (answers, b')"
  shows "dget (snapshot cfg b') ''requested'' = PInt (int (length answers)) \<and>
    dget (snapshot cfg b') ''completed'' = PInt (int (length (filter (answer_type ''capability.result'') answers))) \<and>
    dget (snapshot cfg b') ''rejected'' = PInt (int (length (filter (answer_type ''capability.error'') answers))) \<and>
    count_of (br_codes b') code = length (filter (refused_with code) answers) \<and>
    br_requested b' = br_completed b' + br_rejected b' + length (filter isl answers)"
proof -
  from serve_counts [OF assms(2)] init_bridge_Inr(5) [OF assms(1)]
  have "br_requested b' = length answers" "br_completed b' = length (filter (answer_type ''capability.result'') answers)"
    "br_rejected b' = length (filter (answer_type ''capability.error'') answers)"
    "count_of (br_codes b') code = length (filter (refused_with code) answers)" by (simp_all add: count_of_def)
  with serve_kinds [OF assms(2)] show ?thesis by (simp add: snapshot_def)
qed

section \<open>Process output\<close>

text \<open>C12. With the default executor, in whatever order and pieces the two streams are read, no more than the
  requested number of bytes is ever retained. A result is only given after the process started last has been reaped
  within its deadline; it carries its exit status and, for each stream, exactly the bytes its reader took, together no
  longer than the limit; and a stream was read to its end unless its reader had met no end and no failure when the
  bridge closed the stream under it. In that last case the output can be cut short, and is given as a result all the
  same.\<close>

theorem process_result_is_what_was_read:
  assumes "bridge_exec out cfg arguments b = (r, b')" "bc_default cfg"
  shows "br_retained b' \<le> max (br_retained b) (nat (int_of (dget arguments ''maxOutputBytes''))) \<and>
    (\<forall>result. r = Inr result \<longrightarrow> (\<exists>sp. br_spawned b' = br_spawned b @ [sp] \<and> br_reaped b' = Some True \<and>
       (let child = out_child out sp; stdout = fst (child_stream False child); stderr = fst (child_stream True child) in
        \<not> cr_timed_out child \<and> int (length stdout + length stderr) \<le> int_of (dget arguments ''maxOutputBytes'') \<and>
        result = [(''exitCode'', PInt (cr_returncode child)), (''stdoutBase64'', PStr (b64encode stdout)),
          (''stderrBase64'', PStr (b64encode stderr))] \<and>
        (\<forall>second. snd (child_stream second child) \<or> still_open second (before_close second child)))))"
proof (cases "exec_plan out cfg (br_tree b) arguments")
  case (Inl e)
  with assms(1) show ?thesis by (auto simp: bridge_exec_def)
next
  case (Inr sp)
  then have limit: "sp_output_limit sp = int_of (dget arguments ''maxOutputBytes'')"
    unfolding exec_plan_def Let_def checked_eq_Inr ebind_eq_Inr by auto
  obtain answer observed reaped where e: "execute (out_child out sp) (nat (sp_output_limit sp)) (br_retained b) (br_reaped b) =
      (answer, observed, reaped)" by (cases "execute (out_child out sp) (nat (sp_output_limit sp)) (br_retained b) (br_reaped b)")
  with assms Inr have b': "br_spawned b' = br_spawned b @ [sp]" "br_retained b' = observed" "br_reaped b' = reaped"
    and r: "r = exec_result sp answer" by (auto simp: bridge_exec_def run_executor_def Let_def)
  have "br_retained b' \<le> max (br_retained b) (nat (int_of (dget arguments ''maxOutputBytes'')))"
    using execute_bound [OF e] limit b' by simp
  moreover have "\<exists>sp. br_spawned b' = br_spawned b @ [sp] \<and> br_reaped b' = Some True \<and>
       (let child = out_child out sp; stdout = fst (child_stream False child); stderr = fst (child_stream True child) in
        \<not> cr_timed_out child \<and> int (length stdout + length stderr) \<le> int_of (dget arguments ''maxOutputBytes'') \<and>
        result = [(''exitCode'', PInt (cr_returncode child)), (''stdoutBase64'', PStr (b64encode stdout)),
          (''stderrBase64'', PStr (b64encode stderr))] \<and>
        (\<forall>second. snd (child_stream second child) \<or> still_open second (before_close second child)))"
    if "r = Inr result" for result
  proof -
    from that r obtain code stdout stderr where a: "answer = Inr (code, stdout, stderr)"
      "int (length stdout + length stderr) \<le> sp_output_limit sp"
      "result = [(''exitCode'', PInt code), (''stdoutBase64'', PStr (b64encode stdout)), (''stderrBase64'', PStr (b64encode stderr))]"
      by (auto simp: exec_result_def ebind_eq_Inr checked_eq_Inr translate_def split: sum.splits)
    note settled = execute_Inr [OF e [unfolded a(1)]]
    show ?thesis using settled(1-6) settled(7) a(2, 3) b' limit by (intro exI [of _ sp]) (simp add: Let_def)
  qed
  ultimately show ?thesis by blast
qed

text \<open>The truncation happens: a reader that is between two reads when its stream is closed dies in the next one, and what
  it took until then is the result.\<close>

definition cut_child :: child_run where
  "cut_child = \<lparr>cr_spawn_error = None, cr_joined = [(False, Chunk ''h''), (True, End_of_file), (True, Thread_end)],
     cr_closing = [(False, Read_closed), (False, Thread_end)], cr_closed = [], cr_checking = [], cr_later = [],
     cr_timed_out = False, cr_reap_failed = False, cr_returncode = 0\<rparr>"

lemma closed_stream_truncates:
  "execute cut_child 9 0 None = (Inr (0, ''h'', []), 1, Some True) \<and> \<not> snd (child_stream False cut_child)"
  by code_simp

section \<open>Writing and reading back\<close>

lemma handle_result:
  assumes "handle out cfg request b = (Inr answer, b')" "dget answer ''type'' = PStr ''capability.result''"
  obtains result b0 where "perform_request out cfg request (arrived out b) = (Inr result, b0)"
    "br_tree b' = br_tree b0" "answer = bridge_response out request ''capability.result'' (''result'', PDict result)"
  using assms by (cases "perform_request out cfg request (arrived out b)")
    (auto simp: handle_def response_fields split: sum.splits exn.splits)

lemma bridge_write_path:
  assumes "bridge_write k t workspace allowlist arguments = (Inr result, t')"
  shows "\<exists>p. workspace_path k t workspace (dget arguments ''path'') True False = Inr p"
proof (cases "write_target k t workspace allowlist arguments")
  case (Inr a)
  then show ?thesis unfolding write_target_def by (auto simp: checked_eq_Inr ebind_eq_Inr)
qed (use assms in \<open>simp add: bridge_write_def\<close>)

lemma workspace_path_again:
  assumes "workspace_path k t workspace (PStr raw) True False = Inr p" "real_dir t' workspace"
    "reached t' workspace (path_parts raw) False" "\<And>p. \<not> lstat_fails k' p"
  shows "workspace_path k' t' workspace (PStr raw) False False = Inr (workspace @ path_parts raw)"
  using assms(1) walk_reached [OF assms(3, 2), of k'] assms(4)
  unfolding workspace_path_def Let_def by (simp add: checked_eq_Inr ebind_eq_Inr)

lemma bridge_read_value:
  assumes "workspace_path k t workspace (PStr raw) False False = Inr (workspace @ path_parts raw)" "raw \<in> set allowlist"
    "reached t workspace (path_parts raw) False" "path_parts raw \<noteq> []" "t (workspace @ path_parts raw) = Some (Regular data)"
    "1 \<le> limit" "int (length data) \<le> limit" "limit \<le> MAX_IO_BYTES" "\<And>p. \<not> open_fails k p"
    "read_gives k (workspace @ path_parts raw) (nat limit + 1) = Some extra"
  shows "bridge_read k t workspace allowlist [(''path'', PStr raw), (''maxBytes'', PInt limit)] =
    Inr [(''bytesBase64'', PStr (b64encode (take (Suc extra) data))), (''byteLength'', PInt (int (length (take (Suc extra) data))))]"
proof -
  have "node_at t (workspace @ path_parts raw) = Some (Regular data)" using assms(4, 5) by (simp add: node_at_def)
  moreover from this have "open_read k t (workspace @ path_parts raw) = Inr (workspace @ path_parts raw)"
    using place_of_reached [OF assms(3)] assms(9) by (simp add: open_read_def)
  moreover have short: "length data \<le> nat limit" using assms(6, 7) by linarith
  then have "min (length data) (Suc extra) \<le> nat limit" by simp
  moreover from short have "os_read k (workspace @ path_parts raw) (nat limit + 1) data = Inr (take (Suc extra) data)"
    using assms(10) by (simp add: os_read_def min_def)
  ultimately show ?thesis using assms(1, 2, 6, 8)
    by (simp add: bridge_read_def closed_arguments_def granted_def hashable_def io_bound_def translate_def keys_are_def Let_def)
qed

text \<open>C26. What the bridge has written it reads back: after a write request to a path that is no device has been
  answered with a result, and if nobody else has changed the tree since, a well-formed read request for that path,
  granted for reading and with a limit that fits, is answered with the bytes that one read of the kernel gives of the
  written ones: all of them when that read is not short, and otherwise a beginning of them, given as the whole file.
  The kernel is to let the file be looked up, opened and read.\<close>

theorem written_file_reads_back:
  assumes "real_dir (out_drift out (br_tree b)) (bc_workspace cfg)"
    and "handle out cfg writing b = (Inr answer, b')" "dget answer ''type'' = PStr ''capability.result''"
    and "dget writing ''operation'' = PStr ''workspace.write''"
    and "dget (dict_of (dget writing ''arguments'')) ''path'' = PStr raw"
    and "out_drift out (br_tree b) (bc_workspace cfg @ path_parts raw) \<noteq> Some Special"
    and "validate_envelope reading = None" "dget reading ''operation'' = PStr ''workspace.read''"
    and "dget reading ''arguments'' = PDict [(''path'', PStr raw), (''maxBytes'', PInt limit)]" "raw \<in> set (bc_reads cfg)"
    and "b64decode (str_of (dget (dict_of (dget writing ''arguments'')) ''bytesBase64'')) = Inr data"
    and "1 \<le> limit" "int (length data) \<le> limit" "limit \<le> MAX_IO_BYTES" "out_drift out' (br_tree b') = br_tree b'"
    and "\<And>p. \<not> lstat_fails (out_kernel out') p" "\<And>p. \<not> open_fails (out_kernel out') p"
    and "read_gives (out_kernel out') (bc_workspace cfg @ path_parts raw) (nat limit + 1) = Some extra"
  shows "\<exists>answer' b'' n. handle out' cfg reading b' = (Inr answer', b'') \<and> n = min (length data) (Suc extra) \<and>
    dget answer' ''result'' = PDict [(''bytesBase64'', PStr (b64encode (take n data))), (''byteLength'', PInt (int n))] \<and>
    b64decode (b64encode (take n data)) = Inr (take n data)"
proof -
  let ?q = "bc_workspace cfg @ path_parts raw"
  let ?arguments = "dict_of (dget writing ''arguments'')"
  let ?t = "out_drift out (br_tree b)"
  obtain result b0 where p: "perform_request out cfg writing (arrived out b) = (Inr result, b0)"
    "br_tree b' = br_tree b0" by (rule handle_result [OF assms(2, 3)])
  obtain r t' where w: "bridge_write (out_kernel out) ?t (bc_workspace cfg) (bc_writes cfg) ?arguments = (r, t')"
    by (cases "bridge_write (out_kernel out) ?t (bc_workspace cfg) (bc_writes cfg) ?arguments")
  from p assms(4) w have "r = Inr result" "br_tree b' = t'"
    by (auto simp: perform_request_def Let_def split: option.splits)
  obtain raw' encoded data' where written: "dget ?arguments ''path'' = PStr raw'" "dget ?arguments ''bytesBase64'' = PStr encoded"
    "b64decode encoded = Inr data'" "granted_file (bc_workspace cfg) (bc_writes cfg) (bc_workspace cfg @ path_parts raw')"
    "real_dir ?t (bc_workspace cfg @ butlast (path_parts raw'))"
    "if ?t (bc_workspace cfg @ path_parts raw') = Some Special then t' = ?t
     else t' = ?t(bc_workspace cfg @ path_parts raw' \<mapsto> Regular data') \<and>
       (case ?t (bc_workspace cfg @ path_parts raw') of None \<Rightarrow> True | Some (Regular old) \<Rightarrow> True | Some n \<Rightarrow> False)"
    by (rule bridge_write_Inr [OF w [unfolded \<open>r = Inr result\<close>] assms(1)]) blast
  have same: "raw' = raw" "data' = data" using written(1-3) assms(5, 11) by simp_all
  have content: "br_tree b' ?q = Some (Regular data)" using written(6) assms(6) \<open>br_tree b' = t'\<close> by (simp add: same)
  have changed: "changed_file (bc_workspace cfg) (bc_writes cfg) ?t (br_tree b')"
    using bridge_write_changes [OF w assms(1)] \<open>br_tree b' = t'\<close> by simp
  have real: "real_dir (br_tree b') (bc_workspace cfg)" "real_dir (br_tree b') (bc_workspace cfg @ butlast (path_parts raw))"
    using changed_file_dirs [OF changed] assms(1) written(5) same(1) by simp_all
  have nonempty: "path_parts raw \<noteq> []" using written(4) by (auto simp: granted_file_def same)
  have reached: "reached (br_tree b') (bc_workspace cfg) (path_parts raw) False"
    using real(2) content by (simp add: reached_def)
  obtain p where "workspace_path (out_kernel out) ?t (bc_workspace cfg) (PStr raw) True False = Inr p"
    using bridge_write_path [OF w [unfolded \<open>r = Inr result\<close>]] assms(5) by auto
  then have path: "workspace_path (out_kernel out') (br_tree b') (bc_workspace cfg) (PStr raw) False False =
      Inr (bc_workspace cfg @ path_parts raw)" by (rule workspace_path_again [OF _ real(1) reached assms(16)])
  from bridge_read_value [OF path assms(10) reached nonempty content assms(12, 13, 14, 17, 18)] show ?thesis
    using assms(7-9, 15) by (simp add: handle_def perform_request_def response_fields min_def)
qed

section \<open>Composition with the hosted service\<close>

text \<open>C13. Which answers of the bridge the hosted service accepts: whatever was requested, and unless an executor passed to
  the bridge speaks for it, an answer is a valid record exactly when the three identities it repeats from the request
  fit the wire protocol and its exit status, if it has one, lies between 0 and 255. A request with an identity that
  does not fit, or a process killed by a signal, whose status is negative, is answered with a record the service
  rejects; nothing else is.\<close>

theorem bridge_answers_are_accepted:
  assumes "handle out cfg request b = (Inr answer, b')" "executor_silent cfg out"
  shows "validate_record (PDict answer) = None \<longleftrightarrow>
    list_all (\<lambda>name. valid_id (dget answer name)) [''requestId'', ''runId'', ''correlationId''] \<and>
    (has_key (dict_of (dget answer ''result'')) ''exitCode'' \<longrightarrow>
      bounded_int (dget (dict_of (dget answer ''result'')) ''exitCode'') 0 255)"
proof -
  obtain r b0 where p: "perform_request out cfg request (arrived out b) = (r, b0)"
    by (cases "perform_request out cfg request (arrived out b)")
  show ?thesis
  proof (cases r)
    case (Inr result)
    with assms(1) p have answer: "answer = bridge_response out request ''capability.result'' (''result'', PDict result)"
      by (simp add: handle_def)
    show ?thesis unfolding answer
      by (simp only: response_valid [OF disjI1, OF conjI, OF refl conjI, OF refl refl]
          result_shape_valid [OF perform_shape [OF p [unfolded Inr]]] response_fields dict_of.simps)
  next
    case (Inl e)
    with assms(1) p obtain code message where e: "e = CapabilityRefusal code message"
      "answer = bridge_response out request ''capability.error'' (''error'', PDict [(''code'', PStr code), (''message'', PStr message)])"
      by (cases e) (auto simp: handle_def)
    from known_perform [OF assms(2) p] Inl e(1) have "code \<in> set CAPABILITY_ERROR_CODES" "plain_message message" by simp_all
    note valid = error_valid [OF this]
    have none: "\<not> has_key (dict_of (dget answer ''result'')) ''exitCode''"
      unfolding e(2) by (simp add: bridge_response_def answer_identity_def)
    show ?thesis unfolding e(2) using none [unfolded e(2)] valid
      by (simp only: response_valid [OF disjI2, OF conjI, OF refl conjI, OF refl refl]) blast
  qed
qed

section \<open>A concrete session\<close>

definition demo_tree :: tree where
  "demo_tree p = (if p = [''w''] then Some Directory else None)"

definition demo_outside :: bridge_outside where
  "demo_outside = \<lparr>out_kernel = \<lparr>lstat_fails = \<lambda>p. False, open_fails = \<lambda>p. False, read_gives = \<lambda>p n. Some n,
       chmod_fails = \<lambda>p. False, write_takes = \<lambda>p n. Some 0\<rparr>,
     out_drift = \<lambda>t. t, out_process = \<lambda>sp t. t,
     out_child = \<lambda>sp. \<lparr>cr_spawn_error = None,
       cr_joined = [(False, Chunk ''h''), (True, End_of_file), (False, Chunk ''i''), (True, Thread_end), (False, End_of_file),
         (False, Thread_end)],
       cr_closing = [], cr_closed = [], cr_checking = [], cr_later = [], cr_timed_out = False, cr_reap_failed = False,
       cr_returncode = 0\<rparr>,
     out_executor = \<lambda>sp. Inl TypeErr, out_str = \<lambda>v. []\<rparr>"

definition demo_config :: config where
  "demo_config = \<lparr>bc_workspace = [''w''], bc_executables = [(''echo'', [''/bin/echo''])], bc_reads = [''a''],
     bc_writes = [''a''], bc_default = True\<rparr>"

definition demo_bridge :: bridge where
  "demo_bridge = \<lparr>br_tree = demo_tree, br_requested = 0, br_completed = 0, br_rejected = 0, br_codes = [],
     br_reaped = None, br_retained = 0, br_spawned = []\<rparr>"

definition demo_request :: "string \<Rightarrow> pydict \<Rightarrow> pydict" where
  "demo_request operation arguments = [(''schema'', PStr WIRE_SCHEMA), (''type'', PStr ''capability.request''),
     (''requestId'', PStr ''q''), (''runId'', PStr ''r''), (''sequence'', PInt 1), (''correlationId'', PStr ''c''),
     (''operation'', PStr operation), (''arguments'', PDict arguments)]"

definition demo_write :: pydict where
  "demo_write = demo_request ''workspace.write'' [(''path'', PStr ''a''), (''bytesBase64'', PStr ''aGk='')]"

definition demo_reading :: pydict where
  "demo_reading = demo_request ''workspace.read'' [(''path'', PStr ''a''), (''maxBytes'', PInt 9)]"

definition demo_exec_arguments :: pydict where
  "demo_exec_arguments = [(''argv'', PList [PStr ''echo'', PStr ''hi'']), (''cwd'', PStr ''.''), (''env'', PDict []),
     (''timeoutMs'', PInt 10), (''maxOutputBytes'', PInt 2)]"

definition demo_exec :: pydict where "demo_exec = demo_request ''process.exec'' demo_exec_arguments"

definition demo_answers :: "pydict res list" where
  "demo_answers = fst (serve demo_config [(demo_outside, demo_write), (demo_outside, demo_reading), (demo_outside, demo_exec)] demo_bridge)"

definition demo_final :: bridge where
  "demo_final = snd (serve demo_config [(demo_outside, demo_write), (demo_outside, demo_reading), (demo_outside, demo_exec)] demo_bridge)"

lemma demo_init:
  "init_bridge (Inr [''w'']) True [''a''] [''a''] [(''echo'', PStr ''/bin/echo'')] False demo_tree = Inr (demo_config, demo_bridge)"
proof -
  have "executable_check True (''echo'', [PStr ''/bin/echo'']) = None" by code_simp
  then show ?thesis by (simp add: init_bridge_def demo_config_def demo_bridge_def)
qed

lemma demo_session: "map (\<lambda>a. case a of Inr d \<Rightarrow> dget d ''result'' | Inl e \<Rightarrow> PNone) demo_answers =
    [PDict [(''bytesWritten'', PInt 2)], PDict [(''bytesBase64'', PStr ''aGk=''), (''byteLength'', PInt 2)],
     PDict [(''exitCode'', PInt 0), (''stdoutBase64'', PStr ''aGk=''), (''stderrBase64'', PStr [])]]"
  "map sp_argv (br_spawned demo_final) = [[''/bin/echo'', ''hi'']]"
  by code_simp+

lemma demo_written_file: "br_tree demo_final [''w'', ''a''] = Some (Regular ''hi'')" "demo_tree [''w'', ''a''] = None"
  by code_simp+

theorem bridge_stays_in_grant_witness:
  "\<exists>p data sp. granted_file [''w''] [''a''] p \<and>
     br_tree (snd (handle demo_outside demo_config demo_write demo_bridge)) = demo_tree(p \<mapsto> Regular data) \<and>
     br_spawned (snd (handle demo_outside demo_config demo_exec demo_bridge)) = [sp] \<and> allowed_spawn demo_config demo_tree sp \<and>
     is_absolute (hd (sp_argv sp)) \<and> \<not> is_shell (path_name (hd (sp_argv sp)))"
proof -
  let ?written = "snd (handle demo_outside demo_config demo_write demo_bridge)"
  let ?run = "snd (handle demo_outside demo_config demo_exec demo_bridge)"
  have start: "out_drift demo_outside (br_tree demo_bridge) = demo_tree" "real_dir demo_tree [''w'']" "br_spawned demo_bridge = []"
    by (simp_all add: demo_outside_def demo_bridge_def demo_tree_def)
  have seen: "br_tree ?written [''w'', ''a''] = Some (Regular ''hi'')" "demo_tree [''w'', ''a''] = None"
    "br_spawned ?written = []" "length (br_spawned ?run) = 1" by code_simp+
  note grant = bridge_stays_in_grant [OF demo_init _ start(1) [symmetric] start(2)]
  from grant [OF surjective_pairing, of demo_write] seen(1-3) start(3)
  obtain p data where "granted_file [''w''] [''a''] p" "br_tree ?written = demo_tree(p \<mapsto> Regular data)" by auto
  moreover from grant [OF surjective_pairing, of demo_exec] seen(4) start(3)
  obtain sp where "br_spawned ?run = [sp]" "allowed_spawn demo_config demo_tree sp" "is_absolute (hd (sp_argv sp))"
    "\<not> is_shell (path_name (hd (sp_argv sp)))" by auto
  ultimately show ?thesis by blast
qed

theorem evidence_counts_answers_witness:
  "dget (snapshot demo_config demo_final) ''requested'' = PInt (int (length demo_answers)) \<and>
    dget (snapshot demo_config demo_final) ''completed'' = PInt (int (length (filter (answer_type ''capability.result'') demo_answers))) \<and>
    dget (snapshot demo_config demo_final) ''rejected'' = PInt (int (length (filter (answer_type ''capability.error'') demo_answers))) \<and>
    count_of (br_codes demo_final) ''CAPABILITY_NOT_FOUND'' = length (filter (refused_with ''CAPABILITY_NOT_FOUND'') demo_answers) \<and>
    br_requested demo_final = br_completed demo_final + br_rejected demo_final + length (filter isl demo_answers)"
  by (rule evidence_counts_answers [OF demo_init,
      where rs = "[(demo_outside, demo_write), (demo_outside, demo_reading), (demo_outside, demo_exec)]"])
     (simp add: demo_answers_def demo_final_def)

theorem process_result_is_what_was_read_witness:
  "\<exists>b' sp. bridge_exec demo_outside demo_config demo_exec_arguments demo_bridge =
      (Inr [(''exitCode'', PInt 0), (''stdoutBase64'', PStr ''aGk=''), (''stderrBase64'', PStr [])], b') \<and>
    br_spawned b' = br_spawned demo_bridge @ [sp] \<and> br_reaped b' = Some True \<and>
    \<not> cr_timed_out (out_child demo_outside sp) \<and> ''aGk='' = b64encode (fst (child_stream False (out_child demo_outside sp)))"
proof -
  obtain r b' where run: "bridge_exec demo_outside demo_config demo_exec_arguments demo_bridge = (r, b')"
    by (cases "bridge_exec demo_outside demo_config demo_exec_arguments demo_bridge")
  have "fst (bridge_exec demo_outside demo_config demo_exec_arguments demo_bridge) =
      Inr [(''exitCode'', PInt 0), (''stdoutBase64'', PStr ''aGk=''), (''stderrBase64'', PStr [])]" by code_simp
  with run have r: "r = Inr [(''exitCode'', PInt 0), (''stdoutBase64'', PStr ''aGk=''), (''stderrBase64'', PStr [])]" by simp
  have "bc_default demo_config" by (simp add: demo_config_def)
  with process_result_is_what_was_read [OF run] r obtain sp where
    "br_spawned b' = br_spawned demo_bridge @ [sp]" "br_reaped b' = Some True" "\<not> cr_timed_out (out_child demo_outside sp)"
    "PStr ''aGk='' = PStr (b64encode (fst (child_stream False (out_child demo_outside sp))))"
    unfolding Let_def by blast
  with run r show ?thesis by blast
qed

lemma demo_written:
  obtains answer b' where "handle demo_outside demo_config demo_write demo_bridge = (Inr answer, b')"
    "dget answer ''type'' = PStr ''capability.result''"
    "list_all (\<lambda>name. valid_id (dget answer name)) [''requestId'', ''runId'', ''correlationId'']"
    "\<not> has_key (dict_of (dget answer ''result'')) ''exitCode''"
proof (cases "handle demo_outside demo_config demo_write demo_bridge")
  case (Pair r b')
  have "case fst (handle demo_outside demo_config demo_write demo_bridge) of Inl e \<Rightarrow> False
    | Inr answer \<Rightarrow> dget answer ''type'' = PStr ''capability.result'' \<and>
        list_all (\<lambda>name. valid_id (dget answer name)) [''requestId'', ''runId'', ''correlationId''] \<and>
        \<not> has_key (dict_of (dget answer ''result'')) ''exitCode''" by code_simp
  with Pair that show thesis by (cases r) auto
qed

theorem written_file_reads_back_witness:
  "\<exists>answer b' answer' b''. handle demo_outside demo_config demo_write demo_bridge = (Inr answer, b') \<and>
     handle demo_outside demo_config demo_reading b' = (Inr answer', b'') \<and>
     dget answer' ''result'' = PDict [(''bytesBase64'', PStr (b64encode ''hi'')), (''byteLength'', PInt 2)]"
proof -
  obtain answer b' where w: "handle demo_outside demo_config demo_write demo_bridge = (Inr answer, b')"
    "dget answer ''type'' = PStr ''capability.result''" by (rule demo_written)
  have hyps: "real_dir (out_drift demo_outside (br_tree demo_bridge)) (bc_workspace demo_config)"
    "dget demo_write ''operation'' = PStr ''workspace.write''" "dget (dict_of (dget demo_write ''arguments'')) ''path'' = PStr ''a''"
    "out_drift demo_outside (br_tree demo_bridge) (bc_workspace demo_config @ path_parts ''a'') \<noteq> Some Special"
    "validate_envelope demo_reading = None" "dget demo_reading ''operation'' = PStr ''workspace.read''"
    "dget demo_reading ''arguments'' = PDict [(''path'', PStr ''a''), (''maxBytes'', PInt 9)]" "''a'' \<in> set (bc_reads demo_config)"
    "b64decode (str_of (dget (dict_of (dget demo_write ''arguments'')) ''bytesBase64'')) = Inr ''hi''"
    by code_simp+
  have "\<exists>answer' b'' n. handle demo_outside demo_config demo_reading b' = (Inr answer', b'') \<and> n = min (length ''hi'') (Suc 10) \<and>
    dget answer' ''result'' = PDict [(''bytesBase64'', PStr (b64encode (take n ''hi''))), (''byteLength'', PInt (int n))] \<and>
    b64decode (b64encode (take n ''hi'')) = Inr (take n ''hi'')"
    by (rule written_file_reads_back [OF hyps(1) w hyps(2-9)]) (simp_all add: MAX_IO_BYTES_def demo_outside_def)
  with w(1) show ?thesis by (auto simp: numeral_2_eq_2)
qed

theorem bridge_answers_are_accepted_witness:
  "\<exists>answer b'. handle demo_outside demo_config demo_write demo_bridge = (Inr answer, b') \<and> validate_record (PDict answer) = None"
proof -
  obtain answer b' where w: "handle demo_outside demo_config demo_write demo_bridge = (Inr answer, b')"
    "list_all (\<lambda>name. valid_id (dget answer name)) [''requestId'', ''runId'', ''correlationId'']"
    "\<not> has_key (dict_of (dget answer ''result'')) ''exitCode''" by (rule demo_written)
  have "executor_silent demo_config demo_outside" by (simp add: executor_silent_def demo_config_def)
  from bridge_answers_are_accepted [OF w(1) this] w show ?thesis by blast
qed

end
