(* ===== verification/Lineage_Authority.thy ===== *)
theory Lineage_Authority
  imports Promotion_Base
begin

text \<open>
  The pinned registry lineage: \<^verbatim>\<open>cli/ci/check_registry_lineage.py\<close> (the closed reader of the authority, its
  validation and the admission report) and \<open>load_lineage\<close> of \<^verbatim>\<open>cli/ci/promote_alpha_release.py\<close>, the
  reader the promotion uses. Texts interpolated into messages (a field name, an operating system error) are
  omitted from them.
\<close>

section \<open>Versions\<close>

abbreviation lineage_error :: "string \<Rightarrow> exn" where "lineage_error m \<equiv> OtherExn (''LineageError: '' @ m)"

definition MAX_AUTHORITY_BYTES :: nat where "MAX_AUTHORITY_BYTES = 64 * 1024"

definition EXPECTED_META_VERSIONS :: "string list" where
  "EXPECTED_META_VERSIONS = [''0.1.0'', ''0.1.1'', ''0.1.2'', ''0.1.3'', ''0.1.4'', ''0.2.5'', ''0.13.0'', ''0.13.1'', ''0.14.0'']"

definition EXPECTED_PLATFORMS :: "string list" where
  "EXPECTED_PLATFORMS = [''@openprose/prose-cli-darwin-arm64'', ''@openprose/prose-cli-darwin-x64'',
     ''@openprose/prose-cli-linux-arm64-gnu'', ''@openprose/prose-cli-linux-x64-gnu'']"

text \<open>Version numbers as tuples, compared as Python compares tuples of integers.\<close>

fun tuple_le :: "nat list \<Rightarrow> nat list \<Rightarrow> bool" where
  "tuple_le [] ys = True"
| "tuple_le (x # xs) [] = False"
| "tuple_le (x # xs) (y # ys) = (x < y \<or> x = y \<and> tuple_le xs ys)"

definition stable_tuple :: "pyval \<Rightarrow> string \<Rightarrow> nat list res" where
  "stable_tuple v label =
     (if \<not> is_str v then Inl TypeErr
      else checked (guard (stable_version (str_of v)) (lineage_error (label @ '' must be an exact stable SemVer'')))
        (Inr (map dec_value (split_on (CHR ''.'') (str_of v)))))"

definition alpha_tuple :: "pyval \<Rightarrow> string \<Rightarrow> nat list res" where
  "alpha_tuple v label =
     (if \<not> is_str v then Inl TypeErr
      else case ALPHA_groups (str_of v) of
        None \<Rightarrow> Inl (lineage_error (label @ '' must be an exact numbered alpha SemVer''))
      | Some groups \<Rightarrow> Inr (map dec_value groups))"

text \<open>Two digits in a range, and \<open>RFC3339_UTC\<close>.\<close>

definition two_digits :: "nat \<Rightarrow> nat \<Rightarrow> string \<Rightarrow> bool" where
  "two_digits lo hi s \<longleftrightarrow> length s = 2 \<and> list_all is_digit s \<and> lo \<le> dec_value s \<and> dec_value s \<le> hi"

definition piece :: "nat \<Rightarrow> string \<Rightarrow> string" where "piece i s = take 2 (drop i s)"

definition RFC3339_UTC :: "string \<Rightarrow> bool" where
  "RFC3339_UTC s \<longleftrightarrow> 20 \<le> length s \<and> list_all is_digit (take 4 s) \<and>
     s ! 4 = CHR ''-'' \<and> two_digits 1 12 (piece 5 s) \<and> s ! 7 = CHR ''-'' \<and> two_digits 1 31 (piece 8 s) \<and>
     s ! 10 = CHR ''T'' \<and> two_digits 0 23 (piece 11 s) \<and> s ! 13 = CHR '':'' \<and> two_digits 0 59 (piece 14 s) \<and>
     s ! 16 = CHR '':'' \<and> two_digits 0 59 (piece 17 s) \<and>
     (drop 19 s = ''Z'' \<or> length s = 24 \<and> s ! 19 = CHR ''.'' \<and> list_all is_digit (take 3 (drop 20 s)) \<and> s ! 23 = CHR ''Z'')"

definition PACKAGE :: "string \<Rightarrow> bool" where
  "PACKAGE s \<longleftrightarrow> take 20 s = ''@openprose/prose-cli'' \<and>
     (let rest = drop 20 s in rest = [] \<or> take 1 rest = ''-'' \<and> 1 < length rest \<and>
        list_all (\<lambda>c. is_lower c \<or> is_digit c \<or> c = CHR ''-'') rest)"

section \<open>Reading the authority\<close>

text \<open>The loop over \<open>os.read\<close>.\<close>

fun authority_chunks :: "string res list \<Rightarrow> string \<Rightarrow> string res" where
  "authority_chunks [] got = Inr got"
| "authority_chunks (r # rs) got =
     ebind r (\<lambda>bytes.
       (let chunk = take (min 65536 (MAX_AUTHORITY_BYTES + 1 - length got)) bytes; got' = got @ chunk in
        if chunk = [] then Inr got
        else if MAX_AUTHORITY_BYTES < length got' then Inl (lineage_error ''registry lineage authority exceeds its byte bound'')
        else authority_chunks rs got'))"

definition read_authority :: "asset_trace \<Rightarrow> string res" where
  "read_authority tr =
     (case at_lstat tr of
        Inl e \<Rightarrow> Inl (lineage_error ''registry lineage authority is unavailable'')
      | Inr before \<Rightarrow>
          checked (guard (st_kind before = Regular \<and> 0 < st_size before \<and> st_size before \<le> MAX_AUTHORITY_BYTES)
            (lineage_error ''registry lineage authority must be a bounded non-symlink regular file''))
          (case at_open tr of
             Inl e \<Rightarrow> Inl (lineage_error ''registry lineage authority cannot be opened'')
           | Inr opened \<Rightarrow>
               checked (guard (st_dev opened = st_dev before \<and> st_ino opened = st_ino before)
                 (lineage_error ''registry lineage authority changed before open''))
               (ebind (authority_chunks (at_reads tr) []) (\<lambda>bytes.
                checked (guard
                  (st_dev opened = st_dev (at_after tr) \<and> st_ino opened = st_ino (at_after tr) \<and>
                   st_size opened = st_size (at_after tr) \<and> st_mtime_ns opened = st_mtime_ns (at_after tr) \<and>
                   length bytes = st_size opened)
                  (lineage_error ''registry lineage authority changed while being read''))
                (Inr bytes)))))"

definition lineage_hooks :: json_hooks where
  "lineage_hooks = \<lparr>pairs_hook = (\<lambda>pairs. if distinct (map fst pairs) then Inr (PDict pairs)
       else Inl (lineage_error ''registry lineage authority has duplicate field'')),
     constant_hook = constant_hook default_hooks\<rparr>"

definition is_lineage :: "exn \<Rightarrow> bool" where
  "is_lineage e \<longleftrightarrow> (case e of OtherExn m \<Rightarrow> take 14 m = ''LineageError: '' | _ \<Rightarrow> False)"

definition json_object :: "string \<Rightarrow> pydict res" where
  "json_object encoded =
     (case json_loads_bytes lineage_hooks encoded of
        Inl e \<Rightarrow> Inl (if is_lineage e then e else lineage_error ''registry lineage authority is not valid JSON'')
      | Inr v \<Rightarrow> if is_dict v then Inr (dict_of v) else Inl (lineage_error ''registry lineage authority must be an object''))"

definition load_authority :: "asset_trace \<Rightarrow> pydict res" where
  "load_authority tr = ebind (read_authority tr) json_object"

section \<open>Validation\<close>

definition closed_object :: "pyval \<Rightarrow> string list \<Rightarrow> string \<Rightarrow> check" where
  "closed_object v ks label =
     guard (is_dict v \<and> keys_are (dict_of v) ks) (lineage_error (label @ '' has unknown or missing fields''))"

definition AUTHORITY_KEYS :: "string list" where
  "AUTHORITY_KEYS = [''schema'', ''registry'', ''observedAt'', ''observation'', ''metaPackage'', ''platformPackages'',
     ''successor'', ''releaseRequirements'']"

definition pinned_observation :: pydict where
  "pinned_observation = [(''method'', PStr ''public-npm-metadata''),
     (''metaCommand'', PStr ''npm view @openprose/prose-cli name version versions dist-tags time dist --json''),
     (''ownersCommand'', PStr ''npm view @openprose/prose-cli maintainers --json''),
     (''platformCommandPattern'', PStr ''npm view @openprose/prose-cli-<platform> name version dist-tags --json'')]"

definition header_check :: "pydict \<Rightarrow> check" where
  "header_check d = first_failure [
     closed_object (PDict d) AUTHORITY_KEYS ''registry lineage authority'',
     guard (dget d ''schema'' = PStr ''openprose.npm-registry-lineage/1'') (lineage_error ''registry lineage schema is unsupported''),
     guard (dget d ''registry'' = PStr REGISTRY) (lineage_error ''registry lineage origin is not the public npm registry''),
     guard (is_match RFC3339_UTC (dget d ''observedAt'')) (lineage_error ''registry observation time is not exact UTC''),
     closed_object (dget d ''observation'') (map fst pinned_observation) ''registry observation'',
     guard (py_eq (dget d ''observation'') (PDict pinned_observation))
       (lineage_error ''registry observation method is not the pinned public query'')]"

definition META_KEYS :: "string list" where
  "META_KEYS = [''name'', ''status'', ''latest'', ''latestPublishedAt'', ''latestIntegrity'', ''latestShasum'', ''owners'',
     ''publishedVersions'']"

definition PINNED_OWNERS :: "string list" where "PINNED_OWNERS = [''jose_at_prose'', ''dan_openprose'']"

definition strings_eq :: "pyval \<Rightarrow> string list \<Rightarrow> bool" where
  "strings_eq v ss \<longleftrightarrow> v = PList (map PStr ss)"

text \<open>The meta package; the result is the version its \<open>latest\<close> names.\<close>

definition meta_identity :: "pydict \<Rightarrow> check" where
  "meta_identity m = first_failure [
     guard (dget m ''name'' = PStr META_PACKAGE \<and> PACKAGE META_PACKAGE) (lineage_error ''meta-package identity is not @openprose/prose-cli''),
     guard (dget m ''status'' = PStr ''published'') (lineage_error ''the pre-existing meta package must remain recorded as published''),
     guard (strings_eq (dget m ''owners'') PINNED_OWNERS) (lineage_error ''pre-existing meta-package owners differ from the pinned observation''),
     guard (strings_eq (dget m ''publishedVersions'') EXPECTED_META_VERSIONS)
       (lineage_error ''published meta-package history differs from the pinned observation'')]"

definition latest_record :: "pydict \<Rightarrow> check" where
  "latest_record m = guard (is_match RFC3339_UTC (dget m ''latestPublishedAt'') \<and> is_match INTEGRITY (dget m ''latestIntegrity'') \<and>
       is_match SHA1 (dget m ''latestShasum''))
     (lineage_error ''pre-existing latest registry identity is malformed'')"

definition meta_latest :: "pyval \<Rightarrow> nat list res" where
  "meta_latest v = (let m = dict_of v in
     checked (first_failure [closed_object v META_KEYS ''meta-package lineage'', meta_identity m])
     (ebind (traverse_res (\<lambda>version. stable_tuple version ''published version'') (list_of (dget m ''publishedVersions''))) (\<lambda>parsed.
      checked (guard (sorted_wrt tuple_le parsed \<and> distinct parsed)
        (lineage_error ''published meta-package history is not unique and ordered''))
      (ebind (stable_tuple (dget m ''latest'') ''pre-existing latest version'') (\<lambda>latest.
       checked (first_failure [guard (latest = last parsed) (lineage_error ''pre-existing latest does not match the published history''),
         latest_record m])
       (Inr latest))))))"

fun observed_platforms :: "pyval list \<Rightarrow> string list res" where
  "observed_platforms [] = Inr []"
| "observed_platforms (v # vs) =
     (let d = dict_of v in
      checked (first_failure [closed_object v [''name'', ''status''] ''platform package observation'',
        guard (is_match PACKAGE (dget d ''name'')) (lineage_error ''platform package name is invalid''),
        guard (dget d ''status'' = PStr ''not-found'') (lineage_error ''a proposed platform package was already published'')])
      (ebind (observed_platforms vs) (\<lambda>names. Inr (str_of (dget d ''name'') # names))))"

definition platforms_check :: "pyval \<Rightarrow> check" where
  "platforms_check v = first_failure [
     guard (is_list v \<and> length (list_of v) = length EXPECTED_PLATFORMS) (lineage_error ''platform package observation set is incomplete''),
     (case observed_platforms (list_of v) of Inl e \<Rightarrow> Some e
      | Inr names \<Rightarrow> guard (names = EXPECTED_PLATFORMS) (lineage_error ''platform package observations differ from the closed cohort''))]"

definition SUCCESSOR_KEYS :: "string list" where
  "SUCCESSOR_KEYS = [''migrationFrom'', ''functionalAlphaCore'', ''firstVersion'', ''prereleaseIdentifier'', ''minimumSequence'',
     ''distributionTag'', ''stableDistributionTag'', ''versionReuse'']"

text \<open>\<open>!=\<close> between JSON values, where \<open>1\<close>, \<open>1.0\<close> and \<open>true\<close> are equal.\<close>

definition successor_check :: "pyval \<Rightarrow> pyval \<Rightarrow> nat list \<Rightarrow> check" where
  "successor_check v latest_value latest = (let s = dict_of v in
     case closed_object v SUCCESSOR_KEYS ''successor policy'' of Some e \<Rightarrow> Some e
     | None \<Rightarrow> (case stable_tuple (dget s ''functionalAlphaCore'') ''functional-alpha core'' of Inl e \<Rightarrow> Some e
       | Inr core \<Rightarrow> (case alpha_tuple (dget s ''firstVersion'') ''first functional-alpha version'' of Inl e \<Rightarrow> Some e
         | Inr first \<Rightarrow> guard (py_eq (dget s ''migrationFrom'') latest_value \<and> core = [latest ! 0, latest ! 1 + 1, 0] \<and>
               first = core @ [1] \<and> dget s ''prereleaseIdentifier'' = PStr ''alpha'' \<and> eq_int (dget s ''minimumSequence'') 1 \<and>
               dget s ''distributionTag'' = PStr ''alpha'' \<and> dget s ''stableDistributionTag'' = PStr ''latest'' \<and>
               dget s ''versionReuse'' = PStr ''forbidden'')
             (lineage_error ''successor policy is not the next numbered alpha lineage''))))"

definition pinned_requirements :: pydict where
  "pinned_requirements = [(''liveRegistryRevalidation'', PBool True), (''requireTargetVersionUnused'', PBool True),
     (''publishPlatformPackagesBeforeMeta'', PBool True), (''verifyRegistryIntegrityBeforeMeta'', PBool True),
     (''preserveLatestDuringAlpha'', PBool True), (''partialPublicationPolicy'', PStr ''deprecate-and-never-reuse'')]"

definition validate_authority :: "pydict \<Rightarrow> check" where
  "validate_authority d =
     (case header_check d of Some e \<Rightarrow> Some e
      | None \<Rightarrow> (case meta_latest (dget d ''metaPackage'') of Inl e \<Rightarrow> Some e
        | Inr latest \<Rightarrow> first_failure [
            platforms_check (dget d ''platformPackages''),
            successor_check (dget d ''successor'') (dget (dict_of (dget d ''metaPackage'')) ''latest'') latest,
            closed_object (dget d ''releaseRequirements'') (map fst pinned_requirements) ''registry release requirements'',
            guard (py_eq (dget d ''releaseRequirements'') (PDict pinned_requirements))
              (lineage_error ''registry release requirements are weakened or unknown'')]))"

section \<open>The admission report\<close>

definition is_caught :: "exn \<Rightarrow> bool" where
  "is_caught e \<longleftrightarrow> is_lineage e \<or> e = KeyErr \<or> e = TypeErr \<or> (\<exists>m. e = OSErr m)"

text \<open>What \<open>assess\<close> has when it leaves the \<open>try\<close>: the bytes, the authority and the failure.\<close>

definition assess_reading :: "asset_trace \<Rightarrow> string option \<times> pydict option \<times> exn option" where
  "assess_reading tr =
     (case read_authority tr of Inl e \<Rightarrow> (None, None, Some e)
      | Inr encoded \<Rightarrow> (case json_object encoded of Inl e \<Rightarrow> (Some encoded, None, Some e)
        | Inr d \<Rightarrow> (Some encoded, Some d, validate_authority d)))"

definition subfield :: "pydict option \<Rightarrow> string \<Rightarrow> string \<Rightarrow> pyval" where
  "subfield authority outer inner = (case authority of None \<Rightarrow> PNone | Some d \<Rightarrow> dget (dict_of (dget d outer)) inner)"

definition effective_version :: "string option \<Rightarrow> pyval \<Rightarrow> pyval" where
  "effective_version requested first =
     (case requested of Some v \<Rightarrow> PStr v | None \<Rightarrow> if is_str first then first else PNone)"

text \<open>\<open>n < v\<close> for a number \<open>v\<close>, and the version against the successor lineage of a valid authority.\<close>

definition below_number :: "nat \<Rightarrow> pyval \<Rightarrow> bool" where
  "below_number n v \<longleftrightarrow> (case num_of v of Some (FFin q) \<Rightarrow> of_nat n < q | Some FPosInf \<Rightarrow> True | _ \<Rightarrow> False)"

definition candidate_failures :: "pydict \<Rightarrow> pyval \<Rightarrow> exn list res" where
  "candidate_failures d version = (let s = dict_of (dget d ''successor'') in
     checked (guard (is_str version) (OtherExn ''AssertionError''))
     (ebind (stable_tuple (dget s ''functionalAlphaCore'') ''functional-alpha core'') (\<lambda>core.
      case alpha_tuple version ''requested functional-alpha version'' of
        Inl e \<Rightarrow> if is_lineage e then Inr [e] else Inl e
      | Inr candidate \<Rightarrow>
          Inr (if take 3 candidate \<noteq> core \<or> below_number (candidate ! 3) (dget s ''minimumSequence'')
               then [OtherExn ''requested version is outside the pinned 0.15.0-alpha.N successor lineage''] else []))))"

record lineage_report =
  lr_status :: string
  lr_authority_sha256 :: "string option"
  lr_observed_at :: pyval
  lr_registry :: pyval
  lr_preexisting_latest :: pyval
  lr_first_version :: pyval
  lr_requested_version :: pyval
  lr_version_source :: string
  lr_distribution_tag :: pyval
  lr_failures :: "exn list"

definition assess :: "asset_trace \<Rightarrow> string option \<Rightarrow> lineage_report res" where
  "assess tr requested =
     (case assess_reading tr of (encoded, authority, failure) \<Rightarrow>
        let first = subfield authority ''successor'' ''firstVersion''; version = effective_version requested first in
        ebind (case failure of
            Some e \<Rightarrow> if is_caught e then Inr [e] else Inl e
          | None \<Rightarrow> candidate_failures (the authority) version) (\<lambda>failures.
        Inr \<lparr>lr_status = (if failures = [] then ''pass'' else ''fail''),
             lr_authority_sha256 = map_option sha256_hex encoded,
             lr_observed_at = (case authority of None \<Rightarrow> PNone | Some d \<Rightarrow> dget d ''observedAt''),
             lr_registry = (case authority of None \<Rightarrow> PNone | Some d \<Rightarrow> dget d ''registry''),
             lr_preexisting_latest = subfield authority ''metaPackage'' ''latest'', lr_first_version = first,
             lr_requested_version = version,
             lr_version_source = (if requested \<noteq> None then ''argument'' else ''authority-default''),
             lr_distribution_tag = subfield authority ''successor'' ''distributionTag'', lr_failures = failures\<rparr>))"

text \<open>The printed object, with the messages of the failures as an argument.\<close>

definition report_record :: "(exn \<Rightarrow> string) \<Rightarrow> string \<Rightarrow> lineage_report \<Rightarrow> pydict" where
  "report_record message path r = [
     (''schema'', PStr ''openprose.registry-lineage-admission/1''), (''status'', PStr (lr_status r)), (''authority'', PStr path),
     (''authoritySha256'', (case lr_authority_sha256 r of None \<Rightarrow> PNone | Some h \<Rightarrow> PStr h)),
     (''observedAt'', lr_observed_at r), (''registry'', lr_registry r), (''preexistingLatest'', lr_preexisting_latest r),
     (''canonicalFirstVersion'', lr_first_version r), (''requestedVersion'', lr_requested_version r),
     (''versionSource'', PStr (lr_version_source r)), (''distributionTag'', lr_distribution_tag r),
     (''networkUsed'', PBool False), (''liveRegistryRevalidationRequired'', PBool True),
     (''failures'', PList (map (\<lambda>e. PStr (message e)) (lr_failures r)))]"

definition lineage_main :: "asset_trace \<Rightarrow> string option \<Rightarrow> nat res" where
  "lineage_main tr requested = ebind (assess tr requested) (\<lambda>r. Inr (if lr_status r = ''pass'' then 0 else 2))"

section \<open>The reader of the promotion\<close>

definition load_lineage :: "asset_trace \<Rightarrow> string \<Rightarrow> Lineage res" where
  "load_lineage tr version =
     (case ebind (load_authority tr) (\<lambda>d. checked (validate_authority d) (Inr d)) of
        Inl e \<Rightarrow> Inl (if is_lineage e then PromotionError ''registry lineage authority is invalid'' else e)
      | Inr d \<Rightarrow>
          (let s = dict_of (dget d ''successor''); m = dict_of (dget d ''metaPackage'');
               core = map dec_value (split_on (CHR ''.'') (str_of (dget s ''functionalAlphaCore''))) in
           checked (guard (case ALPHA_groups version of None \<Rightarrow> False
               | Some groups \<Rightarrow> take 3 (map dec_value groups) = core \<and>
                   \<not> below_number (map dec_value groups ! 3) (dget s ''minimumSequence''))
             (PromotionError ''version is outside the pinned functional-alpha lineage''))
           (Inr \<lparr>ln_latest = str_of (dget m ''latest''), ln_owners = map str_of (list_of (dget m ''owners''))\<rparr>)))"

end
