(* ===== verification/Lineage_Claims.thy ===== *)
theory Lineage_Claims
  imports Lineage_Authority Promotion_Decimal Py_Json_Length
begin

text \<open>
  The properties of the registry lineage: what an accepted authority and version are, and that the admission
  report and the reader of the promotion decide alike.
\<close>

declare dec_value.simps [simp del]

lemma published_order:
  "sorted_wrt (\<lambda>x y. tuple_le x y \<and> x \<noteq> y) (map (\<lambda>v. map dec_value (split_on (CHR ''.'') v)) EXPECTED_META_VERSIONS)"
  by code_simp

lemma stable_tuple_Inr:
  "stable_tuple v label = Inr t \<longleftrightarrow> (\<exists>s. v = PStr s \<and> stable_version s \<and> t = map dec_value (split_on (CHR ''.'') s))"
  by (cases v) (auto simp: stable_tuple_def checked_eq_Inr)

lemma stable_version_eq:
  assumes "stable_version s" "stable_version s'" "map dec_value (split_on (CHR ''.'') s) = map dec_value (split_on (CHR ''.'') s')"
  shows "s = s'"
proof -
  have "split_on (CHR ''.'') s = split_on (CHR ''.'') s'"
    by (rule numeric_parts_eq) (use assms in \<open>simp_all add: stable_version_def\<close>)
  then show ?thesis by (metis join_split)
qed

text \<open>What a valid authority pins.\<close>

definition pinned_authority :: "pydict \<Rightarrow> bool" where
  "pinned_authority d \<longleftrightarrow>
     dget (dict_of (dget d ''metaPackage'')) ''latest'' = PStr ''0.14.0'' \<and>
     strings_eq (dget (dict_of (dget d ''metaPackage'')) ''owners'') PINNED_OWNERS \<and>
     is_dict (dget d ''successor'') \<and>
     dget (dict_of (dget d ''successor'')) ''functionalAlphaCore'' = PStr ''0.15.0'' \<and>
     dget (dict_of (dget d ''successor'')) ''firstVersion'' = PStr ''0.15.0-alpha.1'' \<and>
     eq_int (dget (dict_of (dget d ''successor'')) ''minimumSequence'') 1"

lemma meta_latest_Inr:
  assumes "meta_latest v = Inr latest"
  shows "latest = [0, 14, 0]" "dget (dict_of v) ''latest'' = PStr ''0.14.0''" "strings_eq (dget (dict_of v) ''owners'') PINNED_OWNERS"
proof -
  let ?m = "dict_of v"
  from assms obtain parsed where meta: "meta_identity ?m = None"
    and parsed: "traverse_res (\<lambda>version. stable_tuple version ''published version'') (list_of (dget ?m ''publishedVersions'')) = Inr parsed"
    and latest: "stable_tuple (dget ?m ''latest'') ''pre-existing latest version'' = Inr latest" "latest = last parsed"
    unfolding meta_latest_def Let_def checked_eq_Inr ebind_eq_Inr first_failure_Cons_None guard_eq_None by blast
  from meta have versions: "list_of (dget ?m ''publishedVersions'') = map PStr EXPECTED_META_VERSIONS"
    and owners: "strings_eq (dget ?m ''owners'') PINNED_OWNERS"
    by (simp_all add: meta_identity_def strings_eq_def)
  have "traverse_res (\<lambda>version. stable_tuple version ''published version'') (map PStr EXPECTED_META_VERSIONS) =
      Inr (map (\<lambda>v. map dec_value (split_on (CHR ''.'') v)) EXPECTED_META_VERSIONS)" by code_simp
  with parsed versions have "parsed = map (\<lambda>v. map dec_value (split_on (CHR ''.'') v)) EXPECTED_META_VERSIONS" by simp
  moreover have "last (map (\<lambda>v. map dec_value (split_on (CHR ''.'') v)) EXPECTED_META_VERSIONS) = [0, 14, 0]" by code_simp
  ultimately show 14: "latest = [0, 14, 0]" using latest(2) by simp
  from latest(1) obtain s where s: "dget ?m ''latest'' = PStr s" "stable_version s" "latest = map dec_value (split_on (CHR ''.'') s)"
    by (auto simp: stable_tuple_Inr)
  have known: "stable_version ''0.14.0''" "map dec_value (split_on (CHR ''.'') ''0.14.0'') = [0, 14, 0]" by code_simp+
  have "s = ''0.14.0''" by (rule stable_version_eq [OF s(2) known(1)]) (simp only: s(3) [symmetric] 14 known(2))
  with s(1) show "dget ?m ''latest'' = PStr ''0.14.0''" by simp
  show "strings_eq (dget ?m ''owners'') PINNED_OWNERS" by (rule owners)
qed

lemma ALPHA_groups_text:
  assumes "ALPHA_groups s = Some [a, b, c, d]"
  shows "s = a @ ''.'' @ b @ ''.'' @ c @ ''-alpha.'' @ d" "list_all numeric_part [a, b, c, d]"
proof -
  obtain a' b' c' d' where parts: "split_on (CHR ''.'') s = [a', b', c', d']"
    using assms by (auto simp: ALPHA_groups_def split: list.splits)
  with assms have known: "6 < length c'" "drop (length c' - 6) c' = ''-alpha''"
    "list_all numeric_part [a', b', take (length c' - 6) c', d']" "[a', b', take (length c' - 6) c', d'] = [a, b, c, d]"
    unfolding ALPHA_groups_def Let_def by (simp_all split: if_splits)
  then have c: "drop (length c' - 6) c' = ''-alpha''" "c = take (length c' - 6) c'" "a' = a" "b' = b" "d' = d" by simp_all
  have "c' = c @ ''-alpha''" using c(1, 2) append_take_drop_id [of "length c' - 6" c'] by simp
  moreover have "s = join_with (CHR ''.'') [a, b, c', d]" by (metis parts join_split c(3-5))
  ultimately show "s = a @ ''.'' @ b @ ''.'' @ c @ ''-alpha.'' @ d" by simp
  show "list_all numeric_part [a, b, c, d]" using known(3, 4) by simp
qed

lemma ALPHA_groups_shape: "ALPHA_groups s = Some gs \<Longrightarrow> \<exists>a b c d. gs = [a, b, c, d]"
  by (auto simp: ALPHA_groups_def Let_def split: list.splits if_splits)

lemma alpha_tuple_Inr:
  "alpha_tuple v label = Inr t \<longleftrightarrow> (\<exists>s groups. v = PStr s \<and> ALPHA_groups s = Some groups \<and> t = map dec_value groups)"
  by (cases v) (auto simp: alpha_tuple_def split: option.splits)

lemma alpha_version_eq:
  assumes "ALPHA_groups s = Some gs" "ALPHA_groups s' = Some gs'" "map dec_value gs = map dec_value gs'"
  shows "s = s'"
proof -
  obtain a b c d where gs: "gs = [a, b, c, d]" using ALPHA_groups_shape [OF assms(1)] by blast
  obtain a' b' c' d' where gs': "gs' = [a', b', c', d']" using ALPHA_groups_shape [OF assms(2)] by blast
  note t = ALPHA_groups_text [OF assms(1) [unfolded gs]] ALPHA_groups_text [OF assms(2) [unfolded gs']]
  have "[a, b, c, d] = [a', b', c', d']" by (rule numeric_parts_eq [OF t(2, 4)]) (use assms(3) gs gs' in simp)
  with t(1, 3) show ?thesis by simp
qed

lemma validate_authority_None:
  assumes "validate_authority d = None"
  shows "pinned_authority d"
proof -
  let ?s = "dict_of (dget d ''successor'')"
  from assms obtain latest where latest: "meta_latest (dget d ''metaPackage'') = Inr latest"
    and succ: "successor_check (dget d ''successor'') (dget (dict_of (dget d ''metaPackage'')) ''latest'') latest = None"
    by (auto simp: validate_authority_def split: option.splits sum.splits)
  note meta = meta_latest_Inr [OF latest]
  from succ obtain core first where "is_dict (dget d ''successor'')"
    and core: "stable_tuple (dget ?s ''functionalAlphaCore'') ''functional-alpha core'' = Inr core"
    and first: "alpha_tuple (dget ?s ''firstVersion'') ''first functional-alpha version'' = Inr first"
    and eqs: "core = [latest ! 0, latest ! 1 + 1, 0]" "first = core @ [1]" "eq_int (dget ?s ''minimumSequence'') 1"
    by (auto simp: successor_check_def Let_def closed_object_def split: option.splits sum.splits)
  have eq: "core = [0, 15, 0]" "first = [0, 15, 0, 1]" using eqs(1, 2) meta(1) by simp_all
  have known: "stable_version ''0.15.0'' \<and> map dec_value (split_on (CHR ''.'') ''0.15.0'') = [0, 15, 0]"
    "ALPHA_groups ''0.15.0-alpha.1'' = Some [''0'', ''15'', ''0'', ''1''] \<and> map dec_value [''0'', ''15'', ''0'', ''1''] = [0, 15, 0, 1]"
    by code_simp+
  from core eq(1) known(1) have "dget ?s ''functionalAlphaCore'' = PStr ''0.15.0''"
    using stable_version_eq by (fastforce simp: stable_tuple_Inr)
  moreover from first eq(2) known(2) have "dget ?s ''firstVersion'' = PStr ''0.15.0-alpha.1''"
    using alpha_version_eq by (fastforce simp: alpha_tuple_Inr)
  ultimately show ?thesis using meta eqs(3) \<open>is_dict (dget d ''successor'')\<close> by (simp add: pinned_authority_def)
qed

section \<open>Admission\<close>

text \<open>A file whose authority is valid.\<close>

definition valid_authority :: "asset_trace \<Rightarrow> pydict \<Rightarrow> bool" where
  "valid_authority tr d \<longleftrightarrow> load_authority tr = Inr d \<and> validate_authority d = None"

text \<open>The versions of the lineage: numbered alphas of the core after the published ones.\<close>

definition successor_version :: "string \<Rightarrow> bool" where
  "successor_version version \<longleftrightarrow> (\<exists>groups. ALPHA_groups version = Some groups \<and>
     take 3 (map dec_value groups) = [0, 15, 0] \<and> 1 \<le> map dec_value groups ! 3)"

lemma core_tuple: "stable_version ''0.15.0''" "map dec_value (split_on (CHR ''.'') ''0.15.0'') = [0, 15, 0]"
  by code_simp+

lemma below_one: "eq_int v 1 \<Longrightarrow> below_number n v \<longleftrightarrow> n < 1"
proof (cases v)
  case (PFloat f)
  then show "eq_int v 1 \<Longrightarrow> below_number n v \<longleftrightarrow> n < 1" by (cases f) (auto simp: eq_int_def below_number_def num_eq_def)
qed (auto simp: eq_int_def below_number_def num_eq_def split: if_splits)

lemma load_lineage_Inr:
  "load_lineage tr version = Inr lineage \<longleftrightarrow> (\<exists>d. valid_authority tr d) \<and> successor_version version \<and>
     lineage = \<lparr>ln_latest = ''0.14.0'', ln_owners = PINNED_OWNERS\<rparr>"
proof (cases "\<exists>d. valid_authority tr d")
  case True
  then obtain d where d: "load_authority tr = Inr d" "validate_authority d = None" by (auto simp: valid_authority_def)
  from validate_authority_None [OF d(2)] have pinned: "pinned_authority d" .
  then have owners: "map str_of (list_of (dget (dict_of (dget d ''metaPackage'')) ''owners'')) = PINNED_OWNERS"
    by (simp add: pinned_authority_def strings_eq_def comp_def)
  have "load_lineage tr version = checked (guard (successor_version version) (PromotionError ''version is outside the pinned functional-alpha lineage''))
      (Inr \<lparr>ln_latest = ''0.14.0'', ln_owners = PINNED_OWNERS\<rparr>)"
    using pinned d owners core_tuple(2) below_one
    by (auto simp: load_lineage_def pinned_authority_def successor_version_def Let_def guard_def not_less split: option.split)
  with True show ?thesis by (auto simp: checked_eq_Inr)
next
  case False
  then have "\<exists>e. ebind (load_authority tr) (\<lambda>d. checked (validate_authority d) (Inr d)) = Inl e"
    by (cases "load_authority tr") (auto simp: valid_authority_def checked_def split: option.split)
  with False show ?thesis by (auto simp: load_lineage_def)
qed

lemma assess_reading_None:
  "(\<exists>encoded d. assess_reading tr = (encoded, Some d, None)) \<longleftrightarrow> (\<exists>d. valid_authority tr d)"
  "assess_reading tr = (encoded, authority, None) \<Longrightarrow> \<exists>d. authority = Some d \<and> valid_authority tr d"
  by (auto simp: assess_reading_def valid_authority_def load_authority_def split: sum.splits)

lemma candidate_failures_valid:
  assumes "pinned_authority d"
  shows "\<exists>failures. candidate_failures d (PStr version) = Inr failures \<and> (failures = [] \<longleftrightarrow> successor_version version)"
proof -
  have core: "stable_tuple (dget (dict_of (dget d ''successor'')) ''functionalAlphaCore'') ''functional-alpha core'' = Inr [0, 15, 0]"
    using assms core_tuple by (auto simp: pinned_authority_def stable_tuple_Inr)
  have "is_lineage (lineage_error m)" for m by (simp add: is_lineage_def)
  with core assms below_one show ?thesis
    by (cases "ALPHA_groups version")
       (auto simp: candidate_failures_def Let_def alpha_tuple_def successor_version_def pinned_authority_def not_less)
qed

lemma assess_pass:
  "(\<exists>r. assess tr requested = Inr r \<and> lr_status r = ''pass'') \<longleftrightarrow>
     (\<exists>d. valid_authority tr d) \<and> successor_version (case requested of None \<Rightarrow> ''0.15.0-alpha.1'' | Some v \<Rightarrow> v)"
proof -
  obtain encoded authority failure where reading: "assess_reading tr = (encoded, authority, failure)"
    by (cases "assess_reading tr")
  show ?thesis
  proof (cases failure)
    case None
    with reading obtain d where d: "authority = Some d" "valid_authority tr d" using assess_reading_None(2) by blast
    then have pinned: "pinned_authority d" using validate_authority_None by (simp add: valid_authority_def)
    then have "effective_version requested (subfield authority ''successor'' ''firstVersion'') =
        PStr (case requested of None \<Rightarrow> ''0.15.0-alpha.1'' | Some v \<Rightarrow> v)"
      by (simp add: effective_version_def subfield_def d(1) pinned_authority_def split: option.split)
    with candidate_failures_valid [OF pinned, of "case requested of None \<Rightarrow> ''0.15.0-alpha.1'' | Some v \<Rightarrow> v"]
    show ?thesis using d reading None by (auto simp: assess_def Let_def)
  next
    case (Some e)
    with reading have "\<not> (\<exists>d. valid_authority tr d)" using assess_reading_None(1) [of tr] by auto
    with reading Some show ?thesis by (auto simp: assess_def Let_def)
  qed
qed

text \<open>C14. The admission report and the reader of the promotion decide alike: the report on an authority file passes
  for a version exactly when the promotion reads a lineage from that file for it; and without a version it passes
  exactly when the promotion would accept the first one.\<close>

theorem report_agrees_with_promotion:
  "((\<exists>r. assess tr (Some version) = Inr r \<and> lr_status r = ''pass'') \<longleftrightarrow> (\<exists>lineage. load_lineage tr version = Inr lineage)) \<and>
   ((\<exists>r. assess tr None = Inr r \<and> lr_status r = ''pass'') \<longleftrightarrow> (\<exists>lineage. load_lineage tr ''0.15.0-alpha.1'' = Inr lineage))"
  by (simp add: assess_pass load_lineage_Inr)

text \<open>C28. A lineage the promotion accepts admits numbered alphas of the next core only: the version is
  \<open>0.15.0-alpha.N\<close> with a canonical numeral \<open>N\<close> of at least one, its core is above every version ever published,
  and the pinned latest version and owners are returned.\<close>

theorem lineage_admits_successors_only:
  assumes "load_lineage tr version = Inr lineage"
  shows "\<exists>digits. version = ''0.15.0-alpha.'' @ digits \<and> numeric_part digits \<and> 1 \<le> dec_value digits \<and>
    (\<forall>published \<in> set EXPECTED_META_VERSIONS. tuple_le (map dec_value (split_on (CHR ''.'') published)) [0, 15, 0] \<and>
       map dec_value (split_on (CHR ''.'') published) \<noteq> [0, 15, 0]) \<and>
    lineage = \<lparr>ln_latest = ''0.14.0'', ln_owners = PINNED_OWNERS\<rparr>"
proof -
  from assms obtain groups where g: "ALPHA_groups version = Some groups" "take 3 (map dec_value groups) = [0, 15, 0]"
    "1 \<le> map dec_value groups ! 3" and lineage: "lineage = \<lparr>ln_latest = ''0.14.0'', ln_owners = PINNED_OWNERS\<rparr>"
    by (auto simp: load_lineage_Inr successor_version_def)
  obtain a b c d where groups: "groups = [a, b, c, d]" using ALPHA_groups_shape [OF g(1)] by blast
  note t = ALPHA_groups_text [OF g(1) [unfolded groups]]
  have known: "list_all numeric_part [''0'', ''15'', ''0'']" "map dec_value [''0'', ''15'', ''0''] = [0, 15, 0]" by code_simp+
  have "[a, b, c] = [''0'', ''15'', ''0'']"
    by (rule numeric_parts_eq [OF _ known(1)]) (use t(2) g(2) groups known(2) in simp_all)
  with t g(3) groups have "version = ''0.15.0-alpha.'' @ d" "numeric_part d" "1 \<le> dec_value d" by simp_all
  moreover have "list_all (\<lambda>published. tuple_le (map dec_value (split_on (CHR ''.'') published)) [0, 15, 0] \<and>
       map dec_value (split_on (CHR ''.'') published) \<noteq> [0, 15, 0]) EXPECTED_META_VERSIONS" by code_simp
  ultimately show ?thesis using lineage by (auto simp: list_all_iff)
qed

section \<open>The authority of the repository\<close>

text \<open>\<^verbatim>\<open>cli/release/npm-registry-lineage.v1.json\<close>, with the spaces between its tokens left out.\<close>

definition demo_lineage_authority :: pydict where
  "demo_lineage_authority = [
     (''schema'', PStr ''openprose.npm-registry-lineage/1''),
     (''registry'', PStr ''https://registry.npmjs.org''),
     (''observedAt'', PStr ''2026-08-31T08:06:03Z''),
     (''observation'', PDict [(''method'', PStr ''public-npm-metadata''), (''metaCommand'',
       PStr ''npm view @openprose/prose-cli name version versions dist-tags time dist --json''),
       (''ownersCommand'', PStr ''npm view @openprose/prose-cli maintainers --json''),
       (''platformCommandPattern'',
       PStr ''npm view @openprose/prose-cli-<platform> name version dist-tags --json'')]),
     (''metaPackage'', PDict [(''name'', PStr ''@openprose/prose-cli''), (''status'', PStr ''published''),
       (''latest'', PStr ''0.14.0''), (''latestPublishedAt'', PStr ''2026-05-19T13:52:54.840Z''),
       (''latestIntegrity'',
       PStr ''sha512-DPe6+iC7i+J2ddclh+xQ0QjVBOXHYC59XrMkgjaAAKLM+VIuXxUXwA2bBL/xy3jOtlBXhBMUBhpkj0vCeYVymQ==''),
       (''latestShasum'', PStr ''9d5bfad0206cccfd30eecd91080aa1d1517d0860''), (''owners'', PList
       [PStr ''jose_at_prose'', PStr ''dan_openprose'']), (''publishedVersions'', PList [PStr ''0.1.0'',
       PStr ''0.1.1'', PStr ''0.1.2'', PStr ''0.1.3'', PStr ''0.1.4'', PStr ''0.2.5'', PStr ''0.13.0'',
       PStr ''0.13.1'', PStr ''0.14.0''])]),
     (''platformPackages'', PList [PDict [(''name'', PStr ''@openprose/prose-cli-darwin-arm64''), (''status'',
       PStr ''not-found'')], PDict [(''name'', PStr ''@openprose/prose-cli-darwin-x64''), (''status'',
       PStr ''not-found'')], PDict [(''name'', PStr ''@openprose/prose-cli-linux-arm64-gnu''), (''status'',
       PStr ''not-found'')], PDict [(''name'', PStr ''@openprose/prose-cli-linux-x64-gnu''), (''status'',
       PStr ''not-found'')]]),
     (''successor'', PDict [(''migrationFrom'', PStr ''0.14.0''), (''functionalAlphaCore'', PStr ''0.15.0''),
       (''firstVersion'', PStr ''0.15.0-alpha.1''), (''prereleaseIdentifier'', PStr ''alpha''),
       (''minimumSequence'', PInt 1), (''distributionTag'', PStr ''alpha''), (''stableDistributionTag'',
       PStr ''latest''), (''versionReuse'', PStr ''forbidden'')]),
     (''releaseRequirements'', PDict [(''liveRegistryRevalidation'', PBool True),
       (''requireTargetVersionUnused'', PBool True), (''publishPlatformPackagesBeforeMeta'', PBool True),
       (''verifyRegistryIntegrityBeforeMeta'', PBool True), (''preserveLatestDuringAlpha'', PBool True),
       (''partialPublicationPolicy'', PStr ''deprecate-and-never-reuse'')])]"

definition compact_style :: json_style where
  "compact_style = \<lparr>ensure_ascii = False, sort_keys = False, item_sep = '','', key_sep = '':''\<rparr>"

definition demo_authority_text :: string where
  "demo_authority_text = json_dumps compact_style (PDict demo_lineage_authority)"

definition demo_authority_trace :: asset_trace where
  "demo_authority_trace = (let st = \<lparr>st_kind = Regular, st_dev = 1, st_ino = 2, st_size = length demo_authority_text, st_mtime_ns = 0\<rparr> in
     \<lparr>at_lstat = Inr st, at_open = Inr st, at_reads = [Inr demo_authority_text], at_after = st\<rparr>)"

lemma demo_authority_valid: "validate_authority demo_lineage_authority = None"
  by code_simp

lemma lineage_hooks_ok: "hooks_ok lineage_hooks"
  by (simp add: hooks_ok_def lineage_hooks_def)

lemma demo_authority_length: "demo_authority_text \<noteq> []" "length demo_authority_text \<le> 65536"
proof -
  have "length demo_authority_text \<le> json_weight (PDict demo_lineage_authority)"
    unfolding demo_authority_text_def by (rule length_json_dumps(1)) (simp_all add: compact_style_def)
  also have "\<dots> \<le> 65536" by (simp add: demo_lineage_authority_def dec_int_def dec_digits.simps)
  finally show "length demo_authority_text \<le> 65536" .
  show "demo_authority_text \<noteq> []" by (simp add: demo_authority_text_def demo_lineage_authority_def compact_style_def)
qed

lemma demo_authority_read: "json_loads_bytes lineage_hooks demo_authority_text = Inr (PDict demo_lineage_authority)"
proof -
  have plain: "json_plain (PDict demo_lineage_authority)" by code_simp
  have "printable demo_authority_text"
    unfolding demo_authority_text_def by (rule printable_dumps(1)) (use plain in \<open>simp_all add: compact_style_def\<close>)
  moreover have "ascii demo_authority_text"
    unfolding demo_authority_text_def by (rule ascii_dumps(1)) (use plain in \<open>simp_all add: compact_style_def demo_lineage_authority_def\<close>)
  ultimately have "json_text demo_authority_text = Some demo_authority_text"
    by (intro json_text_ascii) (auto simp: list_all_iff)
  moreover have "style_ok compact_style" by (simp add: style_ok_def compact_style_def)
  then have "json_loads lineage_hooks demo_authority_text = Inr (PDict demo_lineage_authority)"
    unfolding demo_authority_text_def by (rule json_loads_dumps [OF _ lineage_hooks_ok plain])
  ultimately show ?thesis by (simp add: json_loads_bytes_def)
qed

lemma demo_authority_loads: "valid_authority demo_authority_trace demo_lineage_authority"
proof -
  have "read_authority demo_authority_trace = Inr demo_authority_text"
    by (simp add: read_authority_def demo_authority_trace_def Let_def demo_authority_length MAX_AUTHORITY_BYTES_def min_def guard_def not_less)
  then show ?thesis
    by (simp add: valid_authority_def load_authority_def json_object_def demo_authority_read demo_authority_valid)
qed

lemma demo_lineage_read: "load_lineage demo_authority_trace ''0.15.0-alpha.7'' =
    Inr \<lparr>ln_latest = ''0.14.0'', ln_owners = PINNED_OWNERS\<rparr>"
proof -
  have "ALPHA_groups ''0.15.0-alpha.7'' = Some [''0'', ''15'', ''0'', ''7''] \<and> map dec_value [''0'', ''15'', ''0'', ''7''] = [0, 15, 0, 7]"
    by code_simp
  then have "successor_version ''0.15.0-alpha.7''" by (simp add: successor_version_def)
  with demo_authority_loads show ?thesis by (auto simp: load_lineage_Inr)
qed

theorem lineage_admits_successors_only_witness:
  "\<exists>digits. ''0.15.0-alpha.7'' = ''0.15.0-alpha.'' @ digits \<and> numeric_part digits \<and> 1 \<le> dec_value digits"
  using lineage_admits_successors_only [OF demo_lineage_read] by blast

end
