(* ===== verification/Rig_Process.thy ===== *)
theory Rig_Process
  imports Py_Json
begin

text \<open>
  Running one benchmark command in \<^verbatim>\<open>cli/benchmarks/runner/rig.py\<close>: the bounded captures and the threads that
  fill them, the containment and settlement evidence, the termination of a process group, and \<open>CommandDriver\<close>.
  What the operating system does is an \<open>os_world\<close>, which answers every call by the moment it is made at: the events
  of the two pipes, the moment the child exits, the replies to signals. The moments are counted in the order of the
  calls; a call that is skipped keeps its number.
\<close>

section \<open>Decoding with replacement\<close>

text \<open>
  \<open>bytes.decode("utf-8", errors="replace")\<close>: how many bytes the first character, or the longest start of one that
  does not go on, takes.
\<close>

definition second_byte_ok :: "char \<Rightarrow> char \<Rightarrow> bool" where
  "second_byte_ok a b =
     (if byte a = 224 then in_range b 160 191
      else if byte a = 237 then in_range b 128 159
      else if byte a = 240 then in_range b 144 191
      else if byte a = 244 then in_range b 128 143 else is_cont b)"

definition character_bytes :: "char \<Rightarrow> nat" where
  "character_bytes a =
     (if byte a < 128 then 1 else if in_range a 194 223 then 2 else if in_range a 224 239 then 3
      else if in_range a 240 244 then 4 else 0)"

definition decode_step :: "char \<Rightarrow> string \<Rightarrow> nat \<times> bool" where
  "decode_step a s =
     (let n = character_bytes a in
      if n = 0 then (1, False)
      else if n = 1 then (1, True)
      else (case s of [] \<Rightarrow> (1, False) | b # t \<Rightarrow>
        if \<not> second_byte_ok a b then (1, False)
        else (let k = length (takeWhile is_cont (take (n - 2) t)) in (2 + k, k = n - 2))))"

fun utf8_replace :: "string \<Rightarrow> string" where
  "utf8_replace [] = []"
| "utf8_replace (a # s) =
     (case decode_step a s of (n, ok) \<Rightarrow>
        (if ok then take n (a # s) else [CHR 0xEF, CHR 0xBF, CHR 0xBD]) @ utf8_replace (drop (n - 1) s))"

section \<open>Captures\<close>

record capture =
  cap_maximum :: nat
  cap_parts :: "string list"
  cap_stored :: nat
  cap_total :: nat
  cap_reader_error :: "string option"

definition new_capture :: "nat \<Rightarrow> capture" where
  "new_capture maximum = \<lparr>cap_maximum = maximum, cap_parts = [], cap_stored = 0, cap_total = 0, cap_reader_error = None\<rparr>"

definition capture_add :: "string \<Rightarrow> capture \<Rightarrow> capture" where
  "capture_add chunk c =
     (let c' = c\<lparr>cap_total := cap_total c + length chunk\<rparr>;
          remaining = nat (max 0 (int (cap_maximum c) - int (cap_stored c))) in
      if remaining \<noteq> 0 then
        (let kept = take remaining chunk in c'\<lparr>cap_parts := cap_parts c @ [kept], cap_stored := cap_stored c + length kept\<rparr>)
      else c')"

definition cap_truncated :: "capture \<Rightarrow> bool" where
  "cap_truncated c \<longleftrightarrow> cap_total c > cap_stored c"

definition cap_text :: "capture \<Rightarrow> string" where
  "cap_text c = utf8_replace (concat (cap_parts c))"

text \<open>
  The thread running \<open>_drain_pipe\<close>: it reads, it has left the loop and closes its pipe, or it has ended. A failure
  carries the name of the class of an \<open>OSError\<close>, which has at least one character.
\<close>

datatype pipe_event = Pipe_chunk string | Pipe_failure char string | Thread_end

datatype drain_phase = Draining | Leaving | Ended

fun drain_turn :: "pipe_event \<Rightarrow> capture \<times> drain_phase \<Rightarrow> capture \<times> drain_phase" where
  "drain_turn (Pipe_chunk chunk) (c, Draining) = (if chunk = [] then (c, Leaving) else (capture_add chunk c, Draining))"
| "drain_turn (Pipe_failure initial name) (c, Draining) = (c\<lparr>cap_reader_error := Some (initial # name)\<rparr>, Leaving)"
| "drain_turn Thread_end (c, Leaving) = (c, Ended)"
| "drain_turn _ state = state"

definition drain_pipe :: "nat \<Rightarrow> pipe_event list \<Rightarrow> capture \<times> drain_phase" where
  "drain_pipe limit evs = fold drain_turn evs (new_capture limit, Draining)"

section \<open>The world of one command\<close>

datatype kill_reply = Kill_sent | No_such_process | Not_permitted | Kill_failed string

text \<open>
  Writing the request to the child: it may break while the unbuffered part is written, or when the buffer is flushed.
  A flush that breaks keeps the unwritten bytes in the buffer, so \<open>close()\<close> flushes again and raises again.
\<close>

datatype feed_reply = Fed | Broken_writing | Broken_flushing | Feed_failed string

record os_world =
  ow_spawn_error :: "string option"
  ow_feed :: feed_reply
  ow_stdout :: "nat \<Rightarrow> pipe_event list"
  ow_stderr :: "nat \<Rightarrow> pipe_event list"
  ow_exit :: "(nat \<times> int) option"
  ow_killpg :: "nat \<Rightarrow> kill_reply"
  ow_terminate_fails :: "nat \<Rightarrow> bool"
  ow_kill_fails :: "nat \<Rightarrow> bool"
  ow_elapsed_ns :: int

definition poll :: "os_world \<Rightarrow> nat \<Rightarrow> int option" where
  "poll w t = (case ow_exit w of None \<Rightarrow> None | Some (e, code) \<Rightarrow> if e \<le> t then Some code else None)"

definition events_until :: "(nat \<Rightarrow> pipe_event list) \<Rightarrow> nat \<Rightarrow> pipe_event list" where
  "events_until evs t = concat (map evs [0..<t])"

definition reader_at :: "nat \<Rightarrow> (nat \<Rightarrow> pipe_event list) \<Rightarrow> nat \<Rightarrow> capture \<times> drain_phase" where
  "reader_at limit evs t = drain_pipe limit (events_until evs t)"

definition is_alive :: "nat \<Rightarrow> (nat \<Rightarrow> pipe_event list) \<Rightarrow> nat \<Rightarrow> bool" where
  "is_alive limit evs t \<longleftrightarrow> snd (reader_at limit evs t) \<noteq> Ended"

section \<open>Evidence\<close>

definition process_containment_capability :: "string \<Rightarrow> pydict" where
  "process_containment_capability platform_name =
     (if platform_name = ''nt'' then
        [(''platformFamily'', PStr ''windows''), (''authority'', PStr ''direct-child-only''),
         (''mechanism'', PStr ''CREATE_NEW_PROCESS_GROUP-plus-direct-child-terminate''),
         (''releaseContainmentSupported'', PBool False), (''nativeHelperRequired'', PBool True),
         (''blocker'', PStr ''native-job-object-process-host-not-integrated'')]
      else
        [(''platformFamily'', PStr ''posix''), (''authority'', PStr ''owned-process-group''),
         (''mechanism'', PStr ''start-new-session-plus-killpg''),
         (''releaseContainmentSupported'', PBool False), (''nativeHelperRequired'', PBool False),
         (''blocker'', PStr ''detached-descendant-containment-not-enforced'')])"

definition no_cleanup :: pydict where
  "no_cleanup = [(''attempted'', PBool False), (''status'', PStr ''not-required'')]"

definition settled_cleanup :: "pyval \<Rightarrow> bool" where
  "settled_cleanup v = str_in v [''not-required'', ''settled'']"

definition settlement_evidence :: "pydict \<Rightarrow> bool \<Rightarrow> bool \<Rightarrow> bool \<Rightarrow> string list \<Rightarrow> pydict \<Rightarrow> pydict" where
  "settlement_evidence containment exited stdout_settled stderr_settled reader_errors cleanup =
     (let settled = exited \<and> stdout_settled \<and> stderr_settled \<and> reader_errors = [] \<and>
            settled_cleanup (dget cleanup ''status'') in
      [(''status'', PStr (if settled then ''settled'' else ''not-settled'')),
       (''allowsSuccessfulTrial'', PBool settled),
       (''directProcessExited'', PBool exited),
       (''stdoutReaderSettled'', PBool stdout_settled),
       (''stderrReaderSettled'', PBool stderr_settled),
       (''readerErrors'', PList (map PStr reader_errors)),
       (''cleanup'', PDict cleanup),
       (''authority'', dget containment ''authority'')])"

section \<open>Ending a process group\<close>

definition posix_group_exists :: "os_world \<Rightarrow> nat \<Rightarrow> bool res" where
  "posix_group_exists w t = (case ow_killpg w t of
     Kill_sent \<Rightarrow> Inr True | No_such_process \<Rightarrow> Inr False | Not_permitted \<Rightarrow> Inr True | Kill_failed e \<Rightarrow> Inl (OSErr e))"

definition signal_record :: "kill_reply \<Rightarrow> string \<Rightarrow> string list" where
  "signal_record reply name = (case reply of
     Kill_sent \<Rightarrow> [name] | No_such_process \<Rightarrow> [] | Not_permitted \<Rightarrow> [name @ ''-error''] | Kill_failed e \<Rightarrow> [name @ ''-error''])"

definition cleanup_record :: "pydict \<Rightarrow> bool \<Rightarrow> string \<Rightarrow> string list \<Rightarrow> pydict" where
  "cleanup_record containment settled key entries =
     [(''attempted'', PBool True), (''status'', PStr (if settled then ''settled'' else ''not-settled'')),
      (''authority'', dget containment ''authority''), (key, PList (map PStr entries))]"

text \<open>The Windows branch: the child is terminated, and killed when that fails or is not enough.\<close>

definition windows_actions :: "os_world \<Rightarrow> nat \<Rightarrow> string list" where
  "windows_actions w t =
     (if poll w t \<noteq> None then []
      else (let terminated = \<not> ow_terminate_fails w (t + 1);
                actions = (if terminated then [''terminate-direct-child''] else []) in
        if terminated \<and> poll w (t + 2) \<noteq> None then actions
        else if ow_kill_fails w (t + 3) then actions
        else actions @ [''kill-direct-child'']))"

definition terminate_process_group :: "string \<Rightarrow> os_world \<Rightarrow> nat \<Rightarrow> pydict \<Rightarrow> pydict res" where
  "terminate_process_group os_name w t containment =
     (if os_name = ''nt'' then
        Inr (cleanup_record containment (poll w (t + 5) \<noteq> None) ''actions'' (windows_actions w t))
      else (let signals = signal_record (ow_killpg w t) ''SIGTERM'' in
        ebind (posix_group_exists w (t + 3)) (\<lambda>lingers.
        let signals = signals @ (if lingers then signal_record (ow_killpg w (t + 4)) ''SIGKILL'' else []) in
        ebind (if poll w (t + 7) = None then Inr False
               else ebind (posix_group_exists w (t + 8)) (\<lambda>remains. Inr (\<not> remains))) (\<lambda>settled.
        Inr (cleanup_record containment settled ''signals'' signals)))))"

section \<open>Plans, invocations, observations\<close>

record trial_plan =
  tp_ordinal :: nat
  tp_pair_id :: string
  tp_pair_index :: nat
  tp_position :: nat
  tp_phase :: string
  tp_action_id :: string
  tp_scorecard :: string
  tp_target_id :: string
  tp_surface :: string
  tp_comparison_group :: string

record invocation =
  iv_plan :: trial_plan
  iv_target :: pydict
  iv_action :: pydict
  iv_timeout_ms :: int
  iv_context :: pydict

record observation =
  ob_status :: string
  ob_wall_ms :: pyfloat
  ob_exit_code :: "int option"
  ob_stdout :: string
  ob_stderr :: string
  ob_output_truncated :: bool
  ob_cost_status :: string
  ob_cost_usd :: pyval
  ob_observed_attempts :: pyval
  ob_declared_retries :: pyval
  ob_spans :: pyval
  ob_diagnostic :: pyval
  ob_process_evidence :: pyval

text \<open>\<open>Observation(status, wall_ms, exit_code, ...)\<close> with the other fields at their defaults, and its three constructors.\<close>

definition new_observation :: "string \<Rightarrow> pyfloat \<Rightarrow> int option \<Rightarrow> string \<Rightarrow> string \<Rightarrow> observation" where
  "new_observation status wall_ms exit_code stdout stderr =
     \<lparr>ob_status = status, ob_wall_ms = wall_ms, ob_exit_code = exit_code, ob_stdout = stdout, ob_stderr = stderr,
      ob_output_truncated = False, ob_cost_status = ''unavailable'', ob_cost_usd = PNone, ob_observed_attempts = PNone,
      ob_declared_retries = PNone, ob_spans = PNone, ob_diagnostic = PNone, ob_process_evidence = PNone\<rparr>"

definition observation_success :: "pyfloat \<Rightarrow> string \<Rightarrow> string \<Rightarrow> string \<Rightarrow> pyval \<Rightarrow> pyval \<Rightarrow> pyval \<Rightarrow> pyval \<Rightarrow> observation" where
  "observation_success wall_ms stdout stderr cost_status cost_usd attempts retries spans =
     (new_observation ''success'' wall_ms (Some 0) stdout stderr)\<lparr>ob_cost_status := cost_status, ob_cost_usd := cost_usd,
        ob_observed_attempts := attempts, ob_declared_retries := retries, ob_spans := spans\<rparr>"

definition observation_failure :: "pyfloat \<Rightarrow> int option \<Rightarrow> string \<Rightarrow> string \<Rightarrow> observation" where
  "observation_failure wall_ms exit_code stdout stderr = new_observation ''failure'' wall_ms exit_code stdout stderr"

definition observation_timeout :: "pyfloat \<Rightarrow> string \<Rightarrow> string \<Rightarrow> observation" where
  "observation_timeout wall_ms stdout stderr = new_observation ''timeout'' wall_ms None stdout stderr"

section \<open>The command driver\<close>

text \<open>\<open>json.dumps(value, sort_keys=True, separators=(",", ":"), ensure_ascii=False) + "\n"\<close> as UTF-8.\<close>

definition rig_style :: json_style where
  "rig_style = \<lparr>ensure_ascii = False, sort_keys = True, item_sep = '','', key_sep = '':''\<rparr>"

definition rig_canonical_json_bytes :: "pyval \<Rightarrow> string res" where
  "rig_canonical_json_bytes v = utf8_encode (json_dumps rig_style v @ [CHR 0x0A])"

definition feed_request :: "os_world \<Rightarrow> pyval \<Rightarrow> unit res" where
  "feed_request w stdin_json =
     (if stdin_json = PNone then Inr ()
      else ebind (rig_canonical_json_bytes stdin_json) (\<lambda>_. case ow_feed w of
        Fed \<Rightarrow> Inr ()
      | Broken_writing \<Rightarrow> Inr ()
      | Broken_flushing \<Rightarrow> Inl (OSErr ''BrokenPipeError'')
      | Feed_failed e \<Rightarrow> Inl (OSErr e)))"

definition elapsed_ms :: "os_world \<Rightarrow> pyfloat" where
  "elapsed_ms w = round64 (of_int (ow_elapsed_ns w) / 1000000)"

definition process_evidence_of :: "pydict \<Rightarrow> pydict \<Rightarrow> pyval" where
  "process_evidence_of containment settlement =
     PDict [(''containment'', PDict containment), (''settlement'', PDict settlement)]"

definition spawn_failed :: "pydict \<Rightarrow> os_world \<Rightarrow> string \<Rightarrow> observation" where
  "spawn_failed containment w e =
     (new_observation ''failure'' (elapsed_ms w) None [] [])\<lparr>
        ob_diagnostic := PDict [(''kind'', PStr ''spawn-failed''), (''error'', PStr e)],
        ob_process_evidence := process_evidence_of containment
          [(''status'', PStr ''not-started''), (''allowsSuccessfulTrial'', PBool False),
           (''directProcessExited'', PNone), (''stdoutReaderSettled'', PNone), (''stderrReaderSettled'', PNone),
           (''readerErrors'', PList []), (''cleanup'', PDict no_cleanup),
           (''authority'', dget containment ''authority'')]\<rparr>"

definition reader_errors_of :: "capture \<Rightarrow> capture \<Rightarrow> string list" where
  "reader_errors_of c d = concat (map (\<lambda>e. case e of None \<Rightarrow> [] | Some name \<Rightarrow> [name]) [cap_reader_error c, cap_reader_error d])"

text \<open>
  The moments: the wait for the child (1), the clean-up after it ran out (2), the first look at the readers (12),
  the clean-up for a reader that did not end (13), the four looks for the evidence (23 to 26), the captured text (27).
\<close>

definition driver_cleanup :: "nat \<Rightarrow> string \<Rightarrow> os_world \<Rightarrow> pydict \<Rightarrow> pydict res" where
  "driver_cleanup limit os_name w containment =
     (if poll w 1 = None then terminate_process_group os_name w 2 containment
      else if is_alive limit (ow_stdout w) 12 \<or> is_alive limit (ow_stderr w) 12 then
        terminate_process_group os_name w 13 containment
      else Inr no_cleanup)"

definition driver_settlement :: "nat \<Rightarrow> os_world \<Rightarrow> pydict \<Rightarrow> pydict \<Rightarrow> pydict" where
  "driver_settlement limit w containment cleanup =
     settlement_evidence containment (poll w 23 \<noteq> None) (\<not> is_alive limit (ow_stdout w) 24)
       (\<not> is_alive limit (ow_stderr w) 25)
       (reader_errors_of (fst (reader_at limit (ow_stdout w) 26)) (fst (reader_at limit (ow_stderr w) 26))) cleanup"

definition driver_observation :: "nat \<Rightarrow> os_world \<Rightarrow> pydict \<Rightarrow> pydict \<Rightarrow> observation" where
  "driver_observation limit w containment settlement =
     (let out = fst (reader_at limit (ow_stdout w) 27); err = fst (reader_at limit (ow_stderr w) 27);
          base = (\<lambda>status code. (new_observation status (elapsed_ms w) code (cap_text out) (cap_text err))\<lparr>
            ob_output_truncated := cap_truncated out \<or> cap_truncated err,
            ob_process_evidence := process_evidence_of containment settlement\<rparr>);
          allowed = py_truth (dget settlement ''allowsSuccessfulTrial'') in
      case poll w 1 of
        None \<Rightarrow> base ''timeout'' None
      | Some code \<Rightarrow>
          (base (if code = 0 \<and> allowed then ''success'' else ''failure'') (Some code))\<lparr>
             ob_diagnostic := (if code = 0 \<and> \<not> allowed then PDict [(''kind'', PStr ''process-settlement-failed'')] else PNone)\<rparr>)"

definition run_child :: "nat \<Rightarrow> string \<Rightarrow> os_world \<Rightarrow> pyval \<Rightarrow> observation res" where
  "run_child limit os_name w stdin_json =
     (let containment = process_containment_capability os_name in
      case ow_spawn_error w of
        Some e \<Rightarrow> Inr (spawn_failed containment w e)
      | None \<Rightarrow>
          ebind (feed_request w stdin_json) (\<lambda>_.
          ebind (driver_cleanup limit os_name w containment) (\<lambda>cleanup.
          Inr (driver_observation limit w containment (driver_settlement limit w containment cleanup)))))"

text \<open>The operating system is a function of what is started: the arguments, the directory and the environment.\<close>

type_synonym spawner = "string list \<Rightarrow> string \<Rightarrow> (string \<times> string) list \<Rightarrow> os_world"

definition command_driver :: "nat \<Rightarrow> nat res" where
  "command_driver output_limit_bytes =
     checked (guard (1 \<le> output_limit_bytes) (ValueErr ''output_limit_bytes must be positive'')) (Inr output_limit_bytes)"

definition invoke_argv ::
  "nat \<Rightarrow> string \<Rightarrow> spawner \<Rightarrow> string list \<Rightarrow> pyval \<Rightarrow> int \<Rightarrow> string \<Rightarrow> (string \<times> string) list \<Rightarrow> observation res" where
  "invoke_argv limit os_name spawn argv stdin_json timeout_ms cwd environment =
     checked (first_failure [
       guard (argv \<noteq> [] \<and> list_all (\<lambda>value. value \<noteq> []) argv) (ValueErr ''command argv must contain nonempty strings''),
       guard (1 \<le> timeout_ms) (ValueErr ''timeout_ms must be positive'')])
     (run_child limit os_name (spawn argv cwd environment) stdin_json)"

text \<open>\<open>str(v)\<close>; the text of a value that is no string is the argument \<open>render\<close>.\<close>

definition text_of :: "(pyval \<Rightarrow> string) \<Rightarrow> pyval \<Rightarrow> string" where
  "text_of render v = (case v of PStr s \<Rightarrow> s | _ \<Rightarrow> render v)"

definition environment_entries :: "(pyval \<Rightarrow> string) \<Rightarrow> pydict \<Rightarrow> (string \<times> string) list res" where
  "environment_entries render d = (case map_of d ''environment'' of
     None \<Rightarrow> Inr []
   | Some v \<Rightarrow> (case v of PDict e \<Rightarrow> Inr (map (\<lambda>(k, x). (k, text_of render x)) e) | _ \<Rightarrow> Inl AttributeErr))"

definition update_environment :: "(string \<times> string) list \<Rightarrow> (string \<times> string) list \<Rightarrow> (string \<times> string) list" where
  "update_environment environment entries = fold (\<lambda>(k, v). dict_set k v) entries environment"

definition argv_tail :: "(pyval \<Rightarrow> string) \<Rightarrow> pydict \<Rightarrow> string list res" where
  "argv_tail render action = (case map_of action ''argv'' of
     None \<Rightarrow> Inr [] | Some v \<Rightarrow> (case v of PList xs \<Rightarrow> Inr (map (text_of render) xs) | _ \<Rightarrow> Inl TypeErr))"

definition get_default :: "pydict \<Rightarrow> string \<Rightarrow> pyval \<Rightarrow> pyval" where
  "get_default d k v = (case map_of d k of None \<Rightarrow> v | Some w \<Rightarrow> w)"

text \<open>\<open>CommandDriver.invoke\<close>; \<open>getcwd\<close> is the directory of the runner.\<close>

definition command_invoke ::
  "(pyval \<Rightarrow> string) \<Rightarrow> nat \<Rightarrow> string \<Rightarrow> string \<Rightarrow> spawner \<Rightarrow> invocation \<Rightarrow> observation res" where
  "command_invoke render limit os_name getcwd spawn iv =
     (let executable = dget (iv_target iv) ''_executionArtifact'' in
      checked (guard (is_str executable \<and> str_of executable \<noteq> [])
        (ValueErr ''command benchmark target requires an admitted execution snapshot''))
      (ebind (argv_tail render (iv_action iv)) (\<lambda>tail.
       ebind (environment_entries render (iv_context iv)) (\<lambda>of_context.
       ebind (environment_entries render (iv_target iv)) (\<lambda>of_target.
       ebind (environment_entries render (iv_action iv)) (\<lambda>of_action.
       invoke_argv limit os_name spawn (str_of executable # tail) (dget (iv_action iv) ''stdinJson'') (iv_timeout_ms iv)
         (text_of render (get_default (iv_context iv) ''cwd'' (get_default (iv_target iv) ''cwd'' (PStr getcwd))))
         (update_environment (update_environment of_context of_target) of_action)))))))"

end
