(* ===== verification/Rig_Validation.thy ===== *)
theory Rig_Validation
  imports Rig_Process Py_Float
begin

text \<open>
  The checks on what a driver returns, \<open>_process_evidence_validation\<close> and \<open>_validate_observation_metadata\<close> of
  \<^verbatim>\<open>cli/benchmarks/runner/rig.py\<close>, and that the evidence of the command driver passes them.
\<close>

section \<open>Process evidence\<close>

text \<open>
  A step of the validation goes on, fails with a reason, or raises: looking up a list or a dictionary in a set is a
  \<open>TypeError\<close>.
\<close>

type_synonym ev_step = "string option res"

definition demand :: "bool \<Rightarrow> string \<Rightarrow> ev_step" where
  "demand ok reason = Inr (if ok then None else Some reason)"

definition demand_member :: "pyval \<Rightarrow> string list \<Rightarrow> string \<Rightarrow> ev_step" where
  "demand_member v ss reason = (if hashable v then demand (str_in v ss) reason else Inl TypeErr)"

fun first_reason :: "ev_step list \<Rightarrow> ev_step" where
  "first_reason [] = Inr None"
| "first_reason (x # xs) = ebind x (\<lambda>r. case r of None \<Rightarrow> first_reason xs | Some reason \<Rightarrow> Inr (Some reason))"

definition nonempty_str :: "pyval \<Rightarrow> bool" where
  "nonempty_str v \<longleftrightarrow> is_str v \<and> str_of v \<noteq> []"

definition containment_fields :: "string list" where
  "containment_fields = [''platformFamily'', ''authority'', ''mechanism'', ''releaseContainmentSupported'',
     ''nativeHelperRequired'', ''blocker'']"

definition settlement_fields :: "string list" where
  "settlement_fields = [''status'', ''allowsSuccessfulTrial'', ''directProcessExited'', ''stdoutReaderSettled'',
     ''stderrReaderSettled'', ''readerErrors'', ''cleanup'', ''authority'']"

definition has_fields :: "pydict \<Rightarrow> string list \<Rightarrow> bool" where
  "has_fields d ks \<longleftrightarrow> list_all (has_key d) ks"

definition expected_containment :: "pydict \<Rightarrow> pydict" where
  "expected_containment containment =
     process_containment_capability (if dget containment ''platformFamily'' = PStr ''windows'' then ''nt'' else ''posix'')"

definition containment_steps :: "pyval \<Rightarrow> ev_step list" where
  "containment_steps v = (let containment = dict_of v in
     [demand (is_dict v) ''containment-invalid-value'',
      demand (has_fields containment containment_fields) ''containment-missing-field'',
      demand (keys_within containment containment_fields) ''containment-unknown-field'',
      demand_member (dget containment ''platformFamily'') [''posix'', ''windows''] ''containment-invalid-value'',
      demand (nonempty_str (dget containment ''authority'') \<and> nonempty_str (dget containment ''mechanism'') \<and>
              is_bool (dget containment ''releaseContainmentSupported'') \<and>
              is_bool (dget containment ''nativeHelperRequired'') \<and>
              (dget containment ''blocker'' = PNone \<or> nonempty_str (dget containment ''blocker''))) ''containment-invalid-value'',
      demand (py_eq (PDict containment) (PDict (expected_containment containment))) ''containment-inconsistent''])"

definition cleanup_steps :: "pydict \<Rightarrow> pyval \<Rightarrow> ev_step list" where
  "cleanup_steps containment v =
     (let cleanup = dict_of v; attempted = dget cleanup ''attempted''; status = dget cleanup ''status'' in
     [demand (is_dict v) ''cleanup-invalid-value'',
      demand (has_fields cleanup [''attempted'', ''status'']) ''cleanup-missing-field'',
      demand (keys_within cleanup [''attempted'', ''status'', ''authority'', ''signals'', ''actions'']) ''cleanup-unknown-field'',
      demand (is_bool attempted) ''cleanup-invalid-value'',
      demand_member status [''not-required'', ''settled'', ''not-settled''] ''cleanup-invalid-value'',
      demand (\<not> (status = PStr ''not-required'' \<and> py_truth attempted)) ''cleanup-inconsistent'',
      demand (\<not> (str_in status [''settled'', ''not-settled''] \<and> \<not> py_truth attempted)) ''cleanup-inconsistent'',
      demand (\<not> (py_truth attempted \<and> \<not> py_eq (dget cleanup ''authority'') (dget containment ''authority'')))
        ''cleanup-inconsistent''] @
     map (\<lambda>key. demand (has_key cleanup key \<longrightarrow>
            is_list (dget cleanup key) \<and> list_all is_str (list_of (dget cleanup key))) ''cleanup-invalid-value'')
       [''signals'', ''actions''])"

definition computed_success :: "pydict \<Rightarrow> bool" where
  "computed_success settlement \<longleftrightarrow>
     py_truth (dget settlement ''directProcessExited'') \<and> py_truth (dget settlement ''stdoutReaderSettled'') \<and>
     py_truth (dget settlement ''stderrReaderSettled'') \<and> \<not> py_truth (dget settlement ''readerErrors'') \<and>
     settled_cleanup (dget (dict_of (dget settlement ''cleanup'')) ''status'')"

definition outcome_steps :: "pydict \<Rightarrow> ev_step list" where
  "outcome_steps settlement =
     (let values = map (dget settlement) [''directProcessExited'', ''stdoutReaderSettled'', ''stderrReaderSettled''] in
      if dget settlement ''status'' = PStr ''not-started'' then
        [demand (list_all (\<lambda>v. v = PNone) values) ''settlement-inconsistent'',
         demand (\<not> py_truth (dget settlement ''allowsSuccessfulTrial'') \<and> \<not> py_truth (dget settlement ''readerErrors'') \<and>
                 dget (dict_of (dget settlement ''cleanup'')) ''status'' = PStr ''not-required'') ''settlement-inconsistent'']
      else
        [demand (list_all is_bool values) ''settlement-invalid-value'',
         demand (dget settlement ''status'' = PStr (if computed_success settlement then ''settled'' else ''not-settled'') \<and>
                 dget settlement ''allowsSuccessfulTrial'' = PBool (computed_success settlement)) ''settlement-inconsistent''])"

definition settlement_steps :: "pydict \<Rightarrow> pyval \<Rightarrow> ev_step list" where
  "settlement_steps containment v = (let settlement = dict_of v in
     [demand (is_dict v) ''settlement-invalid-value'',
      demand (has_fields settlement settlement_fields) ''settlement-missing-field'',
      demand (keys_within settlement settlement_fields) ''settlement-unknown-field'',
      demand_member (dget settlement ''status'') [''settled'', ''not-settled'', ''not-started''] ''settlement-invalid-value'',
      demand (is_bool (dget settlement ''allowsSuccessfulTrial'')) ''settlement-invalid-value'',
      demand (py_eq (dget settlement ''authority'') (dget containment ''authority'')) ''settlement-inconsistent'',
      demand (is_list (dget settlement ''readerErrors'') \<and> list_all nonempty_str (list_of (dget settlement ''readerErrors'')))
        ''settlement-invalid-value''] @
     cleanup_steps containment (dget settlement ''cleanup'') @ outcome_steps settlement)"

definition evidence_steps :: "string \<Rightarrow> pyval \<Rightarrow> ev_step list" where
  "evidence_steps observation_status evidence =
     (let fields = dict_of evidence; containment = dget fields ''containment''; settlement = dget fields ''settlement'' in
     [demand (is_dict evidence) ''process-evidence-missing'',
      demand (keys_within fields [''containment'', ''settlement'']) ''process-evidence-unknown-field'',
      demand (has_key fields ''containment'') ''containment-missing'',
      demand (has_key fields ''settlement'') ''settlement-missing''] @
     containment_steps containment @
     settlement_steps (dict_of containment) settlement @
     [demand (\<not> (observation_status = ''success'' \<and> dget (dict_of settlement) ''allowsSuccessfulTrial'' \<noteq> PBool True))
        ''successful-process-not-settled''])"

definition verdict :: "string \<Rightarrow> string \<Rightarrow> pydict" where
  "verdict status reason = [(''status'', PStr status), (''reason'', PStr reason)]"

definition process_evidence_validation :: "string \<Rightarrow> string \<Rightarrow> pyval \<Rightarrow> pydict res" where
  "process_evidence_validation execution_boundary observation_status evidence =
     (if execution_boundary = ''synthetic-in-process'' then
        Inr (if evidence \<noteq> PNone then verdict ''failed'' ''synthetic-process-evidence-forbidden''
             else verdict ''not-applicable'' ''synthetic-in-process-no-subprocess'')
      else ebind (first_reason (evidence_steps observation_status evidence)) (\<lambda>r. Inr (case r of
        None \<Rightarrow> verdict ''passed'' ''complete-consistent-process-evidence''
      | Some reason \<Rightarrow> verdict ''failed'' reason)))"

section \<open>Observation metadata\<close>

definition invalid_metadata :: "string \<Rightarrow> exn" where
  "invalid_metadata reason = ValueErr (''observation metadata is invalid: '' @ reason)"

text \<open>A finite nonnegative number; converting an integer beyond the floats is an \<open>OverflowError\<close>.\<close>

definition finite_nonnegative :: "pyval \<Rightarrow> exn \<Rightarrow> check" where
  "finite_nonnegative v e = (case v of
     PInt n \<Rightarrow> (case float_of_int n of Inl overflow \<Rightarrow> Some overflow | Inr f \<Rightarrow> guard (\<not> float_lt f (FFin 0)) e)
   | PFloat f \<Rightarrow> guard (finite_float f \<and> \<not> float_lt f (FFin 0)) e
   | _ \<Rightarrow> Some e)"

definition at_least_or_none :: "int \<Rightarrow> pyval \<Rightarrow> bool" where
  "at_least_or_none least v = (case v of PNone \<Rightarrow> True | PInt n \<Rightarrow> least \<le> n | _ \<Rightarrow> False)"

definition spans_check :: "pyval \<Rightarrow> check" where
  "spans_check spans =
     (if spans = PNone then None
      else first_failure [
        guard (is_dict spans \<and> keys_are (dict_of spans) [''complete'', ''clock'', ''providerMs'', ''toolMs''])
          (invalid_metadata ''spans must use the closed timing contract''),
        guard (is_bool (dget (dict_of spans) ''complete'')) (invalid_metadata ''span completeness must be boolean''),
        guard (nonempty_str (dget (dict_of spans) ''clock'')) (invalid_metadata ''span clock must be a nonempty string''),
        finite_nonnegative (dget (dict_of spans) ''providerMs'') (invalid_metadata ''providerMs must be a finite nonnegative number''),
        finite_nonnegative (dget (dict_of spans) ''toolMs'') (invalid_metadata ''toolMs must be a finite nonnegative number'')])"

definition validate_observation_metadata :: "observation \<Rightarrow> check" where
  "validate_observation_metadata ob = first_failure [
     guard (ob_cost_status ob \<in> {''authoritative'', ''unavailable''}) (invalid_metadata ''cost status''),
     (if ob_cost_status ob = ''unavailable'' then
        guard (ob_cost_usd ob = PNone) (invalid_metadata ''unavailable cost must not include USD'')
      else finite_nonnegative (ob_cost_usd ob) (invalid_metadata ''authoritative cost must be a finite nonnegative number'')),
     guard (at_least_or_none 1 (ob_observed_attempts ob)) (invalid_metadata ''observed attempts must be a positive integer''),
     guard (at_least_or_none 0 (ob_declared_retries ob)) (invalid_metadata ''declared retries must be a nonnegative integer''),
     spans_check (ob_spans ob)]"

section \<open>When evidence passes\<close>

lemma demand_None [simp]: "demand ok reason = Inr None \<longleftrightarrow> ok"
  by (simp add: demand_def)

lemma demand_member_None [simp]: "demand_member v ss reason = Inr None \<longleftrightarrow> str_in v ss"
  by (cases v) (auto simp: demand_member_def hashable_def)

lemma first_reason_None: "first_reason xs = Inr None \<longleftrightarrow> list_all (\<lambda>x. x = Inr None) xs"
proof (induction xs)
  case (Cons x xs)
  then show ?case by (cases x) (auto split: option.splits)
qed simp

lemma passed_iff:
  "process_evidence_validation ''subprocess'' status evidence = Inr (verdict ''passed'' reason) \<longleftrightarrow>
     list_all (\<lambda>x. x = Inr None) (evidence_steps status evidence) \<and> reason = ''complete-consistent-process-evidence''"
  by (auto simp: process_evidence_validation_def verdict_def ebind_eq_Inr simp flip: first_reason_None split: option.splits)

lemma py_eq_items_all: "py_eq_items c d \<longleftrightarrow> list_all (\<lambda>(k, v). case map_of d k of None \<Rightarrow> False | Some w \<Rightarrow> py_eq v w) c"
  by (induction c) auto

lemma py_eq_dget:
  assumes "py_eq (PDict c) (PDict d)" "has_key c k"
  shows "py_eq (dget c k) (dget d k)"
proof -
  from assms(2) obtain v where v: "map_of c k = Some v" by (auto simp: has_key_def)
  then have "(k, v) \<in> set c" by (rule map_of_SomeD)
  with assms(1) have "case map_of d k of None \<Rightarrow> False | Some w \<Rightarrow> py_eq v w"
    by (auto simp: py_eq_items_all list_all_iff)
  with v show ?thesis by (simp add: dget_def split: option.splits)
qed

lemma py_eq_bool: "is_bool v \<Longrightarrow> py_eq v (PBool b) \<Longrightarrow> v = PBool b"
  by (cases v) (auto simp: num_eq_def split: if_splits)

definition text_or_flag :: "string \<Rightarrow> pyval \<Rightarrow> bool" where
  "text_or_flag k v = (case v of PStr s \<Rightarrow> True
     | PBool b \<Rightarrow> k = ''releaseContainmentSupported'' \<or> k = ''nativeHelperRequired'' | _ \<Rightarrow> False)"

lemma capability_values:
  assumes "name = ''nt'' \<or> name = ''posix''" "k \<in> set containment_fields"
  shows "text_or_flag k (dget (process_containment_capability name) k)"
proof -
  have "list_all (\<lambda>k. text_or_flag k (dget (process_containment_capability ''nt'') k)) containment_fields"
    "list_all (\<lambda>k. text_or_flag k (dget (process_containment_capability ''posix'') k)) containment_fields"
    by code_simp+
  with assms show ?thesis by (metis list_all_iff)
qed

text \<open>Containment that passes is that of one of the two platforms, field by field.\<close>

lemma containment_passed:
  assumes "list_all (\<lambda>x. x = Inr None) (containment_steps v)"
  shows "is_dict v" "\<exists>name \<in> {''nt'', ''posix''}. \<forall>k \<in> set containment_fields.
    dget (dict_of v) k = dget (process_containment_capability name) k"
proof -
  from assms show "is_dict v" by (simp add: containment_steps_def Let_def)
  let ?name = "if dget (dict_of v) ''platformFamily'' = PStr ''windows'' then ''nt'' else ''posix''"
  from assms have known: "has_fields (dict_of v) containment_fields" "is_bool (dget (dict_of v) ''releaseContainmentSupported'')"
    "is_bool (dget (dict_of v) ''nativeHelperRequired'')" "py_eq (PDict (dict_of v)) (PDict (process_containment_capability ?name))"
    by (simp_all only: containment_steps_def Let_def expected_containment_def list.pred_inject demand_None)
  have eq: "py_eq (dget (dict_of v) k) (dget (process_containment_capability ?name) k)" if "k \<in> set containment_fields" for k
    by (rule py_eq_dget [OF known(4)]) (use known(1) that in \<open>simp add: has_fields_def list_all_iff\<close>)
  have "dget (dict_of v) k = dget (process_containment_capability ?name) k" if "k \<in> set containment_fields" for k
  proof -
    have "text_or_flag k (dget (process_containment_capability ?name) k)"
      by (rule capability_values) (use that in simp_all)
    with eq [OF that] known(2, 3) show ?thesis
      by (cases "dget (process_containment_capability ?name) k") (auto simp: py_eq_bool text_or_flag_def)
  qed
  then show "\<exists>name \<in> {''nt'', ''posix''}. \<forall>k \<in> set containment_fields.
      dget (dict_of v) k = dget (process_containment_capability name) k" by (intro bexI [of _ ?name]) auto
qed

text \<open>Evidence of a successful command that passes is that of a child that has ended with both its readers.\<close>

lemma outcome_passed:
  assumes "list_all (\<lambda>x. x = Inr None) (outcome_steps s)" "dget s ''allowsSuccessfulTrial'' = PBool True"
    "is_list (dget s ''readerErrors'')"
  shows "dget s ''status'' = PStr ''settled''" "dget s ''directProcessExited'' = PBool True"
    "dget s ''stdoutReaderSettled'' = PBool True" "dget s ''stderrReaderSettled'' = PBool True"
    "dget s ''readerErrors'' = PList []" "settled_cleanup (dget (dict_of (dget s ''cleanup'')) ''status'')"
proof -
  from assms(1, 2) have "dget s ''status'' \<noteq> PStr ''not-started''" by (auto simp: outcome_steps_def)
  with assms(1) have o: "is_bool (dget s ''directProcessExited'')" "is_bool (dget s ''stdoutReaderSettled'')"
    "is_bool (dget s ''stderrReaderSettled'')" "dget s ''status'' = PStr (if computed_success s then ''settled'' else ''not-settled'')"
    "dget s ''allowsSuccessfulTrial'' = PBool (computed_success s)"
    by (simp_all only: outcome_steps_def Let_def if_False list.map list.pred_inject demand_None)
  from o(5) assms(2) have c: "computed_success s" by simp
  have bool: "v = PBool True" if "is_bool v" "py_truth v" for v using that by (cases v) auto
  have empty: "v = PList []" if "is_list v" "\<not> py_truth v" for v using that by (cases v) auto
  note flags = c [unfolded computed_success_def]
  show "dget s ''status'' = PStr ''settled''" using o(4) c by simp
  show "dget s ''directProcessExited'' = PBool True" using bool [OF o(1)] flags by blast
  show "dget s ''stdoutReaderSettled'' = PBool True" using bool [OF o(2)] flags by blast
  show "dget s ''stderrReaderSettled'' = PBool True" using bool [OF o(3)] flags by blast
  show "dget s ''readerErrors'' = PList []" using empty [OF assms(3)] flags by blast
  show "settled_cleanup (dget (dict_of (dget s ''cleanup'')) ''status'')" using flags by blast
qed

lemma passed_success:
  assumes "process_evidence_validation ''subprocess'' ''success'' evidence = Inr (verdict ''passed'' reason)"
  shows "\<exists>fields containment settlement. evidence = PDict fields \<and> dget fields ''containment'' = PDict containment \<and>
    dget fields ''settlement'' = PDict settlement \<and>
    (\<exists>name \<in> {''nt'', ''posix''}. \<forall>k \<in> set containment_fields. dget containment k = dget (process_containment_capability name) k) \<and>
    dget settlement ''status'' = PStr ''settled'' \<and> dget settlement ''directProcessExited'' = PBool True \<and>
    dget settlement ''stdoutReaderSettled'' = PBool True \<and> dget settlement ''stderrReaderSettled'' = PBool True \<and>
    dget settlement ''readerErrors'' = PList [] \<and> settled_cleanup (dget (dict_of (dget settlement ''cleanup'')) ''status'')"
proof -
  let ?c = "dget (dict_of evidence) ''containment''" and ?s = "dget (dict_of evidence) ''settlement''"
  from assms have steps: "is_dict evidence" "list_all (\<lambda>x. x = Inr None) (containment_steps ?c)"
    "list_all (\<lambda>x. x = Inr None) (settlement_steps (dict_of ?c) ?s)" "dget (dict_of ?s) ''allowsSuccessfulTrial'' = PBool True"
    by (simp_all add: passed_iff evidence_steps_def Let_def)
  from steps(3) have s: "is_dict ?s" "is_list (dget (dict_of ?s) ''readerErrors'')"
    "list_all (\<lambda>x. x = Inr None) (outcome_steps (dict_of ?s))"
    by (simp_all add: settlement_steps_def Let_def)
  have dicts: "evidence = PDict (dict_of evidence)" "?c = PDict (dict_of ?c)" "?s = PDict (dict_of ?s)"
    using steps(1) containment_passed(1) [OF steps(2)] s(1) by (metis dict_of.simps(1) is_dict.elims(2))+
  with containment_passed(2) [OF steps(2)] outcome_passed [OF s(3) steps(4) s(2)] show ?thesis by blast
qed

end
