(* ===== verification/Rig_Schedule.thy ===== *)
theory Rig_Schedule
  imports Rig_Process "HOL-Library.Multiset"
begin

text \<open>
  The schedule of a benchmark, \<open>build_schedule\<close> of \<^verbatim>\<open>cli/benchmarks/runner/rig.py\<close>: for every action,
  phase and repetition one block per surface and comparison group, whose targets run in a random order. The random
  generator is an argument, a state with the operation \<open>randbelow\<close>; the shuffle is that of Python's \<open>random\<close>.
\<close>

section \<open>Shuffling\<close>

type_synonym 'r randbelow = "nat \<Rightarrow> 'r \<Rightarrow> nat \<times> 'r"

definition swap_at :: "nat \<Rightarrow> nat \<Rightarrow> 'a list \<Rightarrow> 'a list" where
  "swap_at i j xs = xs[i := xs ! j, j := xs ! i]"

fun shuffle_down :: "'r randbelow \<Rightarrow> nat \<Rightarrow> 'a list \<Rightarrow> 'r \<Rightarrow> 'a list \<times> 'r" where
  "shuffle_down randbelow 0 xs r = (xs, r)"
| "shuffle_down randbelow (Suc i) xs r =
     (case randbelow (i + 2) r of (j, r') \<Rightarrow> shuffle_down randbelow i (swap_at (Suc i) j xs) r')"

definition shuffle :: "'r randbelow \<Rightarrow> 'a list \<Rightarrow> 'r \<Rightarrow> 'a list \<times> 'r" where
  "shuffle randbelow xs r = shuffle_down randbelow (length xs - 1) xs r"

section \<open>Targets and groups\<close>

text \<open>\<open>d[k]\<close>, and \<open>int(v)\<close> of a number.\<close>

definition item :: "pydict \<Rightarrow> string \<Rightarrow> pyval res" where
  "item d k = (case map_of d k of None \<Rightarrow> Inl KeyErr | Some v \<Rightarrow> Inr v)"

fun int_of_number :: "pyval \<Rightarrow> int res" where
  "int_of_number (PInt n) = Inr n"
| "int_of_number (PBool b) = Inr (if b then 1 else 0)"
| "int_of_number (PFloat (FFin r)) = Inr (if r < 0 then - \<lfloor>- r\<rfloor> else \<lfloor>r\<rfloor>)"
| "int_of_number (PFloat FNegZero) = Inr 0"
| "int_of_number (PFloat FNaN) = Inl (ValueErr ''cannot convert float NaN to integer'')"
| "int_of_number (PFloat _) = Inl (OtherExn ''OverflowError'')"
| "int_of_number _ = Inl TypeErr"

definition dict_items_of :: "pyval \<Rightarrow> pydict list res" where
  "dict_items_of v = (if is_list v then traverse_res (\<lambda>x. if is_dict x then Inr (dict_of x) else Inl TypeErr) (list_of v)
     else Inl TypeErr)"

text \<open>\<open>sorted(targets, key=lambda target: target["id"])\<close>: the ids are strings.\<close>

definition target_key :: "pydict \<Rightarrow> (string \<times> pydict) res" where
  "target_key target = ebind (item target ''id'') (\<lambda>v. case v of PStr s \<Rightarrow> Inr (s, target) | _ \<Rightarrow> Inl TypeErr)"

definition sorted_targets :: "pydict list \<Rightarrow> (string \<times> pydict) list res" where
  "sorted_targets targets = ebind (traverse_res target_key targets) (\<lambda>keyed. Inr (sort_items keyed))"

record bench_target =
  bt_id :: string
  bt_surface :: string
  bt_group :: string

definition bench_target_of :: "(pyval \<Rightarrow> string) \<Rightarrow> string \<times> pydict \<Rightarrow> bench_target res" where
  "bench_target_of render kt =
     ebind (item (snd kt) ''surface'') (\<lambda>surface.
     ebind (item (snd kt) ''comparisonGroup'') (\<lambda>group.
     Inr \<lparr>bt_id = fst kt, bt_surface = text_of render surface, bt_group = text_of render group\<rparr>))"

type_synonym group_key = "string \<times> string"
type_synonym groups = "(group_key \<times> bench_target list) list"

definition bt_key :: "bench_target \<Rightarrow> group_key" where
  "bt_key t = (bt_surface t, bt_group t)"

text \<open>\<open>grouped.setdefault(key, []).append(target)\<close>\<close>

fun group_append :: "group_key \<Rightarrow> bench_target \<Rightarrow> groups \<Rightarrow> groups" where
  "group_append k t [] = [(k, [t])]"
| "group_append k t ((k', ts) # gs) = (if k' = k then (k', ts @ [t]) # gs else (k', ts) # group_append k t gs)"

definition group_targets :: "bench_target list \<Rightarrow> groups" where
  "group_targets ts = fold (\<lambda>t. group_append (bt_key t) t) ts []"

definition key_le :: "group_key \<Rightarrow> group_key \<Rightarrow> bool" where
  "key_le a b \<longleftrightarrow> (if fst a = fst b then str_le (snd a) (snd b) else str_le (fst a) (fst b))"

fun insert_group :: "group_key \<times> 'a \<Rightarrow> (group_key \<times> 'a) list \<Rightarrow> (group_key \<times> 'a) list" where
  "insert_group g [] = [g]"
| "insert_group g (h # hs) = (if key_le (fst g) (fst h) then g # h # hs else h # insert_group g hs)"

definition sorted_groups :: "(group_key \<times> 'a) list \<Rightarrow> (group_key \<times> 'a) list" where
  "sorted_groups gs = foldr insert_group gs []"

section \<open>The schedule\<close>

record schedule_block =
  sb_action :: pydict
  sb_phase :: string
  sb_pair_index :: nat
  sb_group :: "group_key \<times> bench_target list"

text \<open>The blocks in the order of the four nested loops.\<close>

definition schedule_blocks :: "pydict list \<Rightarrow> (string \<times> nat) list \<Rightarrow> groups \<Rightarrow> schedule_block list" where
  "schedule_blocks actions phases groups =
     concat (map (\<lambda>action. concat (map (\<lambda>(phase, count). concat (map (\<lambda>i.
       map (\<lambda>g. \<lparr>sb_action = action, sb_phase = phase, sb_pair_index = i, sb_group = g\<rparr>) groups) [0..<count])) phases)) actions)"

definition pair_id_of :: "schedule_block \<Rightarrow> string \<Rightarrow> string" where
  "pair_id_of b action_id = fst (fst (sb_group b)) @ ''/'' @ snd (fst (sb_group b)) @ ''/'' @ action_id @ ''/'' @
     sb_phase b @ ''/'' @ dec_digits (sb_pair_index b)"

definition plan_of :: "schedule_block \<Rightarrow> string \<Rightarrow> string \<Rightarrow> nat \<Rightarrow> nat \<Rightarrow> bench_target \<Rightarrow> trial_plan" where
  "plan_of b action_id scorecard first position target =
     \<lparr>tp_ordinal = first + position, tp_pair_id = pair_id_of b action_id, tp_pair_index = sb_pair_index b, tp_position = position,
      tp_phase = sb_phase b, tp_action_id = action_id, tp_scorecard = scorecard, tp_target_id = bt_id target,
      tp_surface = fst (fst (sb_group b)), tp_comparison_group = snd (fst (sb_group b))\<rparr>"

definition block_plans ::
  "(pyval \<Rightarrow> string) \<Rightarrow> schedule_block \<Rightarrow> nat \<Rightarrow> bench_target list \<Rightarrow> trial_plan list res" where
  "block_plans render b first ordered =
     ebind (item (sb_action b) ''id'') (\<lambda>action_id.
     ebind (item (sb_action b) ''scorecard'') (\<lambda>scorecard.
     Inr (map (\<lambda>(position, target). plan_of b (text_of render action_id) (text_of render scorecard) first position target)
       (enumerate 0 ordered))))"

fun plan_blocks ::
  "(pyval \<Rightarrow> string) \<Rightarrow> 'r randbelow \<Rightarrow> schedule_block list \<Rightarrow> nat \<Rightarrow> 'r \<Rightarrow> trial_plan list res" where
  "plan_blocks render randbelow [] first r = Inr []"
| "plan_blocks render randbelow (b # bs) first r =
     (case shuffle randbelow (snd (sb_group b)) r of (ordered, r') \<Rightarrow>
        ebind (block_plans render b first ordered) (\<lambda>plans.
        ebind (plan_blocks render randbelow bs (first + length plans) r') (\<lambda>later. Inr (plans @ later))))"

definition bench_targets :: "(pyval \<Rightarrow> string) \<Rightarrow> pydict \<Rightarrow> bench_target list res" where
  "bench_targets render profile =
     ebind (item profile ''targets'') (\<lambda>v. ebind (dict_items_of v) (\<lambda>targets.
     ebind (sorted_targets targets) (traverse_res (bench_target_of render))))"

definition phase_counts :: "pydict \<Rightarrow> (string \<times> nat) list res" where
  "phase_counts policy =
     ebind (item policy ''warmups'') (\<lambda>w. ebind (int_of_number w) (\<lambda>warmups.
     ebind (item policy ''repetitions'') (\<lambda>n. ebind (int_of_number n) (\<lambda>repetitions.
     Inr [(''warmup'', nat warmups), (''measurement'', nat repetitions)]))))"

definition bench_actions :: "pydict \<Rightarrow> pydict list res" where
  "bench_actions profile = ebind (item profile ''actions'') dict_items_of"

definition build_schedule ::
  "(pyval \<Rightarrow> string) \<Rightarrow> (int \<Rightarrow> 'r) \<Rightarrow> 'r randbelow \<Rightarrow> pydict \<Rightarrow> pydict \<Rightarrow> trial_plan list res" where
  "build_schedule render seeded randbelow profile policy =
     ebind (item profile ''seed'') (\<lambda>s. ebind (int_of_number s) (\<lambda>seed.
     ebind (bench_targets render profile) (\<lambda>targets.
     ebind (phase_counts policy) (\<lambda>phases.
     ebind (bench_actions profile) (\<lambda>actions.
     plan_blocks render randbelow (schedule_blocks actions phases (sorted_groups (group_targets targets))) 0 (seeded seed))))))"

section \<open>Shuffling reorders\<close>

definition in_bounds :: "'r randbelow \<Rightarrow> bool" where
  "in_bounds randbelow \<longleftrightarrow> (\<forall>n r. 0 < n \<longrightarrow> fst (randbelow n r) < n)"

lemma length_swap_at [simp]: "length (swap_at i j xs) = length xs"
  by (simp add: swap_at_def)

lemma mset_swap_at: "i < length xs \<Longrightarrow> j < length xs \<Longrightarrow> mset (swap_at i j xs) = mset xs"
  unfolding swap_at_def by (rule mset_swap)

lemma mset_shuffle_down:
  "in_bounds randbelow \<Longrightarrow> i < length xs \<Longrightarrow> mset (fst (shuffle_down randbelow i xs r)) = mset xs"
proof (induction i arbitrary: xs r)
  case (Suc i)
  obtain j r' where j: "randbelow (i + 2) r = (j, r')" by (cases "randbelow (i + 2) r")
  have "fst (randbelow (i + 2) r) < i + 2" using Suc.prems(1) unfolding in_bounds_def by simp
  with j Suc.prems(2) have "j < length xs" by simp
  with Suc j show ?case by (simp add: mset_swap_at)
qed simp

lemma mset_shuffle: "in_bounds randbelow \<Longrightarrow> mset (fst (shuffle randbelow xs r)) = mset xs"
  by (cases xs) (simp_all add: shuffle_def mset_shuffle_down)

section \<open>Grouping keeps the targets\<close>

definition members :: "groups \<Rightarrow> bench_target list" where
  "members gs = concat (map snd gs)"

definition well_grouped :: "groups \<Rightarrow> bool" where
  "well_grouped gs \<longleftrightarrow> list_all (\<lambda>(k, ts). ts \<noteq> [] \<and> list_all (\<lambda>t. bt_key t = k) ts) gs"

lemma members_append: "mset (members (group_append k t gs)) = add_mset t (mset (members gs))"
  by (induction k t gs rule: group_append.induct) (auto simp: members_def)

lemma well_grouped_append: "well_grouped gs \<Longrightarrow> bt_key t = k \<Longrightarrow> well_grouped (group_append k t gs)"
  by (induction k t gs rule: group_append.induct) (auto simp: well_grouped_def)

lemma group_targets_fold: "well_grouped gs \<Longrightarrow>
    mset (members (fold (\<lambda>t. group_append (bt_key t) t) ts gs)) = mset (members gs) + mset ts \<and>
    well_grouped (fold (\<lambda>t. group_append (bt_key t) t) ts gs)"
  by (induction ts arbitrary: gs) (simp_all add: members_append well_grouped_append)

lemma insert_group_mset: "mset (insert_group g gs) = add_mset g (mset gs)"
  by (induction g gs rule: insert_group.induct) auto

lemma sorted_groups_mset: "mset (sorted_groups gs) = mset gs"
  by (induction gs) (simp_all add: sorted_groups_def insert_group_mset)

lemma members_mset: "mset gs = mset hs \<Longrightarrow> mset (members gs) = mset (members hs)"
  by (simp add: members_def mset_concat flip: sum_mset_sum_list)

lemma grouped: "mset (members (sorted_groups (group_targets ts))) = mset ts" "well_grouped (sorted_groups (group_targets ts))"
proof -
  have start: "well_grouped []" by (simp add: well_grouped_def)
  note all = group_targets_fold [OF start, of ts]
  have "mset (members (sorted_groups (group_targets ts))) = mset (members (group_targets ts))"
    by (rule members_mset) (rule sorted_groups_mset)
  with all show "mset (members (sorted_groups (group_targets ts))) = mset ts" by (simp add: group_targets_def members_def)
  have "set (sorted_groups (group_targets ts)) = set (group_targets ts)" by (rule mset_eq_setD) (rule sorted_groups_mset)
  with all show "well_grouped (sorted_groups (group_targets ts))" by (simp add: group_targets_def well_grouped_def list_all_iff)
qed

section \<open>The plans\<close>

type_synonym slot = "string \<times> string \<times> nat \<times> string \<times> string \<times> string"

definition slot_of :: "trial_plan \<Rightarrow> slot" where
  "slot_of p = (tp_action_id p, tp_phase p, tp_pair_index p, tp_target_id p, tp_surface p, tp_comparison_group p)"

definition slot_at :: "(pyval \<Rightarrow> string) \<Rightarrow> pydict \<Rightarrow> string \<Rightarrow> nat \<Rightarrow> bench_target \<Rightarrow> slot" where
  "slot_at render action phase i t =
     (text_of render (dget action ''id''), phase, i, bt_id t, bt_surface t, bt_group t)"

definition block_slots :: "(pyval \<Rightarrow> string) \<Rightarrow> schedule_block \<Rightarrow> slot list" where
  "block_slots render b = map (slot_at render (sb_action b) (sb_phase b) (sb_pair_index b)) (snd (sb_group b))"

text \<open>The plans of one pair: the same pair, in the positions from 0.\<close>

definition pair_of :: "trial_plan \<Rightarrow> string \<times> string \<times> string \<times> string \<times> string \<times> nat" where
  "pair_of p = (tp_pair_id p, tp_surface p, tp_comparison_group p, tp_action_id p, tp_phase p, tp_pair_index p)"

definition paired :: "trial_plan list \<Rightarrow> bool" where
  "paired b \<longleftrightarrow> map tp_position b = [0..<length b] \<and> (\<exists>pair. \<forall>p \<in> set b. pair_of p = pair)"

lemma item_Inr: "item d k = Inr v \<Longrightarrow> dget d k = v"
  by (auto simp: item_def dget_def split: option.splits)

lemma block_plans_Inr:
  assumes "block_plans render b first ordered = Inr plans" "list_all (\<lambda>t. bt_key t = fst (sb_group b)) ordered"
  shows "map tp_ordinal plans = [first..<first + length ordered]" "length plans = length ordered" "paired plans"
    "map slot_of plans = map (slot_at render (sb_action b) (sb_phase b) (sb_pair_index b)) ordered"
proof -
  from assms(1) obtain a s where items: "item (sb_action b) ''id'' = Inr a" and plans:
    "plans = map (\<lambda>(position, target). plan_of b (text_of render a) (text_of render s) first position target) (enumerate 0 ordered)"
    by (auto simp: block_plans_def ebind_eq_Inr)
  show "length plans = length ordered" by (simp add: plans)
  have "map tp_ordinal plans = map (\<lambda>x. first + fst x) (enumerate 0 ordered)"
    by (auto simp: plans plan_of_def case_prod_beta)
  also have "\<dots> = map (\<lambda>i. i + first) (map fst (enumerate 0 ordered))" by (simp only: map_map comp_def add.commute)
  finally show "map tp_ordinal plans = [first..<first + length ordered]" by (simp add: map_add_upt add.commute)
  have "map tp_position plans = map fst (enumerate 0 ordered)"
    by (auto simp: plans plan_of_def case_prod_beta simp del: map_fst_enumerate)
  then have positions: "map tp_position plans = [0..<length plans]" by (simp add: plans)
  have "\<forall>p \<in> set plans. pair_of p =
      (pair_id_of b (text_of render a), fst (fst (sb_group b)), snd (fst (sb_group b)), text_of render a, sb_phase b, sb_pair_index b)"
    by (auto simp: plans plan_of_def pair_of_def)
  with positions show "paired plans" unfolding paired_def by blast
  have "slot_of (plan_of b (text_of render a) (text_of render s) first (fst x) (snd x)) =
      slot_at render (sb_action b) (sb_phase b) (sb_pair_index b) (snd x)" if "x \<in> set (enumerate 0 ordered)" for x
  proof -
    from that have "snd x \<in> snd ` set (enumerate 0 ordered)" by (rule imageI)
    then have "snd x \<in> set ordered" by (simp flip: set_map)
    with assms(2) have "bt_key (snd x) = fst (sb_group b)" by (auto simp: list_all_iff)
    then show ?thesis using item_Inr [OF items] by (auto simp: slot_of_def plan_of_def slot_at_def bt_key_def)
  qed
  then have "map slot_of plans = map (\<lambda>x. slot_at render (sb_action b) (sb_phase b) (sb_pair_index b) (snd x)) (enumerate 0 ordered)"
    by (simp add: plans comp_def case_prod_beta)
  also have "\<dots> = map (slot_at render (sb_action b) (sb_phase b) (sb_pair_index b)) (map snd (enumerate 0 ordered))"
    by (simp only: map_map comp_def)
  finally show "map slot_of plans = map (slot_at render (sb_action b) (sb_phase b) (sb_pair_index b)) ordered" by simp
qed

lemma plan_blocks_Inr:
  assumes "plan_blocks render randbelow bs first r = Inr plans" "in_bounds randbelow"
    "list_all (\<lambda>b. list_all (\<lambda>t. bt_key t = fst (sb_group b)) (snd (sb_group b))) bs"
  shows "map tp_ordinal plans = [first..<first + length plans]" "\<exists>pairs. plans = concat pairs \<and> list_all paired pairs"
    "mset (map slot_of plans) = mset (concat (map (block_slots render) bs))"
  using assms(1, 3)
proof (atomize (full), induction bs arbitrary: first r plans)
  case Nil
  then show ?case by (auto intro: exI [of _ "[]"])
next
  case (Cons b bs)
  obtain ordered r' where s: "shuffle randbelow (snd (sb_group b)) r = (ordered, r')" by (cases "shuffle randbelow (snd (sb_group b)) r")
  from mset_shuffle [OF assms(2), of "snd (sb_group b)" r] s have same: "mset ordered = mset (snd (sb_group b))" by simp
  then have "set ordered = set (snd (sb_group b))" by (rule mset_eq_setD)
  with Cons.prems(2) have keys: "list_all (\<lambda>t. bt_key t = fst (sb_group b)) ordered" by (simp add: list_all_iff)
  from Cons.prems(1) s obtain now later where split: "block_plans render b first ordered = Inr now"
    "plan_blocks render randbelow bs (first + length now) r' = Inr later" "plans = now @ later"
    by (auto simp: ebind_eq_Inr)
  note now = block_plans_Inr [OF split(1) keys]
  have later: "map tp_ordinal later = [first + length now..<first + length now + length later]"
    "\<exists>pairs. later = concat pairs \<and> list_all paired pairs"
    "mset (map slot_of later) = mset (concat (map (block_slots render) bs))"
    using Cons.IH [OF split(2)] Cons.prems(2) by auto
  from later(2) obtain pairs where pairs: "later = concat pairs" "list_all paired pairs" by blast
  have "map tp_ordinal plans = [first..<first + length plans]"
    using now(1, 2) later(1) upt_add_eq_append [of first "first + length now" "length later"] by (simp add: split(3) add.assoc)
  moreover have "plans = concat (now # pairs)" "list_all paired (now # pairs)" using now(3) pairs split(3) by simp_all
  moreover have "mset (map slot_of now) = mset (block_slots render b)"
    using same by (simp add: now(4) block_slots_def flip: mset_map) (simp add: mset_map)
  moreover have "mset (map slot_of plans) = mset (concat (map (block_slots render) (b # bs)))"
    using calculation(4) later(3) split(3) by simp
  ultimately show ?case by blast
qed

section \<open>The whole schedule\<close>

definition expected_slots :: "(pyval \<Rightarrow> string) \<Rightarrow> pydict list \<Rightarrow> (string \<times> nat) list \<Rightarrow> bench_target list \<Rightarrow> slot list" where
  "expected_slots render actions phases targets =
     concat (map (\<lambda>action. concat (map (\<lambda>(phase, count). concat (map (\<lambda>i.
       map (slot_at render action phase i) targets) [0..<count])) phases)) actions)"

lemma mset_concat_cong: "(\<And>x. x \<in> set xs \<Longrightarrow> mset (f x) = mset (g x)) \<Longrightarrow> mset (concat (map f xs)) = mset (concat (map g xs))"
  by (induction xs) simp_all

lemma concat_map_concat: "concat (map f (concat xss)) = concat (map (\<lambda>xs. concat (map f xs)) xss)"
  by (induction xss) simp_all

lemma block_slots_all: "mset (concat (map (block_slots render) (schedule_blocks actions phases groups))) =
    mset (expected_slots render actions phases (members groups))"
proof -
  have "concat (map (block_slots render) (map (\<lambda>g. \<lparr>sb_action = action, sb_phase = phase, sb_pair_index = i, sb_group = g\<rparr>) groups)) =
      map (slot_at render action phase i) (members groups)" for action phase i
    by (induction groups) (simp_all add: members_def block_slots_def)
  then have "concat (map (block_slots render) (schedule_blocks actions phases groups)) = expected_slots render actions phases (members groups)"
    unfolding schedule_blocks_def expected_slots_def concat_map_concat map_map comp_def case_prod_beta by simp
  then show ?thesis by simp
qed

lemma build_schedule_Inr:
  assumes "build_schedule render seeded randbelow profile policy = Inr plans"
  obtains seed targets phases actions where "bench_targets render profile = Inr targets" "phase_counts policy = Inr phases"
    "bench_actions profile = Inr actions"
    "plan_blocks render randbelow (schedule_blocks actions phases (sorted_groups (group_targets targets))) 0 (seeded seed) = Inr plans"
  using assms unfolding build_schedule_def ebind_eq_Inr by blast

lemma blocks_grouped: "well_grouped groups \<Longrightarrow>
    list_all (\<lambda>b. list_all (\<lambda>t. bt_key t = fst (sb_group b)) (snd (sb_group b))) (schedule_blocks actions phases groups)"
  by (fastforce simp: schedule_blocks_def well_grouped_def list_all_iff)

lemma mset_map_cong: "mset xs = mset ys \<Longrightarrow> mset (map f xs) = mset (map f ys)"
  by (simp add: mset_map)

lemma expected_slots_perm:
  assumes "mset ts = mset us"
  shows "mset (expected_slots render actions phases ts) = mset (expected_slots render actions phases us)"
  unfolding expected_slots_def
  by (intro mset_concat_cong) (auto intro!: mset_concat_cong mset_map_cong assms)

lemma schedule_facts:
  assumes "build_schedule render seeded randbelow profile policy = Inr plans" "in_bounds randbelow"
    "bench_targets render profile = Inr targets" "phase_counts policy = Inr phases" "bench_actions profile = Inr actions"
  shows "map tp_ordinal plans = [0..<length plans]" "\<exists>pairs. plans = concat pairs \<and> list_all paired pairs"
    "mset (map slot_of plans) = mset (expected_slots render actions phases targets)"
proof -
  let ?groups = "sorted_groups (group_targets targets)"
  from assms(1, 3-5) obtain seed where
    "plan_blocks render randbelow (schedule_blocks actions phases ?groups) 0 (seeded seed) = Inr plans"
    by (elim build_schedule_Inr) simp
  note plans = plan_blocks_Inr [OF this assms(2) blocks_grouped [OF grouped(2)]]
  from plans(1) show "map tp_ordinal plans = [0..<length plans]" by simp
  from plans(2) show "\<exists>pairs. plans = concat pairs \<and> list_all paired pairs" .
  show "mset (map slot_of plans) = mset (expected_slots render actions phases targets)"
    using plans(3) expected_slots_perm [OF grouped(1)] by (simp add: block_slots_all)
qed

end
