(* ===== verification/Rig_Redaction.thy ===== *)
theory Rig_Redaction
  imports Rig_Process Py_Text
begin

text \<open>
  Redaction and identities of benchmark evidence in \<^verbatim>\<open>cli/benchmarks/runner/rig.py\<close>. The three regular expression
  substitutions of \<open>redact_text\<close> are the argument \<open>scrub\<close>; which keys are secret is decided here.
\<close>

section \<open>Redaction\<close>

definition secret_words :: "string list" where
  "secret_words = [''token'', ''secret'', ''password'', ''apikey'', ''api_key'', ''authorization'', ''cookie'', ''credential'']"

text \<open>\<open>_SECRET_KEY.search(key)\<close>\<close>

definition secret_key :: "string \<Rightarrow> bool" where
  "secret_key key \<longleftrightarrow> list_ex (\<lambda>w. occurs_in w (fold_case key)) secret_words"

definition redacted :: pyval where "redacted = PStr ''<redacted>''"

fun redact :: "(string \<Rightarrow> string) \<Rightarrow> pyval \<Rightarrow> pyval"
  and redact_list :: "(string \<Rightarrow> string) \<Rightarrow> pyval list \<Rightarrow> pyval list"
  and redact_items :: "(string \<Rightarrow> string) \<Rightarrow> pydict \<Rightarrow> pydict" where
  "redact scrub (PDict d) = PDict (redact_items scrub d)"
| "redact scrub (PList xs) = PList (redact_list scrub xs)"
| "redact scrub (PStr s) = PStr (scrub s)"
| "redact scrub v = v"
| "redact_list scrub [] = []"
| "redact_list scrub (x # xs) = redact scrub x # redact_list scrub xs"
| "redact_items scrub [] = []"
| "redact_items scrub ((k, v) # d) = (k, if secret_key k then redacted else redact scrub v) # redact_items scrub d"

text \<open>\<open>sorted((item for item in literals if item), key=len, reverse=True)\<close>: equal lengths keep their order.\<close>

fun insert_longer :: "string \<Rightarrow> string list \<Rightarrow> string list" where
  "insert_longer x [] = [x]"
| "insert_longer x (y # ys) = (if py_len y \<le> py_len x then x # y # ys else y # insert_longer x ys)"

definition longest_first :: "string list \<Rightarrow> string list" where
  "longest_first xs = foldr insert_longer (filter (\<lambda>x. x \<noteq> []) xs) []"

definition redact_text :: "(string \<Rightarrow> string) \<Rightarrow> string list \<Rightarrow> string \<Rightarrow> string" where
  "redact_text scrub literals s =
     fold (\<lambda>literal cleaned. replace_text literal ''<BENCHMARK_TEMP>'' cleaned) (longest_first literals) (scrub s)"

section \<open>Identities\<close>

definition sha256_json :: "pyval \<Rightarrow> string res" where
  "sha256_json v = ebind (rig_canonical_json_bytes v) (\<lambda>b. Inr (sha256_hex b))"

definition is_private :: "string \<Rightarrow> bool" where
  "is_private key \<longleftrightarrow> starts_with ''_'' key"

definition public_target :: "(string \<Rightarrow> string) \<Rightarrow> pydict \<Rightarrow> pydict" where
  "public_target scrub target = map (\<lambda>(k, v). (k, redact scrub v)) (filter (\<lambda>(k, v). \<not> is_private k) target)"

fun without_private :: "pyval \<Rightarrow> pyval"
  and without_private_list :: "pyval list \<Rightarrow> pyval list"
  and without_private_items :: "pydict \<Rightarrow> pydict" where
  "without_private (PDict d) = PDict (without_private_items d)"
| "without_private (PList xs) = PList (without_private_list xs)"
| "without_private v = v"
| "without_private_list [] = []"
| "without_private_list (x # xs) = without_private x # without_private_list xs"
| "without_private_items [] = []"
| "without_private_items ((k, v) # d) =
     (if is_private k then without_private_items d else (k, without_private v) # without_private_items d)"

definition image_is_sentinel :: "(pyval \<Rightarrow> string) \<Rightarrow> pydict \<Rightarrow> bool res" where
  "image_is_sentinel render profile = (case get_default profile ''image'' (PDict []) of
     PDict img \<Rightarrow> Inr (dget img ''releaseEligible'' = PBool False \<or>
       starts_with ''sentinel'' (text_of render (get_default img ''version'' (PStr []))))
   | _ \<Rightarrow> Inl AttributeErr)"

definition derived_seed :: "int \<Rightarrow> string list \<Rightarrow> nat res" where
  "derived_seed seed labels =
     ebind (rig_canonical_json_bytes (PDict [(''seed'', PInt seed), (''labels'', PList (map PStr labels))])) (\<lambda>b.
     Inr (be_value (take 8 (sha256 b))))"

section \<open>Nothing under a secret key\<close>

fun hides_secrets :: "pyval \<Rightarrow> bool"
  and hides_secrets_list :: "pyval list \<Rightarrow> bool"
  and hides_secrets_items :: "pydict \<Rightarrow> bool" where
  "hides_secrets (PDict d) = hides_secrets_items d"
| "hides_secrets (PList xs) = hides_secrets_list xs"
| "hides_secrets v = True"
| "hides_secrets_list [] = True"
| "hides_secrets_list (x # xs) = (hides_secrets x \<and> hides_secrets_list xs)"
| "hides_secrets_items [] = True"
| "hides_secrets_items ((k, v) # d) = ((if secret_key k then v = redacted else hides_secrets v) \<and> hides_secrets_items d)"

lemma redact_hides: "hides_secrets (redact scrub v)"
  and redact_list_hides: "hides_secrets_list (redact_list scrub xs)"
  and redact_items_hides: "hides_secrets_items (redact_items scrub d)"
  by (induction scrub v and scrub xs and scrub d rule: redact_redact_list_redact_items.induct) (auto simp: redacted_def)

lemma map_redact_items: "map_of (redact_items scrub d) k =
    (case map_of d k of None \<Rightarrow> None | Some v \<Rightarrow> Some (if secret_key k then redacted else redact scrub v))"
  by (induction d) auto

lemma keys_redact_items: "map fst (redact_items scrub d) = map fst d"
  by (induction d) auto

end
