(* ===== verification/Rig_Trials.thy ===== *)
theory Rig_Trials
  imports Rig_Validation Rig_Schedule Rig_Redaction
begin

text \<open>
  One run of the benchmark in \<^verbatim>\<open>cli/benchmarks/runner/rig.py\<close>: the mechanical validation of an output, the
  residual timing, the claims of a profile, and the loop of \<open>run_benchmark\<close> over the schedule with its stop
  conditions and its accounting. The driver is an argument with a state of its own.
\<close>

section \<open>Mechanical validation\<close>

text \<open>\<open>v.get(...)\<close> of a value that is no dictionary is an \<open>AttributeError\<close>.\<close>

definition attr_dict :: "pyval \<Rightarrow> pydict res" where
  "attr_dict v = (case v of PDict d \<Rightarrow> Inr d | _ \<Rightarrow> Inl AttributeErr)"

definition optional_text :: "string option \<Rightarrow> pyval" where
  "optional_text r = (case r of None \<Rightarrow> PNone | Some s \<Rightarrow> PStr s)"

definition validation_record :: "bool \<Rightarrow> pyval \<Rightarrow> string \<Rightarrow> pyval \<Rightarrow> pydict" where
  "validation_record passed kind reason observed =
     [(''status'', PStr (if passed then ''passed'' else ''failed'')), (''kind'', kind),
      (''reason'', if passed then PNone else PStr reason), (''observed'', observed)]"

definition doctor_identity :: "pydict \<Rightarrow> pydict" where
  "doctor_identity value =
     (let nested = dget value ''harness''; img = get_default value ''image'' (PDict []) in
      [(''harness'', if is_dict nested then dget (dict_of nested) ''id'' else dget value ''selectedHarness''),
       (''transport'', if is_dict nested then dget value ''transport'' else dget value ''selectedTransport''),
       (''imageSha256'', if is_dict img then dget (dict_of img) ''sha256'' else PNone),
       (''imageReleaseEligible'', if is_dict img then dget (dict_of img) ''releaseEligible'' else PNone)])"

definition doctor_report :: "pydict \<Rightarrow> pydict \<Rightarrow> pydict \<times> bool" where
  "doctor_report value target =
     (let observed = (''schema'', dget value ''schema'') # doctor_identity value in
      (observed,
       dget value ''schema'' = PStr ''openprose.doctor-report/1'' \<and> dget value ''ready'' = PBool True \<and>
       py_eq (dget observed ''harness'') (dget target ''harness'') \<and> py_eq (dget observed ''transport'') (dget target ''transport'')))"

text \<open>\<open>profile["image"]["sha256"]\<close>\<close>

definition profile_image_sha256 :: "pydict \<Rightarrow> pyval res" where
  "profile_image_sha256 profile = ebind (item profile ''image'') (\<lambda>v.
     if is_dict v then item (dict_of v) ''sha256'' else Inl TypeErr)"

definition dry_run_report :: "pydict \<Rightarrow> pydict \<Rightarrow> pydict \<Rightarrow> (pydict \<times> bool) res" where
  "dry_run_report value target profile =
     ebind (attr_dict (get_default value ''selection'' (PDict []))) (\<lambda>selection.
     ebind (attr_dict (get_default value ''languageImage'' (PDict []))) (\<lambda>img.
     let observed = [(''schema'', dget value ''schema''), (''harness'', dget selection ''harness''),
           (''transport'', dget selection ''transport''), (''model'', dget selection ''model''),
           (''imageSha256'', dget img ''sha256''), (''imageReleaseEligible'', dget img ''releaseEligible'')] in
     if dget value ''schema'' = PStr ''openprose.runner-dry-run-report/1'' \<and> dget value ''wouldStartModel'' = PBool False \<and>
        py_eq (dget selection ''harness'') (dget target ''harness'') \<and>
        py_eq (dget selection ''transport'') (dget target ''transport'')
     then ebind (profile_image_sha256 profile) (\<lambda>pinned.
       Inr (observed, py_eq (dget img ''sha256'') pinned \<and> dget img ''releaseEligible'' = PBool False))
     else Inr (observed, False)))"

definition runner_result_report :: "pydict \<Rightarrow> pydict \<Rightarrow> pydict \<Rightarrow> (pydict \<times> bool) res" where
  "runner_result_report value target profile =
     ebind (attr_dict (get_default target ''model'' (PDict []))) (\<lambda>model.
     ebind (attr_dict (get_default value ''adapter'' (PDict []))) (\<lambda>adapter.
     ebind (attr_dict (get_default value ''languageImage'' (PDict []))) (\<lambda>img.
     ebind (attr_dict (get_default value ''digests'' (PDict []))) (\<lambda>digests.
     let observed = [(''schema'', dget value ''schema''), (''harness'', dget target ''harness''),
           (''transport'', dget value ''transport''), (''model'', dget model ''id''), (''adapterId'', dget adapter ''id''),
           (''harnessVersion'', dget adapter ''harnessVersion''),
           (''harnessDescriptorSha256'', dget adapter ''descriptorDigestSha256''),
           (''imageSha256'', dget img ''sha256''), (''taskSha256'', dget digests ''taskSha256'')] in
     if dget value ''schema'' = PStr ''openprose.runner-result/1'' \<and> py_eq (dget value ''transport'') (dget target ''transport'') \<and>
        dget adapter ''id'' = PStr ''mock/fake-process'' \<and>
        py_eq (dget adapter ''descriptorDigestSha256'') (dget target ''harnessDescriptorSha256'')
     then ebind (profile_image_sha256 profile) (\<lambda>pinned.
       if py_eq (dget img ''sha256'') pinned
       then ebind (attr_dict (get_default value ''terminal'' (PDict []))) (\<lambda>terminal.
         Inr (observed, dget terminal ''transportCompleted'' = PBool True \<and> dget terminal ''terminalEventObserved'' = PBool True))
       else Inr (observed, False))
     else Inr (observed, False)))))"

definition mechanical_validation ::
  "(string \<Rightarrow> string) \<Rightarrow> observation \<Rightarrow> pydict \<Rightarrow> pydict \<Rightarrow> pydict \<Rightarrow> pydict res" where
  "mechanical_validation scrub ob action target profile =
     (let expectation = dget action ''expectation'' in
      if ob_status ob \<noteq> ''success'' then
        Inr [(''status'', PStr ''not-run''), (''kind'', expectation), (''reason'', PStr ''process-not-successful'')]
      else if expectation = PNone then
        Inr [(''status'', PStr ''not-applicable''), (''kind'', PNone), (''observed'', PDict [])]
      else if expectation = PStr ''version'' then
        (let stripped = py_strip (ob_stdout ob); line = (if stripped = [] then [] else first_line stripped) in
         Inr (validation_record (starts_with ''prose '' line) (PStr ''version'') ''version-output-shape''
           (PDict [(''versionLine'', PStr (redact_text scrub [] line))])))
      else (case json_loads default_hooks (ob_stdout ob) of
        Inl e \<Rightarrow> Inr (validation_record False expectation ''stdout-is-not-one-json-value'' (PDict []))
      | Inr v \<Rightarrow>
          if \<not> is_dict v then Inr (validation_record False expectation ''stdout-json-is-not-object'' (PDict []))
          else (let value = dict_of v in
            ebind (if expectation = PStr ''doctor'' then Inr (doctor_report value target)
                   else if expectation = PStr ''dry-run'' then dry_run_report value target profile
                   else if expectation = PStr ''runner-result'' then runner_result_report value target profile
                   else Inr ([(''schema'', dget value ''schema'')], False)) (\<lambda>(observed, passed).
            Inr (validation_record passed expectation ''mechanical-expectation-not-met'' (redact scrub (PDict observed)))))))"

section \<open>Residual timing\<close>

definition optional_float :: "pyval \<Rightarrow> pyfloat option res" where
  "optional_float v = (case v of PInt n \<Rightarrow> ebind (float_of_int n) (\<lambda>f. Inr (Some f)) | PFloat f \<Rightarrow> Inr (Some f) | _ \<Rightarrow> Inr None)"

definition float_value :: "pyfloat option \<Rightarrow> pyval" where
  "float_value f = (case f of None \<Rightarrow> PNone | Some x \<Rightarrow> PFloat x)"

definition timing_record :: "pyfloat option \<Rightarrow> pyfloat option \<Rightarrow> pyfloat option \<Rightarrow> string \<Rightarrow> pyval" where
  "timing_record provider tool residual reason =
     PDict [(''providerMs'', float_value provider), (''toolMs'', float_value tool), (''residualWrapperMs'', float_value residual),
       (''reason'', PStr reason)]"

definition derive_residual :: "pyfloat option \<Rightarrow> pyval \<Rightarrow> pyval res" where
  "derive_residual wall_ms spans =
     (if \<not> py_truth spans then Inr (timing_record None None None ''spans-unavailable'')
      else ebind (attr_dict spans) (\<lambda>d.
        ebind (optional_float (dget d ''providerMs'')) (\<lambda>provider.
        ebind (optional_float (dget d ''toolMs'')) (\<lambda>tool.
        case (provider, tool, wall_ms) of
          (Some p, Some t, Some w) \<Rightarrow>
            if dget d ''complete'' \<noteq> PBool True then Inr (timing_record provider tool None ''incomplete-spans'')
            else checked (guard (hashable (dget d ''clock'')) TypeErr)
              (Inr (if \<not> str_in (dget d ''clock'') [''common-monotonic'', ''correlated-validated''] then
                      timing_record provider tool None ''uncorrelated-clocks''
                    else (let residual = float_sub (float_sub w p) t in
                      if float_lt residual (FFin 0) then timing_record provider tool None ''inconsistent-spans''
                      else timing_record provider tool (Some (float_round 6 residual)) ''complete-correlated-spans'')))
        | _ \<Rightarrow> Inr (timing_record provider tool None ''incomplete-spans'')))))"

section \<open>The claims of a profile\<close>

definition target_surfaces :: "pydict \<Rightarrow> pyval list res" where
  "target_surfaces profile = (case get_default profile ''targets'' (PList []) of
     PList targets \<Rightarrow> traverse_res (\<lambda>t. ebind (attr_dict t) (\<lambda>d.
       checked (guard (hashable (dget d ''surface'')) TypeErr) (Inr (dget d ''surface'')))) targets
   | _ \<Rightarrow> Inl TypeErr)"

definition validate_profile_claims :: "pydict \<Rightarrow> check" where
  "validate_profile_claims profile = check_of (
     ebind (attr_dict (get_default profile ''image'' (PDict []))) (\<lambda>img.
     checked (guard (\<not> (dget img ''releaseEligible'' \<noteq> PBool True \<and> dget profile ''releaseEligible'' = PBool True))
       (ValueErr ''release claim is forbidden for a non-release image''))
     (ebind (attr_dict (get_default profile ''corpus'' (PDict []))) (\<lambda>corpus.
     checked (if dget corpus ''status'' = PStr ''available'' then None
       else first_failure [guard (hashable (dget profile ''semanticStatus'')) TypeErr,
         guard (str_in (dget profile ''semanticStatus'') [''unknown'', ''not-applicable''])
           (ValueErr ''semantic status cannot be claimed without the canonical corpus'')])
     (checked (guard (dget profile ''proseCompleteClaim'' = PBool False)
       (ValueErr ''Prose Complete claim is forbidden without canonical evidence''))
     (ebind (target_surfaces profile) (\<lambda>surfaces.
     checked (guard (PNone \<notin> set surfaces) (ValueErr ''every target requires an explicit surface'')) (Inr ()))))))))"

section \<open>Trials\<close>

type_synonym 'd driver = "invocation \<Rightarrow> 'd \<Rightarrow> observation res \<times> 'd"

record run_env =
  re_profile :: pydict
  re_policy :: pydict
  re_targets :: "(string \<times> pydict) list"
  re_actions :: "(string \<times> pydict) list"
  re_context :: pydict
  re_boundary :: string
  re_maximum_cost :: pyfloat
  re_maximum_timeouts :: int

record bench_state =
  rs_cost :: pyfloat
  rs_unavailable_cost :: nat
  rs_timeouts :: nat
  rs_stop_reason :: "string option"
  rs_trials :: "pydict list"
  rs_retry_trusted :: bool
  rs_visibility_complete :: bool

definition initial_run :: bench_state where
  "initial_run = \<lparr>rs_cost = FFin 0, rs_unavailable_cost = 0, rs_timeouts = 0, rs_stop_reason = None, rs_trials = [],
     rs_retry_trusted = True, rs_visibility_complete = True\<rparr>"

text \<open>\<open>asdict(plan)\<close>\<close>

definition plan_record :: "trial_plan \<Rightarrow> pydict" where
  "plan_record p =
     [(''ordinal'', PInt (int (tp_ordinal p))), (''pair_id'', PStr (tp_pair_id p)), (''pair_index'', PInt (int (tp_pair_index p))),
      (''position'', PInt (int (tp_position p))), (''phase'', PStr (tp_phase p)), (''action_id'', PStr (tp_action_id p)),
      (''scorecard'', PStr (tp_scorecard p)), (''target_id'', PStr (tp_target_id p)), (''surface'', PStr (tp_surface p)),
      (''comparison_group'', PStr (tp_comparison_group p))]"

definition boundary_record :: "string \<Rightarrow> pyval" where
  "boundary_record kind = PDict [(''kind'', PStr kind), (''processEvidenceRequired'', PBool (kind = ''subprocess''))]"

text \<open>\<open>{entry["id"]: entry for entry in entries}\<close>, as far as it is looked up by text\<close>

fun index_by_id :: "pydict list \<Rightarrow> (string \<times> pydict) list \<Rightarrow> (string \<times> pydict) list res" where
  "index_by_id [] acc = Inr acc"
| "index_by_id (d # ds) acc = ebind (item d ''id'') (\<lambda>v.
     if \<not> hashable v then Inl TypeErr
     else index_by_id ds (case v of PStr s \<Rightarrow> dict_set s d acc | _ \<Rightarrow> acc))"

definition by_id :: "(string \<times> pydict) list \<Rightarrow> string \<Rightarrow> pydict res" where
  "by_id index name = (case map_of index name of None \<Rightarrow> Inl KeyErr | Some d \<Rightarrow> Inr d)"

definition not_run_trial :: "run_env \<Rightarrow> trial_plan \<Rightarrow> string \<Rightarrow> pydict res" where
  "not_run_trial env p stop_reason =
     ebind (by_id (re_actions env) (tp_action_id p)) (\<lambda>action.
     ebind (derive_residual None PNone) (\<lambda>timing.
     Inr (plan_record p @
       [(''status'', PStr ''not-run''), (''processStatus'', PStr ''not-run''), (''failureKind'', PStr ''policy-stop''),
        (''stopReason'', PStr stop_reason), (''executionBoundary'', boundary_record (re_boundary env)),
        (''wallMs'', PNone), (''exitCode'', PNone), (''stdout'', PStr []), (''stderr'', PStr []), (''outputTruncated'', PBool False),
        (''processEvidence'', PDict [(''containment'', PDict [(''status'', PStr ''not-run'')]),
           (''settlement'', PDict [(''status'', PStr ''not-run''), (''allowsSuccessfulTrial'', PBool False)])]),
        (''processEvidenceValidation'', PDict [(''status'', PStr ''not-run''), (''reason'', PStr ''policy-stop'')]),
        (''validation'', PDict [(''status'', PStr ''not-run''), (''kind'', dget action ''expectation''), (''reason'', PStr ''policy-stop'')]),
        (''cost'', PDict [(''status'', PStr ''unavailable''), (''usd'', PNone)]),
        (''retry'', PDict [(''visibility'', PStr ''not-run''), (''observedAttempts'', PNone), (''declaredRetries'', PNone),
           (''hiddenRetrySuspected'', PBool False)]),
        (''timingComponents'', timing)])))"

definition effective_status :: "observation \<Rightarrow> pydict \<Rightarrow> pydict \<Rightarrow> string" where
  "effective_status ob validation evidence_verdict =
     (if ob_status ob = ''success'' \<and>
         (dget validation ''status'' = PStr ''failed'' \<or> dget evidence_verdict ''status'' = PStr ''failed'')
      then ''failure'' else ob_status ob)"

definition failure_kind :: "observation \<Rightarrow> pydict \<Rightarrow> string \<Rightarrow> string option" where
  "failure_kind ob evidence_verdict status =
     (if status = ''failure'' then Some (
        if dget evidence_verdict ''reason'' = PStr ''successful-process-not-settled'' then ''process-settlement-failure''
        else if dget evidence_verdict ''status'' = PStr ''failed'' then ''process-evidence-invalid''
        else if ob_status ob = ''success'' then ''validator-failure''
        else if dget (dict_of (ob_diagnostic ob)) ''kind'' = PStr ''process-settlement-failed'' then ''process-settlement-failure''
        else ''nonzero-or-spawn-failure'')
      else if status = ''timeout'' then Some ''timeout'' else None)"

text \<open>More attempts than one and the declared retries; the metadata has been validated.\<close>

definition hidden_retry :: "observation \<Rightarrow> bool" where
  "hidden_retry ob \<longleftrightarrow> ob_observed_attempts ob \<noteq> PNone \<and>
     1 + int_of (ob_declared_retries ob) < int_of (ob_observed_attempts ob)"

definition redaction_literals :: "pydict \<Rightarrow> string list res" where
  "redaction_literals context = (case get_default context ''redactionLiterals'' (PList []) of
     PList xs \<Rightarrow> if list_all is_str xs then Inr (map str_of xs) else Inl TypeErr | _ \<Rightarrow> Inl TypeErr)"

definition unavailable_evidence :: pyval where
  "unavailable_evidence = PDict [(''containment'', PDict [(''status'', PStr ''unavailable-from-driver'')]),
     (''settlement'', PDict [(''status'', PStr ''unavailable-from-driver''), (''allowsSuccessfulTrial'', PNone)])]"

definition executed_trial ::
  "(string \<Rightarrow> string) \<Rightarrow> run_env \<Rightarrow> trial_plan \<Rightarrow> observation \<Rightarrow> pydict \<Rightarrow> pydict \<Rightarrow> pydict res" where
  "executed_trial scrub env p ob validation evidence_verdict =
     (let status = effective_status ob validation evidence_verdict in
      ebind (redaction_literals (re_context env)) (\<lambda>literals.
      ebind (derive_residual (Some (ob_wall_ms ob)) (ob_spans ob)) (\<lambda>timing.
      Inr (plan_record p @
       [(''status'', PStr status), (''processStatus'', PStr (ob_status ob)),
        (''failureKind'', optional_text (failure_kind ob evidence_verdict status)),
        (''executionBoundary'', boundary_record (re_boundary env)), (''wallMs'', PFloat (float_round 6 (ob_wall_ms ob))),
        (''exitCode'', case ob_exit_code ob of None \<Rightarrow> PNone | Some c \<Rightarrow> PInt c),
        (''stdout'', PStr (redact_text scrub literals (ob_stdout ob))), (''stderr'', PStr (redact_text scrub literals (ob_stderr ob))),
        (''outputTruncated'', PBool (ob_output_truncated ob)), (''diagnostic'', redact scrub (ob_diagnostic ob)),
        (''processEvidence'',
           redact scrub (if ob_process_evidence ob \<noteq> PNone then ob_process_evidence ob else unavailable_evidence)),
        (''processEvidenceValidation'', PDict evidence_verdict), (''validation'', PDict validation),
        (''cost'', PDict [(''status'', PStr (ob_cost_status ob)), (''usd'', ob_cost_usd ob)]),
        (''retry'', PDict [(''visibility'', PStr (if ob_observed_attempts ob = PNone then ''unavailable'' else ''observed'')),
           (''observedAttempts'', ob_observed_attempts ob), (''declaredRetries'', ob_declared_retries ob),
           (''hiddenRetrySuspected'', PBool (hidden_retry ob))]),
        (''timingComponents'', timing)]))))"

text \<open>The stop conditions after a trial.\<close>

definition stop_after :: "run_env \<Rightarrow> bench_state \<Rightarrow> string option" where
  "stop_after env s =
     (if float_leq (re_maximum_cost env) (rs_cost s) then Some ''authoritative-cost-limit''
      else if re_maximum_timeouts env \<le> int (rs_timeouts s) then Some ''timeout-limit'' else rs_stop_reason s)"

definition account :: "run_env \<Rightarrow> observation \<Rightarrow> string \<Rightarrow> pydict \<Rightarrow> bench_state \<Rightarrow> bench_state res" where
  "account env ob status trial s =
     ebind (if ob_cost_status ob = ''authoritative''
            then ebind (py_float (ob_cost_usd ob)) (\<lambda>usd. Inr (s\<lparr>rs_cost := float_add (rs_cost s) usd\<rparr>))
            else Inr (s\<lparr>rs_unavailable_cost := rs_unavailable_cost s + 1\<rparr>)) (\<lambda>s.
     let s = s\<lparr>rs_timeouts := rs_timeouts s + (if status = ''timeout'' then 1 else 0),
           rs_visibility_complete := rs_visibility_complete s \<and> ob_observed_attempts ob \<noteq> PNone,
           rs_retry_trusted := rs_retry_trusted s \<and> \<not> hidden_retry ob,
           rs_trials := rs_trials s @ [trial]\<rparr> in
     Inr (s\<lparr>rs_stop_reason := stop_after env s\<rparr>))"

definition driver_status_check :: "observation \<Rightarrow> check" where
  "driver_status_check ob = first_failure [
     validate_observation_metadata ob,
     guard (ob_status ob \<in> {''success'', ''failure'', ''timeout''}) (ValueErr (''driver returned invalid status: '' @ ob_status ob)),
     guard (ob_cost_status ob \<in> {''authoritative'', ''unavailable''}) (ValueErr ''cost status must be authoritative or unavailable'')]"

text \<open>What is done with an observation.\<close>

definition settle_trial ::
  "(string \<Rightarrow> string) \<Rightarrow> run_env \<Rightarrow> trial_plan \<Rightarrow> observation \<Rightarrow> bench_state \<Rightarrow> bench_state res" where
  "settle_trial scrub env p ob s =
     checked (driver_status_check ob)
     (ebind (by_id (re_actions env) (tp_action_id p)) (\<lambda>action.
      ebind (by_id (re_targets env) (tp_target_id p)) (\<lambda>target.
      ebind (mechanical_validation scrub ob action target (re_profile env)) (\<lambda>validation.
      ebind (process_evidence_validation (re_boundary env) (ob_status ob) (ob_process_evidence ob)) (\<lambda>evidence_verdict.
      ebind (executed_trial scrub env p ob validation evidence_verdict) (\<lambda>trial.
      account env ob (effective_status ob validation evidence_verdict) trial s))))))"

definition invocation_for :: "run_env \<Rightarrow> trial_plan \<Rightarrow> invocation res" where
  "invocation_for env p =
     ebind (by_id (re_targets env) (tp_target_id p)) (\<lambda>target.
     ebind (by_id (re_actions env) (tp_action_id p)) (\<lambda>action.
     ebind (item (re_policy env) ''timeoutAccounting'') (\<lambda>accounting.
     ebind (if is_dict accounting then item (dict_of accounting) ''perRunMs'' else Inl TypeErr) (\<lambda>v.
     ebind (int_of_number v) (\<lambda>timeout_ms.
     Inr \<lparr>iv_plan = p, iv_target = target, iv_action = action, iv_timeout_ms = timeout_ms, iv_context = re_context env\<rparr>)))))"

definition run_trial ::
  "(string \<Rightarrow> string) \<Rightarrow> run_env \<Rightarrow> 'd driver \<Rightarrow> trial_plan \<Rightarrow> bench_state \<Rightarrow> 'd \<Rightarrow> bench_state res \<times> 'd" where
  "run_trial scrub env driver p s d =
     (case rs_stop_reason s of
        Some stop_reason \<Rightarrow>
          (ebind (not_run_trial env p stop_reason) (\<lambda>trial. Inr (s\<lparr>rs_trials := rs_trials s @ [trial]\<rparr>)), d)
      | None \<Rightarrow>
          (case invocation_for env p of
             Inl e \<Rightarrow> (Inl e, d)
           | Inr iv \<Rightarrow> (case driver iv d of
               (Inl e, d') \<Rightarrow> (Inl e, d')
             | (Inr ob, d') \<Rightarrow> (settle_trial scrub env p ob s, d'))))"

fun run_trials ::
  "(string \<Rightarrow> string) \<Rightarrow> run_env \<Rightarrow> 'd driver \<Rightarrow> trial_plan list \<Rightarrow> bench_state \<Rightarrow> 'd \<Rightarrow> bench_state res \<times> 'd" where
  "run_trials scrub env driver [] s d = (Inr s, d)"
| "run_trials scrub env driver (p # ps) s d =
     (case run_trial scrub env driver p s d of
        (Inl e, d') \<Rightarrow> (Inl e, d')
      | (Inr s', d') \<Rightarrow> run_trials scrub env driver ps s' d')"

section \<open>The report\<close>

definition retry_field :: "string \<Rightarrow> pydict \<Rightarrow> pyval" where
  "retry_field k trial = dget (dict_of (dget trial ''retry'')) k"

definition accounting_record :: "bench_state \<Rightarrow> pyval" where
  "accounting_record s = PDict
     [(''authoritativeCostUsd'', PFloat (float_round 12 (rs_cost s))),
      (''unavailableCostTrials'', PInt (int (rs_unavailable_cost s))), (''timeouts'', PInt (int (rs_timeouts s))),
      (''declaredRetries'', PInt (sum_list (map (\<lambda>t. int_of (retry_field ''declaredRetries'' t)) (rs_trials s)))),
      (''hiddenRetrySuspicions'', PInt (int (length (filter (\<lambda>t. py_truth (retry_field ''hiddenRetrySuspected'' t)) (rs_trials s))))),
      (''unavailableRetryTrials'',
         PInt (int (length (filter (\<lambda>t. retry_field ''visibility'' t = PStr ''unavailable'') (rs_trials s)))))]"

definition stop_record :: "bench_state \<Rightarrow> pyval" where
  "stop_record s = PDict [(''triggered'', PBool (rs_stop_reason s \<noteq> None)), (''reason'', optional_text (rs_stop_reason s))]"

text \<open>\<open>a or b\<close>\<close>

definition or_else :: "pyval \<Rightarrow> pyval res \<Rightarrow> pyval res" where
  "or_else v alternative = (if py_truth v then Inr v else alternative)"

definition policy_identity :: "pydict \<Rightarrow> pydict \<Rightarrow> pyval res" where
  "policy_identity profile policy =
     ebind (item policy ''policyId'') (\<lambda>policy_id. ebind (item policy ''policyVersion'') (\<lambda>version.
     ebind (item policy ''frozenAt'') (\<lambda>frozen. ebind (sha256_json (PDict policy)) (\<lambda>digest.
     ebind (or_else (dget profile ''policyArtifactSha256'') (Inr (PStr digest))) (\<lambda>artifact.
     ebind (item profile ''seed'') (\<lambda>v. ebind (int_of_number v) (\<lambda>seed.
     Inr (PDict [(''id'', policy_id), (''version'', version), (''frozenAt'', frozen), (''sha256'', artifact),
       (''canonicalJsonSha256'', PStr digest), (''seed'', PInt seed)]))))))))"

definition profile_identity :: "pydict \<Rightarrow> pyval res" where
  "profile_identity profile =
     ebind (item profile ''profileId'') (\<lambda>profile_id. ebind (item profile ''profileVersion'') (\<lambda>version.
     ebind (sha256_json (without_private (PDict profile))) (\<lambda>digest.
     ebind (or_else (dget profile ''_profileArtifactSha256'') (Inr (PStr digest))) (\<lambda>artifact.
     Inr (PDict [(''id'', profile_id), (''version'', version), (''sha256'', artifact),
       (''resolvedCanonicalJsonSha256'', PStr digest)])))))"

definition run_identities :: "(string \<Rightarrow> string) \<Rightarrow> pydict \<Rightarrow> pyval res" where
  "run_identities scrub profile =
     ebind (item profile ''image'') (\<lambda>img. ebind (item profile ''corpus'') (\<lambda>corpus.
     ebind (item profile ''program'') (\<lambda>program. ebind (item profile ''validator'') (\<lambda>validator.
     ebind (item profile ''targets'') (\<lambda>v. ebind (dict_items_of v) (\<lambda>targets.
     Inr (redact scrub (PDict [(''image'', img), (''corpus'', corpus), (''program'', program), (''validator'', validator),
       (''targets'', PList (map (\<lambda>t. PDict (public_target scrub t)) targets))]))))))))"

definition RAW_SCHEMA :: string where "RAW_SCHEMA = ''openprose.benchmark-raw/1''"
definition CALCULATION_VERSION :: string where "CALCULATION_VERSION = ''openprose-benchmark-calculation/2''"

definition run_report ::
  "(pyval \<Rightarrow> string) \<Rightarrow> (string \<Rightarrow> string) \<Rightarrow> pydict \<Rightarrow> pydict \<Rightarrow> pydict \<Rightarrow> nat \<Rightarrow> bench_state \<Rightarrow> pydict res" where
  "run_report render scrub profile policy machine planned s =
     ebind (policy_identity profile policy) (\<lambda>policy_id.
     ebind (profile_identity profile) (\<lambda>profile_id.
     ebind (item profile ''semanticStatus'') (\<lambda>semantic.
     ebind (image_is_sentinel render profile) (\<lambda>sentinel.
     ebind (run_identities scrub profile) (\<lambda>identities.
     Inr [(''schema'', PStr RAW_SCHEMA), (''calculationVersion'', PStr CALCULATION_VERSION),
       (''policy'', policy_id), (''profile'', profile_id), (''machine'', redact scrub (PDict machine)),
       (''qualification'', PDict [(''machineQualified'', PBool (py_truth (get_default machine ''qualified'' (PBool False)))),
          (''retryAccountingTrusted'', PBool (rs_retry_trusted s \<and> rs_visibility_complete s)),
          (''retryVisibilityComplete'', PBool (rs_visibility_complete s)), (''releaseEligible'', PBool False)]),
       (''claims'', PDict [(''releaseEligible'', PBool False), (''semanticStatus'', semantic), (''proseComplete'', PBool False),
          (''surfaceComparison'', PStr ''within-surface-only''), (''sentinelOnly'', PBool sentinel)]),
       (''identities'', identities), (''plannedTrials'', PInt (int planned)),
       (''trials'', PList (map PDict (rs_trials s))), (''accounting'', accounting_record s), (''stop'', stop_record s)])))))"

definition bench_index :: "pydict \<Rightarrow> string \<Rightarrow> (string \<times> pydict) list res" where
  "bench_index profile k = ebind (item profile k) (\<lambda>v. ebind (dict_items_of v) (\<lambda>ds. index_by_id ds []))"

definition run_setup :: "pydict \<Rightarrow> pydict \<Rightarrow> string \<Rightarrow> pydict \<Rightarrow> run_env res" where
  "run_setup profile policy boundary context =
     ebind (bench_index profile ''targets'') (\<lambda>targets.
     ebind (bench_index profile ''actions'') (\<lambda>actions.
     ebind (item profile ''stopConditions'') (\<lambda>v.
     checked (guard (is_dict v) TypeErr)
     (ebind (item (dict_of v) ''maximumAuthoritativeCostUsd'') (\<lambda>c. ebind (py_float c) (\<lambda>maximum_cost.
      ebind (item (dict_of v) ''maximumTimeouts'') (\<lambda>t. ebind (int_of_number t) (\<lambda>maximum_timeouts.
      checked (guard (boundary \<in> {''subprocess'', ''synthetic-in-process''})
        (ValueErr (''unsupported driver execution boundary: '' @ boundary)))
      (Inr \<lparr>re_profile = profile, re_policy = policy, re_targets = targets, re_actions = actions, re_context = context,
         re_boundary = boundary, re_maximum_cost = maximum_cost, re_maximum_timeouts = maximum_timeouts\<rparr>)))))))))"

definition run_benchmark ::
  "(pyval \<Rightarrow> string) \<Rightarrow> (string \<Rightarrow> string) \<Rightarrow> (int \<Rightarrow> 'r) \<Rightarrow> 'r randbelow \<Rightarrow> pydict \<Rightarrow> pydict \<Rightarrow> 'd driver \<Rightarrow>
   string \<Rightarrow> pydict \<Rightarrow> pydict \<Rightarrow> 'd \<Rightarrow> pydict res \<times> 'd" where
  "run_benchmark render scrub seeded randbelow profile policy driver boundary machine context d =
     (case checked (validate_profile_claims profile)
         (ebind (build_schedule render seeded randbelow profile policy) (\<lambda>plans.
          ebind (run_setup profile policy boundary context) (\<lambda>env. Inr (plans, env)))) of
        Inl e \<Rightarrow> (Inl e, d)
      | Inr (plans, env) \<Rightarrow>
          (case run_trials scrub env driver plans initial_run d of
             (Inl e, d') \<Rightarrow> (Inl e, d')
           | (Inr s, d') \<Rightarrow> (run_report render scrub profile policy machine (length plans) s, d')))"

section \<open>Drivers\<close>

text \<open>\<open>FakeDriver\<close>: the outcomes that are left and the invocations so far.\<close>

definition fake_driver :: "(observation list \<times> invocation list) driver" where
  "fake_driver = (\<lambda>iv (outcomes, invocations).
     (case outcomes of
        [] \<Rightarrow> (ebind (float_of_int (int (length invocations) + 1)) (\<lambda>wall.
                Inr (observation_success wall [] [] ''unavailable'' PNone PNone PNone PNone)), ([], invocations @ [iv]))
      | ob # rest \<Rightarrow> (Inr ob, (rest, invocations @ [iv]))))"

definition command_as_driver :: "(pyval \<Rightarrow> string) \<Rightarrow> nat \<Rightarrow> string \<Rightarrow> string \<Rightarrow> ('d \<Rightarrow> spawner \<times> 'd) \<Rightarrow> 'd driver" where
  "command_as_driver render limit os_name getcwd next_world =
     (\<lambda>iv d. case next_world d of (spawn, d') \<Rightarrow> (command_invoke render limit os_name getcwd spawn iv, d'))"

text \<open>Any driver with a log of its invocations.\<close>

definition logged :: "'d driver \<Rightarrow> (invocation list \<times> 'd) driver" where
  "logged driver = (\<lambda>iv (log, d). case driver iv d of (r, d') \<Rightarrow> (r, (log @ [iv], d')))"

section \<open>Which trials count\<close>

text \<open>
  \<open>_trial_success_eligible\<close> of a recorded trial. The text of a process status that is no string is never
  \<open>success\<close>; the empty text stands for it.
\<close>

definition trial_success_eligible :: "pydict \<Rightarrow> bool res" where
  "trial_success_eligible trial =
     (let boundary = dget trial ''executionBoundary'';
          kind = (if is_dict boundary then dget (dict_of boundary) ''kind'' else PStr ''subprocess'');
          recorded = dget trial ''processEvidenceValidation'';
          evidence = dget trial ''processEvidence'' in
      if dget trial ''status'' \<noteq> PStr ''success'' \<or> dget trial ''wallMs'' = PNone then Inr False
      else if kind = PStr ''synthetic-in-process'' then
        Inr (is_dict recorded \<and> dget (dict_of recorded) ''status'' = PStr ''not-applicable'' \<and>
             dget (dict_of recorded) ''reason'' = PStr ''synthetic-in-process-no-subprocess'')
      else if kind \<noteq> PStr ''subprocess'' then Inr False
      else ebind (process_evidence_validation ''subprocess''
             (str_of (get_default trial ''processStatus'' (dget trial ''status'')))
             (if is_dict evidence then evidence else PNone)) (\<lambda>v. Inr (dget v ''status'' = PStr ''passed'')))"

end
