(* ===== verification/Rig_Driver.thy ===== *)
theory Rig_Driver
  imports Rig_Validation
begin

text \<open>
  What the command driver reports: its evidence always passes the validation, and a reported success is that of a child
  that exited with 0 and whose two streams were read to their ends, kept up to the limit.
\<close>

section \<open>The evidence passes\<close>

definition steps_ok :: "ev_step list \<Rightarrow> bool" where
  "steps_ok xs \<longleftrightarrow> list_all (\<lambda>x. x = Inr None) xs"

lemma steps_ok_simps [simp]:
  "steps_ok []" "steps_ok (x # xs) \<longleftrightarrow> x = Inr None \<and> steps_ok xs" "steps_ok (xs @ ys) \<longleftrightarrow> steps_ok xs \<and> steps_ok ys"
  by (auto simp: steps_ok_def)

lemma authority_of: "\<exists>a. dget (process_containment_capability name) ''authority'' = PStr a"
  by (simp add: process_containment_capability_def)

lemma containment_steps_ok: "steps_ok (containment_steps (PDict (process_containment_capability name)))"
proof (cases "name = ''nt''")
  case True
  have "steps_ok (containment_steps (PDict (process_containment_capability ''nt'')))" by code_simp
  with True show ?thesis by simp
next
  case False
  then have "process_containment_capability name = process_containment_capability ''posix''"
    by (simp add: process_containment_capability_def)
  moreover have "steps_ok (containment_steps (PDict (process_containment_capability ''posix'')))" by code_simp
  ultimately show ?thesis by simp
qed

lemma no_cleanup_ok: "steps_ok (cleanup_steps containment (PDict no_cleanup))"
  by (simp add: cleanup_steps_def no_cleanup_def has_fields_def keys_within_def Let_def)

lemma cleanup_record_ok:
  assumes "dget containment ''authority'' = PStr a" "key = ''signals'' \<or> key = ''actions''"
  shows "steps_ok (cleanup_steps containment (PDict (cleanup_record containment settled key entries)))"
  using assms by (auto simp: cleanup_steps_def cleanup_record_def has_fields_def keys_within_def Let_def list_all_iff)

text \<open>The clean-up the driver records is none, or that of an attempt to end the child.\<close>

definition recorded_cleanup :: "pydict \<Rightarrow> pydict \<Rightarrow> bool" where
  "recorded_cleanup containment cleanup \<longleftrightarrow> cleanup = no_cleanup \<or>
     (\<exists>settled key entries. (key = ''signals'' \<or> key = ''actions'') \<and> cleanup = cleanup_record containment settled key entries)"

lemma terminate_recorded:
  "terminate_process_group os_name w t containment = Inr cleanup \<Longrightarrow> recorded_cleanup containment cleanup"
  unfolding terminate_process_group_def recorded_cleanup_def Let_def
  by (cases "os_name = ''nt''") (auto simp: ebind_eq_Inr)

lemma driver_cleanup_recorded:
  "driver_cleanup limit os_name w containment = Inr cleanup \<Longrightarrow> recorded_cleanup containment cleanup"
  unfolding driver_cleanup_def using terminate_recorded recorded_cleanup_def by (metis Inr_inject)

lemma recorded_cleanup_ok:
  assumes "dget containment ''authority'' = PStr a" "recorded_cleanup containment cleanup"
  shows "steps_ok (cleanup_steps containment (PDict cleanup))"
  using assms(2) no_cleanup_ok cleanup_record_ok [OF assms(1)] unfolding recorded_cleanup_def by blast

lemma settlement_ok:
  assumes "dget containment ''authority'' = PStr a" "recorded_cleanup containment cleanup" "[] \<notin> set errors"
  shows "steps_ok (settlement_steps containment (PDict (settlement_evidence containment exited out err errors cleanup)))"
proof -
  have c: "steps_ok (cleanup_steps containment (PDict cleanup))" by (rule recorded_cleanup_ok [OF assms(1, 2)])
  have "list_all nonempty_str (map PStr errors)" using assms(3) by (auto simp: list_all_iff nonempty_str_def)
  with c assms(1) show ?thesis
    by (simp add: settlement_steps_def settlement_evidence_def outcome_steps_def computed_success_def settlement_fields_def
        has_fields_def keys_within_def Let_def)
qed

lemma settlement_success:
  "dget (settlement_evidence containment exited out err errors cleanup) ''allowsSuccessfulTrial'' =
     PBool (exited \<and> out \<and> err \<and> errors = [] \<and> settled_cleanup (dget cleanup ''status''))"
  by (simp add: settlement_evidence_def Let_def)

lemma evidence_passes:
  assumes "steps_ok (settlement_steps (process_containment_capability name) (PDict settlement))"
    "status = ''success'' \<Longrightarrow> dget settlement ''allowsSuccessfulTrial'' = PBool True"
  shows "process_evidence_validation ''subprocess'' status (process_evidence_of (process_containment_capability name) settlement) =
    Inr (verdict ''passed'' ''complete-consistent-process-evidence'')"
proof -
  have "steps_ok (evidence_steps status (process_evidence_of (process_containment_capability name) settlement))"
    using assms containment_steps_ok [of name] by (auto simp: evidence_steps_def process_evidence_of_def keys_within_def Let_def)
  then show ?thesis by (simp add: passed_iff steps_ok_def)
qed

section \<open>What the readers keep\<close>

text \<open>The bytes a reader has read, and whether it has left its loop at the end of the stream.\<close>

fun streamed :: "pipe_event list \<Rightarrow> string" where
  "streamed [] = []"
| "streamed (Pipe_chunk chunk # evs) = (if chunk = [] then [] else chunk @ streamed evs)"
| "streamed (Pipe_failure initial name # evs) = []"
| "streamed (Thread_end # evs) = streamed evs"

fun read_to_end :: "pipe_event list \<Rightarrow> bool" where
  "read_to_end [] = False"
| "read_to_end (Pipe_chunk chunk # evs) = (chunk = [] \<or> read_to_end evs)"
| "read_to_end (Pipe_failure initial name # evs) = False"
| "read_to_end (Thread_end # evs) = read_to_end evs"

definition kept :: "nat \<Rightarrow> string \<Rightarrow> capture \<Rightarrow> bool" where
  "kept limit bytes c \<longleftrightarrow> cap_maximum c = limit \<and> concat (cap_parts c) = take limit bytes \<and>
     cap_stored c = min limit (length bytes) \<and> cap_total c = length bytes"

lemma kept_new: "kept limit [] (new_capture limit)"
  by (simp add: kept_def new_capture_def)

lemma kept_add: "kept limit bytes c \<Longrightarrow> kept limit (bytes @ chunk) (capture_add chunk c)"
  by (auto simp: kept_def capture_add_def Let_def min_def nat_diff_distrib)

lemma kept_error: "kept limit bytes (c\<lparr>cap_reader_error := e\<rparr>) = kept limit bytes c"
  by (simp add: kept_def)

lemma error_add [simp]: "cap_reader_error (capture_add chunk c) = cap_reader_error c"
  by (simp add: capture_add_def Let_def)

lemma left_stays: "ph \<noteq> Draining \<Longrightarrow> fst (fold drain_turn evs (c, ph)) = c \<and> snd (fold drain_turn evs (c, ph)) \<noteq> Draining"
proof (induction evs arbitrary: ph)
  case (Cons ev evs)
  then show ?case by (cases ev; cases ph) auto
qed simp

lemma ended_stays: "fold drain_turn evs (c, Ended) = (c, Ended)"
proof (induction evs)
  case (Cons ev evs)
  then show ?case by (cases ev) auto
qed simp

lemma drain_kept:
  assumes "kept limit bytes c"
  shows "kept limit (bytes @ streamed evs) (fst (fold drain_turn evs (c, Draining)))"
  using assms
proof (induction evs arbitrary: bytes c)
  case (Cons ev evs)
  show ?case
  proof (cases ev)
    case (Pipe_chunk chunk)
    with Cons.prems Cons.IH [OF kept_add [OF Cons.prems, of chunk]] left_stays [of Leaving evs c] show ?thesis by simp
  next
    case (Pipe_failure initial name)
    with Cons.prems left_stays [of Leaving evs "c\<lparr>cap_reader_error := Some (initial # name)\<rparr>"] show ?thesis by (simp add: kept_error)
  next
    case Thread_end
    with Cons show ?thesis by simp
  qed
qed simp

text \<open>A reader that has left without an error has read its stream to the end.\<close>

lemma drain_left:
  assumes "snd (fold drain_turn evs (c, Draining)) \<noteq> Draining" "cap_reader_error (fst (fold drain_turn evs (c, Draining))) = None"
  shows "read_to_end evs"
  using assms
proof (induction evs arbitrary: c)
  case (Cons ev evs)
  show ?case
  proof (cases ev)
    case (Pipe_chunk chunk)
    with Cons.prems Cons.IH [of "capture_add chunk c"] show ?thesis by (cases "chunk = []") simp_all
  next
    case (Pipe_failure initial name)
    with Cons.prems(2) left_stays [of Leaving evs "c\<lparr>cap_reader_error := Some (initial # name)\<rparr>"] show ?thesis by simp
  next
    case Thread_end
    with Cons.prems Cons.IH [of c] show ?thesis by simp
  qed
qed simp

lemma events_until_add: "events_until evs (t + k) = events_until evs t @ concat (map evs [t..<t + k])"
  unfolding events_until_def by (subst upt_add_eq_append) simp_all

lemma ended_reader:
  assumes "\<not> is_alive limit evs t" "t \<le> u"
  shows "reader_at limit evs u = reader_at limit evs t"
proof -
  obtain k where "u = t + k" using assms(2) by (auto simp: le_iff_add)
  then have "reader_at limit evs u = fold drain_turn (concat (map evs [t..<t + k])) (reader_at limit evs t)"
    by (simp add: reader_at_def drain_pipe_def events_until_add)
  moreover have "reader_at limit evs t = (fst (reader_at limit evs t), Ended)"
    using assms(1) by (metis is_alive_def prod.collapse)
  ultimately show ?thesis by (metis ended_stays)
qed

section \<open>The driver\<close>

text \<open>The class of an exception has a name.\<close>

lemma drain_error_named:
  "cap_reader_error c \<noteq> Some [] \<Longrightarrow> cap_reader_error (fst (fold drain_turn evs (c, ph))) \<noteq> Some []"
proof (induction evs arbitrary: c ph)
  case (Cons ev evs)
  have "drain_turn ev (c, ph) = (fst (drain_turn ev (c, ph)), snd (drain_turn ev (c, ph)))" by simp
  moreover have "cap_reader_error (fst (drain_turn ev (c, ph))) \<noteq> Some []"
    using Cons.prems by (cases ev; cases ph) auto
  ultimately show ?case using Cons.IH by (metis fold_simps(2))
qed simp

lemma reader_error_named: "cap_reader_error (fst (reader_at limit evs t)) \<noteq> Some []"
  unfolding reader_at_def drain_pipe_def by (rule drain_error_named) (simp add: new_capture_def)

lemma reader_errors_named: "[] \<notin> set (reader_errors_of (fst (reader_at limit (ow_stdout w) t)) (fst (reader_at limit (ow_stderr w) t)))"
  using reader_error_named [of limit "ow_stdout w" t] reader_error_named [of limit "ow_stderr w" t]
  by (auto simp: reader_errors_of_def split: option.splits)

lemma spawn_failed_passes:
  "process_evidence_validation ''subprocess'' ''failure''
     (ob_process_evidence (spawn_failed (process_containment_capability name) w e)) =
   Inr (verdict ''passed'' ''complete-consistent-process-evidence'')"
proof -
  obtain a where a: "dget (process_containment_capability name) ''authority'' = PStr a" using authority_of by blast
  show ?thesis unfolding spawn_failed_def
    by (simp, rule evidence_passes)
      (use a no_cleanup_ok in \<open>simp_all add: settlement_steps_def outcome_steps_def settlement_fields_def has_fields_def
        keys_within_def no_cleanup_def Let_def\<close>)
qed

lemma run_child_Inr:
  assumes "run_child limit os_name w stdin_json = Inr ob"
  obtains e where "ow_spawn_error w = Some e" "ob = spawn_failed (process_containment_capability os_name) w e"
  | cleanup where "ow_spawn_error w = None"
      "driver_cleanup limit os_name w (process_containment_capability os_name) = Inr cleanup"
      "ob = driver_observation limit w (process_containment_capability os_name)
        (driver_settlement limit w (process_containment_capability os_name) cleanup)"
  using assms by (auto simp: run_child_def Let_def ebind_eq_Inr split: option.splits)

lemma driver_observation_evidence: "ob_process_evidence (driver_observation limit w containment settlement) =
    process_evidence_of containment settlement"
  by (simp add: driver_observation_def Let_def split: option.split)

lemma driver_observation_success:
  assumes "ob_status (driver_observation limit w containment settlement) = ''success''"
  shows "poll w 1 = Some 0" "py_truth (dget settlement ''allowsSuccessfulTrial'')"
  using assms by (auto simp: driver_observation_def new_observation_def Let_def split: option.splits if_splits)

lemma driver_evidence_passes:
  assumes "run_child limit os_name w stdin_json = Inr ob"
  shows "process_evidence_validation ''subprocess'' (ob_status ob) (ob_process_evidence ob) =
    Inr (verdict ''passed'' ''complete-consistent-process-evidence'')"
  using assms
proof (cases rule: run_child_Inr)
  case (1 e)
  then show ?thesis using spawn_failed_passes by (simp add: spawn_failed_def new_observation_def)
next
  case (2 cleanup)
  let ?c = "process_containment_capability os_name"
  obtain a where "dget ?c ''authority'' = PStr a" using authority_of by blast
  then have "steps_ok (settlement_steps ?c (PDict (driver_settlement limit w ?c cleanup)))"
    unfolding driver_settlement_def
    by (rule settlement_ok) (use driver_cleanup_recorded [OF 2(2)] reader_errors_named in simp_all)
  moreover have "dget (driver_settlement limit w ?c cleanup) ''allowsSuccessfulTrial'' = PBool True"
    if "ob_status ob = ''success''"
    using driver_observation_success(2) [of limit w ?c "driver_settlement limit w ?c cleanup"] that 2(3)
    by (simp add: driver_settlement_def settlement_success)
  ultimately show ?thesis using 2(3) by (simp add: driver_observation_evidence evidence_passes)
qed

text \<open>A stream of a settled command: read to its end, and captured up to the limit.\<close>

lemma settled_stream:
  assumes "\<not> is_alive limit evs t" "t \<le> u" "u \<le> 27" "cap_reader_error (fst (reader_at limit evs u)) = None"
  shows "read_to_end (events_until evs 27)"
    "cap_text (fst (reader_at limit evs 27)) = utf8_replace (take limit (streamed (events_until evs 27)))"
    "cap_truncated (fst (reader_at limit evs 27)) \<longleftrightarrow> limit < length (streamed (events_until evs 27))"
proof -
  have same: "reader_at limit evs 27 = reader_at limit evs u"
    using ended_reader [OF assms(1), of u] ended_reader [OF assms(1), of 27] assms(2, 3) by simp
  have "snd (reader_at limit evs 27) \<noteq> Draining"
    using ended_reader [OF assms(1), of 27] assms(1-3) by (simp add: is_alive_def)
  with assms(4) same show "read_to_end (events_until evs 27)"
    unfolding reader_at_def drain_pipe_def by (metis drain_left)
  have "kept limit (streamed (events_until evs 27)) (fst (reader_at limit evs 27))"
    using drain_kept [OF kept_new, of limit "events_until evs 27"] by (simp add: reader_at_def drain_pipe_def)
  then show "cap_text (fst (reader_at limit evs 27)) = utf8_replace (take limit (streamed (events_until evs 27)))"
    "cap_truncated (fst (reader_at limit evs 27)) \<longleftrightarrow> limit < length (streamed (events_until evs 27))"
    by (auto simp: kept_def cap_text_def cap_truncated_def)
qed

lemma no_reader_errors: "reader_errors_of c d = [] \<longleftrightarrow> cap_reader_error c = None \<and> cap_reader_error d = None"
  by (auto simp: reader_errors_of_def split: option.splits)

definition complete_stream :: "nat \<Rightarrow> pipe_event list \<Rightarrow> string \<Rightarrow> bool" where
  "complete_stream limit evs captured \<longleftrightarrow> read_to_end evs \<and> captured = utf8_replace (take limit (streamed evs))"

lemma driver_success:
  assumes "run_child limit os_name w stdin_json = Inr ob" "ob_status ob = ''success''"
  shows "ow_spawn_error w = None" "poll w 1 = Some 0"
    "complete_stream limit (events_until (ow_stdout w) 27) (ob_stdout ob)"
    "complete_stream limit (events_until (ow_stderr w) 27) (ob_stderr ob)"
    "ob_output_truncated ob \<longleftrightarrow> limit < length (streamed (events_until (ow_stdout w) 27)) \<or>
       limit < length (streamed (events_until (ow_stderr w) 27))"
proof -
  let ?c = "process_containment_capability os_name"
  from assms obtain cleanup where ow: "ow_spawn_error w = None"
    and ob: "ob = driver_observation limit w ?c (driver_settlement limit w ?c cleanup)"
    by (elim run_child_Inr) (simp_all add: spawn_failed_def new_observation_def)
  from driver_observation_success assms(2) ob have polled: "poll w 1 = Some 0" by blast
  have allowed: "py_truth (dget (driver_settlement limit w ?c cleanup) ''allowsSuccessfulTrial'')"
    using driver_observation_success assms(2) ob by blast
  then have settled: "\<not> is_alive limit (ow_stdout w) 24" "\<not> is_alive limit (ow_stderr w) 25"
    "cap_reader_error (fst (reader_at limit (ow_stdout w) 26)) = None"
    "cap_reader_error (fst (reader_at limit (ow_stderr w) 26)) = None"
    by (simp_all add: driver_settlement_def settlement_success no_reader_errors)
  note out = settled_stream [OF settled(1) _ _ settled(3)] and err = settled_stream [OF settled(2) _ _ settled(4)]
  have "ob_stdout ob = cap_text (fst (reader_at limit (ow_stdout w) 27))"
    "ob_stderr ob = cap_text (fst (reader_at limit (ow_stderr w) 27))"
    "ob_output_truncated ob \<longleftrightarrow> cap_truncated (fst (reader_at limit (ow_stdout w) 27)) \<or>
       cap_truncated (fst (reader_at limit (ow_stderr w) 27))"
    using polled by (simp_all add: ob driver_observation_def new_observation_def Let_def)
  with out err ow polled show "ow_spawn_error w = None" "poll w 1 = Some 0"
    "complete_stream limit (events_until (ow_stdout w) 27) (ob_stdout ob)"
    "complete_stream limit (events_until (ow_stderr w) 27) (ob_stderr ob)"
    "ob_output_truncated ob \<longleftrightarrow> limit < length (streamed (events_until (ow_stdout w) 27)) \<or>
       limit < length (streamed (events_until (ow_stderr w) 27))"
    by (simp_all add: complete_stream_def)
qed

end
