(* ===== verification/Rig_Run.thy ===== *)
theory Rig_Run
  imports Rig_Trials Rig_Driver
begin

text \<open>
  What a run of the benchmark records: one trial per plan, executed until a limit is reached and not run after it,
  with counters that agree with the trials; and that a trial counts for the latencies exactly when it is recorded as
  a success.
\<close>

section \<open>The loop\<close>

definition limits_reached :: "run_env \<Rightarrow> bench_state \<Rightarrow> bool" where
  "limits_reached env s \<longleftrightarrow> float_leq (re_maximum_cost env) (rs_cost s) \<or> re_maximum_timeouts env \<le> int (rs_timeouts s)"

definition trial_has_status :: "string \<Rightarrow> pydict \<Rightarrow> bool" where
  "trial_has_status status trial \<longleftrightarrow> dget trial ''status'' = PStr status"

text \<open>The first \<open>k\<close> plans have been invoked, the others recorded as not run.\<close>

definition run_inv :: "run_env \<Rightarrow> trial_plan list \<Rightarrow> bench_state \<Rightarrow> invocation list \<Rightarrow> nat \<Rightarrow> bool" where
  "run_inv env finished s calls k \<longleftrightarrow> k \<le> length finished \<and> map iv_plan calls = take k finished \<and>
     length (rs_trials s) = length finished \<and>
     list_all (\<lambda>t. \<not> trial_has_status ''not-run'' t) (take k (rs_trials s)) \<and>
     list_all (trial_has_status ''not-run'') (drop k (rs_trials s)) \<and>
     map (\<lambda>t. dget t ''ordinal'') (rs_trials s) = map (\<lambda>p. PInt (int (tp_ordinal p))) finished \<and>
     rs_timeouts s = length (filter (trial_has_status ''timeout'') (rs_trials s)) \<and>
     rs_unavailable_cost s = length (filter (\<lambda>t. dget (dict_of (dget t ''cost'')) ''status'' = PStr ''unavailable'') (take k (rs_trials s))) \<and>
     int (rs_timeouts s) \<le> re_maximum_timeouts env \<and>
     (rs_stop_reason s \<noteq> None \<longleftrightarrow> limits_reached env s) \<and> (rs_stop_reason s = None \<longrightarrow> k = length finished)"

lemma dget_plan [simp]:
  "dget (plan_record p @ more_fields) ''status'' = dget more_fields ''status''"
  "dget (plan_record p @ more_fields) ''cost'' = dget more_fields ''cost''"
  "dget (plan_record p @ more_fields) ''ordinal'' = PInt (int (tp_ordinal p))"
  "dget (plan_record p @ more_fields) ''wallMs'' = dget more_fields ''wallMs''"
  "dget (plan_record p @ more_fields) ''executionBoundary'' = dget more_fields ''executionBoundary''"
  "dget (plan_record p @ more_fields) ''processEvidence'' = dget more_fields ''processEvidence''"
  "dget (plan_record p @ more_fields) ''processEvidenceValidation'' = dget more_fields ''processEvidenceValidation''"
  "dget (plan_record p @ more_fields) ''processStatus'' = dget more_fields ''processStatus''"
  by (simp_all add: plan_record_def)

lemma not_run_fields:
  assumes "not_run_trial env p reason = Inr trial"
  shows "trial_has_status ''not-run'' trial" "\<not> trial_has_status ''timeout'' trial" "dget trial ''ordinal'' = PInt (int (tp_ordinal p))"
  using assms by (auto simp: not_run_trial_def ebind_eq_Inr trial_has_status_def)

lemma executed_fields:
  assumes "executed_trial scrub env p ob validation evidence_verdict = Inr trial"
  shows "dget trial ''status'' = PStr (effective_status ob validation evidence_verdict)"
    "dget trial ''processStatus'' = PStr (ob_status ob)" "has_key trial ''processStatus''"
    "dget trial ''wallMs'' = PFloat (float_round 6 (ob_wall_ms ob))"
    "dget trial ''executionBoundary'' = boundary_record (re_boundary env)"
    "dget trial ''processEvidence'' = redact scrub (if ob_process_evidence ob \<noteq> PNone then ob_process_evidence ob else unavailable_evidence)"
    "dget trial ''processEvidenceValidation'' = PDict evidence_verdict"
    "dget (dict_of (dget trial ''cost'')) ''status'' = PStr (ob_cost_status ob)"
    "dget trial ''ordinal'' = PInt (int (tp_ordinal p))"
  using assms by (auto simp: executed_trial_def Let_def ebind_eq_Inr has_key_iff)

lemma account_Inr:
  assumes "account env ob status trial s = Inr s'"
  shows "rs_trials s' = rs_trials s @ [trial]"
    "rs_timeouts s' = rs_timeouts s + (if status = ''timeout'' then 1 else 0)"
    "rs_unavailable_cost s' = rs_unavailable_cost s + (if ob_cost_status ob = ''authoritative'' then 0 else 1)"
    "rs_stop_reason s' \<noteq> None \<longleftrightarrow> limits_reached env s' \<or> rs_stop_reason s \<noteq> None"
proof -
  from assms obtain s1 where s1: "(if ob_cost_status ob = ''authoritative''
      then ebind (py_float (ob_cost_usd ob)) (\<lambda>usd. Inr (s\<lparr>rs_cost := float_add (rs_cost s) usd\<rparr>))
      else Inr (s\<lparr>rs_unavailable_cost := rs_unavailable_cost s + 1\<rparr>)) = Inr s1"
    and s': "s' = (let s2 = s1\<lparr>rs_timeouts := rs_timeouts s1 + (if status = ''timeout'' then 1 else 0),
           rs_visibility_complete := rs_visibility_complete s1 \<and> ob_observed_attempts ob \<noteq> PNone,
           rs_retry_trusted := rs_retry_trusted s1 \<and> \<not> hidden_retry ob, rs_trials := rs_trials s1 @ [trial]\<rparr> in
         s2\<lparr>rs_stop_reason := stop_after env s2\<rparr>)"
    unfolding account_def ebind_eq_Inr Let_def by blast
  have kept: "rs_trials s1 = rs_trials s" "rs_timeouts s1 = rs_timeouts s" "rs_stop_reason s1 = rs_stop_reason s"
    "rs_unavailable_cost s1 = rs_unavailable_cost s + (if ob_cost_status ob = ''authoritative'' then 0 else 1)"
    using s1 by (cases "ob_cost_status ob = ''authoritative''"; auto simp: ebind_eq_Inr)+
  show "rs_trials s' = rs_trials s @ [trial]"
    "rs_timeouts s' = rs_timeouts s + (if status = ''timeout'' then 1 else 0)"
    "rs_unavailable_cost s' = rs_unavailable_cost s + (if ob_cost_status ob = ''authoritative'' then 0 else 1)"
    using kept by (simp_all add: s' Let_def)
  show "rs_stop_reason s' \<noteq> None \<longleftrightarrow> limits_reached env s' \<or> rs_stop_reason s \<noteq> None"
    using kept by (simp add: s' Let_def stop_after_def limits_reached_def)
qed

lemma effective_status_values:
  assumes "driver_status_check ob = None"
  shows "effective_status ob validation evidence_verdict \<noteq> ''not-run''" "ob_cost_status ob \<in> {''authoritative'', ''unavailable''}"
  using assms by (auto simp: driver_status_check_def effective_status_def)

lemma settle_trial_Inr:
  assumes "settle_trial scrub env p ob s = Inr s'"
  obtains action target validation evidence_verdict trial where "driver_status_check ob = None"
    "by_id (re_actions env) (tp_action_id p) = Inr action" "by_id (re_targets env) (tp_target_id p) = Inr target"
    "mechanical_validation scrub ob action target (re_profile env) = Inr validation"
    "process_evidence_validation (re_boundary env) (ob_status ob) (ob_process_evidence ob) = Inr evidence_verdict"
    "executed_trial scrub env p ob validation evidence_verdict = Inr trial"
    "account env ob (effective_status ob validation evidence_verdict) trial s = Inr s'"
  using assms unfolding settle_trial_def checked_eq_Inr ebind_eq_Inr by blast

lemma run_trial_cases:
  assumes "run_trial scrub env (logged driver) p s (calls, d) = (Inr s', (calls', d'))"
  obtains reason trial where "rs_stop_reason s = Some reason" "not_run_trial env p reason = Inr trial"
      "s' = s\<lparr>rs_trials := rs_trials s @ [trial]\<rparr>" "calls' = calls"
  | iv ob where "rs_stop_reason s = None" "invocation_for env p = Inr iv" "driver iv d = (Inr ob, d')"
      "settle_trial scrub env p ob s = Inr s'" "calls' = calls @ [iv]"
  using assms unfolding run_trial_def
  by (auto simp: logged_def ebind_eq_Inr split: option.splits sum.splits prod.splits)

lemma invocation_plan: "invocation_for env p = Inr iv \<Longrightarrow> iv_plan iv = p"
  by (auto simp: invocation_for_def ebind_eq_Inr)

lemma run_inv_stopped:
  assumes "run_inv env finished s calls k" "rs_stop_reason s = Some reason" "not_run_trial env p reason = Inr trial"
  shows "run_inv env (finished @ [p]) (s\<lparr>rs_trials := rs_trials s @ [trial]\<rparr>) calls k"
  using assms(1, 2) not_run_fields [OF assms(3)] by (auto simp: run_inv_def limits_reached_def)

lemma run_inv_executed:
  assumes "run_inv env finished s calls k" "rs_stop_reason s = None" "invocation_for env p = Inr iv"
    "settle_trial scrub env p ob s = Inr s'"
  shows "run_inv env (finished @ [p]) s' (calls @ [iv]) (Suc k)"
  using assms(4)
proof (rule settle_trial_Inr)
  fix action target validation evidence_verdict trial
  assume ok: "driver_status_check ob = None"
    and trial: "executed_trial scrub env p ob validation evidence_verdict = Inr trial"
    and acc: "account env ob (effective_status ob validation evidence_verdict) trial s = Inr s'"
  let ?status = "effective_status ob validation evidence_verdict"
  note t = executed_fields [OF trial] and a = account_Inr [OF acc] and st = effective_status_values [OF ok]
  from assms(1, 2) have k: "k = length finished" "length (rs_trials s) = length finished" "map iv_plan calls = finished"
    "\<not> limits_reached env s" by (auto simp: run_inv_def)
  have below: "int (rs_timeouts s') \<le> re_maximum_timeouts env"
    using k(4) by (simp add: a(2) limits_reached_def)
  have cost: "(ob_cost_status ob = ''unavailable'') = (ob_cost_status ob \<noteq> ''authoritative'')" using st(2) by auto
  show ?thesis
    using assms(1, 2) k(1-3) below st(1) [of validation evidence_verdict] t(1, 8, 9) a cost invocation_plan [OF assms(3)]
    by (simp add: run_inv_def trial_has_status_def)
qed

lemma run_trials_inv:
  "run_trials scrub env (logged driver) ps s (calls, d) = (Inr s', (calls', d')) \<Longrightarrow> run_inv env finished s calls k \<Longrightarrow>
   \<exists>k'. run_inv env (finished @ ps) s' calls' k'"
proof (induction ps arbitrary: s calls d finished k)
  case Nil
  then show ?case by auto
next
  case (Cons p ps)
  from Cons.prems(1) obtain s1 calls1 d1 where step: "run_trial scrub env (logged driver) p s (calls, d) = (Inr s1, (calls1, d1))"
    and rest: "run_trials scrub env (logged driver) ps s1 (calls1, d1) = (Inr s', (calls', d'))"
    by (auto split: prod.splits sum.splits)
  from step have "\<exists>k1. run_inv env (finished @ [p]) s1 calls1 k1"
  proof (cases rule: run_trial_cases)
    case (1 reason trial)
    then show ?thesis using run_inv_stopped [OF Cons.prems(2)] by blast
  next
    case (2 iv ob)
    then show ?thesis using run_inv_executed [OF Cons.prems(2)] by blast
  qed
  then obtain k1 where "run_inv env (finished @ [p]) s1 calls1 k1" by blast
  from Cons.IH [OF rest this] show ?case by simp
qed

lemma run_start: "1 \<le> re_maximum_timeouts env \<Longrightarrow> \<not> float_leq (re_maximum_cost env) (FFin 0) \<Longrightarrow> run_inv env [] initial_run [] 0"
  by (simp add: run_inv_def initial_run_def limits_reached_def)

section \<open>Redacted evidence\<close>

text \<open>The words of evidence, which the substitutions of the redaction leave alone.\<close>

definition evidence_words :: "string list" where
  "evidence_words = [''windows'', ''direct-child-only'', ''CREATE_NEW_PROCESS_GROUP-plus-direct-child-terminate'',
     ''native-job-object-process-host-not-integrated'', ''posix'', ''owned-process-group'', ''start-new-session-plus-killpg'',
     ''detached-descendant-containment-not-enforced'', ''settled'', ''not-settled'', ''not-required'']"

definition keeps_words :: "(string \<Rightarrow> string) \<Rightarrow> bool" where
  "keeps_words scrub \<longleftrightarrow> list_all (\<lambda>w. scrub w = w) evidence_words"

definition evidence_keys :: "string list" where
  "evidence_keys = containment_fields @ settlement_fields @
     [''containment'', ''settlement'', ''attempted'', ''signals'', ''actions'']"

lemma open_keys: "k \<in> set evidence_keys \<Longrightarrow> \<not> secret_key k"
proof -
  have "list_all (\<lambda>k. \<not> secret_key k) evidence_keys" by code_simp
  then show "k \<in> set evidence_keys \<Longrightarrow> \<not> secret_key k" by (simp add: list_all_iff)
qed

lemma dget_redact: "k \<in> set evidence_keys \<Longrightarrow> dget (redact_items scrub d) k = redact scrub (dget d k)"
  using open_keys [of k] by (simp add: dget_def map_redact_items split: option.split)

lemma has_key_redact [simp]: "has_key (redact_items scrub d) k = has_key d k"
  by (simp add: has_key_def map_redact_items split: option.split)

lemma keys_redact [simp]: "fst ` set (redact_items scrub d) = fst ` set d"
  by (metis keys_redact_items list.set_map)

lemma keys_within_redact [simp]: "keys_within (redact_items scrub d) ks = keys_within d ks"
  by (simp add: keys_within_iff)

lemma has_fields_redact [simp]: "has_fields (redact_items scrub d) ks = has_fields d ks"
  by (simp add: has_fields_def list_all_iff)

lemma redact_shapes [simp]:
  "is_dict (redact scrub v) = is_dict v" "is_list (redact scrub v) = is_list v" "is_str (redact scrub v) = is_str v"
  by (cases v; simp)+

lemma dict_of_redact [simp]: "dict_of (redact scrub v) = redact_items scrub (dict_of v)"
  by (cases v) simp_all

lemma redact_bool: "is_bool v \<Longrightarrow> redact scrub v = v"
  by (cases v) simp_all

lemma strings_redact: "list_all is_str (list_of v) \<Longrightarrow> list_all is_str (list_of (redact scrub v))"
proof (cases v)
  case (PList xs)
  have "list_all is_str xs \<Longrightarrow> list_all is_str (redact_list scrub xs)" by (induction xs) simp_all
  with PList show "list_all is_str (list_of v) \<Longrightarrow> list_all is_str (list_of (redact scrub v))" by simp
qed simp_all

lemma platform_value:
  assumes "name = ''nt'' \<or> name = ''posix''" "k \<in> set containment_fields" "keeps_words scrub"
  obtains s where "dget (process_containment_capability name) k = PStr s" "scrub s = s"
  | b where "dget (process_containment_capability name) k = PBool b"
proof -
  have "list_all (\<lambda>name. list_all (\<lambda>k. case dget (process_containment_capability name) k of
      PStr s \<Rightarrow> s \<in> set evidence_words | PBool b \<Rightarrow> True | _ \<Rightarrow> False) containment_fields) [''nt'', ''posix'']" by code_simp
  then have "case dget (process_containment_capability name) k of
      PStr s \<Rightarrow> s \<in> set evidence_words | PBool b \<Rightarrow> True | _ \<Rightarrow> False"
    using assms(1, 2) by (auto simp only: list_all_iff list.set insert_iff empty_iff)
  then show thesis
    using assms(3) that by (auto simp: keeps_words_def list_all_iff split: pyval.splits)
qed

lemma platform_words:
  assumes "name = ''nt'' \<or> name = ''posix''" "k \<in> set containment_fields" "keeps_words scrub"
  shows "redact scrub (dget (process_containment_capability name) k) = dget (process_containment_capability name) k"
  using platform_value [OF assms] by (metis redact.simps(3, 5))

lemma platform_eq:
  assumes "name = ''nt'' \<or> name = ''posix''" "k \<in> set containment_fields" "keeps_words scrub"
    "py_eq v (dget (process_containment_capability name) k)"
  shows "py_eq (redact scrub v) (dget (process_containment_capability name) k)"
proof (rule platform_value [OF assms(1-3)])
  fix s assume "dget (process_containment_capability name) k = PStr s" "scrub s = s"
  with assms(4) show ?thesis by simp
next
  fix b assume b: "dget (process_containment_capability name) k = PBool b"
  with assms(4) show ?thesis by (cases v) simp_all
qed

lemma items_redact:
  assumes "name = ''nt'' \<or> name = ''posix''" "keeps_words scrub" "py_eq_items c (process_containment_capability name)"
    "list_all (\<lambda>(k, v). k \<in> set containment_fields) c"
  shows "py_eq_items (redact_items scrub c) (process_containment_capability name)"
  using assms(3, 4)
proof (induction c)
  case (Cons kv c)
  obtain k v where kv: "kv = (k, v)" by (cases kv)
  with Cons.prems obtain w where w: "k \<in> set containment_fields" "map_of (process_containment_capability name) k = Some w" "py_eq v w"
    by (auto split: option.splits)
  then have "dget (process_containment_capability name) k = w" by (simp add: dget_def)
  with w have "py_eq (redact scrub v) w" using platform_eq [OF assms(1) w(1) assms(2)] by simp
  moreover have "\<not> secret_key k" using w(1) by (intro open_keys) (simp add: evidence_keys_def)
  ultimately show ?case using Cons w kv by simp
qed simp

lemma containment_redact:
  assumes "steps_ok (containment_steps (PDict c))" "keeps_words scrub"
  shows "steps_ok (containment_steps (PDict (redact_items scrub c)))"
    "\<forall>k \<in> set containment_fields. dget (redact_items scrub c) k = dget c k"
proof -
  from containment_passed(2) [OF assms(1) [unfolded steps_ok_def]] obtain name where name: "name = ''nt'' \<or> name = ''posix''"
    and at: "\<forall>k \<in> set containment_fields. dget c k = dget (process_containment_capability name) k" by auto
  have same: "dget (redact_items scrub c) k = dget c k" if "k \<in> set containment_fields" for k
  proof -
    have "k \<in> set evidence_keys" using that by (simp add: evidence_keys_def)
    then show ?thesis using platform_words [OF name that assms(2)] at that by (simp add: dget_redact)
  qed
  then show "\<forall>k \<in> set containment_fields. dget (redact_items scrub c) k = dget c k" by blast
  let ?e = "process_containment_capability (if dget c ''platformFamily'' = PStr ''windows'' then ''nt'' else ''posix'')"
  have fields: "dget (redact_items scrub c) ''platformFamily'' = dget c ''platformFamily''"
    "dget (redact_items scrub c) ''authority'' = dget c ''authority''" "dget (redact_items scrub c) ''mechanism'' = dget c ''mechanism''"
    "dget (redact_items scrub c) ''releaseContainmentSupported'' = dget c ''releaseContainmentSupported''"
    "dget (redact_items scrub c) ''nativeHelperRequired'' = dget c ''nativeHelperRequired''"
    "dget (redact_items scrub c) ''blocker'' = dget c ''blocker''"
    by (rule same, simp add: containment_fields_def)+
  from assms(1) have known: "keys_within c containment_fields" "py_eq (PDict c) (PDict ?e)"
    by (simp_all add: containment_steps_def expected_containment_def Let_def)
  have "py_eq_items (redact_items scrub c) ?e"
    by (rule items_redact) (use known assms(2) in \<open>auto simp: keys_within_def\<close>)
  moreover have "length (redact_items scrub c) = length c" by (metis keys_redact_items length_map)
  ultimately have "py_eq (PDict (redact_items scrub c)) (PDict ?e)" using known(2) by simp
  with assms(1) show "steps_ok (containment_steps (PDict (redact_items scrub c)))"
    by (simp add: containment_steps_def expected_containment_def fields Let_def)
qed

lemma status_word: "keeps_words scrub \<Longrightarrow> settled_cleanup v \<Longrightarrow> redact scrub v = v"
  by (auto simp: settled_cleanup_def str_in_iff keeps_words_def evidence_words_def)

lemma cleanup_redact:
  assumes "steps_ok (cleanup_steps c (PDict cl))" "settled_cleanup (dget cl ''status'')" "keeps_words scrub"
    "dget c ''authority'' = PStr a" "scrub a = a" "dget c' ''authority'' = PStr a"
  shows "steps_ok (cleanup_steps c' (PDict (redact_items scrub cl)))"
    "dget (redact_items scrub cl) ''status'' = dget cl ''status''"
proof -
  have keys: "''attempted'' \<in> set evidence_keys" "''status'' \<in> set evidence_keys" "''authority'' \<in> set evidence_keys"
    "''signals'' \<in> set evidence_keys" "''actions'' \<in> set evidence_keys"
    by (simp_all add: evidence_keys_def containment_fields_def settlement_fields_def)
  from assms(1) have cl: "is_bool (dget cl ''attempted'')"
    "py_truth (dget cl ''attempted'') \<Longrightarrow> dget cl ''authority'' = PStr a"
    "has_key cl ''signals'' \<Longrightarrow> is_list (dget cl ''signals'') \<and> list_all is_str (list_of (dget cl ''signals''))"
    "has_key cl ''actions'' \<Longrightarrow> is_list (dget cl ''actions'') \<and> list_all is_str (list_of (dget cl ''actions''))"
    using assms(4) by (simp_all add: cleanup_steps_def Let_def)
  have eqs: "dget (redact_items scrub cl) ''attempted'' = dget cl ''attempted''"
    "dget (redact_items scrub cl) ''authority'' = redact scrub (dget cl ''authority'')"
    "dget (redact_items scrub cl) ''signals'' = redact scrub (dget cl ''signals'')"
    "dget (redact_items scrub cl) ''actions'' = redact scrub (dget cl ''actions'')"
    using redact_bool [OF cl(1)] by (simp_all add: dget_redact keys)
  show status: "dget (redact_items scrub cl) ''status'' = dget cl ''status''"
    using status_word [OF assms(3, 2)] by (simp add: dget_redact keys)
  have same_authority: "py_truth (dget cl ''attempted'') \<Longrightarrow> redact scrub (dget cl ''authority'') = PStr a"
    using cl(2) assms(5) by simp
  show "steps_ok (cleanup_steps c' (PDict (redact_items scrub cl)))"
    using assms(1, 4, 6) cl(3, 4) same_authority strings_redact [of "dget cl ''signals''" scrub] strings_redact [of "dget cl ''actions''" scrub]
    by (simp add: cleanup_steps_def eqs status Let_def)
qed

lemma settlement_redact:
  assumes "steps_ok (settlement_steps c (PDict s))" "dget s ''allowsSuccessfulTrial'' = PBool True" "keeps_words scrub"
    "dget c ''authority'' = PStr a" "scrub a = a" "dget c' ''authority'' = PStr a"
  shows "steps_ok (settlement_steps c' (PDict (redact_items scrub s)))"
    "dget (redact_items scrub s) ''allowsSuccessfulTrial'' = PBool True"
proof -
  have keys: "k \<in> set settlement_fields \<Longrightarrow> k \<in> set evidence_keys" for k by (simp add: evidence_keys_def)
  from assms(1) have s: "has_fields s settlement_fields" "keys_within s settlement_fields"
    "dget s ''authority'' = PStr a" "is_list (dget s ''readerErrors'')" "steps_ok (cleanup_steps c (dget s ''cleanup''))"
    "list_all (\<lambda>x. x = Inr None) (outcome_steps s)"
    using assms(4) by (simp_all add: settlement_steps_def steps_ok_def Let_def)
  note o = outcome_passed [OF s(6) assms(2) s(4)]
  from s(5) obtain cl where cl: "dget s ''cleanup'' = PDict cl"
    by (auto simp: cleanup_steps_def Let_def elim: is_dict.elims)
  note clean = cleanup_redact [OF s(5) [unfolded cl] _ assms(3-6)]
  have "scrub ''settled'' = ''settled''" using assms(3) by (simp add: keeps_words_def evidence_words_def)
  then have eqs: "dget (redact_items scrub s) ''status'' = PStr ''settled''"
    "dget (redact_items scrub s) ''allowsSuccessfulTrial'' = PBool True"
    "dget (redact_items scrub s) ''directProcessExited'' = PBool True"
    "dget (redact_items scrub s) ''stdoutReaderSettled'' = PBool True"
    "dget (redact_items scrub s) ''stderrReaderSettled'' = PBool True"
    "dget (redact_items scrub s) ''readerErrors'' = PList []"
    "dget (redact_items scrub s) ''cleanup'' = PDict (redact_items scrub cl)"
    "dget (redact_items scrub s) ''authority'' = PStr a"
    using o cl s(3) assms(2, 5) by (simp_all add: dget_redact keys settlement_fields_def)
  from eqs(2) show "dget (redact_items scrub s) ''allowsSuccessfulTrial'' = PBool True" .
  have settled: "settled_cleanup (dget cl ''status'')" using o(6) cl by simp
  show "steps_ok (settlement_steps c' (PDict (redact_items scrub s)))"
    using s(1, 2) assms(6) clean [OF settled] settled
    by (simp add: settlement_steps_def outcome_steps_def computed_success_def eqs Let_def)
qed

lemma evidence_redact:
  assumes "process_evidence_validation ''subprocess'' ''success'' evidence = Inr (verdict ''passed'' reason)" "keeps_words scrub"
  shows "is_dict evidence" "process_evidence_validation ''subprocess'' ''success'' (redact scrub evidence) = Inr (verdict ''passed'' reason)"
proof -
  let ?c = "dget (dict_of evidence) ''containment''" and ?s = "dget (dict_of evidence) ''settlement''"
  from assms(1) have steps: "is_dict evidence" "keys_within (dict_of evidence) [''containment'', ''settlement'']"
    "has_key (dict_of evidence) ''containment''" "has_key (dict_of evidence) ''settlement''"
    "steps_ok (containment_steps ?c)" "steps_ok (settlement_steps (dict_of ?c) ?s)"
    "dget (dict_of ?s) ''allowsSuccessfulTrial'' = PBool True" and reason: "reason = ''complete-consistent-process-evidence''"
    by (simp_all add: passed_iff evidence_steps_def steps_ok_def Let_def)
  from steps(1) show "is_dict evidence" .
  from steps(5, 6) obtain c s where cs: "?c = PDict c" "?s = PDict s"
    by (auto simp: containment_steps_def settlement_steps_def Let_def elim!: is_dict.elims)
  note cr = containment_redact [OF steps(5) [unfolded cs(1)] assms(2)]
  from containment_passed(2) [OF steps(5) [unfolded steps_ok_def]] obtain name where name: "name = ''nt'' \<or> name = ''posix''"
    and at: "dget c ''authority'' = dget (process_containment_capability name) ''authority''"
    using cs(1) by (auto simp: containment_fields_def)
  obtain a where a: "dget (process_containment_capability name) ''authority'' = PStr a" using authority_of by blast
  have "''authority'' \<in> set containment_fields" by (simp add: containment_fields_def)
  from platform_words [OF name this assms(2)] a have keep: "scrub a = a" by simp
  have au: "dget c ''authority'' = PStr a" "dget (redact_items scrub c) ''authority'' = PStr a"
    using at a cr(2) \<open>''authority'' \<in> set containment_fields\<close> by simp_all
  note sr = settlement_redact [OF _ _ assms(2) au(1) keep au(2), of s]
  have keys: "''containment'' \<in> set evidence_keys" "''settlement'' \<in> set evidence_keys" by (simp_all add: evidence_keys_def)
  have "steps_ok (evidence_steps ''success'' (redact scrub evidence))"
    using steps(1-4) cr(1) sr steps(6, 7) cs
    by (simp add: evidence_steps_def dget_redact keys Let_def)
  then show "process_evidence_validation ''subprocess'' ''success'' (redact scrub evidence) = Inr (verdict ''passed'' reason)"
    by (simp add: passed_iff reason steps_ok_def)
qed

section \<open>Counting trials\<close>

lemma verdict_cases:
  assumes "process_evidence_validation boundary status evidence = Inr v"
  obtains "boundary = ''synthetic-in-process''" "evidence = PNone" "v = verdict ''not-applicable'' ''synthetic-in-process-no-subprocess''"
  | reason where "v = verdict ''failed'' reason"
  | reason where "boundary \<noteq> ''synthetic-in-process''" "v = verdict ''passed'' reason"
  using assms by (auto simp: process_evidence_validation_def ebind_eq_Inr split: if_splits option.splits)

lemma verdict_fields [simp]: "dget (verdict s r) ''status'' = PStr s" "dget (verdict s r) ''reason'' = PStr r"
  by (simp_all add: verdict_def)

lemma not_success_ineligible: "dget trial ''status'' \<noteq> PStr ''success'' \<Longrightarrow> trial_success_eligible trial = Inr False"
  by (simp add: trial_success_eligible_def)

lemma executed_eligible:
  assumes "executed_trial scrub env p ob validation evidence_verdict = Inr trial" "keeps_words scrub"
    "process_evidence_validation (re_boundary env) (ob_status ob) (ob_process_evidence ob) = Inr evidence_verdict"
    "re_boundary env \<in> {''subprocess'', ''synthetic-in-process''}"
  shows "trial_success_eligible trial = Inr (trial_has_status ''success'' trial)"
proof (cases "trial_has_status ''success'' trial")
  case False
  then show ?thesis by (simp add: trial_has_status_def not_success_ineligible)
next
  case True
  note t = executed_fields [OF assms(1)]
  from True t(1) have ob: "ob_status ob = ''success''" "dget evidence_verdict ''status'' \<noteq> PStr ''failed''"
    by (auto simp: trial_has_status_def effective_status_def split: if_splits)
  have kind: "dget trial ''executionBoundary'' = PDict [(''kind'', PStr (re_boundary env)),
      (''processEvidenceRequired'', PBool (re_boundary env = ''subprocess''))]"
    by (simp add: t(5) boundary_record_def)
  have process: "str_of (get_default trial ''processStatus'' (dget trial ''status'')) = ''success''"
    using t(2, 3) ob(1) by (auto simp: get_default_def dget_def has_key_def)
  from assms(3) show ?thesis
  proof (cases rule: verdict_cases)
    case 1
    with True t(4, 7) kind show ?thesis by (simp add: trial_success_eligible_def trial_has_status_def)
  next
    case (2 reason)
    with ob(2) show ?thesis by simp
  next
    case (3 reason)
    with assms(4) have sub: "re_boundary env = ''subprocess''" by simp
    from assms(3) 3(2) sub ob(1)
    have "process_evidence_validation ''subprocess'' ''success'' (ob_process_evidence ob) = Inr (verdict ''passed'' reason)" by simp
    note e = evidence_redact [OF this assms(2)]
    then have "ob_process_evidence ob \<noteq> PNone" by auto
    with e t(6) have "is_dict (dget trial ''processEvidence'')"
      "process_evidence_validation ''subprocess'' ''success'' (dget trial ''processEvidence'') = Inr (verdict ''passed'' reason)"
      by simp_all
    with True kind process t(4) sub show ?thesis by (simp add: trial_success_eligible_def trial_has_status_def)
  qed
qed

lemma run_trials_all:
  assumes "run_trials scrub env driver ps s d = (Inr s', d')" "list_all P (rs_trials s)"
    "\<And>p reason trial. not_run_trial env p reason = Inr trial \<Longrightarrow> P trial"
    "\<And>p iv d ob d' validation v trial. driver iv d = (Inr ob, d') \<Longrightarrow>
       executed_trial scrub env p ob validation v = Inr trial \<Longrightarrow>
       process_evidence_validation (re_boundary env) (ob_status ob) (ob_process_evidence ob) = Inr v \<Longrightarrow>
       driver_status_check ob = None \<Longrightarrow> P trial"
  shows "list_all P (rs_trials s')"
  using assms(1, 2)
proof (induction ps arbitrary: s d)
  case (Cons p ps)
  from Cons.prems(1) obtain s1 d1 where step: "run_trial scrub env driver p s d = (Inr s1, d1)"
    and rest: "run_trials scrub env driver ps s1 d1 = (Inr s', d')" by (auto split: prod.splits sum.splits)
  have "list_all P (rs_trials s1)"
  proof (cases "rs_stop_reason s")
    case (Some reason)
    with step obtain trial where "not_run_trial env p reason = Inr trial" "rs_trials s1 = rs_trials s @ [trial]"
      by (auto simp: run_trial_def ebind_eq_Inr)
    with Cons.prems(2) assms(3) show ?thesis by simp
  next
    case None
    with step obtain iv ob where called: "driver iv d = (Inr ob, d1)" and "settle_trial scrub env p ob s = Inr s1"
      by (auto simp: run_trial_def split: sum.splits prod.splits)
    from this(2) obtain action target validation v trial where ok: "driver_status_check ob = None" and
      v: "process_evidence_validation (re_boundary env) (ob_status ob) (ob_process_evidence ob) = Inr v"
      and trial: "executed_trial scrub env p ob validation v = Inr trial"
      and acc: "account env ob (effective_status ob validation v) trial s = Inr s1"
      by (elim settle_trial_Inr)
    from assms(4) [OF called trial v ok] Cons.prems(2) show ?thesis by (simp add: account_Inr(1) [OF acc])
  qed
  with Cons.IH rest show ?case by blast
qed simp

section \<open>Drivers that account for their processes\<close>

text \<open>The contract of a driver of commands: whatever it reports comes with evidence that passes the validation.\<close>

locale accountable_driver =
  fixes driver :: "'d driver"
  assumes accountable: "driver iv d = (Inr ob, d') \<Longrightarrow>
    process_evidence_validation ''subprocess'' (ob_status ob) (ob_process_evidence ob) =
    Inr (verdict ''passed'' ''complete-consistent-process-evidence'')"
begin

lemma run_evidence_passes:
  assumes "run_trials scrub env driver ps initial_run d = (Inr s, d')" "re_boundary env = ''subprocess''"
  shows "list_all (\<lambda>t. trial_has_status ''not-run'' t \<or>
    dget t ''processEvidenceValidation'' = PDict (verdict ''passed'' ''complete-consistent-process-evidence'')) (rs_trials s)"
proof (rule run_trials_all [OF assms(1)])
  show "trial_has_status ''not-run'' trial \<or>
      dget trial ''processEvidenceValidation'' = PDict (verdict ''passed'' ''complete-consistent-process-evidence'')"
    if "not_run_trial env p reason = Inr trial" for p reason trial
    using not_run_fields(1) [OF that] by simp
  show "trial_has_status ''not-run'' trial \<or>
      dget trial ''processEvidenceValidation'' = PDict (verdict ''passed'' ''complete-consistent-process-evidence'')"
    if "driver iv d = (Inr ob, d')" "executed_trial scrub env p ob validation v = Inr trial"
      "process_evidence_validation (re_boundary env) (ob_status ob) (ob_process_evidence ob) = Inr v" for iv d ob d' p validation v trial
    using accountable [OF that(1)] that(3) executed_fields(7) [OF that(2)] assms(2) by simp
qed (simp add: initial_run_def)

end

lemma command_invoke_child:
  assumes "command_invoke render limit os_name getcwd spawn iv = Inr ob"
  obtains w stdin_json where "run_child limit os_name w stdin_json = Inr ob"
  using assms unfolding command_invoke_def invoke_argv_def Let_def checked_eq_Inr ebind_eq_Inr by blast

interpretation command: accountable_driver "command_as_driver render limit os_name getcwd next_world"
  for render limit os_name getcwd next_world
proof
  fix iv ob d d'
  assume "command_as_driver render limit os_name getcwd next_world iv d = (Inr ob, d')"
  then obtain spawn where "command_invoke render limit os_name getcwd spawn iv = Inr ob"
    by (auto simp: command_as_driver_def split: prod.splits)
  then show "process_evidence_validation ''subprocess'' (ob_status ob) (ob_process_evidence ob) =
      Inr (verdict ''passed'' ''complete-consistent-process-evidence'')"
    by (elim command_invoke_child) (rule driver_evidence_passes)
qed

end
