(* ===== verification/Rig_Statistics.thy ===== *)
theory Rig_Statistics
  imports Rig_Trials Py_Order
begin

text \<open>
  The statistics of \<^verbatim>\<open>cli/benchmarks/runner/rig.py\<close>: medians, means, percentiles and bootstrap intervals over
  durations, computed on binary64 numbers as Python does. A NaN among values that are sorted is left out, and so is the
  overflow of a partial sum whose total does not overflow.
\<close>

section \<open>More float arithmetic\<close>

fun float_negative :: "pyfloat \<Rightarrow> bool" where
  "float_negative (FFin r) = (r < 0)"
| "float_negative FNegZero = True"
| "float_negative FNegInf = True"
| "float_negative _ = False"

definition signed_round :: "bool \<Rightarrow> rat \<Rightarrow> pyfloat" where
  "signed_round negative r = (case round64 r of FFin v \<Rightarrow> if v = 0 \<and> negative then FNegZero else FFin v | f \<Rightarrow> f)"

definition float_mul :: "pyfloat \<Rightarrow> pyfloat \<Rightarrow> pyfloat" where
  "float_mul a b =
     (let negative = (float_negative a \<noteq> float_negative b) in
      case (float_num a, float_num b) of
        (Some r, Some s) \<Rightarrow> signed_round negative (r * s)
      | _ \<Rightarrow> if a = FNaN \<or> b = FNaN \<or> float_num a = Some 0 \<or> float_num b = Some 0 then FNaN
             else if negative then FNegInf else FPosInf)"

text \<open>Division by a positive integer\<close>

definition float_div_nat :: "pyfloat \<Rightarrow> nat \<Rightarrow> pyfloat" where
  "float_div_nat a n = (case float_num a of Some r \<Rightarrow> signed_round (float_negative a) (r / of_nat n) | None \<Rightarrow> a)"

section \<open>Medians and means\<close>

fun insert_float :: "pyfloat \<Rightarrow> pyfloat list \<Rightarrow> pyfloat list" where
  "insert_float x [] = [x]"
| "insert_float x (y # ys) = (if float_lt y x then y # insert_float x ys else x # y # ys)"

definition sort_floats :: "pyfloat list \<Rightarrow> pyfloat list" where
  "sort_floats xs = foldr insert_float xs []"

text \<open>\<open>statistics.median\<close> and \<open>statistics.fmean\<close> of a nonempty list\<close>

definition median :: "pyfloat list \<Rightarrow> pyfloat" where
  "median xs = (let ys = sort_floats xs; n = length ys; i = n div 2 in
     if odd n then ys ! i else float_div_nat (float_add (ys ! (i - 1)) (ys ! i)) 2)"

definition fsum :: "pyfloat list \<Rightarrow> pyfloat res" where
  "fsum xs =
     (if list_all finite_float xs then
        (case round64 (sum_list (map (\<lambda>f. case float_num f of Some r \<Rightarrow> r | None \<Rightarrow> 0) xs)) of
           FFin v \<Rightarrow> Inr (FFin v) | _ \<Rightarrow> Inl overflow_error)
      else if FNaN \<in> set xs then Inr FNaN
      else if FPosInf \<in> set xs \<and> FNegInf \<in> set xs then Inl (ValueErr ''-inf + inf in fsum'')
      else Inr (if FPosInf \<in> set xs then FPosInf else FNegInf))"

definition fmean :: "pyfloat list \<Rightarrow> pyfloat res" where
  "fmean xs = ebind (fsum xs) (\<lambda>total. Inr (float_div_nat total (length xs)))"

definition round_or_none :: "pyfloat option \<Rightarrow> pyval" where
  "round_or_none v = (case v of None \<Rightarrow> PNone | Some f \<Rightarrow> PFloat (float_round 6 f))"

section \<open>Percentiles and bootstrap intervals\<close>

text \<open>\<open>math.floor\<close> and \<open>math.ceil\<close>\<close>

definition float_floor :: "pyfloat \<Rightarrow> int res" where
  "float_floor f = (case float_num f of Some r \<Rightarrow> Inr \<lfloor>r\<rfloor>
     | None \<Rightarrow> Inl (if f = FNaN then ValueErr ''cannot convert float NaN to integer'' else overflow_error))"

definition float_ceil :: "pyfloat \<Rightarrow> int res" where
  "float_ceil f = (case float_num f of Some r \<Rightarrow> Inr \<lceil>r\<rceil>
     | None \<Rightarrow> Inl (if f = FNaN then ValueErr ''cannot convert float NaN to integer'' else overflow_error))"

text \<open>\<open>xs[i]\<close>: a negative index counts from the end.\<close>

definition at_index :: "'a list \<Rightarrow> int \<Rightarrow> 'a res" where
  "at_index xs i =
     (let j = (if i < 0 then i + int (length xs) else i) in
      if 0 \<le> j \<and> j < int (length xs) then Inr (xs ! nat j) else Inl IndexErr)"

definition percentile :: "pyfloat list \<Rightarrow> pyfloat \<Rightarrow> pyfloat res" where
  "percentile sorted_values probability =
     (if length sorted_values = 1 then Inr (sorted_values ! 0)
      else ebind (float_of_int (int (length sorted_values) - 1)) (\<lambda>last_index.
        let index = float_mul probability last_index in
        ebind (float_floor index) (\<lambda>lower. ebind (float_ceil index) (\<lambda>upper.
        if lower = upper then at_index sorted_values lower
        else ebind (float_of_int lower) (\<lambda>lower_float.
          let weight = float_sub index lower_float in
          ebind (at_index sorted_values lower) (\<lambda>below. ebind (at_index sorted_values upper) (\<lambda>above.
          Inr (float_add (float_mul below (float_sub (FFin 1) weight)) (float_mul above weight)))))))))"

text \<open>One resampled list: every place draws from the samples.\<close>

fun draw_samples :: "'r randbelow \<Rightarrow> pyfloat list \<Rightarrow> nat \<Rightarrow> 'r \<Rightarrow> pyfloat list \<times> 'r" where
  "draw_samples randbelow samples 0 r = ([], r)"
| "draw_samples randbelow samples (Suc n) r =
     (case randbelow (length samples) r of (j, r') \<Rightarrow>
        (case draw_samples randbelow samples n r' of (xs, r'') \<Rightarrow> (samples ! j # xs, r'')))"

fun bootstrap_estimates :: "'r randbelow \<Rightarrow> pyfloat list \<Rightarrow> nat \<Rightarrow> 'r \<Rightarrow> pyfloat list" where
  "bootstrap_estimates randbelow samples 0 r = []"
| "bootstrap_estimates randbelow samples (Suc n) r =
     (case draw_samples randbelow samples (length samples) r of (draw, r') \<Rightarrow>
        median draw # bootstrap_estimates randbelow samples n r')"

definition bootstrap_interval ::
  "(int \<Rightarrow> 'r) \<Rightarrow> 'r randbelow \<Rightarrow> pyfloat list \<Rightarrow> int \<Rightarrow> pyfloat \<Rightarrow> int \<Rightarrow> pyval res" where
  "bootstrap_interval seeded randbelow samples resamples level seed =
     (if samples = [] then Inr PNone
      else checked (guard (100 \<le> resamples \<and> float_lt (FFin (1 / 2)) level \<and> float_lt level (FFin 1))
        (ValueErr ''invalid bootstrap policy''))
      (let estimates = sort_floats (bootstrap_estimates randbelow samples (nat resamples) (seeded seed));
           alpha = float_div_nat (float_sub (FFin 1) level) 2 in
       ebind (percentile estimates alpha) (\<lambda>lower. ebind (percentile estimates (float_sub (FFin 1) alpha)) (\<lambda>upper.
       Inr (PDict [(''level'', PFloat level), (''lower'', PFloat (float_round 6 lower)),
         (''upper'', PFloat (float_round 6 upper)), (''resamples'', PInt resamples)])))))"

definition duration_statistics ::
  "(int \<Rightarrow> 'r) \<Rightarrow> 'r randbelow \<Rightarrow> pyfloat list \<Rightarrow> int \<Rightarrow> pyfloat \<Rightarrow> int \<Rightarrow> pyval res" where
  "duration_statistics seeded randbelow values resamples level seed =
     ebind (if values = [] then Inr None else ebind (fmean values) (\<lambda>m. Inr (Some m))) (\<lambda>mean.
     ebind (bootstrap_interval seeded randbelow values resamples level seed) (\<lambda>interval.
     Inr (PDict [(''samples'', PInt (int (length values))), (''mean'', round_or_none mean),
       (''p50'', round_or_none (if values = [] then None else Some (median values))), (''bootstrapMedianCi'', interval)])))"

end
