(* ===== verification/Rig_Summary.thy ===== *)
theory Rig_Summary
  imports Rig_Statistics
begin

text \<open>
  The analysis of recorded trials, \<open>summarize\<close> and its scorecards of \<^verbatim>\<open>cli/benchmarks/runner/rig.py\<close>. A trial is
  a dictionary, and its ids, surfaces and pair ids are text, as \<open>run_benchmark\<close> records them.
\<close>

section \<open>Reading trials\<close>

definition text_item :: "pydict \<Rightarrow> string \<Rightarrow> string res" where
  "text_item d k = ebind (item d k) (\<lambda>v. case v of PStr s \<Rightarrow> Inr s | _ \<Rightarrow> Inl TypeErr)"

definition dict_item :: "pydict \<Rightarrow> string \<Rightarrow> pydict res" where
  "dict_item d k = ebind (item d k) (\<lambda>v. case v of PDict e \<Rightarrow> Inr e | _ \<Rightarrow> Inl TypeErr)"

fun filter_res :: "('a \<Rightarrow> bool res) \<Rightarrow> 'a list \<Rightarrow> 'a list res" where
  "filter_res p [] = Inr []"
| "filter_res p (x # xs) = ebind (p x) (\<lambda>b. ebind (filter_res p xs) (\<lambda>ys. Inr (if b then x # ys else ys)))"

definition wall_of :: "pydict \<Rightarrow> pyfloat res" where
  "wall_of t = ebind (item t ''wallMs'') py_float"

section \<open>The distribution of the trials of one target\<close>

definition status_count :: "string \<Rightarrow> pydict list \<Rightarrow> nat" where
  "status_count status trials = length (filter (\<lambda>t. dget t ''status'' = PStr status) trials)"

definition count_value :: "nat \<Rightarrow> pyval" where
  "count_value n = PInt (int n)"

definition trial_distribution ::
  "(int \<Rightarrow> 'r) \<Rightarrow> 'r randbelow \<Rightarrow> pydict list \<Rightarrow> int \<Rightarrow> pyfloat \<Rightarrow> nat \<Rightarrow> pydict res" where
  "trial_distribution seeded randbelow trials resamples level seed =
     ebind (traverse_res (\<lambda>t. item t ''status'') trials) (\<lambda>_.
     let executed = filter (\<lambda>t. dget t ''status'' \<noteq> PStr ''not-run'') trials in
     ebind (ebind (filter_res trial_success_eligible trials) (traverse_res wall_of)) (\<lambda>success_values.
     ebind (ebind (filter_res (\<lambda>t. ebind (item t ''wallMs'') (\<lambda>v. Inr (v \<noteq> PNone))) executed) (traverse_res wall_of)) (\<lambda>attempt_values.
     ebind (duration_statistics seeded randbelow success_values resamples level (int seed)) (\<lambda>success_statistics.
     ebind (ebind (derived_seed (int seed) [''all-attempt-duration''])
         (\<lambda>s. duration_statistics seeded randbelow attempt_values resamples level (int s))) (\<lambda>attempt_statistics.
     Inr [(''planned'', count_value (length trials)), (''executed'', count_value (length executed)),
       (''successes'', count_value (status_count ''success'' trials)), (''failures'', count_value (status_count ''failure'' trials)),
       (''timeouts'', count_value (status_count ''timeout'' trials)), (''notRun'', count_value (status_count ''not-run'' trials)),
       (''successLatencyEligibility'', PDict
          [(''eligible'', count_value (length success_values)),
           (''excluded'', PInt (int (length trials) - int (length success_values))),
           (''exclusionReasons'', PDict
              [(''failure'', count_value (status_count ''failure'' trials)), (''timeout'', count_value (status_count ''timeout'' trials)),
               (''not-run'', count_value (status_count ''not-run'' trials)),
               (''success-missing-wall-time'', count_value (length (filter (\<lambda>t. dget t ''status'' = PStr ''success'' \<and>
                  dget t ''wallMs'' = PNone) trials)))])]),
       (''successLatencyMs'', success_statistics), (''allAttemptDurationMs'', attempt_statistics)])))))"


section \<open>Paired comparisons\<close>

text \<open>\<open>d.setdefault(k, {})[k'] = v\<close>\<close>

definition set_inner :: "'k \<Rightarrow> 'l \<Rightarrow> 'v \<Rightarrow> ('k \<times> ('l \<times> 'v) list) list \<Rightarrow> ('k \<times> ('l \<times> 'v) list) list" where
  "set_inner k k' v d = dict_set k (dict_set k' v (case map_of d k of None \<Rightarrow> [] | Some e \<Rightarrow> e)) d"

type_synonym pair_members = "(string \<times> pydict) list"

fun collect_pairs :: "pydict list \<Rightarrow> (string \<times> pair_members) list \<Rightarrow> (string \<times> pair_members) list res" where
  "collect_pairs [] by_pair = Inr by_pair"
| "collect_pairs (t # ts) by_pair =
     ebind (text_item t ''pair_id'') (\<lambda>pair_id. ebind (text_item t ''target_id'') (\<lambda>target_id.
     collect_pairs ts (set_inner pair_id target_id t by_pair)))"

text \<open>\<open>itertools.combinations(targets, 2)\<close>\<close>

fun combinations :: "'a list \<Rightarrow> ('a \<times> 'a) list" where
  "combinations [] = []"
| "combinations (x # xs) = map (Pair x) xs @ combinations xs"

record pair_tally =
  pt_retained :: nat
  pt_reasons :: "(string \<times> nat) list"
  pt_differences :: "pyfloat list"

definition count_reason :: "string \<Rightarrow> (string \<times> nat) list \<Rightarrow> (string \<times> nat) list" where
  "count_reason reason reasons = dict_set reason ((case map_of reasons reason of None \<Rightarrow> 0 | Some n \<Rightarrow> n) + 1) reasons"

definition exclusion_reason :: "bool \<Rightarrow> bool \<Rightarrow> pyval \<Rightarrow> pyval \<Rightarrow> string option" where
  "exclusion_reason left_eligible right_eligible left_wall right_wall =
     (if \<not> left_eligible \<and> \<not> right_eligible then Some ''both-not-success''
      else if \<not> left_eligible then Some ''left-not-success''
      else if \<not> right_eligible then Some ''right-not-success''
      else if left_wall = PNone \<or> right_wall = PNone then Some ''missing-wall-time''
      else None)"

definition tally_pair :: "string \<Rightarrow> string \<Rightarrow> pair_members \<Rightarrow> pair_tally \<Rightarrow> pair_tally res" where
  "tally_pair left right pair tally =
     (case (map_of pair left, map_of pair right) of
        (Some l, Some r) \<Rightarrow>
          (let tally = tally\<lparr>pt_retained := pt_retained tally + 1\<rparr> in
           ebind (item l ''wallMs'') (\<lambda>left_wall. ebind (item r ''wallMs'') (\<lambda>right_wall.
           ebind (trial_success_eligible l) (\<lambda>left_eligible. ebind (trial_success_eligible r) (\<lambda>right_eligible.
           case exclusion_reason left_eligible right_eligible left_wall right_wall of
             Some reason \<Rightarrow> Inr (tally\<lparr>pt_reasons := count_reason reason (pt_reasons tally)\<rparr>)
           | None \<Rightarrow> ebind (py_float left_wall) (\<lambda>a. ebind (py_float right_wall) (\<lambda>b.
               Inr (tally\<lparr>pt_differences := pt_differences tally @ [float_sub a b]\<rparr>))))))))
      | _ \<Rightarrow> Inr tally)"

fun tally_pairs :: "string \<Rightarrow> string \<Rightarrow> pair_members list \<Rightarrow> pair_tally \<Rightarrow> pair_tally res" where
  "tally_pairs left right [] tally = Inr tally"
| "tally_pairs left right (pair # pairs) tally = ebind (tally_pair left right pair tally) (tally_pairs left right pairs)"

definition empty_tally :: pair_tally where
  "empty_tally = \<lparr>pt_retained = 0, pt_reasons = [], pt_differences = []\<rparr>"

definition comparison ::
  "(int \<Rightarrow> 'r) \<Rightarrow> 'r randbelow \<Rightarrow> int \<Rightarrow> pyfloat \<Rightarrow> int \<Rightarrow> string \<Rightarrow> string \<Rightarrow> pair_members list \<Rightarrow> string \<times> string \<Rightarrow> pydict res" where
  "comparison seeded randbelow resamples level seed surface action_id pairs = (\<lambda>(left, right).
     ebind (tally_pairs left right pairs empty_tally) (\<lambda>tally.
     let differences = pt_differences tally in
     ebind (derived_seed seed [surface, action_id, left, right]) (\<lambda>pair_seed.
     ebind (bootstrap_interval seeded randbelow differences resamples level (int pair_seed)) (\<lambda>interval.
     Inr [(''left'', PStr left), (''right'', PStr right),
       (''definition'', PStr ''left-success-wall-ms-minus-right-success-wall-ms''),
       (''plannedPairs'', count_value (pt_retained tally)), (''eligibleSuccessPairs'', count_value (length differences)),
       (''excludedPairs'', PInt (int (pt_retained tally) - int (length differences))),
       (''exclusionReasons'', PDict (map (\<lambda>(r, n). (r, count_value n)) (pt_reasons tally))),
       (''samples'', count_value (length differences)),
       (''p50'', round_or_none (if differences = [] then None else Some (median differences))),
       (''pairedBootstrapMedianCi'', interval)]))))"

definition paired_comparisons ::
  "(int \<Rightarrow> 'r) \<Rightarrow> 'r randbelow \<Rightarrow> pydict list \<Rightarrow> int \<Rightarrow> pyfloat \<Rightarrow> int \<Rightarrow> string \<Rightarrow> string \<Rightarrow> pydict list res" where
  "paired_comparisons seeded randbelow trials resamples level seed surface action_id =
     ebind (traverse_res (\<lambda>t. text_item t ''target_id'') trials) (\<lambda>names.
     ebind (collect_pairs trials []) (\<lambda>by_pair.
     traverse_res (comparison seeded randbelow resamples level seed surface action_id (map snd by_pair))
       (combinations (sorted_names names))))"

section \<open>Timing scorecards\<close>

text \<open>\<open>itertools.groupby\<close>: runs of equal keys\<close>

fun group_runs :: "('k \<times> 'a) list \<Rightarrow> ('k \<times> 'a list) list" where
  "group_runs [] = []"
| "group_runs ((k, x) # xs) = (case group_runs xs of
     (k', ys) # gs \<Rightarrow> if k' = k then (k, x # ys) # gs else (k, [x]) # (k', ys) # gs
   | [] \<Rightarrow> [(k, [x])])"

definition by_target :: "pydict list \<Rightarrow> (string \<times> pydict list) list res" where
  "by_target trials = ebind (traverse_res (\<lambda>t. ebind (text_item t ''target_id'') (\<lambda>k. Inr (k, t))) trials) (\<lambda>keyed.
     Inr (group_runs (sort_items keyed)))"

definition by_action :: "pydict list \<Rightarrow> ((string \<times> string) \<times> pydict list) list res" where
  "by_action trials =
     ebind (traverse_res (\<lambda>t. ebind (text_item t ''surface'') (\<lambda>surface. ebind (text_item t ''action_id'') (\<lambda>action_id.
       Inr ((surface, action_id), t)))) trials) (\<lambda>keyed.
     Inr (group_runs (sorted_groups keyed)))"

text \<open>The resamples and the level of the confidence policy\<close>

definition confidence_parameters :: "pydict \<Rightarrow> (int \<times> pyfloat) res" where
  "confidence_parameters confidence =
     ebind (ebind (item confidence ''resamples'') int_of_number) (\<lambda>resamples.
     ebind (ebind (item confidence ''level'') py_float) (\<lambda>level. Inr (resamples, level)))"

definition action_entry ::
  "(int \<Rightarrow> 'r) \<Rightarrow> 'r randbelow \<Rightarrow> pydict \<Rightarrow> int \<Rightarrow> (string \<times> string) \<times> pydict list \<Rightarrow> pyval res" where
  "action_entry seeded randbelow confidence seed = (\<lambda>((surface, action_id), action_trials).
     ebind (by_target action_trials) (\<lambda>groups.
     ebind (traverse_res (\<lambda>(target_id, target_trials).
         ebind (derived_seed seed [surface, action_id, target_id]) (\<lambda>stable_seed.
         ebind (confidence_parameters confidence) (\<lambda>(resamples, level).
         ebind (trial_distribution seeded randbelow target_trials resamples level stable_seed) (\<lambda>distribution.
         Inr (target_id, PDict distribution))))) groups) (\<lambda>target_results.
     ebind (confidence_parameters confidence) (\<lambda>(resamples, level).
     ebind (paired_comparisons seeded randbelow action_trials resamples level seed surface action_id) (\<lambda>comparisons.
     Inr (PDict [(''targets'', PDict target_results), (''pairedDifferencesMs'', PList (map PDict comparisons)),
       (''winner'', PNone)]))))))"

fun collect_surfaces ::
  "((string \<times> string) \<times> pyval) list \<Rightarrow> (string \<times> pydict) list \<Rightarrow> (string \<times> pydict) list" where
  "collect_surfaces [] surfaces = surfaces"
| "collect_surfaces (((surface, action_id), entry) # es) surfaces = collect_surfaces es (set_inner surface action_id entry surfaces)"

definition timing_scorecard ::
  "(int \<Rightarrow> 'r) \<Rightarrow> 'r randbelow \<Rightarrow> pydict list \<Rightarrow> string \<Rightarrow> pydict \<Rightarrow> int \<Rightarrow> pydict res" where
  "timing_scorecard seeded randbelow trials scorecard confidence seed =
     ebind (filter_res (\<lambda>t. ebind (item t ''scorecard'') (\<lambda>v. Inr (v = PStr scorecard))) trials) (\<lambda>selected.
     if selected = [] then Inr [(''status'', PStr ''not-applicable''), (''surfaces'', PDict [])]
     else ebind (by_action selected) (\<lambda>groups.
       ebind (traverse_res (\<lambda>g. ebind (action_entry seeded randbelow confidence seed g) (\<lambda>entry. Inr (fst g, entry))) groups) (\<lambda>entries.
       Inr [(''status'', PStr ''measured''),
         (''surfaces'', PDict (map (\<lambda>(surface, actions). (surface, PDict [(''actions'', PDict actions)]))
            (collect_surfaces entries [])))])))"

end
