(* ===== verification/Rig_Scorecards.thy ===== *)
theory Rig_Scorecards
  imports Rig_Summary
begin

text \<open>
  The remaining scorecards of \<^verbatim>\<open>cli/benchmarks/runner/rig.py\<close> and \<open>summarize\<close> itself. Sums of floats are
  those of Python 3.10, from left to right.
\<close>

section \<open>Trials of one target\<close>

definition target_names :: "pydict list \<Rightarrow> string list res" where
  "target_names trials = ebind (traverse_res (\<lambda>t. text_item t ''target_id'') trials) (\<lambda>names. Inr (sorted_names names))"

definition of_target :: "string \<Rightarrow> pydict list \<Rightarrow> pydict list" where
  "of_target target_id trials = filter (\<lambda>t. dget t ''target_id'' = PStr target_id) trials"

text \<open>One entry per target, over the trials of that target\<close>

definition per_target :: "(pydict list \<Rightarrow> pydict res) \<Rightarrow> pydict list \<Rightarrow> pydict res" where
  "per_target summary trials =
     ebind (target_names trials) (\<lambda>names.
     traverse_res (\<lambda>target_id. ebind (summary (of_target target_id trials)) (\<lambda>d. Inr (target_id, PDict d))) names)"

section \<open>Process evidence\<close>

definition containment_of :: "pydict \<Rightarrow> pyval res" where
  "containment_of t = ebind (dict_item t ''processEvidence'') (\<lambda>e. item e ''containment'')"

definition settlement_status :: "pydict \<Rightarrow> string res" where
  "settlement_status t = ebind (dict_item t ''processEvidence'') (\<lambda>e. ebind (dict_item e ''settlement'') (\<lambda>s. text_item s ''status''))"

definition shared_containment :: "pydict list \<Rightarrow> pyval res" where
  "shared_containment selected =
     ebind (traverse_res (\<lambda>t. ebind (containment_of t) rig_canonical_json_bytes) selected) (\<lambda>capabilities.
     case remdups capabilities of
       [b] \<Rightarrow> json_loads default_hooks b
     | _ \<Rightarrow> Inr (PDict [(''status'', PStr ''inconsistent-across-trials'')]))"

definition process_evidence_entry :: "pydict list \<Rightarrow> pydict res" where
  "process_evidence_entry selected =
     ebind (shared_containment selected) (\<lambda>containment.
     ebind (traverse_res settlement_status selected) (\<lambda>statuses.
     let settlement_counts = fold count_reason statuses [] in
     ebind (attr_dict containment) (\<lambda>fields.
     Inr [(''containment'', containment),
       (''settlementCounts'', PDict (map (\<lambda>(s, n). (s, count_value n)) settlement_counts)),
       (''allExecutedTrialsSettled'', PBool (list_all (\<lambda>(t, s). dget t ''status'' = PStr ''not-run'' \<or> s = ''settled'') (zip selected statuses))),
       (''releaseContainmentSupported'', get_default fields ''releaseContainmentSupported'' (PBool False))])))"

definition process_evidence_summary :: "pydict list \<Rightarrow> pydict res" where
  "process_evidence_summary trials =
     ebind (per_target process_evidence_entry trials) (\<lambda>targets.
     Inr [(''status'', PStr ''recorded''), (''targets'', PDict targets)])"

section \<open>Efficiency, cost and semantics\<close>

definition residual_of :: "pydict \<Rightarrow> pyval res" where
  "residual_of t = ebind (dict_item t ''timingComponents'') (\<lambda>d. item d ''residualWrapperMs'')"

text \<open>\<open>int(trial["retry"]["declaredRetries"] or 0)\<close>\<close>

definition declared_retries :: "pydict \<Rightarrow> int res" where
  "declared_retries t = ebind (dict_item t ''retry'') (\<lambda>d. ebind (item d ''declaredRetries'') (\<lambda>v.
     if py_truth v then int_of_number v else Inr 0))"

definition retry_suspected :: "pydict \<Rightarrow> int res" where
  "retry_suspected t = ebind (dict_item t ''retry'') (\<lambda>d. ebind (item d ''hiddenRetrySuspected'') int_of_number)"

definition agent_entry :: "pydict list \<Rightarrow> pydict res" where
  "agent_entry selected =
     ebind (filter_res (\<lambda>t. ebind (trial_success_eligible t) (\<lambda>eligible.
        if eligible then ebind (residual_of t) (\<lambda>v. Inr (v \<noteq> PNone)) else Inr False)) selected) (\<lambda>measured.
     ebind (traverse_res (\<lambda>t. ebind (residual_of t) py_float) measured) (\<lambda>residuals.
     ebind (traverse_res declared_retries selected) (\<lambda>declared.
     ebind (traverse_res retry_suspected selected) (\<lambda>suspected.
     Inr [(''modelCalls'', PDict [(''status'', PStr ''not-applicable''), (''count'', PNone)]),
       (''tokens'', PDict [(''status'', PStr ''unavailable''), (''count'', PNone)]),
       (''retries'', PDict [(''declared'', PInt (sum_list declared)), (''hiddenSuspicions'', PInt (sum_list suspected))]),
       (''residualWrapperMs'', PDict [(''status'', PStr (if residuals = [] then ''unavailable'' else ''measured'')),
          (''samples'', count_value (length residuals)),
          (''p50'', round_or_none (if residuals = [] then None else Some (median residuals)))])]))))"

definition agent_scorecard :: "pydict list \<Rightarrow> pydict res" where
  "agent_scorecard trials =
     ebind (per_target agent_entry trials) (\<lambda>targets.
     Inr [(''status'', PStr (if trials = [] then ''not-applicable-for-provider-free-sentinel'' else ''limited'')),
       (''targets'', PDict targets), (''winner'', PNone)])"

definition cost_has_status :: "string \<Rightarrow> pydict \<Rightarrow> bool res" where
  "cost_has_status status t = ebind (trial_success_eligible t) (\<lambda>eligible.
     if eligible then ebind (dict_item t ''cost'') (\<lambda>d. ebind (item d ''status'') (\<lambda>v. Inr (v = PStr status))) else Inr False)"

text \<open>\<open>sum\<close> of floats\<close>

definition float_total :: "pyfloat list \<Rightarrow> pyfloat" where
  "float_total xs = foldl float_add (FFin 0) xs"

definition cost_entry :: "pydict list \<Rightarrow> pydict res" where
  "cost_entry selected =
     ebind (filter_res (cost_has_status ''authoritative'') selected) (\<lambda>paid.
     ebind (traverse_res (\<lambda>t. ebind (dict_item t ''cost'') (\<lambda>d. ebind (item d ''usd'') py_float)) paid) (\<lambda>authoritative.
     ebind (filter_res (cost_has_status ''unavailable'') selected) (\<lambda>unpriced.
     Inr [(''authoritative'', PDict [(''samples'', count_value (length authoritative)),
          (''totalUsd'', if authoritative = [] then PNone else PFloat (float_round 12 (float_total authoritative)))]),
       (''unavailableSamples'', count_value (length unpriced)), (''estimatedOrImputedUsd'', PNone)])))"

definition cost_scorecard :: "pydict list \<Rightarrow> pydict res" where
  "cost_scorecard trials =
     ebind (per_target cost_entry trials) (\<lambda>targets.
     Inr [(''status'', PStr ''reported-without-imputation''), (''targets'', PDict targets), (''winner'', PNone)])"

definition semantic_scorecard :: "pydict \<Rightarrow> pydict res" where
  "semantic_scorecard raw =
     ebind (ebind (item raw ''trials'') dict_items_of) (\<lambda>trials.
     ebind (traverse_res (\<lambda>t. text_item t ''surface'') trials) (\<lambda>surfaces.
     ebind (ebind (dict_item raw ''claims'') (\<lambda>claims. item claims ''semanticStatus'')) (\<lambda>status.
     Inr [(''status'', status),
       (''surfaces'', PDict (map (\<lambda>surface. (surface, PDict [(''evaluated'', PBool False), (''semanticStatus'', status),
          (''proseComplete'', PBool False), (''reason'', PStr ''canonical-language-image-terminal-corpus-unavailable'')]))
          (sorted_names surfaces))),
       (''winner'', PNone)])))"

section \<open>The summary\<close>

definition SUMMARY_SCHEMA :: string where "SUMMARY_SCHEMA = ''openprose.benchmark-summary/1''"

definition transport_coverage :: pydict where
  "transport_coverage =
     [(''externalWallClock'', PStr ''measured''), (''processSpawnAndProtocol'', PStr ''included-not-subtracted''),
      (''firstNormalizedEvent'', PStr ''unavailable-in-final-json-smoke''), (''peakRss'', PStr ''unavailable''),
      (''cpu'', PStr ''unavailable''), (''cancellationCleanup'', PStr ''recorded-per-trial'')]"

definition dx_dimensions :: pydict where
  "dx_dimensions =
     [(''coldStartup'', PStr ''cold-startup-version''), (''warmStartup'', PStr ''warm-startup-version''), (''doctor'', PStr ''doctor''),
      (''dryRun'', PStr ''dry-run''), (''packageInstall'', PStr ''not-measured-development-artifacts-only''), (''compositeWinner'', PNone)]"

fun collect_artifacts :: "pydict list \<Rightarrow> pydict \<Rightarrow> pydict res" where
  "collect_artifacts [] acc = Inr acc"
| "collect_artifacts (t # ts) acc = ebind (text_item t ''id'') (\<lambda>target_id.
     collect_artifacts ts (dict_set target_id (PDict (map (\<lambda>k. (k, dget t k))
       [''artifactBytes'', ''artifactSha256'', ''artifactKind'', ''installSurface''])) acc))"

definition artifact_surface :: "pydict \<Rightarrow> pydict res" where
  "artifact_surface raw =
     ebind (dict_item raw ''identities'') (\<lambda>identities.
     ebind (ebind (item identities ''targets'') dict_items_of) (\<lambda>targets. collect_artifacts targets []))"

definition summary_rules :: "int \<Rightarrow> pyval \<Rightarrow> pyval \<Rightarrow> pydict" where
  "summary_rules seed confidence fallback =
     [(''paired'', PBool True), (''seed'', PInt seed), (''warmupsExcludedFromEstimatesButRetainedRaw'', PBool True),
      (''failuresRetained'', PBool True), (''timeoutsRetained'', PBool True), (''outliersDropped'', PInt 0),
      (''confidence'', confidence), (''residualFallback'', fallback), (''winnerCollapsed'', PBool False),
      (''successLatencyEligibility'', PStr ''status-success-with-wall-time''),
      (''pairedLatencyEligibility'', PStr ''both-members-success-with-wall-time''),
      (''allAttemptDurationReportedSeparately'', PBool True)]"

definition measurements_of :: "pydict \<Rightarrow> pydict list res" where
  "measurements_of raw =
     ebind (ebind (item raw ''trials'') dict_items_of) (filter_res (\<lambda>t. ebind (item t ''phase'') (\<lambda>v. Inr (v = PStr ''measurement''))))"

definition scorecards_of ::
  "(int \<Rightarrow> 'r) \<Rightarrow> 'r randbelow \<Rightarrow> pydict \<Rightarrow> pydict list \<Rightarrow> pydict \<Rightarrow> int \<Rightarrow> pydict res" where
  "scorecards_of seeded randbelow raw measurements confidence seed =
     ebind (timing_scorecard seeded randbelow measurements ''transport'' confidence seed) (\<lambda>transport.
     ebind (timing_scorecard seeded randbelow measurements ''dx'' confidence seed) (\<lambda>dx.
     ebind (agent_scorecard measurements) (\<lambda>agent.
     ebind (cost_scorecard measurements) (\<lambda>cost.
     ebind (semantic_scorecard raw) (\<lambda>semantic.
     ebind (process_evidence_summary measurements) (\<lambda>execution.
     ebind (artifact_surface raw) (\<lambda>artifacts.
     Inr [(''transport'', PDict (dict_set ''processExecution'' (PDict execution) (dict_set ''coverage'' (PDict transport_coverage) transport))),
       (''developerExperience'',
          PDict (dict_set ''dimensions'' (PDict dx_dimensions) (dict_set ''artifactAndInstallSurface'' (PDict artifacts) dx))),
       (''agentEfficiency'', PDict agent), (''cost'', PDict cost), (''semanticQuality'', PDict semantic)])))))))"

definition summarize :: "(int \<Rightarrow> 'r) \<Rightarrow> 'r randbelow \<Rightarrow> pydict \<Rightarrow> pydict \<Rightarrow> pydict res" where
  "summarize seeded randbelow raw policy =
     ebind (measurements_of raw) (\<lambda>measurements.
     ebind (dict_item raw ''policy'') (\<lambda>raw_policy.
     ebind (ebind (item raw_policy ''seed'') int_of_number) (\<lambda>seed.
     ebind (dict_item policy ''confidence'') (\<lambda>confidence.
     ebind (scorecards_of seeded randbelow raw measurements confidence seed) (\<lambda>scorecards.
     ebind (item raw ''schema'') (\<lambda>schema. ebind (item raw_policy ''sha256'') (\<lambda>policy_sha256.
     ebind (ebind (dict_item raw ''profile'') (\<lambda>d. item d ''sha256'')) (\<lambda>profile_sha256.
     ebind (item raw ''qualification'') (\<lambda>qualification. ebind (item raw ''claims'') (\<lambda>claims.
     ebind (ebind (dict_item policy ''residualTiming'') (\<lambda>d. item d ''fallback'')) (\<lambda>fallback.
     ebind (item policy ''regressionBudgets'') (\<lambda>budgets.
     Inr [(''schema'', PStr SUMMARY_SCHEMA), (''calculationVersion'', PStr CALCULATION_VERSION),
       (''source'', PDict [(''rawSchema'', schema), (''rawArtifactSha256'', dget raw ''_rawArtifactSha256''),
          (''policySha256'', policy_sha256), (''profileSha256'', profile_sha256)]),
       (''qualification'', qualification), (''claims'', claims), (''rules'', PDict (summary_rules seed (PDict confidence) fallback)),
       (''regressionBudgets'', budgets), (''scorecards'', PDict scorecards)]))))))))))))"

end
