(* ===== verification/Rig_Accounts.thy ===== *)
theory Rig_Accounts
  imports Rig_Run Rig_Scorecards
begin

text \<open>
  What a summary leaves out: the counts of a distribution add up to its trials, those of a comparison to its pairs,
  and the grouping of the trials loses none.
\<close>

section \<open>Counts of a distribution\<close>

definition count_in :: "pydict \<Rightarrow> string \<Rightarrow> int" where
  "count_in d k = int_of (dget d k)"

definition reason_total :: "pyval \<Rightarrow> int" where
  "reason_total v = sum_list (map (\<lambda>kv. int_of (snd kv)) (dict_of v))"

lemma filter_res_Inr: "filter_res p xs = Inr ys \<Longrightarrow> (\<And>x. x \<in> set xs \<Longrightarrow> p x = Inr (q x)) \<Longrightarrow> ys = filter q xs"
  by (induction xs arbitrary: ys) (auto simp: ebind_eq_Inr split: if_splits)

text \<open>A trial as a run records it\<close>

definition recorded :: "pydict \<Rightarrow> bool" where
  "recorded t \<longleftrightarrow> list_ex (\<lambda>st. trial_has_status st t) [''success'', ''failure'', ''timeout'', ''not-run''] \<and>
     trial_success_eligible t = Inr (trial_has_status ''success'' t)"

lemma status_count_trials: "status_count st ts = length (filter (trial_has_status st) ts)"
  by (simp add: status_count_def trial_has_status_def [abs_def])

lemma counts_partition: "list_all recorded ts \<Longrightarrow>
    length ts = status_count ''success'' ts + status_count ''failure'' ts + status_count ''timeout'' ts + status_count ''not-run'' ts"
  by (induction ts) (auto simp: status_count_def recorded_def trial_has_status_def)

lemma recorded_wall: "recorded t \<Longrightarrow> \<not> (dget t ''status'' = PStr ''success'' \<and> dget t ''wallMs'' = PNone)"
  by (auto simp: recorded_def trial_success_eligible_def trial_has_status_def)

lemma recorded_values: "driver_status_check ob = None \<Longrightarrow>
    list_ex (\<lambda>st. effective_status ob validation v = st) [''success'', ''failure'', ''timeout'', ''not-run'']"
  by (auto simp: driver_status_check_def effective_status_def)

lemma run_recorded:
  assumes "run_trials scrub env driver plans initial_run d = (Inr s, d')" "keeps_words scrub"
    "re_boundary env \<in> {''subprocess'', ''synthetic-in-process''}"
  shows "list_all recorded (rs_trials s)"
proof (rule run_trials_all [OF assms(1)])
  show "recorded trial" if "not_run_trial env p reason = Inr trial" for p reason trial
    using not_run_fields(1) [OF that] by (simp add: recorded_def trial_has_status_def not_success_ineligible)
  show "recorded trial" if "executed_trial scrub env p ob validation v = Inr trial"
    "process_evidence_validation (re_boundary env) (ob_status ob) (ob_process_evidence ob) = Inr v" "driver_status_check ob = None"
    for p ob validation v trial
    using executed_eligible [OF that(1) assms(2) that(2) assms(3)] recorded_values [OF that(3)] executed_fields(1) [OF that(1)]
    by (simp add: recorded_def trial_has_status_def)
qed (simp add: initial_run_def)

lemma duration_samples:
  "duration_statistics seeded randbelow values resamples level seed = Inr v \<Longrightarrow> count_in (dict_of v) ''samples'' = int (length values)"
  by (auto simp: duration_statistics_def ebind_eq_Inr count_in_def)

text \<open>The summary of recorded trials of one target\<close>

lemma distribution_counts:
  assumes "trial_distribution seeded randbelow ts resamples level seed = Inr d" "list_all recorded ts"
  shows "count_in d ''planned'' = int (length ts)"
    "count_in d ''planned'' = count_in d ''executed'' + count_in d ''notRun''"
    "count_in d ''executed'' = count_in d ''successes'' + count_in d ''failures'' + count_in d ''timeouts''"
    "count_in d ''successes'' = int (length (filter (trial_has_status ''success'') ts))"
    "count_in (dict_of (dget d ''successLatencyMs'')) ''samples'' = count_in d ''successes''"
    "count_in (dict_of (dget d ''successLatencyEligibility'')) ''eligible'' = count_in d ''successes''"
    "count_in (dict_of (dget d ''successLatencyEligibility'')) ''excluded'' =
       reason_total (dget (dict_of (dget d ''successLatencyEligibility'')) ''exclusionReasons'')"
proof -
  from assms(1) obtain eligible success_values attempt_values success_statistics attempt_statistics where
    eligible: "filter_res trial_success_eligible ts = Inr eligible" "traverse_res wall_of eligible = Inr success_values"
    and statistics: "duration_statistics seeded randbelow success_values resamples level (int seed) = Inr success_statistics"
    and d: "d = [(''planned'', count_value (length ts)),
       (''executed'', count_value (length (filter (\<lambda>t. dget t ''status'' \<noteq> PStr ''not-run'') ts))),
       (''successes'', count_value (status_count ''success'' ts)), (''failures'', count_value (status_count ''failure'' ts)),
       (''timeouts'', count_value (status_count ''timeout'' ts)), (''notRun'', count_value (status_count ''not-run'' ts)),
       (''successLatencyEligibility'', PDict
          [(''eligible'', count_value (length success_values)),
           (''excluded'', PInt (int (length ts) - int (length success_values))),
           (''exclusionReasons'', PDict
              [(''failure'', count_value (status_count ''failure'' ts)), (''timeout'', count_value (status_count ''timeout'' ts)),
               (''not-run'', count_value (status_count ''not-run'' ts)),
               (''success-missing-wall-time'', count_value (length (filter (\<lambda>t. dget t ''status'' = PStr ''success'' \<and>
                  dget t ''wallMs'' = PNone) ts)))])]),
       (''successLatencyMs'', success_statistics), (''allAttemptDurationMs'', attempt_statistics)]"
    unfolding trial_distribution_def Let_def ebind_eq_Inr by blast
  have "eligible = filter (trial_has_status ''success'') ts"
    by (rule filter_res_Inr [OF eligible(1)]) (use assms(2) in \<open>simp add: list_all_iff recorded_def\<close>)
  with traverse_res_length [OF eligible(2)] have sampled: "length success_values = status_count ''success'' ts"
    by (simp add: status_count_trials)
  have executed: "int (length (filter (\<lambda>t. dget t ''status'' \<noteq> PStr ''not-run'') ts)) = int (length ts) - int (status_count ''not-run'' ts)"
    using sum_length_filter_compl [of "\<lambda>t. dget t ''status'' = PStr ''not-run''" ts] by (simp add: status_count_def)
  have missing: "filter (\<lambda>t. dget t ''status'' = PStr ''success'' \<and> dget t ''wallMs'' = PNone) ts = []"
    using assms(2) recorded_wall by (auto simp: list_all_iff filter_empty_conv)
  note parts = counts_partition [OF assms(2)]
  show "count_in d ''planned'' = int (length ts)" "count_in d ''planned'' = count_in d ''executed'' + count_in d ''notRun''"
    "count_in d ''successes'' = int (length (filter (trial_has_status ''success'') ts))"
    by (simp_all add: d count_in_def count_value_def executed status_count_trials)
  show "count_in d ''executed'' = count_in d ''successes'' + count_in d ''failures'' + count_in d ''timeouts''"
    using executed parts by (simp add: d count_in_def count_value_def)
  show "count_in (dict_of (dget d ''successLatencyMs'')) ''samples'' = count_in d ''successes''"
    using duration_samples [OF statistics] by (simp add: d sampled) (simp add: count_in_def count_value_def)
  show "count_in (dict_of (dget d ''successLatencyEligibility'')) ''eligible'' = count_in d ''successes''"
    by (simp add: d count_in_def count_value_def sampled)
  show "count_in (dict_of (dget d ''successLatencyEligibility'')) ''excluded'' =
      reason_total (dget (dict_of (dget d ''successLatencyEligibility'')) ''exclusionReasons'')"
    using parts by (simp add: d count_in_def count_value_def reason_total_def sampled missing)
qed

text \<open>A success whose evidence fails the validation is excluded for no reason that is listed.\<close>

lemma unexplained_exclusion:
  assumes "trial_distribution seeded randbelow [t] resamples level seed = Inr d"
    "dget t ''status'' = PStr ''success''" "dget t ''wallMs'' \<noteq> PNone" "trial_success_eligible t = Inr False"
  shows "count_in (dict_of (dget d ''successLatencyEligibility'')) ''excluded'' = 1"
    "reason_total (dget (dict_of (dget d ''successLatencyEligibility'')) ''exclusionReasons'') = 0"
  using assms by (auto simp: trial_distribution_def Let_def ebind_eq_Inr count_in_def reason_total_def count_value_def status_count_def)

section \<open>Pairs of a comparison\<close>

definition pair_holds :: "(string \<times> pair_members) list \<Rightarrow> string \<Rightarrow> string \<Rightarrow> bool" where
  "pair_holds by_pair p k \<longleftrightarrow> (case map_of by_pair p of None \<Rightarrow> False | Some m \<Rightarrow> map_of m k \<noteq> None)"

definition in_pair :: "string \<Rightarrow> string \<Rightarrow> pydict \<Rightarrow> bool" where
  "in_pair p k t \<longleftrightarrow> dget t ''pair_id'' = PStr p \<and> dget t ''target_id'' = PStr k"

lemma text_item_Inr: "text_item d k = Inr s \<Longrightarrow> dget d k = PStr s"
  by (auto simp: text_item_def item_def dget_def ebind_eq_Inr split: option.splits pyval.splits)

lemma pair_holds_set_inner: "pair_holds (set_inner p k v by_pair) p' k' \<longleftrightarrow> p' = p \<and> k' = k \<or> pair_holds by_pair p' k'"
  by (auto simp: pair_holds_def set_inner_def split: option.split)

lemma collect_pairs_holds:
  "collect_pairs ts acc = Inr by_pair \<Longrightarrow>
     pair_holds by_pair p k \<longleftrightarrow> pair_holds acc p k \<or> list_ex (in_pair p k) ts"
proof (induction ts arbitrary: acc)
  case (Cons t ts)
  from Cons.prems obtain p' k' where t: "text_item t ''pair_id'' = Inr p'" "text_item t ''target_id'' = Inr k'"
    and rest: "collect_pairs ts (set_inner p' k' t acc) = Inr by_pair" by (auto simp: ebind_eq_Inr)
  from Cons.IH [OF rest] text_item_Inr [OF t(1)] text_item_Inr [OF t(2)] show ?case
    by (auto simp: pair_holds_set_inner in_pair_def)
qed simp

lemma collect_pairs_distinct:
  "collect_pairs ts acc = Inr by_pair \<Longrightarrow> distinct (map fst acc) \<Longrightarrow> distinct (map fst by_pair)"
  by (induction ts arbitrary: acc) (auto simp: ebind_eq_Inr set_inner_def dest: distinct_dict_set)

definition has_both :: "string \<Rightarrow> string \<Rightarrow> pair_members \<Rightarrow> bool" where
  "has_both left right pair \<longleftrightarrow> map_of pair left \<noteq> None \<and> map_of pair right \<noteq> None"

lemma pairs_counted:
  assumes "distinct (map fst by_pair)"
  shows "length (filter (has_both left right) (map snd by_pair)) = card {p. pair_holds by_pair p left \<and> pair_holds by_pair p right}"
proof -
  let ?kept = "filter (\<lambda>pm. has_both left right (snd pm)) by_pair"
  from assms have "distinct (map fst ?kept)" by (rule distinct_map_filter)
  then have "card (fst ` set ?kept) = length ?kept" using distinct_card by force
  moreover have "fst ` set ?kept = {p. pair_holds by_pair p left \<and> pair_holds by_pair p right}"
  proof (intro set_eqI iffI)
    fix p assume "p \<in> {p. pair_holds by_pair p left \<and> pair_holds by_pair p right}"
    then obtain m where "map_of by_pair p = Some m" "has_both left right m"
      by (auto simp: pair_holds_def has_both_def split: option.splits)
    then show "p \<in> fst ` set ?kept" using map_of_SomeD by force
  qed (use assms in \<open>auto simp: pair_holds_def has_both_def\<close>)
  ultimately show ?thesis by (simp add: filter_map o_def)
qed

lemma pairs_of_trials:
  assumes "collect_pairs trials [] = Inr by_pair"
  shows "length (filter (has_both left right) (map snd by_pair)) =
    card {p. list_ex (in_pair p left) trials \<and> list_ex (in_pair p right) trials}"
  using pairs_counted [OF collect_pairs_distinct [OF assms]] collect_pairs_holds [OF assms] by (simp add: pair_holds_def)

lemma target_names_set:
  "traverse_res (\<lambda>t. text_item t ''target_id'') trials = Inr names \<Longrightarrow>
     set names = {k. list_ex (\<lambda>t. dget t ''target_id'' = PStr k) trials}"
  by (induction trials arbitrary: names) (auto simp: ebind_eq_Inr dest: text_item_Inr)

definition tally_balanced :: "pair_tally \<Rightarrow> bool" where
  "tally_balanced t \<longleftrightarrow> pt_retained t = length (pt_differences t) + sum_list (map snd (pt_reasons t))"

lemma count_reason_total: "sum_list (map snd (count_reason r rs)) = Suc (sum_list (map snd rs))"
proof (induction rs)
  case (Cons x rs)
  then show ?case by (cases x) (auto simp: count_reason_def)
qed (simp add: count_reason_def)

lemma tally_pair_steps:
  assumes "tally_pair left right pair t = Inr t'"
  shows "pt_retained t' = pt_retained t + (if has_both left right pair then 1 else 0) \<and> (tally_balanced t \<longrightarrow> tally_balanced t')"
proof (cases "has_both left right pair")
  case True
  then obtain l r where "map_of pair left = Some l" "map_of pair right = Some r" by (auto simp: has_both_def)
  with assms True show ?thesis
    by (auto simp: tally_pair_def Let_def ebind_eq_Inr tally_balanced_def count_reason_total split: option.splits)
next
  case False
  with assms show ?thesis by (auto simp: tally_pair_def has_both_def split: option.splits)
qed

lemma tally_pairs_steps:
  "tally_pairs left right pairs t = Inr t' \<Longrightarrow>
     pt_retained t' = pt_retained t + length (filter (has_both left right) pairs) \<and> (tally_balanced t \<longrightarrow> tally_balanced t')"
proof (induction pairs arbitrary: t)
  case (Cons pair pairs)
  from Cons.prems obtain t1 where step: "tally_pair left right pair t = Inr t1" and rest: "tally_pairs left right pairs t1 = Inr t'"
    by (auto simp: ebind_eq_Inr)
  from tally_pair_steps [OF step] Cons.IH [OF rest] show ?case by auto
qed simp

lemma comparison_counts:
  assumes "comparison seeded randbelow resamples level seed surface action_id pairs (left, right) = Inr c"
  shows "dget c ''left'' = PStr left" "dget c ''right'' = PStr right"
    "count_in c ''plannedPairs'' = int (length (filter (has_both left right) pairs))"
    "count_in c ''plannedPairs'' = count_in c ''eligibleSuccessPairs'' + count_in c ''excludedPairs''"
    "count_in c ''excludedPairs'' = reason_total (dget c ''exclusionReasons'')"
proof -
  from assms obtain t interval where t: "tally_pairs left right pairs empty_tally = Inr t"
    and c: "c = [(''left'', PStr left), (''right'', PStr right),
       (''definition'', PStr ''left-success-wall-ms-minus-right-success-wall-ms''),
       (''plannedPairs'', count_value (pt_retained t)), (''eligibleSuccessPairs'', count_value (length (pt_differences t))),
       (''excludedPairs'', PInt (int (pt_retained t) - int (length (pt_differences t)))),
       (''exclusionReasons'', PDict (map (\<lambda>(r, n). (r, count_value n)) (pt_reasons t))),
       (''samples'', count_value (length (pt_differences t))),
       (''p50'', round_or_none (if pt_differences t = [] then None else Some (median (pt_differences t)))),
       (''pairedBootstrapMedianCi'', interval)]"
    unfolding comparison_def prod.case Let_def ebind_eq_Inr by blast
  have "tally_balanced empty_tally" by (simp add: tally_balanced_def empty_tally_def)
  with tally_pairs_steps [OF t] have steps: "pt_retained t = length (filter (has_both left right) pairs)" "tally_balanced t"
    by (simp_all add: empty_tally_def)
  have "sum_list (map (\<lambda>x. int_of (snd (case x of (r, n) \<Rightarrow> (r, count_value n)))) rs) = int (sum_list (map snd rs))" for rs :: "(string \<times> nat) list"
    by (induction rs) (auto simp: count_value_def)
  with steps show "dget c ''left'' = PStr left" "dget c ''right'' = PStr right"
    "count_in c ''plannedPairs'' = int (length (filter (has_both left right) pairs))"
    "count_in c ''plannedPairs'' = count_in c ''eligibleSuccessPairs'' + count_in c ''excludedPairs''"
    "count_in c ''excludedPairs'' = reason_total (dget c ''exclusionReasons'')"
    by (simp_all add: c count_in_def count_value_def reason_total_def tally_balanced_def o_def)
qed

lemma comparison_facts:
  assumes "collect_pairs trials [] = Inr by_pair"
    "comparison seeded randbelow resamples level seed surface action_id (map snd by_pair) x = Inr c"
  shows "case x of (left, right) \<Rightarrow> dget c ''left'' = PStr left \<and> dget c ''right'' = PStr right \<and>
    count_in c ''plannedPairs'' = int (card {p. list_ex (in_pair p left) trials \<and> list_ex (in_pair p right) trials}) \<and>
    count_in c ''plannedPairs'' = count_in c ''eligibleSuccessPairs'' + count_in c ''excludedPairs'' \<and>
    count_in c ''excludedPairs'' = reason_total (dget c ''exclusionReasons'')"
proof (cases x)
  case (Pair left right)
  from comparison_counts [OF assms(2) [unfolded Pair]] show ?thesis
    unfolding Pair prod.case pairs_of_trials [OF assms(1), symmetric] by blast
qed

section \<open>Grouping\<close>

lemma group_runs_concat: "concat (map snd (group_runs xs)) = map snd xs"
proof (induction xs rule: group_runs.induct)
  case (2 k x xs)
  then show ?case by (auto split: list.splits)
qed simp

lemma group_runs_keys: "(k, ys) \<in> set (group_runs xs) \<Longrightarrow> y \<in> set ys \<Longrightarrow> (k, y) \<in> set xs"
proof (induction xs arbitrary: ys rule: group_runs.induct)
  case (2 k' x xs)
  show ?case
  proof (cases "group_runs xs")
    case Nil
    with "2.prems" show ?thesis by auto
  next
    case (Cons g gs)
    obtain k1 zs where g: "g = (k1, zs)" by (cases g)
    note IH = "2.IH" [unfolded Cons g]
    from "2.prems" Cons g consider "k1 = k'" "k = k'" "ys = x # zs" | "k = k'" "ys = [x]" | "(k, ys) \<in> set ((k1, zs) # gs)"
      by (auto split: if_splits)
    then show ?thesis
    proof cases
      case 1
      then show ?thesis using IH [of zs] "2.prems"(2) by auto
    qed (use IH [of ys] "2.prems"(2) in auto)
  qed
qed simp

text \<open>The groups of a scorecard hold its trials, each once and under its own surface and action.\<close>

definition of_action :: "string \<times> string \<Rightarrow> pydict \<Rightarrow> bool" where
  "of_action key t \<longleftrightarrow> dget t ''surface'' = PStr (fst key) \<and> dget t ''action_id'' = PStr (snd key)"

lemma by_action_groups:
  assumes "by_action trials = Inr groups"
  shows "mset (concat (map snd groups)) = mset trials"
    "list_all (\<lambda>(key, ts). list_all (of_action key) ts) groups"
proof -
  from assms obtain keyed where keyed: "list_all2 (\<lambda>t kt. ebind (text_item t ''surface'') (\<lambda>surface.
      ebind (text_item t ''action_id'') (\<lambda>action_id. Inr ((surface, action_id), t))) = Inr kt) trials keyed"
    and groups: "groups = group_runs (sorted_groups keyed)"
    unfolding by_action_def ebind_eq_Inr [of "traverse_res _ _"] traverse_res_all sum.inject by blast
  then have "list_all2 (\<lambda>t kt. snd kt = t \<and> of_action (fst kt) t) trials keyed"
    by (elim list_all2_mono) (auto simp: ebind_eq_Inr of_action_def text_item_Inr)
  then have all: "map snd keyed = trials" "list_all (\<lambda>(key, t). of_action key t) keyed"
    by (induction trials keyed rule: list_all2_induct) auto
  from all(1) have "mset (map snd (sorted_groups keyed)) = mset trials" by (metis mset_map sorted_groups_mset)
  then show "mset (concat (map snd groups)) = mset trials" by (simp only: groups group_runs_concat)
  have "set (sorted_groups keyed) = set keyed" by (rule mset_eq_setD) (rule sorted_groups_mset)
  with all(2) have "of_action key t" if "(key, ts) \<in> set groups" "t \<in> set ts" for key ts t
    using group_runs_keys that unfolding groups list_all_iff by (metis case_prodD)
  then show "list_all (\<lambda>(key, ts). list_all (of_action key) ts) groups" by (auto simp: list_all_iff)
qed

end
