(* ===== verification/Rig_Claims.thy ===== *)
theory Rig_Claims
  imports Rig_Accounts
begin

text \<open>
  The properties of the benchmark rig: complete paired schedules, runs that stop at their limits with counters that
  agree with the trials, settled successes, which trials count, and summaries that leave out no trial and no pair
  unsaid. Some lemmas record inputs that end a whole run.
\<close>

text \<open>C18. A schedule is complete and paired: it holds every action, phase and repetition with every target exactly
  once, under the surface and comparison group of that target, in consecutive ordinals; and it is a sequence of pairs,
  each with its plans in the positions from 0. The random order changes nothing of this.\<close>

theorem schedule_is_complete:
  assumes "build_schedule render seeded randbelow profile policy = Inr plans" "in_bounds randbelow"
  shows "\<exists>targets phases actions. bench_targets render profile = Inr targets \<and> phase_counts policy = Inr phases \<and>
    bench_actions profile = Inr actions \<and> map tp_ordinal plans = [0..<length plans] \<and>
    (\<exists>pairs. plans = concat pairs \<and> list_all paired pairs) \<and>
    mset (map slot_of plans) = mset (expected_slots render actions phases targets)"
  using build_schedule_Inr [OF assms(1)] schedule_facts [OF assms] by metis

text \<open>C17. A run invokes its driver for the first plans only, once each and in order, until a limit is reached, and records
  every later plan as not run; so there is one trial per plan, the timeouts it counts are the trials that timed out and
  at most the maximum, and it has stopped exactly when the cost or the timeouts have reached their limit.\<close>

theorem run_stops_at_its_limits:
  assumes "run_trials scrub env (logged driver) plans initial_run ([], d) = (Inr s, (calls, d'))"
    "1 \<le> re_maximum_timeouts env" "\<not> float_leq (re_maximum_cost env) (FFin 0)"
  shows "\<exists>k \<le> length plans. map iv_plan calls = take k plans \<and>
    list_all (\<lambda>t. \<not> trial_has_status ''not-run'' t) (take k (rs_trials s)) \<and> list_all (trial_has_status ''not-run'') (drop k (rs_trials s)) \<and>
    map (\<lambda>t. dget t ''ordinal'') (rs_trials s) = map (\<lambda>p. PInt (int (tp_ordinal p))) plans \<and>
    rs_timeouts s = length (filter (trial_has_status ''timeout'') (rs_trials s)) \<and>
    int (rs_timeouts s) \<le> re_maximum_timeouts env \<and>
    (rs_stop_reason s \<noteq> None \<longleftrightarrow> float_leq (re_maximum_cost env) (rs_cost s) \<or> re_maximum_timeouts env \<le> int (rs_timeouts s)) \<and>
    (k < length plans \<longrightarrow> rs_stop_reason s \<noteq> None)"
proof -
  from run_trials_inv [OF assms(1) run_start [OF assms(2, 3)]] obtain k where "run_inv env plans s calls k" by auto
  then show ?thesis unfolding run_inv_def limits_reached_def by (intro exI [of _ k]) auto
qed

text \<open>C16. When the command driver reports a success, its evidence passes the validation, the child exited with 0 within
  the time limit, and both streams were read to their ends: the reported texts are the decoded bytes the child wrote up
  to the output limit, and the observation is marked as truncated exactly when more was written. The evidence of every
  other observation passes too.\<close>

theorem driver_success_is_settled:
  assumes "run_child limit os_name w stdin_json = Inr ob"
  shows "process_evidence_validation ''subprocess'' (ob_status ob) (ob_process_evidence ob) =
      Inr (verdict ''passed'' ''complete-consistent-process-evidence'') \<and>
    (ob_status ob = ''success'' \<longrightarrow> poll w 1 = Some 0 \<and>
       complete_stream limit (events_until (ow_stdout w) 27) (ob_stdout ob) \<and>
       complete_stream limit (events_until (ow_stderr w) 27) (ob_stderr ob) \<and>
       (ob_output_truncated ob \<longleftrightarrow> limit < length (streamed (events_until (ow_stdout w) 27)) \<or>
          limit < length (streamed (events_until (ow_stderr w) 27))))"
  using driver_evidence_passes [OF assms] driver_success [OF assms] by blast

text \<open>C19. Whatever driver is used, a recorded trial counts for the latencies exactly when it is recorded as a success:
  redacting the evidence for the record never turns an accepted success into one the analysis rejects.\<close>

theorem recorded_success_counts:
  assumes "run_trials scrub env driver plans initial_run d = (Inr s, d')" "t \<in> set (rs_trials s)" "keeps_words scrub"
    "re_boundary env \<in> {''subprocess'', ''synthetic-in-process''}"
  shows "trial_success_eligible t = Inr (dget t ''status'' = PStr ''success'')"
proof -
  have "list_all (\<lambda>t. trial_success_eligible t = Inr (trial_has_status ''success'' t)) (rs_trials s)"
  proof (rule run_trials_all [OF assms(1)])
    show "trial_success_eligible trial = Inr (trial_has_status ''success'' trial)" if "not_run_trial env p reason = Inr trial" for p reason trial
      using not_run_fields(1) [OF that] by (simp add: trial_has_status_def not_success_ineligible)
    show "trial_success_eligible trial = Inr (trial_has_status ''success'' trial)"
      if "executed_trial scrub env p ob validation v = Inr trial"
        "process_evidence_validation (re_boundary env) (ob_status ob) (ob_process_evidence ob) = Inr v" for p ob validation v trial
      by (rule executed_eligible [OF that(1) assms(3) that(2) assms(4)])
  qed (simp add: initial_run_def)
  with assms(2) show ?thesis by (simp add: list_all_iff trial_has_status_def)
qed

text \<open>C21. Nothing that ran is left out of a distribution unsaid: over any trials of a run, the planned trials are those
  executed and those not run, the executed are the successes, failures and timeouts, the latency statistics rest on
  exactly the successes, and the reasons given for the excluded trials add up to them.\<close>

theorem distribution_accounts_for_trials:
  assumes "run_trials scrub env driver plans initial_run d = (Inr s, d')" "set ts \<subseteq> set (rs_trials s)" "keeps_words scrub"
    "re_boundary env \<in> {''subprocess'', ''synthetic-in-process''}"
    "trial_distribution seeded randbelow ts resamples level seed = Inr distribution"
  shows "count_in distribution ''planned'' = int (length ts) \<and>
    count_in distribution ''planned'' = count_in distribution ''executed'' + count_in distribution ''notRun'' \<and>
    count_in distribution ''executed'' =
      count_in distribution ''successes'' + count_in distribution ''failures'' + count_in distribution ''timeouts'' \<and>
    count_in distribution ''successes'' = int (length (filter (trial_has_status ''success'') ts)) \<and>
    count_in (dict_of (dget distribution ''successLatencyMs'')) ''samples'' = count_in distribution ''successes'' \<and>
    count_in (dict_of (dget distribution ''successLatencyEligibility'')) ''eligible'' = count_in distribution ''successes'' \<and>
    count_in (dict_of (dget distribution ''successLatencyEligibility'')) ''excluded'' =
      reason_total (dget (dict_of (dget distribution ''successLatencyEligibility'')) ''exclusionReasons'')"
proof -
  have "list_all recorded ts" using run_recorded [OF assms(1, 3, 4)] assms(2) by (auto simp: list_all_iff)
  from distribution_counts [OF assms(5) this] show ?thesis by blast
qed

text \<open>C22. The paired comparisons of an action compare any two of its targets once, in the order of their names, and
  drop no pair unsaid: the planned pairs are those in which both targets have a trial, each is either sampled or excluded,
  and the reasons add up to the excluded.\<close>

theorem comparisons_account_for_pairs:
  assumes "paired_comparisons seeded randbelow trials resamples level seed surface action_id = Inr cs"
  shows "\<exists>names. sorted_wrt str_before names \<and> set names = {k. list_ex (\<lambda>t. dget t ''target_id'' = PStr k) trials} \<and>
    list_all2 (\<lambda>(left, right) c. dget c ''left'' = PStr left \<and> dget c ''right'' = PStr right \<and>
       count_in c ''plannedPairs'' = int (card {p. list_ex (in_pair p left) trials \<and> list_ex (in_pair p right) trials}) \<and>
       count_in c ''plannedPairs'' = count_in c ''eligibleSuccessPairs'' + count_in c ''excludedPairs'' \<and>
       count_in c ''excludedPairs'' = reason_total (dget c ''exclusionReasons'')) (combinations names) cs"
proof -
  from assms obtain names by_pair where names: "traverse_res (\<lambda>t. text_item t ''target_id'') trials = Inr names"
    and by_pair: "collect_pairs trials [] = Inr by_pair"
    and cs: "list_all2 (\<lambda>x c. comparison seeded randbelow resamples level seed surface action_id (map snd by_pair) x = Inr c)
      (combinations (sorted_names names)) cs"
    unfolding paired_comparisons_def ebind_eq_Inr [of "traverse_res (\<lambda>t. text_item t _) _"] ebind_eq_Inr [of "collect_pairs _ _"]
    by (auto simp: traverse_res_all)
  from names have "set names = {k. list_ex (\<lambda>t. dget t ''target_id'' = PStr k) trials}" by (rule target_names_set)
  moreover from cs have "list_all2 (\<lambda>(left, right) c. dget c ''left'' = PStr left \<and> dget c ''right'' = PStr right \<and>
       count_in c ''plannedPairs'' = int (card {p. list_ex (in_pair p left) trials \<and> list_ex (in_pair p right) trials}) \<and>
       count_in c ''plannedPairs'' = count_in c ''eligibleSuccessPairs'' + count_in c ''excludedPairs'' \<and>
       count_in c ''excludedPairs'' = reason_total (dget c ''exclusionReasons'')) (combinations (sorted_names names)) cs"
    by (rule list_all2_mono) (use comparison_facts [OF by_pair] in fast)
  ultimately show ?thesis using sorted_sorted_names [of names] by (intro exI [of _ "sorted_names names"]) simp
qed

text \<open>C20. Raw evidence is not trusted for its flags: a trial that was not run in process and whose \<open>processStatus\<close> is
  ''success'' counts only when its evidence is that of a platform the rig knows, of a child that has exited and whose two
  readers have ended without an error, with the clean-up not needed or settled. Without that \<open>processStatus\<close> this is
  not so, as \<open>mismatched_status_counts\<close> shows.\<close>

theorem counted_command_is_settled:
  assumes "trial_success_eligible trial = Inr True"
    "dget (dict_of (dget trial ''executionBoundary'')) ''kind'' \<noteq> PStr ''synthetic-in-process''"
    "dget trial ''processStatus'' = PStr ''success''"
  shows "\<exists>fields containment settlement. dget trial ''processEvidence'' = PDict fields \<and>
    dget fields ''containment'' = PDict containment \<and> dget fields ''settlement'' = PDict settlement \<and>
    (\<exists>name \<in> {''nt'', ''posix''}. \<forall>k \<in> set containment_fields. dget containment k = dget (process_containment_capability name) k) \<and>
    dget settlement ''status'' = PStr ''settled'' \<and> dget settlement ''directProcessExited'' = PBool True \<and>
    dget settlement ''stdoutReaderSettled'' = PBool True \<and> dget settlement ''stderrReaderSettled'' = PBool True \<and>
    dget settlement ''readerErrors'' = PList [] \<and> settled_cleanup (dget (dict_of (dget settlement ''cleanup'')) ''status'')"
proof -
  let ?e = "if is_dict (dget trial ''processEvidence'') then dget trial ''processEvidence'' else PNone"
  have process: "str_of (get_default trial ''processStatus'' (dget trial ''status'')) = ''success''"
    using assms(3) by (auto simp: get_default_def dget_def split: option.splits)
  from assms(1, 2) process obtain v where v: "process_evidence_validation ''subprocess'' ''success'' ?e = Inr v" "dget v ''status'' = PStr ''passed''"
    by (auto simp: trial_success_eligible_def Let_def ebind_eq_Inr split: if_splits)
  from v(1) obtain reason where "v = verdict ''passed'' reason"
  proof (cases rule: verdict_cases)
    case 1
    then show thesis by simp
  next
    case (2 reason)
    with v(2) show thesis by simp
  qed
  with v(1) have "process_evidence_validation ''subprocess'' ''success'' ?e = Inr (verdict ''passed'' reason)" by simp
  from passed_success [OF this] show ?thesis by (metis pyval.distinct(11))
qed

text \<open>A run of the command driver never blames its own evidence: every trial it executes has evidence that passes, so
  what fails there is the command.\<close>

theorem command_run_evidence_passes:
  assumes "run_trials scrub env (command_as_driver render limit os_name getcwd next_world) ps initial_run d = (Inr s, d')"
    "re_boundary env = ''subprocess''"
  shows "list_all (\<lambda>t. trial_has_status ''not-run'' t \<or>
    dget t ''processEvidenceValidation'' = PDict (verdict ''passed'' ''complete-consistent-process-evidence'')) (rs_trials s)"
  by (rule command.run_evidence_passes [OF assms])

section \<open>Inputs that end a run\<close>

text \<open>A child that does not read its request: the flush breaks, which the driver means to ignore, and closing the pipe
  breaks again, so the driver raises and leaves the child behind.\<close>

lemma unread_request_raises:
  assumes "ow_spawn_error w = None" "ow_feed w = Broken_flushing" "stdin_json \<noteq> PNone" "rig_canonical_json_bytes stdin_json = Inr b"
  shows "run_child limit os_name w stdin_json = Inl (OSErr ''BrokenPipeError'')"
  using assms by (simp add: run_child_def feed_request_def Let_def)

text \<open>Evidence whose platform is a list is not reported as invalid: looking it up raises.\<close>

lemma unhashable_platform_raises:
  "process_evidence_validation ''subprocess'' ''success'' (process_evidence_of
     [(''platformFamily'', PList []), (''authority'', PStr ''a''), (''mechanism'', PStr ''m''),
      (''releaseContainmentSupported'', PBool False), (''nativeHelperRequired'', PBool False), (''blocker'', PNone)] []) = Inl TypeErr"
  by code_simp

text \<open>A dry run that prints a selection which is no object is no failed validation: the whole run ends.\<close>

lemma malformed_selection_raises:
  "mechanical_validation (\<lambda>s. s) (new_observation ''success'' (FFin 1) (Some 0) (CHR 0x7B # CHR 0x22 # ''selection'' @ CHR 0x22 # '':1}'') [])
     [(''expectation'', PStr ''dry-run'')] [] [] = Inl AttributeErr"
  by code_simp

text \<open>A trial recorded as a success counts although its child has not settled, when its process status says failure.\<close>

lemma mismatched_status_counts:
  "trial_success_eligible
     [(''status'', PStr ''success''), (''processStatus'', PStr ''failure''), (''wallMs'', PFloat (FFin 1)),
      (''executionBoundary'', boundary_record ''subprocess''),
      (''processEvidence'', process_evidence_of (process_containment_capability ''posix'')
        (settlement_evidence (process_containment_capability ''posix'') False False False [] no_cleanup))] = Inr True"
  by code_simp

text \<open>Of two actions with one id the last is executed in the place of both.\<close>

lemma last_action_wins: "index_by_id [[(''id'', PStr x), (''argv'', a)], [(''id'', PStr x), (''argv'', b)]] [] =
    Inr [(x, [(''id'', PStr x), (''argv'', b)])]"
  by (simp add: item_def hashable_def)

section \<open>Witnesses\<close>

definition demo_profile :: pydict where
  "demo_profile = [(''seed'', PInt 7),
     (''targets'', PList (map (\<lambda>x. PDict [(''id'', PStr x), (''surface'', PStr ''wrapper''), (''comparisonGroup'', PStr ''g'')]) [''b'', ''a''])),
     (''actions'', PList [PDict [(''id'', PStr ''v''), (''scorecard'', PStr ''dx'')]])]"

definition demo_policy :: pydict where
  "demo_policy = [(''warmups'', PInt 1), (''repetitions'', PInt 2), (''timeoutAccounting'', PDict [(''perRunMs'', PInt 5)])]"

definition demo_below :: "nat randbelow" where
  "demo_below n r = (r mod n, r + 1)"

definition demo_plans :: "trial_plan list" where
  "demo_plans = (case build_schedule (\<lambda>v. []) nat demo_below demo_profile demo_policy of Inl e \<Rightarrow> [] | Inr ps \<Rightarrow> ps)"

lemma demo_schedule: "build_schedule (\<lambda>v. []) nat demo_below demo_profile demo_policy = Inr demo_plans" "length demo_plans = 6"
proof -
  have "case build_schedule (\<lambda>v. []) nat demo_below demo_profile demo_policy of Inl e \<Rightarrow> False | Inr ps \<Rightarrow> length ps = 6"
    by code_simp
  then show "build_schedule (\<lambda>v. []) nat demo_below demo_profile demo_policy = Inr demo_plans" "length demo_plans = 6"
    unfolding demo_plans_def by (auto split: sum.splits)
qed

theorem schedule_is_complete_witness:
  "\<exists>targets phases actions. bench_targets (\<lambda>v. []) demo_profile = Inr targets \<and> phase_counts demo_policy = Inr phases \<and>
    bench_actions demo_profile = Inr actions \<and> map tp_ordinal demo_plans = [0..<6] \<and>
    (\<exists>pairs. demo_plans = concat pairs \<and> list_all paired pairs) \<and>
    mset (map slot_of demo_plans) = mset (expected_slots (\<lambda>v. []) actions phases targets)"
proof -
  have "in_bounds demo_below" by (simp add: in_bounds_def demo_below_def)
  from schedule_is_complete [OF demo_schedule(1) this] show ?thesis unfolding demo_schedule(2) .
qed

text \<open>A child that prints \<open>hi\<close> and exits with 0, and one that is still running when its time is over.\<close>

definition rig_world :: "(nat \<times> int) option \<Rightarrow> os_world" where
  "rig_world exited = \<lparr>ow_spawn_error = None, ow_feed = Fed,
     ow_stdout = (\<lambda>t. if t = 0 then [Pipe_chunk ''hi'', Pipe_chunk [], Thread_end] else []),
     ow_stderr = (\<lambda>t. if t = 0 then [Pipe_chunk [], Thread_end] else []), ow_exit = exited,
     ow_killpg = (\<lambda>t. if t < 5 then Kill_sent else No_such_process), ow_terminate_fails = (\<lambda>t. False), ow_kill_fails = (\<lambda>t. False),
     ow_elapsed_ns = 1000000\<rparr>"

definition demo_observation :: "(nat \<times> int) option \<Rightarrow> observation" where
  "demo_observation e = (case run_child 1 ''posix'' (rig_world e) PNone of
     Inr ob \<Rightarrow> ob | Inl e \<Rightarrow> new_observation [] (FFin 0) None [] [])"

lemma demo_child: "run_child 1 ''posix'' (rig_world (Some (0, 0))) PNone = Inr (demo_observation (Some (0, 0)))"
  "ob_status (demo_observation (Some (0, 0))) = ''success''" "ob_stdout (demo_observation (Some (0, 0))) = ''h''"
  "ob_output_truncated (demo_observation (Some (0, 0)))"
proof -
  have run: "case run_child 1 ''posix'' (rig_world (Some (0, 0))) PNone of Inl e \<Rightarrow> False
    | Inr ob \<Rightarrow> ob_status ob = ''success'' \<and> ob_stdout ob = ''h'' \<and> ob_output_truncated ob" by code_simp
  then obtain ob where ob: "run_child 1 ''posix'' (rig_world (Some (0, 0))) PNone = Inr ob"
    by (cases "run_child 1 ''posix'' (rig_world (Some (0, 0))) PNone") simp_all
  from ob have "demo_observation (Some (0, 0)) = ob" by (simp only: demo_observation_def sum.case)
  with ob run show "run_child 1 ''posix'' (rig_world (Some (0, 0))) PNone = Inr (demo_observation (Some (0, 0)))"
    "ob_status (demo_observation (Some (0, 0))) = ''success''" "ob_stdout (demo_observation (Some (0, 0))) = ''h''"
    "ob_output_truncated (demo_observation (Some (0, 0)))" by (simp_all only: sum.case)
qed

theorem driver_success_is_settled_witness:
  "process_evidence_validation ''subprocess'' ''success'' (ob_process_evidence (demo_observation (Some (0, 0)))) =
      Inr (verdict ''passed'' ''complete-consistent-process-evidence'') \<and>
    complete_stream 1 (events_until (ow_stdout (rig_world (Some (0, 0)))) 27) ''h'' \<and>
    (1 < length (streamed (events_until (ow_stdout (rig_world (Some (0, 0)))) 27)) \<or>
      1 < length (streamed (events_until (ow_stderr (rig_world (Some (0, 0)))) 27)))"
  using driver_success_is_settled [OF demo_child(1)] unfolding demo_child(2, 3) using demo_child(4) by blast

text \<open>A run of two plans whose first trial times out, and one whose trials succeed.\<close>

definition demo_env :: "string \<Rightarrow> run_env" where
  "demo_env boundary = \<lparr>re_profile = demo_profile, re_policy = demo_policy, re_targets = [(''a'', []), (''b'', [])],
     re_actions = [(''v'', [])], re_context = [], re_boundary = boundary, re_maximum_cost = FFin 1, re_maximum_timeouts = 1\<rparr>"

definition demo_plan :: "nat \<Rightarrow> string \<Rightarrow> trial_plan" where
  "demo_plan n target = \<lparr>tp_ordinal = n, tp_pair_id = ''p'', tp_pair_index = 0, tp_position = n, tp_phase = ''measurement'',
     tp_action_id = ''v'', tp_scorecard = ''dx'', tp_target_id = target, tp_surface = ''wrapper'', tp_comparison_group = ''g''\<rparr>"

definition demo_driver :: "observation \<Rightarrow> unit driver" where
  "demo_driver ob = (\<lambda>iv d. (Inr ob, d))"

lemma demo_stopped: obtains s calls where
  "run_trials (\<lambda>s. s) (demo_env ''synthetic-in-process'') (logged (demo_driver (observation_timeout (FFin 1) [] [])))
     [demo_plan 0 ''a'', demo_plan 1 ''b''] initial_run ([], ()) = (Inr s, (calls, ()))"
  "rs_stop_reason s = Some ''timeout-limit''" "rs_timeouts s = 1"
proof -
  let ?run = "run_trials (\<lambda>s. s) (demo_env ''synthetic-in-process'') (logged (demo_driver (observation_timeout (FFin 1) [] [])))
     [demo_plan 0 ''a'', demo_plan 1 ''b''] initial_run ([], ())"
  have "case fst ?run of Inl e \<Rightarrow> False | Inr s \<Rightarrow> rs_stop_reason s = Some ''timeout-limit'' \<and> rs_timeouts s = 1" by code_simp
  moreover obtain r calls u where "?run = (r, (calls, u))" by (metis prod.collapse)
  ultimately show thesis using that by (cases r) auto
qed

theorem run_stops_at_its_limits_witness:
  "\<exists>s calls. run_trials (\<lambda>s. s) (demo_env ''synthetic-in-process'') (logged (demo_driver (observation_timeout (FFin 1) [] [])))
      [demo_plan 0 ''a'', demo_plan 1 ''b''] initial_run ([], ()) = (Inr s, (calls, ())) \<and>
    (\<exists>k \<le> 2. map iv_plan calls = take k [demo_plan 0 ''a'', demo_plan 1 ''b''] \<and>
      list_all (trial_has_status ''not-run'') (drop k (rs_trials s))) \<and> rs_timeouts s = 1 \<and> rs_stop_reason s = Some ''timeout-limit''"
proof (rule demo_stopped)
  fix s calls
  assume run: "run_trials (\<lambda>s. s) (demo_env ''synthetic-in-process'') (logged (demo_driver (observation_timeout (FFin 1) [] [])))
     [demo_plan 0 ''a'', demo_plan 1 ''b''] initial_run ([], ()) = (Inr s, (calls, ()))"
    and stopped: "rs_stop_reason s = Some ''timeout-limit''" "rs_timeouts s = 1"
  have "1 \<le> re_maximum_timeouts (demo_env ''synthetic-in-process'')"
    "\<not> float_leq (re_maximum_cost (demo_env ''synthetic-in-process'')) (FFin 0)"
    by (simp_all add: demo_env_def float_leq_def)
  from run_stops_at_its_limits [OF run this] obtain k where "k \<le> length [demo_plan 0 ''a'', demo_plan 1 ''b'']"
    "map iv_plan calls = take k [demo_plan 0 ''a'', demo_plan 1 ''b'']" "list_all (trial_has_status ''not-run'') (drop k (rs_trials s))"
    by blast
  moreover from this(1) have "k \<le> 2" by simp
  ultimately show ?thesis using run stopped by blast
qed

definition settled_evidence :: pyval where
  "settled_evidence = process_evidence_of (process_containment_capability ''posix'')
     (settlement_evidence (process_containment_capability ''posix'') True True True [] no_cleanup)"

definition settled_observation :: observation where
  "settled_observation = (new_observation ''success'' (FFin 1) (Some 0) [] [])\<lparr>ob_process_evidence := settled_evidence\<rparr>"

lemma demo_counted: obtains s t where
  "run_trials (\<lambda>s. s) (demo_env ''subprocess'') (demo_driver settled_observation) [demo_plan 0 ''a''] initial_run () = (Inr s, ())"
  "t \<in> set (rs_trials s)" "dget t ''status'' = PStr ''success''" "dget t ''processStatus'' = PStr ''success''"
  "dget (dict_of (dget t ''executionBoundary'')) ''kind'' = PStr ''subprocess''" "dget t ''wallMs'' = PFloat (FFin 1)"
proof -
  let ?run = "run_trials (\<lambda>s. s) (demo_env ''subprocess'') (demo_driver settled_observation) [demo_plan 0 ''a''] initial_run ()"
  have "case fst ?run of Inl e \<Rightarrow> False | Inr s \<Rightarrow> rs_trials s \<noteq> [] \<and> dget (hd (rs_trials s)) ''status'' = PStr ''success'' \<and>
      dget (hd (rs_trials s)) ''processStatus'' = PStr ''success'' \<and>
      dget (dict_of (dget (hd (rs_trials s)) ''executionBoundary'')) ''kind'' = PStr ''subprocess'' \<and>
      dget (hd (rs_trials s)) ''wallMs'' = PFloat (FFin 1)" by code_simp
  moreover obtain r u where run: "?run = (r, u)" by (metis prod.collapse)
  moreover have "u = ()" by simp
  ultimately show thesis by (cases r) (simp_all del: run_trials.simps, blast intro: that hd_in_set)
qed

lemma same_words: "keeps_words (\<lambda>s. s)"
  by (simp add: keeps_words_def list_all_iff)

theorem recorded_success_counts_witness:
  "\<exists>s t. run_trials (\<lambda>s. s) (demo_env ''subprocess'') (demo_driver settled_observation) [demo_plan 0 ''a''] initial_run () =
      (Inr s, ()) \<and> t \<in> set (rs_trials s) \<and> trial_success_eligible t = Inr True"
proof (rule demo_counted)
  fix s t
  assume run: "run_trials (\<lambda>s. s) (demo_env ''subprocess'') (demo_driver settled_observation) [demo_plan 0 ''a''] initial_run () = (Inr s, ())"
    and t: "t \<in> set (rs_trials s)" "dget t ''status'' = PStr ''success''"
  have "re_boundary (demo_env ''subprocess'') \<in> {''subprocess'', ''synthetic-in-process''}" by (simp add: demo_env_def)
  from recorded_success_counts [OF run t(1) same_words this] t(2) have "trial_success_eligible t = Inr True" by simp
  with run t(1) show ?thesis by blast
qed

text \<open>A trial as the rig records it.\<close>

definition demo_trial :: pydict where
  "demo_trial = [(''status'', PStr ''success''), (''processStatus'', PStr ''success''), (''wallMs'', PFloat (FFin 1)),
     (''executionBoundary'', boundary_record ''subprocess''),
     (''processEvidence'', settled_evidence)]"

theorem counted_command_is_settled_witness:
  "\<exists>fields settlement. dget demo_trial ''processEvidence'' = PDict fields \<and> dget fields ''settlement'' = PDict settlement \<and>
    dget settlement ''status'' = PStr ''settled'' \<and> dget settlement ''directProcessExited'' = PBool True"
proof -
  have "trial_success_eligible demo_trial = Inr True" by code_simp
  moreover have "dget (dict_of (dget demo_trial ''executionBoundary'')) ''kind'' \<noteq> PStr ''synthetic-in-process''"
    "dget demo_trial ''processStatus'' = PStr ''success''" by code_simp+
  ultimately show ?thesis using counted_command_is_settled [of demo_trial] by blast
qed

text \<open>The distribution of that run, and the comparison of a success with a failure. The bootstrap of 105 resamples finds
  its percentiles at whole places, whatever is drawn.\<close>

lemma length_estimates: "length (sort_floats (bootstrap_estimates randbelow samples n r)) = n"
proof -
  have "length (insert_float x xs) = Suc (length xs)" for x xs by (induction xs) auto
  then have "length (sort_floats xs) = length xs" for xs by (induction xs) (simp_all add: sort_floats_def)
  moreover have "length (bootstrap_estimates randbelow samples n r) = n" by (induction n arbitrary: r) (auto split: prod.splits)
  ultimately show ?thesis by simp
qed

lemma demo_index: "float_of_int 104 = Inr (FFin 104)" by code_simp
lemma demo_below_index: "float_mul (FFin (1 / 8)) (FFin 104) = FFin 13" by code_simp
lemma demo_above_index: "float_mul (FFin (7 / 8)) (FFin 104) = FFin 91" by code_simp
lemma demo_tail_mass: "float_div_nat (float_sub (FFin 1) (FFin (3 / 4))) 2 = FFin (1 / 8)" by code_simp
lemma demo_complement: "float_sub (FFin 1) (FFin (1 / 8)) = FFin (7 / 8)" by code_simp
lemma demo_level: "float_lt (FFin (1 / 2)) (FFin (3 / 4)) \<and> float_lt (FFin (3 / 4)) (FFin 1)" by code_simp
lemma demo_mean: "fmean [FFin 1] = Inr (FFin 1)" by code_simp

lemma demo_places: "float_floor (FFin (of_nat n)) = Inr (int n)" "float_ceil (FFin (of_nat n)) = Inr (int n)"
  by (simp_all add: float_floor_def float_ceil_def)

lemma percentile_whole:
  assumes "float_of_int (int (length xs) - 1) = Inr l" "float_mul p l = FFin (of_nat n)" "n < length xs" "length xs \<noteq> 1"
  shows "percentile xs p = Inr (xs ! n)"
  using assms by (simp add: percentile_def demo_places at_index_def)

lemma demo_percentile:
  assumes "length xs = 105"
  shows "percentile xs (FFin (1 / 8)) = Inr (xs ! 13)" "percentile xs (FFin (7 / 8)) = Inr (xs ! 91)"
  using demo_index demo_below_index demo_above_index percentile_whole [of xs "FFin 104" _ 13] percentile_whole [of xs "FFin 104" _ 91]
  by (simp_all add: assms)

lemma demo_interval: obtains v where "bootstrap_interval seeded randbelow samples 105 (FFin (3 / 4)) seed = Inr v"
proof -
  have "length (sort_floats (bootstrap_estimates randbelow samples (nat 105) (seeded seed))) = 105" by (simp add: length_estimates)
  then have "bootstrap_interval seeded randbelow samples 105 (FFin (3 / 4)) seed \<in> range Inr"
    unfolding bootstrap_interval_def Let_def demo_tail_mass demo_complement using demo_level
    by (simp add: demo_percentile checked_def guard_def)
  then show thesis using that by blast
qed

lemma demo_duration:
  assumes "xs = [FFin 1] \<or> xs = []"
  obtains v where "duration_statistics seeded randbelow xs 105 (FFin (3 / 4)) seed = Inr v"
proof (rule demo_interval [of seeded randbelow xs seed])
  fix interval assume "bootstrap_interval seeded randbelow xs 105 (FFin (3 / 4)) seed = Inr interval"
  with assms that show thesis by (auto simp: duration_statistics_def demo_mean)
qed


lemma dget_item: "dget t k = v \<Longrightarrow> v \<noteq> PNone \<Longrightarrow> item t k = Inr v"
  by (auto simp: dget_def item_def split: option.splits)

lemma demo_seed:
  assumes "list_ex (\<lambda>ls. labels = ls) [[''all-attempt-duration''], [''wrapper'', ''v'', ''a'', ''b'']]"
  obtains n where "derived_seed 7 labels = Inr n"
proof -
  have "list_all (\<lambda>ls. case rig_canonical_json_bytes (PDict [(''seed'', PInt 7), (''labels'', PList (map PStr ls))]) of
      Inl e \<Rightarrow> False | Inr b \<Rightarrow> True) [[''all-attempt-duration''], [''wrapper'', ''v'', ''a'', ''b'']]" by code_simp
  with assms have "derived_seed 7 labels \<in> range Inr" by (auto simp: derived_seed_def split: sum.splits)
  then show thesis using that by blast
qed

lemma demo_distribution:
  assumes "dget t ''status'' = PStr ''success''" "dget t ''wallMs'' = PFloat (FFin 1)" "trial_success_eligible t = Inr True"
  obtains dist where "trial_distribution seeded randbelow [t] 105 (FFin (3 / 4)) 7 = Inr dist"
proof -
  obtain n where n: "derived_seed 7 [''all-attempt-duration''] = Inr n" by (rule demo_seed) auto
  have items: "item t ''status'' = Inr (PStr ''success'')" "item t ''wallMs'' = Inr (PFloat (FFin 1))"
    using assms(1, 2) by (simp_all add: dget_item)
  obtain v w where "duration_statistics seeded randbelow [FFin 1] 105 (FFin (3 / 4)) 7 = Inr v"
    "duration_statistics seeded randbelow [FFin 1] 105 (FFin (3 / 4)) (int n) = Inr w" by (meson demo_duration)
  then have "trial_distribution seeded randbelow [t] 105 (FFin (3 / 4)) 7 \<in> range Inr"
    using assms items n by (simp add: trial_distribution_def wall_of_def Let_def)
  then show thesis using that by blast
qed

theorem distribution_accounts_for_trials_witness:
  "\<exists>t dist. trial_distribution (\<lambda>seed. ()) (\<lambda>n r. (0, r)) [t] 105 (FFin (3 / 4)) 7 = Inr dist \<and> count_in dist ''planned'' = 1 \<and>
    count_in (dict_of (dget dist ''successLatencyMs'')) ''samples'' = 1 \<and>
    count_in (dict_of (dget dist ''successLatencyEligibility'')) ''excluded'' =
      reason_total (dget (dict_of (dget dist ''successLatencyEligibility'')) ''exclusionReasons'')"
proof (rule demo_counted)
  fix s t
  assume run: "run_trials (\<lambda>s. s) (demo_env ''subprocess'') (demo_driver settled_observation) [demo_plan 0 ''a''] initial_run () = (Inr s, ())"
    and t: "t \<in> set (rs_trials s)" "dget t ''status'' = PStr ''success''" "dget t ''wallMs'' = PFloat (FFin 1)"
  have boundary: "re_boundary (demo_env ''subprocess'') \<in> {''subprocess'', ''synthetic-in-process''}" by (simp add: demo_env_def)
  have "list_all recorded (rs_trials s)" by (rule run_recorded [OF run same_words boundary])
  with t have "trial_success_eligible t = Inr True" by (simp add: list_all_iff recorded_def trial_has_status_def)
  with t(2, 3) obtain dist where dist: "trial_distribution (\<lambda>seed. ()) (\<lambda>n r. (0, r)) [t] 105 (FFin (3 / 4)) 7 = Inr dist"
    by (rule demo_distribution)
  from t(1) have "set [t] \<subseteq> set (rs_trials s)" by simp
  from distribution_accounts_for_trials [OF run this same_words boundary dist] dist t(2) show ?thesis
    by (intro exI [of _ t] exI [of _ dist]) (simp add: trial_has_status_def)
qed

definition demo_pairs :: "pydict list" where
  "demo_pairs =
     [(''pair_id'', PStr ''p'') # (''target_id'', PStr ''b'') # demo_trial,
      [(''pair_id'', PStr ''p''), (''target_id'', PStr ''a''), (''status'', PStr ''timeout''), (''wallMs'', PFloat (FFin 2))],
      (''pair_id'', PStr ''q'') # (''target_id'', PStr ''b'') # demo_trial]"

definition demo_by_pair :: "(string \<times> pair_members) list" where
  "demo_by_pair = [(''p'', [(''b'', demo_pairs ! 0), (''a'', demo_pairs ! 1)]), (''q'', [(''b'', demo_pairs ! 2)])]"

definition demo_tally :: pair_tally where
  "demo_tally = \<lparr>pt_retained = 1, pt_reasons = [(''left-not-success'', 1)], pt_differences = []\<rparr>"

lemma demo_tallied: "tally_pairs ''a'' ''b'' (map snd demo_by_pair) empty_tally = Inr demo_tally"
  by code_simp

lemma demo_compared: obtains c where "paired_comparisons (\<lambda>seed. ()) (\<lambda>n r. (0, r)) demo_pairs 105 (FFin (3 / 4)) 7 ''wrapper'' ''v'' = Inr [c]"
  "count_in c ''plannedPairs'' = 1" "dget c ''left'' = PStr ''a''"
proof -
  have names: "traverse_res (\<lambda>t. text_item t ''target_id'') demo_pairs = Inr [''b'', ''a'', ''b'']"
    and pairs: "collect_pairs demo_pairs [] = Inr demo_by_pair" and sorted: "combinations (sorted_names [''b'', ''a'', ''b'']) = [(''a'', ''b'')]"
    by (simp_all add: demo_pairs_def demo_by_pair_def text_item_def item_def set_inner_def sorted_names_def)
  obtain n where n: "derived_seed 7 [''wrapper'', ''v'', ''a'', ''b''] = Inr n"
    by (rule demo_seed [of "[''wrapper'', ''v'', ''a'', ''b'']"]) auto
  have "\<exists>c. comparison (\<lambda>seed. ()) (\<lambda>n r. (0, r)) 105 (FFin (3 / 4)) 7 ''wrapper'' ''v'' (map snd demo_by_pair) (''a'', ''b'') = Inr c \<and>
      count_in c ''plannedPairs'' = 1 \<and> dget c ''left'' = PStr ''a''"
    by (simp add: comparison_def demo_tallied n demo_tally_def bootstrap_interval_def Let_def count_in_def count_value_def)
  then show thesis using that by (auto simp: paired_comparisons_def names pairs sorted)
qed

theorem comparisons_account_for_pairs_witness:
  "\<exists>c. paired_comparisons (\<lambda>seed. ()) (\<lambda>n r. (0, r)) demo_pairs 105 (FFin (3 / 4)) 7 ''wrapper'' ''v'' = Inr [c] \<and>
    count_in c ''plannedPairs'' = 1 \<and> dget c ''left'' = PStr ''a'' \<and>
    count_in c ''plannedPairs'' = count_in c ''eligibleSuccessPairs'' + count_in c ''excludedPairs'' \<and>
    count_in c ''excludedPairs'' = reason_total (dget c ''exclusionReasons'')"
proof (rule demo_compared)
  fix c
  assume c: "paired_comparisons (\<lambda>seed. ()) (\<lambda>n r. (0, r)) demo_pairs 105 (FFin (3 / 4)) 7 ''wrapper'' ''v'' = Inr [c]"
    "count_in c ''plannedPairs'' = 1" "dget c ''left'' = PStr ''a''"
  from comparisons_account_for_pairs [OF c(1)]
  have "count_in c ''plannedPairs'' = count_in c ''eligibleSuccessPairs'' + count_in c ''excludedPairs'' \<and>
      count_in c ''excludedPairs'' = reason_total (dget c ''exclusionReasons'')" by (auto simp: list_all2_Cons2)
  with c show ?thesis by blast
qed

end
