(* ===== verification/Spec2Isabelle.thy ===== *)
theory Spec2Isabelle
  imports Hosted_Claims Image_Claims Promotion_Claims Weave_Claims Resolver_Claims
    Bridge_Claims Lineage_Claims Rig_Claims
begin

text \<open>
  A verification library for the Python side of the OpenProse CLI lab. Paths below are relative to the source
  directory of the repository.

  \<^bold>\<open>The program.\<close> The repository holds two command line tools (Rust and TypeScript) and, in Python, what tests,
  measures and releases them, and an experimental core. Eight parts of the Python code carry logic of their own and
  are modelled here:

  \<^item> the scripted hosted service that the tools are tested against, \<^verbatim>\<open>cli/conformance/fake-hosted-service\<close>: the wire
    protocol (\<^verbatim>\<open>protocol.py\<close>), the service (\<^verbatim>\<open>fake_hosted_service.py\<close>), which executes runs, delivers their output under
    flow control and asks its client for capabilities, and the local bridge that answers such requests with files and
    processes of the client's machine (\<^verbatim>\<open>capability_bridge.py\<close>);
  \<^item> the bundle of language images embedded in both tools, \<^verbatim>\<open>cli/shared/image/bundle/image_bundle.py\<close>;
  \<^item> the promotion of a draft release to the public registry, \<^verbatim>\<open>cli/ci/promote_alpha_release.py\<close>, with the draft
    authority of \<^verbatim>\<open>cli/ci/create_draft_release.py\<close>;
  \<^item> the pinned registry lineage every release has to succeed, \<^verbatim>\<open>cli/ci/check_registry_lineage.py\<close>, which the promotion
    reads as well;
  \<^item> the oracle for launch profiles on Windows,
    \<^verbatim>\<open>cli/conformance/cases/adapters/windows-resolution/resolver_model.py\<close>;
  \<^item> the benchmark rig, \<^verbatim>\<open>cli/benchmarks/runner/rig.py\<close>;
  \<^item> the experimental weave core, \<^verbatim>\<open>experiments/weave\<close> (\<^verbatim>\<open>engine.py\<close>, \<^verbatim>\<open>store.py\<close>, \<^verbatim>\<open>evidence.py\<close>).

  \<^bold>\<open>How code is modelled.\<close> A function that returns or raises is a function into \<open>'a res\<close>, the sum of \<open>exn\<close> and
  the result; a validator, which returns nothing, is a \<open>check\<close>, and its body the list of its guards in the order of
  the code (\<open>first_failure\<close>). A class is a record, a method a function from the record to the record. Values that come
  out of JSON stay dynamically typed (\<open>pyval\<close>, with Python's equality and truth), and text is the bytes of its UTF-8
  encoding. Code whose order of effects matters is written in the state monad of \<^verbatim>\<open>Py_Effect\<close>, which keeps what was
  done before an exception. What the code cannot decide (the operating system, the network, other processes, clocks) is
  an argument: a record of answers, a list of events or a function of the moment of the call, so that a theorem holds
  for every behaviour of the outside, faults and interleavings included.

  \<^bold>\<open>The library.\<close> \<^verbatim>\<open>Prose_Prelude\<close>: exceptions, results, check lists, dictionaries as association lists.
  \<^verbatim>\<open>Prose_Traverse\<close>: traversals under permutation. \<^verbatim>\<open>Py_Value\<close>: dynamic values, UTF-8, decimal text. \<^verbatim>\<open>Py_Codec\<close>,
  \<^verbatim>\<open>Py_Digest\<close>, \<^verbatim>\<open>Py_Base64\<close>: big-endian integers, SHA-256, SHA-1, SHA-512, base64, all executable. \<^verbatim>\<open>Py_Json\<close>: the
  writer and the reader of the \<open>json\<close> module with binary64 numbers; \<^verbatim>\<open>Py_Json_Round\<close>, \<^verbatim>\<open>Py_Json_Ascii\<close>,
  \<^verbatim>\<open>Py_Json_Length\<close>, \<^verbatim>\<open>Py_Encodable\<close>: that reading undoes writing, the length of what is written, and when it can be
  encoded. \<^verbatim>\<open>Py_Float\<close>: arithmetic of floats. \<^verbatim>\<open>Py_Order\<close>: the order of strings. \<^verbatim>\<open>Py_Text\<close>: operations on text. \<^verbatim>\<open>Py_Effect\<close>: computations with effects
  and the Hoare logic for them. Fuel occurs in the JSON reader, twice the length of the text and one more: the reader
  consumes at least one byte every two calls, and the round trip shows that it is enough for all written text. The
  length of the text is the fuel of counting tokens in \<^verbatim>\<open>Resolver_Profile\<close>, and 17 digits, which decide every
  binary64 number, that of printing floats.

  \<^bold>\<open>Hosted service.\<close> \<^verbatim>\<open>Hosted_Protocol\<close> (frames, validation of every client record, the idempotency fingerprint),
  \<^verbatim>\<open>Hosted_Service\<close> (runs, the idempotency table, every operation of \<open>FakeHostedService\<close>), \<^verbatim>\<open>Hosted_Flow\<close> (the
  locale of relations all operations of a run keep, flow limits), \<^verbatim>\<open>Hosted_Reach\<close> (the state machine of the service and
  the invariant of its reachable states), \<^verbatim>\<open>Hosted_Claims\<close> (delivery in order and within limits, finality of a settled
  run, retries that execute nothing, progress when credit arrives, which of two racing outcomes wins).

  \<^bold>\<open>Capability bridge.\<close> \<^verbatim>\<open>Bridge_Files\<close> (a file tree with links and devices, system calls that fail, read less or write
  less), \<^verbatim>\<open>Bridge_Process\<close> (two reader threads that share a budget, as an interleaving of their turns with the closing of
  their streams), \<^verbatim>\<open>Bridge_Service\<close> (construction, requests, counters, and processes that may change the tree as they
  like), \<^verbatim>\<open>Bridge_Confine\<close> (what a request can reach), \<^verbatim>\<open>Bridge_Answers\<close> (answers as records of \<^verbatim>\<open>Hosted_Protocol\<close>),
  \<^verbatim>\<open>Bridge_Claims\<close> (each request stays in its grant but for what a process does, a result of a process is what was read of
  it and when that is all, what a written file reads back as, counters agree with answers, and exactly which answers the
  service accepts).

  \<^bold>\<open>Images.\<close> \<^verbatim>\<open>Image_Manifest\<close> (closed validation), \<^verbatim>\<open>Image_Bundle\<close> (contents, encoder, reader, parser), \<^verbatim>\<open>Image_Codec\<close>
  (the locale of a field reader, and that encoding and parsing are inverse), \<^verbatim>\<open>Image_Files\<close> (bounded reads as a trace of
  system calls, loading, drift, atomic writes), \<^verbatim>\<open>Image_Demo\<close> (a concrete image), \<^verbatim>\<open>Image_Claims\<close> (round trip,
  canonicity, refusal of truncated and extended bundles, and that accepted paths, resolved below a directory, stay in their
  two subdirectories and apart).

  \<^bold>\<open>Promotion.\<close> The model: \<^verbatim>\<open>Promotion_Base\<close> (constants, patterns, records, readers), \<^verbatim>\<open>Promotion_Evidence\<close> (the draft
  authority and the attestation evidence), \<^verbatim>\<open>Promotion_Settlement\<close> (\<open>validate_settlement\<close>), \<^verbatim>\<open>Promotion_Live\<close> (the live
  settlement), \<^verbatim>\<open>Promotion_Transition\<close> (the four operations and \<open>execute_transition\<close>), \<^verbatim>\<open>Promotion_Candidate\<close>,
  \<^verbatim>\<open>Promotion_Registry\<close>, \<^verbatim>\<open>Promotion_Handoff\<close>, \<^verbatim>\<open>Promotion_Store\<close> (candidate assembly, the registry as it is read, the
  command line and the two atomic writers). The proofs: \<^verbatim>\<open>Promotion_Valid\<close>, \<^verbatim>\<open>Promotion_Shapes\<close> (which live settlements
  the validator accepts), \<^verbatim>\<open>Promotion_Logic\<close>, \<^verbatim>\<open>Promotion_Run\<close>, \<^verbatim>\<open>Promotion_Steps\<close>, \<^verbatim>\<open>Promotion_Operations\<close>,
  \<^verbatim>\<open>Promotion_Outcome\<close> (each step and operation as a Hoare triple, up to the whole run), \<^verbatim>\<open>Promotion_Ahead\<close> (settlements
  are stored before what they announce), \<^verbatim>\<open>Promotion_Progress\<close> (runs that complete), \<^verbatim>\<open>Promotion_Reading\<close>,
  \<^verbatim>\<open>Promotion_History\<close> (stored settlements read back, and never forget), \<^verbatim>\<open>Promotion_Decimal\<close>, \<^verbatim>\<open>Promotion_Demo\<close>,
  \<^verbatim>\<open>Promotion_Claims\<close>. \<^verbatim>\<open>Lineage_Authority\<close> and \<^verbatim>\<open>Lineage_Claims\<close> add the registry lineage: its admission report and the
  reader of the promotion decide alike, and admit successors only.

  \<^bold>\<open>Windows launches.\<close> \<^verbatim>\<open>Resolver_Profile\<close> (strict JSON and the closed profile), \<^verbatim>\<open>Resolver_Files\<close> (roots, links,
  bounded reads, formats, \<open>resolve_profile\<close>), \<^verbatim>\<open>Resolver_Claims\<close> (a resolved launch is authentic, the bounded read
  ends).

  \<^bold>\<open>Benchmark rig.\<close> \<^verbatim>\<open>Rig_Process\<close> (captures, reader threads, evidence, ending a process group, \<open>CommandDriver\<close>),
  \<^verbatim>\<open>Rig_Validation\<close> (the checks on evidence and metadata), \<^verbatim>\<open>Rig_Driver\<close> (what the driver reports), \<^verbatim>\<open>Rig_Schedule\<close>
  (\<open>build_schedule\<close> with Python's shuffle), \<^verbatim>\<open>Rig_Redaction\<close>, \<^verbatim>\<open>Rig_Trials\<close> (mechanical validation and
  \<open>run_benchmark\<close>), \<^verbatim>\<open>Rig_Run\<close> (the invariant of the loop, redacted evidence, the locale of accountable drivers, which
  the command driver interprets), \<^verbatim>\<open>Rig_Statistics\<close>, \<^verbatim>\<open>Rig_Summary\<close>, \<^verbatim>\<open>Rig_Scorecards\<close> (\<open>summarize\<close>, with
  medians, percentiles and bootstrap intervals of floats), \<^verbatim>\<open>Rig_Accounts\<close> (no trial and no pair is left out of a summary
  unsaid), \<^verbatim>\<open>Rig_Claims\<close>.

  \<^bold>\<open>Weave core.\<close> \<^verbatim>\<open>Weave_Engine\<close> (\<open>reconcile\<close>, \<open>settle_pending\<close>), \<^verbatim>\<open>Weave_Store\<close> (the checkpoint host on a disk where
  every system call can fail), \<^verbatim>\<open>Weave_Ledger\<close> (the abstract ledger, its labelled operations, and the host as a step by
  step refinement of it), \<^verbatim>\<open>Weave_Evidence\<close>, \<^verbatim>\<open>Weave_Claims\<close>.

  \<^bold>\<open>Bounds.\<close> Numeric limits are those of the code (frame and file sizes, byte budgets, numbers of packages, attempts
  and trials). Where the code relies on Python's unbounded integers the model does; bytes of lengths and digests wrap
  as \<open>struct\<close> and \<open>hashlib\<close> make them.

  \<^bold>\<open>Not modelled.\<close>

  \<^item> Limits of the interpreter: the recursion limit, the limit of 4300 digits on integers in text, memory.
  \<^item> Regular expressions are decided by executable definitions where they are simple; the engine is an argument where
    a profile supplies the pattern (\<^verbatim>\<open>Resolver_Profile\<close>) and for the three substitutions of redacted text
    (\<^verbatim>\<open>Rig_Redaction\<close>). The Unicode tables behind normalisation and the Mersenne Twister behind shuffle and bootstrap are arguments.
  \<^item> Writing and reading floats is modelled and executable, but the round trip is proved for values without floats.
  \<^item> Two hosts of one weave checkpoint exclude each other by a lock, so their operations are one sequence. Others
    change the tree of the bridge before a request comes and while a process it started runs, in any way, but not in the
    middle of a read or a write of the bridge.
  \<^item> Runs of the bridge that do not return: closing the stream of a process waits for a read in progress, and a descendant
    of the process can keep that read waiting.
  \<^item> Argument parsers, printing and \<open>main\<close> functions; the wrappers of the promotion around sockets, processes and
    archives, whose answers are arguments of the transition.
  \<^item> The other scripts of the repository: packaging and its inspection of archives and executables, policy checks on
    workflows and documents, conformance and live runners, installed benchmarks. They drive tools, networks and archive
    libraries, and what they decide depends on code that is not in the repository.
  \<^item> The command line tools and the process host, which are written in Rust and TypeScript.
\<close>

end
